(* ===== verification/Dss_Prelude.thy ===== *)
theory Dss_Prelude
  imports Complex_Main "HOL-Library.Word" "HOL-Library.AList" "HOL-Library.Multiset"
begin

text \<open>
  What every component of the DSS model shares: the error values of
  \<^verbatim>\<open>pkg/errors\<close> and \<^verbatim>\<open>pkg/geo/errors.go\<close>, the transaction monad in which the
  handlers' actions run, instants and durations as Go's package \<^verbatim>\<open>time\<close> has them, and the
  interface of a database table with its lookup laws.
\<close>

section \<open>Errors\<close>

text \<open>The codes of \<^verbatim>\<open>pkg/errors/errors.go\<close>.\<close>

datatype ecode =
    AreaTooLarge | MissingOVNs | MissingVertiportOVNs | AlreadyExists | BadRequest
  | VersionMismatch | NotFound | PermissionDenied | Exhausted | Unauthenticated

text \<open>The sentinel errors of \<^verbatim>\<open>pkg/geo/errors.go\<close>; the code compares them by identity.\<close>

datatype geo_err =
    ErrMissingSpatialVolume | ErrMissingFootprint | ErrNotEnoughPointsInPolygon
  | ErrBadCoordSet | ErrRadiusMustBeLargerThan0 | ErrAreaTooLarge
  | ErrOddNumberOfCoordinatesInAreaString

fun geo_err_code :: "geo_err \<Rightarrow> ecode" where
  "geo_err_code ErrAreaTooLarge = AreaTooLarge"
| "geo_err_code _ = BadRequest"

text \<open>
  An error value, built the way the code builds it: a fresh error with or without a code, a
  sentinel, an error of a library or of the database, a gRPC status with a detail of type
  \<open>'d\<close>, or one of these wrapped by \<^verbatim>\<open>stacktrace.Propagate\<close> or
  \<^verbatim>\<open>stacktrace.PropagateWithCode\<close>. Wrapping is kept because the code compares some errors
  by identity. \<open>Panic\<close> is a Go run-time panic (a nil dereference). Message texts are left
  out, but for database errors, whose text one handler inspects.
\<close>

datatype 'd err =
    Panic
  | ErrNoRows
  | DbErr string
  | ExtErr
  | GeoErr geo_err
  | StatusErr 'd
  | NewError "ecode option"
  | Propagate "'d err"
  | PropagateWithCode ecode "'d err"

text \<open>
  The code an error carries when it reaches the caller: a code given by
  \<^verbatim>\<open>PropagateWithCode\<close> overrides the one below it, \<^verbatim>\<open>Propagate\<close> keeps it
  (\<^verbatim>\<open>pkg/errors/doc.go\<close>).
\<close>

fun err_code :: "'d err \<Rightarrow> ecode option" where
  "err_code (NewError c) = c"
| "err_code (GeoErr g) = Some (geo_err_code g)"
| "err_code (Propagate e) = err_code e"
| "err_code (PropagateWithCode c e) = Some c"
| "err_code _ = None"

abbreviation coded :: "ecode \<Rightarrow> 'd err" where
  "coded c \<equiv> NewError (Some c)"

section \<open>Transactions\<close>

text \<open>
  The function handed to \<^verbatim>\<open>Store.Transact\<close>: it reads and writes the store and returns
  either a value or an error. An error ends the action, and the transaction is rolled back, so
  the error carries no store.
\<close>

type_synonym ('d, 's, 'a) tx = "'s \<Rightarrow> 'd err + ('a \<times> 's)"

definition ret :: "'a \<Rightarrow> ('d, 's, 'a) tx" where
  "ret a = (\<lambda>s. Inr (a, s))"

definition fail :: "'d err \<Rightarrow> ('d, 's, 'a) tx" where
  "fail e = (\<lambda>s. Inl e)"

definition bnd :: "('d, 's, 'a) tx \<Rightarrow> ('a \<Rightarrow> ('d, 's, 'b) tx) \<Rightarrow> ('d, 's, 'b) tx" where
  "bnd m f = (\<lambda>s. case m s of Inl e \<Rightarrow> Inl e | Inr (a, s') \<Rightarrow> f a s')"

definition seq :: "('d, 's, unit) tx \<Rightarrow> ('d, 's, 'b) tx \<Rightarrow> ('d, 's, 'b) tx" where
  "seq m n = bnd m (\<lambda>_. n)"

definition gets :: "('s \<Rightarrow> 'a) \<Rightarrow> ('d, 's, 'a) tx" where
  "gets f = (\<lambda>s. Inr (f s, s))"

definition modify :: "('s \<Rightarrow> 's) \<Rightarrow> ('d, 's, unit) tx" where
  "modify f = (\<lambda>s. Inr ((), f s))"

text \<open>\<open>check b e\<close>: continue when \<open>b\<close> holds, return the error \<open>e\<close> otherwise.\<close>

definition check :: "bool \<Rightarrow> 'd err \<Rightarrow> ('d, 's, unit) tx" where
  "check b e = (if b then ret () else fail e)"

text \<open>\<open>wrap f m\<close> passes the error of \<open>m\<close> through \<open>f\<close>, as in
  \<^verbatim>\<open>if err != nil { return stacktrace.Propagate(err, ...) }\<close>.\<close>

text \<open>A panic is not an error value: it unwinds the code that would wrap or inspect one.\<close>

definition rewrap :: "('d err \<Rightarrow> 'd err) \<Rightarrow> 'd err \<Rightarrow> 'd err" where
  "rewrap f e = (case e of Panic \<Rightarrow> Panic | _ \<Rightarrow> f e)"

definition wrap :: "('d err \<Rightarrow> 'd err) \<Rightarrow> ('d, 's, 'a) tx \<Rightarrow> ('d, 's, 'a) tx" where
  "wrap f m = (\<lambda>s. case m s of Inl e \<Rightarrow> Inl (rewrap f e) | Inr r \<Rightarrow> Inr r)"

text \<open>\<open>attempt m\<close> hands the error of a read to the code that inspects it.\<close>

definition attempt :: "('d, 's, 'a) tx \<Rightarrow> ('d, 's, 'd err + 'a) tx" where
  "attempt m = (\<lambda>s. case m s of
     Inl Panic \<Rightarrow> Inl Panic | Inl e \<Rightarrow> Inr (Inl e, s) | Inr (a, s') \<Rightarrow> Inr (Inr a, s'))"

definition of_sum :: "'d err + 'a \<Rightarrow> ('d, 's, 'a) tx" where
  "of_sum r = (case r of Inl e \<Rightarrow> fail e | Inr a \<Rightarrow> ret a)"

text \<open>A pointer that the code dereferences without a check.\<close>

definition deref :: "'a option \<Rightarrow> ('d, 's, 'a) tx" where
  "deref p = (case p of None \<Rightarrow> fail Panic | Some a \<Rightarrow> ret a)"

text \<open>A loop over a slice whose body may fail, collecting the results.\<close>

fun tx_map :: "('a \<Rightarrow> ('d, 's, 'b) tx) \<Rightarrow> 'a list \<Rightarrow> ('d, 's, 'b list) tx" where
  "tx_map f [] = ret []"
| "tx_map f (x # xs) = bnd (f x) (\<lambda>y. bnd (tx_map f xs) (\<lambda>ys. ret (y # ys)))"

text \<open>
  \<^verbatim>\<open>Store.Transact\<close>: the action runs on the store and is committed when it returns no
  error; otherwise the store is what it was. (CockroachDB may ask for the action to be run
  again; the model is one run.)
\<close>

definition transact :: "('d, 's, 'a) tx \<Rightarrow> 's \<Rightarrow> ('d err + 'a) \<times> 's" where
  "transact m s = (case m s of Inl e \<Rightarrow> (Inl e, s) | Inr (a, s') \<Rightarrow> (Inr a, s'))"

text \<open>A statement that touches one part of the store, such as one table.\<close>

definition on_part :: "('s \<Rightarrow> 't) \<Rightarrow> ('t \<Rightarrow> 's \<Rightarrow> 's) \<Rightarrow> ('d, 't, 'a) tx \<Rightarrow> ('d, 's, 'a) tx" where
  "on_part part put m = (\<lambda>s. case m (part s) of Inl e \<Rightarrow> Inl e | Inr (a, t) \<Rightarrow> Inr (a, put t s))"

text \<open>Validation before the transaction: the same sequencing without a store.\<close>

definition sbind :: "'e + 'a \<Rightarrow> ('a \<Rightarrow> 'e + 'b) \<Rightarrow> 'e + 'b" where
  "sbind r f = (case r of Inl e \<Rightarrow> Inl e | Inr a \<Rightarrow> f a)"

definition swrap :: "('d err \<Rightarrow> 'd err) \<Rightarrow> 'd err + 'a \<Rightarrow> 'd err + 'a" where
  "swrap f r = (case r of Inl e \<Rightarrow> Inl (rewrap f e) | Inr a \<Rightarrow> Inr a)"

definition scheck :: "bool \<Rightarrow> 'e \<Rightarrow> 'e + unit" where
  "scheck b e = (if b then Inr () else Inl e)"

text \<open>An error whose text is replaced: only that there was one matters.\<close>

definition srecode :: "ecode \<Rightarrow> 'd err + 'a \<Rightarrow> 'd err + 'a" where
  "srecode c r = swrap (\<lambda>_. coded c) r"

text \<open>A nil pointer in a validation step.\<close>

definition sderef :: "'a option \<Rightarrow> 'd err + 'a" where
  "sderef p = (case p of None \<Rightarrow> Inl Panic | Some a \<Rightarrow> Inr a)"

fun smap :: "('a \<Rightarrow> 'e + 'b) \<Rightarrow> 'a list \<Rightarrow> 'e + 'b list" where
  "smap f [] = Inr []"
| "smap f (x # xs) = sbind (f x) (\<lambda>y. sbind (smap f xs) (\<lambda>ys. Inr (y # ys)))"

named_theorems tx_defs
lemmas tx_monad_defs [tx_defs] =
  ret_def fail_def bnd_def seq_def gets_def modify_def check_def wrap_def attempt_def
  of_sum_def deref_def transact_def sbind_def swrap_def rewrap_def scheck_def srecode_def sderef_def

subsection \<open>Inversion of a successful run\<close>

text \<open>
  A successful run of a composite action is taken apart step by step; the rules below are
  the elimination rules of the handlers' proofs, and the equivalences rewrite a successful
  run into the conjunction of what each step did.
\<close>

named_theorems tx_inv

lemma ret_Inr [tx_inv]: "ret a s = Inr (b, s') \<longleftrightarrow> b = a \<and> s' = s"
  by (auto simp: ret_def)

lemma fail_Inr [tx_inv]: "fail e s = Inr r \<longleftrightarrow> False"
  by (simp add: fail_def)

lemma bnd_Inr [tx_inv]:
  "bnd m f s = Inr (b, s'') \<longleftrightarrow> (\<exists>a s'. m s = Inr (a, s') \<and> f a s' = Inr (b, s''))"
  by (auto simp: bnd_def split: sum.splits)

lemma seq_Inr [tx_inv]:
  "seq m n s = Inr (b, s'') \<longleftrightarrow> (\<exists>s'. m s = Inr ((), s') \<and> n s' = Inr (b, s''))"
  by (simp add: seq_def bnd_Inr)

lemma gets_Inr [tx_inv]: "gets f s = Inr (b, s') \<longleftrightarrow> b = f s \<and> s' = s"
  by (auto simp: gets_def)

lemma modify_Inr [tx_inv]: "modify f s = Inr (u, s') \<longleftrightarrow> s' = f s"
  by (auto simp: modify_def)

lemma check_Inr [tx_inv]: "check b e s = Inr (u, s') \<longleftrightarrow> b \<and> s' = s"
  by (auto simp: check_def ret_def fail_def)

lemma wrap_Inr [tx_inv]: "wrap f m s = Inr r \<longleftrightarrow> m s = Inr r"
  by (auto simp: wrap_def split: sum.splits)

lemma attempt_Inr_Inr [tx_inv]:
  "attempt m s = Inr (Inr a, s') \<longleftrightarrow> m s = Inr (a, s')"
  by (auto simp: attempt_def split: sum.splits err.splits)

lemma attempt_Inr_Inl [tx_inv]:
  "attempt m s = Inr (Inl e, s') \<longleftrightarrow> m s = Inl e \<and> e \<noteq> Panic \<and> s' = s"
  by (auto simp: attempt_def split: sum.splits err.splits)

lemma of_sum_Inr [tx_inv]: "of_sum r s = Inr (a, s') \<longleftrightarrow> r = Inr a \<and> s' = s"
  by (auto simp: of_sum_def ret_def fail_def split: sum.splits)

lemma deref_Inr [tx_inv]: "deref p s = Inr (a, s') \<longleftrightarrow> p = Some a \<and> s' = s"
  by (auto simp: deref_def ret_def fail_def split: option.splits)

lemma sbind_Inr [tx_inv]: "sbind r f = Inr b \<longleftrightarrow> (\<exists>a. r = Inr a \<and> f a = Inr b)"
  by (auto simp: sbind_def split: sum.splits)

lemma swrap_Inr [tx_inv]: "swrap f r = Inr a \<longleftrightarrow> r = Inr a"
  by (auto simp: swrap_def split: sum.splits)

lemma scheck_Inr [tx_inv]: "scheck b e = Inr u \<longleftrightarrow> b"
  by (simp add: scheck_def)

lemma srecode_Inr [tx_inv]: "srecode c r = Inr a \<longleftrightarrow> r = Inr a"
  by (simp add: srecode_def swrap_Inr)

lemma sderef_Inr [tx_inv]: "sderef p = Inr a \<longleftrightarrow> p = Some a"
  by (auto simp: sderef_def split: option.splits)

lemma if_Inr [tx_inv]:
  "(if b then Inl e else r) = Inr a \<longleftrightarrow> \<not> b \<and> r = Inr a"
  "(if b then r else Inl e) = Inr a \<longleftrightarrow> b \<and> r = Inr a"
  by auto

lemma case_option_Inr [tx_inv]:
  "(case p of None \<Rightarrow> Inl e | Some a \<Rightarrow> g a) = Inr b \<longleftrightarrow> (\<exists>a. p = Some a \<and> g a = Inr b)"
  "(case p of None \<Rightarrow> fail e | Some a \<Rightarrow> f a) s = Inr r \<longleftrightarrow> (\<exists>a. p = Some a \<and> f a s = Inr r)"
  by (auto simp: fail_def split: option.splits)

lemma on_part_Inr [tx_inv]:
  "on_part part put m s = Inr (a, s') \<longleftrightarrow> (\<exists>t. m (part s) = Inr (a, t) \<and> s' = put t s)"
  by (auto simp: on_part_def split: sum.splits)

lemma transact_Inr: "transact m s = (Inr a, s') \<longleftrightarrow> m s = Inr (a, s')"
  by (auto simp: transact_def split: sum.splits)

lemma transact_Inl: "transact m s = (Inl e, s') \<longleftrightarrow> m s = Inl e \<and> s' = s"
  by (auto simp: transact_def split: sum.splits)

lemma smap_Inr: "smap f xs = Inr ys \<longleftrightarrow> list_all2 (\<lambda>x y. f x = Inr y) xs ys"
  by (induction xs arbitrary: ys) (auto simp: tx_inv list_all2_Cons1)

lemma length_smap: "smap f xs = Inr ys \<Longrightarrow> length ys = length xs"
  by (induction xs arbitrary: ys) (auto simp: tx_inv)

subsection \<open>Reads and preserved invariants\<close>

text \<open>\<open>pure_tx m\<close>: the action does not write. \<open>keeps I m\<close>: it preserves \<open>I\<close> when it succeeds.\<close>

definition pure_tx :: "('d, 's, 'a) tx \<Rightarrow> bool" where
  "pure_tx m \<longleftrightarrow> (\<forall>s a s'. m s = Inr (a, s') \<longrightarrow> s' = s)"

definition keeps :: "('s \<Rightarrow> bool) \<Rightarrow> ('d, 's, 'a) tx \<Rightarrow> bool" where
  "keeps I m \<longleftrightarrow> (\<forall>s a s'. I s \<longrightarrow> m s = Inr (a, s') \<longrightarrow> I s')"

lemma keepsI: "(\<And>s a s'. I s \<Longrightarrow> m s = Inr (a, s') \<Longrightarrow> I s') \<Longrightarrow> keeps I m"
  by (auto simp: keeps_def)

lemma keepsD: "keeps I m \<Longrightarrow> m s = Inr (a, s') \<Longrightarrow> I s \<Longrightarrow> I s'"
  by (auto simp: keeps_def)

lemma keeps_bnd: "keeps I m \<Longrightarrow> (\<And>a. keeps I (f a)) \<Longrightarrow> keeps I (bnd m f)"
  unfolding keeps_def bnd_Inr by blast

lemma keeps_seq: "keeps I m \<Longrightarrow> keeps I n \<Longrightarrow> keeps I (seq m n)"
  by (simp add: seq_def keeps_bnd)

lemma keeps_wrap: "keeps I m \<Longrightarrow> keeps I (wrap f m)"
  by (simp add: keeps_def tx_inv)

lemma keeps_transact: "keeps I m \<Longrightarrow> I s \<Longrightarrow> I (snd (transact m s))"
  by (auto simp: keeps_def transact_def split: sum.splits)

named_theorems pure_intros

lemma pure_ret [pure_intros]: "pure_tx (ret a)" by (simp add: pure_tx_def tx_inv)
lemma pure_fail [pure_intros]: "pure_tx (fail e)" by (simp add: pure_tx_def tx_inv)
lemma pure_gets [pure_intros]: "pure_tx (gets f)" by (simp add: pure_tx_def tx_inv)
lemma pure_check [pure_intros]: "pure_tx (check b e)" by (simp add: pure_tx_def tx_inv)
lemma pure_deref [pure_intros]: "pure_tx (deref p)" by (simp add: pure_tx_def tx_inv)
lemma pure_of_sum [pure_intros]: "pure_tx (of_sum r)" by (simp add: pure_tx_def tx_inv)

lemma pure_bnd [pure_intros]: "pure_tx m \<Longrightarrow> (\<And>a. pure_tx (f a)) \<Longrightarrow> pure_tx (bnd m f)"
  by (fastforce simp: pure_tx_def tx_inv)

lemma pure_seq [pure_intros]: "pure_tx m \<Longrightarrow> pure_tx n \<Longrightarrow> pure_tx (seq m n)"
  by (fastforce simp: pure_tx_def tx_inv)

lemma pure_wrap [pure_intros]: "pure_tx m \<Longrightarrow> pure_tx (wrap f m)"
  by (auto simp: pure_tx_def tx_inv)

lemma pure_attempt [pure_intros]: "pure_tx m \<Longrightarrow> pure_tx (attempt m)"
  by (fastforce simp: pure_tx_def attempt_def split: sum.splits err.splits)

lemma pure_tx_map [pure_intros]: "(\<And>x. pure_tx (f x)) \<Longrightarrow> pure_tx (tx_map f xs)"
  by (induction xs) (auto intro: pure_intros)

lemma pure_if [pure_intros]: "pure_tx m \<Longrightarrow> pure_tx n \<Longrightarrow> pure_tx (if b then m else n)"
  by simp

lemma pure_case_option [pure_intros]:
  "pure_tx m \<Longrightarrow> (\<And>a. pure_tx (f a)) \<Longrightarrow> pure_tx (case p of None \<Rightarrow> m | Some a \<Rightarrow> f a)"
  by (cases p) auto

lemma pure_case_sum [pure_intros]:
  "(\<And>e. pure_tx (g e)) \<Longrightarrow> (\<And>a. pure_tx (f a)) \<Longrightarrow> pure_tx (case r of Inl e \<Rightarrow> g e | Inr a \<Rightarrow> f a)"
  by (cases r) auto

lemma pure_keeps: "pure_tx m \<Longrightarrow> keeps I m"
  by (auto simp: pure_tx_def keeps_def)

lemma pure_txD: "pure_tx m \<Longrightarrow> m s = Inr (a, s') \<Longrightarrow> s' = s"
  by (auto simp: pure_tx_def)

lemma tx_map_Inr:
  assumes "\<And>x. pure_tx (f x)"
  shows "tx_map f xs s = Inr (ys, s') \<longleftrightarrow> s' = s \<and> list_all2 (\<lambda>x y. f x s = Inr (y, s)) xs ys"
proof (induction xs arbitrary: ys s')
  case (Cons x xs)
  then show ?case
    using pure_txD [OF assms [of x], of s]
    by (auto simp: tx_inv list_all2_Cons1)
qed (auto simp: tx_inv)

lemma pure_transact: "pure_tx m \<Longrightarrow> snd (transact m s) = s"
  by (auto simp: pure_tx_def transact_def split: sum.splits)

section \<open>Instants and durations\<close>

text \<open>
  An instant (\<^verbatim>\<open>time.Time\<close>) is its number of microseconds since the Unix epoch, the
  resolution at which the database keeps timestamps. A \<^verbatim>\<open>time.Duration\<close> is a number of
  nanoseconds held in 64 bits; \<^verbatim>\<open>Time.Sub\<close> saturates at its bounds.
\<close>

type_synonym time = int

definition zero_time :: time where
  "zero_time = - 62135596800000000"

definition time_sub :: "time \<Rightarrow> time \<Rightarrow> int" where
  "time_sub t u = max (- 9223372036854775808) (min 9223372036854775807 ((t - u) * 1000))"

definition minutes :: "int \<Rightarrow> int" where
  "minutes n = n * 60000000000"

text \<open>\<^verbatim>\<open>Time.Add\<close> of a duration that is a whole number of microseconds.\<close>

definition time_add :: "time \<Rightarrow> int \<Rightarrow> time" where
  "time_add t d = t + d div 1000"

lemma time_sub_neg: "time_sub t u < 0 \<longleftrightarrow> t < u"
  by (auto simp: time_sub_def min_def max_def)

lemma time_sub_gt:
  "0 \<le> d \<Longrightarrow> d < 2 ^ 53 \<Longrightarrow> time_sub t u > d * 1000 \<longleftrightarrow> t - u > d"
  by (auto simp: time_sub_def min_def max_def)

lemma time_sub_minutes:
  "0 \<le> n \<Longrightarrow> n \<le> 100000 \<Longrightarrow> time_sub t u > minutes n \<longleftrightarrow> t - u > n * 60 * 10 ^ 6"
  using time_sub_gt [of "n * 60 * 10 ^ 6" t u] by (simp add: minutes_def mult.commute)

text \<open>A comparison with an absent bound holds: \<^verbatim>\<open>COALESCE(a <= b, true)\<close> in the queries.\<close>

definition le_or_null :: "'a::ord option \<Rightarrow> 'a option \<Rightarrow> bool" where
  "le_or_null a b = (case a of None \<Rightarrow> True | Some x \<Rightarrow> (case b of None \<Rightarrow> True | Some y \<Rightarrow> x \<le> y))"

lemma le_or_null_simps [simp]:
  "le_or_null None b" "le_or_null a None" "le_or_null (Some x) (Some y) \<longleftrightarrow> x \<le> y"
  by (auto simp: le_or_null_def split: option.splits)

section \<open>Database tables\<close>

text \<open>
  A table with a primary key, its rows in the order a scan returns them. The statements the
  stores issue are a read by key, an \<^verbatim>\<open>UPSERT\<close>, a \<^verbatim>\<open>DELETE\<close> by key, a
  \<^verbatim>\<open>SELECT ... WHERE ... LIMIT n\<close>, and an \<^verbatim>\<open>UPDATE ... WHERE id = ANY(...)\<close>.
\<close>

type_synonym 'r table = "(string \<times> 'r) list"

definition tbl_get :: "'r table \<Rightarrow> string \<Rightarrow> 'r option" where
  "tbl_get t k = map_of t k"

definition tbl_upsert :: "string \<Rightarrow> 'r \<Rightarrow> 'r table \<Rightarrow> 'r table" where
  "tbl_upsert k r t = AList.update k r t"

definition tbl_delete :: "string \<Rightarrow> 'r table \<Rightarrow> 'r table" where
  "tbl_delete k t = AList.delete k t"

definition tbl_delete_where :: "('r \<Rightarrow> bool) \<Rightarrow> 'r table \<Rightarrow> 'r table" where
  "tbl_delete_where p t = filter (\<lambda>kr. \<not> p (snd kr)) t"

definition tbl_select :: "('r \<Rightarrow> bool) \<Rightarrow> 'r table \<Rightarrow> (string \<times> 'r) list" where
  "tbl_select p t = filter (\<lambda>kr. p (snd kr)) t"

definition tbl_update_any :: "string list \<Rightarrow> ('r \<Rightarrow> 'r) \<Rightarrow> 'r table \<Rightarrow> 'r table" where
  "tbl_update_any ks f t = map (\<lambda>(k, r). (k, if k \<in> set ks then f r else r)) t"

definition tbl_wf :: "'r table \<Rightarrow> bool" where
  "tbl_wf t \<longleftrightarrow> distinct (map fst t)"

text \<open>The interface the components rely on.\<close>

locale keyed_table =
  fixes get :: "'t \<Rightarrow> 'k \<Rightarrow> 'r option"
    and upsert :: "'k \<Rightarrow> 'r \<Rightarrow> 't \<Rightarrow> 't"
    and delete :: "'k \<Rightarrow> 't \<Rightarrow> 't"
    and delete_where :: "('r \<Rightarrow> bool) \<Rightarrow> 't \<Rightarrow> 't"
    and select :: "('r \<Rightarrow> bool) \<Rightarrow> 't \<Rightarrow> ('k \<times> 'r) list"
    and update_any :: "'k list \<Rightarrow> ('r \<Rightarrow> 'r) \<Rightarrow> 't \<Rightarrow> 't"
    and wf :: "'t \<Rightarrow> bool"
  assumes get_upsert: "get (upsert k r t) = (get t)(k \<mapsto> r)"
    and get_delete: "get (delete k t) = (get t)(k := None)"
    and get_delete_where:
      "wf t \<Longrightarrow> get (delete_where p t) k =
         (case get t k of None \<Rightarrow> None | Some r \<Rightarrow> if p r then None else Some r)"
    and get_update_any:
      "get (update_any ks f t) k = map_option (\<lambda>r. if k \<in> set ks then f r else r) (get t k)"
    and set_select: "wf t \<Longrightarrow> set (select p t) = {(k, r). get t k = Some r \<and> p r}"
    and distinct_select: "wf t \<Longrightarrow> distinct (map fst (select p t))"
    and wf_upsert: "wf t \<Longrightarrow> wf (upsert k r t)"
    and wf_delete: "wf t \<Longrightarrow> wf (delete k t)"
    and wf_delete_where: "wf t \<Longrightarrow> wf (delete_where p t)"
    and wf_update_any: "wf t \<Longrightarrow> wf (update_any ks f t)"
begin

lemma select_get: "wf t \<Longrightarrow> (k, r) \<in> set (select p t) \<Longrightarrow> get t k = Some r \<and> p r"
  by (simp add: set_select)

lemma get_select: "wf t \<Longrightarrow> get t k = Some r \<Longrightarrow> p r \<Longrightarrow> (k, r) \<in> set (select p t)"
  by (simp add: set_select)

lemma select_empty_iff:
  assumes w: "wf t"
  shows "select p t = [] \<longleftrightarrow> (\<forall>k r. get t k = Some r \<longrightarrow> \<not> p r)"
proof -
  have "select p t = [] \<longleftrightarrow> set (select p t) = {}" by simp
  also have "\<dots> \<longleftrightarrow> (\<forall>k r. get t k = Some r \<longrightarrow> \<not> p r)"
    unfolding set_select [OF w] by blast
  finally show ?thesis .
qed

lemma get_after_update_any:
  "get (update_any ks f t) k = Some r' \<longleftrightarrow>
     (\<exists>r. get t k = Some r \<and> r' = (if k \<in> set ks then f r else r))"
  by (auto simp: get_update_any)

text \<open>A selection that returned one row: every matching row is that one.\<close>

lemma select_singleton:
  assumes "wf t" and one: "length (select p t) = 1" and "get t k = Some r" and "p r"
    and "get t k' = Some r'" and "p r'"
  shows "k' = k"
proof -
  from one obtain x where x: "select p t = [x]"
    by (cases "select p t") auto
  from assms have "(k, r) \<in> set (select p t)" and "(k', r') \<in> set (select p t)"
    by (simp_all add: get_select)
  then show ?thesis unfolding x by auto
qed

lemma select_one_iff:
  assumes w: "wf t" and r: "get t k = Some r" "p r"
  shows "length (select p t) = 1 \<longleftrightarrow> (\<forall>k' r'. get t k' = Some r' \<and> p r' \<longrightarrow> k' = k)"
proof
  assume "length (select p t) = 1"
  with select_singleton [of t p k r] w r show "\<forall>k' r'. get t k' = Some r' \<and> p r' \<longrightarrow> k' = k" by blast
next
  assume "\<forall>k' r'. get t k' = Some r' \<and> p r' \<longrightarrow> k' = k"
  with r have keys: "set (map fst (select p t)) = {k}" by (auto simp: set_select [OF w] image_iff)
  have "length (map fst (select p t)) = card (set (map fst (select p t)))"
    using distinct_card [OF distinct_select [OF w, of p]] by simp
  with keys show "length (select p t) = 1" by simp
qed

end

lemma tbl_get_in: "tbl_get t k = Some r \<Longrightarrow> (k, r) \<in> set t"
  by (simp add: tbl_get_def map_of_SomeD)

lemma map_of_update_any:
  "map_of (map (\<lambda>(k, r). (k, if k \<in> set ks then f r else r)) t) k =
     map_option (\<lambda>r. if k \<in> set ks then f r else r) (map_of t k)"
  by (induction t) auto

lemma map_of_delete_where:
  "distinct (map fst t) \<Longrightarrow> map_of (filter (\<lambda>kr. \<not> p (snd kr)) t) k =
     (case map_of t k of None \<Rightarrow> None | Some r \<Rightarrow> if p r then None else Some r)"
  by (induction t) (auto simp: map_of_eq_None_iff split: option.splits dest: map_of_SomeD)

interpretation tbl: keyed_table
  tbl_get tbl_upsert tbl_delete tbl_delete_where tbl_select tbl_update_any tbl_wf
proof (unfold_locales, goal_cases)
  case (1 k r t)
  then show ?case by (simp add: tbl_get_def [abs_def] tbl_upsert_def update_conv')
next
  case (2 k t)
  then show ?case by (simp add: tbl_get_def [abs_def] tbl_delete_def delete_conv')
next
  case (3 t p k)
  then show ?case by (simp add: tbl_get_def tbl_delete_where_def tbl_wf_def map_of_delete_where)
next
  case (4 ks f t k)
  then show ?case by (simp add: tbl_get_def tbl_update_any_def map_of_update_any)
next
  case (5 t p)
  then show ?case by (auto simp: tbl_wf_def tbl_get_def tbl_select_def)
next
  case (6 t p)
  then show ?case by (simp add: tbl_wf_def tbl_select_def distinct_map_filter)
next
  case (7 t k r)
  then show ?case by (simp add: tbl_wf_def tbl_upsert_def distinct_update)
next
  case (8 t k)
  then show ?case by (simp add: tbl_wf_def tbl_delete_def distinct_delete)
next
  case (9 t p)
  then show ?case by (simp add: tbl_wf_def tbl_delete_where_def distinct_map_filter)
next
  case (10 t ks f)
  then show ?case by (simp add: tbl_wf_def tbl_update_any_def comp_def split_beta)
qed

lemmas tbl_laws = tbl.get_upsert tbl.get_delete tbl.get_delete_where tbl.get_update_any
lemmas tbl_wf_laws = tbl.wf_upsert tbl.wf_delete tbl.wf_delete_where tbl.wf_update_any
lemmas tbl_defs =
  tbl_get_def tbl_upsert_def tbl_delete_def tbl_delete_where_def tbl_select_def tbl_update_any_def

section \<open>Text\<close>

text \<open>\<^verbatim>\<open>strings.Contains\<close>.\<close>

fun has_substring :: "string \<Rightarrow> string \<Rightarrow> bool" where
  "has_substring s [] = (s = [])"
| "has_substring s (c # t) = (take (length s) (c # t) = s \<or> has_substring s t)"

text \<open>
  Whether the text of an error mentions \<open>s\<close>: the text of a wrapped error includes the texts
  below it.
\<close>

fun err_mentions :: "string \<Rightarrow> 'd err \<Rightarrow> bool" where
  "err_mentions s (DbErr t) = has_substring s t"
| "err_mentions s (Propagate e) = err_mentions s e"
| "err_mentions s (PropagateWithCode c e) = err_mentions s e"
| "err_mentions s _ = False"

end
