(* ===== verification/Dss_Geo.thy ===== *)
theory Dss_Geo
  imports Dss_Prelude
begin

text \<open>
  Package \<^verbatim>\<open>pkg/geo\<close>: validation of polygons, their S2 coverings, and the parser of the
  area strings of the remote ID API. The functions of the S2 library are fields of
  \<open>s2lib\<close>, an argument of the definitions that use them. \<^verbatim>\<open>float64\<close> values are
  reals: rounding and NaN are not modelled.
\<close>

type_synonym cell = "64 word"
type_synonym cells = "cell list"
type_synonym vec = "real \<times> real \<times> real"

text \<open>
  What the code uses of \<^verbatim>\<open>github.com/golang/geo\<close>. Loops and polylines are their vertex
  lists; the \<^verbatim>\<open>cover\<close> functions are \<^verbatim>\<open>RegionCoverer.Covering\<close> on a loop, on a
  polyline and on \<^verbatim>\<open>RegularLoop(centre, radius, n)\<close>.
\<close>

record s2lib =
  s2_cross :: "vec \<Rightarrow> vec \<Rightarrow> vec"
  s2_dot :: "vec \<Rightarrow> vec \<Rightarrow> real"
  s2_normalize :: "vec \<Rightarrow> vec"
  s2_angle :: "vec \<Rightarrow> vec \<Rightarrow> real"
  s2_point :: "real \<Rightarrow> real \<Rightarrow> vec"
  s2_loop_from_points :: "vec list \<Rightarrow> vec list"
  s2_loop_valid :: "vec list \<Rightarrow> bool"
  s2_loop_is_empty :: "vec list \<Rightarrow> bool"
  s2_loop_area :: "vec list \<Rightarrow> real"
  s2_cover_loop :: "vec list \<Rightarrow> cells"
  s2_cover_polyline :: "vec list \<Rightarrow> cells"
  s2_cover_regular_loop :: "vec \<Rightarrow> real \<Rightarrow> nat \<Rightarrow> cells"
  s2_cell_level :: "cell \<Rightarrow> int"
  s2_denormalize :: "int \<Rightarrow> int \<Rightarrow> cells \<Rightarrow> cells"
  s2_contains :: "cells \<Rightarrow> cells \<Rightarrow> bool"
  s2_union :: "cells \<Rightarrow> cells \<Rightarrow> cells"
  parse_float :: "string \<Rightarrow> real option"

section \<open>Cells\<close>

definition DefaultMinimumCellLevel :: int where "DefaultMinimumCellLevel = 13"
definition DefaultMaximumCellLevel :: int where "DefaultMaximumCellLevel = 13"
definition maxAllowedAreaKm2 :: real where "maxAllowedAreaKm2 = 2500"
definition radiusEarthMeter :: real where "radiusEarthMeter = 6371010"
definition earthAreaKm2 :: real where "earthAreaKm2 = 510072000"

text \<open>The constant \<^verbatim>\<open>math.Pi\<close> of Go's library, a decimal fraction.\<close>

definition math_Pi :: real where
  "math_Pi = 314159265358979323846264338327950288419716939937510582097494459 / 10 ^ 62"

definition Levelify :: "'z s2lib_scheme \<Rightarrow> cells \<Rightarrow> cells" where
  "Levelify L cs = s2_denormalize L DefaultMinimumCellLevel 1 cs"

definition ValidateCell :: "'z s2lib_scheme \<Rightarrow> cell \<Rightarrow> 'd err + unit" where
  "ValidateCell L c =
     (if s2_cell_level L c < DefaultMinimumCellLevel \<or> s2_cell_level L c > DefaultMaximumCellLevel
      then Inl (NewError None) else Inr ())"

text \<open>An \<^verbatim>\<open>int64\<close> and the cell id it stands for have the same 64 bits.\<close>

definition CellUnionFromInt64 :: "64 word list \<Rightarrow> cells" where
  "CellUnionFromInt64 cids = map (\<lambda>i. i) cids"

definition DistanceMetersToAngle :: "real \<Rightarrow> real" where
  "DistanceMetersToAngle d = d / radiusEarthMeter"

section \<open>Polygons\<close>

definition loopAreaKm2 :: "'z s2lib_scheme \<Rightarrow> vec list \<Rightarrow> real" where
  "loopAreaKm2 L loop =
     (if s2_loop_is_empty L loop then 0 else s2_loop_area L loop * earthAreaKm2 / (4 * math_Pi))"

definition chordSegmentsIntersect ::
    "'z s2lib_scheme \<Rightarrow> vec \<Rightarrow> vec \<Rightarrow> vec \<Rightarrow> vec \<Rightarrow> bool" where
  "chordSegmentsIntersect L p1a p1b p2a p2b =
     (let n1 = s2_cross L p1a p1b;
          n2 = s2_cross L p2a p2b;
          ip = s2_normalize L (s2_cross L n1 n2);
          rp1a = s2_cross L p1a ip;
          rp1b = s2_cross L p1b ip
      in if s2_dot L rp1a rp1b > 0 then False
      else let rp2a = s2_cross L p2a ip;
               rp2b = s2_cross L p2b ip
      in if s2_dot L rp2a rp2b > 0 then False
      else let l1p = s2_angle L p1a ip + s2_angle L ip p1b;
               l2p = s2_angle L p2a ip + s2_angle L ip p2b
      in if l1p \<le> math_Pi \<and> l2p \<le> math_Pi then True
      else if l1p \<ge> math_Pi \<and> l2p \<ge> math_Pi then True
      else False)"

text \<open>
  The pairs of edges \<^verbatim>\<open>validateLoop\<close> compares, in its order: edge \<open>i\<close> joins the
  vertices \<open>i\<close> and \<open>i + 1\<close>, the last one closes the loop.
\<close>

definition loop_edge_pairs :: "nat \<Rightarrow> (nat \<times> nat) list" where
  "loop_edge_pairs n =
     concat (map (\<lambda>i. let upperBound = (if i = 0 then n - 1 else n)
                      in map (\<lambda>j. (i, j)) [i + 2..<upperBound]) [0..<n - 2])"

definition edges_intersect :: "'z s2lib_scheme \<Rightarrow> vec list \<Rightarrow> nat \<Rightarrow> nat \<Rightarrow> bool" where
  "edges_intersect L points i j =
     chordSegmentsIntersect L (points ! i) (points ! (i + 1))
       (points ! j) (points ! ((j + 1) mod length points))"

definition validateLoop :: "'z s2lib_scheme \<Rightarrow> vec list \<Rightarrow> 'd err + unit" where
  "validateLoop L points =
     (if list_ex (\<lambda>(i, j). edges_intersect L points i j) (loop_edge_pairs (length points))
      then Inl (NewError None) else Inr ())"

definition Covering :: "'z s2lib_scheme \<Rightarrow> vec list \<Rightarrow> 'd err + cells" where
  "Covering L points =
     sbind (swrap Propagate (validateLoop L points)) (\<lambda>_.
     let loop = s2_loop_from_points L points in
     if \<not> s2_loop_valid L loop then Inl (Propagate ExtErr)
     else
       let area = loopAreaKm2 L loop;
           loop' = (if area > maxAllowedAreaKm2 then s2_loop_from_points L (rev points) else loop);
           area' = (if area > maxAllowedAreaKm2 then loopAreaKm2 L loop' else area)
       in if area' > maxAllowedAreaKm2 then Inl (Propagate (GeoErr ErrAreaTooLarge))
       else if area' \<le> 0 then Inr (s2_cover_polyline L loop')
       else Inr (s2_cover_loop L loop'))"

section \<open>Area strings\<close>

text \<open>
  The split function of the scanner: \<open>(advance, token)\<close>, no token when more input is
  needed or none is left.
\<close>

definition splitAtComma :: "string \<Rightarrow> bool \<Rightarrow> nat \<times> string option" where
  "splitAtComma data atEOF =
     (if atEOF \<and> data = [] then (0, None)
      else if CHR '','' \<in> set data
      then (length (takeWhile (\<lambda>c. c \<noteq> CHR '','') data) + 1,
            Some (takeWhile (\<lambda>c. c \<noteq> CHR '','') data))
      else if atEOF then (length data, Some data)
      else (0, None))"

text \<open>
  The tokens \<^verbatim>\<open>bufio.Scanner\<close> yields with it on a string: the split function is applied to
  what is left until it gives no token. (The scanner's limit of 64 KiB per token is not
  modelled.)
\<close>

function scan_tokens :: "string \<Rightarrow> string list" where
  "scan_tokens data =
     (case splitAtComma data True of
        (n, None) \<Rightarrow> []
      | (n, Some tok) \<Rightarrow> tok # scan_tokens (drop n data))"
  by pat_completeness auto
termination
  by (relation "measure length") (auto simp: splitAtComma_def split: if_splits)

declare scan_tokens.simps [simp del]

definition is_space :: "char \<Rightarrow> bool" where
  "is_space c \<longleftrightarrow> of_char c \<in> {9, 10, 11, 12, 13, 32 :: nat}"

definition TrimSpace :: "string \<Rightarrow> string" where
  "TrimSpace s = rev (dropWhile is_space (rev (dropWhile is_space s)))"

text \<open>The loop over the tokens: \<open>counter\<close>, the last latitude read, and the points so far.\<close>

fun area_points ::
    "'z s2lib_scheme \<Rightarrow> nat \<Rightarrow> real \<Rightarrow> vec list \<Rightarrow> string list \<Rightarrow> 'd err + vec list" where
  "area_points L counter lat points [] = Inr points"
| "area_points L counter lat points (t # ts) =
     (case parse_float L (TrimSpace t) of
        None \<Rightarrow> Inl (Propagate (GeoErr ErrBadCoordSet))
      | Some f \<Rightarrow>
          if even counter then area_points L (Suc counter) f points ts
          else area_points L (Suc counter) lat (points @ [s2_point L lat f]) ts)"

definition AreaToCellIDs :: "'z s2lib_scheme \<Rightarrow> string \<Rightarrow> 'd err + cells" where
  "AreaToCellIDs L area =
     (let numCoords = length (filter (\<lambda>c. c = CHR '','') area) + 1 in
      if numCoords mod 2 = 1 then Inl (GeoErr ErrOddNumberOfCoordinatesInAreaString)
      else if numCoords div 2 < 3 then Inl (GeoErr ErrNotEnoughPointsInPolygon)
      else sbind (area_points L 0 0 [] (scan_tokens area)) (Covering L))"

section \<open>Properties\<close>

lemma set_loop_edge_pairs:
  "set (loop_edge_pairs n) = {(i, j). i + 2 \<le> j \<and> j < n \<and> \<not> (i = 0 \<and> j = n - 1)}"
proof -
  have "(i, j) \<in> set (loop_edge_pairs n) \<longleftrightarrow>
      i < n - 2 \<and> i + 2 \<le> j \<and> j < (if i = 0 then n - 1 else n)" for i j
    by (auto simp: loop_edge_pairs_def Let_def)
  then show ?thesis by (auto split: if_splits)
qed

lemma distinct_loop_edge_pairs: "distinct (loop_edge_pairs n)"
proof -
  have "distinct (concat (map (\<lambda>i. map (Pair i) (f i)) xs))"
    if "distinct xs" and "\<And>i. distinct (f i)" for xs :: "nat list" and f :: "nat \<Rightarrow> nat list"
    using that by (induction xs) (auto simp: distinct_map inj_on_def)
  from this [of "[0..<n - 2]" "\<lambda>i. [i + 2..<(if i = 0 then n - 1 else n)]"]
  show ?thesis by (simp add: loop_edge_pairs_def Let_def)
qed

lemma validateLoop_Inr:
  "validateLoop L points = Inr u \<longleftrightarrow>
     (\<forall>i j. i + 2 \<le> j \<and> j < length points \<and> \<not> (i = 0 \<and> j = length points - 1) \<longrightarrow>
        \<not> edges_intersect L points i j)"
  by (auto simp: validateLoop_def list_ex_iff set_loop_edge_pairs)

lemma scan_tokens_Nil [simp]: "scan_tokens [] = []"
  by (subst scan_tokens.simps) (simp add: splitAtComma_def)

lemma scan_tokens_comma:
  assumes "CHR '','' \<notin> set tok"
  shows "scan_tokens (tok @ CHR '','' # rest) = tok # scan_tokens rest"
proof -
  from assms have "takeWhile (\<lambda>c. c \<noteq> CHR '','') (tok @ CHR '','' # rest) = tok"
    by (subst takeWhile_append2) auto
  then show ?thesis
    by (subst scan_tokens.simps) (simp add: splitAtComma_def)
qed

lemma scan_tokens_last:
  "CHR '','' \<notin> set tok \<Longrightarrow> tok \<noteq> [] \<Longrightarrow> scan_tokens tok = [tok]"
  by (subst scan_tokens.simps) (simp add: splitAtComma_def)

end
