(* ===== verification/Dss_Models.thy ===== *)
theory Dss_Models
  imports Dss_Geo
begin

text \<open>
  Package \<^verbatim>\<open>pkg/models\<close>: identifiers, volumes of airspace and time, their union, the
  conversion from and to the messages of the strategic coordination API, and vertiport
  reservations. \<open>ext\<close> collects the functions of other libraries that the DSS calls.
\<close>

section \<open>The functions of other libraries\<close>

text \<open>
  \<^item> \<open>x_uuid_parse\<close>: \<^verbatim>\<open>uuid.Parse\<close> followed by \<^verbatim>\<open>String\<close>;
    \<open>x_pg_uuid\<close>: the conversion to a database UUID, giving its canonical text.
  \<^item> \<open>x_url_ok\<close>: whether \<^verbatim>\<open>url.Parse\<close> accepts what follows the scheme.
  \<^item> \<open>x_ts_of_pb\<close>, \<open>x_pb_of_ts\<close>: \<^verbatim>\<open>ptypes.Timestamp\<close> and
    \<^verbatim>\<open>ptypes.TimestampProto\<close>; a protobuf timestamp is a pair of seconds and nanoseconds.
  \<^item> \<open>x_f32\<close>: rounding of a \<^verbatim>\<open>float64\<close> to \<^verbatim>\<open>float32\<close>.
  \<^item> \<open>x_sha256_b64\<close>: the base64 text of the SHA-256 sum; \<open>x_rfc3339\<close>: the text of an
    instant of a whole number of seconds in the layout \<^verbatim>\<open>time.RFC3339\<close>, which has no
    fraction of a second.
  \<^item> \<open>x_map_cells\<close>, \<open>x_map_urls\<close>: the order in which Go iterates over the keys of a map;
    \<open>x_returning\<close>: the order in which the database returns the rows of an
    \<^verbatim>\<open>UPDATE ... RETURNING\<close>. All three are unspecified: the result is some permutation.
  \<^item> \<open>x_sort_changes\<close>: \<^verbatim>\<open>sort.Slice\<close> by time; it sorts, but the order of changes of the
    same instant is unspecified.
\<close>

type_synonym pb_timestamp = "int \<times> int"

record ext = s2lib +
  x_uuid_parse :: "string \<Rightarrow> string option"
  x_pg_uuid :: "string \<Rightarrow> string option"
  x_url_ok :: "string \<Rightarrow> bool"
  x_ts_of_pb :: "pb_timestamp option \<Rightarrow> time option"
  x_pb_of_ts :: "time \<Rightarrow> pb_timestamp option"
  x_f32 :: "real \<Rightarrow> real"
  x_sha256_b64 :: "string \<Rightarrow> string"
  x_rfc3339 :: "int \<Rightarrow> string"
  x_map_cells :: "cells \<Rightarrow> cells"
  x_map_urls :: "string list \<Rightarrow> string list"
  x_returning :: "string list \<Rightarrow> string list"
  x_sort_changes :: "(time \<times> int) list \<Rightarrow> (time \<times> int) list"

text \<open>What is known of the unspecified orders.\<close>

definition orders_ok :: "ext \<Rightarrow> bool" where
  "orders_ok x \<longleftrightarrow>
     (\<forall>cs. mset (x_map_cells x cs) = mset cs) \<and>
     (\<forall>us. mset (x_map_urls x us) = mset us) \<and>
     (\<forall>ks. mset (x_returning x ks) = mset ks) \<and>
     (\<forall>cs. mset (x_sort_changes x cs) = mset cs \<and> sorted (map fst (x_sort_changes x cs)))"

lemma set_x_map_cells: "orders_ok x \<Longrightarrow> set (x_map_cells x cs) = set cs"
  by (metis orders_ok_def set_mset_mset)

lemma set_x_map_urls: "orders_ok x \<Longrightarrow> set (x_map_urls x us) = set us"
  by (metis orders_ok_def set_mset_mset)

lemma length_x_returning: "orders_ok x \<Longrightarrow> length (x_returning x ks) = length ks"
  by (metis orders_ok_def size_mset)

section \<open>Identifiers\<close>

definition IDFromString :: "ext \<Rightarrow> string \<Rightarrow> 'd err + string" where
  "IDFromString x s =
     (case x_uuid_parse x s of None \<Rightarrow> Inl (Propagate ExtErr) | Some i \<Rightarrow> Inr i)"

definition IDFromOptionalString :: "ext \<Rightarrow> string \<Rightarrow> 'd err + string" where
  "IDFromOptionalString x s = (if s = '''' then Inr '''' else IDFromString x s)"

definition PgUUID :: "ext \<Rightarrow> string \<Rightarrow> 'd err + string" where
  "PgUUID x i = (case x_pg_uuid x i of None \<Rightarrow> Inl (Propagate ExtErr) | Some u \<Rightarrow> Inr u)"

definition ID_Empty :: "string \<Rightarrow> bool" where
  "ID_Empty i \<longleftrightarrow> i = ''''"

definition MaxResultLimit :: int where
  "MaxResultLimit = 10000"

text \<open>The rows a query with \<^verbatim>\<open>LIMIT\<close> returns.\<close>

fun sql_limit :: "int \<Rightarrow> 'a list \<Rightarrow> 'a list" where
  "sql_limit n [] = []"
| "sql_limit n (r # rs) = (if n > 0 then r # sql_limit (n - 1) rs else [])"

definition limit_rows :: "'a list \<Rightarrow> 'a list" where
  "limit_rows rs = sql_limit MaxResultLimit rs"

lemma sql_limit_all: "int (length rs) \<le> n \<Longrightarrow> sql_limit n rs = rs"
  by (induction n rs rule: sql_limit.induct) auto

lemma set_sql_limit: "set (sql_limit n rs) \<subseteq> set rs"
  by (induction n rs rule: sql_limit.induct) auto

lemma limit_rows_all [simp]: "int (length rs) \<le> MaxResultLimit \<Longrightarrow> limit_rows rs = rs"
  by (simp add: limit_rows_def sql_limit_all)

lemma set_limit_rows: "r \<in> set (limit_rows rs) \<Longrightarrow> r \<in> set rs"
  using set_sql_limit by (fastforce simp: limit_rows_def)

section \<open>Volumes\<close>

record latlng =
  Lat :: real
  Lng :: real

text \<open>
  The implementations of the interface \<^verbatim>\<open>Geometry\<close>: a polygon, a circle, a function that
  returns given cells (\<^verbatim>\<open>GeometryFunc\<close>), and a set of cells, kept without duplicates.
\<close>

datatype geometry =
    GeoPolygon "latlng list"
  | GeoCircle latlng real
  | GeometryFunc cells
  | PrecomputedCells cells

record volume3d =
  AltitudeHi :: "real option"
  AltitudeLo :: "real option"
  Footprint :: "geometry option"

record volume4d =
  SpatialVolume :: "volume3d option"
  EndTime :: "time option"
  StartTime :: "time option"

definition on_earth :: "latlng \<Rightarrow> bool" where
  "on_earth p \<longleftrightarrow> \<not> (Lat p > 90 \<or> Lat p < - 90 \<or> Lng p > 180 \<or> Lng p < - 180)"

fun polygon_points :: "ext \<Rightarrow> latlng list \<Rightarrow> 'd err + vec list" where
  "polygon_points x [] = Inr []"
| "polygon_points x (v # vs) =
     (if \<not> on_earth v then Inl (GeoErr ErrBadCoordSet)
      else sbind (polygon_points x vs) (\<lambda>ps. Inr (s2_point x (Lat v) (Lng v) # ps)))"

definition polygon_covering :: "ext \<Rightarrow> latlng list \<Rightarrow> 'd err + cells" where
  "polygon_covering x vs =
     sbind (polygon_points x vs) (\<lambda>points.
       if length points < 3 then Inl (GeoErr ErrNotEnoughPointsInPolygon)
       else Covering x points)"

definition circle_covering :: "ext \<Rightarrow> latlng \<Rightarrow> real \<Rightarrow> 'd err + cells" where
  "circle_covering x c r =
     (if \<not> on_earth c then Inl (GeoErr ErrBadCoordSet)
      else if \<not> (r > 0) then Inl (GeoErr ErrRadiusMustBeLargerThan0)
      else Inr (s2_cover_regular_loop x (s2_point x (Lat c) (Lng c)) (DistanceMetersToAngle r) 20))"

fun geometry_covering :: "ext \<Rightarrow> geometry \<Rightarrow> 'd err + cells" where
  "geometry_covering x (GeoPolygon vs) = polygon_covering x vs"
| "geometry_covering x (GeoCircle c r) = circle_covering x c r"
| "geometry_covering x (GeometryFunc cs) = Inr cs"
| "geometry_covering x (PrecomputedCells cs) = Inr (x_map_cells x cs)"

definition volume3d_covering :: "ext \<Rightarrow> volume3d \<Rightarrow> 'd err + cells" where
  "volume3d_covering x v =
     (case Footprint v of None \<Rightarrow> Inl (GeoErr ErrMissingFootprint)
      | Some g \<Rightarrow> geometry_covering x g)"

definition CalculateSpatialCovering :: "ext \<Rightarrow> volume4d \<Rightarrow> 'd err + cells" where
  "CalculateSpatialCovering x v =
     (case SpatialVolume v of None \<Rightarrow> Inl (GeoErr ErrMissingSpatialVolume)
      | Some v3 \<Rightarrow> volume3d_covering x v3)"

subsection \<open>Union\<close>

text \<open>A copy of an instant; the zero instant gives no pointer.\<close>

definition timeP :: "time \<Rightarrow> time option" where
  "timeP t = (if t = zero_time then None else Some t)"

definition merge_cells :: "cells \<Rightarrow> cells \<Rightarrow> cells" where
  "merge_cells pcg ids = fold List.insert ids pcg"

definition union_end :: "time option \<Rightarrow> time option \<Rightarrow> time option" where
  "union_end r v =
     (case v of None \<Rightarrow> r
      | Some e \<Rightarrow> (case r of Some e' \<Rightarrow> if e > e' then Some e else Some e' | None \<Rightarrow> timeP e))"

definition union_start :: "time option \<Rightarrow> time option \<Rightarrow> time option" where
  "union_start r v =
     (case v of None \<Rightarrow> r
      | Some b \<Rightarrow> (case r of Some b' \<Rightarrow> if b < b' then Some b else Some b' | None \<Rightarrow> timeP b))"

definition union_lo :: "real option \<Rightarrow> real option \<Rightarrow> real option" where
  "union_lo r v =
     (case v of None \<Rightarrow> r
      | Some a \<Rightarrow> (case r of Some a' \<Rightarrow> if a < a' then Some a else Some a' | None \<Rightarrow> Some a))"

definition union_hi :: "real option \<Rightarrow> real option \<Rightarrow> real option" where
  "union_hi r v =
     (case v of None \<Rightarrow> r
      | Some a \<Rightarrow> (case r of Some a' \<Rightarrow> if a > a' then Some a else Some a' | None \<Rightarrow> Some a))"

definition union_footprint ::
    "ext \<Rightarrow> geometry option \<Rightarrow> geometry option \<Rightarrow> 'd err + geometry option" where
  "union_footprint x r v =
     (case v of None \<Rightarrow> Inr r
      | Some g \<Rightarrow>
          sbind (swrap Propagate (geometry_covering x g)) (\<lambda>cs.
            case r of
              None \<Rightarrow> Inr (Some (PrecomputedCells (merge_cells [] cs)))
            | Some (PrecomputedCells pcg) \<Rightarrow> Inr (Some (PrecomputedCells (merge_cells pcg cs)))
            | Some _ \<Rightarrow> Inl Panic))"

definition union_spatial ::
    "ext \<Rightarrow> volume3d option \<Rightarrow> volume3d option \<Rightarrow> 'd err + volume3d option" where
  "union_spatial x r v =
     (case v of None \<Rightarrow> Inr r
      | Some v3 \<Rightarrow>
          let r3 = (case r of None \<Rightarrow> \<lparr>AltitudeHi = None, AltitudeLo = None, Footprint = None\<rparr>
                    | Some r3 \<Rightarrow> r3)
          in sbind (union_footprint x (Footprint r3) (Footprint v3)) (\<lambda>fp.
               Inr (Some \<lparr>AltitudeHi = union_hi (AltitudeHi r3) (AltitudeHi v3),
                          AltitudeLo = union_lo (AltitudeLo r3) (AltitudeLo v3),
                          Footprint = fp\<rparr>)))"

fun union_from :: "ext \<Rightarrow> volume4d \<Rightarrow> volume4d list \<Rightarrow> 'd err + volume4d" where
  "union_from x r [] = Inr r"
| "union_from x r (v # vs) =
     sbind (union_spatial x (SpatialVolume r) (SpatialVolume v)) (\<lambda>sv.
       union_from x
         \<lparr>SpatialVolume = sv,
          EndTime = union_end (EndTime r) (EndTime v),
          StartTime = union_start (StartTime r) (StartTime v)\<rparr> vs)"

definition UnionVolumes4D :: "ext \<Rightarrow> volume4d list \<Rightarrow> 'd err + volume4d" where
  "UnionVolumes4D x vs =
     union_from x \<lparr>SpatialVolume = None, EndTime = None, StartTime = None\<rparr> vs"

section \<open>Messages of the strategic coordination API\<close>

record pb_latlng =
  pll_Lat :: real
  pll_Lng :: real

record pb_altitude =
  pa_Value :: real
  pa_Reference :: string
  pa_Units :: string

record pb_radius =
  pr_Value :: real
  pr_Units :: string

record pb_circle =
  pc_Center :: "pb_latlng option"
  pc_Radius :: "pb_radius option"

record pb_volume3d =
  pv3_OutlineCircle :: "pb_circle option"
  pv3_OutlinePolygon :: "pb_latlng list option"
  pv3_AltitudeLower :: "pb_altitude option"
  pv3_AltitudeUpper :: "pb_altitude option"

record pb_time =
  pt_Value :: "pb_timestamp option"
  pt_Format :: string

record pb_volume4d =
  pv4_Volume :: "pb_volume3d option"
  pv4_TimeStart :: "pb_time option"
  pv4_TimeEnd :: "pb_time option"

definition UnitsM :: string where "UnitsM = ''M''"
definition ReferenceW84 :: string where "ReferenceW84 = ''W84''"
definition TimeFormatRFC3339 :: string where "TimeFormatRFC3339 = ''RFC3339''"

text \<open>A getter on an absent message gives the zero value.\<close>

definition LatLngPointFromSCDProto :: "pb_latlng option \<Rightarrow> latlng" where
  "LatLngPointFromSCDProto p =
     (case p of None \<Rightarrow> \<lparr>Lat = 0, Lng = 0\<rparr> | Some q \<Rightarrow> \<lparr>Lat = pll_Lat q, Lng = pll_Lng q\<rparr>)"

text \<open>The only unit with a conversion factor is the metre; another unit reads as factor 0.\<close>

definition unitToMeterMultiplicativeFactors :: "string \<Rightarrow> real" where
  "unitToMeterMultiplicativeFactors u = (if u = UnitsM then 1 else 0)"

definition GeoCircleFromSCDProto :: "pb_circle \<Rightarrow> geometry" where
  "GeoCircleFromSCDProto c =
     GeoCircle (LatLngPointFromSCDProto (pc_Center c))
       (case pc_Radius c of
          None \<Rightarrow> unitToMeterMultiplicativeFactors '''' * 0
        | Some r \<Rightarrow> unitToMeterMultiplicativeFactors (pr_Units r) * pr_Value r)"

definition GeoPolygonFromSCDProto :: "pb_latlng list \<Rightarrow> geometry" where
  "GeoPolygonFromSCDProto vs = GeoPolygon (map (\<lambda>p. LatLngPointFromSCDProto (Some p)) vs)"

definition altitude_from_proto :: "ext \<Rightarrow> pb_altitude option \<Rightarrow> 'd err + real option" where
  "altitude_from_proto x a =
     (case a of None \<Rightarrow> Inr None
      | Some a' \<Rightarrow>
          if pa_Units a' \<noteq> UnitsM then Inl (NewError None)
          else if pa_Reference a' \<noteq> ReferenceW84 then Inl (NewError None)
          else Inr (Some (x_f32 x (pa_Value a'))))"

definition Volume3DFromSCDProto :: "ext \<Rightarrow> pb_volume3d option \<Rightarrow> 'd err + volume3d option" where
  "Volume3DFromSCDProto x v =
     (case v of None \<Rightarrow> Inr None
      | Some v3 \<Rightarrow>
          sbind (altitude_from_proto x (pv3_AltitudeLower v3)) (\<lambda>altLo.
          sbind (altitude_from_proto x (pv3_AltitudeUpper v3)) (\<lambda>altHi.
          case (pv3_OutlineCircle v3, pv3_OutlinePolygon v3) of
            (Some _, Some _) \<Rightarrow> Inl (NewError None)
          | (None, Some p) \<Rightarrow>
              Inr (Some \<lparr>AltitudeHi = altHi, AltitudeLo = altLo,
                         Footprint = Some (GeoPolygonFromSCDProto p)\<rparr>)
          | (Some c, None) \<Rightarrow>
              Inr (Some \<lparr>AltitudeHi = altHi, AltitudeLo = altLo,
                         Footprint = Some (GeoCircleFromSCDProto c)\<rparr>)
          | (None, None) \<Rightarrow>
              Inr (Some \<lparr>AltitudeHi = altHi, AltitudeLo = altLo, Footprint = None\<rparr>))))"

definition time_from_proto :: "ext \<Rightarrow> pb_time option \<Rightarrow> 'd err + time option" where
  "time_from_proto x t =
     (case t of None \<Rightarrow> Inr None
      | Some t' \<Rightarrow>
          (case x_ts_of_pb x (pt_Value t') of
             None \<Rightarrow> Inl (Propagate ExtErr) | Some ts \<Rightarrow> Inr (Some ts)))"

definition Volume4DFromSCDProto :: "ext \<Rightarrow> pb_volume4d option \<Rightarrow> 'd err + volume4d" where
  "Volume4DFromSCDProto x v =
     sbind (Volume3DFromSCDProto x (case v of None \<Rightarrow> None | Some v4 \<Rightarrow> pv4_Volume v4)) (\<lambda>vol3.
     sbind (time_from_proto x (case v of None \<Rightarrow> None | Some v4 \<Rightarrow> pv4_TimeStart v4)) (\<lambda>st.
     sbind (time_from_proto x (case v of None \<Rightarrow> None | Some v4 \<Rightarrow> pv4_TimeEnd v4)) (\<lambda>et.
     Inr \<lparr>SpatialVolume = vol3, EndTime = et, StartTime = st\<rparr>)))"

definition time_to_proto :: "ext \<Rightarrow> time option \<Rightarrow> 'd err + pb_time option" where
  "time_to_proto x t =
     (case t of None \<Rightarrow> Inr None
      | Some t' \<Rightarrow>
          (case x_pb_of_ts x t' of
             None \<Rightarrow> Inl (Propagate ExtErr)
           | Some ts \<Rightarrow> Inr (Some \<lparr>pt_Value = Some ts, pt_Format = TimeFormatRFC3339\<rparr>)))"

definition LatLngPoint_ToSCDProto :: "latlng \<Rightarrow> pb_latlng" where
  "LatLngPoint_ToSCDProto p = \<lparr>pll_Lat = Lat p, pll_Lng = Lng p\<rparr>"

definition GeoCircle_ToSCDProto :: "latlng \<Rightarrow> real \<Rightarrow> pb_circle" where
  "GeoCircle_ToSCDProto c r =
     \<lparr>pc_Center = Some (LatLngPoint_ToSCDProto c),
      pc_Radius = Some \<lparr>pr_Value = r, pr_Units = UnitsM\<rparr>\<rparr>"

definition GeoPolygon_ToSCDProto :: "latlng list \<Rightarrow> pb_latlng list" where
  "GeoPolygon_ToSCDProto vs = map LatLngPoint_ToSCDProto vs"

definition altitude_to_proto :: "real option \<Rightarrow> pb_altitude option" where
  "altitude_to_proto a =
     map_option (\<lambda>v. \<lparr>pa_Value = v, pa_Reference = ReferenceW84, pa_Units = UnitsM\<rparr>) a"

definition Volume3D_ToSCDProto :: "volume3d option \<Rightarrow> pb_volume3d option" where
  "Volume3D_ToSCDProto v =
     map_option (\<lambda>v3.
       \<lparr>pv3_OutlineCircle =
          (case Footprint v3 of Some (GeoCircle c r) \<Rightarrow> Some (GeoCircle_ToSCDProto c r) | _ \<Rightarrow> None),
        pv3_OutlinePolygon =
          (case Footprint v3 of Some (GeoPolygon vs) \<Rightarrow> Some (GeoPolygon_ToSCDProto vs) | _ \<Rightarrow> None),
        pv3_AltitudeLower = altitude_to_proto (AltitudeLo v3),
        pv3_AltitudeUpper = altitude_to_proto (AltitudeHi v3)\<rparr>) v"

definition Volume4D_ToSCDProto :: "ext \<Rightarrow> volume4d \<Rightarrow> 'd err + pb_volume4d" where
  "Volume4D_ToSCDProto x v =
     sbind (time_to_proto x (StartTime v)) (\<lambda>st.
     sbind (time_to_proto x (EndTime v)) (\<lambda>et.
     Inr \<lparr>pv4_Volume = Volume3D_ToSCDProto (SpatialVolume v),
          pv4_TimeStart = st, pv4_TimeEnd = et\<rparr>))"

section \<open>Vertiport reservations\<close>

record pb_vertiport_reservation =
  pvr_Vertiportid :: string
  pvr_ReservedZone :: "32 word"
  pvr_TimeStart :: "pb_time option"
  pvr_TimeEnd :: "pb_time option"

record vertiport_reservation =
  VertiportID :: string
  VertiportZone :: "32 word"
  vr_StartTime :: "time option"
  vr_EndTime :: "time option"

definition FATO :: "32 word" where "FATO = 0"
definition ParkingStand :: "32 word" where "ParkingStand = 1"

definition VertiportReservationFromVRPProto ::
    "ext \<Rightarrow> pb_vertiport_reservation option \<Rightarrow> 'd err + vertiport_reservation" where
  "VertiportReservationFromVRPProto x vr =
     sbind (time_from_proto x (case vr of None \<Rightarrow> None | Some v \<Rightarrow> pvr_TimeStart v)) (\<lambda>st.
     sbind (time_from_proto x (case vr of None \<Rightarrow> None | Some v \<Rightarrow> pvr_TimeEnd v)) (\<lambda>et.
     Inr \<lparr>VertiportID = (case vr of None \<Rightarrow> '''' | Some v \<Rightarrow> pvr_Vertiportid v),
          VertiportZone = (case vr of None \<Rightarrow> 0 | Some v \<Rightarrow> pvr_ReservedZone v),
          vr_StartTime = st, vr_EndTime = et\<rparr>))"

section \<open>Opaque version numbers and base URLs\<close>

text \<open>
  The same functions stand in \<^verbatim>\<open>pkg/scd/models/models.go\<close> and
  \<^verbatim>\<open>pkg/vrp/models/models.go\<close>.
\<close>

definition NoOvnPhrase :: string where "NoOvnPhrase = ''Available from USS''"

definition ovn_char :: "char \<Rightarrow> char" where
  "ovn_char c =
     (if c = CHR ''+'' then CHR ''-'' else if c = CHR ''/'' then CHR ''.''
      else if c = CHR ''='' then CHR ''_'' else c)"

definition NewOVNFromTime :: "ext \<Rightarrow> time \<Rightarrow> string \<Rightarrow> string" where
  "NewOVNFromTime x t salt =
     map ovn_char (x_sha256_b64 x (salt @ x_rfc3339 x (t div 1000000)))"

definition OVN_Valid :: "string \<Rightarrow> bool" where
  "OVN_Valid ovn \<longleftrightarrow> length ovn \<ge> 16 \<and> length ovn \<le> 128"

definition is_letter :: "char \<Rightarrow> bool" where
  "is_letter c \<longleftrightarrow> (let n = of_char c :: nat in 97 \<le> n \<and> n \<le> 122 \<or> 65 \<le> n \<and> n \<le> 90)"

definition is_scheme_char :: "char \<Rightarrow> bool" where
  "is_scheme_char c \<longleftrightarrow>
     (let n = of_char c :: nat in
      48 \<le> n \<and> n \<le> 57 \<or> c = CHR ''+'' \<or> c = CHR ''-'' \<or> c = CHR ''.'')"

definition to_lower_char :: "char \<Rightarrow> char" where
  "to_lower_char c =
     (let n = of_char c :: nat in if 65 \<le> n \<and> n \<le> 90 then char_of (n + 32) else c)"

definition ToLower :: "string \<Rightarrow> string" where
  "ToLower s = map to_lower_char s"

text \<open>
  The scheme of a URL, as \<^verbatim>\<open>net/url\<close> reads it: the letters, digits and signs before the
  first colon; none (the empty string) when another character comes first. A colon in the first
  position is an error.
\<close>

fun url_scheme_from :: "string \<Rightarrow> string \<Rightarrow> string option" where
  "url_scheme_from pre [] = Some ''''"
| "url_scheme_from pre (c # cs) =
     (if is_letter c then url_scheme_from (pre @ [c]) cs
      else if is_scheme_char c then
        (if pre = [] then Some '''' else url_scheme_from (pre @ [c]) cs)
      else if c = CHR '':'' then (if pre = [] then None else Some pre)
      else Some '''')"

definition url_parse_scheme :: "ext \<Rightarrow> string \<Rightarrow> string option" where
  "url_parse_scheme x s =
     (if x_url_ok x s then map_option ToLower (url_scheme_from [] s) else None)"

definition ValidateUSSBaseURL :: "ext \<Rightarrow> string \<Rightarrow> 'd err + unit" where
  "ValidateUSSBaseURL x s =
     (case url_parse_scheme x s of
        None \<Rightarrow> Inl (Propagate ExtErr)
      | Some scheme \<Rightarrow>
          if scheme = ''https'' then Inr ()
          else if scheme = ''http'' then Inl (NewError None)
          else Inl (NewError None))"

end
