(* ===== verification/Scd_Models.thy ===== *)
theory Scd_Models
  imports Dss_Models
begin

text \<open>
  Package \<^verbatim>\<open>pkg/scd/models\<close>: operational intents, subscriptions, constraints and the
  availability of a USS, their conversion to API messages, and their validation.
\<close>

section \<open>Operational intents\<close>

record operational_intent =
  oi_ID :: string
  oi_Manager :: string
  oi_Version :: "32 word"
  oi_State :: string
  oi_OVN :: string
  oi_StartTime :: "time option"
  oi_EndTime :: "time option"
  oi_USSBaseURL :: string
  oi_SubscriptionID :: string
  oi_AltitudeLower :: "real option"
  oi_AltitudeUpper :: "real option"
  oi_Cells :: cells

definition RequiresKey :: "string \<Rightarrow> bool" where
  "RequiresKey s = (if s = ''Nonconforming'' \<or> s = ''Contingent'' then False else True)"

definition IsValidInDSS :: "string \<Rightarrow> bool" where
  "IsValidInDSS s \<longleftrightarrow>
     s = ''Accepted'' \<or> s = ''Activated'' \<or> s = ''Nonconforming'' \<or> s = ''Contingent''"

record pb_operational_intent =
  poi_Id :: string
  poi_Ovn :: string
  poi_Manager :: string
  poi_Version :: "32 word"
  poi_UssBaseUrl :: string
  poi_SubscriptionId :: string
  poi_State :: string
  poi_UssAvailability :: string
  poi_TimeStart :: "pb_time option"
  poi_TimeEnd :: "pb_time option"

definition OperationalIntent_ToProto ::
    "ext \<Rightarrow> operational_intent \<Rightarrow> 'd err + pb_operational_intent" where
  "OperationalIntent_ToProto x oi =
     sbind (time_to_proto x (oi_StartTime oi)) (\<lambda>st.
     sbind (time_to_proto x (oi_EndTime oi)) (\<lambda>et.
     Inr \<lparr>poi_Id = oi_ID oi, poi_Ovn = oi_OVN oi, poi_Manager = oi_Manager oi,
          poi_Version = oi_Version oi, poi_UssBaseUrl = oi_USSBaseURL oi,
          poi_SubscriptionId = oi_SubscriptionID oi, poi_State = oi_State oi,
          poi_UssAvailability = ''Unknown'', poi_TimeStart = st, poi_TimeEnd = et\<rparr>))"

definition OperationalIntent_ValidateTimeRange :: "operational_intent \<Rightarrow> 'd err + unit" where
  "OperationalIntent_ValidateTimeRange oi =
     (case oi_StartTime oi of None \<Rightarrow> Inl (coded BadRequest)
      | Some st \<Rightarrow>
          (case oi_EndTime oi of None \<Rightarrow> Inl (coded BadRequest)
           | Some et \<Rightarrow> if time_sub et st < 0 then Inl (coded BadRequest) else Inr ()))"

section \<open>Subscriptions\<close>

text \<open>\<^verbatim>\<open>maxSubscriptionDuration\<close> is 24 hours and \<^verbatim>\<open>maxClockSkew\<close> 5 minutes.\<close>

definition maxSubscriptionDuration :: int where "maxSubscriptionDuration = minutes (24 * 60)"
definition maxClockSkew :: int where "maxClockSkew = minutes 5"

record subscription =
  sub_ID :: string
  sub_Version :: string
  sub_NotificationIndex :: int
  sub_Manager :: string
  sub_StartTime :: "time option"
  sub_EndTime :: "time option"
  sub_AltitudeHi :: "real option"
  sub_AltitudeLo :: "real option"
  sub_USSBaseURL :: string
  sub_NotifyForOperationalIntents :: bool
  sub_NotifyForConstraints :: bool
  sub_ImplicitSubscription :: bool
  sub_Cells :: cells

record pb_subscription =
  psub_Id :: string
  psub_Version :: string
  psub_NotificationIndex :: "32 word"
  psub_UssBaseUrl :: string
  psub_NotifyForOperationalIntents :: bool
  psub_NotifyForConstraints :: bool
  psub_ImplicitSubscription :: bool
  psub_TimeStart :: "pb_time option"
  psub_TimeEnd :: "pb_time option"
  psub_DependentOperationalIntents :: "string list"

definition Subscription_ToProto ::
    "ext \<Rightarrow> subscription \<Rightarrow> string list \<Rightarrow> 'd err + pb_subscription" where
  "Subscription_ToProto x s deps =
     sbind (time_to_proto x (sub_StartTime s)) (\<lambda>st.
     sbind (time_to_proto x (sub_EndTime s)) (\<lambda>et.
     Inr \<lparr>psub_Id = sub_ID s, psub_Version = sub_Version s,
          psub_NotificationIndex = word_of_int (sub_NotificationIndex s),
          psub_UssBaseUrl = sub_USSBaseURL s,
          psub_NotifyForOperationalIntents = sub_NotifyForOperationalIntents s,
          psub_NotifyForConstraints = sub_NotifyForConstraints s,
          psub_ImplicitSubscription = sub_ImplicitSubscription s,
          psub_TimeStart = st, psub_TimeEnd = et,
          psub_DependentOperationalIntents = deps\<rparr>))"

text \<open>
  \<open>adjust_times now start end old\<close>: the effect of \<^verbatim>\<open>AdjustTimeRange\<close> on the start and end
  of a subscription, \<open>old\<close> being the start and end of the one it replaces. Both packages
  \<^verbatim>\<open>scd\<close> and \<^verbatim>\<open>vrp\<close> have this code. An absent start (only possible when the
  replaced subscription has none) is dereferenced.
\<close>

definition adjust_times ::
    "time \<Rightarrow> time option \<Rightarrow> time option \<Rightarrow> (time option \<times> time option) option
     \<Rightarrow> 'd err + (time option \<times> time option)" where
  "adjust_times now st et old =
     sbind
       (case st of
          None \<Rightarrow> Inr (case old of None \<Rightarrow> Some now | Some (ost, oet) \<Rightarrow> ost)
        | Some b \<Rightarrow>
            if time_sub now b > maxClockSkew then Inl (coded BadRequest) else Inr (Some b))
       (\<lambda>st'.
     let et' = (if et = None then (case old of None \<Rightarrow> None | Some (ost, oet) \<Rightarrow> oet) else et) in
     case st' of
       None \<Rightarrow> Inl Panic
     | Some b \<Rightarrow>
         let e = (case et' of None \<Rightarrow> time_add b maxSubscriptionDuration | Some e \<Rightarrow> e) in
         if time_sub e b < 0 then Inl (coded BadRequest)
         else if time_sub e b > maxSubscriptionDuration then Inl (coded BadRequest)
         else Inr (Some b, Some e))"

definition Subscription_AdjustTimeRange ::
    "time \<Rightarrow> subscription \<Rightarrow> subscription option \<Rightarrow> 'd err + subscription" where
  "Subscription_AdjustTimeRange now s old =
     sbind (adjust_times now (sub_StartTime s) (sub_EndTime s)
              (map_option (\<lambda>q. (sub_StartTime q, sub_EndTime q)) old)) (\<lambda>(st, et).
     Inr (s\<lparr>sub_StartTime := st, sub_EndTime := et\<rparr>))"

text \<open>
  Validation against a dependent operational intent; every pointer is dereferenced without a
  check. (\<^verbatim>\<open>Duration.Minutes() > 5\<close> is a comparison of the duration with five minutes.)
\<close>

definition ValidateDependentOp ::
    "ext \<Rightarrow> subscription \<Rightarrow> operational_intent \<Rightarrow> 'd err + unit" where
  "ValidateDependentOp x s oi =
     (if \<not> s2_contains x (sub_Cells s) (oi_Cells oi) then Inl (NewError None)
      else case (oi_AltitudeLower oi, sub_AltitudeLo s) of
        (Some olo, Some slo) \<Rightarrow>
          (if olo < slo then Inl (NewError None)
           else case (oi_AltitudeUpper oi, sub_AltitudeHi s) of
             (Some ohi, Some shi) \<Rightarrow>
               (if ohi > shi then Inl (NewError None)
                else case (sub_StartTime s, oi_StartTime oi, oi_EndTime oi, sub_EndTime s) of
                  (Some sst, Some ost, Some oet, Some sen) \<Rightarrow>
                    (if time_sub sst ost > minutes 5 then Inl (NewError None)
                     else if oet > sen then Inl (NewError None)
                     else Inr ())
                | (Some sst, Some ost, _, _) \<Rightarrow>
                    (if time_sub sst ost > minutes 5 then Inl (NewError None) else Inl Panic)
                | _ \<Rightarrow> Inl Panic)
           | _ \<Rightarrow> Inl Panic)
      | _ \<Rightarrow> Inl Panic)"

text \<open>A nil operational intent in the list is dereferenced.\<close>

fun ValidateDependentOps ::
    "ext \<Rightarrow> subscription \<Rightarrow> operational_intent option list \<Rightarrow> 'd err + unit" where
  "ValidateDependentOps x s [] = Inr ()"
| "ValidateDependentOps x s (p # ps) =
     (case p of
        None \<Rightarrow> Inl Panic
      | Some oi \<Rightarrow>
          sbind (swrap (PropagateWithCode BadRequest) (ValidateDependentOp x s oi))
            (\<lambda>_. ValidateDependentOps x s ps))"

section \<open>Constraints\<close>

record constraint =
  con_ID :: string
  con_Manager :: string
  con_UssAvailability :: string
  con_Version :: "32 word"
  con_OVN :: string
  con_StartTime :: "time option"
  con_EndTime :: "time option"
  con_USSBaseURL :: string
  con_AltitudeLower :: "real option"
  con_AltitudeUpper :: "real option"
  con_Cells :: cells

record pb_constraint =
  pcon_Id :: string
  pcon_Ovn :: string
  pcon_Manager :: string
  pcon_Version :: "32 word"
  pcon_UssBaseUrl :: string
  pcon_UssAvailability :: string
  pcon_TimeStart :: "pb_time option"
  pcon_TimeEnd :: "pb_time option"

definition Constraint_ToProto :: "ext \<Rightarrow> constraint \<Rightarrow> 'd err + pb_constraint" where
  "Constraint_ToProto x c =
     sbind (time_to_proto x (con_StartTime c)) (\<lambda>st.
     sbind (time_to_proto x (con_EndTime c)) (\<lambda>et.
     Inr \<lparr>pcon_Id = con_ID c, pcon_Ovn = con_OVN c, pcon_Manager = con_Manager c,
          pcon_Version = con_Version c, pcon_UssBaseUrl = con_USSBaseURL c,
          pcon_UssAvailability = ''Unknown'', pcon_TimeStart = st, pcon_TimeEnd = et\<rparr>))"

definition Constraint_ValidateTimeRange :: "constraint \<Rightarrow> 'd err + unit" where
  "Constraint_ValidateTimeRange c =
     (case con_StartTime c of None \<Rightarrow> Inl (coded BadRequest)
      | Some st \<Rightarrow>
          (case con_EndTime c of None \<Rightarrow> Inl (coded BadRequest)
           | Some et \<Rightarrow> if time_sub et st < 0 then Inl (coded BadRequest) else Inr ()))"

section \<open>Availability of a USS\<close>

record uss_availability =
  ua_Uss :: string
  ua_Availability :: string
  ua_Version :: string

definition UssAvailabilityStateFromString :: "string \<Rightarrow> 'd err + string" where
  "UssAvailabilityStateFromString s =
     (let l = ToLower s in
      if l = '''' \<or> l = ''unknown'' then Inr ''Unknown''
      else if l = ''normal'' then Inr ''Normal''
      else if l = ''down'' then Inr ''Down''
      else Inl (NewError None))"

section \<open>The detail of a conflict response\<close>

text \<open>
  \<^verbatim>\<open>AirspaceConflictResponse\<close>: the references of the operational intents and constraints
  whose OVNs the client did not give. It is the detail of the status errors of the strategic
  coordination API.
\<close>

record airspace_conflict =
  ac_MissingOperationalIntents :: "pb_operational_intent list"
  ac_MissingConstraints :: "pb_constraint list"

type_synonym scd_err = "airspace_conflict err"

text \<open>
  \<^verbatim>\<open>MissingOVNsErrorResponse\<close> of \<^verbatim>\<open>pkg/scd/errors\<close>. (Serialising the detail does not
  fail.)
\<close>

definition MissingOVNsErrorResponse ::
    "ext \<Rightarrow> operational_intent list \<Rightarrow> constraint list \<Rightarrow> 'd err + airspace_conflict" where
  "MissingOVNsErrorResponse x ops cons =
     sbind (swrap Propagate (smap (OperationalIntent_ToProto x) ops)) (\<lambda>pops.
     sbind (swrap Propagate (smap (Constraint_ToProto x) cons)) (\<lambda>pcons.
     Inr \<lparr>ac_MissingOperationalIntents = pops, ac_MissingConstraints = pcons\<rparr>))"

section \<open>Lemmas\<close>

lemma adjust_times_Inr:
  assumes "adjust_times now st et old = Inr (st', et')"
  obtains b e where "st' = Some b" "et' = Some e" "b \<le> e" "e - b \<le> 24 * 60 * 60 * 10 ^ 6"
    "st = Some b \<longrightarrow> now - b \<le> 5 * 60 * 10 ^ 6"
    "st = None \<longrightarrow> (case old of None \<Rightarrow> b = now | Some (ost, oet) \<Rightarrow> ost = Some b)"
    "et = Some e \<or> et = None"
proof -
  have skew: "time_sub now b > maxClockSkew \<longleftrightarrow> now - b > 5 * 60 * 10 ^ 6" for b
    using time_sub_minutes [of 5 now b] by (simp add: maxClockSkew_def)
  have day: "time_sub e b > maxSubscriptionDuration \<longleftrightarrow> e - b > 24 * 60 * 60 * 10 ^ 6" for e b
    using time_sub_minutes [of "24 * 60" e b] by (simp add: maxSubscriptionDuration_def)
  show thesis
    using assms that
    by (cases et; cases "snd (the old)")
      (auto simp: adjust_times_def tx_inv Let_def skew day time_sub_neg
        split: option.split_asm if_split_asm prod.split_asm)
qed

lemma ValidateDependentOp_Inr:
  assumes "ValidateDependentOp x s oi = Inr u"
  obtains sst ost oet sen where "s2_contains x (sub_Cells s) (oi_Cells oi)"
    "sub_StartTime s = Some sst" "oi_StartTime oi = Some ost"
    "oi_EndTime oi = Some oet" "sub_EndTime s = Some sen"
    "sst - ost \<le> 5 * 60 * 10 ^ 6" "oet \<le> sen"
    "le_or_null (sub_AltitudeLo s) (oi_AltitudeLower oi)"
    "le_or_null (oi_AltitudeUpper oi) (sub_AltitudeHi s)"
proof -
  have m: "time_sub a b > minutes 5 \<longleftrightarrow> a - b > 5 * 60 * 10 ^ 6" for a b
    using time_sub_minutes [of 5 a b] by simp
  show thesis
    using assms that
    by (auto simp: ValidateDependentOp_def m split: if_splits option.splits)
qed

lemma ValidateDependentOps_Inr:
  "ValidateDependentOps x s ps = Inr u \<Longrightarrow> p \<in> set ps \<Longrightarrow>
     \<exists>oi. p = Some oi \<and> ValidateDependentOp x s oi = (Inr () :: unit err + unit)"
proof (induction ps)
  case (Cons q qs)
  have "ValidateDependentOp x s oi = (Inr v :: 'a err + unit) \<Longrightarrow>
      ValidateDependentOp x s oi = (Inr () :: unit err + unit)" for oi v
    by (auto simp: ValidateDependentOp_def split: if_splits option.splits)
  with Cons show ?case by (auto simp: tx_inv split: option.splits)
qed simp

end
