(* ===== verification/Dss_Refs.thy ===== *)
theory Dss_Refs
  imports Dss_Models
begin

text \<open>
  What the stores of \<^verbatim>\<open>pkg/scd\<close> and \<^verbatim>\<open>pkg/vrp\<close> share: the checks of the schemas, the
  statement that increments notification indices, and the integrity of two tables of which one
  refers to the other.
\<close>

section \<open>Statements\<close>

text \<open>\<^verbatim>\<open>CHECK (starts_at IS NULL OR ends_at IS NULL OR starts_at < ends_at)\<close>.\<close>

definition times_check :: "time option \<Rightarrow> time option \<Rightarrow> bool" where
  "times_check b e = (case b of None \<Rightarrow> True | Some b' \<Rightarrow> (case e of None \<Rightarrow> True | Some e' \<Rightarrow> b' < e'))"

definition check_violation :: "'d err" where
  "check_violation = Propagate (DbErr ''failed to satisfy CHECK constraint'')"

text \<open>The operator \<^verbatim>\<open>&&\<close> of two arrays.\<close>

definition cells_overlap :: "cells \<Rightarrow> cells \<Rightarrow> bool" where
  "cells_overlap a b \<longleftrightarrow> list_ex (\<lambda>c. c \<in> set b) a"

lemma cells_overlap_iff: "cells_overlap a b \<longleftrightarrow> set a \<inter> set b \<noteq> {}"
  by (auto simp: cells_overlap_def list_ex_iff)

definition pg_canonical :: "ext \<Rightarrow> string \<Rightarrow> bool" where
  "pg_canonical x k \<longleftrightarrow> x_pg_uuid x k = Some k"

definition uuid_idem :: "ext \<Rightarrow> bool" where
  "uuid_idem x \<longleftrightarrow> (\<forall>i u. x_pg_uuid x i = Some u \<longrightarrow> pg_canonical x u)"

lemma PgUUID_Inr [tx_inv]: "PgUUID x i = Inr u \<longleftrightarrow> x_pg_uuid x i = Some u"
  by (auto simp: PgUUID_def split: option.splits)

subsection \<open>Incrementing notification indices\<close>

text \<open>The ids that a call passes to the database, converted one by one.\<close>

definition pg_uuids :: "ext \<Rightarrow> string list \<Rightarrow> string list \<Rightarrow> bool" where
  "pg_uuids x ids uids \<longleftrightarrow> list_all2 (\<lambda>i u. x_pg_uuid x i = Some u) ids uids"

definition index_of :: "('r \<Rightarrow> int) \<Rightarrow> 'r table \<Rightarrow> string \<Rightarrow> int" where
  "index_of index t k = (case tbl_get t k of None \<Rightarrow> 0 | Some r \<Rightarrow> index r)"

text \<open>
  \<^verbatim>\<open>UPDATE ... WHERE id = ANY(ids) RETURNING notification_index\<close>: the new indices come back
  in the order \<open>x_returning\<close> of the rows updated. The column holds 32-bit integers.
\<close>

definition tbl_increment ::
    "ext \<Rightarrow> ('r \<Rightarrow> int) \<Rightarrow> ('r \<Rightarrow> 'r) \<Rightarrow> string list \<Rightarrow> ('d, 'r table, int list) tx" where
  "tbl_increment x index bump ids =
     bnd (wrap Propagate (of_sum (smap (\<lambda>i.
            case x_pg_uuid x i of None \<Rightarrow> Inl ExtErr | Some u \<Rightarrow> Inr u) ids))) (\<lambda>uids.
     bnd (gets (\<lambda>t. filter (\<lambda>kr. fst kr \<in> set uids) t)) (\<lambda>rows.
     seq (check (list_all (\<lambda>kr. index (snd kr) + 1 < 2 ^ 31) rows)
           (Propagate (DbErr ''integer out of range for type int4'')))
     (seq (modify (\<lambda>t. tbl_update_any uids bump t))
     (bnd (gets (\<lambda>t. map (index_of index t) (x_returning x (map fst rows)))) (\<lambda>indices.
     seq (check (length indices = length ids) (NewError None))
     (ret indices))))))"

lemma tbl_increment_Inr:
  assumes "tbl_increment x index bump ids t = (Inr (r, t') :: 'd err + _)"
  obtains uids where "pg_uuids x ids uids"
    "\<And>k q. k \<in> set uids \<Longrightarrow> tbl_get t k = Some q \<Longrightarrow> index q + 1 < 2 ^ 31"
    "t' = tbl_update_any uids bump t"
    "r = map (index_of index (tbl_update_any uids bump t))
           (x_returning x (map fst (filter (\<lambda>kr. fst kr \<in> set uids) t)))"
    "length r = length ids"
proof -
  have pg: "smap (\<lambda>i. case x_pg_uuid x i of None \<Rightarrow> Inl ExtErr | Some u \<Rightarrow> Inr u) ids =
      (Inr uids :: 'd err + _) \<longleftrightarrow> pg_uuids x ids uids" for uids
    unfolding smap_Inr pg_uuids_def
    by (rule arg_cong [where f = "\<lambda>P. list_all2 P ids uids"]) (auto split: option.splits intro!: ext)
  from assms obtain uids where *: "pg_uuids x ids uids"
    "list_all (\<lambda>kr. index (snd kr) + 1 < 2 ^ 31) (filter (\<lambda>kr. fst kr \<in> set uids) t)"
    "t' = tbl_update_any uids bump t"
    "r = map (index_of index (tbl_update_any uids bump t))
           (x_returning x (map fst (filter (\<lambda>kr. fst kr \<in> set uids) t)))"
    "length r = length ids"
    unfolding tbl_increment_def tx_inv pg by auto
  show thesis
  proof (rule that [OF *(1) _ *(3-5)])
    fix k q assume "k \<in> set uids" and "tbl_get t k = Some q"
    with *(2) show "index q + 1 < 2 ^ 31" by (auto simp: list_all_iff dest!: tbl_get_in)
  qed
qed

section \<open>Times\<close>

text \<open>
  A subscription's times \<open>sb\<close>, \<open>se\<close> support those of an operational intent \<open>ob\<close>, \<open>oe\<close>: it runs
  from at most five minutes after the start until at least the end. Five minutes is what
  \<^verbatim>\<open>ValidateDependentOp\<close> tolerates.
\<close>

definition times_support ::
    "time option \<Rightarrow> time option \<Rightarrow> time option \<Rightarrow> time option \<Rightarrow> bool" where
  "times_support sb se ob oe \<longleftrightarrow>
     (case (sb, se, ob, oe) of
        (Some sb', Some se', Some ob', Some oe') \<Rightarrow> sb' \<le> ob' + 5 * 60 * 10 ^ 6 \<and> oe' \<le> se'
      | _ \<Rightarrow> False)"

lemma times_support_le:
  "le_or_null sb (Some st) \<Longrightarrow> le_or_null (Some et) se \<Longrightarrow> sb \<noteq> None \<Longrightarrow> se \<noteq> None \<Longrightarrow>
     times_support sb se (Some st) (Some et)"
  by (auto simp: times_support_def)

definition times_ordered :: "time option \<Rightarrow> time option \<Rightarrow> bool" where
  "times_ordered b e \<longleftrightarrow>
     (case (b, e) of (Some b', Some e') \<Rightarrow> b' < e' | _ \<Rightarrow> False)"

section \<open>References\<close>

text \<open>
  Two tables of which one refers to the other, as operational intents refer to the
  subscription that supports them, in the strategic coordination database and in the vertiport
  database alike. \<open>refs_ok\<close> is the integrity of such a pair of tables, \<open>supported\<close> the
  interface under which the statements the stores run preserve it.
\<close>

definition refs_ok ::
    "(string \<Rightarrow> bool) \<Rightarrow> ('o \<Rightarrow> string) \<Rightarrow> ('s \<Rightarrow> 'o \<Rightarrow> bool) \<Rightarrow> ('s \<Rightarrow> bool)
     \<Rightarrow> 'o table \<Rightarrow> 's table \<Rightarrow> bool" where
  "refs_ok canon op_sub supports sub_ok ops subs \<longleftrightarrow>
     tbl_wf ops \<and> tbl_wf subs \<and>
     (\<forall>k r. tbl_get ops k = Some r \<longrightarrow>
        canon k \<and> (\<exists>s. tbl_get subs (op_sub r) = Some s \<and> supports s r)) \<and>
     (\<forall>k s. tbl_get subs k = Some s \<longrightarrow> canon k \<and> sub_ok s)"

locale supported =
  fixes canon :: "string \<Rightarrow> bool"
    and op_sub :: "'o \<Rightarrow> string"
    and supports :: "'s \<Rightarrow> 'o \<Rightarrow> bool"
    and sub_ok :: "'s \<Rightarrow> bool"
    and bump :: "'s \<Rightarrow> 's"
    and room :: "'s \<Rightarrow> bool"
  assumes bump_supports: "supports (bump s) r \<longleftrightarrow> supports s r"
    and bump_sub_ok: "sub_ok s \<Longrightarrow> room s \<Longrightarrow> sub_ok (bump s)"
begin

lemma refs_op:
  "refs_ok canon op_sub supports sub_ok ops subs \<Longrightarrow> tbl_get ops k = Some r \<Longrightarrow>
     canon k \<and> (\<exists>s. tbl_get subs (op_sub r) = Some s \<and> supports s r)"
  by (simp add: refs_ok_def)

lemma refs_sub:
  "refs_ok canon op_sub supports sub_ok ops subs \<Longrightarrow> tbl_get subs k = Some s \<Longrightarrow>
     canon k \<and> sub_ok s"
  by (simp add: refs_ok_def)

lemma refs_wf:
  "refs_ok canon op_sub supports sub_ok ops subs \<Longrightarrow> tbl_wf ops \<and> tbl_wf subs"
  by (simp add: refs_ok_def)

lemma put_op:
  assumes "refs_ok canon op_sub supports sub_ok ops subs" and "canon k"
    and "tbl_get subs (op_sub r) = Some s" and "supports s r"
  shows "refs_ok canon op_sub supports sub_ok (tbl_upsert k r ops) subs"
  using assms by (auto simp: refs_ok_def tbl_laws tbl_wf_laws)

lemma delete_op:
  assumes "refs_ok canon op_sub supports sub_ok ops subs"
  shows "refs_ok canon op_sub supports sub_ok (tbl_delete k ops) subs"
  using assms by (auto simp: refs_ok_def tbl_laws tbl_wf_laws split: if_splits)

lemma change_sub:
  assumes "refs_ok canon op_sub supports sub_ok ops subs" and "canon k" and "sub_ok s"
    and "\<And>k' r. tbl_get ops k' = Some r \<Longrightarrow> op_sub r = k \<Longrightarrow> supports s r"
  shows "refs_ok canon op_sub supports sub_ok ops (tbl_upsert k s subs)"
  using assms by (auto simp: refs_ok_def tbl_laws tbl_wf_laws)

lemma new_sub:
  assumes "refs_ok canon op_sub supports sub_ok ops subs" and "canon k" and "sub_ok s"
    and "tbl_get subs k = None"
  shows "refs_ok canon op_sub supports sub_ok ops (tbl_upsert k s subs)"
  using assms(1-3) by (rule change_sub) (use assms(1,4) in \<open>auto dest: refs_op\<close>)

lemma widen_sub:
  assumes "refs_ok canon op_sub supports sub_ok ops subs" and "canon k" and "sub_ok s"
    and "tbl_get subs k = Some s0" and "\<And>r. supports s0 r \<Longrightarrow> supports s r"
  shows "refs_ok canon op_sub supports sub_ok ops (tbl_upsert k s subs)"
  using assms(1-3) by (rule change_sub) (use assms(1,4,5) in \<open>auto dest!: refs_op\<close>)

lemma delete_sub:
  assumes "refs_ok canon op_sub supports sub_ok ops subs"
  shows "refs_ok canon op_sub supports sub_ok
    (tbl_delete_where (\<lambda>r. op_sub r = k) ops) (tbl_delete k subs)"
  using assms
  by (auto simp: refs_ok_def tbl_laws tbl_wf_laws split: option.splits if_splits)

lemma bump_subs:
  assumes refs: "refs_ok canon op_sub supports sub_ok ops subs"
    and room: "\<And>k s. k \<in> set ks \<Longrightarrow> tbl_get subs k = Some s \<Longrightarrow> room s"
  shows "refs_ok canon op_sub supports sub_ok ops (tbl_update_any ks bump subs)"
  unfolding refs_ok_def
proof (intro conjI allI impI)
  show "tbl_wf ops" and "tbl_wf (tbl_update_any ks bump subs)"
    using refs by (simp_all add: refs_ok_def tbl_wf_laws)
next
  fix k r assume r: "tbl_get ops k = Some r"
  from refs_op [OF refs r] show "canon k" by simp
  from refs_op [OF refs r] obtain s where "tbl_get subs (op_sub r) = Some s" "supports s r"
    by blast
  then show "\<exists>s. tbl_get (tbl_update_any ks bump subs) (op_sub r) = Some s \<and> supports s r"
    by (simp add: tbl_laws bump_supports)
next
  fix k s assume "tbl_get (tbl_update_any ks bump subs) k = Some s"
  then obtain s0 where s0: "tbl_get subs k = Some s0" "s = (if k \<in> set ks then bump s0 else s0)"
    by (auto simp: tbl_laws)
  from refs_sub [OF refs s0(1)] have "canon k" "sub_ok s0" by auto
  then show "canon k" "sub_ok s" using s0 room [OF _ s0(1)] by (auto intro: bump_sub_ok)
qed

end

end
