(* ===== verification/Scd_Store.thy ===== *)
theory Scd_Store
  imports Scd_Models Dss_Refs
begin

text \<open>
  Packages \<^verbatim>\<open>pkg/scd/repos\<close> and \<^verbatim>\<open>pkg/scd/store/cockroach\<close>: the tables of the strategic
  coordination database and the statements the repository runs on them. A statement fails as
  the schema in \<^verbatim>\<open>build/deploy/db_schemas/scd\<close> makes it fail; the loss of the connection is
  not modelled.
\<close>

section \<open>The database\<close>

record op_row =
  opr_owner :: string
  opr_version :: "32 word"
  opr_url :: string
  opr_altitude_lower :: "real option"
  opr_altitude_upper :: "real option"
  opr_starts_at :: "time option"
  opr_ends_at :: "time option"
  opr_subscription_id :: string
  opr_updated_at :: time
  opr_state :: string
  opr_cells :: cells

record sub_row =
  sbr_owner :: string
  sbr_version :: int
  sbr_url :: string
  sbr_notification_index :: int
  sbr_notify_for_operations :: bool
  sbr_notify_for_constraints :: bool
  sbr_implicit :: bool
  sbr_starts_at :: "time option"
  sbr_ends_at :: "time option"
  sbr_cells :: cells
  sbr_updated_at :: time

record con_row =
  cnr_owner :: string
  cnr_version :: "32 word"
  cnr_url :: string
  cnr_altitude_lower :: "real option"
  cnr_altitude_upper :: "real option"
  cnr_starts_at :: "time option"
  cnr_ends_at :: "time option"
  cnr_cells :: cells
  cnr_updated_at :: time

record avail_row =
  avr_availability :: string
  avr_updated_at :: time

text \<open>The availability table does not exist before schema version 3.1.\<close>

record scd_db =
  db_ops :: "op_row table"
  db_subs :: "sub_row table"
  db_cons :: "con_row table"
  db_avail :: "avail_row table option"

type_synonym 'a scd_tx = "(airspace_conflict, scd_db, 'a) tx"

section \<open>Operational intents\<close>

definition fetch_op :: "ext \<Rightarrow> string \<times> op_row \<Rightarrow> operational_intent" where
  "fetch_op x kr = (case kr of (k, r) \<Rightarrow>
     \<lparr>oi_ID = k, oi_Manager = opr_owner r, oi_Version = opr_version r, oi_State = opr_state r,
      oi_OVN = NewOVNFromTime x (opr_updated_at r) k,
      oi_StartTime = opr_starts_at r, oi_EndTime = opr_ends_at r, oi_USSBaseURL = opr_url r,
      oi_SubscriptionID = opr_subscription_id r,
      oi_AltitudeLower = opr_altitude_lower r, oi_AltitudeUpper = opr_altitude_upper r,
      oi_Cells = opr_cells r\<rparr>)"

definition scd_GetOperationalIntent :: "ext \<Rightarrow> string \<Rightarrow> operational_intent option scd_tx" where
  "scd_GetOperationalIntent x i =
     bnd (wrap Propagate (of_sum (PgUUID x i))) (\<lambda>uid.
     gets (\<lambda>db. map_option (\<lambda>r. fetch_op x (uid, r)) (tbl_get (db_ops db) uid)))"

definition scd_DeleteOperationalIntent :: "ext \<Rightarrow> string \<Rightarrow> unit scd_tx" where
  "scd_DeleteOperationalIntent x i =
     bnd (wrap Propagate (of_sum (PgUUID x i))) (\<lambda>uid.
     bnd (gets (\<lambda>db. tbl_get (db_ops db) uid)) (\<lambda>r.
     seq (check (r \<noteq> None) (NewError None))
         (modify (\<lambda>db. db\<lparr>db_ops := tbl_delete uid (db_ops db)\<rparr>))))"

definition op_row_of :: "time \<Rightarrow> string \<Rightarrow> operational_intent \<Rightarrow> op_row" where
  "op_row_of ts subid oi =
     \<lparr>opr_owner = oi_Manager oi, opr_version = oi_Version oi, opr_url = oi_USSBaseURL oi,
      opr_altitude_lower = oi_AltitudeLower oi, opr_altitude_upper = oi_AltitudeUpper oi,
      opr_starts_at = oi_StartTime oi, opr_ends_at = oi_EndTime oi,
      opr_subscription_id = subid, opr_updated_at = ts, opr_state = oi_State oi,
      opr_cells = oi_Cells oi\<rparr>"

text \<open>\<open>ts\<close> is the time stamp of the transaction. The subscription is a foreign key.\<close>

definition scd_UpsertOperationalIntent ::
    "ext \<Rightarrow> time \<Rightarrow> operational_intent \<Rightarrow> operational_intent scd_tx" where
  "scd_UpsertOperationalIntent x ts oi =
     bnd (wrap Propagate (of_sum (PgUUID x (oi_ID oi)))) (\<lambda>opid.
     bnd (wrap Propagate (of_sum (PgUUID x (oi_SubscriptionID oi)))) (\<lambda>subid.
     seq (check (times_check (oi_StartTime oi) (oi_EndTime oi)) (Propagate check_violation))
     (bnd (gets (\<lambda>db. tbl_get (db_subs db) subid)) (\<lambda>s.
     seq (check (s \<noteq> None) (Propagate (Propagate (DbErr ''violates foreign key constraint''))))
     (seq (modify (\<lambda>db. db\<lparr>db_ops := tbl_upsert opid (op_row_of ts subid oi) (db_ops db)\<rparr>))
     (ret (fetch_op x (opid, op_row_of ts subid oi))))))))"

definition op_matches :: "cells \<Rightarrow> volume4d \<Rightarrow> volume3d \<Rightarrow> op_row \<Rightarrow> bool" where
  "op_matches cs v4d v3 r \<longleftrightarrow>
     cells_overlap (opr_cells r) cs \<and>
     le_or_null (AltitudeLo v3) (opr_altitude_upper r) \<and>
     le_or_null (opr_altitude_lower r) (AltitudeHi v3) \<and>
     le_or_null (StartTime v4d) (opr_ends_at r) \<and>
     le_or_null (opr_starts_at r) (EndTime v4d)"

definition scd_SearchOperationalIntents :: "ext \<Rightarrow> volume4d \<Rightarrow> operational_intent list scd_tx" where
  "scd_SearchOperationalIntents x v4d =
     (case SpatialVolume v4d of
        None \<Rightarrow> fail (coded BadRequest)
      | Some v3 \<Rightarrow>
          (case Footprint v3 of
             None \<Rightarrow> fail (coded BadRequest)
           | Some g \<Rightarrow>
               bnd (wrap (PropagateWithCode BadRequest) (of_sum (geometry_covering x g))) (\<lambda>cs.
               seq (check (cs \<noteq> []) (coded BadRequest))
               (gets (\<lambda>db. map (fetch_op x)
                  (limit_rows (tbl_select (op_matches cs v4d v3) (db_ops db))))))))"

definition scd_GetDependentOperationalIntents :: "ext \<Rightarrow> string \<Rightarrow> string list scd_tx" where
  "scd_GetDependentOperationalIntents x i =
     bnd (wrap Propagate (of_sum (PgUUID x i))) (\<lambda>subid.
     gets (\<lambda>db. map fst (tbl_select (\<lambda>r. opr_subscription_id r = subid) (db_ops db))))"

section \<open>Subscriptions\<close>

text \<open>The altitudes of a subscription are not stored.\<close>

definition fetch_sub :: "ext \<Rightarrow> string \<times> sub_row \<Rightarrow> subscription" where
  "fetch_sub x kr = (case kr of (k, r) \<Rightarrow>
     \<lparr>sub_ID = k, sub_Version = NewOVNFromTime x (sbr_updated_at r) k,
      sub_NotificationIndex = sbr_notification_index r, sub_Manager = sbr_owner r,
      sub_StartTime = sbr_starts_at r, sub_EndTime = sbr_ends_at r,
      sub_AltitudeHi = None, sub_AltitudeLo = None, sub_USSBaseURL = sbr_url r,
      sub_NotifyForOperationalIntents = sbr_notify_for_operations r,
      sub_NotifyForConstraints = sbr_notify_for_constraints r,
      sub_ImplicitSubscription = sbr_implicit r, sub_Cells = sbr_cells r\<rparr>)"

definition scd_GetSubscription :: "ext \<Rightarrow> string \<Rightarrow> subscription option scd_tx" where
  "scd_GetSubscription x i =
     bnd (wrap Propagate (of_sum (PgUUID x i))) (\<lambda>uid.
     gets (\<lambda>db. map_option (\<lambda>r. fetch_sub x (uid, r)) (tbl_get (db_subs db) uid)))"

definition sub_row_of :: "time \<Rightarrow> subscription \<Rightarrow> sub_row" where
  "sub_row_of ts s =
     \<lparr>sbr_owner = sub_Manager s, sbr_version = 0, sbr_url = sub_USSBaseURL s,
      sbr_notification_index = sub_NotificationIndex s,
      sbr_notify_for_operations = sub_NotifyForOperationalIntents s,
      sbr_notify_for_constraints = sub_NotifyForConstraints s,
      sbr_implicit = sub_ImplicitSubscription s,
      sbr_starts_at = sub_StartTime s, sbr_ends_at = sub_EndTime s,
      sbr_cells = sub_Cells s, sbr_updated_at = ts\<rparr>"

definition scd_UpsertSubscription :: "ext \<Rightarrow> time \<Rightarrow> subscription \<Rightarrow> subscription scd_tx" where
  "scd_UpsertSubscription x ts s =
     bnd (wrap Propagate (of_sum (PgUUID x (sub_ID s)))) (\<lambda>uid.
     seq (check (times_check (sub_StartTime s) (sub_EndTime s) \<and>
                 (sub_NotifyForOperationalIntents s \<or> sub_NotifyForConstraints s))
           (Propagate check_violation))
     (seq (modify (\<lambda>db. db\<lparr>db_subs := tbl_upsert uid (sub_row_of ts s) (db_subs db)\<rparr>))
     (ret ((fetch_sub x (uid, sub_row_of ts s))\<lparr>sub_Cells := sub_Cells s\<rparr>))))"

text \<open>Operational intents that refer to the subscription are deleted with it.\<close>

definition scd_DeleteSubscription :: "ext \<Rightarrow> string \<Rightarrow> unit scd_tx" where
  "scd_DeleteSubscription x i =
     bnd (wrap Propagate (of_sum (PgUUID x i))) (\<lambda>uid.
     bnd (gets (\<lambda>db. tbl_get (db_subs db) uid)) (\<lambda>r.
     seq (check (r \<noteq> None) (NewError None))
         (modify (\<lambda>db. db\<lparr>db_subs := tbl_delete uid (db_subs db),
            db_ops := tbl_delete_where (\<lambda>o'. opr_subscription_id o' = uid) (db_ops db)\<rparr>))))"

definition sub_matches :: "cells \<Rightarrow> volume4d \<Rightarrow> sub_row \<Rightarrow> bool" where
  "sub_matches cs v4d r \<longleftrightarrow>
     cells_overlap (sbr_cells r) cs \<and>
     le_or_null (sbr_starts_at r) (EndTime v4d) \<and>
     le_or_null (StartTime v4d) (sbr_ends_at r)"

definition scd_SearchSubscriptions :: "ext \<Rightarrow> volume4d \<Rightarrow> subscription list scd_tx" where
  "scd_SearchSubscriptions x v4d =
     bnd (wrap Propagate (of_sum (CalculateSpatialCovering x v4d))) (\<lambda>cs.
     if cs = [] then ret []
     else gets (\<lambda>db. map (fetch_sub x)
            (limit_rows (tbl_select (sub_matches cs v4d) (db_subs db)))))"

definition bump_sub :: "sub_row \<Rightarrow> sub_row" where
  "bump_sub r = r\<lparr>sbr_notification_index := sbr_notification_index r + 1\<rparr>"

definition scd_IncrementNotificationIndices :: "ext \<Rightarrow> string list \<Rightarrow> int list scd_tx" where
  "scd_IncrementNotificationIndices x ids =
     on_part db_subs (\<lambda>t db. db\<lparr>db_subs := t\<rparr>)
       (tbl_increment x sbr_notification_index bump_sub ids)"

text \<open>The utility of \<^verbatim>\<open>pkg/scd/repos\<close> that writes the returned indices into the slice.\<close>

definition scd_subs_IncrementNotificationIndices ::
    "ext \<Rightarrow> subscription list \<Rightarrow> subscription list scd_tx" where
  "scd_subs_IncrementNotificationIndices x ss =
     bnd (scd_IncrementNotificationIndices x (map sub_ID ss)) (\<lambda>newIndices.
     ret (map2 (\<lambda>s n. s\<lparr>sub_NotificationIndex := n\<rparr>) ss newIndices))"

section \<open>Constraints\<close>

definition fetch_con :: "ext \<Rightarrow> string \<times> con_row \<Rightarrow> constraint" where
  "fetch_con x kr = (case kr of (k, r) \<Rightarrow>
     \<lparr>con_ID = k, con_Manager = cnr_owner r, con_UssAvailability = '''',
      con_Version = cnr_version r, con_OVN = NewOVNFromTime x (cnr_updated_at r) k,
      con_StartTime = cnr_starts_at r, con_EndTime = cnr_ends_at r, con_USSBaseURL = cnr_url r,
      con_AltitudeLower = cnr_altitude_lower r, con_AltitudeUpper = cnr_altitude_upper r,
      con_Cells = CellUnionFromInt64 (cnr_cells r)\<rparr>)"

definition scd_GetConstraint :: "ext \<Rightarrow> string \<Rightarrow> constraint scd_tx" where
  "scd_GetConstraint x i =
     bnd (wrap Propagate (of_sum (PgUUID x i))) (\<lambda>uid.
     bnd (gets (\<lambda>db. tbl_get (db_cons db) uid)) (\<lambda>r.
     case r of None \<Rightarrow> fail ErrNoRows | Some r' \<Rightarrow> ret (fetch_con x (uid, r'))))"

definition con_row_of :: "time \<Rightarrow> constraint \<Rightarrow> con_row" where
  "con_row_of ts c =
     \<lparr>cnr_owner = con_Manager c, cnr_version = con_Version c, cnr_url = con_USSBaseURL c,
      cnr_altitude_lower = con_AltitudeLower c, cnr_altitude_upper = con_AltitudeUpper c,
      cnr_starts_at = con_StartTime c, cnr_ends_at = con_EndTime c,
      cnr_cells = con_Cells c, cnr_updated_at = ts\<rparr>"

text \<open>The column \<^verbatim>\<open>cells\<close> of this table must not be empty.\<close>

definition scd_UpsertConstraint :: "ext \<Rightarrow> time \<Rightarrow> constraint \<Rightarrow> constraint scd_tx" where
  "scd_UpsertConstraint x ts c =
     bnd (wrap Propagate (of_sum (smap (ValidateCell x) (con_Cells c)))) (\<lambda>_.
     bnd (wrap Propagate (of_sum (PgUUID x (con_ID c)))) (\<lambda>uid.
     seq (check (times_check (con_StartTime c) (con_EndTime c) \<and> con_Cells c \<noteq> [])
           (Propagate check_violation))
     (seq (modify (\<lambda>db. db\<lparr>db_cons := tbl_upsert uid (con_row_of ts c) (db_cons db)\<rparr>))
     (ret (fetch_con x (uid, con_row_of ts c))))))"

definition scd_DeleteConstraint :: "ext \<Rightarrow> string \<Rightarrow> unit scd_tx" where
  "scd_DeleteConstraint x i =
     bnd (wrap Propagate (of_sum (PgUUID x i))) (\<lambda>uid.
     bnd (gets (\<lambda>db. tbl_get (db_cons db) uid)) (\<lambda>r.
     seq (check (r \<noteq> None) ErrNoRows)
         (modify (\<lambda>db. db\<lparr>db_cons := tbl_delete uid (db_cons db)\<rparr>))))"

definition con_matches :: "cells \<Rightarrow> volume4d \<Rightarrow> con_row \<Rightarrow> bool" where
  "con_matches cs v4d r \<longleftrightarrow>
     cells_overlap (cnr_cells r) cs \<and>
     le_or_null (cnr_starts_at r) (EndTime v4d) \<and>
     le_or_null (StartTime v4d) (cnr_ends_at r)"

definition scd_SearchConstraints :: "ext \<Rightarrow> volume4d \<Rightarrow> constraint list scd_tx" where
  "scd_SearchConstraints x v4d =
     bnd (wrap Propagate (of_sum (CalculateSpatialCovering x v4d))) (\<lambda>cs.
     if cs = [] then ret []
     else gets (\<lambda>db. map (fetch_con x)
            (limit_rows (tbl_select (con_matches cs v4d) (db_cons db)))))"

section \<open>Availability\<close>

definition fetch_avail :: "ext \<Rightarrow> string \<times> avail_row \<Rightarrow> uss_availability" where
  "fetch_avail x kr = (case kr of (k, r) \<Rightarrow>
     \<lparr>ua_Uss = k, ua_Availability = avr_availability r,
      ua_Version = NewOVNFromTime x (avr_updated_at r) k\<rparr>)"

definition no_avail_table :: "'d err" where
  "no_avail_table =
     Propagate (DbErr ''relation \"scd_uss_availability\" does not exist'')"

definition scd_UpsertUssAvailability ::
    "ext \<Rightarrow> time \<Rightarrow> uss_availability \<Rightarrow> uss_availability scd_tx" where
  "scd_UpsertUssAvailability x ts u =
     bnd (gets db_avail) (\<lambda>t.
     case t of
       None \<Rightarrow> fail (Propagate no_avail_table)
     | Some t' \<Rightarrow>
         let r = \<lparr>avr_availability = ua_Availability u, avr_updated_at = ts\<rparr> in
         seq (modify (\<lambda>db. db\<lparr>db_avail := Some (tbl_upsert (ua_Uss u) r t')\<rparr>))
         (ret (fetch_avail x (ua_Uss u, r))))"

definition scd_GetUssAvailability :: "ext \<Rightarrow> string \<Rightarrow> uss_availability scd_tx" where
  "scd_GetUssAvailability x uss =
     bnd (gets db_avail) (\<lambda>t.
     case t of
       None \<Rightarrow> fail no_avail_table
     | Some t' \<Rightarrow>
         (case tbl_get t' uss of
            None \<Rightarrow> fail ErrNoRows | Some r \<Rightarrow> ret (fetch_avail x (uss, r))))"

section \<open>What the statements do\<close>

text \<open>The fields of a row that was read, and of a row that is written.\<close>

lemma fetch_op_simps [simp]:
  "oi_ID (fetch_op x (k, r)) = k"
  "oi_Manager (fetch_op x (k, r)) = opr_owner r"
  "oi_Version (fetch_op x (k, r)) = opr_version r"
  "oi_State (fetch_op x (k, r)) = opr_state r"
  "oi_OVN (fetch_op x (k, r)) = NewOVNFromTime x (opr_updated_at r) k"
  "oi_StartTime (fetch_op x (k, r)) = opr_starts_at r"
  "oi_EndTime (fetch_op x (k, r)) = opr_ends_at r"
  "oi_USSBaseURL (fetch_op x (k, r)) = opr_url r"
  "oi_SubscriptionID (fetch_op x (k, r)) = opr_subscription_id r"
  "oi_AltitudeLower (fetch_op x (k, r)) = opr_altitude_lower r"
  "oi_AltitudeUpper (fetch_op x (k, r)) = opr_altitude_upper r"
  "oi_Cells (fetch_op x (k, r)) = opr_cells r"
  by (simp_all add: fetch_op_def)

lemma fetch_sub_simps [simp]:
  "sub_ID (fetch_sub x (k, r)) = k"
  "sub_Version (fetch_sub x (k, r)) = NewOVNFromTime x (sbr_updated_at r) k"
  "sub_NotificationIndex (fetch_sub x (k, r)) = sbr_notification_index r"
  "sub_Manager (fetch_sub x (k, r)) = sbr_owner r"
  "sub_StartTime (fetch_sub x (k, r)) = sbr_starts_at r"
  "sub_EndTime (fetch_sub x (k, r)) = sbr_ends_at r"
  "sub_AltitudeHi (fetch_sub x (k, r)) = None"
  "sub_AltitudeLo (fetch_sub x (k, r)) = None"
  "sub_USSBaseURL (fetch_sub x (k, r)) = sbr_url r"
  "sub_NotifyForOperationalIntents (fetch_sub x (k, r)) = sbr_notify_for_operations r"
  "sub_NotifyForConstraints (fetch_sub x (k, r)) = sbr_notify_for_constraints r"
  "sub_ImplicitSubscription (fetch_sub x (k, r)) = sbr_implicit r"
  "sub_Cells (fetch_sub x (k, r)) = sbr_cells r"
  by (simp_all add: fetch_sub_def)

lemma fetch_con_simps [simp]:
  "con_ID (fetch_con x (k, r)) = k"
  "con_Manager (fetch_con x (k, r)) = cnr_owner r"
  "con_Version (fetch_con x (k, r)) = cnr_version r"
  "con_OVN (fetch_con x (k, r)) = NewOVNFromTime x (cnr_updated_at r) k"
  "con_StartTime (fetch_con x (k, r)) = cnr_starts_at r"
  "con_EndTime (fetch_con x (k, r)) = cnr_ends_at r"
  "con_USSBaseURL (fetch_con x (k, r)) = cnr_url r"
  "con_Cells (fetch_con x (k, r)) = CellUnionFromInt64 (cnr_cells r)"
  by (simp_all add: fetch_con_def)

lemma sub_row_of_simps [simp]:
  "sbr_owner (sub_row_of ts s) = sub_Manager s"
  "sbr_notification_index (sub_row_of ts s) = sub_NotificationIndex s"
  "sbr_notify_for_operations (sub_row_of ts s) = sub_NotifyForOperationalIntents s"
  "sbr_notify_for_constraints (sub_row_of ts s) = sub_NotifyForConstraints s"
  "sbr_implicit (sub_row_of ts s) = sub_ImplicitSubscription s"
  "sbr_starts_at (sub_row_of ts s) = sub_StartTime s"
  "sbr_ends_at (sub_row_of ts s) = sub_EndTime s"
  "sbr_cells (sub_row_of ts s) = sub_Cells s"
  "sbr_updated_at (sub_row_of ts s) = ts"
  by (simp_all add: sub_row_of_def)

lemma op_row_of_simps [simp]:
  "opr_owner (op_row_of ts subid oi) = oi_Manager oi"
  "opr_version (op_row_of ts subid oi) = oi_Version oi"
  "opr_starts_at (op_row_of ts subid oi) = oi_StartTime oi"
  "opr_ends_at (op_row_of ts subid oi) = oi_EndTime oi"
  "opr_subscription_id (op_row_of ts subid oi) = subid"
  "opr_updated_at (op_row_of ts subid oi) = ts"
  "opr_state (op_row_of ts subid oi) = oi_State oi"
  "opr_cells (op_row_of ts subid oi) = oi_Cells oi"
  "opr_altitude_lower (op_row_of ts subid oi) = oi_AltitudeLower oi"
  "opr_altitude_upper (op_row_of ts subid oi) = oi_AltitudeUpper oi"
  by (simp_all add: op_row_of_def)

lemma con_row_of_simps [simp]:
  "cnr_owner (con_row_of ts c) = con_Manager c"
  "cnr_version (con_row_of ts c) = con_Version c"
  "cnr_starts_at (con_row_of ts c) = con_StartTime c"
  "cnr_ends_at (con_row_of ts c) = con_EndTime c"
  "cnr_cells (con_row_of ts c) = con_Cells c"
  "cnr_updated_at (con_row_of ts c) = ts"
  by (simp_all add: con_row_of_def)

lemma pure_gets_ops [pure_intros]:
  "pure_tx (scd_GetOperationalIntent x i)"
  "pure_tx (scd_GetDependentOperationalIntents x i)"
  "pure_tx (scd_GetSubscription x i)"
  "pure_tx (scd_GetConstraint x i)"
  "pure_tx (scd_GetUssAvailability x i)"
  unfolding scd_GetOperationalIntent_def scd_GetDependentOperationalIntents_def
    scd_GetSubscription_def scd_GetConstraint_def scd_GetUssAvailability_def
  by (auto intro!: pure_intros split: option.splits)

lemma pure_searches [pure_intros]:
  "pure_tx (scd_SearchOperationalIntents x v)"
  "pure_tx (scd_SearchSubscriptions x v)"
  "pure_tx (scd_SearchConstraints x v)"
  unfolding scd_SearchOperationalIntents_def scd_SearchSubscriptions_def scd_SearchConstraints_def
  by (auto intro!: pure_intros split: option.splits)

lemma scd_GetOperationalIntent_Inr [tx_inv]:
  "scd_GetOperationalIntent x i s = Inr (r, s') \<longleftrightarrow>
     (\<exists>uid. x_pg_uuid x i = Some uid \<and> s' = s \<and>
        map_option (\<lambda>r. fetch_op x (uid, r)) (tbl_get (db_ops s) uid) = r)"
  by (auto simp: scd_GetOperationalIntent_def tx_inv)

lemma scd_GetSubscription_Inr [tx_inv]:
  "scd_GetSubscription x i s = Inr (r, s') \<longleftrightarrow>
     (\<exists>uid. x_pg_uuid x i = Some uid \<and> s' = s \<and>
        map_option (\<lambda>r. fetch_sub x (uid, r)) (tbl_get (db_subs s) uid) = r)"
  by (auto simp: scd_GetSubscription_def tx_inv)

lemma scd_GetDependentOperationalIntents_Inr [tx_inv]:
  "scd_GetDependentOperationalIntents x i s = Inr (r, s') \<longleftrightarrow>
     (\<exists>uid. x_pg_uuid x i = Some uid \<and> s' = s \<and>
        r = map fst (tbl_select (\<lambda>r. opr_subscription_id r = uid) (db_ops s)))"
  by (auto simp: scd_GetDependentOperationalIntents_def tx_inv)

lemma scd_DeleteOperationalIntent_Inr [tx_inv]:
  "scd_DeleteOperationalIntent x i s = Inr (r, s') \<longleftrightarrow>
     (\<exists>uid. x_pg_uuid x i = Some uid \<and> tbl_get (db_ops s) uid \<noteq> None \<and>
        s' = s\<lparr>db_ops := tbl_delete uid (db_ops s)\<rparr>)"
  by (auto simp: scd_DeleteOperationalIntent_def tx_inv)

lemma scd_UpsertOperationalIntent_Inr [tx_inv]:
  "scd_UpsertOperationalIntent x ts oi s = Inr (r, s') \<longleftrightarrow>
     (\<exists>opid subid. x_pg_uuid x (oi_ID oi) = Some opid \<and>
        x_pg_uuid x (oi_SubscriptionID oi) = Some subid \<and>
        times_check (oi_StartTime oi) (oi_EndTime oi) \<and>
        tbl_get (db_subs s) subid \<noteq> None \<and>
        s' = s\<lparr>db_ops := tbl_upsert opid (op_row_of ts subid oi) (db_ops s)\<rparr> \<and>
        r = fetch_op x (opid, op_row_of ts subid oi))"
  by (auto simp: scd_UpsertOperationalIntent_def tx_inv)

lemma scd_UpsertSubscription_Inr [tx_inv]:
  "scd_UpsertSubscription x ts q s = Inr (r, s') \<longleftrightarrow>
     (\<exists>uid. x_pg_uuid x (sub_ID q) = Some uid \<and>
        times_check (sub_StartTime q) (sub_EndTime q) \<and>
        (sub_NotifyForOperationalIntents q \<or> sub_NotifyForConstraints q) \<and>
        s' = s\<lparr>db_subs := tbl_upsert uid (sub_row_of ts q) (db_subs s)\<rparr> \<and>
        r = (fetch_sub x (uid, sub_row_of ts q))\<lparr>sub_Cells := sub_Cells q\<rparr>)"
  by (auto simp: scd_UpsertSubscription_def tx_inv)

lemma scd_DeleteSubscription_Inr [tx_inv]:
  "scd_DeleteSubscription x i s = Inr (r, s') \<longleftrightarrow>
     (\<exists>uid. x_pg_uuid x i = Some uid \<and> tbl_get (db_subs s) uid \<noteq> None \<and>
        s' = s\<lparr>db_subs := tbl_delete uid (db_subs s),
               db_ops := tbl_delete_where (\<lambda>o'. opr_subscription_id o' = uid) (db_ops s)\<rparr>)"
  by (auto simp: scd_DeleteSubscription_def tx_inv)

text \<open>A row whose index can still be incremented.\<close>

definition sub_room :: "sub_row \<Rightarrow> bool" where
  "sub_room r \<longleftrightarrow> sbr_notification_index r + 1 < 2 ^ 31"

lemma scd_IncrementNotificationIndices_Inr:
  assumes "scd_IncrementNotificationIndices x ids s = Inr (r, s')"
  obtains uids where "pg_uuids x ids uids"
    "\<And>k q. k \<in> set uids \<Longrightarrow> tbl_get (db_subs s) k = Some q \<Longrightarrow> sub_room q"
    "s' = s\<lparr>db_subs := tbl_update_any uids bump_sub (db_subs s)\<rparr>"
    "r = map (index_of sbr_notification_index (tbl_update_any uids bump_sub (db_subs s)))
           (x_returning x (map fst (filter (\<lambda>kr. fst kr \<in> set uids) (db_subs s))))"
    "length r = length ids"
proof -
  from assms obtain t where t: "tbl_increment x sbr_notification_index bump_sub ids (db_subs s) =
      (Inr (r, t) :: airspace_conflict err + _)" and s': "s' = s\<lparr>db_subs := t\<rparr>"
    by (auto simp: scd_IncrementNotificationIndices_def tx_inv)
  show thesis
    using t by (rule tbl_increment_Inr) (auto simp: s' sub_room_def intro!: that)
qed

lemma scd_subs_IncrementNotificationIndices_Inr:
  assumes "scd_subs_IncrementNotificationIndices x ss s = Inr (r, s')"
  obtains uids where "pg_uuids x (map sub_ID ss) uids"
    "\<And>k q. k \<in> set uids \<Longrightarrow> tbl_get (db_subs s) k = Some q \<Longrightarrow> sub_room q"
    "s' = s\<lparr>db_subs := tbl_update_any uids bump_sub (db_subs s)\<rparr>"
    "map sub_ID r = map sub_ID ss"
proof -
  from assms obtain ns where ns: "scd_IncrementNotificationIndices x (map sub_ID ss) s = Inr (ns, s')"
    "r = map2 (\<lambda>s n. s\<lparr>sub_NotificationIndex := n\<rparr>) ss ns"
    by (auto simp: scd_subs_IncrementNotificationIndices_def tx_inv)
  have "length ns = length ss \<Longrightarrow>
      map sub_ID (map2 (\<lambda>s n. s\<lparr>sub_NotificationIndex := n\<rparr>) ss ns) = map sub_ID ss"
    by (induction ss ns rule: list_induct2') auto
  then show thesis
    using ns(2) by (cases rule: scd_IncrementNotificationIndices_Inr [OF ns(1)]) (auto intro: that)
qed

lemma scd_GetConstraint_Inr [tx_inv]:
  "scd_GetConstraint x i s = Inr (r, s') \<longleftrightarrow>
     (\<exists>uid q. x_pg_uuid x i = Some uid \<and> tbl_get (db_cons s) uid = Some q \<and> s' = s \<and>
        r = fetch_con x (uid, q))"
  by (auto simp: scd_GetConstraint_def tx_inv split: option.splits)

lemma scd_UpsertConstraint_Inr [tx_inv]:
  "scd_UpsertConstraint x ts c s = Inr (r, s') \<longleftrightarrow>
     (\<exists>uid. x_pg_uuid x (con_ID c) = Some uid \<and>
        (\<forall>cl \<in> set (con_Cells c). ValidateCell x cl = (Inr () :: airspace_conflict err + unit)) \<and>
        times_check (con_StartTime c) (con_EndTime c) \<and> con_Cells c \<noteq> [] \<and>
        s' = s\<lparr>db_cons := tbl_upsert uid (con_row_of ts c) (db_cons s)\<rparr> \<and>
        r = fetch_con x (uid, con_row_of ts c))"
proof -
  have v: "(\<exists>us. smap (ValidateCell x) cs = (Inr us :: airspace_conflict err + unit list)) \<longleftrightarrow>
      (\<forall>cl \<in> set cs. ValidateCell x cl = (Inr () :: airspace_conflict err + unit))" for cs
    by (induction cs) (auto simp: tx_inv)
  show ?thesis
    unfolding v [symmetric] by (auto simp: scd_UpsertConstraint_def tx_inv)
qed

lemma scd_DeleteConstraint_Inr [tx_inv]:
  "scd_DeleteConstraint x i s = Inr (r, s') \<longleftrightarrow>
     (\<exists>uid. x_pg_uuid x i = Some uid \<and> tbl_get (db_cons s) uid \<noteq> None \<and>
        s' = s\<lparr>db_cons := tbl_delete uid (db_cons s)\<rparr>)"
  by (auto simp: scd_DeleteConstraint_def tx_inv)

lemma scd_UpsertUssAvailability_Inr [tx_inv]:
  "scd_UpsertUssAvailability x ts u s = Inr (r, s') \<longleftrightarrow>
     (\<exists>t. db_avail s = Some t \<and>
        s' = s\<lparr>db_avail := Some (tbl_upsert (ua_Uss u)
               \<lparr>avr_availability = ua_Availability u, avr_updated_at = ts\<rparr> t)\<rparr> \<and>
        r = fetch_avail x (ua_Uss u, \<lparr>avr_availability = ua_Availability u, avr_updated_at = ts\<rparr>))"
  by (auto simp: scd_UpsertUssAvailability_def tx_inv Let_def split: option.splits)

subsection \<open>Searches\<close>

lemma scd_SearchOperationalIntents_Inr:
  "scd_SearchOperationalIntents x v s = Inr (ops, s') \<longleftrightarrow>
     (\<exists>v3 g cs. SpatialVolume v = Some v3 \<and> Footprint v3 = Some g \<and>
        geometry_covering x g = (Inr cs :: airspace_conflict err + cells) \<and> cs \<noteq> [] \<and> s' = s \<and>
        ops = map (fetch_op x) (limit_rows (tbl_select (op_matches cs v v3) (db_ops s))))"
  by (auto simp: scd_SearchOperationalIntents_def tx_inv)

lemma scd_SearchSubscriptions_Inr:
  "scd_SearchSubscriptions x v s = Inr (subs, s') \<longleftrightarrow>
     (\<exists>cs. CalculateSpatialCovering x v = (Inr cs :: airspace_conflict err + cells) \<and> s' = s \<and>
        subs = (if cs = [] then [] else map (fetch_sub x)
          (limit_rows (tbl_select (sub_matches cs v) (db_subs s)))))"
  by (auto simp: scd_SearchSubscriptions_def bnd_Inr wrap_Inr of_sum_Inr gets_Inr ret_Inr)

lemma scd_SearchConstraints_Inr:
  "scd_SearchConstraints x v s = Inr (cons, s') \<longleftrightarrow>
     (\<exists>cs. CalculateSpatialCovering x v = (Inr cs :: airspace_conflict err + cells) \<and> s' = s \<and>
        cons = (if cs = [] then [] else map (fetch_con x)
          (limit_rows (tbl_select (con_matches cs v) (db_cons s)))))"
  by (auto simp: scd_SearchConstraints_def bnd_Inr wrap_Inr of_sum_Inr gets_Inr ret_Inr)

lemma limit_rows_select:
  "tbl_wf t \<Longrightarrow> kr \<in> set (limit_rows (tbl_select p t)) \<Longrightarrow>
     tbl_get t (fst kr) = Some (snd kr) \<and> p (snd kr)"
  using tbl.select_get [of t "fst kr" "snd kr" p] by (auto dest: set_limit_rows)

end
