(* ===== verification/Dss_Server.thy ===== *)
theory Dss_Server
  imports Dss_Models
begin

text \<open>
  What the handlers of \<^verbatim>\<open>pkg/scd\<close> and \<^verbatim>\<open>pkg/vrp\<close> share: the circumstances of a call, the
  validation steps they have in common, the shape of a handler, and the grouping of subscribers
  by their base URL.
\<close>

section \<open>The circumstances of a call\<close>

text \<open>
  The instant the server's clock shows, the time stamp of the transaction (the value of
  \<^verbatim>\<open>transaction_timestamp()\<close>), the manager taken from the access token (none when the
  interceptor did not run), a fresh UUID, and the server's flag \<^verbatim>\<open>EnableHTTP\<close>.
\<close>

record call =
  c_now :: time
  c_txn :: time
  c_manager :: "string option"
  c_uuid :: string
  EnableHTTP :: bool

text \<open>\<^verbatim>\<open>dssmodels.IDFromString\<close> with its error replaced by a \<^verbatim>\<open>BadRequest\<close>.\<close>

definition parse_id :: "ext \<Rightarrow> string \<Rightarrow> 'd err + string" where
  "parse_id x s = srecode BadRequest (IDFromString x s)"

definition require_manager :: "call \<Rightarrow> 'd err + string" where
  "require_manager c =
     (case c_manager c of None \<Rightarrow> Inl (coded PermissionDenied) | Some m \<Rightarrow> Inr m)"

definition validate_url :: "ext \<Rightarrow> call \<Rightarrow> string \<Rightarrow> 'd err + unit" where
  "validate_url x c url =
     (if EnableHTTP c then Inr ()
      else swrap (PropagateWithCode BadRequest) (ValidateUSSBaseURL x url))"

text \<open>The id and the manager of a request that names one entity.\<close>

definition entity_request :: "ext \<Rightarrow> call \<Rightarrow> string \<Rightarrow> 'd err + string \<times> string" where
  "entity_request x c entityid =
     sbind (parse_id x entityid) (\<lambda>i.
     sbind (require_manager c) (\<lambda>manager. Inr (i, manager)))"

lemma parse_id_Inr [tx_inv]: "parse_id x s = Inr i \<longleftrightarrow> x_uuid_parse x s = Some i"
  by (auto simp: parse_id_def IDFromString_def tx_inv split: option.splits)

lemma require_manager_Inr [tx_inv]: "require_manager c = Inr m \<longleftrightarrow> c_manager c = Some m"
  by (auto simp: require_manager_def split: option.splits)

text \<open>A handler validates the request, then runs its action in a transaction.\<close>

definition serve ::
    "'d err + 'q \<Rightarrow> ('q \<Rightarrow> ('d, 's, 'a) tx) \<Rightarrow> 's \<Rightarrow> ('d err + 'a) \<times> 's" where
  "serve v action db = (case v of Inl e \<Rightarrow> (Inl e, db) | Inr q \<Rightarrow> transact (action q) db)"

lemma serve_Inr:
  "serve v action db = (Inr a, db') \<longleftrightarrow> (\<exists>q. v = Inr q \<and> action q db = Inr (a, db'))"
  by (auto simp: serve_def transact_Inr split: sum.splits)

lemma serve_keeps:
  "(\<And>q. v = Inr q \<Longrightarrow> keeps I (action q)) \<Longrightarrow> I db \<Longrightarrow> I (snd (serve v action db))"
  by (auto simp: serve_def keeps_transact split: sum.splits)

section \<open>Subscribers to notify\<close>

text \<open>
  Grouping by key with a Go map: each key with the values that have it, in their order; the
  keys in the order of the map's iteration.
\<close>

definition group_by_url :: "ext \<Rightarrow> (string \<times> 'a) list \<Rightarrow> (string \<times> 'a list) list" where
  "group_by_url x us =
     map (\<lambda>u. (u, map snd (filter (\<lambda>p. fst p = u) us))) (x_map_urls x (remdups (map fst us)))"

lemma group_by_url_keys:
  "orders_ok x \<Longrightarrow> distinct (map fst (group_by_url x us)) \<and>
     set (map fst (group_by_url x us)) = fst ` set us"
proof -
  assume "orders_ok x"
  then have m: "mset (x_map_urls x ks) = mset ks" for ks by (simp add: orders_ok_def)
  have "distinct (x_map_urls x (remdups (map fst us)))"
    by (metis m distinct_remdups mset_eq_imp_distinct_iff)
  moreover have "set (x_map_urls x (remdups (map fst us))) = fst ` set us"
    by (metis m mset_eq_setD set_remdups image_set)
  ultimately show ?thesis by (simp add: group_by_url_def comp_def)
qed

text \<open>\<^verbatim>\<open>SubscriptionState\<close>: an id and a notification index of 32 bits.\<close>

type_synonym subscription_state = "string \<times> 32 word"

lemma entity_request_Inr: "entity_request x c i = Inr q \<Longrightarrow> \<exists>j m. q = (j, m) \<and> c_manager c = Some m"
  by (auto simp: entity_request_def tx_inv)

section \<open>Responses\<close>

definition respond :: "('a \<Rightarrow> 'b) \<Rightarrow> ('e + 'a) \<times> 's \<Rightarrow> ('e + 'b) \<times> 's" where
  "respond f r = (map_sum (\<lambda>e. e) f (fst r), snd r)"

lemma snd_respond [simp]: "snd (respond f r) = snd r"
  by (simp add: respond_def)

lemma serve_pure: "(\<And>q. pure_tx (action q)) \<Longrightarrow> snd (serve v action db) = db"
  by (simp add: serve_def pure_transact split: sum.split)

lemma serve_commits:
  assumes "\<And>q r db'. v = Inr q \<Longrightarrow> action q db = Inr (r, db') \<Longrightarrow> P db'" and "P db"
  shows "P (snd (serve v action db))"
  using assms by (auto simp: serve_def transact_def split: sum.splits)

lemma respond_cases:
  "respond f r = (Inl e, db') \<longleftrightarrow> r = (Inl e, db')"
  "respond f r = (Inr b, db') \<longleftrightarrow> (\<exists>a. r = (Inr a, db') \<and> b = f a)"
  by (cases r; cases "fst r"; auto simp: respond_def)+

end
