(* ===== verification/Scd_Server.thy ===== *)
theory Scd_Server
  imports Scd_Store Dss_Server
begin

text \<open>
  What the handlers of \<^verbatim>\<open>pkg/scd\<close> share: the parsing of extents, and
  \<^verbatim>\<open>makeSubscribersToNotify\<close>.
\<close>

text \<open>The extents of a request, parsed one by one and united.\<close>

definition parse_extents :: "ext \<Rightarrow> pb_volume4d option list \<Rightarrow> 'd err + volume4d" where
  "parse_extents x extents =
     sbind (smap (\<lambda>e. swrap (PropagateWithCode BadRequest) (Volume4DFromSCDProto x e)) extents)
       (\<lambda>vs. swrap (PropagateWithCode BadRequest) (UnionVolumes4D x vs))"

text \<open>The area of interest of a query: the parameters are dereferenced, an absent area is an error.\<close>

definition parse_aoi ::
    "ext \<Rightarrow> ('d err \<Rightarrow> 'd err) \<Rightarrow> pb_volume4d option option \<Rightarrow> 'd err + volume4d" where
  "parse_aoi x f params =
     sbind (sderef params) (\<lambda>aoi.
     sbind (scheck (aoi \<noteq> None) (coded BadRequest)) (\<lambda>_.
     swrap f (Volume4DFromSCDProto x aoi)))"

section \<open>Subscribers to notify\<close>

definition makeSubscribersToNotify ::
    "ext \<Rightarrow> subscription list \<Rightarrow> (string \<times> subscription_state list) list" where
  "makeSubscribersToNotify x ss =
     group_by_url x
       (map (\<lambda>s. (sub_USSBaseURL s, (sub_ID s, word_of_int (sub_NotificationIndex s)))) ss)"

section \<open>The volume of a stored entity\<close>

text \<open>The literal \<^verbatim>\<open>Volume4D\<close> the handlers build from the fields of an old entity.\<close>

definition cells_volume ::
    "time option \<Rightarrow> time option \<Rightarrow> real option \<Rightarrow> real option \<Rightarrow> cells \<Rightarrow> volume4d" where
  "cells_volume st et lo hi cs =
     \<lparr>SpatialVolume =
        Some \<lparr>AltitudeHi = hi, AltitudeLo = lo, Footprint = Some (GeometryFunc cs)\<rparr>,
      EndTime = et, StartTime = st\<rparr>"

definition op_volume4d :: "operational_intent \<Rightarrow> volume4d" where
  "op_volume4d oi =
     cells_volume (oi_StartTime oi) (oi_EndTime oi) (oi_AltitudeLower oi) (oi_AltitudeUpper oi)
       (oi_Cells oi)"

definition con_volume4d :: "constraint \<Rightarrow> volume4d" where
  "con_volume4d c =
     cells_volume (con_StartTime c) (con_EndTime c) (con_AltitudeLower c) (con_AltitudeUpper c)
       (con_Cells c)"

end
