(* ===== verification/Scd_OpIntents.thy ===== *)
theory Scd_OpIntents
  imports Scd_Server
begin

text \<open>
  \<^verbatim>\<open>pkg/scd/operational_intents_handler.go\<close>: the handlers that delete, read, search, create
  and update operational intent references. Each is its validation of the request followed by
  the action it hands to \<^verbatim>\<open>Store.Transact\<close>.
\<close>

section \<open>Messages\<close>

record implicit_subscription_params =
  pis_UssBaseUrl :: string
  pis_NotifyForConstraints :: bool

record put_op_params =
  pop_Extents :: "pb_volume4d option list"
  pop_Key :: "string list"
  pop_State :: string
  pop_UssBaseUrl :: string
  pop_SubscriptionId :: string
  pop_NewSubscription :: "implicit_subscription_params option"

record change_op_response =
  cho_OperationalIntentReference :: pb_operational_intent
  cho_Subscribers :: "(string \<times> subscription_state list) list"

section \<open>Deletion\<close>

text \<open>
  Whether the subscription goes with the operational intent: when it is implicit and has no
  other dependent.
\<close>

definition remove_implicit :: "ext \<Rightarrow> subscription \<Rightarrow> bool scd_tx" where
  "remove_implicit x sub =
     (if sub_ImplicitSubscription sub then
        bnd (wrap Propagate (scd_GetDependentOperationalIntents x (sub_ID sub))) (\<lambda>dependentOps.
        if length dependentOps = 0 then fail (NewError None)
        else ret (length dependentOps = 1))
      else ret False)"

definition delete_op_action :: "ext \<Rightarrow> string \<times> string \<Rightarrow> change_op_response scd_tx" where
  "delete_op_action x = (\<lambda>(i, manager).
     bnd (wrap Propagate (scd_GetOperationalIntent x i)) (\<lambda>old.
     case old of None \<Rightarrow> fail (coded NotFound) | Some old \<Rightarrow>
     seq (check (oi_Manager old = manager) (coded PermissionDenied))
     (bnd (wrap Propagate (scd_GetSubscription x (oi_SubscriptionID old))) (\<lambda>sub.
     case sub of None \<Rightarrow> fail (NewError None) | Some sub \<Rightarrow>
     bnd (remove_implicit x sub) (\<lambda>removeImplicitSubscription.
     bnd (wrap Propagate (scd_SearchSubscriptions x (op_volume4d old))) (\<lambda>allsubs.
     bnd (wrap Propagate (scd_subs_IncrementNotificationIndices x
            (filter sub_NotifyForOperationalIntents allsubs))) (\<lambda>subs.
     seq (wrap Propagate (scd_DeleteOperationalIntent x i))
     (seq (if removeImplicitSubscription
           then wrap Propagate (scd_DeleteSubscription x (sub_ID sub)) else ret ())
     (bnd (wrap Propagate (of_sum (OperationalIntent_ToProto x old))) (\<lambda>opProto.
     ret \<lparr>cho_OperationalIntentReference = opProto,
          cho_Subscribers = makeSubscribersToNotify x subs\<rparr>))))))))))"

definition DeleteOperationalIntentReference ::
    "ext \<Rightarrow> call \<Rightarrow> string \<Rightarrow> scd_db \<Rightarrow> (scd_err + change_op_response) \<times> scd_db" where
  "DeleteOperationalIntentReference x c entityid =
     serve (entity_request x c entityid) (delete_op_action x)"

section \<open>Reads\<close>

definition mask_op :: "string \<Rightarrow> operational_intent \<Rightarrow> operational_intent" where
  "mask_op manager oi = (if oi_Manager oi \<noteq> manager then oi\<lparr>oi_OVN := NoOvnPhrase\<rparr> else oi)"

definition get_op_action :: "ext \<Rightarrow> string \<times> string \<Rightarrow> pb_operational_intent scd_tx" where
  "get_op_action x = (\<lambda>(i, manager).
     bnd (wrap Propagate (scd_GetOperationalIntent x i)) (\<lambda>oi.
     case oi of None \<Rightarrow> fail (coded NotFound) | Some oi \<Rightarrow>
     wrap Propagate (of_sum (OperationalIntent_ToProto x (mask_op manager oi)))))"

definition GetOperationalIntentReference ::
    "ext \<Rightarrow> call \<Rightarrow> string \<Rightarrow> scd_db \<Rightarrow> (scd_err + pb_operational_intent) \<times> scd_db" where
  "GetOperationalIntentReference x c entityid =
     serve (entity_request x c entityid) (get_op_action x)"

definition query_op_proto :: "ext \<Rightarrow> string \<Rightarrow> operational_intent \<Rightarrow> 'd err + pb_operational_intent" where
  "query_op_proto x manager oi =
     sbind (swrap Propagate (OperationalIntent_ToProto x oi)) (\<lambda>p.
     Inr (if oi_Manager oi \<noteq> manager then p\<lparr>poi_Ovn := NoOvnPhrase\<rparr> else p))"

definition query_ops_action ::
    "ext \<Rightarrow> volume4d \<times> string \<Rightarrow> pb_operational_intent list scd_tx" where
  "query_ops_action x = (\<lambda>(vol4, manager).
     bnd (wrap Propagate (scd_SearchOperationalIntents x vol4)) (\<lambda>ops.
     of_sum (smap (query_op_proto x manager) ops)))"

definition query_request ::
    "ext \<Rightarrow> call \<Rightarrow> ('d err \<Rightarrow> 'd err) \<Rightarrow> pb_volume4d option option \<Rightarrow> 'd err + volume4d \<times> string" where
  "query_request x c f params =
     sbind (parse_aoi x f params) (\<lambda>vol4.
     sbind (require_manager c) (\<lambda>manager. Inr (vol4, manager)))"

definition QueryOperationalIntentReferences ::
    "ext \<Rightarrow> call \<Rightarrow> pb_volume4d option option \<Rightarrow> scd_db
     \<Rightarrow> (scd_err + pb_operational_intent list) \<times> scd_db" where
  "QueryOperationalIntentReferences x c params =
     serve (query_request x c (PropagateWithCode BadRequest) params) (query_ops_action x)"

section \<open>Creation and update\<close>

text \<open>The request after validation.\<close>

record put_op_req =
  po_id :: string
  po_manager :: string
  po_params :: put_op_params
  po_extent :: volume4d
  po_cells :: cells
  po_ovn :: string
  po_subid :: string

definition validate_put_op_extent :: "call \<Rightarrow> volume4d \<Rightarrow> 'd err + time \<times> time" where
  "validate_put_op_extent c u =
     (case StartTime u of None \<Rightarrow> Inl (coded BadRequest) | Some st \<Rightarrow>
      case EndTime u of None \<Rightarrow> Inl (coded BadRequest) | Some et \<Rightarrow>
      if c_now c > et then Inl (coded BadRequest) else Inr (st, et))"

definition validate_put_op ::
    "ext \<Rightarrow> call \<Rightarrow> string \<Rightarrow> string \<Rightarrow> put_op_params option \<Rightarrow> 'd err + put_op_req" where
  "validate_put_op x c entityid ovn params =
     sbind (parse_id x entityid) (\<lambda>i.
     sbind (require_manager c) (\<lambda>manager.
     sbind (sderef params) (\<lambda>p.
     sbind (scheck (pop_UssBaseUrl p \<noteq> '''') (coded BadRequest)) (\<lambda>_.
     sbind (validate_url x c (pop_UssBaseUrl p)) (\<lambda>_.
     sbind (scheck (IsValidInDSS (pop_State p)) (coded BadRequest)) (\<lambda>_.
     sbind (parse_extents x (pop_Extents p)) (\<lambda>uExtent.
     sbind (validate_put_op_extent c uExtent) (\<lambda>(st, et).
     sbind (swrap (PropagateWithCode BadRequest) (CalculateSpatialCovering x uExtent)) (\<lambda>cs.
     sbind (scheck (\<not> et < st) (coded BadRequest)) (\<lambda>_.
     sbind (scheck (\<not> (ovn = '''' \<and> pop_State p \<noteq> ''Accepted'')) (coded BadRequest)) (\<lambda>_.
     sbind (srecode BadRequest (IDFromOptionalString x (pop_SubscriptionId p))) (\<lambda>subid.
     Inr \<lparr>po_id = i, po_manager = manager, po_params = p, po_extent = uExtent, po_cells = cs,
          po_ovn = ovn, po_subid = subid\<rparr>))))))))))))"

subsection \<open>The existing operational intent\<close>

definition put_op_old :: "ext \<Rightarrow> put_op_req \<Rightarrow> (operational_intent option \<times> 32 word) scd_tx" where
  "put_op_old x q =
     bnd (wrap Propagate (scd_GetOperationalIntent x (po_id q))) (\<lambda>old.
     case old of
       Some old' \<Rightarrow>
         seq (check (oi_Manager old' = po_manager q) (coded PermissionDenied))
         (seq (check (oi_OVN old' = po_ovn q) (coded VersionMismatch))
         (ret (old, oi_Version old')))
     | None \<Rightarrow>
         seq (check (po_ovn q = '''') (coded NotFound))
         (ret (None, 0)))"

subsection \<open>The subscription\<close>

definition implicit_subscription ::
    "call \<Rightarrow> put_op_req \<Rightarrow> volume3d \<Rightarrow> string \<Rightarrow> bool \<Rightarrow> subscription" where
  "implicit_subscription c q v3 subBaseURL notifyForConstraints =
     \<lparr>sub_ID = c_uuid c, sub_Version = '''', sub_NotificationIndex = 0,
      sub_Manager = po_manager q,
      sub_StartTime = StartTime (po_extent q), sub_EndTime = EndTime (po_extent q),
      sub_AltitudeHi = AltitudeHi v3, sub_AltitudeLo = AltitudeLo v3,
      sub_USSBaseURL = subBaseURL, sub_NotifyForOperationalIntents = True,
      sub_NotifyForConstraints = notifyForConstraints,
      sub_ImplicitSubscription = True, sub_Cells = po_cells q\<rparr>"

definition new_implicit_subscription ::
    "ext \<Rightarrow> call \<Rightarrow> put_op_req \<Rightarrow> subscription scd_tx" where
  "new_implicit_subscription x c q =
     (let ns = pop_NewSubscription (po_params q);
          subBaseURL = (case ns of None \<Rightarrow> '''' | Some n \<Rightarrow> pis_UssBaseUrl n);
          notifyForConstraints = (case ns of None \<Rightarrow> False | Some n \<Rightarrow> pis_NotifyForConstraints n)
      in
      seq (check (subBaseURL \<noteq> '''') (coded BadRequest))
      (seq (of_sum (validate_url x c subBaseURL))
      (bnd (deref (SpatialVolume (po_extent q))) (\<lambda>v3.
      wrap Propagate (scd_UpsertSubscription x (c_txn c)
        (implicit_subscription c q v3 subBaseURL notifyForConstraints))))))"

text \<open>
  An implicit subscription is widened to cover the operational intent, another one must cover
  it already. Each step gives the subscription and whether it was changed.
\<close>

definition widen_start :: "volume4d \<Rightarrow> subscription \<Rightarrow> 'd err + subscription \<times> bool" where
  "widen_start u s =
     (case sub_StartTime s of None \<Rightarrow> Inr (s, False)
      | Some b \<Rightarrow>
          sbind (sderef (StartTime u)) (\<lambda>st.
          if b > st then
            (if sub_ImplicitSubscription s then Inr (s\<lparr>sub_StartTime := StartTime u\<rparr>, True)
             else Inl (coded BadRequest))
          else Inr (s, False)))"

definition widen_end :: "volume4d \<Rightarrow> subscription \<Rightarrow> 'd err + subscription \<times> bool" where
  "widen_end u s =
     (case sub_EndTime s of None \<Rightarrow> Inr (s, False)
      | Some e \<Rightarrow>
          sbind (sderef (EndTime u)) (\<lambda>et.
          if e < et then
            (if sub_ImplicitSubscription s then Inr (s\<lparr>sub_EndTime := EndTime u\<rparr>, True)
             else Inl (coded BadRequest))
          else Inr (s, False)))"

definition widen_cells :: "ext \<Rightarrow> cells \<Rightarrow> subscription \<Rightarrow> 'd err + subscription \<times> bool" where
  "widen_cells x cs s =
     (if \<not> s2_contains x (sub_Cells s) cs then
        (if sub_ImplicitSubscription s
         then Inr (s\<lparr>sub_Cells := s2_union x (sub_Cells s) cs\<rparr>, True)
         else Inl (coded BadRequest))
      else Inr (s, False))"

definition use_subscription ::
    "ext \<Rightarrow> call \<Rightarrow> put_op_req \<Rightarrow> subscription scd_tx" where
  "use_subscription x c q =
     bnd (wrap Propagate (scd_GetSubscription x (po_subid q))) (\<lambda>sub.
     case sub of None \<Rightarrow> fail (coded BadRequest) | Some s0 \<Rightarrow>
     seq (check (sub_Manager s0 = po_manager q) (Propagate (coded PermissionDenied)))
     (bnd (of_sum (widen_start (po_extent q) s0)) (\<lambda>(s1, u1).
     bnd (of_sum (widen_end (po_extent q) s1)) (\<lambda>(s2, u2).
     bnd (of_sum (widen_cells x (po_cells q) s2)) (\<lambda>(s3, u3).
     if u1 \<or> u2 \<or> u3 then wrap Propagate (scd_UpsertSubscription x (c_txn c) s3)
     else ret s3)))))"

definition put_op_subscription ::
    "ext \<Rightarrow> call \<Rightarrow> put_op_req \<Rightarrow> subscription scd_tx" where
  "put_op_subscription x c q =
     (if ID_Empty (po_subid q) then new_implicit_subscription x c q else use_subscription x c q)"

subsection \<open>The key\<close>

definition missing_ops ::
    "string \<Rightarrow> string list \<Rightarrow> operational_intent list \<Rightarrow> operational_intent list" where
  "missing_ops manager key ops =
     map (mask_op manager) (filter (\<lambda>oi. oi_OVN oi \<notin> set key) ops)"

definition mask_con :: "string \<Rightarrow> constraint \<Rightarrow> constraint" where
  "mask_con manager c = (if con_Manager c \<noteq> manager then c\<lparr>con_OVN := NoOvnPhrase\<rparr> else c)"

definition missing_cons :: "string \<Rightarrow> string list \<Rightarrow> constraint list \<Rightarrow> constraint list" where
  "missing_cons manager key cs =
     map (mask_con manager) (filter (\<lambda>c. con_OVN c \<notin> set key) cs)"

definition relevant_constraints ::
    "ext \<Rightarrow> subscription \<Rightarrow> volume4d \<Rightarrow> constraint list scd_tx" where
  "relevant_constraints x sub u =
     (if sub_NotifyForConstraints sub then wrap Propagate (scd_SearchConstraints x u) else ret [])"

definition check_key :: "ext \<Rightarrow> put_op_req \<Rightarrow> subscription \<Rightarrow> unit scd_tx" where
  "check_key x q sub =
     (if RequiresKey (pop_State (po_params q)) then
        bnd (wrap Propagate (scd_SearchOperationalIntents x (po_extent q))) (\<lambda>relevantOps.
        bnd (relevant_constraints x sub (po_extent q)) (\<lambda>cons.
        let missingOps = missing_ops (po_manager q) (pop_Key (po_params q)) relevantOps;
            missingConstraints = missing_cons (po_manager q) (pop_Key (po_params q)) cons in
        if missingOps \<noteq> [] \<or> missingConstraints \<noteq> [] then
          bnd (wrap Propagate (of_sum (MissingOVNsErrorResponse x missingOps missingConstraints)))
            (\<lambda>p. fail (Propagate (StatusErr p)))
        else ret ()))
      else ret ())"

subsection \<open>The new operational intent\<close>

definition new_op ::
    "put_op_req \<Rightarrow> 32 word \<Rightarrow> volume3d \<Rightarrow> subscription \<Rightarrow> operational_intent" where
  "new_op q version v3 sub =
     \<lparr>oi_ID = po_id q, oi_Manager = po_manager q, oi_Version = version + 1,
      oi_State = pop_State (po_params q), oi_OVN = '''',
      oi_StartTime = StartTime (po_extent q), oi_EndTime = EndTime (po_extent q),
      oi_USSBaseURL = pop_UssBaseUrl (po_params q), oi_SubscriptionID = sub_ID sub,
      oi_AltitudeLower = AltitudeLo v3, oi_AltitudeUpper = AltitudeHi v3,
      oi_Cells = po_cells q\<rparr>"

definition put_op_store ::
    "ext \<Rightarrow> call \<Rightarrow> put_op_req \<Rightarrow> operational_intent option \<Rightarrow> 32 word \<Rightarrow> subscription
     \<Rightarrow> (operational_intent \<times> volume4d) scd_tx" where
  "put_op_store x c q old version sub =
     bnd (deref (SpatialVolume (po_extent q))) (\<lambda>v3.
     let oi = new_op q version v3 sub in
     seq (wrap Propagate (of_sum (OperationalIntent_ValidateTimeRange oi)))
     (bnd (case old of
             None \<Rightarrow> ret (po_extent q)
           | Some old' \<Rightarrow>
               wrap Propagate (of_sum (UnionVolumes4D x [po_extent q, op_volume4d old'])))
       (\<lambda>notifyVol4.
     bnd (wrap Propagate (scd_UpsertOperationalIntent x (c_txn c) oi)) (\<lambda>oi'.
     ret (oi', notifyVol4)))))"

definition put_op_notify ::
    "ext \<Rightarrow> operational_intent \<times> volume4d \<Rightarrow> change_op_response scd_tx" where
  "put_op_notify x = (\<lambda>(oi, notifyVol4).
     bnd (scd_SearchSubscriptions x notifyVol4) (\<lambda>allsubs.
     bnd (scd_subs_IncrementNotificationIndices x
            (filter sub_NotifyForOperationalIntents allsubs)) (\<lambda>subs.
     bnd (wrap Propagate (of_sum (OperationalIntent_ToProto x oi))) (\<lambda>p.
     ret \<lparr>cho_OperationalIntentReference = p,
          cho_Subscribers = makeSubscribersToNotify x subs\<rparr>))))"

definition put_op_action :: "ext \<Rightarrow> call \<Rightarrow> put_op_req \<Rightarrow> change_op_response scd_tx" where
  "put_op_action x c q =
     bnd (put_op_old x q) (\<lambda>(old, version).
     bnd (put_op_subscription x c q) (\<lambda>sub.
     seq (check_key x q sub)
     (bnd (put_op_store x c q old version sub)
     (put_op_notify x))))"

definition PutOperationalIntentReference ::
    "ext \<Rightarrow> call \<Rightarrow> string \<Rightarrow> string \<Rightarrow> put_op_params option \<Rightarrow> scd_db
     \<Rightarrow> (scd_err + change_op_response) \<times> scd_db" where
  "PutOperationalIntentReference x c entityid ovn params =
     serve (validate_put_op x c entityid ovn params) (put_op_action x c)"

definition CreateOperationalIntentReference ::
    "ext \<Rightarrow> call \<Rightarrow> string \<Rightarrow> put_op_params option \<Rightarrow> scd_db
     \<Rightarrow> (scd_err + change_op_response) \<times> scd_db" where
  "CreateOperationalIntentReference x c entityid params =
     PutOperationalIntentReference x c entityid '''' params"

definition UpdateOperationalIntentReference ::
    "ext \<Rightarrow> call \<Rightarrow> string \<Rightarrow> string \<Rightarrow> put_op_params option \<Rightarrow> scd_db
     \<Rightarrow> (scd_err + change_op_response) \<times> scd_db" where
  "UpdateOperationalIntentReference x c entityid ovn params =
     PutOperationalIntentReference x c entityid ovn params"

section \<open>What the actions do\<close>

lemma implicit_subscription_simps [simp]:
  "sub_ID (implicit_subscription c q v3 url n) = c_uuid c"
  "sub_NotificationIndex (implicit_subscription c q v3 url n) = 0"
  "sub_Manager (implicit_subscription c q v3 url n) = po_manager q"
  "sub_StartTime (implicit_subscription c q v3 url n) = StartTime (po_extent q)"
  "sub_EndTime (implicit_subscription c q v3 url n) = EndTime (po_extent q)"
  "sub_NotifyForOperationalIntents (implicit_subscription c q v3 url n)"
  "sub_ImplicitSubscription (implicit_subscription c q v3 url n)"
  "sub_Cells (implicit_subscription c q v3 url n) = po_cells q"
  by (simp_all add: implicit_subscription_def)

lemma new_op_simps [simp]:
  "oi_ID (new_op q version v3 sub) = po_id q"
  "oi_Manager (new_op q version v3 sub) = po_manager q"
  "oi_Version (new_op q version v3 sub) = version + 1"
  "oi_State (new_op q version v3 sub) = pop_State (po_params q)"
  "oi_StartTime (new_op q version v3 sub) = StartTime (po_extent q)"
  "oi_EndTime (new_op q version v3 sub) = EndTime (po_extent q)"
  "oi_SubscriptionID (new_op q version v3 sub) = sub_ID sub"
  "oi_AltitudeLower (new_op q version v3 sub) = AltitudeLo v3"
  "oi_AltitudeUpper (new_op q version v3 sub) = AltitudeHi v3"
  "oi_Cells (new_op q version v3 sub) = po_cells q"
  by (simp_all add: new_op_def)

lemma validate_put_op_Inr:
  assumes "validate_put_op x c entityid ovn params = Inr q"
  shows "\<exists>st et. x_uuid_parse x entityid = Some (po_id q) \<and> c_manager c = Some (po_manager q) \<and>
    params = Some (po_params q) \<and> IsValidInDSS (pop_State (po_params q)) \<and>
    StartTime (po_extent q) = Some st \<and> EndTime (po_extent q) = Some et \<and>
    c_now c \<le> et \<and> st \<le> et \<and> po_ovn q = ovn \<and>
    (ovn = '''' \<longrightarrow> pop_State (po_params q) = ''Accepted'')"
  using assms
  by (auto simp: validate_put_op_def validate_put_op_extent_def tx_inv)

lemma put_op_old_Inr:
  assumes "put_op_old x q s = Inr ((old, version), s')"
  shows "\<exists>uid. x_pg_uuid x (po_id q) = Some uid \<and> s' = s \<and>
    (case tbl_get (db_ops s) uid of
       None \<Rightarrow> old = None \<and> version = 0 \<and> po_ovn q = ''''
     | Some r \<Rightarrow> old = Some (fetch_op x (uid, r)) \<and> version = opr_version r \<and>
         opr_owner r = po_manager q \<and> po_ovn q = NewOVNFromTime x (opr_updated_at r) uid)"
proof -
  from assms obtain uid where "x_pg_uuid x (po_id q) = Some uid"
    by (auto simp: put_op_old_def tx_inv)
  with assms show ?thesis
    by (cases "tbl_get (db_ops s) uid") (auto simp: put_op_old_def tx_inv)
qed

lemma pure_relevant [pure_intros]: "pure_tx (relevant_constraints x sub u)"
  by (auto simp: relevant_constraints_def intro: pure_intros)

lemma pure_check_key [pure_intros]: "pure_tx (check_key x q sub)"
  by (auto simp: check_key_def Let_def intro!: pure_intros)

lemma put_op_store_Inr:
  assumes "put_op_store x c q old version sub s = Inr ((oi, v), s')"
  shows "\<exists>v3 opid subid. SpatialVolume (po_extent q) = Some v3 \<and>
    x_pg_uuid x (po_id q) = Some opid \<and> x_pg_uuid x (sub_ID sub) = Some subid \<and>
    times_check (StartTime (po_extent q)) (EndTime (po_extent q)) \<and>
    tbl_get (db_subs s) subid \<noteq> None \<and>
    (let row = op_row_of (c_txn c) subid (new_op q version v3 sub) in
     s' = s\<lparr>db_ops := tbl_upsert opid row (db_ops s)\<rparr> \<and> oi = fetch_op x (opid, row)) \<and>
    (old = None \<longrightarrow> v = po_extent q)"
  using assms by (auto simp: put_op_store_def tx_inv Let_def split: option.splits)

lemma put_op_notify_Inr:
  assumes "put_op_notify x (oi, v) s = Inr (resp, s')"
  shows "\<exists>allsubs subs. scd_SearchSubscriptions x v s = Inr (allsubs, s) \<and>
    scd_subs_IncrementNotificationIndices x (filter sub_NotifyForOperationalIntents allsubs) s =
      Inr (subs, s') \<and>
    OperationalIntent_ToProto x oi = (Inr (cho_OperationalIntentReference resp) :: scd_err + _) \<and>
    cho_Subscribers resp = makeSubscribersToNotify x subs"
  using assms pure_txD [OF pure_searches(2)]
  by (fastforce simp: put_op_notify_def tx_inv)

lemma put_op_action_Inr:
  assumes "put_op_action x c q s = Inr (resp, s')"
  obtains old version sub s1 oi v s2 where
    "put_op_old x q s = Inr ((old, version), s)"
    "put_op_subscription x c q s = Inr (sub, s1)"
    "check_key x q sub s1 = Inr ((), s1)"
    "put_op_store x c q old version sub s1 = Inr ((oi, v), s2)"
    "put_op_notify x (oi, v) s2 = Inr (resp, s')"
proof -
  from assms obtain old version s0 sub s1 s1' oi v s2 where
    run: "put_op_old x q s = Inr ((old, version), s0)"
    "put_op_subscription x c q s0 = Inr (sub, s1)"
    "check_key x q sub s1 = Inr ((), s1')"
    "put_op_store x c q old version sub s1' = Inr ((oi, v), s2)"
    "put_op_notify x (oi, v) s2 = Inr (resp, s')"
    by (auto simp: put_op_action_def tx_inv)
  have "s0 = s" and "s1' = s1"
    using put_op_old_Inr [OF run(1)] pure_txD [OF pure_check_key run(3)] by auto
  with run show thesis by (intro that) auto
qed

end
