(* ===== verification/Scd_Subscriptions.thy ===== *)
theory Scd_Subscriptions
  imports Scd_OpIntents
begin

text \<open>
  \<^verbatim>\<open>pkg/scd/subscriptions_handler.go\<close>: creation, update, reading, search and deletion of
  subscriptions.
\<close>

section \<open>Messages\<close>

record put_sub_params =
  pps_Extents :: "pb_volume4d option"
  pps_UssBaseUrl :: string
  pps_NotifyForOperationalIntents :: bool
  pps_NotifyForConstraints :: bool

text \<open>An operational intent whose conversion failed is a nil entry of the response.\<close>

record put_sub_response =
  psr_Subscription :: pb_subscription
  psr_OperationalIntentReferences :: "pb_operational_intent option list"
  psr_ConstraintReferences :: "pb_constraint list"

section \<open>Creation and update\<close>

record put_sub_req =
  ps_manager :: string
  ps_extents :: volume4d
  ps_subreq :: subscription

text \<open>An absent volume or footprint leaves the cells empty; another error is returned.\<close>

definition sub_request_cells :: "ext \<Rightarrow> volume4d \<Rightarrow> 'd err + cells" where
  "sub_request_cells x extents =
     (case CalculateSpatialCovering x extents of
        Inr cs \<Rightarrow> Inr cs
      | Inl (GeoErr ErrMissingSpatialVolume) \<Rightarrow> Inr []
      | Inl (GeoErr ErrMissingFootprint) \<Rightarrow> Inr []
      | Inl e \<Rightarrow> Inl (rewrap (PropagateWithCode BadRequest) e))"

definition validate_put_sub ::
    "ext \<Rightarrow> call \<Rightarrow> string \<Rightarrow> string \<Rightarrow> put_sub_params option \<Rightarrow> 'd err + put_sub_req" where
  "validate_put_sub x c subscriptionid version params =
     sbind (parse_id x subscriptionid) (\<lambda>i.
     sbind (require_manager c) (\<lambda>manager.
     sbind (if EnableHTTP c then Inr ()
            else sbind (sderef params) (\<lambda>p. validate_url x c (pps_UssBaseUrl p))) (\<lambda>_.
     sbind (swrap (PropagateWithCode BadRequest)
              (Volume4DFromSCDProto x (case params of None \<Rightarrow> None | Some p \<Rightarrow> pps_Extents p)))
       (\<lambda>extents.
     sbind (sub_request_cells x extents) (\<lambda>cs.
     sbind (sderef (SpatialVolume extents)) (\<lambda>v3.
     sbind (sderef params) (\<lambda>p.
     sbind (scheck (pps_NotifyForOperationalIntents p \<or> pps_NotifyForConstraints p)
              (coded BadRequest)) (\<lambda>_.
     Inr \<lparr>ps_manager = manager, ps_extents = extents,
          ps_subreq =
            \<lparr>sub_ID = i, sub_Version = version, sub_NotificationIndex = 0,
             sub_Manager = manager, sub_StartTime = StartTime extents,
             sub_EndTime = EndTime extents, sub_AltitudeHi = AltitudeHi v3,
             sub_AltitudeLo = AltitudeLo v3, sub_USSBaseURL = pps_UssBaseUrl p,
             sub_NotifyForOperationalIntents = pps_NotifyForOperationalIntents p,
             sub_NotifyForConstraints = pps_NotifyForConstraints p,
             sub_ImplicitSubscription = False, sub_Cells = cs\<rparr>\<rparr>))))))))"

definition GetOperations :: "ext \<Rightarrow> string list \<Rightarrow> operational_intent option list scd_tx" where
  "GetOperations x opIDs = tx_map (\<lambda>i. wrap Propagate (scd_GetOperationalIntent x i)) opIDs"

text \<open>
  The checks against the subscription there is: the subscription to store and the ids of its
  dependent operational intents.
\<close>

definition put_sub_old ::
    "ext \<Rightarrow> subscription option \<Rightarrow> subscription \<Rightarrow> (subscription \<times> string list) scd_tx" where
  "put_sub_old x old subreq =
     (case old of
        None \<Rightarrow>
          seq (check (sub_Version subreq = '''') (coded NotFound))
          (ret (subreq, []))
      | Some old' \<Rightarrow>
          seq (check (sub_Version subreq \<noteq> '''') (coded AlreadyExists))
          (seq (check (sub_Version subreq = sub_Version old') (Propagate (coded VersionMismatch)))
          (seq (check (sub_Manager old' = sub_Manager subreq) (Propagate (coded PermissionDenied)))
          (let subreq' = subreq\<lparr>sub_NotificationIndex := sub_NotificationIndex old'\<rparr> in
           bnd (wrap Propagate (scd_GetDependentOperationalIntents x (sub_ID subreq')))
             (\<lambda>dependentOpIds.
           bnd (wrap Propagate (GetOperations x dependentOpIds)) (\<lambda>operations.
           seq (of_sum (ValidateDependentOps x subreq' operations))
           (ret (subreq', dependentOpIds))))))))"

definition sub_volume4d :: "subscription \<Rightarrow> volume4d" where
  "sub_volume4d s =
     cells_volume (sub_StartTime s) (sub_EndTime s) (sub_AltitudeLo s) (sub_AltitudeHi s)
       (sub_Cells s)"

text \<open>The response: what the subscription covers.\<close>

definition put_sub_respond ::
    "ext \<Rightarrow> put_sub_req \<Rightarrow> subscription \<Rightarrow> string list \<Rightarrow> put_sub_response scd_tx" where
  "put_sub_respond x q sub dependentOpIds =
     bnd (if sub_Cells sub \<noteq> [] then
            wrap Propagate (scd_SearchOperationalIntents x (sub_volume4d sub))
          else ret []) (\<lambda>relevantOperations.
     bnd (wrap Propagate (of_sum (Subscription_ToProto x sub dependentOpIds))) (\<lambda>p.
     bnd (if sub_NotifyForConstraints sub then
            bnd (wrap Propagate (scd_SearchConstraints x (ps_extents q))) (\<lambda>cons.
            of_sum (smap (\<lambda>c.
              sbind (swrap Propagate (Constraint_ToProto x c)) (\<lambda>pc.
              Inr (if con_Manager c \<noteq> ps_manager q then pc\<lparr>pcon_Ovn := NoOvnPhrase\<rparr> else pc)))
              cons))
          else ret []) (\<lambda>pcons.
     ret \<lparr>psr_Subscription = p,
          psr_OperationalIntentReferences =
            (if sub_NotifyForOperationalIntents sub then
               map (\<lambda>oi. case OperationalIntent_ToProto x (mask_op (ps_manager q) oi) of
                           Inl (e :: scd_err) \<Rightarrow> None | Inr po \<Rightarrow> Some po) relevantOperations
             else []),
          psr_ConstraintReferences = pcons\<rparr>)))"

definition put_sub_action :: "ext \<Rightarrow> call \<Rightarrow> put_sub_req \<Rightarrow> put_sub_response scd_tx" where
  "put_sub_action x c q =
     bnd (wrap Propagate (scd_GetSubscription x (sub_ID (ps_subreq q)))) (\<lambda>old.
     bnd (wrap Propagate (of_sum (Subscription_AdjustTimeRange (c_now c) (ps_subreq q) old)))
       (\<lambda>subreq.
     bnd (put_sub_old x old subreq) (\<lambda>(subreq', dependentOpIds).
     bnd (wrap Propagate (scd_UpsertSubscription x (c_txn c) subreq')) (\<lambda>sub.
     put_sub_respond x q sub dependentOpIds))))"

definition PutSubscription ::
    "ext \<Rightarrow> call \<Rightarrow> string \<Rightarrow> string \<Rightarrow> put_sub_params option \<Rightarrow> scd_db
     \<Rightarrow> (scd_err + put_sub_response) \<times> scd_db" where
  "PutSubscription x c subscriptionid version params =
     serve (validate_put_sub x c subscriptionid version params) (put_sub_action x c)"

definition CreateSubscription ::
    "ext \<Rightarrow> call \<Rightarrow> string \<Rightarrow> put_sub_params option \<Rightarrow> scd_db
     \<Rightarrow> (scd_err + put_sub_response) \<times> scd_db" where
  "CreateSubscription x c subscriptionid params = PutSubscription x c subscriptionid '''' params"

definition UpdateSubscription ::
    "ext \<Rightarrow> call \<Rightarrow> string \<Rightarrow> string \<Rightarrow> put_sub_params option \<Rightarrow> scd_db
     \<Rightarrow> (scd_err + put_sub_response) \<times> scd_db" where
  "UpdateSubscription x c subscriptionid version params =
     PutSubscription x c subscriptionid version params"

section \<open>Reads\<close>

definition get_sub_action :: "ext \<Rightarrow> string \<times> string \<Rightarrow> pb_subscription scd_tx" where
  "get_sub_action x = (\<lambda>(i, manager).
     bnd (wrap Propagate (scd_GetSubscription x i)) (\<lambda>sub.
     case sub of None \<Rightarrow> fail (coded NotFound) | Some sub \<Rightarrow>
     seq (check (manager = sub_Manager sub) (Propagate (coded PermissionDenied)))
     (bnd (wrap Propagate (scd_GetDependentOperationalIntents x i)) (\<lambda>dependentOps.
     wrap Propagate (of_sum (Subscription_ToProto x sub dependentOps))))))"

definition GetSubscription ::
    "ext \<Rightarrow> call \<Rightarrow> string \<Rightarrow> scd_db \<Rightarrow> (scd_err + pb_subscription) \<times> scd_db" where
  "GetSubscription x c subscriptionid =
     serve (entity_request x c subscriptionid) (get_sub_action x)"

definition query_subs_action ::
    "ext \<Rightarrow> volume4d \<times> string \<Rightarrow> pb_subscription list scd_tx" where
  "query_subs_action x = (\<lambda>(vol4, manager).
     bnd (wrap Propagate (scd_SearchSubscriptions x vol4)) (\<lambda>subs.
     tx_map (\<lambda>sub.
       bnd (wrap Propagate (scd_GetDependentOperationalIntents x (sub_ID sub))) (\<lambda>dependentOps.
       wrap Propagate (of_sum (Subscription_ToProto x sub dependentOps))))
       (filter (\<lambda>sub. sub_Manager sub = manager) subs)))"

definition QuerySubscriptions ::
    "ext \<Rightarrow> call \<Rightarrow> pb_volume4d option option \<Rightarrow> scd_db
     \<Rightarrow> (scd_err + pb_subscription list) \<times> scd_db" where
  "QuerySubscriptions x c params =
     serve (query_request x c (PropagateWithCode BadRequest) params) (query_subs_action x)"

section \<open>Deletion\<close>

definition delete_sub_action :: "ext \<Rightarrow> string \<times> string \<Rightarrow> pb_subscription scd_tx" where
  "delete_sub_action x = (\<lambda>(i, manager).
     bnd (wrap Propagate (scd_GetSubscription x i)) (\<lambda>old.
     case old of None \<Rightarrow> fail (coded NotFound) | Some old \<Rightarrow>
     seq (check (sub_Manager old = manager) (Propagate (coded PermissionDenied)))
     (bnd (wrap Propagate (scd_GetDependentOperationalIntents x i)) (\<lambda>dependentOps.
     seq (check (\<not> length dependentOps > 0) (Propagate (coded BadRequest)))
     (seq (wrap Propagate (scd_DeleteSubscription x i))
     (wrap Propagate (of_sum (Subscription_ToProto x old dependentOps))))))))"

definition DeleteSubscription ::
    "ext \<Rightarrow> call \<Rightarrow> string \<Rightarrow> scd_db \<Rightarrow> (scd_err + pb_subscription) \<times> scd_db" where
  "DeleteSubscription x c subscriptionid =
     serve (entity_request x c subscriptionid) (delete_sub_action x)"

section \<open>What the actions do\<close>

lemma pure_GetOperations [pure_intros]: "pure_tx (GetOperations x ids)"
  by (auto simp: GetOperations_def intro!: pure_intros)

lemma pure_put_sub_old [pure_intros]: "pure_tx (put_sub_old x old subreq)"
  by (auto simp: put_sub_old_def Let_def intro!: pure_intros split: option.split)

lemma pure_put_sub_respond [pure_intros]: "pure_tx (put_sub_respond x q sub deps)"
  by (auto simp: put_sub_respond_def intro!: pure_intros)

lemma GetOperations_Inr:
  assumes "GetOperations x ids s = Inr (ops, s')" and "k \<in> set ids" and "x_pg_uuid x k = Some k"
    and "tbl_get (db_ops s) k = Some r"
  shows "Some (fetch_op x (k, r)) \<in> set ops"
proof -
  from assms(1) have l: "list_all2 (\<lambda>i y. wrap Propagate (scd_GetOperationalIntent x i) s = Inr (y, s)) ids ops"
    by (simp add: GetOperations_def tx_map_Inr pure_intros)
  obtain n where n: "n < length ids" "ids ! n = k"
    using assms(2) by (auto simp: in_set_conv_nth)
  from list_all2_nthD [OF l n(1)] n list_all2_lengthD [OF l]
  have "ops ! n \<in> set ops" "wrap Propagate (scd_GetOperationalIntent x k) s = Inr (ops ! n, s)"
    by auto
  then show ?thesis using assms(3,4) by (auto simp: tx_inv)
qed

lemma validate_put_sub_Inr:
  assumes "validate_put_sub x c subscriptionid version params = Inr q"
  shows "x_uuid_parse x subscriptionid = Some (sub_ID (ps_subreq q)) \<and>
    c_manager c = Some (ps_manager q) \<and> sub_Manager (ps_subreq q) = ps_manager q \<and>
    sub_Version (ps_subreq q) = version \<and> sub_NotificationIndex (ps_subreq q) = 0 \<and>
    (sub_NotifyForOperationalIntents (ps_subreq q) \<or> sub_NotifyForConstraints (ps_subreq q)) \<and>
    \<not> sub_ImplicitSubscription (ps_subreq q)"
  using assms by (auto simp: validate_put_sub_def tx_inv)

text \<open>
  A successful action writes one row, under the id of the request. \<open>subreq\<close> is the request
  with its times adjusted.
\<close>

lemma put_sub_action_Inr:
  assumes "put_sub_action x c q s = Inr (resp, s')"
  obtains uid old b e subreq deps where
    "x_pg_uuid x (sub_ID (ps_subreq q)) = Some uid"
    "old = map_option (\<lambda>r. fetch_sub x (uid, r)) (tbl_get (db_subs s) uid)"
    "Subscription_AdjustTimeRange (c_now c) (ps_subreq q) old =
       (Inr ((ps_subreq q)\<lparr>sub_StartTime := Some b, sub_EndTime := Some e\<rparr>) :: scd_err + _)"
    "put_sub_old x old ((ps_subreq q)\<lparr>sub_StartTime := Some b, sub_EndTime := Some e\<rparr>) s =
       Inr ((subreq, deps), s)"
    "sub_ID subreq = sub_ID (ps_subreq q)" "b < e" "e - b \<le> 24 * 60 * 60 * 10 ^ 6"
    "s' = s\<lparr>db_subs := tbl_upsert uid (sub_row_of (c_txn c) subreq) (db_subs s)\<rparr>"
proof -
  from assms obtain uid r1 r2 deps s1 s2 sub where
    uid: "x_pg_uuid x (sub_ID (ps_subreq q)) = Some uid" and
    adj: "Subscription_AdjustTimeRange (c_now c) (ps_subreq q)
      (map_option (\<lambda>r. fetch_sub x (uid, r)) (tbl_get (db_subs s) uid)) = (Inr r1 :: scd_err + _)" and
    old: "put_sub_old x (map_option (\<lambda>r. fetch_sub x (uid, r)) (tbl_get (db_subs s) uid)) r1 s =
      Inr ((r2, deps), s1)" and
    ups: "scd_UpsertSubscription x (c_txn c) r2 s1 = Inr (sub, s2)" and
    resp: "put_sub_respond x q sub deps s2 = Inr (resp, s')"
    by (auto simp: put_sub_action_def tx_inv)
  from pure_txD [OF pure_put_sub_old old] have s1: "s1 = s" .
  from pure_txD [OF pure_put_sub_respond resp] have s': "s' = s2" .
  from old have id: "sub_ID r2 = sub_ID r1" "sub_StartTime r2 = sub_StartTime r1"
      "sub_EndTime r2 = sub_EndTime r1"
    by (auto simp: put_sub_old_def tx_inv Let_def split: option.split_asm)
  from adj obtain st et where times: "adjust_times (c_now c) (sub_StartTime (ps_subreq q))
        (sub_EndTime (ps_subreq q)) (map_option (\<lambda>q. (sub_StartTime q, sub_EndTime q))
          (map_option (\<lambda>r. fetch_sub x (uid, r)) (tbl_get (db_subs s) uid))) =
        (Inr (st, et) :: scd_err + _)"
      and r1: "r1 = (ps_subreq q)\<lparr>sub_StartTime := st, sub_EndTime := et\<rparr>"
    by (auto simp: Subscription_AdjustTimeRange_def tx_inv)
  show thesis
  proof (rule adjust_times_Inr [OF times])
    fix b e assume st: "st = Some b" and et: "et = Some e" and "b \<le> e"
      and day: "e - b \<le> 24 * 60 * 60 * 10 ^ 6"
    have "b < e" and s2: "s2 = s\<lparr>db_subs := tbl_upsert uid (sub_row_of (c_txn c) r2) (db_subs s)\<rparr>"
      using ups id r1 st et uid s1 by (auto simp: tx_inv times_check_def)
    with uid adj old show thesis
      using day by (intro that [where uid = uid and b = b and e = e and subreq = r2 and deps = deps]) (simp_all add: r1 st et id s1 s')
  qed
qed

lemma delete_sub_action_Inr:
  assumes "delete_sub_action x (i, manager) s = Inr (resp, s')"
  obtains uid r where "x_pg_uuid x i = Some uid" "tbl_get (db_subs s) uid = Some r"
    "sbr_owner r = manager" "tbl_select (\<lambda>o'. opr_subscription_id o' = uid) (db_ops s) = []"
    "s' = s\<lparr>db_subs := tbl_delete uid (db_subs s),
            db_ops := tbl_delete_where (\<lambda>o'. opr_subscription_id o' = uid) (db_ops s)\<rparr>"
  using assms by (auto simp: delete_sub_action_def tx_inv)

end
