(* ===== verification/Scd_Constraints.thy ===== *)
theory Scd_Constraints
  imports Scd_OpIntents
begin

text \<open>
  \<^verbatim>\<open>pkg/scd/constraints_handler.go\<close> and \<^verbatim>\<open>pkg/scd/uss_availability_handler.go\<close>.
\<close>

section \<open>Constraint references\<close>

record put_con_params =
  ppc_Extents :: "pb_volume4d option list"
  ppc_UssBaseUrl :: string

record change_con_response =
  chc_ConstraintReference :: pb_constraint
  chc_Subscribers :: "(string \<times> subscription_state list) list"

text \<open>The store's own \<^verbatim>\<open>pgx.ErrNoRows\<close> becomes \<^verbatim>\<open>NotFound\<close>.\<close>

definition get_con_or_404 :: "ext \<Rightarrow> string \<Rightarrow> constraint scd_tx" where
  "get_con_or_404 x i =
     bnd (attempt (scd_GetConstraint x i)) (\<lambda>r.
     case r of
       Inl ErrNoRows \<Rightarrow> fail (coded NotFound)
     | Inl e \<Rightarrow> fail (Propagate e)
     | Inr old \<Rightarrow> ret old)"

definition delete_con_action :: "ext \<Rightarrow> string \<times> string \<Rightarrow> change_con_response scd_tx" where
  "delete_con_action x = (\<lambda>(i, manager).
     bnd (get_con_or_404 x i) (\<lambda>old.
     seq (check (con_Manager old = manager) (coded PermissionDenied))
     (bnd (wrap Propagate (scd_SearchSubscriptions x (con_volume4d old))) (\<lambda>allsubs.
     seq (wrap Propagate (scd_DeleteConstraint x i))
     (bnd (wrap Propagate (scd_subs_IncrementNotificationIndices x
             (filter sub_NotifyForConstraints allsubs))) (\<lambda>subs.
     bnd (wrap Propagate (of_sum (Constraint_ToProto x old))) (\<lambda>p.
     ret \<lparr>chc_ConstraintReference = p,
          chc_Subscribers = makeSubscribersToNotify x subs\<rparr>)))))))"

definition DeleteConstraintReference ::
    "ext \<Rightarrow> call \<Rightarrow> string \<Rightarrow> scd_db \<Rightarrow> (scd_err + change_con_response) \<times> scd_db" where
  "DeleteConstraintReference x c entityid =
     serve (entity_request x c entityid) (delete_con_action x)"

definition get_con_action :: "ext \<Rightarrow> string \<times> string \<Rightarrow> pb_constraint scd_tx" where
  "get_con_action x = (\<lambda>(i, manager).
     bnd (get_con_or_404 x i) (\<lambda>con.
     wrap Propagate (of_sum (Constraint_ToProto x (mask_con manager con)))))"

definition GetConstraintReference ::
    "ext \<Rightarrow> call \<Rightarrow> string \<Rightarrow> scd_db \<Rightarrow> (scd_err + pb_constraint) \<times> scd_db" where
  "GetConstraintReference x c entityid =
     serve (entity_request x c entityid) (get_con_action x)"

record put_con_req =
  pq_id :: string
  pq_manager :: string
  pq_params :: put_con_params
  pq_extent :: volume4d
  pq_cells :: cells
  pq_ovn :: string

definition validate_put_con ::
    "ext \<Rightarrow> call \<Rightarrow> string \<Rightarrow> string \<Rightarrow> put_con_params option \<Rightarrow> 'd err + put_con_req" where
  "validate_put_con x c entityid ovn params =
     sbind (parse_id x entityid) (\<lambda>i.
     sbind (require_manager c) (\<lambda>manager.
     sbind (sderef params) (\<lambda>p.
     sbind (scheck (ppc_UssBaseUrl p \<noteq> '''') (coded BadRequest)) (\<lambda>_.
     sbind (validate_url x c (ppc_UssBaseUrl p)) (\<lambda>_.
     sbind (parse_extents x (ppc_Extents p)) (\<lambda>uExtent.
     sbind (scheck (StartTime uExtent \<noteq> None) (coded BadRequest)) (\<lambda>_.
     sbind (scheck (EndTime uExtent \<noteq> None) (coded BadRequest)) (\<lambda>_.
     sbind (swrap (PropagateWithCode BadRequest) (CalculateSpatialCovering x uExtent)) (\<lambda>cs.
     Inr \<lparr>pq_id = i, pq_manager = manager, pq_params = p, pq_extent = uExtent,
          pq_cells = cs, pq_ovn = ovn\<rparr>)))))))))"

definition put_con_old :: "ext \<Rightarrow> put_con_req \<Rightarrow> (constraint option \<times> 32 word) scd_tx" where
  "put_con_old x q =
     bnd (attempt (scd_GetConstraint x (pq_id q))) (\<lambda>r.
     case r of
       Inl ErrNoRows \<Rightarrow>
         seq (check (pq_ovn q = '''') (coded VersionMismatch)) (ret (None, 0))
     | Inl e \<Rightarrow> fail (Propagate e)
     | Inr old \<Rightarrow>
         seq (check (con_Manager old = pq_manager q) (coded PermissionDenied))
         (seq (check (con_OVN old = pq_ovn q) (coded VersionMismatch))
         (ret (Some old, con_Version old))))"

definition new_con :: "put_con_req \<Rightarrow> 32 word \<Rightarrow> volume3d \<Rightarrow> constraint" where
  "new_con q version v3 =
     \<lparr>con_ID = pq_id q, con_Manager = pq_manager q, con_UssAvailability = '''',
      con_Version = version + 1, con_OVN = '''',
      con_StartTime = StartTime (pq_extent q), con_EndTime = EndTime (pq_extent q),
      con_USSBaseURL = ppc_UssBaseUrl (pq_params q),
      con_AltitudeLower = AltitudeLo v3, con_AltitudeUpper = AltitudeHi v3,
      con_Cells = pq_cells q\<rparr>"

definition put_con_action :: "ext \<Rightarrow> call \<Rightarrow> put_con_req \<Rightarrow> change_con_response scd_tx" where
  "put_con_action x c q =
     bnd (put_con_old x q) (\<lambda>(old, version).
     bnd (case old of
            None \<Rightarrow> ret (pq_extent q)
          | Some old' \<Rightarrow>
              wrap Propagate (of_sum (UnionVolumes4D x [pq_extent q, con_volume4d old'])))
       (\<lambda>notifyVol4.
     bnd (deref (SpatialVolume (pq_extent q))) (\<lambda>v3.
     bnd (scd_UpsertConstraint x (c_txn c) (new_con q version v3)) (\<lambda>con.
     bnd (scd_SearchSubscriptions x notifyVol4) (\<lambda>allsubs.
     bnd (scd_subs_IncrementNotificationIndices x
            (filter sub_NotifyForConstraints allsubs)) (\<lambda>subs.
     bnd (of_sum (Constraint_ToProto x con)) (\<lambda>p.
     ret \<lparr>chc_ConstraintReference = p,
          chc_Subscribers = makeSubscribersToNotify x subs\<rparr>)))))))"

definition PutConstraintReference ::
    "ext \<Rightarrow> call \<Rightarrow> string \<Rightarrow> string \<Rightarrow> put_con_params option \<Rightarrow> scd_db
     \<Rightarrow> (scd_err + change_con_response) \<times> scd_db" where
  "PutConstraintReference x c entityid ovn params =
     serve (validate_put_con x c entityid ovn params) (put_con_action x c)"

definition CreateConstraintReference ::
    "ext \<Rightarrow> call \<Rightarrow> string \<Rightarrow> put_con_params option \<Rightarrow> scd_db
     \<Rightarrow> (scd_err + change_con_response) \<times> scd_db" where
  "CreateConstraintReference x c entityid params = PutConstraintReference x c entityid '''' params"

definition UpdateConstraintReference ::
    "ext \<Rightarrow> call \<Rightarrow> string \<Rightarrow> string \<Rightarrow> put_con_params option \<Rightarrow> scd_db
     \<Rightarrow> (scd_err + change_con_response) \<times> scd_db" where
  "UpdateConstraintReference x c entityid ovn params = PutConstraintReference x c entityid ovn params"

text \<open>This query returns the errors of the parser and of the store as they are.\<close>

definition query_con_proto :: "ext \<Rightarrow> string \<Rightarrow> constraint \<Rightarrow> 'd err + pb_constraint" where
  "query_con_proto x manager con =
     sbind (Constraint_ToProto x con) (\<lambda>p.
     Inr (if con_Manager con \<noteq> manager then p\<lparr>pcon_Ovn := NoOvnPhrase\<rparr> else p))"

definition query_cons_action :: "ext \<Rightarrow> volume4d \<times> string \<Rightarrow> pb_constraint list scd_tx" where
  "query_cons_action x = (\<lambda>(vol4, manager).
     bnd (scd_SearchConstraints x vol4) (\<lambda>cons.
     of_sum (smap (query_con_proto x manager) cons)))"

definition QueryConstraintReferences ::
    "ext \<Rightarrow> call \<Rightarrow> pb_volume4d option option \<Rightarrow> scd_db
     \<Rightarrow> (scd_err + pb_constraint list) \<times> scd_db" where
  "QueryConstraintReferences x c params =
     serve (query_request x c (\<lambda>e. e) params) (query_cons_action x)"

section \<open>Availability of a USS\<close>

record availability_response =
  avl_Uss :: string
  avl_Availability :: string
  avl_Version :: string

definition GetDefaultAvailabilityResponse :: "string \<Rightarrow> availability_response" where
  "GetDefaultAvailabilityResponse i =
     \<lparr>avl_Uss = i, avl_Availability = ''Unknown'', avl_Version = ''''\<rparr>"

definition get_avail_action :: "ext \<Rightarrow> string \<Rightarrow> availability_response scd_tx" where
  "get_avail_action x i =
     bnd (attempt (scd_GetUssAvailability x i)) (\<lambda>r.
     case r of
       Inl ErrNoRows \<Rightarrow> ret (GetDefaultAvailabilityResponse i)
     | Inl e \<Rightarrow> fail (Propagate e)
     | Inr ussa \<Rightarrow>
         ret \<lparr>avl_Uss = i, avl_Availability = ua_Availability ussa,
              avl_Version = ua_Version ussa\<rparr>)"

text \<open>
  An error whose text says that something does not exist is taken for a database without the
  table, and the default is returned.
\<close>

definition default_if_no_table ::
    "string \<Rightarrow> ('d err + availability_response) \<times> 's \<Rightarrow> ('d err + availability_response) \<times> 's" where
  "default_if_no_table i r =
     (case r of
        (Inl e, db) \<Rightarrow>
          (if e \<noteq> Panic \<and> err_mentions ''does not exist'' e
           then (Inr (GetDefaultAvailabilityResponse i), db) else (Inl e, db))
      | (Inr a, db) \<Rightarrow> (Inr a, db))"

definition GetUssAvailability ::
    "ext \<Rightarrow> string \<Rightarrow> scd_db \<Rightarrow> (scd_err + availability_response) \<times> scd_db" where
  "GetUssAvailability x uss db =
     (if uss = '''' then (Inl (coded BadRequest), db)
      else default_if_no_table uss (transact (get_avail_action x uss) db))"

definition put_avail_action ::
    "ext \<Rightarrow> call \<Rightarrow> string \<Rightarrow> string \<Rightarrow> availability_response scd_tx" where
  "put_avail_action x c uss availability =
     bnd (wrap Propagate (scd_UpsertUssAvailability x (c_txn c)
            \<lparr>ua_Uss = uss, ua_Availability = availability, ua_Version = ''''\<rparr>)) (\<lambda>ussa.
     ret \<lparr>avl_Uss = uss, avl_Availability = ua_Availability ussa,
          avl_Version = ua_Version ussa\<rparr>)"

text \<open>The parameters are read with a getter: without them the availability is the empty string.\<close>

definition PutUssAvailability ::
    "ext \<Rightarrow> call \<Rightarrow> string \<Rightarrow> string option \<Rightarrow> scd_db
     \<Rightarrow> (scd_err + availability_response) \<times> scd_db" where
  "PutUssAvailability x c uss params db =
     (if uss = '''' then (Inl (coded BadRequest), db)
      else case UssAvailabilityStateFromString (case params of None \<Rightarrow> '''' | Some a \<Rightarrow> a) of
        Inl e \<Rightarrow> (Inl (PropagateWithCode BadRequest e), db)
      | Inr availability \<Rightarrow>
          default_if_no_table uss (transact (put_avail_action x c uss availability) db))"

definition SetUssAvailability ::
    "ext \<Rightarrow> call \<Rightarrow> string \<Rightarrow> string option \<Rightarrow> scd_db
     \<Rightarrow> (scd_err + availability_response) \<times> scd_db" where
  "SetUssAvailability x c uss params = PutUssAvailability x c uss params"

section \<open>What the actions do\<close>

lemma pure_get_con_or_404 [pure_intros]: "pure_tx (get_con_or_404 x i)"
  by (auto simp: get_con_or_404_def intro!: pure_intros split: sum.split err.split)

lemma get_con_or_404_Inr [tx_inv]:
  "get_con_or_404 x i s = Inr (r, s') \<longleftrightarrow> scd_GetConstraint x i s = Inr (r, s')"
  by (auto simp: get_con_or_404_def bnd_def attempt_def fail_def ret_def
      split: sum.splits err.splits)

lemma put_con_old_Inr:
  assumes "put_con_old x q s = Inr ((old, version), s')"
  shows "\<exists>uid. x_pg_uuid x (pq_id q) = Some uid \<and> s' = s \<and>
    (case tbl_get (db_cons s) uid of
       None \<Rightarrow> old = None \<and> version = 0 \<and> pq_ovn q = ''''
     | Some r \<Rightarrow> old = Some (fetch_con x (uid, r)) \<and> version = cnr_version r \<and>
         cnr_owner r = pq_manager q \<and> pq_ovn q = NewOVNFromTime x (cnr_updated_at r) uid)"
  using assms
  by (cases "x_pg_uuid x (pq_id q)"; cases "tbl_get (db_cons s) (the (x_pg_uuid x (pq_id q)))")
    (auto simp: put_con_old_def scd_GetConstraint_def PgUUID_def bnd_def attempt_def wrap_def
      of_sum_def gets_def fail_def ret_def rewrap_def seq_def check_def split: if_splits)

lemma new_con_simps [simp]:
  "con_ID (new_con q version v3) = pq_id q"
  "con_Manager (new_con q version v3) = pq_manager q"
  "con_Version (new_con q version v3) = version + 1"
  "con_StartTime (new_con q version v3) = StartTime (pq_extent q)"
  "con_EndTime (new_con q version v3) = EndTime (pq_extent q)"
  "con_Cells (new_con q version v3) = pq_cells q"
  by (simp_all add: new_con_def)

lemma put_con_action_Inr:
  assumes "put_con_action x c q s = Inr (resp, s')"
  obtains old version uid v3 allsubs subs s1 vol where
    "put_con_old x q s = Inr ((old, version), s)"
    "x_pg_uuid x (pq_id q) = Some uid"
    "SpatialVolume (pq_extent q) = Some v3" "pq_cells q \<noteq> []"
    "times_check (StartTime (pq_extent q)) (EndTime (pq_extent q))"
    "s1 = s\<lparr>db_cons := tbl_upsert uid (con_row_of (c_txn c) (new_con q version v3)) (db_cons s)\<rparr>"
    "scd_SearchSubscriptions x vol s1 = Inr (allsubs, s1)"
    "scd_subs_IncrementNotificationIndices x (filter sub_NotifyForConstraints allsubs) s1 =
       Inr (subs, s')"
    "chc_Subscribers resp = makeSubscribersToNotify x subs"
proof -
  from assms obtain old version s0 vol s00 v3 con s1 allsubs s1' subs where
    old: "put_con_old x q s = Inr ((old, version), s0)" and
    vol: "(case old of None \<Rightarrow> ret (pq_extent q)
          | Some old' \<Rightarrow> wrap Propagate (of_sum (UnionVolumes4D x [pq_extent q, con_volume4d old'])))
       s0 = (Inr (vol, s00) :: airspace_conflict err + _)" and
    v3: "SpatialVolume (pq_extent q) = Some v3" and
    ups: "scd_UpsertConstraint x (c_txn c) (new_con q version v3) s00 = Inr (con, s1)" and
    search: "scd_SearchSubscriptions x vol s1 = Inr (allsubs, s1')" and
    inc: "scd_subs_IncrementNotificationIndices x (filter sub_NotifyForConstraints allsubs) s1' =
       Inr (subs, s')" and
    resp: "chc_Subscribers resp = makeSubscribersToNotify x subs"
    by (auto simp: put_con_action_def tx_inv)
  from put_con_old_Inr [OF old] have s0: "s0 = s" by auto
  from vol have s00: "s00 = s0" by (auto simp: tx_inv split: option.split_asm)
  from pure_txD [OF pure_searches(2) search] have s1': "s1' = s1" .
  from ups obtain uid where "x_pg_uuid x (pq_id q) = Some uid" "pq_cells q \<noteq> []"
      "times_check (StartTime (pq_extent q)) (EndTime (pq_extent q))"
      "s1 = s\<lparr>db_cons := tbl_upsert uid (con_row_of (c_txn c) (new_con q version v3)) (db_cons s)\<rparr>"
    by (auto simp: tx_inv s00 s0)
  with old v3 search inc resp show thesis
    by (intro that [where uid = uid]) (simp_all add: s0 s1')
qed

end
