(* ===== verification/Scd_Integrity.thy ===== *)
theory Scd_Integrity
  imports Scd_Subscriptions Scd_Constraints
begin

text \<open>
  The integrity of the strategic coordination database: every operational intent refers to a
  subscription of its owner that supports it. Each handler's action preserves it.
\<close>

section \<open>What integrity means\<close>

text \<open>
  \<open>area\<close> is the set of points a cell union covers. A subscription supports an operational
  intent of its owner when its area includes the operational intent's and it runs from at most
  five minutes after the operational intent's start until at least its end: five minutes is what
  \<^verbatim>\<open>ValidateDependentOp\<close> tolerates.
\<close>

definition sub_supports :: "(cells \<Rightarrow> 'p set) \<Rightarrow> sub_row \<Rightarrow> op_row \<Rightarrow> bool" where
  "sub_supports area s r \<longleftrightarrow>
     sbr_owner s = opr_owner r \<and>
     times_support (sbr_starts_at s) (sbr_ends_at s) (opr_starts_at r) (opr_ends_at r) \<and>
     area (opr_cells r) \<subseteq> area (sbr_cells s)"

definition sub_row_ok :: "sub_row \<Rightarrow> bool" where
  "sub_row_ok s \<longleftrightarrow>
     times_ordered (sbr_starts_at s) (sbr_ends_at s) \<and>
     0 \<le> sbr_notification_index s \<and> sbr_notification_index s < 2 ^ 31 \<and>
     (sbr_notify_for_operations s \<or> sbr_notify_for_constraints s)"

definition con_row_ok :: "con_row \<Rightarrow> bool" where
  "con_row_ok r \<longleftrightarrow> times_ordered (cnr_starts_at r) (cnr_ends_at r) \<and> cnr_cells r \<noteq> []"

definition scd_ok :: "ext \<Rightarrow> (cells \<Rightarrow> 'p set) \<Rightarrow> scd_db \<Rightarrow> bool" where
  "scd_ok x area db \<longleftrightarrow>
     refs_ok (pg_canonical x) opr_subscription_id (sub_supports area) sub_row_ok
       (db_ops db) (db_subs db) \<and>
     tbl_wf (db_cons db) \<and>
     (\<forall>k r. tbl_get (db_cons db) k = Some r \<longrightarrow> pg_canonical x k \<and> con_row_ok r)"

text \<open>
  What the properties suppose of the libraries: reading a UUID gives a text that reads as
  itself, and the two operations on cell unions are sound for \<open>area\<close>.
\<close>

definition s2_sound :: "ext \<Rightarrow> (cells \<Rightarrow> 'p set) \<Rightarrow> bool" where
  "s2_sound x area \<longleftrightarrow>
     (\<forall>a b. s2_contains x a b \<longrightarrow> area b \<subseteq> area a) \<and>
     (\<forall>a b. area (s2_union x a b) = area a \<union> area b)"

interpretation scd_refs: supported "pg_canonical x" opr_subscription_id "sub_supports area"
  sub_row_ok bump_sub sub_room for x area
  by unfold_locales (auto simp: sub_supports_def sub_row_ok_def bump_sub_def sub_room_def)

lemma scd_ok_refs: "scd_ok x area db \<Longrightarrow>
    refs_ok (pg_canonical x) opr_subscription_id (sub_supports area) sub_row_ok
       (db_ops db) (db_subs db)"
  by (simp add: scd_ok_def)

section \<open>Notifications\<close>

lemma keeps_increment: "keeps (scd_ok x area) (scd_subs_IncrementNotificationIndices x ss)"
proof (rule keepsI)
  fix s a s'
  assume ok: "scd_ok x area s" and run: "scd_subs_IncrementNotificationIndices x ss s = Inr (a, s')"
  show "scd_ok x area s'"
  proof (rule scd_subs_IncrementNotificationIndices_Inr [OF run])
    fix uids
    assume room: "\<And>k q. k \<in> set uids \<Longrightarrow> tbl_get (db_subs s) k = Some q \<Longrightarrow> sub_room q"
      and s': "s' = s\<lparr>db_subs := tbl_update_any uids bump_sub (db_subs s)\<rparr>"
    from scd_refs.bump_subs [OF scd_ok_refs [OF ok] room] ok show ?thesis
      by (simp add: s' scd_ok_def)
  qed
qed

section \<open>The subscription of an operational intent\<close>

text \<open>A row that covers what another covered.\<close>

definition widens :: "(cells \<Rightarrow> 'p set) \<Rightarrow> sub_row \<Rightarrow> sub_row \<Rightarrow> bool" where
  "widens area s0 s \<longleftrightarrow>
     sbr_owner s = sbr_owner s0 \<and>
     le_or_null (sbr_starts_at s) (sbr_starts_at s0) \<and>
     le_or_null (sbr_ends_at s0) (sbr_ends_at s) \<and>
     (sbr_starts_at s0 \<noteq> None \<longrightarrow> sbr_starts_at s \<noteq> None) \<and>
     (sbr_ends_at s0 \<noteq> None \<longrightarrow> sbr_ends_at s \<noteq> None) \<and>
     area (sbr_cells s0) \<subseteq> area (sbr_cells s)"

lemma widens_supports: "widens area s0 s \<Longrightarrow> sub_supports area s0 r \<Longrightarrow> sub_supports area s r"
  by (cases "sbr_starts_at s0"; cases "sbr_ends_at s0")
    (auto simp: widens_def sub_supports_def times_support_def split: option.splits)

lemma widen_start_Inr:
  "widen_start u s = Inr (s', b) \<Longrightarrow> StartTime u = Some st \<Longrightarrow>
     s' = s\<lparr>sub_StartTime := sub_StartTime s'\<rparr> \<and> le_or_null (sub_StartTime s') (Some st) \<and>
     le_or_null (sub_StartTime s') (sub_StartTime s) \<and>
     (sub_StartTime s' = None \<longleftrightarrow> sub_StartTime s = None) \<and> (\<not> b \<longrightarrow> s' = s)"
  by (cases "sub_StartTime s") (auto simp: widen_start_def tx_inv split: if_splits)

lemma widen_end_Inr:
  "widen_end u s = Inr (s', b) \<Longrightarrow> EndTime u = Some et \<Longrightarrow>
     s' = s\<lparr>sub_EndTime := sub_EndTime s'\<rparr> \<and> le_or_null (Some et) (sub_EndTime s') \<and>
     le_or_null (sub_EndTime s) (sub_EndTime s') \<and>
     (sub_EndTime s' = None \<longleftrightarrow> sub_EndTime s = None) \<and> (\<not> b \<longrightarrow> s' = s)"
  by (cases "sub_EndTime s") (auto simp: widen_end_def tx_inv split: if_splits)

lemma widen_cells_Inr:
  "widen_cells x cs s = Inr (s', b) \<Longrightarrow> s2_sound x area \<Longrightarrow>
     s' = s\<lparr>sub_Cells := sub_Cells s'\<rparr> \<and> area cs \<subseteq> area (sub_Cells s') \<and>
     area (sub_Cells s) \<subseteq> area (sub_Cells s') \<and> (\<not> b \<longrightarrow> s' = s)"
  by (auto simp: widen_cells_def s2_sound_def split: if_splits)

text \<open>
  What \<open>put_op_subscription\<close> does to the table: nothing, or it writes the row \<open>row\<close>. The row
  supports what the request asks for, and covers what the row it replaces covered.
\<close>

lemma use_subscription_Inr:
  assumes run: "use_subscription x c q s = Inr (sub, s')"
    and sound: "s2_sound x area" and idem: "uuid_idem x"
    and st: "StartTime (po_extent q) = Some st" and et: "EndTime (po_extent q) = Some et"
  obtains uid row0 row where
    "tbl_get (db_subs s) uid = Some row0" "tbl_get (db_subs s') uid = Some row"
    "x_pg_uuid x (sub_ID sub) = Some uid" "sub_ID sub = uid"
    "s' = s \<and> row = row0 \<or>
     s' = s\<lparr>db_subs := tbl_upsert uid row (db_subs s)\<rparr> \<and>
       times_check (sbr_starts_at row) (sbr_ends_at row)"
    "sbr_owner row0 = po_manager q" "widens area row0 row"
    "sbr_notification_index row = sbr_notification_index row0"
    "sbr_notify_for_operations row = sbr_notify_for_operations row0"
    "sbr_notify_for_constraints row = sbr_notify_for_constraints row0"
    "sbr_implicit row = sbr_implicit row0"
    "le_or_null (sbr_starts_at row) (Some st)" "le_or_null (Some et) (sbr_ends_at row)"
    "area (po_cells q) \<subseteq> area (sbr_cells row)"
proof -
  from run obtain uid row0 s1 u1 s2 u2 s3 u3 where
    uid: "x_pg_uuid x (po_subid q) = Some uid" and row0: "tbl_get (db_subs s) uid = Some row0" and
    own: "sbr_owner row0 = po_manager q" and
    w1: "widen_start (po_extent q) (fetch_sub x (uid, row0)) = (Inr (s1, u1) :: scd_err + _)" and
    w2: "widen_end (po_extent q) s1 = (Inr (s2, u2) :: scd_err + _)" and
    w3: "widen_cells x (po_cells q) s2 = (Inr (s3, u3) :: scd_err + _)" and
    fin: "(if u1 \<or> u2 \<or> u3 then wrap Propagate (scd_UpsertSubscription x (c_txn c) s3)
          else ret s3) s = Inr (sub, s')"
    by (auto simp: use_subscription_def tx_inv split: option.splits)
  from idem uid have can: "x_pg_uuid x uid = Some uid"
    by (auto simp: uuid_idem_def pg_canonical_def)
  define s0 where "s0 = fetch_sub x (uid, row0)"
  note w = widen_start_Inr [OF w1 [folded s0_def] st] widen_end_Inr [OF w2 et]
    widen_cells_Inr [OF w3 sound]
  have s3: "s3 = s0\<lparr>sub_StartTime := sub_StartTime s1, sub_EndTime := sub_EndTime s2,
      sub_Cells := sub_Cells s3\<rparr>" and stay: "\<not> (u1 \<or> u2 \<or> u3) \<Longrightarrow> s3 = s0"
    using w by metis+
  have same: "sub_ID s3 = uid" "sub_Manager s3 = sbr_owner row0"
      "sub_NotificationIndex s3 = sbr_notification_index row0"
      "sub_NotifyForOperationalIntents s3 = sbr_notify_for_operations row0"
      "sub_NotifyForConstraints s3 = sbr_notify_for_constraints row0"
      "sub_ImplicitSubscription s3 = sbr_implicit row0"
    by (subst s3; simp add: s0_def)+
  have times: "sub_StartTime s3 = sub_StartTime s1" "sub_EndTime s3 = sub_EndTime s2"
    by (subst s3; simp)+
  have s12: "sub_EndTime s1 = sbr_ends_at row0" "sub_Cells s2 = sbr_cells row0"
  proof -
    have "sub_EndTime s1 = sub_EndTime (s0\<lparr>sub_StartTime := sub_StartTime s1\<rparr>)"
      using w(1) by metis
    then show "sub_EndTime s1 = sbr_ends_at row0" by (simp add: s0_def)
    have "sub_Cells s2 = sub_Cells (s1\<lparr>sub_EndTime := sub_EndTime s2\<rparr>)"
         "sub_Cells s1 = sub_Cells (s0\<lparr>sub_StartTime := sub_StartTime s1\<rparr>)"
      using w(1,2) by metis+
    then show "sub_Cells s2 = sbr_cells row0" by (simp add: s0_def)
  qed
  let ?row = "sub_row_of (c_txn c) s3"
  have new: "widens area row0 ?row" "le_or_null (sbr_starts_at ?row) (Some st)"
      "le_or_null (Some et) (sbr_ends_at ?row)" "area (po_cells q) \<subseteq> area (sbr_cells ?row)"
    using w by (auto simp: widens_def same times s12 s0_def)
  show thesis
  proof (cases "u1 \<or> u2 \<or> u3")
    case True
    with fin show thesis
      by (intro that [of uid row0 ?row])
        (use row0 own new same can in \<open>auto simp: tx_inv tbl_laws\<close>)
  next
    case False
    with fin stay have "sub = s0" "s' = s" by (auto simp: tx_inv)
    moreover have "widens area row0 row0" by (auto simp: widens_def le_or_null_def split: option.splits)
    moreover have "sbr_starts_at ?row = sbr_starts_at row0" "sbr_ends_at ?row = sbr_ends_at row0"
      "sbr_cells ?row = sbr_cells row0"
      using stay [OF False] by (simp_all add: s0_def)
    ultimately show thesis
      by (intro that [of uid row0 row0])
        (use row0 own new can in \<open>auto simp: s0_def\<close>)
  qed
qed

text \<open>The UUID the server draws is not the id of a subscription.\<close>

definition fresh_uuid :: "ext \<Rightarrow> call \<Rightarrow> scd_db \<Rightarrow> bool" where
  "fresh_uuid x c db \<longleftrightarrow>
     (case x_pg_uuid x (c_uuid c) of None \<Rightarrow> True | Some u \<Rightarrow> tbl_get (db_subs db) u = None)"

text \<open>How a row \<open>row\<close> comes after the row there was, if there was one.\<close>

definition row_follows :: "(cells \<Rightarrow> 'p set) \<Rightarrow> string \<Rightarrow> sub_row option \<Rightarrow> sub_row \<Rightarrow> bool" where
  "row_follows area manager r0 row \<longleftrightarrow>
     sbr_owner row = manager \<and>
     (case r0 of
        None \<Rightarrow> sbr_notification_index row = 0 \<and> sbr_implicit row \<and> sbr_notify_for_operations row
      | Some row0 \<Rightarrow>
          sbr_owner row0 = manager \<and> widens area row0 row \<and>
          sbr_notification_index row = sbr_notification_index row0 \<and>
          sbr_notify_for_operations row = sbr_notify_for_operations row0 \<and>
          sbr_notify_for_constraints row = sbr_notify_for_constraints row0 \<and>
          sbr_implicit row = sbr_implicit row0)"

lemma put_op_subscription_Inr:
  assumes run: "put_op_subscription x c q s = Inr (sub, s')"
    and sound: "s2_sound x area" and idem: "uuid_idem x" and fresh: "fresh_uuid x c s"
    and st: "StartTime (po_extent q) = Some st" and et: "EndTime (po_extent q) = Some et"
  obtains uid row where
    "tbl_get (db_subs s') uid = Some row" "x_pg_uuid x (sub_ID sub) = Some uid"
    "s' = s \<or> s' = s\<lparr>db_subs := tbl_upsert uid row (db_subs s)\<rparr> \<and>
       times_check (sbr_starts_at row) (sbr_ends_at row)"
    "row_follows area (po_manager q) (tbl_get (db_subs s) uid) row"
    "le_or_null (sbr_starts_at row) (Some st)" "le_or_null (Some et) (sbr_ends_at row)"
    "tbl_get (db_subs s) uid = None \<longrightarrow> sbr_starts_at row = Some st \<and> sbr_ends_at row = Some et"
    "area (po_cells q) \<subseteq> area (sbr_cells row)"
proof (cases "ID_Empty (po_subid q)")
  case True
  with run have "new_implicit_subscription x c q s = Inr (sub, s')"
    by (simp add: put_op_subscription_def)
  then obtain uid v3 url n where uid: "x_pg_uuid x (c_uuid c) = Some uid"
    and row: "s' = s\<lparr>db_subs := tbl_upsert uid
        (sub_row_of (c_txn c) (implicit_subscription c q v3 url n)) (db_subs s)\<rparr>"
      (is "s' = s\<lparr>db_subs := tbl_upsert uid ?row (db_subs s)\<rparr>")
    and chk: "times_check (StartTime (po_extent q)) (EndTime (po_extent q))"
    and id: "sub_ID sub = uid"
    by (auto simp: new_implicit_subscription_def tx_inv Let_def)
  show thesis
    by (rule that [of uid ?row])
      (use uid row chk id fresh idem st et in
        \<open>auto simp: row_follows_def fresh_uuid_def tbl_laws uuid_idem_def pg_canonical_def\<close>)
next
  case False
  with run have u: "use_subscription x c q s = Inr (sub, s')"
    by (simp add: put_op_subscription_def)
  show thesis
    by (rule use_subscription_Inr [OF u sound idem st et], rule that)
      (auto simp: row_follows_def widens_def)
qed

section \<open>Operational intents\<close>

lemma sub_row_ok_times:
  "sub_row_ok r \<Longrightarrow> sbr_starts_at r \<noteq> None \<and> sbr_ends_at r \<noteq> None"
  by (auto simp: sub_row_ok_def times_ordered_def split: option.splits)

lemma row_follows_ok:
  assumes "row_follows area m (tbl_get t uid) row" and "\<And>r. tbl_get t uid = Some r \<Longrightarrow> sub_row_ok r"
    and "times_check (sbr_starts_at row) (sbr_ends_at row)"
    and "tbl_get t uid = None \<longrightarrow> sbr_starts_at row = Some st \<and> sbr_ends_at row = Some et"
  shows "sub_row_ok row"
proof (cases "tbl_get t uid")
  case None
  with assms show ?thesis
    by (auto simp: row_follows_def sub_row_ok_def times_check_def times_ordered_def)
next
  case (Some r)
  with assms(2) sub_row_ok_times have "sub_row_ok r" "sbr_starts_at r \<noteq> None" "sbr_ends_at r \<noteq> None"
    by blast+
  moreover from this Some assms(1) obtain b e where
      "sbr_starts_at row = Some b" "sbr_ends_at row = Some e"
    by (auto simp: row_follows_def widens_def)
  ultimately show ?thesis
    using Some assms(1,3)
    by (simp add: row_follows_def sub_row_ok_def times_check_def times_ordered_def)
qed

lemma ok_put_op:
  assumes ok: "scd_ok x area s" and sound: "s2_sound x area" and idem: "uuid_idem x"
    and fresh: "fresh_uuid x c s" and valid: "validate_put_op x c entityid ovn params = Inr q"
    and run: "put_op_action x c q s = Inr (resp, s')"
  shows "scd_ok x area s'"
proof (rule put_op_action_Inr [OF run])
  fix old version sub s1 oi v s2
  assume sub: "put_op_subscription x c q s = Inr (sub, s1)"
    and store: "put_op_store x c q old version sub s1 = Inr ((oi, v), s2)"
    and notify: "put_op_notify x (oi, v) s2 = Inr (resp, s')"
  from validate_put_op_Inr [OF valid] obtain st et where
    st: "StartTime (po_extent q) = Some st" and et: "EndTime (po_extent q) = Some et" by blast
  note refs = scd_ok_refs [OF ok]
  show ?thesis
  proof (rule put_op_subscription_Inr [OF sub sound idem fresh st et])
    fix uid row
    assume row: "tbl_get (db_subs s1) uid = Some row" and uid: "x_pg_uuid x (sub_ID sub) = Some uid"
      and s1: "s1 = s \<or> s1 = s\<lparr>db_subs := tbl_upsert uid row (db_subs s)\<rparr> \<and>
        times_check (sbr_starts_at row) (sbr_ends_at row)"
      and follows: "row_follows area (po_manager q) (tbl_get (db_subs s) uid) row"
      and cover: "le_or_null (sbr_starts_at row) (Some st)" "le_or_null (Some et) (sbr_ends_at row)"
        "area (po_cells q) \<subseteq> area (sbr_cells row)"
      and new: "tbl_get (db_subs s) uid = None \<longrightarrow> sbr_starts_at row = Some st \<and> sbr_ends_at row = Some et"
    have can: "pg_canonical x k" if "x_pg_uuid x i = Some k" for i k
      using idem that by (auto simp: uuid_idem_def)
    have ok1: "scd_ok x area s1"
      using s1
    proof
      assume s1: "s1 = s\<lparr>db_subs := tbl_upsert uid row (db_subs s)\<rparr> \<and>
        times_check (sbr_starts_at row) (sbr_ends_at row)"
      have rok: "sub_row_ok row"
        using follows _ conjunct2 [OF s1] new by (rule row_follows_ok) (use refs in \<open>auto dest: scd_refs.refs_sub\<close>)
      have "refs_ok (pg_canonical x) opr_subscription_id (sub_supports area) sub_row_ok
          (db_ops s) (tbl_upsert uid row (db_subs s))"
      proof (cases "tbl_get (db_subs s) uid")
        case None
        then show ?thesis using scd_refs.new_sub [OF refs can [OF uid] rok] by blast
      next
        case (Some r0)
        with follows have "widens area r0 row" by (simp add: row_follows_def)
        then show ?thesis
          by (intro scd_refs.widen_sub [OF refs can [OF uid] rok Some]) (rule widens_supports)
      qed
      then show ?thesis using ok s1 by (simp add: scd_ok_def)
    qed (use ok in simp)
    note refs1 = scd_ok_refs [OF ok1]
    from put_op_store_Inr [OF store] obtain v3 opid where
      opid: "x_pg_uuid x (po_id q) = Some opid" and
      s2: "s2 = s1\<lparr>db_ops := tbl_upsert opid
        (op_row_of (c_txn c) uid (new_op q version v3 sub)) (db_ops s1)\<rparr>"
      using uid by (auto simp: Let_def)
    have "sub_supports area row (op_row_of (c_txn c) uid (new_op q version v3 sub))"
      using follows cover scd_refs.refs_sub [OF refs1 row] times_support_le [OF cover(1,2)]
        sub_row_ok_times [of row]
      by (auto simp: sub_supports_def row_follows_def st et)
    from scd_refs.put_op [OF refs1 can [OF opid] _ this] row ok1 have "scd_ok x area s2"
      by (simp add: s2 scd_ok_def)
    then show ?thesis
      using put_op_notify_Inr [OF notify] keepsD [OF keeps_increment] by blast
  qed
qed

text \<open>Deletion, with the cascade to an implicit subscription that has no other dependent.\<close>

lemma delete_op_action_Inr:
  assumes "delete_op_action x (i, manager) s = Inr (resp, s')"
  obtains uid r sid sr rm allsubs subs s1 s2 where
    "x_pg_uuid x i = Some uid" "tbl_get (db_ops s) uid = Some r" "opr_owner r = manager"
    "x_pg_uuid x (opr_subscription_id r) = Some sid" "tbl_get (db_subs s) sid = Some sr"
    "remove_implicit x (fetch_sub x (sid, sr)) s = Inr (rm, s)"
    "scd_SearchSubscriptions x (op_volume4d (fetch_op x (uid, r))) s = Inr (allsubs, s)"
    "scd_subs_IncrementNotificationIndices x (filter sub_NotifyForOperationalIntents allsubs) s =
       Inr (subs, s1)"
    "s2 = s1\<lparr>db_ops := tbl_delete uid (db_ops s1)\<rparr>"
    "(if rm then wrap Propagate (scd_DeleteSubscription x sid) else ret ()) s2 = Inr ((), s')"
    "OperationalIntent_ToProto x (fetch_op x (uid, r)) =
       (Inr (cho_OperationalIntentReference resp) :: scd_err + _)"
    "cho_Subscribers resp = makeSubscribersToNotify x subs"
proof -
  have pure_rm: "pure_tx (remove_implicit x q)" for q
    by (auto simp: remove_implicit_def intro!: pure_intros)
  from assms obtain uid r sid sr rm s0 s0' allsubs subs s1 where
    "x_pg_uuid x i = Some uid" "tbl_get (db_ops s) uid = Some r" "opr_owner r = manager"
    "x_pg_uuid x (opr_subscription_id r) = Some sid" "tbl_get (db_subs s) sid = Some sr"
    "remove_implicit x (fetch_sub x (sid, sr)) s = Inr (rm, s0)"
    "scd_SearchSubscriptions x (op_volume4d (fetch_op x (uid, r))) s0 = Inr (allsubs, s0')"
    "scd_subs_IncrementNotificationIndices x (filter sub_NotifyForOperationalIntents allsubs) s0' =
       Inr (subs, s1)"
    "(if rm then wrap Propagate (scd_DeleteSubscription x (sub_ID (fetch_sub x (sid, sr)))) else ret ())
       (s1\<lparr>db_ops := tbl_delete uid (db_ops s1)\<rparr>) = Inr ((), s')"
    "OperationalIntent_ToProto x (fetch_op x (uid, r)) =
       (Inr (cho_OperationalIntentReference resp) :: scd_err + _)"
    "cho_Subscribers resp = makeSubscribersToNotify x subs"
    by (auto simp: delete_op_action_def tx_inv)
  moreover from this have "s0 = s" "s0' = s0"
    by (auto dest: pure_txD [OF pure_rm] pure_txD [OF pure_searches(2)])
  ultimately show thesis by (intro that) auto
qed

lemma ok_delete_op:
  assumes ok: "scd_ok x area s" and run: "delete_op_action x q s = Inr (resp, s')"
  shows "scd_ok x area s'"
proof -
  obtain i m where q: "q = (i, m)" by fastforce
  show ?thesis
  proof (rule delete_op_action_Inr [OF run [unfolded q]])
    fix uid r sid sr rm allsubs subs s1 s2
    assume inc: "scd_subs_IncrementNotificationIndices x
          (filter sub_NotifyForOperationalIntents allsubs) s = Inr (subs, s1)"
      and s2: "s2 = s1\<lparr>db_ops := tbl_delete uid (db_ops s1)\<rparr>"
      and fin: "(if rm then wrap Propagate (scd_DeleteSubscription x sid) else ret ()) s2 =
          Inr ((), s')"
    have ok1: "scd_ok x area s1" using keepsD [OF keeps_increment inc ok] .
    from scd_refs.delete_op [OF scd_ok_refs [OF ok1]] ok1 have ok2: "scd_ok x area s2"
      by (simp add: s2 scd_ok_def)
    from scd_refs.delete_sub [OF scd_ok_refs [OF ok2]] ok2 fin show ?thesis
      by (auto simp: scd_ok_def tx_inv split: if_splits)
  qed
qed

section \<open>Subscriptions\<close>

lemma put_sub_old_Inr:
  assumes "put_sub_old x old subreq s = Inr ((subreq', deps), s')"
  shows "(old = None \<and> subreq' = subreq \<and> sub_Version subreq = '''') \<or>
    (\<exists>old' ops u. old = Some old' \<and> sub_Version subreq = sub_Version old' \<and>
       sub_Manager old' = sub_Manager subreq \<and>
       subreq' = subreq\<lparr>sub_NotificationIndex := sub_NotificationIndex old'\<rparr> \<and>
       scd_GetDependentOperationalIntents x (sub_ID subreq) s = Inr (deps, s) \<and>
       GetOperations x deps s = Inr (ops, s) \<and>
       ValidateDependentOps x subreq' ops = (Inr u :: scd_err + unit))"
proof (cases old)
  case (Some old')
  with assms obtain ops s1 s2 u where
    "sub_Version subreq = sub_Version old'" "sub_Manager old' = sub_Manager subreq"
    "subreq' = subreq\<lparr>sub_NotificationIndex := sub_NotificationIndex old'\<rparr>"
    "scd_GetDependentOperationalIntents x (sub_ID subreq) s = Inr (deps, s1)"
    "GetOperations x deps s1 = Inr (ops, s2)"
    "ValidateDependentOps x subreq' ops = (Inr u :: scd_err + unit)"
    by (auto simp: put_sub_old_def tx_inv Let_def)
  moreover from this have "s1 = s" "s2 = s1"
    by (auto dest: pure_txD [OF pure_gets_ops(2)] pure_txD [OF pure_GetOperations])
  ultimately show ?thesis using Some by blast
qed (use assms in \<open>auto simp: put_sub_old_def tx_inv\<close>)

lemma dependent_supported:
  assumes "ValidateDependentOp x q (fetch_op x (k, r)) = (Inr u :: 'd err + unit)"
    and "s2_sound x area" and "sub_Manager q = opr_owner r"
  shows "sub_supports area (sub_row_of ts q) r"
proof (rule ValidateDependentOp_Inr [OF assms(1)])
  fix sst ost oet sen
  assume "s2_contains x (sub_Cells q) (oi_Cells (fetch_op x (k, r)))"
    and "sub_StartTime q = Some sst" "oi_StartTime (fetch_op x (k, r)) = Some ost"
      "oi_EndTime (fetch_op x (k, r)) = Some oet" "sub_EndTime q = Some sen"
      "sst - ost \<le> 5 * 60 * 10 ^ 6" "oet \<le> sen"
  with assms(2,3) show ?thesis
    by (auto simp: sub_supports_def times_support_def s2_sound_def)
qed

lemma ok_put_sub:
  assumes ok: "scd_ok x area s" and sound: "s2_sound x area" and idem: "uuid_idem x"
    and valid: "validate_put_sub x c subscriptionid version params = Inr q"
    and run: "put_sub_action x c q s = Inr (resp, s')"
  shows "scd_ok x area s'"
proof (rule put_sub_action_Inr [OF run])
  fix uid old b e subreq deps
  assume uid: "x_pg_uuid x (sub_ID (ps_subreq q)) = Some uid"
    and old: "old = map_option (\<lambda>r. fetch_sub x (uid, r)) (tbl_get (db_subs s) uid)"
    and run_old: "put_sub_old x old ((ps_subreq q)\<lparr>sub_StartTime := Some b, sub_EndTime := Some e\<rparr>) s =
       Inr ((subreq, deps), s)"
    and "b < e"
    and s': "s' = s\<lparr>db_subs := tbl_upsert uid (sub_row_of (c_txn c) subreq) (db_subs s)\<rparr>"
  note refs = scd_ok_refs [OF ok] and checked = put_sub_old_Inr [OF run_old] and v = validate_put_sub_Inr [OF valid]
  have can: "pg_canonical x uid" using idem uid by (simp add: uuid_idem_def)
  have rok: "sub_row_ok (sub_row_of (c_txn c) subreq)"
    using checked v \<open>b < e\<close> scd_refs.refs_sub [OF refs, of uid] old
    by (auto simp: sub_row_ok_def times_ordered_def)
  have "sub_supports area (sub_row_of (c_txn c) subreq) r"
    if r: "tbl_get (db_ops s) k' = Some r" and dep: "opr_subscription_id r = uid" for k' r
  proof -
    from scd_refs.refs_op [OF refs r] dep obtain sr where
      sr: "tbl_get (db_subs s) uid = Some sr" "sub_supports area sr r" and k': "pg_canonical x k'" by auto
    with checked old obtain ops u where deps: "k' \<in> set deps" and
      ops: "GetOperations x deps s = Inr (ops, s)" and
      val: "ValidateDependentOps x subreq ops = (Inr u :: scd_err + unit)" and
      own: "sub_Manager subreq = opr_owner r"
      using uid r dep scd_refs.refs_wf [OF refs]
      by (auto simp: tx_inv sub_supports_def tbl.set_select image_iff)
    from GetOperations_Inr [OF ops deps _ r] k' have "Some (fetch_op x (k', r)) \<in> set ops"
      by (simp add: pg_canonical_def)
    from ValidateDependentOps_Inr [OF val this] obtain oi where
      "ValidateDependentOp x subreq (fetch_op x (k', r)) = (Inr () :: unit err + unit)" by auto
    then show ?thesis using sound own by (rule dependent_supported)
  qed
  from scd_refs.change_sub [OF refs can rok this] ok show ?thesis
    by (simp add: s' scd_ok_def)
qed

lemma ok_delete_sub:
  assumes ok: "scd_ok x area s" and run: "delete_sub_action x q s = Inr (resp, s')"
  shows "scd_ok x area s'"
proof -
  obtain i m where q: "q = (i, m)" by fastforce
  from scd_refs.delete_sub [OF scd_ok_refs [OF ok]] ok show ?thesis
    by (auto simp: scd_ok_def intro: delete_sub_action_Inr [OF run [unfolded q]])
qed

section \<open>Constraints and availability\<close>

lemma ok_put_con:
  assumes ok: "scd_ok x area s" and idem: "uuid_idem x"
    and valid: "validate_put_con x c entityid ovn params = Inr q"
    and run: "put_con_action x c q s = Inr (resp, s')"
  shows "scd_ok x area s'"
proof (rule put_con_action_Inr [OF run])
  fix old version uid v3 allsubs subs s1 vol
  assume uid: "x_pg_uuid x (pq_id q) = Some uid" and "pq_cells q \<noteq> []"
    and "times_check (StartTime (pq_extent q)) (EndTime (pq_extent q))"
    and s1: "s1 = s\<lparr>db_cons := tbl_upsert uid (con_row_of (c_txn c) (new_con q version v3)) (db_cons s)\<rparr>"
    and inc: "scd_subs_IncrementNotificationIndices x (filter sub_NotifyForConstraints allsubs) s1 =
       Inr (subs, s')"
  moreover from valid obtain st et where "StartTime (pq_extent q) = Some st" "EndTime (pq_extent q) = Some et"
    by (auto simp: validate_put_con_def tx_inv)
  ultimately have "con_row_ok (con_row_of (c_txn c) (new_con q version v3))"
    by (simp add: con_row_ok_def times_ordered_def times_check_def)
  with ok idem uid have "scd_ok x area s1"
    by (auto simp: s1 scd_ok_def tbl_laws tbl_wf_laws uuid_idem_def)
  with inc show ?thesis by (rule keepsD [OF keeps_increment])
qed

lemma delete_con_action_Inr:
  assumes "delete_con_action x (i, manager) s = Inr (resp, s')"
  obtains uid r allsubs s1 subs where
    "x_pg_uuid x i = Some uid" "tbl_get (db_cons s) uid = Some r" "cnr_owner r = manager"
    "scd_SearchSubscriptions x (con_volume4d (fetch_con x (uid, r))) s = Inr (allsubs, s)"
    "s1 = s\<lparr>db_cons := tbl_delete uid (db_cons s)\<rparr>"
    "scd_subs_IncrementNotificationIndices x (filter sub_NotifyForConstraints allsubs) s1 =
       Inr (subs, s')"
    "chc_Subscribers resp = makeSubscribersToNotify x subs"
proof -
  from assms obtain uid r allsubs s1 s2 subs where
    "x_pg_uuid x i = Some uid" "tbl_get (db_cons s) uid = Some r" "cnr_owner r = manager"
    "scd_SearchSubscriptions x (con_volume4d (fetch_con x (uid, r))) s = Inr (allsubs, s1)"
    "s2 = s1\<lparr>db_cons := tbl_delete uid (db_cons s1)\<rparr>"
    "scd_subs_IncrementNotificationIndices x (filter sub_NotifyForConstraints allsubs) s2 =
       Inr (subs, s')"
    "chc_Subscribers resp = makeSubscribersToNotify x subs"
    by (auto simp: delete_con_action_def tx_inv)
  moreover from this have "s1 = s" by (auto dest: pure_txD [OF pure_searches(2)])
  ultimately show thesis by (intro that) auto
qed

lemma ok_delete_con:
  assumes ok: "scd_ok x area s" and run: "delete_con_action x q s = Inr (resp, s')"
  shows "scd_ok x area s'"
proof -
  obtain i m where q: "q = (i, m)" by fastforce
  show ?thesis
  proof (rule delete_con_action_Inr [OF run [unfolded q]])
    fix uid r allsubs s1 subs
    assume s1: "s1 = s\<lparr>db_cons := tbl_delete uid (db_cons s)\<rparr>"
      and inc: "scd_subs_IncrementNotificationIndices x (filter sub_NotifyForConstraints allsubs) s1 =
       Inr (subs, s')"
    from ok have "scd_ok x area s1"
      by (auto simp: s1 scd_ok_def tbl_laws tbl_wf_laws split: if_splits)
    with inc show ?thesis by (rule keepsD [OF keeps_increment])
  qed
qed

lemma ok_put_avail:
  "scd_ok x area s \<Longrightarrow> put_avail_action x c uss availability s = Inr (resp, s') \<Longrightarrow> scd_ok x area s'"
  by (auto simp: put_avail_action_def tx_inv scd_ok_def)

end
