(* ===== verification/Scd_System.thy ===== *)
theory Scd_System
  imports Scd_Integrity
begin

text \<open>
  The strategic coordination service as a whole: the requests it serves, one transaction per
  request, and the states of the database they can lead to.
\<close>

section \<open>Requests\<close>

text \<open>The endpoints of the service, with the parameters of their requests.\<close>

datatype scd_request =
    ReqDeleteOp string
  | ReqGetOp string
  | ReqQueryOps "pb_volume4d option option"
  | ReqCreateOp string "put_op_params option"
  | ReqUpdateOp string string "put_op_params option"
  | ReqCreateSub string "put_sub_params option"
  | ReqUpdateSub string string "put_sub_params option"
  | ReqGetSub string
  | ReqQuerySubs "pb_volume4d option option"
  | ReqDeleteSub string
  | ReqDeleteCon string
  | ReqGetCon string
  | ReqCreateCon string "put_con_params option"
  | ReqUpdateCon string string "put_con_params option"
  | ReqQueryCons "pb_volume4d option option"
  | ReqGetAvail string
  | ReqSetAvail string "string option"
  | ReqMakeDssReport

datatype scd_response =
    RespChangeOp change_op_response
  | RespOp pb_operational_intent
  | RespOps "pb_operational_intent list"
  | RespPutSub put_sub_response
  | RespSub pb_subscription
  | RespSubs "pb_subscription list"
  | RespChangeCon change_con_response
  | RespCon pb_constraint
  | RespCons "pb_constraint list"
  | RespAvail availability_response

definition MakeDssReport :: "scd_db \<Rightarrow> (scd_err + scd_response) \<times> scd_db" where
  "MakeDssReport db = (Inl (coded BadRequest), db)"

fun scd_serve ::
    "ext \<Rightarrow> call \<Rightarrow> scd_request \<Rightarrow> scd_db \<Rightarrow> (scd_err + scd_response) \<times> scd_db" where
  "scd_serve x c (ReqDeleteOp i) db = respond RespChangeOp (DeleteOperationalIntentReference x c i db)"
| "scd_serve x c (ReqGetOp i) db = respond RespOp (GetOperationalIntentReference x c i db)"
| "scd_serve x c (ReqQueryOps p) db = respond RespOps (QueryOperationalIntentReferences x c p db)"
| "scd_serve x c (ReqCreateOp i p) db = respond RespChangeOp (CreateOperationalIntentReference x c i p db)"
| "scd_serve x c (ReqUpdateOp i v p) db = respond RespChangeOp (UpdateOperationalIntentReference x c i v p db)"
| "scd_serve x c (ReqCreateSub i p) db = respond RespPutSub (CreateSubscription x c i p db)"
| "scd_serve x c (ReqUpdateSub i v p) db = respond RespPutSub (UpdateSubscription x c i v p db)"
| "scd_serve x c (ReqGetSub i) db = respond RespSub (GetSubscription x c i db)"
| "scd_serve x c (ReqQuerySubs p) db = respond RespSubs (QuerySubscriptions x c p db)"
| "scd_serve x c (ReqDeleteSub i) db = respond RespSub (DeleteSubscription x c i db)"
| "scd_serve x c (ReqDeleteCon i) db = respond RespChangeCon (DeleteConstraintReference x c i db)"
| "scd_serve x c (ReqGetCon i) db = respond RespCon (GetConstraintReference x c i db)"
| "scd_serve x c (ReqCreateCon i p) db = respond RespChangeCon (CreateConstraintReference x c i p db)"
| "scd_serve x c (ReqUpdateCon i v p) db = respond RespChangeCon (UpdateConstraintReference x c i v p db)"
| "scd_serve x c (ReqQueryCons p) db = respond RespCons (QueryConstraintReferences x c p db)"
| "scd_serve x c (ReqGetAvail i) db = respond RespAvail (GetUssAvailability x i db)"
| "scd_serve x c (ReqSetAvail i p) db = respond RespAvail (SetUssAvailability x c i p db)"
| "scd_serve x c ReqMakeDssReport db = MakeDssReport db"

section \<open>What a request does to the database\<close>

text \<open>
  The actions a request can run. Every request leaves the database as it was, or ends with the
  database that one of these actions committed.
\<close>

inductive scd_commits :: "ext \<Rightarrow> call \<Rightarrow> scd_db \<Rightarrow> scd_db \<Rightarrow> bool" for x c where
  put_op: "validate_put_op x c i ovn p = (Inr q :: scd_err + _) \<Longrightarrow>
     put_op_action x c q db = Inr (r, db') \<Longrightarrow> scd_commits x c db db'"
| delete_op: "c_manager c = Some m \<Longrightarrow>
     delete_op_action x (i, m) db = Inr (r, db') \<Longrightarrow> scd_commits x c db db'"
| put_sub: "validate_put_sub x c i v p = (Inr q :: scd_err + _) \<Longrightarrow>
     put_sub_action x c q db = Inr (r, db') \<Longrightarrow> scd_commits x c db db'"
| delete_sub: "c_manager c = Some m \<Longrightarrow>
     delete_sub_action x (i, m) db = Inr (r, db') \<Longrightarrow> scd_commits x c db db'"
| put_con: "validate_put_con x c i ovn p = (Inr q :: scd_err + _) \<Longrightarrow>
     put_con_action x c q db = Inr (r, db') \<Longrightarrow> scd_commits x c db db'"
| delete_con: "c_manager c = Some m \<Longrightarrow>
     delete_con_action x (i, m) db = Inr (r, db') \<Longrightarrow> scd_commits x c db db'"
| put_avail: "put_avail_action x c u a db = Inr (r, db') \<Longrightarrow> scd_commits x c db db'"

lemma pure_actions [pure_intros]:
  "pure_tx (get_op_action x q)" "pure_tx (query_ops_action x q')" "pure_tx (get_sub_action x q)"
  "pure_tx (query_subs_action x q')" "pure_tx (get_con_action x q)"
  "pure_tx (query_cons_action x q')" "pure_tx (get_avail_action x u)"
  unfolding get_op_action_def query_ops_action_def get_sub_action_def query_subs_action_def
    get_con_action_def query_cons_action_def get_avail_action_def
  by (auto intro!: pure_intros split: option.split sum.split err.split prod.split)

lemma snd_default_if_no_table [simp]: "snd (default_if_no_table i r) = snd r"
  by (auto simp: default_if_no_table_def split: sum.splits prod.splits)

lemma scd_serve_commits: "scd_commits x c db (snd (scd_serve x c req db)) \<or> snd (scd_serve x c req db) = db"
proof -
  let ?P = "\<lambda>db'. scd_commits x c db db' \<or> db' = db"
  have op: "?P (snd (PutOperationalIntentReference x c i v p db))" for i v p
    unfolding PutOperationalIntentReference_def
    by (rule serve_commits) (auto intro: scd_commits.put_op)
  have sub: "?P (snd (PutSubscription x c i v p db))" for i v p
    unfolding PutSubscription_def
    by (rule serve_commits) (auto intro: scd_commits.put_sub)
  have con: "?P (snd (PutConstraintReference x c i v p db))" for i v p
    unfolding PutConstraintReference_def
    by (rule serve_commits) (auto intro: scd_commits.put_con)
  have dop: "?P (snd (DeleteOperationalIntentReference x c i db))" for i
    unfolding DeleteOperationalIntentReference_def
    by (rule serve_commits) (auto dest!: entity_request_Inr intro: scd_commits.delete_op)
  have dsub: "?P (snd (DeleteSubscription x c i db))" for i
    unfolding DeleteSubscription_def
    by (rule serve_commits) (auto dest!: entity_request_Inr intro: scd_commits.delete_sub)
  have dcon: "?P (snd (DeleteConstraintReference x c i db))" for i
    unfolding DeleteConstraintReference_def
    by (rule serve_commits) (auto dest!: entity_request_Inr intro: scd_commits.delete_con)
  have avail: "?P (snd (PutUssAvailability x c u p db))" for u p
    by (auto simp: PutUssAvailability_def transact_def intro: scd_commits.put_avail split: sum.split)
  show ?thesis
    by (cases req)
      (simp_all add: op sub con dop dsub dcon avail serve_pure pure_intros pure_transact
        CreateOperationalIntentReference_def UpdateOperationalIntentReference_def
        CreateSubscription_def UpdateSubscription_def CreateConstraintReference_def
        UpdateConstraintReference_def SetUssAvailability_def GetUssAvailability_def
        GetOperationalIntentReference_def QueryOperationalIntentReferences_def
        GetSubscription_def QuerySubscriptions_def GetConstraintReference_def
        QueryConstraintReferences_def MakeDssReport_def)
qed

section \<open>Reachable states\<close>

lemma scd_commits_ok:
  "scd_commits x c db db' \<Longrightarrow> scd_ok x area db \<Longrightarrow> s2_sound x area \<Longrightarrow> uuid_idem x \<Longrightarrow>
     fresh_uuid x c db \<Longrightarrow> scd_ok x area db'"
  by (induction rule: scd_commits.induct)
    (blast intro: ok_put_op ok_delete_op ok_put_sub ok_delete_sub ok_put_con ok_delete_con
      ok_put_avail)+

text \<open>
  The database starts empty, with or without a table of availabilities. A call whose fresh UUID
  is not fresh is not considered.
\<close>

definition scd_empty :: "scd_db \<Rightarrow> bool" where
  "scd_empty db \<longleftrightarrow> db_ops db = [] \<and> db_subs db = [] \<and> db_cons db = []"

inductive scd_reachable :: "ext \<Rightarrow> scd_db \<Rightarrow> bool" for x where
  init: "scd_empty db \<Longrightarrow> scd_reachable x db"
| step: "scd_reachable x db \<Longrightarrow> fresh_uuid x c db \<Longrightarrow> scd_serve x c req db = (r, db') \<Longrightarrow>
     scd_reachable x db'"

inductive_cases scd_reachableE: "scd_reachable x db"

lemma scd_empty_ok: "scd_empty db \<Longrightarrow> scd_ok x area db"
  by (simp add: scd_empty_def scd_ok_def refs_ok_def tbl_wf_def tbl_get_def)

lemma scd_reachable_ok:
  "scd_reachable x db \<Longrightarrow> uuid_idem x \<Longrightarrow> s2_sound x area \<Longrightarrow> scd_ok x area db"
proof (induction rule: scd_reachable.induct)
  case (init db)
  then show ?case by (simp add: scd_empty_ok)
next
  case (step db c req r db')
  with scd_serve_commits [of x c db req] show ?case by (auto dest: scd_commits_ok)
qed

end
