(* ===== verification/Dss_Details.thy ===== *)
theory Dss_Details
  imports Dss_Server Dss_Refs
begin

text \<open>
  Errors with a detail: the handlers attach one to the refusal of a key only. The rules below
  show of every other computation that its errors are plain.
\<close>

section \<open>Plain computations\<close>

fun err_detail :: "'d err \<Rightarrow> 'd option" where
  "err_detail (StatusErr d) = Some d"
| "err_detail (Propagate e) = err_detail e"
| "err_detail (PropagateWithCode c e) = err_detail e"
| "err_detail _ = None"

definition plain_sum :: "'d err + 'a \<Rightarrow> bool" where
  "plain_sum r \<longleftrightarrow> (\<forall>e. r = Inl e \<longrightarrow> err_detail e = None)"

definition plain_tx :: "('d, 's, 'a) tx \<Rightarrow> bool" where
  "plain_tx m \<longleftrightarrow> (\<forall>s. plain_sum (m s))"

named_theorems plain_intros

lemma err_detail_rewrap [simp]:
  "err_detail (rewrap Propagate e) = err_detail e"
  "err_detail (rewrap (PropagateWithCode c) e) = err_detail e"
  "err_detail (rewrap (\<lambda>e. e) e) = err_detail e"
  "err_detail (rewrap (\<lambda>_. NewError c') e) = None"
  by (simp_all add: rewrap_def split: err.split)

lemma plain_sum_basic [plain_intros]:
  "plain_sum (Inr a)" "plain_sum (Inl (NewError c))" "plain_sum (Inl (GeoErr g))"
  "plain_sum (Inl ErrNoRows)" "plain_sum (Inl (DbErr t))" "plain_sum (Inl ExtErr)"
  "plain_sum (Inl Panic)" "plain_sum (scheck b (NewError c))" "plain_sum (sderef p)"
  by (simp_all add: plain_sum_def scheck_def sderef_def split: option.split)

lemma plain_sum_propagate [plain_intros]:
  "plain_sum (Inl e) \<Longrightarrow> plain_sum (Inl (Propagate e))"
  "plain_sum (Inl e) \<Longrightarrow> plain_sum (Inl (PropagateWithCode c e))"
  by (simp_all add: plain_sum_def)

lemma plain_sum_sbind [plain_intros]:
  "plain_sum r \<Longrightarrow> (\<And>a. plain_sum (f a)) \<Longrightarrow> plain_sum (sbind r f)"
  by (auto simp: plain_sum_def sbind_def split: sum.split)

lemma plain_sum_swrap [plain_intros]:
  "plain_sum r \<Longrightarrow> plain_sum (swrap Propagate r)"
  "plain_sum r \<Longrightarrow> plain_sum (swrap (PropagateWithCode c) r)"
  "plain_sum r \<Longrightarrow> plain_sum (swrap (\<lambda>e. e) r)"
  "plain_sum (srecode c r)"
  by (auto simp: plain_sum_def swrap_def srecode_def split: sum.split)

lemma plain_sum_cases [plain_intros]:
  "(p = None \<Longrightarrow> plain_sum a) \<Longrightarrow> (\<And>y. p = Some y \<Longrightarrow> plain_sum (f y)) \<Longrightarrow>
     plain_sum (case p of None \<Rightarrow> a | Some y \<Rightarrow> f y)"
  "(b \<Longrightarrow> plain_sum a) \<Longrightarrow> (\<not> b \<Longrightarrow> plain_sum a') \<Longrightarrow> plain_sum (if b then a else a')"
  by (simp_all split: option.split)

lemma plain_sum_smap [plain_intros]: "(\<And>y. plain_sum (f y)) \<Longrightarrow> plain_sum (smap f ys)"
  by (induction ys) (auto intro!: plain_intros)

lemma plain_tx_basic [plain_intros]:
  "plain_tx (ret a)" "plain_tx (gets f)" "plain_tx (modify f')" "plain_tx (deref p)"
  "plain_sum (Inl e) \<Longrightarrow> plain_tx (fail e)" "plain_sum (Inl e) \<Longrightarrow> plain_tx (check b e)"
  "plain_sum r \<Longrightarrow> plain_tx (of_sum r)"
  by (auto simp: plain_tx_def plain_sum_def tx_defs split: sum.split option.split)

lemma plain_tx_bnd [plain_intros]:
  "plain_tx m \<Longrightarrow> (\<And>a. plain_tx (f a)) \<Longrightarrow> plain_tx (bnd m f)"
  by (fastforce simp: plain_tx_def plain_sum_def bnd_def split: sum.splits)

lemma plain_tx_seq [plain_intros]: "plain_tx m \<Longrightarrow> plain_tx n \<Longrightarrow> plain_tx (seq m n)"
  by (simp add: seq_def plain_tx_bnd)

lemma plain_tx_wrap [plain_intros]:
  "plain_tx m \<Longrightarrow> plain_tx (wrap Propagate m)"
  "plain_tx m \<Longrightarrow> plain_tx (wrap (PropagateWithCode c) m)"
  by (auto simp: plain_tx_def plain_sum_def wrap_def split: sum.splits)

lemma plain_tx_cases [plain_intros]:
  "(p = None \<Longrightarrow> plain_tx a) \<Longrightarrow> (\<And>y. p = Some y \<Longrightarrow> plain_tx (f y)) \<Longrightarrow>
     plain_tx (case p of None \<Rightarrow> a | Some y \<Rightarrow> f y)"
  "(b \<Longrightarrow> plain_tx a) \<Longrightarrow> (\<not> b \<Longrightarrow> plain_tx a') \<Longrightarrow> plain_tx (if b then a else a')"
  by (simp_all split: option.split)

lemma plain_tx_map [plain_intros]: "(\<And>y. plain_tx (f y)) \<Longrightarrow> plain_tx (tx_map f ys)"
  by (induction ys) (auto intro!: plain_intros)

text \<open>The error of a plain computation that the code inspects is plain itself.\<close>

lemma plain_attempt:
  assumes "plain_tx m" and "\<And>a. plain_tx (f (Inr a))"
    and "\<And>e. err_detail e = None \<Longrightarrow> plain_tx (f (Inl e))"
  shows "plain_tx (bnd (attempt m) f)"
proof -
  have "plain_sum (bnd (attempt m) f s)" for s
  proof (cases "m s")
    case (Inl e)
    with assms(1) have "err_detail e = None" by (auto simp: plain_tx_def plain_sum_def)
    with assms(3) [of e] Inl show ?thesis
      by (cases e) (auto simp: bnd_def attempt_def plain_tx_def plain_sum_def)
  next
    case (Inr r)
    with assms(2) [of "fst r"] show ?thesis
      by (cases r) (auto simp: bnd_def attempt_def plain_tx_def)
  qed
  then show ?thesis by (simp add: plain_tx_def)
qed

section \<open>The models\<close>

lemma plain_geo [plain_intros]:
  "plain_sum (validateLoop L ps)" "plain_sum (ValidateCell L c)"
  by (auto simp: validateLoop_def ValidateCell_def intro!: plain_intros)

lemma plain_Covering [plain_intros]: "plain_sum (Covering L ps)"
  by (auto simp: Covering_def Let_def intro!: plain_intros)

lemma plain_polygon_points [plain_intros]: "plain_sum (polygon_points x ps)"
  by (induction ps) (auto intro!: plain_intros)

lemma plain_geometry_covering [plain_intros]: "plain_sum (geometry_covering x g)"
  by (cases g) (auto simp: polygon_covering_def circle_covering_def intro!: plain_intros)

lemma plain_volume3d [plain_intros]: "plain_sum (volume3d_covering x v)"
  by (auto simp: volume3d_covering_def intro!: plain_intros)

lemma plain_CalculateSpatialCovering [plain_intros]: "plain_sum (CalculateSpatialCovering x v)"
  by (auto simp: CalculateSpatialCovering_def intro!: plain_intros)

lemma plain_union_footprint [plain_intros]: "plain_sum (union_footprint x r v)"
  by (auto simp: union_footprint_def intro!: plain_intros split: geometry.split)

lemma plain_union_from [plain_intros]: "plain_sum (union_from x r vs)"
  by (induction x r vs rule: union_from.induct)
    (auto simp: union_spatial_def Let_def intro!: plain_intros)

lemma plain_ids [plain_intros]:
  "plain_sum (IDFromString x s)" "plain_sum (PgUUID x s)"
  by (auto simp: IDFromString_def PgUUID_def intro!: plain_intros)

lemma plain_IDFromOptionalString [plain_intros]: "plain_sum (IDFromOptionalString x s)"
  by (auto simp: IDFromOptionalString_def intro!: plain_intros)

lemma plain_messages [plain_intros]:
  "plain_sum (altitude_from_proto x a)" "plain_sum (time_from_proto x t)" "plain_sum (time_to_proto x t')"
  by (auto simp: altitude_from_proto_def time_from_proto_def time_to_proto_def intro!: plain_intros)

lemma plain_Volume3D [plain_intros]: "plain_sum (Volume3DFromSCDProto x v)"
  by (auto simp: Volume3DFromSCDProto_def intro!: plain_intros)

lemma plain_Volume4D [plain_intros]: "plain_sum (Volume4DFromSCDProto x v)"
  by (auto simp: Volume4DFromSCDProto_def intro!: plain_intros)

lemma plain_UnionVolumes4D [plain_intros]: "plain_sum (UnionVolumes4D x vs)"
  by (simp add: UnionVolumes4D_def plain_intros)

lemma plain_ValidateUSSBaseURL [plain_intros]: "plain_sum (ValidateUSSBaseURL x s)"
  by (auto simp: ValidateUSSBaseURL_def intro!: plain_intros)

section \<open>Statements and requests\<close>

lemma plain_on_part [plain_intros]: "plain_tx m \<Longrightarrow> plain_tx (on_part part put m)"
  by (auto simp: plain_tx_def plain_sum_def on_part_def split: sum.splits)

lemma plain_tbl_increment [plain_intros]: "plain_tx (tbl_increment x index bump ids)"
  by (auto simp: tbl_increment_def intro!: plain_intros)

lemma plain_request_parts [plain_intros]:
  "plain_sum (parse_id x s)" "plain_sum (require_manager c)" "plain_sum (validate_url x c u)"
  by (auto simp: parse_id_def require_manager_def validate_url_def intro!: plain_intros)

lemma plain_entity_request [plain_intros]: "plain_sum (entity_request x c i)"
  by (auto simp: entity_request_def intro!: plain_intros)

end
