(* ===== verification/Scd_Details.thy ===== *)
theory Scd_Details
  imports Scd_System Dss_Details
begin

text \<open>
  Which errors carry a detail: only the one \<open>check_key\<close> returns. Every other step of every
  handler is plain.
\<close>

section \<open>The models\<close>

lemma plain_ToProto [plain_intros]:
  "plain_sum (OperationalIntent_ToProto x oi)" "plain_sum (Subscription_ToProto x s deps)"
  "plain_sum (Constraint_ToProto x c)"
  by (auto simp: OperationalIntent_ToProto_def Subscription_ToProto_def Constraint_ToProto_def
      intro!: plain_intros)

lemma plain_time_ranges [plain_intros]:
  "plain_sum (OperationalIntent_ValidateTimeRange oi)"
  "plain_sum (adjust_times now st et old)"
  by (auto simp: OperationalIntent_ValidateTimeRange_def adjust_times_def Let_def
      intro!: plain_intros split: option.split prod.split)

lemma plain_AdjustTimeRange [plain_intros]: "plain_sum (Subscription_AdjustTimeRange now s old)"
  by (auto simp: Subscription_AdjustTimeRange_def intro!: plain_intros split: prod.split)

lemma plain_ValidateDependentOp [plain_intros]: "plain_sum (ValidateDependentOp x s oi)"
  by (auto simp: ValidateDependentOp_def intro!: plain_intros split: prod.split)

lemma plain_ValidateDependentOps [plain_intros]: "plain_sum (ValidateDependentOps x s ps)"
  by (induction x s ps rule: ValidateDependentOps.induct) (auto intro!: plain_intros)

lemma plain_MissingOVNs [plain_intros]: "plain_sum (MissingOVNsErrorResponse x ops cons)"
  by (auto simp: MissingOVNsErrorResponse_def intro!: plain_intros)

section \<open>The store\<close>

lemma plain_store_ops [plain_intros]:
  "plain_tx (scd_GetOperationalIntent x i)" "plain_tx (scd_DeleteOperationalIntent x i)"
  "plain_tx (scd_UpsertOperationalIntent x ts oi)" "plain_tx (scd_SearchOperationalIntents x v)"
  "plain_tx (scd_GetDependentOperationalIntents x i)"
  unfolding scd_GetOperationalIntent_def scd_DeleteOperationalIntent_def check_violation_def
    scd_UpsertOperationalIntent_def scd_SearchOperationalIntents_def
    scd_GetDependentOperationalIntents_def
  by (auto intro!: plain_intros)

lemma plain_store_subs [plain_intros]:
  "plain_tx (scd_GetSubscription x i)" "plain_tx (scd_UpsertSubscription x ts q)"
  "plain_tx (scd_DeleteSubscription x i)" "plain_tx (scd_SearchSubscriptions x v)"
  "plain_tx (scd_IncrementNotificationIndices x ids)"
  unfolding scd_GetSubscription_def scd_UpsertSubscription_def scd_DeleteSubscription_def
    scd_SearchSubscriptions_def scd_IncrementNotificationIndices_def check_violation_def
  by (auto intro!: plain_intros)

lemma plain_increment [plain_intros]: "plain_tx (scd_subs_IncrementNotificationIndices x ss)"
  by (auto simp: scd_subs_IncrementNotificationIndices_def intro!: plain_intros)

lemma plain_store_cons [plain_intros]:
  "plain_tx (scd_GetConstraint x i)" "plain_tx (scd_UpsertConstraint x ts c)"
  "plain_tx (scd_DeleteConstraint x i)" "plain_tx (scd_SearchConstraints x v)"
  "plain_tx (scd_UpsertUssAvailability x ts u)" "plain_tx (scd_GetUssAvailability x uss)"
  unfolding scd_GetConstraint_def scd_UpsertConstraint_def scd_DeleteConstraint_def
    scd_SearchConstraints_def scd_UpsertUssAvailability_def scd_GetUssAvailability_def
    check_violation_def no_avail_table_def Let_def
  by (auto intro!: plain_intros)

section \<open>The handlers\<close>

lemma plain_parse_extents [plain_intros]: "plain_sum (parse_extents x es)"
  by (auto simp: parse_extents_def intro!: plain_intros)

lemma plain_requests [plain_intros]:
  "plain_sum (query_request x c (\<lambda>e. e) p)"
  "plain_sum (query_request x c (PropagateWithCode code) p)"
  by (auto simp: query_request_def parse_aoi_def intro!: plain_intros)

lemma plain_validate_put_op [plain_intros]: "plain_sum (validate_put_op x c i ovn p)"
  by (auto simp: validate_put_op_def validate_put_op_extent_def intro!: plain_intros split: prod.split)

lemma plain_sub_request_cells [plain_intros]: "plain_sum (sub_request_cells x u :: 'd err + cells)"
proof (cases "CalculateSpatialCovering x u :: 'd err + cells")
  case (Inl e)
  have "plain_sum (CalculateSpatialCovering x u :: 'd err + cells)" by (rule plain_intros)
  with Inl have e: "err_detail e = None" by (simp add: plain_sum_def)
  have "sub_request_cells x u = (Inr [] :: 'd err + cells) \<or>
      sub_request_cells x u = Inl (rewrap (PropagateWithCode BadRequest) e)"
  proof (cases e)
    case (GeoErr g)
    then show ?thesis by (cases g) (simp_all add: sub_request_cells_def Inl)
  qed (simp_all add: sub_request_cells_def Inl)
  then show ?thesis using e by (auto simp: plain_sum_def)
qed (simp add: sub_request_cells_def plain_intros)

lemma plain_validate_put_sub [plain_intros]: "plain_sum (validate_put_sub x c i v p)"
  by (auto simp: validate_put_sub_def intro!: plain_intros)

lemma plain_validate_put_con [plain_intros]: "plain_sum (validate_put_con x c i v p)"
  by (auto simp: validate_put_con_def intro!: plain_intros)

lemma plain_widen [plain_intros]:
  "plain_sum (widen_start u s)" "plain_sum (widen_end u s)" "plain_sum (widen_cells x cs s)"
  by (auto simp: widen_start_def widen_end_def widen_cells_def intro!: plain_intros)

lemma plain_put_op_parts [plain_intros]:
  "plain_tx (put_op_old x q)" "plain_tx (put_op_subscription x c q)"
  "plain_tx (put_op_store x c q old version sub)"
  unfolding put_op_old_def put_op_subscription_def new_implicit_subscription_def
    use_subscription_def put_op_store_def Let_def
  by (auto intro!: plain_intros split: prod.split)

lemma plain_put_op_notify [plain_intros]: "plain_tx (put_op_notify x r)"
  unfolding put_op_notify_def by (auto intro!: plain_intros split: prod.split)

lemma plain_delete_op [plain_intros]: "plain_tx (delete_op_action x q)"
  unfolding delete_op_action_def remove_implicit_def
  by (auto intro!: plain_intros split: prod.split)

lemma plain_op_reads [plain_intros]: "plain_tx (get_op_action x q)" "plain_tx (query_ops_action x q')"
  unfolding get_op_action_def query_ops_action_def query_op_proto_def
  by (auto intro!: plain_intros split: prod.split)

lemma plain_put_sub_parts [plain_intros]:
  "plain_tx (GetOperations x ids)" "plain_tx (put_sub_respond x q sub deps)"
  unfolding GetOperations_def put_sub_respond_def by (auto intro!: plain_intros)

lemma plain_put_sub_old [plain_intros]: "plain_tx (put_sub_old x old subreq)"
  unfolding put_sub_old_def Let_def by (auto intro!: plain_intros)

lemma plain_sub_actions [plain_intros]:
  "plain_tx (put_sub_action x c pq)" "plain_tx (get_sub_action x q)"
  "plain_tx (query_subs_action x q')" "plain_tx (delete_sub_action x q)"
  unfolding put_sub_action_def get_sub_action_def query_subs_action_def delete_sub_action_def
  by (auto intro!: plain_intros split: prod.split)

lemma plain_get_con [plain_intros]: "plain_tx (get_con_or_404 x i)" "plain_tx (put_con_old x q)"
  unfolding get_con_or_404_def put_con_old_def
  by (rule plain_attempt; auto intro!: plain_intros split: err.split; simp add: plain_sum_def)+

lemma plain_con_actions [plain_intros]:
  "plain_tx (put_con_action x c pq)" "plain_tx (get_con_action x q)"
  "plain_tx (query_cons_action x q')" "plain_tx (delete_con_action x q)"
  unfolding put_con_action_def get_con_action_def query_cons_action_def delete_con_action_def
    query_con_proto_def
  by (auto intro!: plain_intros split: prod.split)

lemma plain_avail [plain_intros]: "plain_tx (get_avail_action x u)" "plain_tx (put_avail_action x c u a)"
proof -
  show "plain_tx (get_avail_action x u)"
    unfolding get_avail_action_def
    by (rule plain_attempt; auto intro!: plain_intros split: err.split; simp add: plain_sum_def)
qed (auto simp: put_avail_action_def intro!: plain_intros)

end
