(* ===== verification/Dss_Example.thy ===== *)
theory Dss_Example
  imports Dss_Server Dss_Refs
begin

text \<open>
  Concrete functions for the libraries, and the circumstances of a call, on which the witnesses
  of the properties run.
\<close>

definition ex_ext :: ext where
  "ex_ext =
     \<lparr>s2_cross = (\<lambda>a b. a), s2_dot = (\<lambda>a b. 0), s2_normalize = (\<lambda>a. a), s2_angle = (\<lambda>a b. 0),
      s2_point = (\<lambda>a b. (a, b, 0)), s2_loop_from_points = (\<lambda>ps. ps), s2_loop_valid = (\<lambda>ps. True),
      s2_loop_is_empty = (\<lambda>ps. True), s2_loop_area = (\<lambda>ps. 0), s2_cover_loop = (\<lambda>ps. [7]),
      s2_cover_polyline = (\<lambda>ps. [7]), s2_cover_regular_loop = (\<lambda>c r n. [7, 8]),
      s2_cell_level = (\<lambda>c. 13), s2_denormalize = (\<lambda>l m cs. cs),
      s2_contains = (\<lambda>a b. list_all (\<lambda>c. List.member a c) b),
      s2_union = (\<lambda>a b. a @ b), parse_float = (\<lambda>s. None),
      x_uuid_parse = (\<lambda>s. Some s), x_pg_uuid = (\<lambda>s. Some s), x_url_ok = (\<lambda>s. True),
      x_ts_of_pb = (\<lambda>p. case p of None \<Rightarrow> None | Some (s, n) \<Rightarrow> Some (s * 1000000 + n div 1000)),
      x_pb_of_ts = (\<lambda>t. Some (t div 1000000, (t mod 1000000) * 1000)), x_f32 = (\<lambda>r. r),
      x_sha256_b64 = (\<lambda>s. take 16 (s @ replicate 16 (CHR ''+''))),
      x_rfc3339 = (\<lambda>t. if t = 10 then [CHR ''a''] else if t = 15 then [CHR ''b''] else [CHR ''c'']),
      x_map_cells = (\<lambda>cs. cs), x_map_urls = (\<lambda>us. us), x_returning = (\<lambda>ks. ks),
      x_sort_changes = sort_key fst\<rparr>"

definition ex_call :: "string \<Rightarrow> string \<Rightarrow> int \<Rightarrow> call" where
  "ex_call m u t =
     \<lparr>c_now = t * 1000000, c_txn = t * 1000000, c_manager = Some m, c_uuid = u, EnableHTTP = True\<rparr>"

lemma ex_pg_uuid [simp]: "x_pg_uuid ex_ext k = Some k"
  by (simp add: ex_ext_def)

lemma ex_uuid_idem: "uuid_idem ex_ext"
  by (simp add: uuid_idem_def pg_canonical_def)

lemma ex_orders_ok: "orders_ok ex_ext"
  by (simp add: orders_ok_def ex_ext_def)

lemma ex_uuid_parse [simp]: "x_uuid_parse ex_ext k = Some k"
  by (simp add: ex_ext_def)

end
