(* ===== verification/Scd_Example.thy ===== *)
theory Scd_Example
  imports Scd_Details Dss_Example
begin

text \<open>
  A small instance: two managers' requests for one area, with the libraries of \<open>Dss_Example\<close>.
  The properties' witnesses run on it.
\<close>

definition ex_volume :: "int \<Rightarrow> int \<Rightarrow> pb_volume4d option" where
  "ex_volume b e = Some
     \<lparr>pv4_Volume = Some
        \<lparr>pv3_OutlineCircle = Some
           \<lparr>pc_Center = Some \<lparr>pll_Lat = 1, pll_Lng = 1\<rparr>,
            pc_Radius = Some \<lparr>pr_Value = 100, pr_Units = ''M''\<rparr>\<rparr>,
         pv3_OutlinePolygon = None, pv3_AltitudeLower = None, pv3_AltitudeUpper = None\<rparr>,
      pv4_TimeStart = Some \<lparr>pt_Value = Some (b, 0), pt_Format = ''RFC3339''\<rparr>,
      pv4_TimeEnd = Some \<lparr>pt_Value = Some (e, 0), pt_Format = ''RFC3339''\<rparr>\<rparr>"

definition ex_op_params :: "string list \<Rightarrow> string \<Rightarrow> put_op_params" where
  "ex_op_params key subid =
     \<lparr>pop_Extents = [ex_volume 20 30], pop_Key = key, pop_State = ''Accepted'',
      pop_UssBaseUrl = ''https://a'', pop_SubscriptionId = subid,
      pop_NewSubscription = Some \<lparr>pis_UssBaseUrl = ''https://a'', pis_NotifyForConstraints = False\<rparr>\<rparr>"

definition ex_db0 :: scd_db where
  "ex_db0 = \<lparr>db_ops = [], db_subs = [], db_cons = [], db_avail = Some []\<rparr>"

text \<open>The first manager creates an operational intent with an implicit subscription.\<close>

definition ex_db1 :: scd_db where
  "ex_db1 = snd (scd_serve ex_ext (ex_call ''uss1'' ''s1'' 10) (ReqCreateOp ''op1'' (Some (ex_op_params [] ''''))) ex_db0)"

definition ex_op_row :: op_row where
  "ex_op_row =
     \<lparr>opr_owner = ''uss1'', opr_version = 1, opr_url = ''https://a'', opr_altitude_lower = None,
      opr_altitude_upper = None, opr_starts_at = Some 20000000, opr_ends_at = Some 30000000,
      opr_subscription_id = ''s1'', opr_updated_at = 10000000, opr_state = ''Accepted'',
      opr_cells = [8, 7]\<rparr>"

definition ex_sub_row :: sub_row where
  "ex_sub_row =
     \<lparr>sbr_owner = ''uss1'', sbr_version = 0, sbr_url = ''https://a'', sbr_notification_index = 1,
      sbr_notify_for_operations = True, sbr_notify_for_constraints = False, sbr_implicit = True,
      sbr_starts_at = Some 20000000, sbr_ends_at = Some 30000000, sbr_cells = [8, 7],
      sbr_updated_at = 10000000\<rparr>"

lemma ex_db1: "ex_db1 = \<lparr>db_ops = [(''op1'', ex_op_row)], db_subs = [(''s1'', ex_sub_row)],
   db_cons = [], db_avail = Some []\<rparr>"
  unfolding ex_db1_def ex_op_row_def ex_sub_row_def by code_simp

section \<open>The instance satisfies what the properties suppose\<close>

lemma ex_s2_sound: "s2_sound ex_ext set"
  by (auto simp: s2_sound_def ex_ext_def list_all_iff)

lemma ex_fresh: "u \<noteq> ''s1'' \<Longrightarrow> fresh_uuid ex_ext (ex_call m u t) ex_db1"
  by (simp add: fresh_uuid_def ex_db1 ex_call_def tbl_get_def)

lemma ex_reachable0: "scd_reachable ex_ext ex_db0"
  by (rule scd_reachable.init) (simp add: scd_empty_def ex_db0_def)

lemma ex_reachable1: "scd_reachable ex_ext ex_db1"
proof (rule scd_reachable.step [OF ex_reachable0])
  show "fresh_uuid ex_ext (ex_call ''uss1'' ''s1'' 10) ex_db0"
    by (simp add: fresh_uuid_def ex_db0_def tbl_get_def ex_call_def)
  show "scd_serve ex_ext (ex_call ''uss1'' ''s1'' 10)
      (ReqCreateOp ''op1'' (Some (ex_op_params [] ''''))) ex_db0 =
    (fst (scd_serve ex_ext (ex_call ''uss1'' ''s1'' 10)
      (ReqCreateOp ''op1'' (Some (ex_op_params [] ''''))) ex_db0), ex_db1)"
    by (simp only: ex_db1_def prod.collapse)
qed

definition ex_ovn1 :: string where
  "ex_ovn1 = NewOVNFromTime ex_ext 10000000 ''op1''"

text \<open>The second manager's operational intent, without and with the first one's OVN in its key.\<close>

definition ex_denied :: "(scd_err + scd_response) \<times> scd_db" where
  "ex_denied = scd_serve ex_ext (ex_call ''uss2'' ''s2'' 15)
     (ReqCreateOp ''op2'' (Some (ex_op_params [] ''''))) ex_db1"

definition ex_granted :: "(scd_err + scd_response) \<times> scd_db" where
  "ex_granted = scd_serve ex_ext (ex_call ''uss2'' ''s2'' 15)
     (ReqCreateOp ''op2'' (Some (ex_op_params [ex_ovn1] ''''))) ex_db1"

lemma ex_denied_detail:
  "map_sum err_detail (\<lambda>_. ()) (fst ex_denied) =
     Inl (Some \<lparr>ac_MissingOperationalIntents =
       [\<lparr>poi_Id = ''op1'', poi_Ovn = NoOvnPhrase, poi_Manager = ''uss1'', poi_Version = 1,
         poi_UssBaseUrl = ''https://a'', poi_SubscriptionId = ''s1'', poi_State = ''Accepted'',
         poi_UssAvailability = ''Unknown'',
         poi_TimeStart = Some \<lparr>pt_Value = Some (20, 0), pt_Format = ''RFC3339''\<rparr>,
         poi_TimeEnd = Some \<lparr>pt_Value = Some (30, 0), pt_Format = ''RFC3339''\<rparr>\<rparr>],
       ac_MissingConstraints = []\<rparr>)"
  unfolding ex_denied_def ex_db1 ex_op_row_def ex_sub_row_def by code_simp

definition ex_op2_row :: op_row where
  "ex_op2_row =
     \<lparr>opr_owner = ''uss2'', opr_version = 1, opr_url = ''https://a'', opr_altitude_lower = None,
      opr_altitude_upper = None, opr_starts_at = Some 20000000, opr_ends_at = Some 30000000,
      opr_subscription_id = ''s2'', opr_updated_at = 15000000, opr_state = ''Accepted'',
      opr_cells = [8, 7]\<rparr>"

definition ex_sub2_row :: sub_row where
  "ex_sub2_row = ex_sub_row\<lparr>sbr_owner := ''uss2'', sbr_updated_at := 15000000\<rparr>"

definition ex_db2 :: scd_db where
  "ex_db2 = \<lparr>db_ops = [(''op1'', ex_op_row), (''op2'', ex_op2_row)],
     db_subs = [(''s1'', bump_sub ex_sub_row), (''s2'', ex_sub2_row)],
     db_cons = [], db_avail = Some []\<rparr>"

lemma ex_granted: "isl (fst ex_granted) = False \<and> snd ex_granted = ex_db2"
  unfolding ex_granted_def ex_db1 ex_op_row_def ex_sub_row_def ex_db2_def ex_op2_row_def ex_sub2_row_def
  by code_simp

end
