(* ===== verification/Dss_Masking.thy ===== *)
theory Dss_Masking
  imports Dss_Details Scd_Models
begin

text \<open>
  What both services' responses have to hide: the OVNs of other managers' references. The
  lemmas follow an error with a detail, and an element of a list of messages, back to where
  they were made.
\<close>

section \<open>Masked references\<close>

definition op_masked :: "string option \<Rightarrow> pb_operational_intent \<Rightarrow> bool" where
  "op_masked m p \<longleftrightarrow> m = Some (poi_Manager p) \<or> poi_Ovn p = NoOvnPhrase"

definition con_masked :: "string option \<Rightarrow> pb_constraint \<Rightarrow> bool" where
  "con_masked m p \<longleftrightarrow> m = Some (pcon_Manager p) \<or> pcon_Ovn p = NoOvnPhrase"

section \<open>Where a detail and a message come from\<close>

lemma smap_in: "smap f xs = Inr ys \<Longrightarrow> y \<in> set ys \<Longrightarrow> \<exists>a \<in> set xs. f a = Inr y"
  by (auto simp: smap_Inr list_all2_conv_all_nth in_set_conv_nth) (metis nth_mem)

lemma bnd_detail:
  "bnd m f s = Inl e \<Longrightarrow> plain_tx m \<Longrightarrow> err_detail e \<noteq> None \<Longrightarrow>
     \<exists>a s'. m s = Inr (a, s') \<and> f a s' = Inl e"
  by (auto simp: bnd_def plain_tx_def plain_sum_def split: sum.splits)

lemma serve_detail:
  "serve v action db = (Inl e, db') \<Longrightarrow> plain_sum v \<Longrightarrow> err_detail e \<noteq> None \<Longrightarrow>
     \<exists>q. v = Inr q \<and> action q db = Inl e"
  by (auto simp: serve_def plain_sum_def transact_Inl split: sum.splits)

lemma serve_plain:
  "serve v action db = (Inl e, db') \<Longrightarrow> plain_sum v \<Longrightarrow> (\<And>q. plain_tx (action q)) \<Longrightarrow>
     err_detail e = None"
  by (auto simp: serve_def plain_sum_def plain_tx_def transact_Inl split: sum.splits)

end
