(* ===== verification/Scd_Conflicts.thy ===== *)
theory Scd_Conflicts
  imports Scd_Details Dss_Masking
begin

text \<open>
  What a client learns of the others: the key it must give to create or change an operational
  intent, the conflict report it gets when the key is incomplete, and the OVNs that the
  responses show.
\<close>

section \<open>Messages keep what they are made of\<close>

lemma OperationalIntent_ToProto_Inr:
  "OperationalIntent_ToProto x oi = Inr p \<Longrightarrow>
     poi_Id p = oi_ID oi \<and> poi_Manager p = oi_Manager oi \<and> poi_Ovn p = oi_OVN oi \<and>
     poi_Version p = oi_Version oi \<and> poi_State p = oi_State oi \<and>
     poi_SubscriptionId p = oi_SubscriptionID oi \<and> poi_UssBaseUrl p = oi_USSBaseURL oi"
  by (auto simp: OperationalIntent_ToProto_def tx_inv)

lemma Constraint_ToProto_Inr:
  "Constraint_ToProto x c = Inr p \<Longrightarrow>
     pcon_Id p = con_ID c \<and> pcon_Manager p = con_Manager c \<and> pcon_Ovn p = con_OVN c \<and>
     pcon_Version p = con_Version c \<and> pcon_UssBaseUrl p = con_USSBaseURL c"
  by (auto simp: Constraint_ToProto_def tx_inv)

lemma MissingOVNs_Inr:
  assumes "MissingOVNsErrorResponse x ops cons = (Inr d :: 'd err + _)"
  shows "(\<forall>p \<in> set (ac_MissingOperationalIntents d).
      \<exists>oi \<in> set ops. OperationalIntent_ToProto x oi = (Inr p :: 'd err + _)) \<and>
    (\<forall>p \<in> set (ac_MissingConstraints d). \<exists>c \<in> set cons. Constraint_ToProto x c = (Inr p :: 'd err + _)) \<and>
    length (ac_MissingOperationalIntents d) = length ops \<and>
    length (ac_MissingConstraints d) = length cons"
  using assms
  by (auto simp: MissingOVNsErrorResponse_def tx_inv dest: smap_in length_smap)

section \<open>The key\<close>

lemma put_op_subscription_frame:
  "put_op_subscription x c q s = Inr (sub, s') \<Longrightarrow> db_ops s' = db_ops s \<and> db_cons s' = db_cons s"
  by (auto simp: put_op_subscription_def new_implicit_subscription_def use_subscription_def Let_def
      bnd_Inr seq_Inr wrap_Inr of_sum_Inr check_Inr deref_Inr ret_Inr scd_UpsertSubscription_Inr
      scd_GetSubscription_Inr case_option_Inr split: if_split_asm)

lemma relevant_constraints_Inr:
  "relevant_constraints x sub u s = Inr (cons, s') \<longleftrightarrow>
     (if sub_NotifyForConstraints sub then scd_SearchConstraints x u s = Inr (cons, s')
      else cons = [] \<and> s' = s)"
  by (auto simp: relevant_constraints_def tx_inv)

lemma check_key_passes:
  assumes "check_key x q sub s = Inr (u, s')" and "RequiresKey (pop_State (po_params q))"
  shows "\<exists>ops cons. scd_SearchOperationalIntents x (po_extent q) s = Inr (ops, s) \<and>
    relevant_constraints x sub (po_extent q) s = Inr (cons, s) \<and>
    (\<forall>oi \<in> set ops. oi_OVN oi \<in> set (pop_Key (po_params q))) \<and>
    (\<forall>c \<in> set cons. con_OVN c \<in> set (pop_Key (po_params q)))"
proof -
  from assms obtain ops s1 cons s2 where
    ops: "scd_SearchOperationalIntents x (po_extent q) s = Inr (ops, s1)" and
    cons: "relevant_constraints x sub (po_extent q) s1 = Inr (cons, s2)" and
    "missing_ops (po_manager q) (pop_Key (po_params q)) ops = []"
    "missing_cons (po_manager q) (pop_Key (po_params q)) cons = []"
    by (auto simp: check_key_def Let_def bnd_Inr wrap_Inr if_distrib [of "\<lambda>f. f _"] fail_Inr
        split: if_split_asm)
  moreover from pure_txD [OF pure_searches(1) ops] pure_txD [OF pure_relevant cons]
  have "s1 = s" "s2 = s" by simp_all
  ultimately show ?thesis by (fastforce simp: missing_ops_def missing_cons_def filter_empty_conv)
qed

lemma plain_relevant [plain_intros]: "plain_tx (relevant_constraints x sub u)"
  by (auto simp: relevant_constraints_def intro!: plain_intros)

text \<open>The only error with a detail is the report of the entities missing from the key.\<close>

lemma check_key_reports:
  assumes run: "check_key x q sub s = Inl e" and det: "err_detail e = Some d"
  obtains ops cons where "RequiresKey (pop_State (po_params q))"
    "scd_SearchOperationalIntents x (po_extent q) s = Inr (ops, s)"
    "relevant_constraints x sub (po_extent q) s = Inr (cons, s)"
    "MissingOVNsErrorResponse x (missing_ops (po_manager q) (pop_Key (po_params q)) ops)
       (missing_cons (po_manager q) (pop_Key (po_params q)) cons) = (Inr d :: scd_err + _)"
    "missing_ops (po_manager q) (pop_Key (po_params q)) ops \<noteq> [] \<or>
     missing_cons (po_manager q) (pop_Key (po_params q)) cons \<noteq> []"
proof -
  have key: "RequiresKey (pop_State (po_params q))"
    using run by (auto simp: check_key_def ret_def split: if_splits)
  let ?ops = "missing_ops (po_manager q) (pop_Key (po_params q))"
  let ?cons = "missing_cons (po_manager q) (pop_Key (po_params q))"
  from run key have "bnd (wrap Propagate (scd_SearchOperationalIntents x (po_extent q))) (\<lambda>relevantOps.
        bnd (relevant_constraints x sub (po_extent q)) (\<lambda>cons.
        if ?ops relevantOps \<noteq> [] \<or> ?cons cons \<noteq> [] then
          bnd (wrap Propagate (of_sum (MissingOVNsErrorResponse x (?ops relevantOps) (?cons cons))))
            (\<lambda>p. fail (Propagate (StatusErr p)))
        else ret ())) s = Inl e"
    by (simp add: check_key_def Let_def)
  from bnd_detail [OF this] det obtain ops s1 where
    ops: "scd_SearchOperationalIntents x (po_extent q) s = Inr (ops, s1)" and
    run1: "bnd (relevant_constraints x sub (po_extent q)) (\<lambda>cons.
        if ?ops ops \<noteq> [] \<or> ?cons cons \<noteq> [] then
          bnd (wrap Propagate (of_sum (MissingOVNsErrorResponse x (?ops ops) (?cons cons))))
            (\<lambda>p. fail (Propagate (StatusErr p)))
        else ret ()) s1 = Inl e"
    by (auto simp: tx_inv plain_intros)
  from bnd_detail [OF run1 plain_relevant] det obtain cons s2 where
    cons: "relevant_constraints x sub (po_extent q) s1 = Inr (cons, s2)" and
    run2: "(if ?ops ops \<noteq> [] \<or> ?cons cons \<noteq> [] then
          bnd (wrap Propagate (of_sum (MissingOVNsErrorResponse x (?ops ops) (?cons cons))))
            (\<lambda>p. fail (Propagate (StatusErr p)))
        else ret ()) s2 = Inl e"
    by auto
  from run2 have some: "?ops ops \<noteq> [] \<or> ?cons cons \<noteq> []" by (auto simp: ret_def split: if_splits)
  with run2 have "bnd (wrap Propagate (of_sum (MissingOVNsErrorResponse x (?ops ops) (?cons cons))))
            (\<lambda>p. (fail (Propagate (StatusErr p)) :: unit scd_tx)) s2 = Inl e" by (simp only: if_True)
  from bnd_detail [OF this] det have
    "MissingOVNsErrorResponse x (?ops ops) (?cons cons) = (Inr d :: scd_err + _)"
    by (auto simp: tx_inv fail_def plain_intros)
  moreover from pure_txD [OF pure_searches(1) ops] pure_txD [OF pure_relevant cons]
  have "s1 = s" "s2 = s" by simp_all
  ultimately show thesis using key ops cons some by (intro that) auto
qed

lemma put_op_action_reports:
  assumes "put_op_action x c q s = Inl e" and "err_detail e = Some d"
  obtains sub s1 where "put_op_subscription x c q s = Inr (sub, s1)" "check_key x q sub s1 = Inl e"
proof -
  from bnd_detail [OF assms(1) [unfolded put_op_action_def]] assms(2)
  obtain old version s0 where old: "put_op_old x q s = Inr ((old, version), s0)" and
    "bnd (put_op_subscription x c q) (\<lambda>sub. seq (check_key x q sub)
       (bnd (put_op_store x c q old version sub) (put_op_notify x))) s0 = Inl e"
    by (auto simp: plain_intros)
  from bnd_detail [OF this(2)] assms(2)
  obtain sub s1 where sub: "put_op_subscription x c q s0 = Inr (sub, s1)" and
    run: "seq (check_key x q sub) (bnd (put_op_store x c q old version sub) (put_op_notify x)) s1 = Inl e"
    by (auto simp: plain_intros)
  have "plain_tx (bnd (put_op_store x c q old version sub) (put_op_notify x))"
    by (intro plain_intros)
  with run assms(2) have "check_key x q sub s1 = Inl e"
    by (auto simp: seq_def bnd_def plain_tx_def plain_sum_def split: sum.splits)
  with sub put_op_old_Inr [OF old] show thesis by (intro that) auto
qed

section \<open>The OVNs a response shows\<close>

fun resp_ops :: "scd_err + scd_response \<Rightarrow> pb_operational_intent list" where
  "resp_ops (Inl e) =
     (case err_detail e of None \<Rightarrow> [] | Some d \<Rightarrow> ac_MissingOperationalIntents d)"
| "resp_ops (Inr (RespChangeOp r)) = [cho_OperationalIntentReference r]"
| "resp_ops (Inr (RespOp p)) = [p]"
| "resp_ops (Inr (RespOps ps)) = ps"
| "resp_ops (Inr (RespPutSub r)) = List.map_filter (\<lambda>p. p) (psr_OperationalIntentReferences r)"
| "resp_ops (Inr _) = []"

fun resp_cons :: "scd_err + scd_response \<Rightarrow> pb_constraint list" where
  "resp_cons (Inl e) = (case err_detail e of None \<Rightarrow> [] | Some d \<Rightarrow> ac_MissingConstraints d)"
| "resp_cons (Inr (RespChangeCon r)) = [chc_ConstraintReference r]"
| "resp_cons (Inr (RespCon p)) = [p]"
| "resp_cons (Inr (RespCons ps)) = ps"
| "resp_cons (Inr (RespPutSub r)) = psr_ConstraintReferences r"
| "resp_cons (Inr _) = []"

lemma mask_op_masked:
  "OperationalIntent_ToProto x (mask_op m oi) = Inr p \<Longrightarrow> op_masked (Some m) p"
  by (drule OperationalIntent_ToProto_Inr) (auto simp: op_masked_def mask_op_def split: if_splits)

lemma mask_con_masked: "Constraint_ToProto x (mask_con m c) = Inr p \<Longrightarrow> con_masked (Some m) p"
  by (drule Constraint_ToProto_Inr) (auto simp: con_masked_def mask_con_def split: if_splits)

lemma query_op_masked:
  assumes "query_op_proto x m oi = Inr p" shows "op_masked (Some m) p"
proof -
  from assms obtain a where "poi_Manager a = oi_Manager oi"
    "p = (if oi_Manager oi \<noteq> m then a\<lparr>poi_Ovn := NoOvnPhrase\<rparr> else a)"
    by (auto simp: query_op_proto_def tx_inv dest!: OperationalIntent_ToProto_Inr)
  then show ?thesis by (cases "oi_Manager oi = m") (simp_all add: op_masked_def)
qed

lemma query_con_masked:
  assumes "query_con_proto x m c = Inr p" shows "con_masked (Some m) p"
proof -
  from assms obtain a where "pcon_Manager a = con_Manager c"
    "p = (if con_Manager c \<noteq> m then a\<lparr>pcon_Ovn := NoOvnPhrase\<rparr> else a)"
    by (auto simp: query_con_proto_def tx_inv dest!: Constraint_ToProto_Inr)
  then show ?thesis by (cases "con_Manager c = m") (simp_all add: con_masked_def)
qed

lemma report_masked:
  assumes "put_op_action x c q s = Inl e" and "err_detail e = Some d"
  shows "(\<forall>p \<in> set (ac_MissingOperationalIntents d). op_masked (Some (po_manager q)) p) \<and>
    (\<forall>p \<in> set (ac_MissingConstraints d). con_masked (Some (po_manager q)) p)"
proof (rule put_op_action_reports [OF assms])
  fix sub s1 assume run: "check_key x q sub s1 = Inl e"
  show ?thesis
    by (rule check_key_reports [OF run assms(2)], drule MissingOVNs_Inr)
      (fastforce simp: missing_ops_def missing_cons_def dest: mask_op_masked mask_con_masked)
qed

lemma put_op_masked:
  assumes "PutOperationalIntentReference x c i v p db = (r, db')"
  shows "case r of
      Inl e \<Rightarrow> (case err_detail e of None \<Rightarrow> True
        | Some d \<Rightarrow> (\<forall>p \<in> set (ac_MissingOperationalIntents d). op_masked (c_manager c) p) \<and>
            (\<forall>p \<in> set (ac_MissingConstraints d). con_masked (c_manager c) p))
    | Inr a \<Rightarrow> op_masked (c_manager c) (cho_OperationalIntentReference a)"
proof (cases r)
  case (Inl e)
  show ?thesis
  proof (cases "err_detail e")
    case (Some d)
    from serve_detail [OF assms [unfolded PutOperationalIntentReference_def Inl]] Some
    obtain q where q: "validate_put_op x c i v p = (Inr q :: scd_err + _)" "put_op_action x c q db = Inl e"
      by (auto simp: plain_intros)
    from validate_put_op_Inr [OF q(1)] have "c_manager c = Some (po_manager q)" by blast
    with report_masked [OF q(2) Some] Inl Some show ?thesis by simp
  qed (simp add: Inl)
next
  case (Inr a)
  with assms obtain q where q: "validate_put_op x c i v p = (Inr q :: scd_err + _)" and
    run: "put_op_action x c q db = Inr (a, db')"
    by (auto simp: PutOperationalIntentReference_def serve_Inr)
  from validate_put_op_Inr [OF q(1)] have m: "c_manager c = Some (po_manager q)" by blast
  show ?thesis
  proof (rule put_op_action_Inr [OF run])
    fix old version sub s1 oi v' s2
    assume "put_op_store x c q old version sub s1 = Inr ((oi, v'), s2)"
      and "put_op_notify x (oi, v') s2 = Inr (a, db')"
    then have "poi_Manager (cho_OperationalIntentReference a) = po_manager q"
      using put_op_store_Inr [of x c q old version sub s1 oi v' s2] put_op_notify_Inr [of x oi v' s2 a db']
      by (auto simp: Let_def dest!: OperationalIntent_ToProto_Inr)
    with m Inr show ?thesis by (simp add: op_masked_def)
  qed
qed

lemma put_sub_masked:
  assumes "PutSubscription x c i v p db = (Inr a, db')"
  shows "(\<forall>p. Some p \<in> set (psr_OperationalIntentReferences a) \<longrightarrow> op_masked (c_manager c) p) \<and>
    (\<forall>p \<in> set (psr_ConstraintReferences a). con_masked (c_manager c) p)"
proof -
  from assms obtain q where q: "validate_put_sub x c i v p = (Inr q :: scd_err + _)" and
    run: "put_sub_action x c q db = Inr (a, db')"
    by (auto simp: PutSubscription_def serve_Inr)
  from validate_put_sub_Inr [OF q] have m: "c_manager c = Some (ps_manager q)" by blast
  from run obtain sub deps s1 where resp: "put_sub_respond x q sub deps s1 = Inr (a, db')"
    by (auto simp: put_sub_action_def tx_inv)
  from resp obtain ops cons s2 s3 where
    ops: "psr_OperationalIntentReferences a = (if sub_NotifyForOperationalIntents sub then
               map (\<lambda>oi. case OperationalIntent_ToProto x (mask_op (ps_manager q) oi) of
                           Inl (e :: scd_err) \<Rightarrow> None | Inr po \<Rightarrow> Some po) ops else [])" and
    cons: "(if sub_NotifyForConstraints sub then
            bnd (wrap Propagate (scd_SearchConstraints x (ps_extents q))) (\<lambda>cons.
            of_sum (smap (\<lambda>c.
              sbind (swrap Propagate (Constraint_ToProto x c)) (\<lambda>pc.
              Inr (if con_Manager c \<noteq> ps_manager q then pc\<lparr>pcon_Ovn := NoOvnPhrase\<rparr> else pc)))
              cons))
          else ret []) s2 = Inr (psr_ConstraintReferences a, s3)"
    by (auto simp: put_sub_respond_def bnd_Inr wrap_Inr of_sum_Inr ret_Inr)
  have "op_masked (c_manager c) p" if "Some p \<in> set (psr_OperationalIntentReferences a)" for p
  proof -
    from that obtain oi where
      "Some p = (case OperationalIntent_ToProto x (mask_op (ps_manager q) oi) of
         Inl (e :: scd_err) \<Rightarrow> None | Inr po \<Rightarrow> Some po)"
      by (auto simp: ops split: if_splits)
    then have "OperationalIntent_ToProto x (mask_op (ps_manager q) oi) = (Inr p :: scd_err + _)"
      by (auto split: sum.splits)
    with m show ?thesis by (simp add: mask_op_masked)
  qed
  moreover have "con_masked (c_manager c) p" if "p \<in> set (psr_ConstraintReferences a)" for p
  proof (cases "sub_NotifyForConstraints sub")
    case True
    with cons obtain cs where "smap (\<lambda>c. sbind (swrap Propagate (Constraint_ToProto x c)) (\<lambda>pc.
              Inr (if con_Manager c \<noteq> ps_manager q then pc\<lparr>pcon_Ovn := NoOvnPhrase\<rparr> else pc))) cs =
            (Inr (psr_ConstraintReferences a) :: scd_err + _)"
      by (auto simp: bnd_Inr of_sum_Inr)
    from smap_in [OF this that] obtain cn pc where "Constraint_ToProto x cn = (Inr pc :: scd_err + _)"
      "p = (if con_Manager cn \<noteq> ps_manager q then pc\<lparr>pcon_Ovn := NoOvnPhrase\<rparr> else pc)"
      by (auto simp: tx_inv)
    then have "query_con_proto x (ps_manager q) cn = (Inr p :: scd_err + _)"
      by (simp add: query_con_proto_def sbind_def)
    with m show ?thesis by (simp add: query_con_masked)
  qed (use cons that in \<open>simp add: ret_Inr\<close>)
  ultimately show ?thesis by blast
qed

text \<open>The remaining handlers.\<close>

lemma entity_op_masked:
  assumes "DeleteOperationalIntentReference x c i db = (Inr a, db')"
  shows "op_masked (c_manager c) (cho_OperationalIntentReference a)"
proof -
  from assms obtain j m where m: "c_manager c = Some m" and run: "delete_op_action x (j, m) db = Inr (a, db')"
    by (auto simp: DeleteOperationalIntentReference_def serve_Inr dest!: entity_request_Inr)
  show ?thesis
    by (rule delete_op_action_Inr [OF run])
      (auto simp: op_masked_def m dest!: OperationalIntent_ToProto_Inr)
qed

lemma get_op_masked:
  "GetOperationalIntentReference x c i db = (Inr p, db') \<Longrightarrow> op_masked (c_manager c) p"
  by (auto simp: GetOperationalIntentReference_def serve_Inr get_op_action_def tx_inv
      dest!: entity_request_Inr mask_op_masked)

lemma query_request_Inr: "query_request x c f p = Inr q \<Longrightarrow> \<exists>v m. q = (v, m) \<and> c_manager c = Some m"
  by (auto simp: query_request_def tx_inv)

lemma query_ops_masked:
  "QueryOperationalIntentReferences x c q db = (Inr ps, db') \<Longrightarrow> p \<in> set ps \<Longrightarrow>
     op_masked (c_manager c) p"
  by (auto simp: QueryOperationalIntentReferences_def serve_Inr query_ops_action_def tx_inv
      dest!: query_request_Inr smap_in query_op_masked)

lemma put_con_masked:
  assumes "PutConstraintReference x c i v p db = (Inr a, db')"
  shows "con_masked (c_manager c) (chc_ConstraintReference a)"
proof -
  from assms obtain q where q: "validate_put_con x c i v p = (Inr q :: scd_err + _)" and
    run: "put_con_action x c q db = Inr (a, db')"
    by (auto simp: PutConstraintReference_def serve_Inr)
  from q have m: "c_manager c = Some (pq_manager q)" by (auto simp: validate_put_con_def tx_inv)
  from run obtain version v3 s1 con s2 where
    "scd_UpsertConstraint x (c_txn c) (new_con q version v3) s1 = Inr (con, s2)"
    "Constraint_ToProto x con = (Inr (chc_ConstraintReference a) :: scd_err + _)"
    by (auto simp: put_con_action_def bnd_Inr wrap_Inr of_sum_Inr ret_Inr)
  with m show ?thesis by (auto simp: con_masked_def scd_UpsertConstraint_Inr dest!: Constraint_ToProto_Inr)
qed

lemma delete_con_masked:
  assumes "DeleteConstraintReference x c i db = (Inr a, db')"
  shows "con_masked (c_manager c) (chc_ConstraintReference a)"
proof -
  from assms obtain j m where m: "c_manager c = Some m" and run: "delete_con_action x (j, m) db = Inr (a, db')"
    by (auto simp: DeleteConstraintReference_def serve_Inr dest!: entity_request_Inr)
  from run m show ?thesis
    by (auto simp: delete_con_action_def tx_inv con_masked_def dest!: Constraint_ToProto_Inr)
qed

lemma get_con_masked:
  "GetConstraintReference x c i db = (Inr p, db') \<Longrightarrow> con_masked (c_manager c) p"
  by (auto simp: GetConstraintReference_def serve_Inr get_con_action_def tx_inv
      dest!: entity_request_Inr mask_con_masked)

lemma query_cons_masked:
  "QueryConstraintReferences x c q db = (Inr ps, db') \<Longrightarrow> p \<in> set ps \<Longrightarrow> con_masked (c_manager c) p"
  by (auto simp: QueryConstraintReferences_def serve_Inr query_cons_action_def tx_inv
      dest!: query_request_Inr smap_in query_con_masked)

text \<open>Errors of the other requests have no detail.\<close>

lemma other_errors_plain:
  "DeleteOperationalIntentReference x c i db = (Inl e, db') \<Longrightarrow> err_detail e = None"
  "GetOperationalIntentReference x c i db = (Inl e, db') \<Longrightarrow> err_detail e = None"
  "QueryOperationalIntentReferences x c p db = (Inl e, db') \<Longrightarrow> err_detail e = None"
  "PutSubscription x c i v sp db = (Inl e, db') \<Longrightarrow> err_detail e = None"
  "GetSubscription x c i db = (Inl e, db') \<Longrightarrow> err_detail e = None"
  "QuerySubscriptions x c p db = (Inl e, db') \<Longrightarrow> err_detail e = None"
  "DeleteSubscription x c i db = (Inl e, db') \<Longrightarrow> err_detail e = None"
  "PutConstraintReference x c i v cp db = (Inl e, db') \<Longrightarrow> err_detail e = None"
  "DeleteConstraintReference x c i db = (Inl e, db') \<Longrightarrow> err_detail e = None"
  "GetConstraintReference x c i db = (Inl e, db') \<Longrightarrow> err_detail e = None"
  "QueryConstraintReferences x c p db = (Inl e, db') \<Longrightarrow> err_detail e = None"
  unfolding DeleteOperationalIntentReference_def GetOperationalIntentReference_def
    QueryOperationalIntentReferences_def PutSubscription_def GetSubscription_def
    QuerySubscriptions_def DeleteSubscription_def PutConstraintReference_def
    DeleteConstraintReference_def GetConstraintReference_def QueryConstraintReferences_def
  by (erule serve_plain; intro plain_intros)+

lemma avail_errors_plain:
  "GetUssAvailability x u db = (Inl e, db') \<Longrightarrow> err_detail e = None"
  "PutUssAvailability x c u a db = (Inl e, db') \<Longrightarrow> err_detail e = None"
proof -
  have d: "default_if_no_table i r = (Inl e, db') \<Longrightarrow> fst r = Inl e" for i and r :: "(scd_err + availability_response) \<times> scd_db"
    by (auto simp: default_if_no_table_def split: prod.splits sum.splits if_splits)
  have t: "plain_tx m \<Longrightarrow> fst (transact m s) = Inl e \<Longrightarrow> err_detail e = None"
    for m :: "availability_response scd_tx" and s
    by (auto simp: transact_def plain_tx_def plain_sum_def split: sum.splits)
  show "GetUssAvailability x u db = (Inl e, db') \<Longrightarrow> err_detail e = None"
    by (auto simp: GetUssAvailability_def split: if_splits dest!: d intro: t plain_intros)
  have "plain_sum (UssAvailabilityStateFromString w :: scd_err + string)" for w
    by (auto simp: UssAvailabilityStateFromString_def Let_def intro!: plain_intros)
  then show "PutUssAvailability x c u a db = (Inl e, db') \<Longrightarrow> err_detail e = None"
    by (auto simp: PutUssAvailability_def plain_sum_def split: if_splits sum.splits
        dest!: d intro: t plain_intros)
qed

lemma scd_serve_masked:
  assumes "scd_serve x c req db = (r, db')"
  shows "(\<forall>p \<in> set (resp_ops r). op_masked (c_manager c) p) \<and>
    (\<forall>p \<in> set (resp_cons r). con_masked (c_manager c) p)"
proof -
  have put: ?thesis if "respond RespChangeOp (PutOperationalIntentReference x c i v p db) = (r, db')" for i v p
    using that put_op_masked [of x c i v p db]
    by (cases r) (fastforce simp: respond_cases split: option.splits sum.splits)+
  have sub: ?thesis if "respond RespPutSub (PutSubscription x c i v p db) = (r, db')" for i v p
    using that put_sub_masked [of x c i v p db] other_errors_plain(4)
    by (cases r) (fastforce simp: respond_cases List.map_filter_def split: option.splits)+
  have con: ?thesis if "respond RespChangeCon (PutConstraintReference x c i v p db) = (r, db')" for i v p
    using that put_con_masked [of x c i v p db] other_errors_plain(8)
    by (cases r) (fastforce simp: respond_cases)+
  show ?thesis
  proof (cases req)
    case (ReqDeleteOp i)
    with assms entity_op_masked other_errors_plain(1) show ?thesis
      by (cases r) (fastforce simp: respond_cases)+
  next
    case (ReqGetOp i)
    with assms get_op_masked other_errors_plain(2) show ?thesis
      by (cases r) (fastforce simp: respond_cases)+
  next
    case (ReqQueryOps p)
    with assms query_ops_masked other_errors_plain(3) show ?thesis
      by (cases r) (fastforce simp: respond_cases)+
  next
    case (ReqCreateOp i p)
    with assms put show ?thesis by (simp add: CreateOperationalIntentReference_def)
  next
    case (ReqUpdateOp i v p)
    with assms put show ?thesis by (simp add: UpdateOperationalIntentReference_def)
  next
    case (ReqCreateSub i p)
    with assms sub show ?thesis by (simp add: CreateSubscription_def)
  next
    case (ReqUpdateSub i v p)
    with assms sub show ?thesis by (simp add: UpdateSubscription_def)
  next
    case (ReqCreateCon i p)
    with assms con show ?thesis by (simp add: CreateConstraintReference_def)
  next
    case (ReqUpdateCon i v p)
    with assms con show ?thesis by (simp add: UpdateConstraintReference_def)
  next
    case (ReqDeleteCon i)
    with assms delete_con_masked other_errors_plain(9) show ?thesis
      by (cases r) (fastforce simp: respond_cases)+
  next
    case (ReqGetCon i)
    with assms get_con_masked other_errors_plain(10) show ?thesis
      by (cases r) (fastforce simp: respond_cases)+
  next
    case (ReqQueryCons p)
    with assms query_cons_masked other_errors_plain(11) show ?thesis
      by (cases r) (fastforce simp: respond_cases)+
  next
    case (ReqGetSub i)
    with assms other_errors_plain(5) show ?thesis by (cases r) (fastforce simp: respond_cases)+
  next
    case (ReqQuerySubs p)
    with assms other_errors_plain(6) show ?thesis by (cases r) (fastforce simp: respond_cases)+
  next
    case (ReqDeleteSub i)
    with assms other_errors_plain(7) show ?thesis by (cases r) (fastforce simp: respond_cases)+
  next
    case (ReqGetAvail i)
    with assms avail_errors_plain(1) show ?thesis by (cases r) (fastforce simp: respond_cases)+
  next
    case (ReqSetAvail i a)
    with assms avail_errors_plain(2) show ?thesis
      by (cases r) (fastforce simp: respond_cases SetUssAvailability_def)+
  next
    case ReqMakeDssReport
    with assms show ?thesis by (auto simp: MakeDssReport_def)
  qed
qed

end
