(* ===== verification/Scd_Ownership.thy ===== *)
theory Scd_Ownership
  imports Scd_System
begin

text \<open>
  What a manager's request leaves alone: the rows of every other manager, but for the
  notification indices of their subscriptions.
\<close>

section \<open>The rows of a manager\<close>

definition owned :: "string \<Rightarrow> ('r \<Rightarrow> string) \<Rightarrow> 'r option \<Rightarrow> 'r option" where
  "owned m owner p = (case p of None \<Rightarrow> None | Some r \<Rightarrow> if owner r = m then Some r else None)"

definition rows_kept :: "string \<Rightarrow> scd_db \<Rightarrow> scd_db \<Rightarrow> bool" where
  "rows_kept m db db' \<longleftrightarrow>
     (\<forall>k. owned m opr_owner (tbl_get (db_ops db') k) = owned m opr_owner (tbl_get (db_ops db) k)) \<and>
     (\<forall>k. owned m cnr_owner (tbl_get (db_cons db') k) = owned m cnr_owner (tbl_get (db_cons db) k)) \<and>
     (\<forall>k. owned m sbr_owner (tbl_get (db_subs db') k) = owned m sbr_owner (tbl_get (db_subs db) k))"

definition rows_bumped :: "string \<Rightarrow> scd_db \<Rightarrow> scd_db \<Rightarrow> bool" where
  "rows_bumped m db db' \<longleftrightarrow>
     (\<forall>k. owned m opr_owner (tbl_get (db_ops db') k) = owned m opr_owner (tbl_get (db_ops db) k)) \<and>
     (\<forall>k. owned m cnr_owner (tbl_get (db_cons db') k) = owned m cnr_owner (tbl_get (db_cons db) k)) \<and>
     (\<forall>k. owned m sbr_owner (tbl_get (db_subs db') k)
        \<in> {owned m sbr_owner (tbl_get (db_subs db) k),
           map_option bump_sub (owned m sbr_owner (tbl_get (db_subs db) k))})"

lemma rows_kept_bumped: "rows_kept m db db' \<Longrightarrow> rows_bumped m db' db'' \<Longrightarrow> rows_bumped m db db''"
  by (simp add: rows_kept_def rows_bumped_def)

lemma rows_bumped_kept: "rows_bumped m db db' \<Longrightarrow> rows_kept m db' db'' \<Longrightarrow> rows_bumped m db db''"
  by (simp add: rows_kept_def rows_bumped_def)

lemma rows_kept_trans: "rows_kept m db db' \<Longrightarrow> rows_kept m db' db'' \<Longrightarrow> rows_kept m db db''"
  by (simp add: rows_kept_def)

lemma rows_kept_refl [simp]: "rows_kept m db db"
  by (simp add: rows_kept_def)

lemma rows_kept_imp: "rows_kept m db db' \<Longrightarrow> rows_bumped m db db'"
  by (simp add: rows_kept_def rows_bumped_def)

lemma owned_simps [simp]:
  "owned m owner None = None" "owned m owner (Some r) = (if owner r = m then Some r else None)"
  by (simp_all add: owned_def)

lemma rows_bumped_increment:
  assumes "scd_subs_IncrementNotificationIndices x ss s = Inr (r, s')"
  shows "rows_bumped m s s'"
proof (rule scd_subs_IncrementNotificationIndices_Inr [OF assms])
  fix uids assume "s' = s\<lparr>db_subs := tbl_update_any uids bump_sub (db_subs s)\<rparr>"
  then show ?thesis
    by (auto simp: rows_bumped_def tbl_laws owned_def bump_sub_def split: option.splits)
qed

section \<open>The actions\<close>

lemma put_op_rows:
  assumes sound: "s2_sound x area" and idem: "uuid_idem x"
    and fresh: "fresh_uuid x c s" and valid: "validate_put_op x c i ovn p = (Inr q :: scd_err + _)"
    and run: "put_op_action x c q s = Inr (resp, s')" and other: "c_manager c \<noteq> Some m"
  shows "rows_bumped m s s'"
proof (rule put_op_action_Inr [OF run])
  fix old version sub s1 oi v s2
  assume old: "put_op_old x q s = Inr ((old, version), s)"
    and sub: "put_op_subscription x c q s = Inr (sub, s1)"
    and store: "put_op_store x c q old version sub s1 = Inr ((oi, v), s2)"
    and notify: "put_op_notify x (oi, v) s2 = Inr (resp, s')"
  from validate_put_op_Inr [OF valid] obtain st et where
    st: "StartTime (po_extent q) = Some st" and et: "EndTime (po_extent q) = Some et"
    and mgr: "po_manager q \<noteq> m" using other by auto
  have "rows_kept m s s1 \<and> db_ops s1 = db_ops s"
  proof (rule put_op_subscription_Inr [OF sub sound idem fresh st et])
    fix uid row
    assume s1: "s1 = s \<or> s1 = s\<lparr>db_subs := tbl_upsert uid row (db_subs s)\<rparr> \<and>
        times_check (sbr_starts_at row) (sbr_ends_at row)"
      and "row_follows area (po_manager q) (tbl_get (db_subs s) uid) row"
    then have "owned m sbr_owner (Some row) = None"
      "owned m sbr_owner (tbl_get (db_subs s) uid) = None"
      using mgr by (auto simp: row_follows_def owned_def split: option.splits)
    with s1 show ?thesis by (auto simp: rows_kept_def tbl_laws)
  qed
  then have s01: "rows_kept m s s1" and ops: "db_ops s1 = db_ops s" by simp_all
  from put_op_store_Inr [OF store] put_op_old_Inr [OF old] ops have "rows_kept m s1 s2"
    by (auto simp: rows_kept_def tbl_laws Let_def mgr split: option.splits)
  moreover from put_op_notify_Inr [OF notify] have "rows_bumped m s2 s'"
    by (auto intro: rows_bumped_increment)
  ultimately show ?thesis
    using s01 by (blast intro: rows_kept_trans rows_kept_bumped)
qed

lemma delete_op_rows:
  assumes ok: "scd_ok x area s" and run: "delete_op_action x (i, manager) s = Inr (resp, s')"
    and other: "manager \<noteq> m"
  shows "rows_bumped m s s'"
proof (rule delete_op_action_Inr [OF run])
  fix uid r sid sr rm allsubs subs s1 s2
  assume r: "tbl_get (db_ops s) uid = Some r" "opr_owner r = manager"
    and sid: "x_pg_uuid x (opr_subscription_id r) = Some sid" "tbl_get (db_subs s) sid = Some sr"
    and inc: "scd_subs_IncrementNotificationIndices x
          (filter sub_NotifyForOperationalIntents allsubs) s = Inr (subs, s1)"
    and s2: "s2 = s1\<lparr>db_ops := tbl_delete uid (db_ops s1)\<rparr>"
    and fin: "(if rm then wrap Propagate (scd_DeleteSubscription x sid) else ret ()) s2 = Inr ((), s')"
  note refs = scd_ok_refs [OF ok]
  obtain uids where s1: "s1 = s\<lparr>db_subs := tbl_update_any uids bump_sub (db_subs s)\<rparr>"
    using inc by (rule scd_subs_IncrementNotificationIndices_Inr)
  from scd_refs.refs_op [OF refs r(1)] obtain s0 where
    s0: "tbl_get (db_subs s) (opr_subscription_id r) = Some s0" "sub_supports area s0 r" by blast
  from scd_refs.refs_sub [OF refs s0(1)] sid have sid': "sid = opr_subscription_id r" "sr = s0"
    using s0 by (auto simp: pg_canonical_def)
  with s0 r have own: "sbr_owner sr = manager" by (simp add: sub_supports_def)
  have dep: "opr_owner r' = manager" if "tbl_get (db_ops s) k = Some r'" "opr_subscription_id r' = sid" for k r'
    using scd_refs.refs_op [OF refs that(1)] that(2) sid own by (auto simp: sub_supports_def)
  have wf: "tbl_wf (db_ops s)" using scd_refs.refs_wf [OF refs] by simp
  have k1: "rows_bumped m s s1" using inc by (rule rows_bumped_increment)
  have k2: "rows_kept m s1 s2"
    using r other by (auto simp: rows_kept_def tbl_laws s2 s1)
  have k3: "rows_kept m s2 s'"
  proof (cases rm)
    case True
    with fin sid scd_refs.refs_sub [OF refs sid(2)] have
      s': "s' = s2\<lparr>db_subs := tbl_delete sid (db_subs s2),
               db_ops := tbl_delete_where (\<lambda>o'. opr_subscription_id o' = sid) (db_ops s2)\<rparr>"
      by (auto simp: tx_inv pg_canonical_def)
    have "tbl_wf (db_ops s2)" using wf by (simp add: s2 s1 tbl_wf_laws)
    then show ?thesis
      using sid own other dep
      by (auto simp: rows_kept_def tbl_laws s' s2 s1 owned_def bump_sub_def split: option.splits)
  qed (use fin in \<open>auto simp: tx_inv\<close>)
  from k1 k2 k3 show ?thesis by (blast intro: rows_bumped_kept)
qed

lemma put_sub_rows:
  assumes valid: "validate_put_sub x c i v p = (Inr q :: scd_err + _)"
    and run: "put_sub_action x c q s = Inr (resp, s')" and other: "c_manager c \<noteq> Some m"
  shows "rows_bumped m s s'"
proof (rule put_sub_action_Inr [OF run])
  fix uid old b e subreq deps
  assume old: "old = map_option (\<lambda>r. fetch_sub x (uid, r)) (tbl_get (db_subs s) uid)"
    and run_old: "put_sub_old x old ((ps_subreq q)\<lparr>sub_StartTime := Some b, sub_EndTime := Some e\<rparr>) s =
       Inr ((subreq, deps), s)"
    and s': "s' = s\<lparr>db_subs := tbl_upsert uid (sub_row_of (c_txn c) subreq) (db_subs s)\<rparr>"
  from validate_put_sub_Inr [OF valid] other have "sub_Manager (ps_subreq q) \<noteq> m" by auto
  with put_sub_old_Inr [OF run_old] old have "rows_kept m s s'"
    by (cases "tbl_get (db_subs s) uid") (auto simp: rows_kept_def s' tbl_laws)
  then show ?thesis by (rule rows_kept_imp)
qed

lemma delete_sub_rows:
  assumes wf: "tbl_wf (db_ops s)" and run: "delete_sub_action x (i, manager) s = Inr (resp, s')"
    and other: "manager \<noteq> m"
  shows "rows_bumped m s s'"
proof (rule delete_sub_action_Inr [OF run])
  fix uid r
  assume "tbl_get (db_subs s) uid = Some r" "sbr_owner r = manager"
    and none: "tbl_select (\<lambda>o'. opr_subscription_id o' = uid) (db_ops s) = []"
    and s': "s' = s\<lparr>db_subs := tbl_delete uid (db_subs s),
            db_ops := tbl_delete_where (\<lambda>o'. opr_subscription_id o' = uid) (db_ops s)\<rparr>"
  with other wf have "rows_kept m s s'"
    by (auto simp: rows_kept_def tbl_laws tbl.select_empty_iff split: option.splits)
  then show ?thesis by (rule rows_kept_imp)
qed

lemma put_con_rows:
  assumes valid: "validate_put_con x c i ovn p = (Inr q :: scd_err + _)"
    and run: "put_con_action x c q s = Inr (resp, s')" and other: "c_manager c \<noteq> Some m"
  shows "rows_bumped m s s'"
proof (rule put_con_action_Inr [OF run])
  fix old version uid v3 allsubs subs s1 vol
  assume old: "put_con_old x q s = Inr ((old, version), s)" and uid: "x_pg_uuid x (pq_id q) = Some uid"
    and s1: "s1 = s\<lparr>db_cons := tbl_upsert uid (con_row_of (c_txn c) (new_con q version v3)) (db_cons s)\<rparr>"
    and inc: "scd_subs_IncrementNotificationIndices x (filter sub_NotifyForConstraints allsubs) s1 =
       Inr (subs, s')"
  from valid other have "pq_manager q \<noteq> m" by (auto simp: validate_put_con_def tx_inv)
  with put_con_old_Inr [OF old] uid have "rows_kept m s s1"
    by (auto simp: rows_kept_def s1 tbl_laws split: option.splits)
  with rows_bumped_increment [OF inc] show ?thesis by (blast intro: rows_kept_bumped)
qed

lemma delete_con_rows:
  assumes run: "delete_con_action x (i, manager) s = Inr (resp, s')" and other: "manager \<noteq> m"
  shows "rows_bumped m s s'"
proof (rule delete_con_action_Inr [OF run])
  fix uid r allsubs s1 subs
  assume "tbl_get (db_cons s) uid = Some r" "cnr_owner r = manager"
    and s1: "s1 = s\<lparr>db_cons := tbl_delete uid (db_cons s)\<rparr>"
    and inc: "scd_subs_IncrementNotificationIndices x (filter sub_NotifyForConstraints allsubs) s1 =
       Inr (subs, s')"
  with other have "rows_kept m s s1" by (auto simp: rows_kept_def tbl_laws)
  with rows_bumped_increment [OF inc] show ?thesis by (blast intro: rows_kept_bumped)
qed

lemma scd_commits_rows:
  assumes "scd_commits x c db db'" and "scd_ok x area db" and "s2_sound x area" and "uuid_idem x"
    and "fresh_uuid x c db" and "c_manager c \<noteq> Some m"
  shows "rows_bumped m db db'"
  using assms
proof (induction rule: scd_commits.induct)
  case (put_op i ovn p q db r db')
  then show ?case by (blast intro: put_op_rows)
next
  case (delete_op m' i db r db')
  then show ?case by (auto intro: delete_op_rows)
next
  case (put_sub i v p q db r db')
  then show ?case by (blast intro: put_sub_rows)
next
  case (delete_sub m' i db r db')
  then show ?case
    using scd_refs.refs_wf [OF scd_ok_refs [OF delete_sub(3)]] by (auto intro: delete_sub_rows)
next
  case (put_con i ovn p q db r db')
  then show ?case by (blast intro: put_con_rows)
next
  case (delete_con m' i db r db')
  then show ?case by (auto intro: delete_con_rows)
next
  case (put_avail u a db r db')
  then show ?case by (auto simp: put_avail_action_def tx_inv rows_bumped_def)
qed

section \<open>The tables after the deletion of an operational intent\<close>

lemma delete_op_tables:
  assumes ok: "scd_ok x area db" and act: "delete_op_action x (j, m) db = Inr (resp, db')"
  obtains uid r sr rm subs where
    "x_pg_uuid x j = Some uid" "tbl_get (db_ops db) uid = Some r" "opr_owner r = m"
    "tbl_get (db_subs db) (opr_subscription_id r) = Some sr"
    "rm \<longleftrightarrow> sbr_implicit sr \<and> (\<forall>k r'. tbl_get (db_ops db) k = Some r' \<and>
       opr_subscription_id r' = opr_subscription_id r \<longrightarrow> k = uid)"
    "tbl_get (db_ops db') = (tbl_get (db_ops db))(uid := None)"
    "tbl_get (db_subs db') = (if rm then (tbl_get subs)(opr_subscription_id r := None) else tbl_get subs)"
    "\<And>k. tbl_get subs k \<in> {tbl_get (db_subs db) k, map_option bump_sub (tbl_get (db_subs db) k)}"
    "tbl_get subs (opr_subscription_id r) \<noteq> None"
proof (rule delete_op_action_Inr [OF act])
  note refs = scd_ok_refs [OF ok]
  have wf: "tbl_wf (db_ops db)" using scd_refs.refs_wf [OF refs] by simp
  fix uid r sid sr rm allsubs subs s1 s2
  assume uid: "x_pg_uuid x j = Some uid" and r: "tbl_get (db_ops db) uid = Some r" "opr_owner r = m"
    and sid: "x_pg_uuid x (opr_subscription_id r) = Some sid" "tbl_get (db_subs db) sid = Some sr"
    and rm: "remove_implicit x (fetch_sub x (sid, sr)) db = Inr (rm, db)"
    and inc: "scd_subs_IncrementNotificationIndices x
        (filter sub_NotifyForOperationalIntents allsubs) db = Inr (subs, s1)"
    and s2: "s2 = s1\<lparr>db_ops := tbl_delete uid (db_ops s1)\<rparr>"
    and fin: "(if rm then wrap Propagate (scd_DeleteSubscription x sid) else ret ()) s2 = Inr ((), db')"
  obtain uids where s1: "s1 = db\<lparr>db_subs := tbl_update_any uids bump_sub (db_subs db)\<rparr>"
    using inc by (rule scd_subs_IncrementNotificationIndices_Inr)
  have sid': "opr_subscription_id r = sid" and can: "x_pg_uuid x sid = Some sid"
    using scd_refs.refs_op [OF refs r(1)] scd_refs.refs_sub [OF refs] sid by (auto simp: pg_canonical_def)
  let ?deps = "tbl_select (\<lambda>r. opr_subscription_id r = sid) (db_ops db)"
  have one: "length ?deps = 1 \<longleftrightarrow> (\<forall>k r'. tbl_get (db_ops db) k = Some r' \<and> opr_subscription_id r' = sid \<longrightarrow> k = uid)"
    using wf r(1) sid' by (rule tbl.select_one_iff)
  have rm_iff: "rm \<longleftrightarrow> sbr_implicit sr \<and> length ?deps = 1"
    using rm can by (auto simp: remove_implicit_def bnd_Inr wrap_Inr ret_Inr fail_Inr
        scd_GetDependentOperationalIntents_Inr split: if_splits)
  have "tbl_wf (tbl_delete uid (db_ops db))" using wf by (rule tbl_wf_laws)
  then have ops: "tbl_get (db_ops db') = (tbl_get (db_ops db))(uid := None)"
    using fin one rm_iff can
    by (fastforce simp: s2 s1 tx_inv tbl_laws fun_eq_iff split: if_splits option.splits)
  have subs: "tbl_get (db_subs db') = (if rm then (tbl_get (db_subs s1))(sid := None) else tbl_get (db_subs s1))"
    using fin can by (auto simp: s2 s1 tx_inv tbl_laws)
  have bumped: "tbl_get (db_subs s1) k \<in> {tbl_get (db_subs db) k, map_option bump_sub (tbl_get (db_subs db) k)}" for k
    by (cases "tbl_get (db_subs db) k") (auto simp: s1 tbl_laws)
  have "tbl_get (db_subs s1) sid \<noteq> None" using sid by (auto simp: s1 tbl_laws)
  with uid r sid rm_iff one ops subs bumped show thesis
    by (intro that [where uid = uid and r = r and sr = sr and rm = rm and subs = "db_subs s1"])
      (simp_all only: sid' not_False_eq_True)
qed

end
