(* ===== verification/Scd_Properties.thy ===== *)
theory Scd_Properties
  imports Scd_Example Scd_Conflicts Scd_Ownership
begin

text \<open>
  The properties of the strategic coordination service, each with a witness on the instance of
  \<open>Scd_Example\<close>.
\<close>

section \<open>Integrity\<close>

text \<open>
  C1. In every state the service can reach, each operational intent refers to a subscription
  that exists, belongs to the same manager, covers its area, starts at most five minutes after
  it and does not end before it; and the notification index of that subscription is a
  non-negative 32-bit integer.
\<close>

theorem operational_intents_supported:
  assumes "scd_reachable x db" and "uuid_idem x" and "s2_sound x area"
    and "tbl_get (db_ops db) k = Some r"
  shows "\<exists>s. tbl_get (db_subs db) (opr_subscription_id r) = Some s \<and>
    sbr_owner s = opr_owner r \<and>
    times_support (sbr_starts_at s) (sbr_ends_at s) (opr_starts_at r) (opr_ends_at r) \<and>
    area (opr_cells r) \<subseteq> area (sbr_cells s) \<and>
    0 \<le> sbr_notification_index s \<and> sbr_notification_index s < 2 ^ 31"
proof -
  note refs = scd_ok_refs [OF scd_reachable_ok [OF assms(1-3)]]
  from scd_refs.refs_op [OF refs assms(4)] obtain s where
    s: "tbl_get (db_subs db) (opr_subscription_id r) = Some s" "sub_supports area s r" by blast
  with scd_refs.refs_sub [OF refs s(1)] show ?thesis
    by (simp add: sub_supports_def sub_row_ok_def)
qed

theorem operational_intents_supported_witness:
  "\<exists>s. tbl_get (db_subs ex_db1) ''s1'' = Some s \<and> sbr_owner s = ''uss1'' \<and>
     times_support (sbr_starts_at s) (sbr_ends_at s) (Some 20000000) (Some 30000000) \<and>
     {8, 7} \<subseteq> set (sbr_cells s) \<and> 0 \<le> sbr_notification_index s \<and> sbr_notification_index s < 2 ^ 31"
  using operational_intents_supported [OF ex_reachable1 ex_uuid_idem ex_s2_sound, of "''op1''" ex_op_row]
  by (simp add: ex_db1 tbl_get_def ex_op_row_def)

text \<open>
  C2. A request leaves the rows of every manager other than the one who makes it as they are,
  but that each of their subscriptions may have its notification index incremented, once.
\<close>

theorem others_rows_untouched:
  assumes "scd_reachable x db" and "uuid_idem x" and "s2_sound x area" and "fresh_uuid x c db"
    and "scd_serve x c req db = (r, db')" and "c_manager c \<noteq> Some m"
  shows "rows_bumped m db db'"
proof -
  have ok: "scd_ok x area db" using assms(1-3) by (rule scd_reachable_ok)
  from scd_serve_commits [of x c db req] assms(5) have "scd_commits x c db db' \<or> db' = db" by simp
  then show ?thesis
  proof
    assume "scd_commits x c db db'"
    then show ?thesis using ok assms(3,2,4,6) by (rule scd_commits_rows)
  qed (simp add: rows_kept_imp)
qed

theorem others_rows_untouched_witness:
  "rows_bumped ''uss1'' ex_db1 ex_db2 \<and> tbl_get (db_subs ex_db2) ''s1'' \<noteq> tbl_get (db_subs ex_db1) ''s1''"
proof -
  have "rows_bumped ''uss1'' ex_db1 (snd ex_granted)"
  proof (rule others_rows_untouched [OF ex_reachable1 ex_uuid_idem ex_s2_sound])
    show "scd_serve ex_ext (ex_call ''uss2'' ''s2'' 15)
        (ReqCreateOp ''op2'' (Some (ex_op_params [ex_ovn1] ''''))) ex_db1 = (fst ex_granted, snd ex_granted)"
      by (simp only: ex_granted_def prod.collapse)
    show "fresh_uuid ex_ext (ex_call ''uss2'' ''s2'' 15) ex_db1" by (rule ex_fresh) simp
  qed (simp add: ex_call_def)
  then show ?thesis by (simp add: ex_granted ex_db2_def ex_db1 tbl_get_def bump_sub_def ex_sub_row_def)
qed

section \<open>Conflicts\<close>

text \<open>
  C4. When an operational intent is created or changed in a state that requires a key, the key
  holds the OVN of every operational intent in the database that shares a cell with the new
  one and overlaps it in time and altitude (an absent bound overlaps), as long as a search does
  not reach the limit of 10000 rows.
\<close>

theorem accepted_key_covers_conflicts:
  assumes run: "PutOperationalIntentReference x c i ovn (Some p) db = (Inr resp, db')"
    and key: "RequiresKey (pop_State p)" and wf: "tbl_wf (db_ops db)"
    and u: "parse_extents x (pop_Extents p) = (Inr u :: scd_err + _)"
    and v3: "SpatialVolume u = Some v3" and cs: "volume3d_covering x v3 = (Inr cs :: scd_err + _)"
    and few: "int (length (tbl_select (op_matches cs u v3) (db_ops db))) \<le> MaxResultLimit"
    and r: "tbl_get (db_ops db) k = Some r" and cell: "set (opr_cells r) \<inter> set cs \<noteq> {}"
    and time: "le_or_null (StartTime u) (opr_ends_at r)" "le_or_null (opr_starts_at r) (EndTime u)"
    and alt: "le_or_null (AltitudeLo v3) (opr_altitude_upper r)"
      "le_or_null (opr_altitude_lower r) (AltitudeHi v3)"
  shows "NewOVNFromTime x (opr_updated_at r) k \<in> set (pop_Key p)"
proof -
  from run obtain q where q: "validate_put_op x c i ovn (Some p) = (Inr q :: scd_err + _)" and
    act: "put_op_action x c q db = Inr (resp, db')"
    by (auto simp: PutOperationalIntentReference_def serve_Inr)
  have p: "po_params q = p" "po_extent q = u" using q u by (auto simp: validate_put_op_def tx_inv)
  show ?thesis
  proof (rule put_op_action_Inr [OF act])
    fix old version sub s1 oi v s2
    assume sub: "put_op_subscription x c q db = Inr (sub, s1)" and chk: "check_key x q sub s1 = Inr ((), s1)"
    from check_key_passes [OF chk] key p obtain ops where
      search: "scd_SearchOperationalIntents x u s1 = Inr (ops, s1)" and
      all: "\<forall>oi \<in> set ops. oi_OVN oi \<in> set (pop_Key p)" by auto
    from cs v3 search put_op_subscription_frame [OF sub] few
    have "ops = map (fetch_op x) (tbl_select (op_matches cs u v3) (db_ops db))"
      by (auto simp: scd_SearchOperationalIntents_Inr volume3d_covering_def)
    moreover have "(k, r) \<in> set (tbl_select (op_matches cs u v3) (db_ops db))"
      using wf r cell time alt by (intro tbl.get_select) (auto simp: op_matches_def cells_overlap_iff)
    ultimately show ?thesis using all by fastforce
  qed
qed

theorem accepted_key_covers_conflicts_witness: "ex_ovn1 \<in> set (pop_Key (ex_op_params [ex_ovn1] ''''))"
proof -
  obtain resp db' where run: "PutOperationalIntentReference ex_ext (ex_call ''uss2'' ''s2'' 15) ''op2'' ''''
      (Some (ex_op_params [ex_ovn1] '''')) ex_db1 = (Inr resp, db')"
    using ex_granted
    by (cases "PutOperationalIntentReference ex_ext (ex_call ''uss2'' ''s2'' 15) ''op2'' ''''
      (Some (ex_op_params [ex_ovn1] '''')) ex_db1"; cases "fst ex_granted")
      (auto simp: ex_granted_def CreateOperationalIntentReference_def respond_def map_sum_def split: sum.splits)
  let ?v3 = "\<lparr>AltitudeHi = None, AltitudeLo = None, Footprint = Some (PrecomputedCells [8, 7])\<rparr>"
  have u: "parse_extents ex_ext (pop_Extents (ex_op_params [ex_ovn1] '''')) =
      (Inr \<lparr>SpatialVolume = Some ?v3, EndTime = Some 30000000, StartTime = Some 20000000\<rparr> :: scd_err + _)"
    by code_simp
  have cs: "volume3d_covering ex_ext ?v3 = (Inr [8, 7] :: scd_err + _)"
    by (simp add: volume3d_covering_def ex_ext_def)
  show ?thesis
    using accepted_key_covers_conflicts [OF run _ _ u _ cs, of "''op1''" ex_op_row]
    by (simp add: ex_op_params_def RequiresKey_def ex_db1 tbl_wf_def tbl_get_def ex_op_row_def
        MaxResultLimit_def ex_ovn1_def tbl_select_def)
qed

text \<open>
  C5. A conflict report is true: each operational intent it lists is in the database, matches
  the request's volume, and its OVN is not in the key; the same holds for each constraint; and
  the report is not empty.
\<close>

theorem conflict_report_sound:
  assumes run: "PutOperationalIntentReference x c i ovn (Some p) db = (Inl e, db')"
    and det: "err_detail e = Some d" and wf: "tbl_wf (db_ops db)" "tbl_wf (db_cons db)"
    and u: "parse_extents x (pop_Extents p) = (Inr u :: scd_err + _)"
    and v3: "SpatialVolume u = Some v3" and cs: "volume3d_covering x v3 = (Inr cs :: scd_err + _)"
  shows "(\<forall>po \<in> set (ac_MissingOperationalIntents d). \<exists>r. tbl_get (db_ops db) (poi_Id po) = Some r \<and>
            op_matches cs u v3 r \<and> opr_owner r = poi_Manager po \<and>
            NewOVNFromTime x (opr_updated_at r) (poi_Id po) \<notin> set (pop_Key p)) \<and>
    (\<forall>pc \<in> set (ac_MissingConstraints d). \<exists>r. tbl_get (db_cons db) (pcon_Id pc) = Some r \<and>
            con_matches cs u r \<and> cnr_owner r = pcon_Manager pc \<and>
            NewOVNFromTime x (cnr_updated_at r) (pcon_Id pc) \<notin> set (pop_Key p)) \<and>
    (ac_MissingOperationalIntents d \<noteq> [] \<or> ac_MissingConstraints d \<noteq> [])"
proof -
  from serve_detail [OF run [unfolded PutOperationalIntentReference_def]] det obtain q where
    q: "validate_put_op x c i ovn (Some p) = (Inr q :: scd_err + _)" and act: "put_op_action x c q db = Inl e"
    by (auto simp: plain_intros)
  have p: "po_params q = p" "po_extent q = u" using q u by (auto simp: validate_put_op_def tx_inv)
  obtain sub s1 where sub: "put_op_subscription x c q db = Inr (sub, s1)" and
    chk: "check_key x q sub s1 = Inl e"
    using put_op_action_reports [OF act det] by blast
  obtain ops cons where
    ops: "scd_SearchOperationalIntents x u s1 = Inr (ops, s1)" and
    cons: "relevant_constraints x sub u s1 = Inr (cons, s1)" and
    miss: "MissingOVNsErrorResponse x (missing_ops (po_manager q) (pop_Key p) ops)
       (missing_cons (po_manager q) (pop_Key p) cons) = (Inr d :: scd_err + _)" and
    some: "missing_ops (po_manager q) (pop_Key p) ops \<noteq> [] \<or> missing_cons (po_manager q) (pop_Key p) cons \<noteq> []"
    by (rule check_key_reports [OF chk det]) (auto simp: p)
  have row: "\<exists>r. tbl_get (db_ops db) (oi_ID oi) = Some r \<and> op_matches cs u v3 r \<and> oi = fetch_op x (oi_ID oi, r)"
    if "oi \<in> set ops" for oi
    using that ops cs v3 put_op_subscription_frame [OF sub] limit_rows_select [OF wf(1)]
    by (fastforce simp: scd_SearchOperationalIntents_Inr volume3d_covering_def)
  have crow: "\<exists>r. tbl_get (db_cons db) (con_ID cn) = Some r \<and> con_matches cs u r \<and> cn = fetch_con x (con_ID cn, r)"
    if "cn \<in> set cons" for cn
    using that cons cs v3 put_op_subscription_frame [OF sub] limit_rows_select [OF wf(2)]
    by (fastforce simp: relevant_constraints_Inr scd_SearchConstraints_Inr CalculateSpatialCovering_def
        split: if_splits)
  note m = MissingOVNs_Inr [OF miss]
  have "\<exists>r. tbl_get (db_ops db) (poi_Id po) = Some r \<and> op_matches cs u v3 r \<and>
      opr_owner r = poi_Manager po \<and> NewOVNFromTime x (opr_updated_at r) (poi_Id po) \<notin> set (pop_Key p)"
    if po: "po \<in> set (ac_MissingOperationalIntents d)" for po
  proof -
    from m po obtain oi where oi: "oi \<in> set ops" "oi_OVN oi \<notin> set (pop_Key p)"
      "OperationalIntent_ToProto x (mask_op (po_manager q) oi) = (Inr po :: scd_err + _)"
      by (auto simp: missing_ops_def)
    from OperationalIntent_ToProto_Inr [OF oi(3)] have "poi_Id po = oi_ID oi" "poi_Manager po = oi_Manager oi"
      by (simp_all add: mask_op_def split: if_splits)
    with row [OF oi(1)] oi(2) show ?thesis by (metis fetch_op_simps(2,5))
  qed
  moreover have "\<exists>r. tbl_get (db_cons db) (pcon_Id pc) = Some r \<and> con_matches cs u r \<and>
      cnr_owner r = pcon_Manager pc \<and> NewOVNFromTime x (cnr_updated_at r) (pcon_Id pc) \<notin> set (pop_Key p)"
    if pc: "pc \<in> set (ac_MissingConstraints d)" for pc
  proof -
    from m pc obtain cn where cn: "cn \<in> set cons" "con_OVN cn \<notin> set (pop_Key p)"
      "Constraint_ToProto x (mask_con (po_manager q) cn) = (Inr pc :: scd_err + _)"
      by (auto simp: missing_cons_def)
    from Constraint_ToProto_Inr [OF cn(3)] have "pcon_Id pc = con_ID cn" "pcon_Manager pc = con_Manager cn"
      by (simp_all add: mask_con_def split: if_splits)
    with crow [OF cn(1)] cn(2) show ?thesis by (metis fetch_con_simps(2,4))
  qed
  ultimately show ?thesis using m some by auto
qed

theorem conflict_report_sound_witness:
  "\<exists>r. tbl_get (db_ops ex_db1) ''op1'' = Some r \<and> opr_owner r = ''uss1'' \<and>
     NewOVNFromTime ex_ext (opr_updated_at r) ''op1'' \<notin> set []"
proof -
  obtain e db' d where run: "PutOperationalIntentReference ex_ext (ex_call ''uss2'' ''s2'' 15) ''op2'' ''''
      (Some (ex_op_params [] '''')) ex_db1 = (Inl e, db')" and det: "err_detail e = Some d" and
    d: "map (\<lambda>p. (poi_Id p, poi_Manager p)) (ac_MissingOperationalIntents d) = [(''op1'', ''uss1'')]"
    using ex_denied_detail
    by (cases "PutOperationalIntentReference ex_ext (ex_call ''uss2'' ''s2'' 15) ''op2'' ''''
      (Some (ex_op_params [] '''')) ex_db1"; cases "fst ex_denied")
      (auto simp: ex_denied_def CreateOperationalIntentReference_def respond_def map_sum_def split: sum.splits)
  let ?v3 = "\<lparr>AltitudeHi = None, AltitudeLo = None, Footprint = Some (PrecomputedCells [8, 7])\<rparr>"
  have u: "parse_extents ex_ext (pop_Extents (ex_op_params [] '''')) =
      (Inr \<lparr>SpatialVolume = Some ?v3, EndTime = Some 30000000, StartTime = Some 20000000\<rparr> :: scd_err + _)"
    by code_simp
  have cs: "volume3d_covering ex_ext ?v3 = (Inr [8, 7] :: scd_err + _)"
    by (simp add: volume3d_covering_def ex_ext_def)
  have wf: "tbl_wf (db_ops ex_db1)" "tbl_wf (db_cons ex_db1)" by (simp_all add: ex_db1 tbl_wf_def)
  have key: "pop_Key (ex_op_params [] '''') = []" by (simp add: ex_op_params_def)
  from conflict_report_sound [OF run det wf u _ cs] d key show ?thesis
    by (auto simp: map_eq_Cons_conv)
qed

text \<open>
  C6. No response shows an OVN of another manager: in the response to any request, an error
  included, every reference to an operational intent or a constraint of another manager than
  the one who asks has the text \<^verbatim>\<open>Available from USS\<close> in place of its OVN.
\<close>

theorem foreign_ovns_hidden:
  assumes "scd_serve x c req db = (r, db')"
  shows "(\<forall>p \<in> set (resp_ops r). c_manager c = Some (poi_Manager p) \<or> poi_Ovn p = ''Available from USS'') \<and>
    (\<forall>p \<in> set (resp_cons r). c_manager c = Some (pcon_Manager p) \<or> pcon_Ovn p = ''Available from USS'')"
  using scd_serve_masked [OF assms] by (simp add: op_masked_def con_masked_def NoOvnPhrase_def)

theorem foreign_ovns_hidden_witness:
  "\<exists>p. resp_ops (fst ex_denied) = [p] \<and> poi_Manager p = ''uss1'' \<and> poi_Ovn p = ''Available from USS''"
proof -
  obtain p where p: "resp_ops (fst ex_denied) = [p]" "poi_Manager p = ''uss1''"
    using ex_denied_detail by (cases "fst ex_denied") auto
  have "scd_serve ex_ext (ex_call ''uss2'' ''s2'' 15)
      (ReqCreateOp ''op2'' (Some (ex_op_params [] ''''))) ex_db1 = (fst ex_denied, snd ex_denied)"
    by (simp only: ex_denied_def prod.collapse)
  from foreign_ovns_hidden [OF this] p show ?thesis by (auto simp: ex_call_def)
qed

section \<open>What the requests store\<close>

lemma put_op_old_stale:
  assumes "x_pg_uuid x (po_id q) = Some uid" and "tbl_get (db_ops s) uid = Some r"
    and "po_ovn q \<noteq> NewOVNFromTime x (opr_updated_at r) uid"
  shows "put_op_old x q s =
    Inl (coded (if opr_owner r = po_manager q then VersionMismatch else PermissionDenied))"
  using assms
  by (simp add: put_op_old_def scd_GetOperationalIntent_def PgUUID_def tx_defs)

lemma increment_frame:
  "scd_subs_IncrementNotificationIndices x ss s = Inr (r, s') \<Longrightarrow>
     db_ops s' = db_ops s \<and> db_cons s' = db_cons s"
  by (erule scd_subs_IncrementNotificationIndices_Inr) simp

lemma put_op_row:
  assumes run: "PutOperationalIntentReference x c i ovn (Some p) db = (Inr resp, db')"
  obtains j uid row where "x_uuid_parse x i = Some j" "x_pg_uuid x j = Some uid"
    "tbl_get (db_ops db') = (tbl_get (db_ops db))(uid \<mapsto> row)"
    "c_manager c = Some (opr_owner row)" "opr_updated_at row = c_txn c"
    "opr_state row = pop_State p" "c_now c \<le> the (opr_ends_at row)"
    "case tbl_get (db_ops db) uid of
       None \<Rightarrow> ovn = '''' \<and> opr_version row = 1
     | Some r \<Rightarrow> opr_owner r = opr_owner row \<and> ovn = NewOVNFromTime x (opr_updated_at r) uid \<and>
         opr_version row = opr_version r + 1"
    "OperationalIntent_ToProto x (fetch_op x (uid, row)) =
      (Inr (cho_OperationalIntentReference resp) :: scd_err + _)"
proof -
  from run obtain q where q: "validate_put_op x c i ovn (Some p) = (Inr q :: scd_err + _)" and
    act: "put_op_action x c q db = Inr (resp, db')"
    by (auto simp: PutOperationalIntentReference_def serve_Inr)
  note v = validate_put_op_Inr [OF q]
  show thesis
  proof (rule put_op_action_Inr [OF act])
    fix old version sub s1 oi vol s2
    assume old: "put_op_old x q db = Inr ((old, version), db)"
      and sub: "put_op_subscription x c q db = Inr (sub, s1)"
      and store: "put_op_store x c q old version sub s1 = Inr ((oi, vol), s2)"
      and notify: "put_op_notify x (oi, vol) s2 = Inr (resp, db')"
    from put_op_notify_Inr [OF notify] have ops: "db_ops db' = db_ops s2"
      and resp: "OperationalIntent_ToProto x oi = (Inr (cho_OperationalIntentReference resp) :: scd_err + _)"
      by (auto dest: increment_frame)
    from put_op_store_Inr [OF store] obtain uid row where
      "x_pg_uuid x (po_id q) = Some uid" "s2 = s1\<lparr>db_ops := tbl_upsert uid row (db_ops s1)\<rparr>"
      "oi = fetch_op x (uid, row)" "opr_owner row = po_manager q" "opr_version row = version + 1"
      "opr_updated_at row = c_txn c" "opr_state row = pop_State (po_params q)"
      "opr_ends_at row = EndTime (po_extent q)"
      by (auto simp: Let_def)
    with put_op_old_Inr [OF old] put_op_subscription_frame [OF sub] ops resp v show thesis
      by (intro that [of "po_id q" uid row]) (auto simp: tbl_laws split: option.splits)
  qed
qed

text \<open>
  C3. Of two requests that create or change the same operational intent and give the same OVN, the
  second fails after the first, so that no change is lost, unless the first leaves the operational
  intent with that very OVN (OVNs distinguish seconds only). A second request that is well formed is
  refused for its version, or, when another manager makes it, for its permission.
\<close>

theorem scd_no_lost_update:
  assumes first: "PutOperationalIntentReference x c i ovn (Some p) db = (Inr resp, db')"
    and changed: "poi_Ovn (cho_OperationalIntentReference resp) \<noteq> ovn"
  shows "\<exists>e. PutOperationalIntentReference x c' i ovn p' db' = (Inl e, db') \<and>
    (\<forall>q. validate_put_op x c' i ovn p' = (Inr q :: scd_err + _) \<longrightarrow>
       err_code e = Some (if c_manager c' = c_manager c then VersionMismatch else PermissionDenied))"
proof (cases "validate_put_op x c' i ovn p' :: scd_err + _")
  case (Inr q)
  from first obtain j uid row where id: "x_uuid_parse x i = Some j" "x_pg_uuid x j = Some uid"
    and row: "tbl_get (db_ops db') = (tbl_get (db_ops db))(uid \<mapsto> row)"
    and own: "c_manager c = Some (opr_owner row)"
    and resp: "OperationalIntent_ToProto x (fetch_op x (uid, row)) =
      (Inr (cho_OperationalIntentReference resp) :: scd_err + _)" by (rule put_op_row)
  from OperationalIntent_ToProto_Inr [OF resp] changed
  have "ovn \<noteq> NewOVNFromTime x (opr_updated_at row) uid" by auto
  with validate_put_op_Inr [OF Inr] id row
  have "put_op_old x q db' = Inl (coded (if opr_owner row = po_manager q then VersionMismatch else PermissionDenied))"
    and "c_manager c' = Some (po_manager q)"
    by (auto simp: put_op_old_stale [of x q uid db' row])
  with Inr own show ?thesis
    by (auto simp: PutOperationalIntentReference_def serve_def transact_def put_op_action_def bnd_def)
qed (simp add: PutOperationalIntentReference_def serve_def)

theorem scd_no_lost_update_witness:
  "\<exists>e. PutOperationalIntentReference ex_ext (ex_call ''uss2'' ''s3'' 16) ''op2'' ''''
     (Some (ex_op_params [ex_ovn1] '''')) ex_db2 = (Inl e, ex_db2) \<and> err_code e = Some VersionMismatch"
proof -
  let ?put = "PutOperationalIntentReference ex_ext (ex_call ''uss2'' ''s2'' 15) ''op2'' ''''
      (Some (ex_op_params [ex_ovn1] '''')) ex_db1"
  have "map_sum (\<lambda>_. ()) (\<lambda>r. poi_Ovn (cho_OperationalIntentReference r) \<noteq> '''') (fst ?put) = Inr True \<and>
      snd ?put = ex_db2"
    unfolding ex_db1 ex_op_row_def ex_sub_row_def ex_db2_def ex_op2_row_def ex_sub2_row_def by code_simp
  then obtain resp where "?put = (Inr resp, ex_db2)" "poi_Ovn (cho_OperationalIntentReference resp) \<noteq> ''''"
    by (cases ?put; cases "fst ?put") auto
  from scd_no_lost_update [OF this, of "ex_call ''uss2'' ''s3'' 16" "Some (ex_op_params [ex_ovn1] '''')"]
  obtain e where e: "PutOperationalIntentReference ex_ext (ex_call ''uss2'' ''s3'' 16) ''op2'' ''''
     (Some (ex_op_params [ex_ovn1] '''')) ex_db2 = (Inl e, ex_db2)"
    "\<And>q. validate_put_op ex_ext (ex_call ''uss2'' ''s3'' 16) ''op2'' '''' (Some (ex_op_params [ex_ovn1] '''')) =
      (Inr q :: scd_err + _) \<Longrightarrow> err_code e = Some VersionMismatch"
    by (auto simp: ex_call_def)
  have "isl (validate_put_op ex_ext (ex_call ''uss2'' ''s3'' 16) ''op2'' ''''
      (Some (ex_op_params [ex_ovn1] '''')) :: scd_err + _) = False" by code_simp
  then obtain q where "validate_put_op ex_ext (ex_call ''uss2'' ''s3'' 16) ''op2'' ''''
      (Some (ex_op_params [ex_ovn1] '''')) = (Inr q :: scd_err + _)"
    by (cases "validate_put_op ex_ext (ex_call ''uss2'' ''s3'' 16) ''op2'' ''''
      (Some (ex_op_params [ex_ovn1] '''')) :: scd_err + _") auto
  with e show ?thesis by blast
qed

text \<open>
  C7. Creating or changing an operational intent writes exactly one row of the table, under
  the given id: owned by the caller, with the version one above the old one (1 for a new row),
  stamped with the time of the transaction. A row that was there belonged to the caller, and
  the request gave its current OVN; a request without OVN found no row. The response describes
  the row that was written.
\<close>

theorem put_op_writes_one_row:
  assumes run: "PutOperationalIntentReference x c i ovn (Some p) db = (Inr resp, db')"
  shows "\<exists>j uid row. x_uuid_parse x i = Some j \<and> x_pg_uuid x j = Some uid \<and>
    tbl_get (db_ops db') = (tbl_get (db_ops db))(uid \<mapsto> row) \<and>
    c_manager c = Some (opr_owner row) \<and> opr_updated_at row = c_txn c \<and>
    opr_state row = pop_State p \<and> c_now c \<le> the (opr_ends_at row) \<and>
    (case tbl_get (db_ops db) uid of
       None \<Rightarrow> ovn = '''' \<and> opr_version row = 1
     | Some r \<Rightarrow> opr_owner r = opr_owner row \<and> ovn = NewOVNFromTime x (opr_updated_at r) uid \<and>
         opr_version row = opr_version r + 1) \<and>
    OperationalIntent_ToProto x (fetch_op x (uid, row)) =
      (Inr (cho_OperationalIntentReference resp) :: scd_err + _)"
  by (rule put_op_row [OF run]) blast

theorem put_op_writes_one_row_witness:
  "\<exists>row. tbl_get (db_ops ex_db2) = (tbl_get (db_ops ex_db1))(''op2'' \<mapsto> row) \<and> opr_version row = 1 \<and>
     opr_owner row = ''uss2''"
proof -
  obtain resp db' where run: "PutOperationalIntentReference ex_ext (ex_call ''uss2'' ''s2'' 15) ''op2'' ''''
      (Some (ex_op_params [ex_ovn1] '''')) ex_db1 = (Inr resp, db')" and "db' = ex_db2"
    using ex_granted
    by (cases "PutOperationalIntentReference ex_ext (ex_call ''uss2'' ''s2'' 15) ''op2'' ''''
      (Some (ex_op_params [ex_ovn1] '''')) ex_db1"; cases "fst ex_granted")
      (auto simp: ex_granted_def CreateOperationalIntentReference_def respond_def map_sum_def split: sum.splits)
  have id: "x_uuid_parse ex_ext ''op2'' = Some ''op2''" by (simp add: ex_ext_def)
  from put_op_writes_one_row [OF run] id show ?thesis
    by (auto simp: \<open>db' = ex_db2\<close> ex_call_def ex_db1 tbl_get_def)
qed

text \<open>
  C8. Deleting an operational intent removes its row and no other. Its subscription is removed
  with it exactly when it is implicit and had no other dependent; every other subscription
  stays, with at most its notification index incremented.
\<close>

theorem delete_op_effect:
  assumes ok: "scd_reachable x db" "uuid_idem x" "s2_sound x area"
    and run: "DeleteOperationalIntentReference x c i db = (Inr resp, db')"
  shows "\<exists>j uid r s. x_uuid_parse x i = Some j \<and> x_pg_uuid x j = Some uid \<and>
    tbl_get (db_ops db) uid = Some r \<and> c_manager c = Some (opr_owner r) \<and>
    tbl_get (db_ops db') = (tbl_get (db_ops db))(uid := None) \<and>
    tbl_get (db_subs db) (opr_subscription_id r) = Some s \<and>
    (tbl_get (db_subs db') (opr_subscription_id r) = None \<longleftrightarrow>
       sbr_implicit s \<and> (\<forall>k r'. tbl_get (db_ops db) k = Some r' \<and>
         opr_subscription_id r' = opr_subscription_id r \<longrightarrow> k = uid)) \<and>
    (\<forall>k. k \<noteq> opr_subscription_id r \<longrightarrow> tbl_get (db_subs db') k
       \<in> {tbl_get (db_subs db) k, map_option bump_sub (tbl_get (db_subs db) k)})"
proof -
  from run obtain j m where j: "x_uuid_parse x i = Some j" and m: "c_manager c = Some m" and
    act: "delete_op_action x (j, m) db = Inr (resp, db')"
    by (auto simp: DeleteOperationalIntentReference_def serve_Inr entity_request_def tx_inv)
  show ?thesis
  proof (rule delete_op_tables [OF scd_reachable_ok [OF ok] act])
    fix uid and r :: op_row and sr :: sub_row and rm and subs :: "sub_row table"
    let ?sid = "opr_subscription_id r"
    assume r: "x_pg_uuid x j = Some uid" "tbl_get (db_ops db) uid = Some r" "opr_owner r = m"
        "tbl_get (db_subs db) ?sid = Some sr"
      and rm: "rm \<longleftrightarrow> sbr_implicit sr \<and> (\<forall>k r'. tbl_get (db_ops db) k = Some r' \<and>
         opr_subscription_id r' = ?sid \<longrightarrow> k = uid)"
      and ops: "tbl_get (db_ops db') = (tbl_get (db_ops db))(uid := None)"
      and subs: "tbl_get (db_subs db') = (if rm then (tbl_get subs)(?sid := None) else tbl_get subs)"
        "\<And>k. tbl_get subs k \<in> {tbl_get (db_subs db) k, map_option bump_sub (tbl_get (db_subs db) k)}"
        "tbl_get subs ?sid \<noteq> None"
    have gone: "tbl_get (db_subs db') ?sid = None \<longleftrightarrow> rm"
      and rest: "\<forall>k. k \<noteq> ?sid \<longrightarrow> tbl_get (db_subs db') k
        \<in> {tbl_get (db_subs db) k, map_option bump_sub (tbl_get (db_subs db) k)}"
      using subs by simp_all
    show ?thesis
      by (intro exI [of _ j] exI [of _ uid] exI [of _ r] exI [of _ sr] conjI)
        (use j m r ops rest in \<open>simp_all only: gone rm\<close>)
  qed
qed

theorem delete_op_effect_witness:
  "isl (fst (DeleteOperationalIntentReference ex_ext (ex_call ''uss1'' ''s9'' 20) ''op1'' ex_db1)) = False \<and>
   tbl_get (db_subs (snd (DeleteOperationalIntentReference ex_ext (ex_call ''uss1'' ''s9'' 20) ''op1'' ex_db1))) ''s1'' = None"
proof -
  have "isl (fst (DeleteOperationalIntentReference ex_ext (ex_call ''uss1'' ''s9'' 20) ''op1'' ex_db1)) = False"
    unfolding ex_db1 ex_op_row_def ex_sub_row_def by code_simp
  then obtain resp db' where run:
    "DeleteOperationalIntentReference ex_ext (ex_call ''uss1'' ''s9'' 20) ''op1'' ex_db1 = (Inr resp, db')"
    by (cases "DeleteOperationalIntentReference ex_ext (ex_call ''uss1'' ''s9'' 20) ''op1'' ex_db1";
        cases "fst (DeleteOperationalIntentReference ex_ext (ex_call ''uss1'' ''s9'' 20) ''op1'' ex_db1)") auto
  have id: "x_uuid_parse ex_ext ''op1'' = Some ''op1''" by (simp add: ex_ext_def)
  from delete_op_effect [OF ex_reachable1 ex_uuid_idem ex_s2_sound run] id run show ?thesis
    by (auto simp: ex_db1 tbl_get_def ex_op_row_def ex_sub_row_def split: if_splits)
qed

end
