(* ===== verification/Vrp_Models.thy ===== *)
theory Vrp_Models
  imports Scd_Models
begin

text \<open>
  Package \<^verbatim>\<open>pkg/vrp/models\<close>: operational intents, subscriptions and constraints for a
  zone of a vertiport, vertiports, their conversion to API messages, and their validation. The
  functions this package has in common with \<^verbatim>\<open>pkg/scd/models\<close> (opaque version numbers,
  base URLs, states of an operational intent, the adjustment of a time range) are those of
  \<open>Dss_Models\<close> and \<open>Scd_Models\<close>.
\<close>

section \<open>Operational intents\<close>

record v_operational_intent =
  vo_ID :: string
  vo_Manager :: string
  vo_Version :: "32 word"
  vo_State :: string
  vo_OVN :: string
  vo_StartTime :: "time option"
  vo_EndTime :: "time option"
  vo_USSBaseURL :: string
  vo_SubscriptionID :: string
  vo_VertiportID :: string
  vo_VertiportZone :: "32 word"

text \<open>The references of the vertiport API have the fields of those of the other API.\<close>

definition VertiportOperationalIntent_ToProto ::
    "ext \<Rightarrow> v_operational_intent \<Rightarrow> 'd err + pb_operational_intent" where
  "VertiportOperationalIntent_ToProto x oi =
     sbind (time_to_proto x (vo_StartTime oi)) (\<lambda>st.
     sbind (time_to_proto x (vo_EndTime oi)) (\<lambda>et.
     Inr \<lparr>poi_Id = vo_ID oi, poi_Ovn = vo_OVN oi, poi_Manager = vo_Manager oi,
          poi_Version = vo_Version oi, poi_UssBaseUrl = vo_USSBaseURL oi,
          poi_SubscriptionId = vo_SubscriptionID oi, poi_State = vo_State oi,
          poi_UssAvailability = ''Unknown'', poi_TimeStart = st, poi_TimeEnd = et\<rparr>))"

definition VertiportOperationalIntent_ValidateTimeRange ::
    "v_operational_intent \<Rightarrow> 'd err + unit" where
  "VertiportOperationalIntent_ValidateTimeRange oi =
     (case vo_StartTime oi of None \<Rightarrow> Inl (coded BadRequest)
      | Some st \<Rightarrow>
          (case vo_EndTime oi of None \<Rightarrow> Inl (coded BadRequest)
           | Some et \<Rightarrow> if time_sub et st < 0 then Inl (coded BadRequest) else Inr ()))"

section \<open>Subscriptions\<close>

record v_subscription =
  vs_ID :: string
  vs_Version :: string
  vs_NotificationIndex :: int
  vs_Manager :: string
  vs_StartTime :: "time option"
  vs_EndTime :: "time option"
  vs_USSBaseURL :: string
  vs_NotifyForOperationalIntents :: bool
  vs_NotifyForConstraints :: bool
  vs_ImplicitSubscription :: bool
  vs_VertiportID :: string
  vs_VertiportZone :: "32 word"

definition VertiportSubscription_ToProto ::
    "ext \<Rightarrow> v_subscription \<Rightarrow> string list \<Rightarrow> 'd err + pb_subscription" where
  "VertiportSubscription_ToProto x s deps =
     sbind (time_to_proto x (vs_StartTime s)) (\<lambda>st.
     sbind (time_to_proto x (vs_EndTime s)) (\<lambda>et.
     Inr \<lparr>psub_Id = vs_ID s, psub_Version = vs_Version s,
          psub_NotificationIndex = word_of_int (vs_NotificationIndex s),
          psub_UssBaseUrl = vs_USSBaseURL s,
          psub_NotifyForOperationalIntents = vs_NotifyForOperationalIntents s,
          psub_NotifyForConstraints = vs_NotifyForConstraints s,
          psub_ImplicitSubscription = vs_ImplicitSubscription s,
          psub_TimeStart = st, psub_TimeEnd = et,
          psub_DependentOperationalIntents = deps\<rparr>))"

definition VertiportSubscription_AdjustTimeRange ::
    "time \<Rightarrow> v_subscription \<Rightarrow> v_subscription option \<Rightarrow> 'd err + v_subscription" where
  "VertiportSubscription_AdjustTimeRange now s old =
     sbind (adjust_times now (vs_StartTime s) (vs_EndTime s)
              (map_option (\<lambda>q. (vs_StartTime q, vs_EndTime q)) old)) (\<lambda>(st, et).
     Inr (s\<lparr>vs_StartTime := st, vs_EndTime := et\<rparr>))"

text \<open>The times are dereferenced without a check.\<close>

definition v_ValidateDependentOp :: "v_subscription \<Rightarrow> v_operational_intent \<Rightarrow> 'd err + unit" where
  "v_ValidateDependentOp s oi =
     sbind (scheck (vs_VertiportID s = vo_VertiportID oi) (NewError None)) (\<lambda>_.
     sbind (scheck (vs_VertiportZone s = vo_VertiportZone oi) (NewError None)) (\<lambda>_.
     sbind (sderef (vs_StartTime s)) (\<lambda>sst.
     sbind (sderef (vo_StartTime oi)) (\<lambda>ost.
     sbind (scheck (\<not> time_sub sst ost > minutes 5) (NewError None)) (\<lambda>_.
     sbind (sderef (vo_EndTime oi)) (\<lambda>oet.
     sbind (sderef (vs_EndTime s)) (\<lambda>sen.
     scheck (\<not> oet > sen) (NewError None))))))))"

fun v_ValidateDependentOps ::
    "v_subscription \<Rightarrow> v_operational_intent option list \<Rightarrow> 'd err + unit" where
  "v_ValidateDependentOps s [] = Inr ()"
| "v_ValidateDependentOps s (p # ps) =
     sbind (sderef p) (\<lambda>oi.
     sbind (swrap (PropagateWithCode BadRequest) (v_ValidateDependentOp s oi)) (\<lambda>_.
     v_ValidateDependentOps s ps))"

section \<open>Constraints\<close>

record v_constraint =
  vc_ID :: string
  vc_Manager :: string
  vc_UssAvailability :: string
  vc_Version :: "32 word"
  vc_OVN :: string
  vc_StartTime :: "time option"
  vc_EndTime :: "time option"
  vc_USSBaseURL :: string
  vc_VertiportID :: string
  vc_VertiportZone :: "32 word"

definition VertiportConstraint_ToProto :: "ext \<Rightarrow> v_constraint \<Rightarrow> 'd err + pb_constraint" where
  "VertiportConstraint_ToProto x c =
     sbind (time_to_proto x (vc_StartTime c)) (\<lambda>st.
     sbind (time_to_proto x (vc_EndTime c)) (\<lambda>et.
     Inr \<lparr>pcon_Id = vc_ID c, pcon_Ovn = vc_OVN c, pcon_Manager = vc_Manager c,
          pcon_Version = vc_Version c, pcon_UssBaseUrl = vc_USSBaseURL c,
          pcon_UssAvailability = ''Unknown'', pcon_TimeStart = st, pcon_TimeEnd = et\<rparr>))"

section \<open>Vertiports\<close>

record vertiport =
  vp_ID :: string
  vp_NumberOfParkingPlaces :: "32 word"

section \<open>The detail of a conflict response\<close>

type_synonym vrp_err = "airspace_conflict err"

definition v_MissingOVNsErrorResponse ::
    "ext \<Rightarrow> v_operational_intent list \<Rightarrow> v_constraint list \<Rightarrow> 'd err + airspace_conflict" where
  "v_MissingOVNsErrorResponse x ops cons =
     sbind (swrap Propagate (smap (VertiportOperationalIntent_ToProto x) ops)) (\<lambda>pops.
     sbind (swrap Propagate (smap (VertiportConstraint_ToProto x) cons)) (\<lambda>pcons.
     Inr \<lparr>ac_MissingOperationalIntents = pops, ac_MissingConstraints = pcons\<rparr>))"

section \<open>Lemmas\<close>

lemma v_ValidateDependentOp_Inr:
  assumes "v_ValidateDependentOp s oi = Inr u"
  obtains sst ost oet sen where
    "vs_VertiportID s = vo_VertiportID oi" "vs_VertiportZone s = vo_VertiportZone oi"
    "vs_StartTime s = Some sst" "vo_StartTime oi = Some ost"
    "vo_EndTime oi = Some oet" "vs_EndTime s = Some sen"
    "sst - ost \<le> 5 * 60 * 10 ^ 6" "oet \<le> sen"
  using assms that time_sub_minutes [of 5]
  by (auto simp: v_ValidateDependentOp_def tx_inv)

lemma v_ValidateDependentOps_Inr:
  "v_ValidateDependentOps s ps = Inr u \<Longrightarrow> p \<in> set ps \<Longrightarrow>
     \<exists>oi. p = Some oi \<and> v_ValidateDependentOp s oi = (Inr () :: unit err + unit)"
proof (induction ps)
  case (Cons q qs)
  have "v_ValidateDependentOp s oi = (Inr v :: 'a err + unit) \<Longrightarrow>
      v_ValidateDependentOp s oi = (Inr () :: unit err + unit)" for oi v
    by (auto simp: v_ValidateDependentOp_def tx_inv)
  with Cons show ?case by (auto simp: tx_inv)
qed simp

end
