(* ===== verification/Vrp_Store.thy ===== *)
theory Vrp_Store
  imports Vrp_Models Dss_Refs
begin

text \<open>
  Packages \<^verbatim>\<open>pkg/vrp/repos\<close> and \<^verbatim>\<open>pkg/vrp/store/cockroach\<close>: the tables of the vertiport
  database and the statements the repository runs on them, with the checks of the schema in
  \<^verbatim>\<open>build/deploy/db_schemas/vrp\<close>.
\<close>

section \<open>The database\<close>

record vop_row =
  vor_owner :: string
  vor_version :: "32 word"
  vor_url :: string
  vor_vertiport_id :: string
  vor_vertiport_zone :: "32 word"
  vor_starts_at :: "time option"
  vor_ends_at :: "time option"
  vor_subscription_id :: string
  vor_updated_at :: time
  vor_state :: string

record vsub_row =
  vsr_owner :: string
  vsr_version :: int
  vsr_url :: string
  vsr_notification_index :: int
  vsr_notify_for_operations :: bool
  vsr_notify_for_constraints :: bool
  vsr_implicit :: bool
  vsr_starts_at :: "time option"
  vsr_ends_at :: "time option"
  vsr_vertiport_id :: string
  vsr_vertiport_zone :: "32 word"
  vsr_updated_at :: time

record vcon_row =
  vcr_owner :: string
  vcr_version :: "32 word"
  vcr_url :: string
  vcr_vertiport_id :: string
  vcr_vertiport_zone :: "32 word"
  vcr_starts_at :: "time option"
  vcr_ends_at :: "time option"
  vcr_updated_at :: time

record vrp_db =
  vdb_ops :: "vop_row table"
  vdb_subs :: "vsub_row table"
  vdb_cons :: "vcon_row table"
  vdb_ports :: "32 word table"

type_synonym 'a vrp_tx = "(airspace_conflict, vrp_db, 'a) tx"

text \<open>What every search asks of a row: its vertiport and zone, and an overlap in time.\<close>

definition reserved ::
    "vertiport_reservation \<Rightarrow> string \<Rightarrow> 32 word \<Rightarrow> time option \<Rightarrow> time option \<Rightarrow> bool" where
  "reserved v i zone starts_at ends_at \<longleftrightarrow>
     i = VertiportID v \<and> zone = VertiportZone v \<and>
     le_or_null (vr_StartTime v) ends_at \<and> le_or_null starts_at (vr_EndTime v)"

section \<open>Operational intents\<close>

definition fetch_vop :: "ext \<Rightarrow> string \<times> vop_row \<Rightarrow> v_operational_intent" where
  "fetch_vop x kr = (case kr of (k, r) \<Rightarrow>
     \<lparr>vo_ID = k, vo_Manager = vor_owner r, vo_Version = vor_version r, vo_State = vor_state r,
      vo_OVN = NewOVNFromTime x (vor_updated_at r) k,
      vo_StartTime = vor_starts_at r, vo_EndTime = vor_ends_at r, vo_USSBaseURL = vor_url r,
      vo_SubscriptionID = vor_subscription_id r, vo_VertiportID = vor_vertiport_id r,
      vo_VertiportZone = vor_vertiport_zone r\<rparr>)"

definition vrp_GetOperationalIntent :: "ext \<Rightarrow> string \<Rightarrow> v_operational_intent option vrp_tx" where
  "vrp_GetOperationalIntent x i =
     bnd (wrap Propagate (of_sum (PgUUID x i))) (\<lambda>uid.
     gets (\<lambda>db. map_option (\<lambda>r. fetch_vop x (uid, r)) (tbl_get (vdb_ops db) uid)))"

definition vrp_DeleteOperationalIntent :: "ext \<Rightarrow> string \<Rightarrow> unit vrp_tx" where
  "vrp_DeleteOperationalIntent x i =
     bnd (wrap Propagate (of_sum (PgUUID x i))) (\<lambda>uid.
     bnd (gets (\<lambda>db. tbl_get (vdb_ops db) uid)) (\<lambda>r.
     seq (check (r \<noteq> None) (NewError None))
         (modify (\<lambda>db. db\<lparr>vdb_ops := tbl_delete uid (vdb_ops db)\<rparr>))))"

definition vop_row_of :: "time \<Rightarrow> string \<Rightarrow> v_operational_intent \<Rightarrow> vop_row" where
  "vop_row_of ts subid oi =
     \<lparr>vor_owner = vo_Manager oi, vor_version = vo_Version oi, vor_url = vo_USSBaseURL oi,
      vor_vertiport_id = vo_VertiportID oi, vor_vertiport_zone = vo_VertiportZone oi,
      vor_starts_at = vo_StartTime oi, vor_ends_at = vo_EndTime oi,
      vor_subscription_id = subid, vor_updated_at = ts, vor_state = vo_State oi\<rparr>"

definition vrp_UpsertOperationalIntent ::
    "ext \<Rightarrow> time \<Rightarrow> v_operational_intent \<Rightarrow> v_operational_intent vrp_tx" where
  "vrp_UpsertOperationalIntent x ts oi =
     bnd (wrap Propagate (of_sum (PgUUID x (vo_ID oi)))) (\<lambda>opid.
     bnd (wrap Propagate (of_sum (PgUUID x (vo_SubscriptionID oi)))) (\<lambda>subid.
     seq (check (times_check (vo_StartTime oi) (vo_EndTime oi)) (Propagate check_violation))
     (bnd (gets (\<lambda>db. tbl_get (vdb_subs db) subid)) (\<lambda>s.
     seq (check (s \<noteq> None) (Propagate (Propagate (DbErr ''violates foreign key constraint''))))
     (seq (modify (\<lambda>db. db\<lparr>vdb_ops := tbl_upsert opid (vop_row_of ts subid oi) (vdb_ops db)\<rparr>))
     (ret (fetch_vop x (opid, vop_row_of ts subid oi))))))))"

definition vop_matches :: "vertiport_reservation \<Rightarrow> vop_row \<Rightarrow> bool" where
  "vop_matches v r \<longleftrightarrow>
     reserved v (vor_vertiport_id r) (vor_vertiport_zone r) (vor_starts_at r) (vor_ends_at r)"

definition vrp_SearchOperationalIntents ::
    "ext \<Rightarrow> vertiport_reservation \<Rightarrow> v_operational_intent list vrp_tx" where
  "vrp_SearchOperationalIntents x v =
     gets (\<lambda>db. map (fetch_vop x) (limit_rows (tbl_select (vop_matches v) (vdb_ops db))))"

definition vrp_GetDependentOperationalIntents :: "ext \<Rightarrow> string \<Rightarrow> string list vrp_tx" where
  "vrp_GetDependentOperationalIntents x i =
     bnd (wrap Propagate (of_sum (PgUUID x i))) (\<lambda>subid.
     gets (\<lambda>db. map fst (tbl_select (\<lambda>r. vor_subscription_id r = subid) (vdb_ops db))))"

section \<open>Subscriptions\<close>

definition fetch_vsub :: "ext \<Rightarrow> string \<times> vsub_row \<Rightarrow> v_subscription" where
  "fetch_vsub x kr = (case kr of (k, r) \<Rightarrow>
     \<lparr>vs_ID = k, vs_Version = NewOVNFromTime x (vsr_updated_at r) k,
      vs_NotificationIndex = vsr_notification_index r, vs_Manager = vsr_owner r,
      vs_StartTime = vsr_starts_at r, vs_EndTime = vsr_ends_at r, vs_USSBaseURL = vsr_url r,
      vs_NotifyForOperationalIntents = vsr_notify_for_operations r,
      vs_NotifyForConstraints = vsr_notify_for_constraints r,
      vs_ImplicitSubscription = vsr_implicit r,
      vs_VertiportID = vsr_vertiport_id r, vs_VertiportZone = vsr_vertiport_zone r\<rparr>)"

definition vrp_GetSubscription :: "ext \<Rightarrow> string \<Rightarrow> v_subscription option vrp_tx" where
  "vrp_GetSubscription x i =
     bnd (wrap Propagate (of_sum (PgUUID x i))) (\<lambda>uid.
     gets (\<lambda>db. map_option (\<lambda>r. fetch_vsub x (uid, r)) (tbl_get (vdb_subs db) uid)))"

definition vsub_row_of :: "time \<Rightarrow> v_subscription \<Rightarrow> vsub_row" where
  "vsub_row_of ts s =
     \<lparr>vsr_owner = vs_Manager s, vsr_version = 0, vsr_url = vs_USSBaseURL s,
      vsr_notification_index = vs_NotificationIndex s,
      vsr_notify_for_operations = vs_NotifyForOperationalIntents s,
      vsr_notify_for_constraints = vs_NotifyForConstraints s,
      vsr_implicit = vs_ImplicitSubscription s,
      vsr_starts_at = vs_StartTime s, vsr_ends_at = vs_EndTime s,
      vsr_vertiport_id = vs_VertiportID s, vsr_vertiport_zone = vs_VertiportZone s,
      vsr_updated_at = ts\<rparr>"

definition vrp_UpsertSubscription :: "ext \<Rightarrow> time \<Rightarrow> v_subscription \<Rightarrow> v_subscription vrp_tx" where
  "vrp_UpsertSubscription x ts s =
     bnd (wrap Propagate (of_sum (PgUUID x (vs_ID s)))) (\<lambda>uid.
     seq (check (times_check (vs_StartTime s) (vs_EndTime s) \<and>
                 (vs_NotifyForOperationalIntents s \<or> vs_NotifyForConstraints s))
           (Propagate check_violation))
     (seq (modify (\<lambda>db. db\<lparr>vdb_subs := tbl_upsert uid (vsub_row_of ts s) (vdb_subs db)\<rparr>))
     (ret (fetch_vsub x (uid, vsub_row_of ts s)))))"

text \<open>Operational intents that refer to the subscription are deleted with it.\<close>

definition vrp_DeleteSubscription :: "ext \<Rightarrow> string \<Rightarrow> unit vrp_tx" where
  "vrp_DeleteSubscription x i =
     bnd (wrap Propagate (of_sum (PgUUID x i))) (\<lambda>uid.
     bnd (gets (\<lambda>db. tbl_get (vdb_subs db) uid)) (\<lambda>r.
     seq (check (r \<noteq> None) (NewError None))
         (modify (\<lambda>db. db\<lparr>vdb_subs := tbl_delete uid (vdb_subs db),
            vdb_ops := tbl_delete_where (\<lambda>o'. vor_subscription_id o' = uid) (vdb_ops db)\<rparr>))))"

definition vsub_matches :: "vertiport_reservation \<Rightarrow> vsub_row \<Rightarrow> bool" where
  "vsub_matches v r \<longleftrightarrow>
     reserved v (vsr_vertiport_id r) (vsr_vertiport_zone r) (vsr_starts_at r) (vsr_ends_at r)"

definition vrp_SearchSubscriptions ::
    "ext \<Rightarrow> vertiport_reservation \<Rightarrow> v_subscription list vrp_tx" where
  "vrp_SearchSubscriptions x v =
     gets (\<lambda>db. map (fetch_vsub x) (limit_rows (tbl_select (vsub_matches v) (vdb_subs db))))"

definition bump_vsub :: "vsub_row \<Rightarrow> vsub_row" where
  "bump_vsub r = r\<lparr>vsr_notification_index := vsr_notification_index r + 1\<rparr>"

definition vrp_IncrementNotificationIndices :: "ext \<Rightarrow> string list \<Rightarrow> int list vrp_tx" where
  "vrp_IncrementNotificationIndices x ids =
     on_part vdb_subs (\<lambda>t db. db\<lparr>vdb_subs := t\<rparr>)
       (tbl_increment x vsr_notification_index bump_vsub ids)"

definition vrp_subs_IncrementNotificationIndices ::
    "ext \<Rightarrow> v_subscription list \<Rightarrow> v_subscription list vrp_tx" where
  "vrp_subs_IncrementNotificationIndices x ss =
     bnd (vrp_IncrementNotificationIndices x (map vs_ID ss)) (\<lambda>newIndices.
     ret (map2 (\<lambda>s n. s\<lparr>vs_NotificationIndex := n\<rparr>) ss newIndices))"

section \<open>Constraints\<close>

definition fetch_vcon :: "ext \<Rightarrow> string \<times> vcon_row \<Rightarrow> v_constraint" where
  "fetch_vcon x kr = (case kr of (k, r) \<Rightarrow>
     \<lparr>vc_ID = k, vc_Manager = vcr_owner r, vc_UssAvailability = '''',
      vc_Version = vcr_version r, vc_OVN = NewOVNFromTime x (vcr_updated_at r) k,
      vc_StartTime = vcr_starts_at r, vc_EndTime = vcr_ends_at r, vc_USSBaseURL = vcr_url r,
      vc_VertiportID = vcr_vertiport_id r, vc_VertiportZone = vcr_vertiport_zone r\<rparr>)"

definition vrp_GetConstraint :: "ext \<Rightarrow> string \<Rightarrow> v_constraint vrp_tx" where
  "vrp_GetConstraint x i =
     bnd (wrap Propagate (of_sum (PgUUID x i))) (\<lambda>uid.
     bnd (gets (\<lambda>db. tbl_get (vdb_cons db) uid)) (\<lambda>r.
     case r of None \<Rightarrow> fail ErrNoRows | Some r' \<Rightarrow> ret (fetch_vcon x (uid, r'))))"

definition vcon_row_of :: "time \<Rightarrow> v_constraint \<Rightarrow> vcon_row" where
  "vcon_row_of ts c =
     \<lparr>vcr_owner = vc_Manager c, vcr_version = vc_Version c, vcr_url = vc_USSBaseURL c,
      vcr_vertiport_id = vc_VertiportID c, vcr_vertiport_zone = vc_VertiportZone c,
      vcr_starts_at = vc_StartTime c, vcr_ends_at = vc_EndTime c, vcr_updated_at = ts\<rparr>"

definition vrp_UpsertConstraint :: "ext \<Rightarrow> time \<Rightarrow> v_constraint \<Rightarrow> v_constraint vrp_tx" where
  "vrp_UpsertConstraint x ts c =
     bnd (wrap Propagate (of_sum (PgUUID x (vc_ID c)))) (\<lambda>uid.
     seq (check (times_check (vc_StartTime c) (vc_EndTime c)) (Propagate check_violation))
     (seq (modify (\<lambda>db. db\<lparr>vdb_cons := tbl_upsert uid (vcon_row_of ts c) (vdb_cons db)\<rparr>))
     (ret (fetch_vcon x (uid, vcon_row_of ts c)))))"

definition vrp_DeleteConstraint :: "ext \<Rightarrow> string \<Rightarrow> unit vrp_tx" where
  "vrp_DeleteConstraint x i =
     bnd (wrap Propagate (of_sum (PgUUID x i))) (\<lambda>uid.
     bnd (gets (\<lambda>db. tbl_get (vdb_cons db) uid)) (\<lambda>r.
     seq (check (r \<noteq> None) ErrNoRows)
         (modify (\<lambda>db. db\<lparr>vdb_cons := tbl_delete uid (vdb_cons db)\<rparr>))))"

definition vcon_matches :: "vertiport_reservation \<Rightarrow> vcon_row \<Rightarrow> bool" where
  "vcon_matches v r \<longleftrightarrow>
     reserved v (vcr_vertiport_id r) (vcr_vertiport_zone r) (vcr_starts_at r) (vcr_ends_at r)"

definition vrp_SearchConstraints :: "ext \<Rightarrow> vertiport_reservation \<Rightarrow> v_constraint list vrp_tx" where
  "vrp_SearchConstraints x v =
     gets (\<lambda>db. map (fetch_vcon x) (limit_rows (tbl_select (vcon_matches v) (vdb_cons db))))"

section \<open>Vertiports\<close>

definition vrp_GetVertiport :: "ext \<Rightarrow> string \<Rightarrow> vertiport option vrp_tx" where
  "vrp_GetVertiport x i =
     bnd (wrap Propagate (of_sum (PgUUID x i))) (\<lambda>uid.
     gets (\<lambda>db. map_option (\<lambda>n. \<lparr>vp_ID = uid, vp_NumberOfParkingPlaces = n\<rparr>)
                  (tbl_get (vdb_ports db) uid)))"

definition vrp_DeleteVertiport :: "ext \<Rightarrow> string \<Rightarrow> unit vrp_tx" where
  "vrp_DeleteVertiport x i =
     bnd (wrap Propagate (of_sum (PgUUID x i))) (\<lambda>uid.
     bnd (gets (\<lambda>db. tbl_get (vdb_ports db) uid)) (\<lambda>r.
     seq (check (r \<noteq> None) (NewError None))
         (modify (\<lambda>db. db\<lparr>vdb_ports := tbl_delete uid (vdb_ports db)\<rparr>))))"

definition vrp_UpsertVertiport :: "ext \<Rightarrow> vertiport \<Rightarrow> vertiport vrp_tx" where
  "vrp_UpsertVertiport x v =
     bnd (wrap Propagate (of_sum (PgUUID x (vp_ID v)))) (\<lambda>uid.
     seq (modify (\<lambda>db. db\<lparr>vdb_ports := tbl_upsert uid (vp_NumberOfParkingPlaces v) (vdb_ports db)\<rparr>))
     (ret \<lparr>vp_ID = uid, vp_NumberOfParkingPlaces = vp_NumberOfParkingPlaces v\<rparr>))"

section \<open>What the statements do\<close>

lemma fetch_vop_simps [simp]:
  "vo_ID (fetch_vop x (k, r)) = k"
  "vo_Manager (fetch_vop x (k, r)) = vor_owner r"
  "vo_Version (fetch_vop x (k, r)) = vor_version r"
  "vo_State (fetch_vop x (k, r)) = vor_state r"
  "vo_OVN (fetch_vop x (k, r)) = NewOVNFromTime x (vor_updated_at r) k"
  "vo_StartTime (fetch_vop x (k, r)) = vor_starts_at r"
  "vo_EndTime (fetch_vop x (k, r)) = vor_ends_at r"
  "vo_USSBaseURL (fetch_vop x (k, r)) = vor_url r"
  "vo_SubscriptionID (fetch_vop x (k, r)) = vor_subscription_id r"
  "vo_VertiportID (fetch_vop x (k, r)) = vor_vertiport_id r"
  "vo_VertiportZone (fetch_vop x (k, r)) = vor_vertiport_zone r"
  by (simp_all add: fetch_vop_def)

lemma fetch_vsub_simps [simp]:
  "vs_ID (fetch_vsub x (k, r)) = k"
  "vs_Version (fetch_vsub x (k, r)) = NewOVNFromTime x (vsr_updated_at r) k"
  "vs_NotificationIndex (fetch_vsub x (k, r)) = vsr_notification_index r"
  "vs_Manager (fetch_vsub x (k, r)) = vsr_owner r"
  "vs_StartTime (fetch_vsub x (k, r)) = vsr_starts_at r"
  "vs_EndTime (fetch_vsub x (k, r)) = vsr_ends_at r"
  "vs_USSBaseURL (fetch_vsub x (k, r)) = vsr_url r"
  "vs_NotifyForOperationalIntents (fetch_vsub x (k, r)) = vsr_notify_for_operations r"
  "vs_NotifyForConstraints (fetch_vsub x (k, r)) = vsr_notify_for_constraints r"
  "vs_ImplicitSubscription (fetch_vsub x (k, r)) = vsr_implicit r"
  "vs_VertiportID (fetch_vsub x (k, r)) = vsr_vertiport_id r"
  "vs_VertiportZone (fetch_vsub x (k, r)) = vsr_vertiport_zone r"
  by (simp_all add: fetch_vsub_def)

lemma fetch_vcon_simps [simp]:
  "vc_ID (fetch_vcon x (k, r)) = k"
  "vc_Manager (fetch_vcon x (k, r)) = vcr_owner r"
  "vc_UssAvailability (fetch_vcon x (k, r)) = ''''"
  "vc_Version (fetch_vcon x (k, r)) = vcr_version r"
  "vc_OVN (fetch_vcon x (k, r)) = NewOVNFromTime x (vcr_updated_at r) k"
  "vc_StartTime (fetch_vcon x (k, r)) = vcr_starts_at r"
  "vc_EndTime (fetch_vcon x (k, r)) = vcr_ends_at r"
  "vc_USSBaseURL (fetch_vcon x (k, r)) = vcr_url r"
  "vc_VertiportID (fetch_vcon x (k, r)) = vcr_vertiport_id r"
  "vc_VertiportZone (fetch_vcon x (k, r)) = vcr_vertiport_zone r"
  by (simp_all add: fetch_vcon_def)

lemma vop_row_of_simps [simp]:
  "vor_owner (vop_row_of ts subid oi) = vo_Manager oi"
  "vor_version (vop_row_of ts subid oi) = vo_Version oi"
  "vor_url (vop_row_of ts subid oi) = vo_USSBaseURL oi"
  "vor_vertiport_id (vop_row_of ts subid oi) = vo_VertiportID oi"
  "vor_vertiport_zone (vop_row_of ts subid oi) = vo_VertiportZone oi"
  "vor_starts_at (vop_row_of ts subid oi) = vo_StartTime oi"
  "vor_ends_at (vop_row_of ts subid oi) = vo_EndTime oi"
  "vor_subscription_id (vop_row_of ts subid oi) = subid"
  "vor_updated_at (vop_row_of ts subid oi) = ts"
  "vor_state (vop_row_of ts subid oi) = vo_State oi"
  by (simp_all add: vop_row_of_def)

lemma vsub_row_of_simps [simp]:
  "vsr_owner (vsub_row_of ts s) = vs_Manager s"
  "vsr_version (vsub_row_of ts s) = 0"
  "vsr_url (vsub_row_of ts s) = vs_USSBaseURL s"
  "vsr_notification_index (vsub_row_of ts s) = vs_NotificationIndex s"
  "vsr_notify_for_operations (vsub_row_of ts s) = vs_NotifyForOperationalIntents s"
  "vsr_notify_for_constraints (vsub_row_of ts s) = vs_NotifyForConstraints s"
  "vsr_implicit (vsub_row_of ts s) = vs_ImplicitSubscription s"
  "vsr_starts_at (vsub_row_of ts s) = vs_StartTime s"
  "vsr_ends_at (vsub_row_of ts s) = vs_EndTime s"
  "vsr_vertiport_id (vsub_row_of ts s) = vs_VertiportID s"
  "vsr_vertiport_zone (vsub_row_of ts s) = vs_VertiportZone s"
  "vsr_updated_at (vsub_row_of ts s) = ts"
  by (simp_all add: vsub_row_of_def)

lemma vcon_row_of_simps [simp]:
  "vcr_owner (vcon_row_of ts c) = vc_Manager c"
  "vcr_version (vcon_row_of ts c) = vc_Version c"
  "vcr_url (vcon_row_of ts c) = vc_USSBaseURL c"
  "vcr_vertiport_id (vcon_row_of ts c) = vc_VertiportID c"
  "vcr_vertiport_zone (vcon_row_of ts c) = vc_VertiportZone c"
  "vcr_starts_at (vcon_row_of ts c) = vc_StartTime c"
  "vcr_ends_at (vcon_row_of ts c) = vc_EndTime c"
  "vcr_updated_at (vcon_row_of ts c) = ts"
  by (simp_all add: vcon_row_of_def)

lemma pure_vrp_reads [pure_intros]:
  "pure_tx (vrp_GetOperationalIntent x i)"
  "pure_tx (vrp_GetDependentOperationalIntents x i)"
  "pure_tx (vrp_GetSubscription x i)"
  "pure_tx (vrp_GetConstraint x i)"
  "pure_tx (vrp_GetVertiport x i)"
  unfolding vrp_GetOperationalIntent_def vrp_GetDependentOperationalIntents_def
    vrp_GetSubscription_def vrp_GetConstraint_def vrp_GetVertiport_def
  by (auto intro!: pure_intros split: option.splits)

lemma pure_vrp_searches [pure_intros]:
  "pure_tx (vrp_SearchOperationalIntents x v)"
  "pure_tx (vrp_SearchSubscriptions x v)"
  "pure_tx (vrp_SearchConstraints x v)"
  unfolding vrp_SearchOperationalIntents_def vrp_SearchSubscriptions_def vrp_SearchConstraints_def
  by (auto intro!: pure_intros)

lemma vrp_GetOperationalIntent_Inr [tx_inv]:
  "vrp_GetOperationalIntent x i s = Inr (r, s') \<longleftrightarrow>
     (\<exists>uid. x_pg_uuid x i = Some uid \<and> s' = s \<and>
        map_option (\<lambda>r. fetch_vop x (uid, r)) (tbl_get (vdb_ops s) uid) = r)"
  by (auto simp: vrp_GetOperationalIntent_def tx_inv)

lemma vrp_GetSubscription_Inr [tx_inv]:
  "vrp_GetSubscription x i s = Inr (r, s') \<longleftrightarrow>
     (\<exists>uid. x_pg_uuid x i = Some uid \<and> s' = s \<and>
        map_option (\<lambda>r. fetch_vsub x (uid, r)) (tbl_get (vdb_subs s) uid) = r)"
  by (auto simp: vrp_GetSubscription_def tx_inv)

lemma vrp_GetDependentOperationalIntents_Inr [tx_inv]:
  "vrp_GetDependentOperationalIntents x i s = Inr (r, s') \<longleftrightarrow>
     (\<exists>uid. x_pg_uuid x i = Some uid \<and> s' = s \<and>
        r = map fst (tbl_select (\<lambda>r. vor_subscription_id r = uid) (vdb_ops s)))"
  by (auto simp: vrp_GetDependentOperationalIntents_def tx_inv)

lemma vrp_DeleteOperationalIntent_Inr [tx_inv]:
  "vrp_DeleteOperationalIntent x i s = Inr (r, s') \<longleftrightarrow>
     (\<exists>uid. x_pg_uuid x i = Some uid \<and> tbl_get (vdb_ops s) uid \<noteq> None \<and>
        s' = s\<lparr>vdb_ops := tbl_delete uid (vdb_ops s)\<rparr>)"
  by (auto simp: vrp_DeleteOperationalIntent_def tx_inv)

lemma vrp_UpsertOperationalIntent_Inr [tx_inv]:
  "vrp_UpsertOperationalIntent x ts oi s = Inr (r, s') \<longleftrightarrow>
     (\<exists>opid subid. x_pg_uuid x (vo_ID oi) = Some opid \<and>
        x_pg_uuid x (vo_SubscriptionID oi) = Some subid \<and>
        times_check (vo_StartTime oi) (vo_EndTime oi) \<and>
        tbl_get (vdb_subs s) subid \<noteq> None \<and>
        s' = s\<lparr>vdb_ops := tbl_upsert opid (vop_row_of ts subid oi) (vdb_ops s)\<rparr> \<and>
        r = fetch_vop x (opid, vop_row_of ts subid oi))"
  by (auto simp: vrp_UpsertOperationalIntent_def tx_inv)

lemma vrp_UpsertSubscription_Inr [tx_inv]:
  "vrp_UpsertSubscription x ts q s = Inr (r, s') \<longleftrightarrow>
     (\<exists>uid. x_pg_uuid x (vs_ID q) = Some uid \<and>
        times_check (vs_StartTime q) (vs_EndTime q) \<and>
        (vs_NotifyForOperationalIntents q \<or> vs_NotifyForConstraints q) \<and>
        s' = s\<lparr>vdb_subs := tbl_upsert uid (vsub_row_of ts q) (vdb_subs s)\<rparr> \<and>
        r = fetch_vsub x (uid, vsub_row_of ts q))"
  by (auto simp: vrp_UpsertSubscription_def tx_inv)

lemma vrp_DeleteSubscription_Inr [tx_inv]:
  "vrp_DeleteSubscription x i s = Inr (r, s') \<longleftrightarrow>
     (\<exists>uid. x_pg_uuid x i = Some uid \<and> tbl_get (vdb_subs s) uid \<noteq> None \<and>
        s' = s\<lparr>vdb_subs := tbl_delete uid (vdb_subs s),
               vdb_ops := tbl_delete_where (\<lambda>o'. vor_subscription_id o' = uid) (vdb_ops s)\<rparr>)"
  by (auto simp: vrp_DeleteSubscription_def tx_inv)

lemma vrp_GetConstraint_Inr [tx_inv]:
  "vrp_GetConstraint x i s = Inr (r, s') \<longleftrightarrow>
     (\<exists>uid q. x_pg_uuid x i = Some uid \<and> tbl_get (vdb_cons s) uid = Some q \<and> s' = s \<and>
        r = fetch_vcon x (uid, q))"
  by (auto simp: vrp_GetConstraint_def tx_inv split: option.splits)

lemma vrp_UpsertConstraint_Inr [tx_inv]:
  "vrp_UpsertConstraint x ts c s = Inr (r, s') \<longleftrightarrow>
     (\<exists>uid. x_pg_uuid x (vc_ID c) = Some uid \<and> times_check (vc_StartTime c) (vc_EndTime c) \<and>
        s' = s\<lparr>vdb_cons := tbl_upsert uid (vcon_row_of ts c) (vdb_cons s)\<rparr> \<and>
        r = fetch_vcon x (uid, vcon_row_of ts c))"
  by (auto simp: vrp_UpsertConstraint_def tx_inv)

lemma vrp_DeleteConstraint_Inr [tx_inv]:
  "vrp_DeleteConstraint x i s = Inr (r, s') \<longleftrightarrow>
     (\<exists>uid. x_pg_uuid x i = Some uid \<and> tbl_get (vdb_cons s) uid \<noteq> None \<and>
        s' = s\<lparr>vdb_cons := tbl_delete uid (vdb_cons s)\<rparr>)"
  by (auto simp: vrp_DeleteConstraint_def tx_inv)

lemma vrp_searches_Inr [tx_inv]:
  "vrp_SearchOperationalIntents x v s = Inr (ops, s') \<longleftrightarrow> s' = s \<and>
     ops = map (fetch_vop x) (limit_rows (tbl_select (vop_matches v) (vdb_ops s)))"
  "vrp_SearchSubscriptions x v s = Inr (subs, s') \<longleftrightarrow> s' = s \<and>
     subs = map (fetch_vsub x) (limit_rows (tbl_select (vsub_matches v) (vdb_subs s)))"
  "vrp_SearchConstraints x v s = Inr (cons, s') \<longleftrightarrow> s' = s \<and>
     cons = map (fetch_vcon x) (limit_rows (tbl_select (vcon_matches v) (vdb_cons s)))"
  by (auto simp: vrp_SearchOperationalIntents_def vrp_SearchSubscriptions_def
      vrp_SearchConstraints_def gets_Inr)

lemma vrp_GetVertiport_Inr [tx_inv]:
  "vrp_GetVertiport x i s = Inr (r, s') \<longleftrightarrow>
     (\<exists>uid. x_pg_uuid x i = Some uid \<and> s' = s \<and>
        r = map_option (\<lambda>n. \<lparr>vp_ID = uid, vp_NumberOfParkingPlaces = n\<rparr>) (tbl_get (vdb_ports s) uid))"
  by (auto simp: vrp_GetVertiport_def tx_inv)

lemma vrp_DeleteVertiport_Inr [tx_inv]:
  "vrp_DeleteVertiport x i s = Inr (r, s') \<longleftrightarrow>
     (\<exists>uid. x_pg_uuid x i = Some uid \<and> tbl_get (vdb_ports s) uid \<noteq> None \<and>
        s' = s\<lparr>vdb_ports := tbl_delete uid (vdb_ports s)\<rparr>)"
  by (auto simp: vrp_DeleteVertiport_def tx_inv)

lemma vrp_UpsertVertiport_Inr [tx_inv]:
  "vrp_UpsertVertiport x v s = Inr (r, s') \<longleftrightarrow>
     (\<exists>uid. x_pg_uuid x (vp_ID v) = Some uid \<and>
        s' = s\<lparr>vdb_ports := tbl_upsert uid (vp_NumberOfParkingPlaces v) (vdb_ports s)\<rparr> \<and>
        r = \<lparr>vp_ID = uid, vp_NumberOfParkingPlaces = vp_NumberOfParkingPlaces v\<rparr>)"
  by (auto simp: vrp_UpsertVertiport_def tx_inv)

definition vsub_room :: "vsub_row \<Rightarrow> bool" where
  "vsub_room r \<longleftrightarrow> vsr_notification_index r + 1 < 2 ^ 31"

lemma vrp_subs_IncrementNotificationIndices_Inr:
  assumes "vrp_subs_IncrementNotificationIndices x ss s = Inr (r, s')"
  obtains uids where "pg_uuids x (map vs_ID ss) uids"
    "\<And>k q. k \<in> set uids \<Longrightarrow> tbl_get (vdb_subs s) k = Some q \<Longrightarrow> vsub_room q"
    "s' = s\<lparr>vdb_subs := tbl_update_any uids bump_vsub (vdb_subs s)\<rparr>"
proof -
  from assms obtain ns t where t: "tbl_increment x vsr_notification_index bump_vsub (map vs_ID ss)
      (vdb_subs s) = (Inr (ns, t) :: airspace_conflict err + _)" and s': "s' = s\<lparr>vdb_subs := t\<rparr>"
    by (auto simp: vrp_subs_IncrementNotificationIndices_def vrp_IncrementNotificationIndices_def tx_inv)
  show thesis
    using t by (rule tbl_increment_Inr) (auto simp: s' vsub_room_def intro!: that)
qed

end
