(* ===== verification/Vrp_OpIntents.thy ===== *)
theory Vrp_OpIntents
  imports Vrp_Store Dss_Server
begin

text \<open>
  \<^verbatim>\<open>pkg/vrp/operational_intents_handler.go\<close> and \<^verbatim>\<open>makeSubscribersToNotify\<close> of
  \<^verbatim>\<open>pkg/vrp/server.go\<close>: the handlers of operational intents for a zone of a vertiport.
\<close>

section \<open>Messages\<close>

record v_implicit_params =
  vip_UssBaseUrl :: string
  vip_NotifyForConstraints :: bool

record put_vop_params =
  vpp_VertiportReservation :: "pb_vertiport_reservation option"
  vpp_Key :: "string list"
  vpp_State :: string
  vpp_UssBaseUrl :: string
  vpp_SubscriptionId :: string
  vpp_NewSubscription :: "v_implicit_params option"

record change_vop_response =
  cvo_OperationalIntentReference :: pb_operational_intent
  cvo_Subscribers :: "(string \<times> subscription_state list) list"

definition v_makeSubscribersToNotify ::
    "ext \<Rightarrow> v_subscription list \<Rightarrow> (string \<times> subscription_state list) list" where
  "v_makeSubscribersToNotify x ss =
     group_by_url x
       (map (\<lambda>s. (vs_USSBaseURL s, (vs_ID s, word_of_int (vs_NotificationIndex s)))) ss)"

text \<open>The reservation of a stored operational intent.\<close>

definition vop_reservation :: "v_operational_intent \<Rightarrow> vertiport_reservation" where
  "vop_reservation oi =
     \<lparr>VertiportID = vo_VertiportID oi, VertiportZone = vo_VertiportZone oi,
      vr_StartTime = vo_StartTime oi, vr_EndTime = vo_EndTime oi\<rparr>"

section \<open>Deletion\<close>

definition v_remove_implicit :: "ext \<Rightarrow> v_subscription \<Rightarrow> bool vrp_tx" where
  "v_remove_implicit x sub =
     (if vs_ImplicitSubscription sub then
        bnd (wrap Propagate (vrp_GetDependentOperationalIntents x (vs_ID sub))) (\<lambda>dependentOps.
        if length dependentOps = 0 then fail (NewError None)
        else ret (length dependentOps = 1))
      else ret False)"

definition delete_vop_action :: "ext \<Rightarrow> string \<times> string \<Rightarrow> change_vop_response vrp_tx" where
  "delete_vop_action x = (\<lambda>(i, manager).
     bnd (wrap Propagate (vrp_GetOperationalIntent x i)) (\<lambda>old.
     case old of None \<Rightarrow> fail (coded NotFound) | Some old \<Rightarrow>
     seq (check (vo_Manager old = manager) (coded PermissionDenied))
     (bnd (wrap Propagate (vrp_GetSubscription x (vo_SubscriptionID old))) (\<lambda>sub.
     case sub of None \<Rightarrow> fail (NewError None) | Some sub \<Rightarrow>
     bnd (v_remove_implicit x sub) (\<lambda>removeImplicitSubscription.
     bnd (wrap Propagate (vrp_SearchSubscriptions x (vop_reservation old))) (\<lambda>allsubs.
     bnd (wrap Propagate (vrp_subs_IncrementNotificationIndices x
            (filter vs_NotifyForOperationalIntents allsubs))) (\<lambda>subs.
     seq (wrap Propagate (vrp_DeleteOperationalIntent x i))
     (seq (if removeImplicitSubscription
           then wrap Propagate (vrp_DeleteSubscription x (vs_ID sub)) else ret ())
     (bnd (wrap Propagate (of_sum (VertiportOperationalIntent_ToProto x old))) (\<lambda>opProto.
     ret \<lparr>cvo_OperationalIntentReference = opProto,
          cvo_Subscribers = v_makeSubscribersToNotify x subs\<rparr>))))))))))"

definition DeleteVertiportOperationalIntentReference ::
    "ext \<Rightarrow> call \<Rightarrow> string \<Rightarrow> vrp_db \<Rightarrow> (vrp_err + change_vop_response) \<times> vrp_db" where
  "DeleteVertiportOperationalIntentReference x c entityid =
     serve (entity_request x c entityid) (delete_vop_action x)"

section \<open>Reads\<close>

definition v_mask_op :: "string \<Rightarrow> v_operational_intent \<Rightarrow> v_operational_intent" where
  "v_mask_op manager oi = (if vo_Manager oi \<noteq> manager then oi\<lparr>vo_OVN := NoOvnPhrase\<rparr> else oi)"

definition get_vop_action :: "ext \<Rightarrow> string \<times> string \<Rightarrow> pb_operational_intent vrp_tx" where
  "get_vop_action x = (\<lambda>(i, manager).
     bnd (wrap Propagate (vrp_GetOperationalIntent x i)) (\<lambda>oi.
     case oi of None \<Rightarrow> fail (coded NotFound) | Some oi \<Rightarrow>
     wrap Propagate (of_sum (VertiportOperationalIntent_ToProto x (v_mask_op manager oi)))))"

definition GetVertiportOperationalIntentReference ::
    "ext \<Rightarrow> call \<Rightarrow> string \<Rightarrow> vrp_db \<Rightarrow> (vrp_err + pb_operational_intent) \<times> vrp_db" where
  "GetVertiportOperationalIntentReference x c entityid =
     serve (entity_request x c entityid) (get_vop_action x)"

definition query_vop_proto ::
    "ext \<Rightarrow> string \<Rightarrow> v_operational_intent \<Rightarrow> 'd err + pb_operational_intent" where
  "query_vop_proto x manager oi =
     sbind (swrap Propagate (VertiportOperationalIntent_ToProto x oi)) (\<lambda>p.
     Inr (if vo_Manager oi \<noteq> manager then p\<lparr>poi_Ovn := NoOvnPhrase\<rparr> else p))"

definition query_vops_action ::
    "ext \<Rightarrow> vertiport_reservation \<times> string \<Rightarrow> pb_operational_intent list vrp_tx" where
  "query_vops_action x = (\<lambda>(v, manager).
     bnd (wrap Propagate (vrp_SearchOperationalIntents x v)) (\<lambda>ops.
     of_sum (smap (query_vop_proto x manager) ops)))"

text \<open>
  A reservation of interest. The parameters are read with getters here, so that absent
  parameters give an absent reservation.
\<close>

definition query_vops_request ::
    "ext \<Rightarrow> call \<Rightarrow> pb_vertiport_reservation option option
     \<Rightarrow> 'd err + vertiport_reservation \<times> string" where
  "query_vops_request x c params =
     (case (case params of None \<Rightarrow> None | Some p \<Rightarrow> p) of
        None \<Rightarrow> Inl (coded BadRequest)
      | Some vroi \<Rightarrow>
          sbind (swrap (PropagateWithCode BadRequest)
                   (VertiportReservationFromVRPProto x (Some vroi))) (\<lambda>v.
          sbind (require_manager c) (\<lambda>manager. Inr (v, manager))))"

definition QueryVertiportOperationalIntentReferences ::
    "ext \<Rightarrow> call \<Rightarrow> pb_vertiport_reservation option option \<Rightarrow> vrp_db
     \<Rightarrow> (vrp_err + pb_operational_intent list) \<times> vrp_db" where
  "QueryVertiportOperationalIntentReferences x c params =
     serve (query_vops_request x c params) (query_vops_action x)"

section \<open>Creation and update\<close>

record put_vop_req =
  vq_id :: string
  vq_manager :: string
  vq_params :: put_vop_params
  vq_reservation :: vertiport_reservation
  vq_ovn :: string
  vq_subid :: string

definition validate_put_vop_times :: "call \<Rightarrow> vertiport_reservation \<Rightarrow> 'd err + unit" where
  "validate_put_vop_times c v =
     (case vr_StartTime v of None \<Rightarrow> Inl (coded BadRequest) | Some st \<Rightarrow>
      case vr_EndTime v of None \<Rightarrow> Inl (coded BadRequest) | Some et \<Rightarrow>
      if c_now c > et then Inl (coded BadRequest)
      else if et < st then Inl (coded BadRequest) else Inr ())"

definition validate_put_vop ::
    "ext \<Rightarrow> call \<Rightarrow> string \<Rightarrow> string \<Rightarrow> put_vop_params option \<Rightarrow> 'd err + put_vop_req" where
  "validate_put_vop x c entityid ovn params =
     sbind (parse_id x entityid) (\<lambda>i.
     sbind (require_manager c) (\<lambda>manager.
     sbind (sderef params) (\<lambda>p.
     sbind (scheck (vpp_UssBaseUrl p \<noteq> '''') (coded BadRequest)) (\<lambda>_.
     sbind (validate_url x c (vpp_UssBaseUrl p)) (\<lambda>_.
     sbind (scheck (IsValidInDSS (vpp_State p)) (coded BadRequest)) (\<lambda>_.
     sbind (swrap (PropagateWithCode BadRequest)
              (VertiportReservationFromVRPProto x (vpp_VertiportReservation p))) (\<lambda>v.
     sbind (scheck ((case vpp_VertiportReservation p of None \<Rightarrow> '''' | Some r \<Rightarrow> pvr_Vertiportid r)
                    \<noteq> '''') (coded BadRequest)) (\<lambda>_.
     sbind (validate_put_vop_times c v) (\<lambda>_.
     sbind (scheck (\<not> (ovn = '''' \<and> vpp_State p \<noteq> ''Accepted'')) (coded BadRequest)) (\<lambda>_.
     sbind (srecode BadRequest (IDFromOptionalString x (vpp_SubscriptionId p))) (\<lambda>subid.
     Inr \<lparr>vq_id = i, vq_manager = manager, vq_params = p, vq_reservation = v,
          vq_ovn = ovn, vq_subid = subid\<rparr>)))))))))))"

definition put_vop_old :: "ext \<Rightarrow> put_vop_req \<Rightarrow> 32 word vrp_tx" where
  "put_vop_old x q =
     bnd (wrap Propagate (vrp_GetOperationalIntent x (vq_id q))) (\<lambda>old.
     case old of
       Some old' \<Rightarrow>
         seq (check (vo_Manager old' = vq_manager q) (coded PermissionDenied))
         (seq (check (vo_OVN old' = vq_ovn q) (coded VersionMismatch))
         (ret (vo_Version old')))
     | None \<Rightarrow>
         seq (check (vq_ovn q = '''') (coded NotFound))
         (ret 0))"

subsection \<open>The subscription\<close>

definition v_implicit_subscription ::
    "call \<Rightarrow> put_vop_req \<Rightarrow> string \<Rightarrow> bool \<Rightarrow> v_subscription" where
  "v_implicit_subscription c q subBaseURL notifyForConstraints =
     \<lparr>vs_ID = c_uuid c, vs_Version = '''', vs_NotificationIndex = 0,
      vs_Manager = vq_manager q,
      vs_StartTime = vr_StartTime (vq_reservation q), vs_EndTime = vr_EndTime (vq_reservation q),
      vs_USSBaseURL = subBaseURL, vs_NotifyForOperationalIntents = True,
      vs_NotifyForConstraints = notifyForConstraints, vs_ImplicitSubscription = True,
      vs_VertiportID = VertiportID (vq_reservation q),
      vs_VertiportZone = VertiportZone (vq_reservation q)\<rparr>"

definition v_new_implicit_subscription ::
    "ext \<Rightarrow> call \<Rightarrow> put_vop_req \<Rightarrow> v_subscription vrp_tx" where
  "v_new_implicit_subscription x c q =
     (let ns = vpp_NewSubscription (vq_params q);
          subBaseURL = (case ns of None \<Rightarrow> '''' | Some n \<Rightarrow> vip_UssBaseUrl n);
          notifyForConstraints = (case ns of None \<Rightarrow> False | Some n \<Rightarrow> vip_NotifyForConstraints n)
      in
      seq (check (subBaseURL \<noteq> '''') (coded BadRequest))
      (seq (of_sum (validate_url x c subBaseURL))
      (wrap Propagate (vrp_UpsertSubscription x (c_txn c)
        (v_implicit_subscription c q subBaseURL notifyForConstraints)))))"

text \<open>
  An implicit subscription is changed to fit the operational intent, another one must fit it
  already. The vertiport and the zone are replaced, not added to.
\<close>

definition v_widen_start ::
    "vertiport_reservation \<Rightarrow> v_subscription \<Rightarrow> 'd err + v_subscription \<times> bool" where
  "v_widen_start v s =
     (case vs_StartTime s of None \<Rightarrow> Inr (s, False)
      | Some b \<Rightarrow>
          sbind (sderef (vr_StartTime v)) (\<lambda>st.
          if b > st then
            (if vs_ImplicitSubscription s then Inr (s\<lparr>vs_StartTime := vr_StartTime v\<rparr>, True)
             else Inl (coded BadRequest))
          else Inr (s, False)))"

definition v_widen_end ::
    "vertiport_reservation \<Rightarrow> v_subscription \<Rightarrow> 'd err + v_subscription \<times> bool" where
  "v_widen_end v s =
     (case vs_EndTime s of None \<Rightarrow> Inr (s, False)
      | Some e \<Rightarrow>
          sbind (sderef (vr_EndTime v)) (\<lambda>et.
          if e < et then
            (if vs_ImplicitSubscription s then Inr (s\<lparr>vs_EndTime := vr_EndTime v\<rparr>, True)
             else Inl (coded BadRequest))
          else Inr (s, False)))"

definition v_move_vertiport ::
    "vertiport_reservation \<Rightarrow> v_subscription \<Rightarrow> 'd err + v_subscription \<times> bool" where
  "v_move_vertiport v s =
     (if vs_VertiportID s \<noteq> VertiportID v then
        (if vs_ImplicitSubscription s then Inr (s\<lparr>vs_VertiportID := VertiportID v\<rparr>, True)
         else Inl (coded BadRequest))
      else Inr (s, False))"

definition v_move_zone ::
    "vertiport_reservation \<Rightarrow> v_subscription \<Rightarrow> 'd err + v_subscription \<times> bool" where
  "v_move_zone v s =
     (if vs_VertiportZone s \<noteq> VertiportZone v then
        (if vs_ImplicitSubscription s then Inr (s\<lparr>vs_VertiportZone := VertiportZone v\<rparr>, True)
         else Inl (coded BadRequest))
      else Inr (s, False))"

definition v_use_subscription ::
    "ext \<Rightarrow> call \<Rightarrow> put_vop_req \<Rightarrow> v_subscription vrp_tx" where
  "v_use_subscription x c q =
     bnd (wrap Propagate (vrp_GetSubscription x (vq_subid q))) (\<lambda>sub.
     case sub of None \<Rightarrow> fail (coded BadRequest) | Some s0 \<Rightarrow>
     seq (check (vs_Manager s0 = vq_manager q) (Propagate (coded PermissionDenied)))
     (bnd (of_sum (v_widen_start (vq_reservation q) s0)) (\<lambda>(s1, u1).
     bnd (of_sum (v_widen_end (vq_reservation q) s1)) (\<lambda>(s2, u2).
     bnd (of_sum (v_move_vertiport (vq_reservation q) s2)) (\<lambda>(s3, u3).
     bnd (of_sum (v_move_zone (vq_reservation q) s3)) (\<lambda>(s4, u4).
     if u1 \<or> u2 \<or> u3 \<or> u4 then wrap Propagate (vrp_UpsertSubscription x (c_txn c) s4)
     else ret s4))))))"

definition put_vop_subscription ::
    "ext \<Rightarrow> call \<Rightarrow> put_vop_req \<Rightarrow> v_subscription vrp_tx" where
  "put_vop_subscription x c q =
     (if ID_Empty (vq_subid q) then v_new_implicit_subscription x c q else v_use_subscription x c q)"

subsection \<open>The key\<close>

definition v_mask_con :: "string \<Rightarrow> v_constraint \<Rightarrow> v_constraint" where
  "v_mask_con manager c = (if vc_Manager c \<noteq> manager then c\<lparr>vc_OVN := NoOvnPhrase\<rparr> else c)"

definition v_missing_ops ::
    "string \<Rightarrow> string list \<Rightarrow> v_operational_intent list \<Rightarrow> v_operational_intent list" where
  "v_missing_ops manager key ops =
     map (v_mask_op manager) (filter (\<lambda>oi. vo_OVN oi \<notin> set key) ops)"

definition v_missing_cons :: "string \<Rightarrow> string list \<Rightarrow> v_constraint list \<Rightarrow> v_constraint list" where
  "v_missing_cons manager key cs =
     map (v_mask_con manager) (filter (\<lambda>c. vc_OVN c \<notin> set key) cs)"

definition v_check_key :: "ext \<Rightarrow> put_vop_req \<Rightarrow> v_subscription \<Rightarrow> unit vrp_tx" where
  "v_check_key x q sub =
     (if RequiresKey (vpp_State (vq_params q)) then
        bnd (wrap Propagate (vrp_SearchOperationalIntents x (vq_reservation q))) (\<lambda>relevantOps.
        bnd (if vs_NotifyForConstraints sub
             then wrap Propagate (vrp_SearchConstraints x (vq_reservation q)) else ret [])
          (\<lambda>cons.
        let missingOps = v_missing_ops (vq_manager q) (vpp_Key (vq_params q)) relevantOps;
            missingConstraints = v_missing_cons (vq_manager q) (vpp_Key (vq_params q)) cons in
        if missingOps \<noteq> [] \<or> missingConstraints \<noteq> [] then
          bnd (wrap Propagate (of_sum (v_MissingOVNsErrorResponse x missingOps missingConstraints)))
            (\<lambda>p. fail (Propagate (StatusErr p)))
        else ret ()))
      else ret ())"

subsection \<open>The new operational intent\<close>

definition new_vop :: "put_vop_req \<Rightarrow> 32 word \<Rightarrow> v_subscription \<Rightarrow> v_operational_intent" where
  "new_vop q version sub =
     \<lparr>vo_ID = vq_id q, vo_Manager = vq_manager q, vo_Version = version + 1,
      vo_State = vpp_State (vq_params q), vo_OVN = '''',
      vo_StartTime = vr_StartTime (vq_reservation q), vo_EndTime = vr_EndTime (vq_reservation q),
      vo_USSBaseURL = vpp_UssBaseUrl (vq_params q), vo_SubscriptionID = vs_ID sub,
      vo_VertiportID = VertiportID (vq_reservation q),
      vo_VertiportZone = VertiportZone (vq_reservation q)\<rparr>"

definition put_vop_action :: "ext \<Rightarrow> call \<Rightarrow> put_vop_req \<Rightarrow> change_vop_response vrp_tx" where
  "put_vop_action x c q =
     bnd (put_vop_old x q) (\<lambda>version.
     bnd (put_vop_subscription x c q) (\<lambda>sub.
     seq (v_check_key x q sub)
     (let oi = new_vop q version sub in
     seq (wrap Propagate (of_sum (VertiportOperationalIntent_ValidateTimeRange oi)))
     (bnd (wrap Propagate (vrp_UpsertOperationalIntent x (c_txn c) oi)) (\<lambda>oi'.
     bnd (vrp_SearchSubscriptions x (vq_reservation q)) (\<lambda>allsubs.
     bnd (vrp_subs_IncrementNotificationIndices x
            (filter vs_NotifyForOperationalIntents allsubs)) (\<lambda>subs.
     bnd (wrap Propagate (of_sum (VertiportOperationalIntent_ToProto x oi'))) (\<lambda>p.
     ret \<lparr>cvo_OperationalIntentReference = p,
          cvo_Subscribers = v_makeSubscribersToNotify x subs\<rparr>))))))))"

definition PutVertiportOperationalIntentReference ::
    "ext \<Rightarrow> call \<Rightarrow> string \<Rightarrow> string \<Rightarrow> put_vop_params option \<Rightarrow> vrp_db
     \<Rightarrow> (vrp_err + change_vop_response) \<times> vrp_db" where
  "PutVertiportOperationalIntentReference x c entityid ovn params =
     serve (validate_put_vop x c entityid ovn params) (put_vop_action x c)"

definition CreateVertiportOperationalIntentReference ::
    "ext \<Rightarrow> call \<Rightarrow> string \<Rightarrow> put_vop_params option \<Rightarrow> vrp_db
     \<Rightarrow> (vrp_err + change_vop_response) \<times> vrp_db" where
  "CreateVertiportOperationalIntentReference x c entityid params =
     PutVertiportOperationalIntentReference x c entityid '''' params"

definition UpdateVertiportOperationalIntentReference ::
    "ext \<Rightarrow> call \<Rightarrow> string \<Rightarrow> string \<Rightarrow> put_vop_params option \<Rightarrow> vrp_db
     \<Rightarrow> (vrp_err + change_vop_response) \<times> vrp_db" where
  "UpdateVertiportOperationalIntentReference x c entityid ovn params =
     PutVertiportOperationalIntentReference x c entityid ovn params"

section \<open>What the actions do\<close>

lemma v_implicit_simps [simp]:
  "vs_ID (v_implicit_subscription c q url n) = c_uuid c"
  "vs_NotificationIndex (v_implicit_subscription c q url n) = 0"
  "vs_Manager (v_implicit_subscription c q url n) = vq_manager q"
  "vs_StartTime (v_implicit_subscription c q url n) = vr_StartTime (vq_reservation q)"
  "vs_EndTime (v_implicit_subscription c q url n) = vr_EndTime (vq_reservation q)"
  "vs_NotifyForOperationalIntents (v_implicit_subscription c q url n)"
  "vs_ImplicitSubscription (v_implicit_subscription c q url n)"
  "vs_VertiportID (v_implicit_subscription c q url n) = VertiportID (vq_reservation q)"
  "vs_VertiportZone (v_implicit_subscription c q url n) = VertiportZone (vq_reservation q)"
  by (simp_all add: v_implicit_subscription_def)

lemma new_vop_simps [simp]:
  "vo_ID (new_vop q version sub) = vq_id q"
  "vo_Manager (new_vop q version sub) = vq_manager q"
  "vo_Version (new_vop q version sub) = version + 1"
  "vo_State (new_vop q version sub) = vpp_State (vq_params q)"
  "vo_StartTime (new_vop q version sub) = vr_StartTime (vq_reservation q)"
  "vo_EndTime (new_vop q version sub) = vr_EndTime (vq_reservation q)"
  "vo_SubscriptionID (new_vop q version sub) = vs_ID sub"
  "vo_VertiportID (new_vop q version sub) = VertiportID (vq_reservation q)"
  "vo_VertiportZone (new_vop q version sub) = VertiportZone (vq_reservation q)"
  by (simp_all add: new_vop_def)

lemma validate_put_vop_Inr:
  assumes "validate_put_vop x c entityid ovn params = Inr q"
  shows "\<exists>st et. x_uuid_parse x entityid = Some (vq_id q) \<and> c_manager c = Some (vq_manager q) \<and>
    params = Some (vq_params q) \<and> vr_StartTime (vq_reservation q) = Some st \<and>
    vr_EndTime (vq_reservation q) = Some et \<and> c_now c \<le> et \<and> st \<le> et \<and> vq_ovn q = ovn"
  using assms
  by (auto simp: validate_put_vop_def validate_put_vop_times_def tx_inv)

lemma put_vop_old_Inr:
  assumes "put_vop_old x q s = Inr (version, s')"
  shows "\<exists>uid. x_pg_uuid x (vq_id q) = Some uid \<and> s' = s \<and>
    (case tbl_get (vdb_ops s) uid of
       None \<Rightarrow> version = 0 \<and> vq_ovn q = ''''
     | Some r \<Rightarrow> version = vor_version r \<and> vor_owner r = vq_manager q \<and>
         vq_ovn q = NewOVNFromTime x (vor_updated_at r) uid)"
proof -
  from assms obtain uid where "x_pg_uuid x (vq_id q) = Some uid"
    by (auto simp: put_vop_old_def tx_inv)
  with assms show ?thesis
    by (cases "tbl_get (vdb_ops s) uid") (auto simp: put_vop_old_def tx_inv)
qed

lemma pure_v_check_key [pure_intros]: "pure_tx (v_check_key x q sub)"
  by (auto simp: v_check_key_def Let_def intro!: pure_intros)

lemma put_vop_action_Inr:
  assumes "put_vop_action x c q s = Inr (resp, s')"
  obtains version sub s1 opid subid s2 allsubs subs where
    "put_vop_old x q s = Inr (version, s)"
    "put_vop_subscription x c q s = Inr (sub, s1)"
    "v_check_key x q sub s1 = Inr ((), s1)"
    "x_pg_uuid x (vq_id q) = Some opid" "x_pg_uuid x (vs_ID sub) = Some subid"
    "times_check (vr_StartTime (vq_reservation q)) (vr_EndTime (vq_reservation q))"
    "s2 = s1\<lparr>vdb_ops := tbl_upsert opid (vop_row_of (c_txn c) subid (new_vop q version sub)) (vdb_ops s1)\<rparr>"
    "vrp_SearchSubscriptions x (vq_reservation q) s2 = Inr (allsubs, s2)"
    "vrp_subs_IncrementNotificationIndices x (filter vs_NotifyForOperationalIntents allsubs) s2 =
       Inr (subs, s')"
    "cvo_Subscribers resp = v_makeSubscribersToNotify x subs"
    "VertiportOperationalIntent_ToProto x
       (fetch_vop x (opid, vop_row_of (c_txn c) subid (new_vop q version sub))) =
       (Inr (cvo_OperationalIntentReference resp) :: vrp_err + _)"
proof -
  from assms obtain version s0 sub s1 s1' oi s2 allsubs s2' subs where
    run: "put_vop_old x q s = Inr (version, s0)" "put_vop_subscription x c q s0 = Inr (sub, s1)"
    "v_check_key x q sub s1 = Inr ((), s1')"
    "vrp_UpsertOperationalIntent x (c_txn c) (new_vop q version sub) s1' = Inr (oi, s2)"
    "vrp_SearchSubscriptions x (vq_reservation q) s2 = Inr (allsubs, s2')"
    "vrp_subs_IncrementNotificationIndices x (filter vs_NotifyForOperationalIntents allsubs) s2' =
       Inr (subs, s')"
    "VertiportOperationalIntent_ToProto x oi =
       (Inr (cvo_OperationalIntentReference resp) :: vrp_err + _)"
    "cvo_Subscribers resp = v_makeSubscribersToNotify x subs"
    unfolding put_vop_action_def Let_def bnd_Inr seq_Inr wrap_Inr of_sum_Inr ret_Inr by auto
  have same: "s0 = s" "s1' = s1" "s2' = s2"
    using put_vop_old_Inr [OF run(1)] pure_txD [OF pure_v_check_key run(3)]
      pure_txD [OF pure_vrp_searches(2) run(5)] by auto
  from run(4) obtain opid subid where "x_pg_uuid x (vq_id q) = Some opid"
    "x_pg_uuid x (vs_ID sub) = Some subid"
    "times_check (vr_StartTime (vq_reservation q)) (vr_EndTime (vq_reservation q))"
    "s2 = s1'\<lparr>vdb_ops := tbl_upsert opid (vop_row_of (c_txn c) subid (new_vop q version sub)) (vdb_ops s1')\<rparr>"
    "oi = fetch_vop x (opid, vop_row_of (c_txn c) subid (new_vop q version sub))"
    by (auto simp: vrp_UpsertOperationalIntent_Inr)
  with run show thesis unfolding same by (intro that) simp_all
qed

lemma pure_v_remove_implicit [pure_intros]: "pure_tx (v_remove_implicit x sub)"
  by (auto simp: v_remove_implicit_def intro!: pure_intros)

lemma delete_vop_action_Inr:
  assumes "delete_vop_action x (i, manager) s = Inr (resp, s')"
  obtains uid r sid sr rm allsubs subs s1 s2 where
    "x_pg_uuid x i = Some uid" "tbl_get (vdb_ops s) uid = Some r" "vor_owner r = manager"
    "x_pg_uuid x (vor_subscription_id r) = Some sid" "tbl_get (vdb_subs s) sid = Some sr"
    "v_remove_implicit x (fetch_vsub x (sid, sr)) s = Inr (rm, s)"
    "vrp_SearchSubscriptions x (vop_reservation (fetch_vop x (uid, r))) s = Inr (allsubs, s)"
    "vrp_subs_IncrementNotificationIndices x (filter vs_NotifyForOperationalIntents allsubs) s =
       Inr (subs, s1)"
    "s2 = s1\<lparr>vdb_ops := tbl_delete uid (vdb_ops s1)\<rparr>"
    "(if rm then wrap Propagate (vrp_DeleteSubscription x sid) else ret ()) s2 = Inr ((), s')"
    "cvo_Subscribers resp = v_makeSubscribersToNotify x subs"
proof -
  from assms obtain uid r sid sr rm s0 allsubs s0' subs s1 where
    "x_pg_uuid x i = Some uid" "tbl_get (vdb_ops s) uid = Some r" "vor_owner r = manager"
    "x_pg_uuid x (vor_subscription_id r) = Some sid" "tbl_get (vdb_subs s) sid = Some sr"
    "v_remove_implicit x (fetch_vsub x (sid, sr)) s = Inr (rm, s0)"
    "vrp_SearchSubscriptions x (vop_reservation (fetch_vop x (uid, r))) s0 = Inr (allsubs, s0')"
    "vrp_subs_IncrementNotificationIndices x (filter vs_NotifyForOperationalIntents allsubs) s0' =
       Inr (subs, s1)"
    "(if rm then wrap Propagate (vrp_DeleteSubscription x (vs_ID (fetch_vsub x (sid, sr)))) else ret ())
       (s1\<lparr>vdb_ops := tbl_delete uid (vdb_ops s1)\<rparr>) = Inr ((), s')"
    "cvo_Subscribers resp = v_makeSubscribersToNotify x subs"
    by (auto simp: delete_vop_action_def bnd_Inr seq_Inr wrap_Inr of_sum_Inr ret_Inr check_Inr
        case_option_Inr vrp_GetOperationalIntent_Inr vrp_GetSubscription_Inr
        vrp_DeleteOperationalIntent_Inr)
  moreover from this have "s0 = s" "s0' = s0"
    by (auto dest: pure_txD [OF pure_v_remove_implicit] pure_txD [OF pure_vrp_searches(2)])
  ultimately show thesis by (intro that) auto
qed

end
