(* ===== verification/Vrp_Subscriptions.thy ===== *)
theory Vrp_Subscriptions
  imports Vrp_OpIntents
begin

text \<open>\<^verbatim>\<open>pkg/vrp/subscriptions_handler.go\<close>.\<close>

section \<open>Creation and update\<close>

record put_vsub_params =
  vps_VertiportReservation :: "pb_vertiport_reservation option"
  vps_UssBaseUrl :: string
  vps_NotifyForOperationalIntents :: bool
  vps_NotifyForConstraints :: bool

text \<open>An operational intent whose conversion failed is a nil entry of the response.\<close>

record put_vsub_response =
  vpr_Subscription :: pb_subscription
  vpr_OperationalIntentReferences :: "pb_operational_intent option list"
  vpr_ConstraintReferences :: "pb_constraint list"

record put_vsub_req =
  vsq_manager :: string
  vsq_reservation :: vertiport_reservation
  vsq_subreq :: v_subscription

text \<open>
  The reservation is dereferenced before it is checked, and so is the result of its conversion,
  whose error is not looked at.
\<close>

definition validate_put_vsub ::
    "ext \<Rightarrow> call \<Rightarrow> string \<Rightarrow> string \<Rightarrow> put_vsub_params option \<Rightarrow> 'd err + put_vsub_req" where
  "validate_put_vsub x c subscriptionid version params =
     sbind (parse_id x subscriptionid) (\<lambda>i.
     sbind (require_manager c) (\<lambda>manager.
     sbind (sderef params) (\<lambda>p.
     sbind (validate_url x c (vps_UssBaseUrl p)) (\<lambda>_.
     sbind (sderef (vps_VertiportReservation p)) (\<lambda>r.
     sbind (scheck (pvr_Vertiportid r \<noteq> '''') (coded PermissionDenied)) (\<lambda>_.
     sbind (swrap (\<lambda>_. Panic) (VertiportReservationFromVRPProto x (Some r))) (\<lambda>v.
     sbind (scheck (vps_NotifyForOperationalIntents p \<or> vps_NotifyForConstraints p)
              (coded BadRequest)) (\<lambda>_.
     Inr \<lparr>vsq_manager = manager, vsq_reservation = v,
          vsq_subreq =
            \<lparr>vs_ID = i, vs_Version = version, vs_NotificationIndex = 0, vs_Manager = manager,
             vs_StartTime = vr_StartTime v, vs_EndTime = vr_EndTime v,
             vs_USSBaseURL = vps_UssBaseUrl p,
             vs_NotifyForOperationalIntents = vps_NotifyForOperationalIntents p,
             vs_NotifyForConstraints = vps_NotifyForConstraints p,
             vs_ImplicitSubscription = False,
             vs_VertiportID = VertiportID v, vs_VertiportZone = VertiportZone v\<rparr>\<rparr>))))))))"

definition GetVertiportOperations ::
    "ext \<Rightarrow> string list \<Rightarrow> v_operational_intent option list vrp_tx" where
  "GetVertiportOperations x opIDs =
     tx_map (\<lambda>i. wrap Propagate (vrp_GetOperationalIntent x i)) opIDs"

definition put_vsub_old ::
    "ext \<Rightarrow> v_subscription option \<Rightarrow> v_subscription \<Rightarrow> (v_subscription \<times> string list) vrp_tx" where
  "put_vsub_old x old subreq =
     (case old of
        None \<Rightarrow>
          seq (check (vs_Version subreq = '''') (coded NotFound))
          (ret (subreq, []))
      | Some old' \<Rightarrow>
          seq (check (vs_Version subreq \<noteq> '''') (coded AlreadyExists))
          (seq (check (vs_Version subreq = vs_Version old') (Propagate (coded VersionMismatch)))
          (seq (check (vs_Manager old' = vs_Manager subreq) (Propagate (coded PermissionDenied)))
          (let subreq' = subreq\<lparr>vs_NotificationIndex := vs_NotificationIndex old'\<rparr> in
           bnd (wrap Propagate (vrp_GetDependentOperationalIntents x (vs_ID subreq')))
             (\<lambda>dependentOpIds.
           bnd (wrap Propagate (GetVertiportOperations x dependentOpIds)) (\<lambda>operations.
           seq (of_sum (v_ValidateDependentOps subreq' operations))
           (ret (subreq', dependentOpIds))))))))"

definition vsub_reservation :: "v_subscription \<Rightarrow> vertiport_reservation" where
  "vsub_reservation s =
     \<lparr>VertiportID = vs_VertiportID s, VertiportZone = vs_VertiportZone s,
      vr_StartTime = vs_StartTime s, vr_EndTime = vs_EndTime s\<rparr>"

text \<open>
  The constraints of the response are searched with the times of the request, absent ones
  included, not with the adjusted ones.
\<close>

definition put_vsub_respond ::
    "ext \<Rightarrow> put_vsub_req \<Rightarrow> v_subscription \<Rightarrow> string list \<Rightarrow> put_vsub_response vrp_tx" where
  "put_vsub_respond x q sub dependentOpIds =
     bnd (if length (vs_VertiportID sub) > 0 then
            wrap Propagate (vrp_SearchOperationalIntents x (vsub_reservation sub))
          else ret []) (\<lambda>relevantOperations.
     bnd (wrap Propagate (of_sum (VertiportSubscription_ToProto x sub dependentOpIds))) (\<lambda>p.
     bnd (if vs_NotifyForConstraints sub then
            bnd (wrap Propagate (vrp_SearchConstraints x (vsq_reservation q))) (\<lambda>cons.
            of_sum (smap (\<lambda>c.
              sbind (swrap Propagate (VertiportConstraint_ToProto x c)) (\<lambda>pc.
              Inr (if vc_Manager c \<noteq> vsq_manager q then pc\<lparr>pcon_Ovn := NoOvnPhrase\<rparr> else pc)))
              cons))
          else ret []) (\<lambda>pcons.
     ret \<lparr>vpr_Subscription = p,
          vpr_OperationalIntentReferences =
            (if vs_NotifyForOperationalIntents sub then
               map (\<lambda>oi. case VertiportOperationalIntent_ToProto x (v_mask_op (vsq_manager q) oi) of
                           Inl (e :: vrp_err) \<Rightarrow> None | Inr po \<Rightarrow> Some po) relevantOperations
             else []),
          vpr_ConstraintReferences = pcons\<rparr>)))"

definition put_vsub_action :: "ext \<Rightarrow> call \<Rightarrow> put_vsub_req \<Rightarrow> put_vsub_response vrp_tx" where
  "put_vsub_action x c q =
     bnd (wrap Propagate (vrp_GetSubscription x (vs_ID (vsq_subreq q)))) (\<lambda>old.
     bnd (wrap Propagate (of_sum
            (VertiportSubscription_AdjustTimeRange (c_now c) (vsq_subreq q) old))) (\<lambda>subreq.
     bnd (put_vsub_old x old subreq) (\<lambda>(subreq', dependentOpIds).
     bnd (wrap Propagate (vrp_UpsertSubscription x (c_txn c) subreq')) (\<lambda>sub.
     put_vsub_respond x q sub dependentOpIds))))"

definition PutVertiportSubscription ::
    "ext \<Rightarrow> call \<Rightarrow> string \<Rightarrow> string \<Rightarrow> put_vsub_params option \<Rightarrow> vrp_db
     \<Rightarrow> (vrp_err + put_vsub_response) \<times> vrp_db" where
  "PutVertiportSubscription x c subscriptionid version params =
     serve (validate_put_vsub x c subscriptionid version params) (put_vsub_action x c)"

definition CreateVertiportSubscription ::
    "ext \<Rightarrow> call \<Rightarrow> string \<Rightarrow> put_vsub_params option \<Rightarrow> vrp_db
     \<Rightarrow> (vrp_err + put_vsub_response) \<times> vrp_db" where
  "CreateVertiportSubscription x c subscriptionid params =
     PutVertiportSubscription x c subscriptionid '''' params"

definition UpdateVertiportSubscription ::
    "ext \<Rightarrow> call \<Rightarrow> string \<Rightarrow> string \<Rightarrow> put_vsub_params option \<Rightarrow> vrp_db
     \<Rightarrow> (vrp_err + put_vsub_response) \<times> vrp_db" where
  "UpdateVertiportSubscription x c subscriptionid version params =
     PutVertiportSubscription x c subscriptionid version params"

section \<open>Reads\<close>

definition get_vsub_action :: "ext \<Rightarrow> string \<times> string \<Rightarrow> pb_subscription vrp_tx" where
  "get_vsub_action x = (\<lambda>(i, manager).
     bnd (wrap Propagate (vrp_GetSubscription x i)) (\<lambda>sub.
     case sub of None \<Rightarrow> fail (coded NotFound) | Some sub \<Rightarrow>
     seq (check (manager = vs_Manager sub) (Propagate (coded PermissionDenied)))
     (bnd (wrap Propagate (vrp_GetDependentOperationalIntents x i)) (\<lambda>dependentOps.
     wrap Propagate (of_sum (VertiportSubscription_ToProto x sub dependentOps))))))"

definition GetVertiportSubscription ::
    "ext \<Rightarrow> call \<Rightarrow> string \<Rightarrow> vrp_db \<Rightarrow> (vrp_err + pb_subscription) \<times> vrp_db" where
  "GetVertiportSubscription x c subscriptionid =
     serve (entity_request x c subscriptionid) (get_vsub_action x)"

definition query_vsubs_request ::
    "ext \<Rightarrow> call \<Rightarrow> pb_vertiport_reservation option option
     \<Rightarrow> 'd err + vertiport_reservation \<times> string" where
  "query_vsubs_request x c params =
     sbind (sderef params) (\<lambda>p.
     case p of None \<Rightarrow> Inl (coded BadRequest) | Some vroi \<Rightarrow>
     sbind (scheck (pvr_Vertiportid vroi \<noteq> '''') (coded BadRequest)) (\<lambda>_.
     sbind (swrap (PropagateWithCode BadRequest)
              (VertiportReservationFromVRPProto x (Some vroi))) (\<lambda>v.
     sbind (require_manager c) (\<lambda>manager. Inr (v, manager)))))"

definition query_vsubs_action ::
    "ext \<Rightarrow> vertiport_reservation \<times> string \<Rightarrow> pb_subscription list vrp_tx" where
  "query_vsubs_action x = (\<lambda>(v, manager).
     bnd (wrap Propagate (vrp_SearchSubscriptions x v)) (\<lambda>subs.
     tx_map (\<lambda>sub.
       bnd (wrap Propagate (vrp_GetDependentOperationalIntents x (vs_ID sub))) (\<lambda>dependentOps.
       wrap Propagate (of_sum (VertiportSubscription_ToProto x sub dependentOps))))
       (filter (\<lambda>sub. vs_Manager sub = manager) subs)))"

definition QueryVertiportSubscriptions ::
    "ext \<Rightarrow> call \<Rightarrow> pb_vertiport_reservation option option \<Rightarrow> vrp_db
     \<Rightarrow> (vrp_err + pb_subscription list) \<times> vrp_db" where
  "QueryVertiportSubscriptions x c params =
     serve (query_vsubs_request x c params) (query_vsubs_action x)"

section \<open>Deletion\<close>

definition delete_vsub_action :: "ext \<Rightarrow> string \<times> string \<Rightarrow> pb_subscription vrp_tx" where
  "delete_vsub_action x = (\<lambda>(i, manager).
     bnd (wrap Propagate (vrp_GetSubscription x i)) (\<lambda>old.
     case old of None \<Rightarrow> fail (coded NotFound) | Some old \<Rightarrow>
     seq (check (vs_Manager old = manager) (Propagate (coded PermissionDenied)))
     (bnd (wrap Propagate (vrp_GetDependentOperationalIntents x i)) (\<lambda>dependentOps.
     seq (check (\<not> length dependentOps > 0) (Propagate (coded BadRequest)))
     (seq (wrap Propagate (vrp_DeleteSubscription x i))
     (wrap Propagate (of_sum (VertiportSubscription_ToProto x old dependentOps))))))))"

definition DeleteVertiportSubscription ::
    "ext \<Rightarrow> call \<Rightarrow> string \<Rightarrow> vrp_db \<Rightarrow> (vrp_err + pb_subscription) \<times> vrp_db" where
  "DeleteVertiportSubscription x c subscriptionid =
     serve (entity_request x c subscriptionid) (delete_vsub_action x)"

section \<open>What the actions do\<close>

lemma pure_GetVertiportOperations [pure_intros]: "pure_tx (GetVertiportOperations x ids)"
  by (auto simp: GetVertiportOperations_def intro!: pure_intros)

lemma pure_put_vsub_old [pure_intros]: "pure_tx (put_vsub_old x old subreq)"
  by (auto simp: put_vsub_old_def Let_def intro!: pure_intros split: option.split)

lemma pure_put_vsub_respond [pure_intros]: "pure_tx (put_vsub_respond x q sub deps)"
  by (auto simp: put_vsub_respond_def intro!: pure_intros)

lemma GetVertiportOperations_Inr:
  assumes "GetVertiportOperations x ids s = Inr (ops, s')" and "k \<in> set ids"
    and "x_pg_uuid x k = Some k" and "tbl_get (vdb_ops s) k = Some r"
  shows "Some (fetch_vop x (k, r)) \<in> set ops"
proof -
  from assms(1) have l: "list_all2 (\<lambda>i y. wrap Propagate (vrp_GetOperationalIntent x i) s = Inr (y, s)) ids ops"
    by (simp add: GetVertiportOperations_def tx_map_Inr pure_intros)
  obtain n where n: "n < length ids" "ids ! n = k"
    using assms(2) by (auto simp: in_set_conv_nth)
  from list_all2_nthD [OF l n(1)] n list_all2_lengthD [OF l]
  have "ops ! n \<in> set ops" "wrap Propagate (vrp_GetOperationalIntent x k) s = Inr (ops ! n, s)"
    by auto
  then show ?thesis using assms(3,4) by (auto simp: tx_inv)
qed

lemma validate_put_vsub_Inr:
  assumes "validate_put_vsub x c subscriptionid version params = Inr q"
  shows "x_uuid_parse x subscriptionid = Some (vs_ID (vsq_subreq q)) \<and>
    c_manager c = Some (vsq_manager q) \<and> vs_Manager (vsq_subreq q) = vsq_manager q \<and>
    vs_Version (vsq_subreq q) = version \<and> vs_NotificationIndex (vsq_subreq q) = 0 \<and>
    (vs_NotifyForOperationalIntents (vsq_subreq q) \<or> vs_NotifyForConstraints (vsq_subreq q)) \<and>
    \<not> vs_ImplicitSubscription (vsq_subreq q)"
  using assms by (auto simp: validate_put_vsub_def tx_inv)

lemma put_vsub_old_Inr:
  assumes "put_vsub_old x old subreq s = Inr ((subreq', deps), s')"
  shows "(old = None \<and> subreq' = subreq \<and> vs_Version subreq = '''') \<or>
    (\<exists>old' ops u. old = Some old' \<and> vs_Version subreq = vs_Version old' \<and>
       vs_Manager old' = vs_Manager subreq \<and>
       subreq' = subreq\<lparr>vs_NotificationIndex := vs_NotificationIndex old'\<rparr> \<and>
       vrp_GetDependentOperationalIntents x (vs_ID subreq) s = Inr (deps, s) \<and>
       GetVertiportOperations x deps s = Inr (ops, s) \<and>
       v_ValidateDependentOps subreq' ops = (Inr u :: vrp_err + unit))"
proof (cases old)
  case (Some old')
  with assms obtain ops s1 s2 u where
    "vs_Version subreq = vs_Version old'" "vs_Manager old' = vs_Manager subreq"
    "subreq' = subreq\<lparr>vs_NotificationIndex := vs_NotificationIndex old'\<rparr>"
    "vrp_GetDependentOperationalIntents x (vs_ID subreq) s = Inr (deps, s1)"
    "GetVertiportOperations x deps s1 = Inr (ops, s2)"
    "v_ValidateDependentOps subreq' ops = (Inr u :: vrp_err + unit)"
    by (auto simp: put_vsub_old_def tx_inv Let_def)
  moreover from this have "s1 = s" "s2 = s1"
    by (auto dest: pure_txD [OF pure_vrp_reads(2)] pure_txD [OF pure_GetVertiportOperations])
  ultimately show ?thesis using Some by blast
qed (use assms in \<open>auto simp: put_vsub_old_def tx_inv\<close>)

lemma put_vsub_action_Inr:
  assumes "put_vsub_action x c q s = Inr (resp, s')"
  obtains uid old b e subreq deps where
    "x_pg_uuid x (vs_ID (vsq_subreq q)) = Some uid"
    "old = map_option (\<lambda>r. fetch_vsub x (uid, r)) (tbl_get (vdb_subs s) uid)"
    "put_vsub_old x old ((vsq_subreq q)\<lparr>vs_StartTime := Some b, vs_EndTime := Some e\<rparr>) s =
       Inr ((subreq, deps), s)"
    "b < e" "e - b \<le> 24 * 60 * 60 * 10 ^ 6"
    "s' = s\<lparr>vdb_subs := tbl_upsert uid (vsub_row_of (c_txn c) subreq) (vdb_subs s)\<rparr>"
proof -
  from assms obtain uid r1 r2 deps s1 s2 sub where
    uid: "x_pg_uuid x (vs_ID (vsq_subreq q)) = Some uid" and
    adj: "VertiportSubscription_AdjustTimeRange (c_now c) (vsq_subreq q)
      (map_option (\<lambda>r. fetch_vsub x (uid, r)) (tbl_get (vdb_subs s) uid)) = (Inr r1 :: vrp_err + _)" and
    old: "put_vsub_old x (map_option (\<lambda>r. fetch_vsub x (uid, r)) (tbl_get (vdb_subs s) uid)) r1 s =
      Inr ((r2, deps), s1)" and
    ups: "vrp_UpsertSubscription x (c_txn c) r2 s1 = Inr (sub, s2)" and
    resp: "put_vsub_respond x q sub deps s2 = Inr (resp, s')"
    by (auto simp: put_vsub_action_def tx_inv)
  from pure_txD [OF pure_put_vsub_old old] have s1: "s1 = s" .
  from pure_txD [OF pure_put_vsub_respond resp] have s': "s' = s2" .
  from put_vsub_old_Inr [OF old] have id: "vs_ID r2 = vs_ID r1" "vs_StartTime r2 = vs_StartTime r1"
      "vs_EndTime r2 = vs_EndTime r1"
    by auto
  from adj obtain st et where times: "adjust_times (c_now c) (vs_StartTime (vsq_subreq q))
        (vs_EndTime (vsq_subreq q)) (map_option (\<lambda>q. (vs_StartTime q, vs_EndTime q))
          (map_option (\<lambda>r. fetch_vsub x (uid, r)) (tbl_get (vdb_subs s) uid))) =
        (Inr (st, et) :: vrp_err + _)"
      and r1: "r1 = (vsq_subreq q)\<lparr>vs_StartTime := st, vs_EndTime := et\<rparr>"
    by (auto simp: VertiportSubscription_AdjustTimeRange_def tx_inv)
  show thesis
  proof (rule adjust_times_Inr [OF times])
    fix b e assume st: "st = Some b" and et: "et = Some e" and day: "e - b \<le> 24 * 60 * 60 * 10 ^ 6"
    have "b < e" and s2: "s2 = s\<lparr>vdb_subs := tbl_upsert uid (vsub_row_of (c_txn c) r2) (vdb_subs s)\<rparr>"
      using ups id r1 st et uid s1 by (auto simp: tx_inv times_check_def)
    with uid old day show thesis
      by (intro that [where uid = uid and b = b and e = e and subreq = r2 and deps = deps])
        (simp_all add: r1 st et s1 s')
  qed
qed

lemma delete_vsub_action_Inr:
  assumes "delete_vsub_action x (i, manager) s = Inr (resp, s')"
  obtains uid r where "x_pg_uuid x i = Some uid" "tbl_get (vdb_subs s) uid = Some r"
    "vsr_owner r = manager" "tbl_select (\<lambda>o'. vor_subscription_id o' = uid) (vdb_ops s) = []"
    "s' = s\<lparr>vdb_subs := tbl_delete uid (vdb_subs s),
            vdb_ops := tbl_delete_where (\<lambda>o'. vor_subscription_id o' = uid) (vdb_ops s)\<rparr>"
  using assms by (auto simp: delete_vsub_action_def tx_inv)

end
