(* ===== verification/Vrp_Periods.thy ===== *)
theory Vrp_Periods
  imports Vrp_Models
begin

text \<open>
  The computations of \<^verbatim>\<open>pkg/vrp/models/models.go\<close> on time periods: the free periods of
  the landing area and the number of parking places in use.
\<close>

section \<open>Time periods\<close>

record time_period =
  tp_From :: "time option"
  tp_To :: "time option"

record pb_time_period =
  ptp_From :: "pb_time option"
  ptp_To :: "pb_time option"

definition TimePeriod_ToProto :: "ext \<Rightarrow> time_period \<Rightarrow> 'd err + pb_time_period" where
  "TimePeriod_ToProto x tp =
     sbind (time_to_proto x (tp_From tp)) (\<lambda>f.
     sbind (time_to_proto x (tp_To tp)) (\<lambda>t. Inr \<lparr>ptp_From = f, ptp_To = t\<rparr>))"

text \<open>Both pointers of both periods are dereferenced, in this order.\<close>

definition IntersectsWith :: "time_period \<Rightarrow> time_period \<Rightarrow> 'd err + bool" where
  "IntersectsWith tp anotherPeriod =
     sbind (sderef (tp_From tp)) (\<lambda>f.
     sbind (sderef (tp_To anotherPeriod)) (\<lambda>pt.
     if f > pt \<or> f = pt then Inr False
     else
       sbind (sderef (tp_To tp)) (\<lambda>t.
       sbind (sderef (tp_From anotherPeriod)) (\<lambda>pf.
       if t < pf \<or> t = pf then Inr False else Inr True))))"

text \<open>
  \<open>Cut\<close> needs all four instants whichever branch is taken. The branches come in the order of
  the code: covered, beginning covered, end covered, cut inside, and an error for the rest.
\<close>

definition Cut :: "time_period \<Rightarrow> time_period \<Rightarrow> 'd err + time_period list" where
  "Cut tp periodToCut =
     sbind (sderef (tp_From tp)) (\<lambda>f.
     sbind (sderef (tp_From periodToCut)) (\<lambda>pf.
     sbind (sderef (tp_To tp)) (\<lambda>t.
     sbind (sderef (tp_To periodToCut)) (\<lambda>pt.
     if (f > pf \<and> t < pt) \<or> (f = pf \<and> t = pt) then Inr []
     else if (f > pf \<or> f = pf) \<and> t > pt then
       Inr [\<lparr>tp_From = tp_To periodToCut, tp_To = tp_To tp\<rparr>]
     else if (t < pt \<or> t = pt) \<and> f < pf then
       Inr [\<lparr>tp_From = tp_From tp, tp_To = tp_From periodToCut\<rparr>]
     else if t > pt \<and> f < pf then
       Inr [\<lparr>tp_From = tp_From tp, tp_To = tp_From periodToCut\<rparr>,
            \<lparr>tp_From = tp_To periodToCut, tp_To = tp_To tp\<rparr>]
     else Inl (NewError None)))))"

section \<open>Free time periods\<close>

definition busy_periods :: "v_constraint list \<Rightarrow> v_operational_intent list \<Rightarrow> time_period list" where
  "busy_periods constraints operationalIntents =
     map (\<lambda>c. \<lparr>tp_From = vc_StartTime c, tp_To = vc_EndTime c\<rparr>) constraints @
     map (\<lambda>oi. \<lparr>tp_From = vo_StartTime oi, tp_To = vo_EndTime oi\<rparr>) operationalIntents"

text \<open>One busy period cut out of the periods found so far.\<close>

fun cut_from :: "time_period \<Rightarrow> time_period list \<Rightarrow> 'd err + time_period list" where
  "cut_from busy [] = Inr []"
| "cut_from busy (p # ps) =
     sbind (IntersectsWith p busy) (\<lambda>b.
     sbind (if b then Cut p busy else Inr [p]) (\<lambda>res.
     sbind (cut_from busy ps) (\<lambda>rest. Inr (res @ rest))))"

fun cut_each :: "time_period list \<Rightarrow> time_period list \<Rightarrow> 'd err + time_period list" where
  "cut_each [] ps = Inr ps"
| "cut_each (b # bs) ps = sbind (cut_from b ps) (\<lambda>ps'. cut_each bs ps')"

definition ComputeFreeTimePeriods ::
    "v_constraint list \<Rightarrow> v_operational_intent list \<Rightarrow> time \<Rightarrow> time \<Rightarrow> 'd err + time_period list" where
  "ComputeFreeTimePeriods constraints operationalIntents timeStart timeEnd =
     cut_each (busy_periods constraints operationalIntents)
       [\<lparr>tp_From = Some timeStart, tp_To = Some timeEnd\<rparr>]"

section \<open>Parking places\<close>

text \<open>The busy periods that intersect the main one, each as the change it makes at its ends.\<close>

fun changes_of :: "time_period \<Rightarrow> time_period list \<Rightarrow> 'd err + (time \<times> int) list" where
  "changes_of main [] = Inr []"
| "changes_of main (tp # tps) =
     sbind (IntersectsWith main tp) (\<lambda>b.
     sbind (if b then sbind (sderef (tp_From tp)) (\<lambda>f.
                      sbind (sderef (tp_To tp)) (\<lambda>t. Inr [(f, 1), (t, - 1)]))
            else Inr []) (\<lambda>cs.
     sbind (changes_of main tps) (\<lambda>rest. Inr (cs @ rest))))"

fun max_running :: "int \<Rightarrow> int \<Rightarrow> (time \<times> int) list \<Rightarrow> int" where
  "max_running n m [] = m"
| "max_running n m ((t, d) # cs) = max_running (n + d) (if n + d > m then n + d else m) cs"

text \<open>
  \<^verbatim>\<open>sort.Slice\<close> is not stable: \<open>x_sort_changes\<close> stands for the order it leaves changes
  of the same instant in.
\<close>

definition ComputeNumberOfUsedParkingPlaces ::
    "ext \<Rightarrow> v_constraint list \<Rightarrow> v_operational_intent list \<Rightarrow> time \<Rightarrow> time \<Rightarrow> 'd err + 32 word" where
  "ComputeNumberOfUsedParkingPlaces x constraints operationalIntents timeStart timeEnd =
     sbind (changes_of \<lparr>tp_From = Some timeStart, tp_To = Some timeEnd\<rparr>
              (busy_periods constraints operationalIntents)) (\<lambda>changes.
     Inr (word_of_int (max_running 0 0 (x_sort_changes x changes))))"

section \<open>What cutting does\<close>

text \<open>A period that has both ends, the first before the second; the instants it holds.\<close>

definition proper :: "time_period \<Rightarrow> bool" where
  "proper p \<longleftrightarrow> (\<exists>f t. tp_From p = Some f \<and> tp_To p = Some t \<and> f < t)"

definition instants :: "time_period \<Rightarrow> time set" where
  "instants p = (case (tp_From p, tp_To p) of (Some f, Some t) \<Rightarrow> {f..<t} | _ \<Rightarrow> {})"

definition all_instants :: "time_period list \<Rightarrow> time set" where
  "all_instants ps = (\<Union>p \<in> set ps. instants p)"

lemma all_instants_simps [simp]:
  "all_instants [] = {}" "all_instants (p # ps) = instants p \<union> all_instants ps" "all_instants (ps @ qs) = all_instants ps \<union> all_instants qs"
  by (auto simp: all_instants_def)

lemma properE:
  assumes "proper p"
  obtains f t where "p = \<lparr>tp_From = Some f, tp_To = Some t\<rparr>" "f < t" "instants p = {f..<t}"
  using assms by (cases p) (auto simp: proper_def instants_def)

lemma proper_simps [simp]: "proper \<lparr>tp_From = Some f, tp_To = Some t\<rparr> \<longleftrightarrow> f < t"
  by (simp add: proper_def)

lemma instants_simps [simp]: "instants \<lparr>tp_From = Some f, tp_To = Some t\<rparr> = {f..<t}"
  by (simp add: instants_def)

lemma instants_inter:
  fixes f t f' t' :: time
  assumes "f < t" and "f' < t'"
  shows "{f..<t} \<inter> {f'..<t'} \<noteq> {} \<longleftrightarrow> f < t' \<and> f' < t"
  using assms by auto

lemma IntersectsWith_proper:
  assumes "proper p" and "proper q"
  shows "IntersectsWith p q = Inr (instants p \<inter> instants q \<noteq> {})"
  using assms by (elim properE) (auto simp: IntersectsWith_def sderef_def sbind_def instants_inter)

lemma Cut_Inr:
  assumes "proper p" and "proper q" and "instants p \<inter> instants q \<noteq> {}" and "Cut p q = Inr ps"
  shows "(\<forall>r \<in> set ps. proper r) \<and> all_instants ps = instants p - instants q"
  using assms
  by (elim properE) (auto simp: Cut_def sderef_def sbind_def instants_inter split: if_splits)

text \<open>
  \<open>Cut\<close> fails exactly when the busy period covers the other one and they have one end in
  common, the other end being different.
\<close>

definition shares_one_end :: "time_period \<Rightarrow> time_period \<Rightarrow> bool" where
  "shares_one_end p q \<longleftrightarrow> instants p \<subset> instants q \<and> (tp_From p = tp_From q \<or> tp_To p = tp_To q)"

lemma Cut_Inl_iff:
  assumes "proper p" and "proper q" and "instants p \<inter> instants q \<noteq> {}"
  shows "(\<exists>e. Cut p q = (Inl e :: 'd err + time_period list)) \<longleftrightarrow> shares_one_end p q"
  using assms
  by (elim properE)
    (auto simp: Cut_def sderef_def sbind_def instants_inter shares_one_end_def psubset_eq atLeastLessThan_eq_iff)

lemma cut_one_Inr:
  assumes "proper p" and "proper q"
    and "(if instants p \<inter> instants q \<noteq> {} then Cut p q else Inr [p]) = (Inr ps :: 'd err + _)"
  shows "(\<forall>r \<in> set ps. proper r) \<and> all_instants ps = instants p - instants q"
  using assms Cut_Inr [of p q ps] by (auto split: if_splits)

lemma cut_from_Inr:
  assumes "proper q" and "\<forall>p \<in> set ps. proper p" and "cut_from q ps = (Inr rs :: 'd err + _)"
  shows "(\<forall>r \<in> set rs. proper r) \<and> all_instants rs = all_instants ps - instants q"
  using assms(2,3)
proof (induction ps arbitrary: rs)
  case (Cons p ps)
  have p: "IntersectsWith p q = (Inr (instants p \<inter> instants q \<noteq> {}) :: 'd err + _)"
    by (intro IntersectsWith_proper) (use Cons.prems(1) assms(1) in auto)
  from Cons.prems(2) obtain res rest where rs: "rs = res @ rest"
    and rest: "cut_from q ps = (Inr rest :: 'd err + _)"
    and res: "(if instants p \<inter> instants q \<noteq> {} then Cut p q else Inr [p]) = (Inr res :: 'd err + _)"
    unfolding cut_from.simps p by (auto simp: tx_inv)
  from Cons.prems(1) assms(1) have "proper p" "proper q" by simp_all
  from cut_one_Inr [OF this res] Cons.IH [OF _ rest] Cons.prems(1) show ?case
    by (auto simp: rs)
qed simp

lemma cut_each_Inr:
  assumes "\<forall>b \<in> set bs. proper b" and "\<forall>p \<in> set ps. proper p"
    and "cut_each bs ps = (Inr rs :: 'd err + _)"
  shows "(\<forall>r \<in> set rs. proper r) \<and> all_instants rs = all_instants ps - all_instants bs"
  using assms
proof (induction bs arbitrary: ps)
  case (Cons b bs)
  from Cons.prems(3) obtain ps' where ps': "cut_from b ps = (Inr ps' :: 'd err + _)"
    and rs: "cut_each bs ps' = (Inr rs :: 'd err + _)"
    unfolding cut_each.simps by (auto simp: tx_inv)
  from Cons.prems have "proper b" "\<forall>p \<in> set ps. proper p" by simp_all
  from cut_from_Inr [OF this ps'] Cons.IH [OF _ _ rs] Cons.prems(1) show ?case by auto
qed simp

subsection \<open>When cutting succeeds\<close>

text \<open>
  The ends of a list of periods. Cutting introduces no new ends, and fails only where an end of
  a busy period coincides with one there was.
\<close>

definition ends :: "time_period list \<Rightarrow> time set" where
  "ends ps = (\<Union>p \<in> set ps. set_option (tp_From p) \<union> set_option (tp_To p))"

lemma ends_simps [simp]:
  "ends [] = {}" "ends (p # ps) = set_option (tp_From p) \<union> set_option (tp_To p) \<union> ends ps"
  "ends (ps @ qs) = ends ps \<union> ends qs"
  by (auto simp: ends_def)

lemma Cut_apart:
  assumes "proper p" and "proper q" and "ends [p] \<inter> ends [q] = {}"
  shows "\<exists>rs. (if instants p \<inter> instants q \<noteq> {} then Cut p q else Inr [p]) = (Inr rs :: 'd err + _) \<and>
    ends rs \<subseteq> ends [p] \<union> ends [q]"
  using assms
  by (elim properE) (auto simp: Cut_def sderef_def sbind_def instants_inter)

lemma cut_from_apart:
  assumes "proper q" and "\<forall>p \<in> set ps. proper p" and "ends ps \<inter> ends [q] = {}"
  shows "\<exists>rs. cut_from q ps = (Inr rs :: 'd err + _) \<and> ends rs \<subseteq> ends ps \<union> ends [q]"
  using assms(2,3)
proof (induction ps)
  case (Cons p ps)
  then obtain rest where rest: "cut_from q ps = (Inr rest :: 'd err + _)" "ends rest \<subseteq> ends ps \<union> ends [q]"
    by auto
  have p: "IntersectsWith p q = (Inr (instants p \<inter> instants q \<noteq> {}) :: 'd err + _)"
    by (intro IntersectsWith_proper) (use Cons.prems(1) assms(1) in auto)
  from Cons.prems assms(1) have "proper p" "proper q" "ends [p] \<inter> ends [q] = {}" by auto
  from Cut_apart [OF this] obtain res where
    res: "(if instants p \<inter> instants q \<noteq> {} then Cut p q else Inr [p]) = (Inr res :: 'd err + _)"
      "ends res \<subseteq> ends [p] \<union> ends [q]" by blast
  have "cut_from q (p # ps) = (Inr (res @ rest) :: 'd err + _)"
    unfolding cut_from.simps p using res(1) rest(1) by (simp add: sbind_def)
  moreover have "ends (res @ rest) \<subseteq> ends (p # ps) \<union> ends [q]" using res(2) rest(2) by auto
  ultimately show ?case by blast
qed simp

text \<open>Each busy period has ends apart from those of the ones before it.\<close>

fun ends_apart :: "time_period list \<Rightarrow> time_period list \<Rightarrow> bool" where
  "ends_apart bs [] \<longleftrightarrow> True"
| "ends_apart ps (b # bs) \<longleftrightarrow> ends ps \<inter> ends [b] = {} \<and> ends_apart (b # ps) bs"

lemma ends_apart_mono: "ends ps' \<subseteq> ends ps \<Longrightarrow> ends_apart ps bs \<Longrightarrow> ends_apart ps' bs"
proof (induction bs arbitrary: ps ps')
  case (Cons b bs)
  then have "ends (b # ps') \<subseteq> ends (b # ps)" by auto
  with Cons.IH [of "b # ps'" "b # ps"] Cons.prems show ?case by auto
qed simp

lemma cut_each_apart:
  assumes "\<forall>b \<in> set bs. proper b" and "\<forall>p \<in> set ps. proper p" and "ends_apart ps bs"
  shows "\<exists>rs. cut_each bs ps = (Inr rs :: 'd err + _)"
  using assms
proof (induction bs arbitrary: ps)
  case (Cons b bs)
  from Cons.prems have b: "proper b" "\<forall>p \<in> set ps. proper p" "ends ps \<inter> ends [b] = {}" by auto
  from cut_from_apart [OF this] obtain ps' where ps': "cut_from b ps = (Inr ps' :: 'd err + _)"
    "ends ps' \<subseteq> ends (b # ps)" by auto
  from cut_from_Inr [OF b(1,2) ps'(1)] have "\<forall>p \<in> set ps'. proper p" by simp
  moreover from Cons.prems(3) have "ends_apart ps' bs"
    by (intro ends_apart_mono [OF ps'(2)]) simp
  ultimately show ?case using Cons.IH [of ps'] Cons.prems(1) ps'(1) by (simp add: sbind_def)
qed simp

section \<open>What the sweep counts\<close>

subsection \<open>Running sums\<close>

lemma max_running_ge:
  "m \<le> max_running n m cs"
  "0 < k \<Longrightarrow> k \<le> length cs \<Longrightarrow> n + sum_list (map snd (take k cs)) \<le> max_running n m cs"
proof -
  show "m \<le> max_running n m cs" for n m cs
    by (induction n m cs rule: max_running.induct) (auto split: if_splits)
  note base = this
  show "0 < k \<Longrightarrow> k \<le> length cs \<Longrightarrow> n + sum_list (map snd (take k cs)) \<le> max_running n m cs"
  proof (induction n m cs arbitrary: k rule: max_running.induct)
    case (2 n m t d cs)
    then obtain j where k: "k = Suc j" by (cases k) auto
    show ?case
    proof (cases j)
      case 0
      then show ?thesis using base [of "if n + d > m then n + d else m" "n + d" cs] k
        by (auto split: if_splits)
    next
      case (Suc l)
      then show ?thesis using "2.IH" [of j] "2.prems" k by (simp add: add.assoc)
    qed
  qed simp
qed

lemma max_running_le:
  "m \<le> b \<Longrightarrow> (\<And>k. 0 < k \<Longrightarrow> k \<le> length cs \<Longrightarrow> n + sum_list (map snd (take k cs)) \<le> b) \<Longrightarrow>
     max_running n m cs \<le> b"
proof (induction n m cs rule: max_running.induct)
  case (2 n m t d cs)
  have "n + d \<le> b" using "2.prems"(2) [of 1] by simp
  moreover have "n + d + sum_list (map snd (take k cs)) \<le> b" if "0 < k" "k \<le> length cs" for k
    using "2.prems"(2) [of "Suc k"] that by (simp add: add.assoc)
  ultimately show ?case using "2.IH" "2.prems"(1) by simp
qed simp

text \<open>The changes up to an instant, and those before it together with the increases at it.\<close>

definition sum_upto :: "time \<Rightarrow> (time \<times> int) list \<Rightarrow> int" where
  "sum_upto i cs = (\<Sum>c\<leftarrow>cs. if fst c \<le> i then snd c else 0)"

definition weight_at :: "time \<Rightarrow> time \<times> int \<Rightarrow> int" where
  "weight_at i c = (if fst c < i then snd c else if fst c = i then max 0 (snd c) else 0)"

lemma sum_list_mset: "mset cs = mset ds \<Longrightarrow> (\<Sum>c\<leftarrow>cs. f c) = (\<Sum>c\<leftarrow>ds. f c :: int)"
  by (metis mset_map sum_mset_sum_list)

lemma sum_upto_take:
  "sorted (map fst cs) \<Longrightarrow> \<exists>k \<le> length cs. sum_upto i cs = sum_list (map snd (take k cs))"
proof (induction cs)
  case (Cons c cs)
  show ?case
  proof (cases "fst c \<le> i")
    case True
    from Cons obtain k where "k \<le> length cs" "sum_upto i cs = sum_list (map snd (take k cs))" by auto
    then show ?thesis using True by (intro exI [of _ "Suc k"]) (simp add: sum_upto_def)
  next
    case False
    with Cons.prems have "\<forall>d \<in> set cs. \<not> fst d \<le> i" by fastforce
    then have "sum_upto i cs = 0" by (induction cs) (simp_all add: sum_upto_def)
    then show ?thesis using False by (intro exI [of _ 0]) (simp add: sum_upto_def)
  qed
qed (simp add: sum_upto_def)

lemma take_le_weight:
  assumes "sorted (map fst cs)" and "0 < k" and "k \<le> length cs"
  shows "sum_list (map snd (take k cs)) \<le> (\<Sum>c\<leftarrow>cs. weight_at (fst (cs ! (k - 1))) c)"
proof -
  let ?i = "fst (cs ! (k - 1))"
  have mono: "fst (cs ! a) \<le> fst (cs ! b)" if "a \<le> b" "b < length cs" for a b
    using sorted_nth_mono [OF assms(1)] that by simp
  have "(\<Sum>c\<leftarrow>take k cs. snd c) \<le> (\<Sum>c\<leftarrow>take k cs. weight_at ?i c)"
  proof (rule sum_list_mono)
    fix c assume "c \<in> set (take k cs)"
    then obtain a where "a < k" "c = cs ! a" using assms(3) by (auto simp: in_set_conv_nth)
    with mono [of a "k - 1"] assms(2,3) have "fst c \<le> ?i" by simp
    then show "snd c \<le> weight_at ?i c" by (auto simp: weight_at_def)
  qed
  moreover have "0 \<le> (\<Sum>c\<leftarrow>drop k cs. weight_at ?i c)"
  proof (rule sum_list_nonneg)
    fix w assume "w \<in> set (map (weight_at ?i) (drop k cs))"
    then obtain a where "a < length cs - k" "w = weight_at ?i (cs ! (k + a))"
      by (auto simp: in_set_conv_nth)
    moreover from this have "fst (cs ! (k - 1)) \<le> fst (cs ! (k + a))" by (intro mono) auto
    ultimately show "0 \<le> w" by (auto simp: weight_at_def)
  qed
  ultimately have "(\<Sum>c\<leftarrow>take k cs. snd c) \<le> (\<Sum>c\<leftarrow>take k cs @ drop k cs. weight_at ?i c)"
    unfolding map_append sum_list_append by simp
  then show ?thesis by simp
qed

subsection \<open>Loads\<close>

text \<open>How many periods hold an instant, and how many hold it or end at it.\<close>

definition load :: "time_period list \<Rightarrow> time \<Rightarrow> int" where
  "load ps i = int (length (filter (\<lambda>p. i \<in> instants p) ps))"

definition touches :: "time \<Rightarrow> time_period \<Rightarrow> bool" where
  "touches i p = (case (tp_From p, tp_To p) of (Some f, Some t) \<Rightarrow> f \<le> i \<and> i \<le> t | _ \<Rightarrow> False)"

definition touching :: "time_period list \<Rightarrow> time \<Rightarrow> int" where
  "touching ps i = int (length (filter (touches i) ps))"

definition period_changes :: "time_period \<Rightarrow> (time \<times> int) list" where
  "period_changes p = [(the (tp_From p), 1), (the (tp_To p), - 1)]"

lemma changes_of_proper:
  assumes "proper w" and "\<forall>p \<in> set ps. proper p"
  shows "changes_of w ps =
    (Inr (concat (map period_changes (filter (\<lambda>p. instants w \<inter> instants p \<noteq> {}) ps))) :: 'd err + _)"
  using assms(2)
proof (induction ps)
  case (Cons p ps)
  then have "proper p" by simp
  then obtain f t where "tp_From p = Some f" "tp_To p = Some t" by (auto simp: proper_def)
  moreover have "IntersectsWith w p = (Inr (instants w \<inter> instants p \<noteq> {}) :: 'd err + _)"
    using assms(1) \<open>proper p\<close> by (rule IntersectsWith_proper)
  ultimately show ?case using Cons
    by (simp add: sbind_def sderef_def period_changes_def)
qed simp

lemma sum_upto_changes:
  "\<forall>p \<in> set ps. proper p \<Longrightarrow> sum_upto i (concat (map period_changes ps)) = load ps i"
  by (induction ps) (auto simp: sum_upto_def load_def period_changes_def elim!: properE)

lemma weight_changes:
  "\<forall>p \<in> set ps. proper p \<Longrightarrow>
     (\<Sum>c\<leftarrow>concat (map period_changes ps). weight_at i c) = touching ps i"
  by (induction ps)
    (auto simp: weight_at_def touching_def touches_def period_changes_def elim!: properE)

lemma load_nonneg: "0 \<le> load ps i"
  by (simp add: load_def)

lemma sweep_bounds:
  assumes ps: "\<forall>p \<in> set ps. proper p" and sorted: "sorted (map fst cs)"
    and perm: "mset cs = mset (concat (map period_changes ps))"
  shows "load ps i \<le> max_running 0 0 cs"
    and "max_running 0 0 cs = 0 \<or> (\<exists>i. max_running 0 0 cs \<le> touching ps i)"
proof -
  from sum_upto_take [OF sorted, of i] obtain k where k: "k \<le> length cs"
    "sum_upto i cs = sum_list (map snd (take k cs))" by blast
  have "sum_upto i cs = load ps i"
    using sum_upto_changes [OF ps] sum_list_mset [OF perm] by (simp add: sum_upto_def)
  then show "load ps i \<le> max_running 0 0 cs"
    using k max_running_ge(1) [of 0 0 cs] max_running_ge(2) [of k cs 0 0] by (cases "k = 0") auto
  have w: "sum_list (map snd (take k cs)) \<le> touching ps (fst (cs ! (k - 1)))"
    if "0 < k" "k \<le> length cs" for k
    using take_le_weight [OF sorted that] weight_changes [OF ps]
      sum_list_mset [OF perm, of "weight_at (fst (cs ! (k - 1)))"] by simp
  let ?b = "Max (insert 0 ((\<lambda>k. touching ps (fst (cs ! k))) ` {..<length cs}))"
  have "max_running 0 0 cs \<le> ?b"
  proof (rule max_running_le)
    fix k assume k: "0 < k" "k \<le> length cs"
    then have "touching ps (fst (cs ! (k - 1))) \<le> ?b" by (intro Max_ge) auto
    with w [OF k] show "0 + sum_list (map snd (take k cs)) \<le> ?b" by simp
  qed simp
  moreover have "?b \<in> insert 0 ((\<lambda>k. touching ps (fst (cs ! k))) ` {..<length cs})"
    by (rule Max_in) auto
  ultimately show "max_running 0 0 cs = 0 \<or> (\<exists>i. max_running 0 0 cs \<le> touching ps i)"
    using max_running_ge(1) [of 0 0 cs] by auto
qed

subsection \<open>The window\<close>

text \<open>
  The periods that reach into a window: at an instant of the window the load is that of all
  periods, and what touches an instant outside the window also touches one inside.
\<close>

lemma load_relevant:
  assumes "i \<in> instants w"
  shows "load (filter (\<lambda>p. instants w \<inter> instants p \<noteq> {}) ps) i = load ps i"
  unfolding load_def filter_filter
  using assms by (intro arg_cong [where f = "\<lambda>xs. int (length xs)"] filter_cong) auto

lemma length_filter_mono:
  "(\<And>p. p \<in> set ps \<Longrightarrow> P p \<Longrightarrow> Q p) \<Longrightarrow> length (filter P ps) \<le> length (filter Q ps)"
  by (induction ps) (auto intro: le_SucI)

abbreviation relevant :: "time \<Rightarrow> time \<Rightarrow> time_period list \<Rightarrow> time_period list" where
  "relevant b e ps \<equiv> filter (\<lambda>p. {b..<e} \<inter> instants p \<noteq> {}) ps"

lemma relevantE:
  assumes "p \<in> set (relevant b e ps)" and "b < e" and "\<forall>p \<in> set ps. proper p"
  obtains f t where "p = \<lparr>tp_From = Some f, tp_To = Some t\<rparr>" "f < t" "b < t" "f < e"
proof -
  from assms have "proper p" and m: "{b..<e} \<inter> instants p \<noteq> {}" by auto
  then obtain f t where "p = \<lparr>tp_From = Some f, tp_To = Some t\<rparr>" "f < t" by (auto elim: properE)
  with m show thesis using instants_inter [OF assms(2)] by (intro that) auto
qed

lemma touching_window:
  assumes "b < e" and "\<forall>p \<in> set ps. proper p"
  shows "\<exists>i. b \<le> i \<and> i < e \<and> touching (relevant b e ps) j \<le> touching (relevant b e ps) i"
proof (intro exI conjI)
  let ?i = "max b (min j (e - 1))"
  show "b \<le> ?i" "?i < e" using assms(1) by auto
  have "touches ?i p" if "p \<in> set (relevant b e ps)" and "touches j p" for p
    using that(1) assms by (rule relevantE) (use that(2) assms(1) in \<open>auto simp: touches_def\<close>)
  then show "touching (relevant b e ps) j \<le> touching (relevant b e ps) ?i"
    unfolding touching_def of_nat_le_iff by (rule length_filter_mono)
qed

lemma touching_relevant: "touching (relevant b e ps) i \<le> touching ps i"
  unfolding touching_def filter_filter of_nat_le_iff by (intro length_filter_mono) auto

lemma used_places:
  assumes x: "orders_ok x" and "b < e" and ps: "\<forall>p \<in> set (busy_periods cs ops). proper p"
  obtains n where "ComputeNumberOfUsedParkingPlaces x cs ops b e = (Inr (word_of_int n) :: 'd err + _)"
    "0 \<le> n" "n \<le> int (length cs + length ops)"
    "\<And>i. b \<le> i \<Longrightarrow> i < e \<Longrightarrow> load (busy_periods cs ops) i \<le> n"
    "\<exists>i. b \<le> i \<and> i < e \<and> n \<le> touching (relevant b e (busy_periods cs ops)) i"
proof -
  let ?ps = "busy_periods cs ops" and ?w = "\<lparr>tp_From = Some b, tp_To = Some e\<rparr>"
  let ?rel = "relevant b e ?ps"
  define chs where "chs = x_sort_changes x (concat (map period_changes ?rel))"
  have chs: "sorted (map fst chs)" "mset chs = mset (concat (map period_changes ?rel))"
    using x by (simp_all add: chs_def orders_ok_def)
  from ps have rel: "\<forall>p \<in> set ?rel. proper p" by simp
  note bounds = sweep_bounds [OF rel chs]
  have n0: "0 \<le> max_running 0 0 chs" by (rule max_running_ge(1))
  have "changes_of ?w ?ps = (Inr (concat (map period_changes ?rel)) :: 'd err + _)"
    using changes_of_proper [OF _ ps, of ?w] \<open>b < e\<close> by simp
  then have run: "ComputeNumberOfUsedParkingPlaces x cs ops b e =
      (Inr (word_of_int (max_running 0 0 chs)) :: 'd err + _)"
    by (simp add: ComputeNumberOfUsedParkingPlaces_def sbind_def chs_def)
  have peak: "\<exists>i. b \<le> i \<and> i < e \<and> max_running 0 0 chs \<le> touching ?rel i"
    using bounds(2)
  proof
    assume "max_running 0 0 chs = 0"
    then show ?thesis using \<open>b < e\<close> by (auto simp: touching_def)
  next
    assume "\<exists>j. max_running 0 0 chs \<le> touching ?rel j"
    with touching_window [OF \<open>b < e\<close> ps] show ?thesis by (meson order_trans)
  qed
  have "touching ?rel i \<le> int (length cs + length ops)" for i
    unfolding touching_def of_nat_le_iff filter_filter
    by (rule order_trans [OF length_filter_le]) (simp add: busy_periods_def)
  with peak have "max_running 0 0 chs \<le> int (length cs + length ops)" by (meson order_trans)
  moreover have "load ?ps i \<le> max_running 0 0 chs" if "b \<le> i" "i < e" for i
    using bounds(1) [of i] load_relevant [of i ?w ?ps] that by simp
  ultimately show thesis using run n0 peak by (intro that) auto
qed

text \<open>When no period begins at the instant another ends, touching an instant is holding one.\<close>

lemma touching_load:
  assumes w: "b < e" and ps: "\<forall>p \<in> set ps. proper p"
    and apart: "\<forall>p \<in> set ps. \<forall>q \<in> set ps. tp_To p \<noteq> tp_From q" and i: "b \<le> i" "i < e"
  shows "\<exists>j. b \<le> j \<and> j < e \<and> touching (relevant b e ps) i \<le> load ps j"
proof (cases "\<exists>p \<in> set (relevant b e ps). tp_To p = Some i")
  case True
  then obtain p where p: "p \<in> set (relevant b e ps)" "tp_To p = Some i" by blast
  from p(1) w ps have "b < i" by (rule relevantE) (use p(2) in simp)
  from p(1) have "p \<in> set ps" by simp
  with apart p(2) have "\<forall>q \<in> set ps. tp_From q \<noteq> Some i" by metis
  with ps have "touches i q \<Longrightarrow> i - 1 \<in> instants q" if "q \<in> set ps" for q
    using that by (force elim!: properE simp: touches_def)
  then have "touching (relevant b e ps) i \<le> load ps (i - 1)"
    unfolding touching_def load_def of_nat_le_iff filter_filter by (intro length_filter_mono) auto
  then show ?thesis using i \<open>b < i\<close> by (intro exI [of _ "i - 1"]) auto
next
  case False
  have "touches i q \<Longrightarrow> i \<in> instants q" if q: "q \<in> set (relevant b e ps)" for q
    using q w ps by (rule relevantE) (use q False in \<open>auto simp: touches_def\<close>)
  then have "touching (relevant b e ps) i \<le> load ps i"
    unfolding touching_def load_def of_nat_le_iff filter_filter by (intro length_filter_mono) auto
  then show ?thesis using i by blast
qed

end
