(* ===== verification/Vrp_Constraints.thy ===== *)
theory Vrp_Constraints
  imports Vrp_OpIntents Vrp_Periods
begin

text \<open>
  \<^verbatim>\<open>pkg/vrp/constraints_handler.go\<close> and \<^verbatim>\<open>pkg/vrp/vertiports_handler.go\<close>: the handlers
  of constraints on a zone of a vertiport, and of vertiports.
\<close>

section \<open>Constraint references\<close>

record put_vcon_params =
  vcp_VertiportReservation :: "pb_vertiport_reservation option"
  vcp_UssBaseUrl :: string

record change_vcon_response =
  cvc_ConstraintReference :: pb_constraint
  cvc_Subscribers :: "(string \<times> subscription_state list) list"

definition vcon_reservation :: "v_constraint \<Rightarrow> vertiport_reservation" where
  "vcon_reservation c =
     \<lparr>VertiportID = vc_VertiportID c, VertiportZone = vc_VertiportZone c,
      vr_StartTime = vc_StartTime c, vr_EndTime = vc_EndTime c\<rparr>"

definition get_vcon_or_404 :: "ext \<Rightarrow> string \<Rightarrow> v_constraint vrp_tx" where
  "get_vcon_or_404 x i =
     bnd (attempt (vrp_GetConstraint x i)) (\<lambda>r.
     case r of
       Inl ErrNoRows \<Rightarrow> fail (coded NotFound)
     | Inl e \<Rightarrow> fail (Propagate e)
     | Inr old \<Rightarrow> ret old)"

definition delete_vcon_action :: "ext \<Rightarrow> string \<times> string \<Rightarrow> change_vcon_response vrp_tx" where
  "delete_vcon_action x = (\<lambda>(i, manager).
     bnd (get_vcon_or_404 x i) (\<lambda>old.
     seq (check (vc_Manager old = manager) (coded PermissionDenied))
     (bnd (wrap Propagate (vrp_SearchSubscriptions x (vcon_reservation old))) (\<lambda>allsubs.
     seq (wrap Propagate (vrp_DeleteConstraint x i))
     (bnd (wrap Propagate (vrp_subs_IncrementNotificationIndices x
             (filter vs_NotifyForConstraints allsubs))) (\<lambda>subs.
     bnd (wrap Propagate (of_sum (VertiportConstraint_ToProto x old))) (\<lambda>p.
     ret \<lparr>cvc_ConstraintReference = p,
          cvc_Subscribers = v_makeSubscribersToNotify x subs\<rparr>)))))))"

definition DeleteVertiportConstraintReference ::
    "ext \<Rightarrow> call \<Rightarrow> string \<Rightarrow> vrp_db \<Rightarrow> (vrp_err + change_vcon_response) \<times> vrp_db" where
  "DeleteVertiportConstraintReference x c entityid =
     serve (entity_request x c entityid) (delete_vcon_action x)"

definition get_vcon_action :: "ext \<Rightarrow> string \<times> string \<Rightarrow> pb_constraint vrp_tx" where
  "get_vcon_action x = (\<lambda>(i, manager).
     bnd (get_vcon_or_404 x i) (\<lambda>con.
     wrap Propagate (of_sum (VertiportConstraint_ToProto x (v_mask_con manager con)))))"

definition GetVertiportConstraintReference ::
    "ext \<Rightarrow> call \<Rightarrow> string \<Rightarrow> vrp_db \<Rightarrow> (vrp_err + pb_constraint) \<times> vrp_db" where
  "GetVertiportConstraintReference x c entityid =
     serve (entity_request x c entityid) (get_vcon_action x)"

record put_vcon_req =
  vcq_id :: string
  vcq_manager :: string
  vcq_params :: put_vcon_params
  vcq_reservation :: vertiport_reservation
  vcq_ovn :: string

definition validate_put_vcon ::
    "ext \<Rightarrow> call \<Rightarrow> string \<Rightarrow> string \<Rightarrow> put_vcon_params option \<Rightarrow> 'd err + put_vcon_req" where
  "validate_put_vcon x c entityid ovn params =
     sbind (parse_id x entityid) (\<lambda>i.
     sbind (require_manager c) (\<lambda>manager.
     sbind (sderef params) (\<lambda>p.
     sbind (scheck (vcp_UssBaseUrl p \<noteq> '''') (coded BadRequest)) (\<lambda>_.
     sbind (validate_url x c (vcp_UssBaseUrl p)) (\<lambda>_.
     sbind (swrap (PropagateWithCode BadRequest)
              (VertiportReservationFromVRPProto x (vcp_VertiportReservation p))) (\<lambda>v.
     sbind (scheck (vr_StartTime v \<noteq> None) (coded BadRequest)) (\<lambda>_.
     sbind (scheck (vr_EndTime v \<noteq> None) (coded BadRequest)) (\<lambda>_.
     Inr \<lparr>vcq_id = i, vcq_manager = manager, vcq_params = p, vcq_reservation = v,
          vcq_ovn = ovn\<rparr>))))))))"

definition put_vcon_old :: "ext \<Rightarrow> put_vcon_req \<Rightarrow> 32 word vrp_tx" where
  "put_vcon_old x q =
     bnd (attempt (vrp_GetConstraint x (vcq_id q))) (\<lambda>r.
     case r of
       Inl ErrNoRows \<Rightarrow>
         seq (check (vcq_ovn q = '''') (coded VersionMismatch)) (ret 0)
     | Inl e \<Rightarrow> fail (Propagate e)
     | Inr old \<Rightarrow>
         seq (check (vc_Manager old = vcq_manager q) (coded PermissionDenied))
         (seq (check (vc_OVN old = vcq_ovn q) (coded VersionMismatch))
         (ret (vc_Version old))))"

definition new_vcon :: "put_vcon_req \<Rightarrow> 32 word \<Rightarrow> v_constraint" where
  "new_vcon q version =
     \<lparr>vc_ID = vcq_id q, vc_Manager = vcq_manager q, vc_UssAvailability = '''',
      vc_Version = version + 1, vc_OVN = '''',
      vc_StartTime = vr_StartTime (vcq_reservation q), vc_EndTime = vr_EndTime (vcq_reservation q),
      vc_USSBaseURL = vcp_UssBaseUrl (vcq_params q),
      vc_VertiportID = VertiportID (vcq_reservation q),
      vc_VertiportZone = VertiportZone (vcq_reservation q)\<rparr>"

definition put_vcon_action :: "ext \<Rightarrow> call \<Rightarrow> put_vcon_req \<Rightarrow> change_vcon_response vrp_tx" where
  "put_vcon_action x c q =
     bnd (put_vcon_old x q) (\<lambda>version.
     bnd (vrp_UpsertConstraint x (c_txn c) (new_vcon q version)) (\<lambda>con.
     bnd (vrp_SearchSubscriptions x (vcq_reservation q)) (\<lambda>allsubs.
     bnd (vrp_subs_IncrementNotificationIndices x
            (filter vs_NotifyForConstraints allsubs)) (\<lambda>subs.
     bnd (of_sum (VertiportConstraint_ToProto x con)) (\<lambda>p.
     ret \<lparr>cvc_ConstraintReference = p,
          cvc_Subscribers = v_makeSubscribersToNotify x subs\<rparr>)))))"

definition PutVertiportConstraintReference ::
    "ext \<Rightarrow> call \<Rightarrow> string \<Rightarrow> string \<Rightarrow> put_vcon_params option \<Rightarrow> vrp_db
     \<Rightarrow> (vrp_err + change_vcon_response) \<times> vrp_db" where
  "PutVertiportConstraintReference x c entityid ovn params =
     serve (validate_put_vcon x c entityid ovn params) (put_vcon_action x c)"

definition CreateVertiportConstraintReference ::
    "ext \<Rightarrow> call \<Rightarrow> string \<Rightarrow> put_vcon_params option \<Rightarrow> vrp_db
     \<Rightarrow> (vrp_err + change_vcon_response) \<times> vrp_db" where
  "CreateVertiportConstraintReference x c entityid params =
     PutVertiportConstraintReference x c entityid '''' params"

definition UpdateVertiportConstraintReference ::
    "ext \<Rightarrow> call \<Rightarrow> string \<Rightarrow> string \<Rightarrow> put_vcon_params option \<Rightarrow> vrp_db
     \<Rightarrow> (vrp_err + change_vcon_response) \<times> vrp_db" where
  "UpdateVertiportConstraintReference x c entityid ovn params =
     PutVertiportConstraintReference x c entityid ovn params"

text \<open>This query returns the errors of the conversion and of the store as they are.\<close>

definition query_vcon_proto :: "ext \<Rightarrow> string \<Rightarrow> v_constraint \<Rightarrow> 'd err + pb_constraint" where
  "query_vcon_proto x manager c =
     sbind (VertiportConstraint_ToProto x c) (\<lambda>p.
     Inr (if vc_Manager c \<noteq> manager then p\<lparr>pcon_Ovn := NoOvnPhrase\<rparr> else p))"

definition query_vcons_request ::
    "ext \<Rightarrow> call \<Rightarrow> pb_vertiport_reservation option option
     \<Rightarrow> 'd err + vertiport_reservation \<times> string" where
  "query_vcons_request x c params =
     sbind (sderef params) (\<lambda>p.
     case p of None \<Rightarrow> Inl (coded BadRequest) | Some roi \<Rightarrow>
     sbind (VertiportReservationFromVRPProto x (Some roi)) (\<lambda>v.
     sbind (require_manager c) (\<lambda>manager. Inr (v, manager))))"

definition query_vcons_action ::
    "ext \<Rightarrow> vertiport_reservation \<times> string \<Rightarrow> pb_constraint list vrp_tx" where
  "query_vcons_action x = (\<lambda>(v, manager).
     bnd (vrp_SearchConstraints x v) (\<lambda>cons.
     of_sum (smap (query_vcon_proto x manager) cons)))"

definition QueryVertiportConstraintReferences ::
    "ext \<Rightarrow> call \<Rightarrow> pb_vertiport_reservation option option \<Rightarrow> vrp_db
     \<Rightarrow> (vrp_err + pb_constraint list) \<times> vrp_db" where
  "QueryVertiportConstraintReferences x c params =
     serve (query_vcons_request x c params) (query_vcons_action x)"

section \<open>Vertiports\<close>

text \<open>\<^verbatim>\<open>vrppb.Vertiport\<close> names the vertiport as the request did.\<close>

record pb_vertiport =
  pvp_Id :: string
  pvp_NumberOfParkingPlaces :: "32 word"

record used_places_response =
  upr_NumberOfUsedPlaces :: "32 word"
  upr_NumberOfAvailablePlaces :: "32 word"
  upr_NumberOfPlaces :: "32 word"

text \<open>The start and end of a period of interest; the pair is \<^verbatim>\<open>TimeStart\<close>, \<^verbatim>\<open>TimeEnd\<close>.\<close>

type_synonym period_params = "(pb_time option \<times> pb_time option) option"

definition period_request ::
    "ext \<Rightarrow> string \<Rightarrow> period_params \<Rightarrow> 'd err + string \<times> time \<times> time" where
  "period_request x vertiportid params =
     sbind (parse_id x vertiportid) (\<lambda>i.
     case (case params of None \<Rightarrow> (None, None) | Some p \<Rightarrow> p) of
       (None, _) \<Rightarrow> Inl (coded BadRequest)
     | (Some st, None) \<Rightarrow> Inl (coded BadRequest)
     | (Some st, Some et) \<Rightarrow>
         (case x_ts_of_pb x (pt_Value st) of None \<Rightarrow> Inl (coded BadRequest) | Some startTime \<Rightarrow>
          case x_ts_of_pb x (pt_Value et) of None \<Rightarrow> Inl (coded BadRequest) | Some endTime \<Rightarrow>
          Inr (i, startTime, endTime)))"

definition zone_reservation :: "string \<Rightarrow> 32 word \<Rightarrow> time \<Rightarrow> time \<Rightarrow> vertiport_reservation" where
  "zone_reservation i zone startTime endTime =
     \<lparr>VertiportID = i, VertiportZone = zone,
      vr_StartTime = Some startTime, vr_EndTime = Some endTime\<rparr>"

text \<open>
  The error of the second search is overwritten before it is looked at, and the vertiport is
  dereferenced at the end without a check.
\<close>

definition used_places_action ::
    "ext \<Rightarrow> string \<times> time \<times> time \<Rightarrow> used_places_response vrp_tx" where
  "used_places_action x = (\<lambda>(i, startTime, endTime).
     bnd (wrap Propagate (vrp_GetVertiport x i)) (\<lambda>vertiport.
     bnd (wrap Propagate (vrp_SearchConstraints x
            (zone_reservation i ParkingStand startTime endTime))) (\<lambda>constraints.
     bnd (attempt (vrp_SearchOperationalIntents x
            (zone_reservation i ParkingStand startTime endTime))) (\<lambda>found.
     let operationalIntents = (case found of Inl e \<Rightarrow> [] | Inr ops \<Rightarrow> ops) in
     bnd (wrap Propagate (of_sum (ComputeNumberOfUsedParkingPlaces x constraints
            operationalIntents startTime endTime))) (\<lambda>numberOfUsedPlaces.
     bnd (deref vertiport) (\<lambda>v.
     ret \<lparr>upr_NumberOfUsedPlaces = numberOfUsedPlaces,
          upr_NumberOfAvailablePlaces = vp_NumberOfParkingPlaces v - numberOfUsedPlaces,
          upr_NumberOfPlaces = vp_NumberOfParkingPlaces v\<rparr>))))))"

definition GetNumberOfUsedParkingPlaces ::
    "ext \<Rightarrow> string \<Rightarrow> period_params \<Rightarrow> vrp_db \<Rightarrow> (vrp_err + used_places_response) \<times> vrp_db" where
  "GetNumberOfUsedParkingPlaces x vertiportid params =
     serve (period_request x vertiportid params) (used_places_action x)"

definition available_times_action ::
    "ext \<Rightarrow> string \<times> time \<times> time \<Rightarrow> pb_time_period list vrp_tx" where
  "available_times_action x = (\<lambda>(i, startTime, endTime).
     bnd (wrap Propagate (vrp_SearchConstraints x
            (zone_reservation i FATO startTime endTime))) (\<lambda>constraints.
     bnd (wrap Propagate (vrp_SearchOperationalIntents x
            (zone_reservation i FATO startTime endTime))) (\<lambda>operationalIntents.
     bnd (wrap Propagate (of_sum (ComputeFreeTimePeriods constraints operationalIntents
            startTime endTime))) (\<lambda>timePeriods.
     of_sum (smap (\<lambda>p. swrap Propagate (TimePeriod_ToProto x p)) timePeriods)))))"

definition GetVertiportFATOAvailableTimes ::
    "ext \<Rightarrow> string \<Rightarrow> period_params \<Rightarrow> vrp_db \<Rightarrow> (vrp_err + pb_time_period list) \<times> vrp_db" where
  "GetVertiportFATOAvailableTimes x vertiportid params =
     serve (period_request x vertiportid params) (available_times_action x)"

definition put_vertiport_action ::
    "ext \<Rightarrow> string \<Rightarrow> vertiport \<Rightarrow> pb_vertiport vrp_tx" where
  "put_vertiport_action x vertiportid subreq =
     bnd (wrap Propagate (vrp_UpsertVertiport x subreq)) (\<lambda>_.
     ret \<lparr>pvp_Id = vertiportid, pvp_NumberOfParkingPlaces = vp_NumberOfParkingPlaces subreq\<rparr>)"

definition PutVertiport ::
    "ext \<Rightarrow> string \<Rightarrow> 32 word option \<Rightarrow> vrp_db \<Rightarrow> (vrp_err + pb_vertiport) \<times> vrp_db" where
  "PutVertiport x vertiportid params =
     serve (sbind (parse_id x vertiportid) (\<lambda>i.
            sbind (sderef params) (\<lambda>n. Inr \<lparr>vp_ID = i, vp_NumberOfParkingPlaces = n\<rparr>)))
       (put_vertiport_action x vertiportid)"

definition CreateVertiport ::
    "ext \<Rightarrow> string \<Rightarrow> 32 word option \<Rightarrow> vrp_db \<Rightarrow> (vrp_err + pb_vertiport) \<times> vrp_db" where
  "CreateVertiport x vertiportid params = PutVertiport x vertiportid params"

definition UpdateVertiport ::
    "ext \<Rightarrow> string \<Rightarrow> 32 word option \<Rightarrow> vrp_db \<Rightarrow> (vrp_err + pb_vertiport) \<times> vrp_db" where
  "UpdateVertiport x vertiportid params = PutVertiport x vertiportid params"

definition delete_vertiport_action :: "ext \<Rightarrow> string \<Rightarrow> string \<Rightarrow> pb_vertiport vrp_tx" where
  "delete_vertiport_action x vertiportid i =
     bnd (wrap Propagate (vrp_GetVertiport x i)) (\<lambda>old.
     case old of None \<Rightarrow> fail (coded NotFound) | Some old \<Rightarrow>
     seq (wrap Propagate (vrp_DeleteVertiport x i))
     (ret \<lparr>pvp_Id = vertiportid, pvp_NumberOfParkingPlaces = vp_NumberOfParkingPlaces old\<rparr>))"

definition DeleteVertiport ::
    "ext \<Rightarrow> string \<Rightarrow> vrp_db \<Rightarrow> (vrp_err + pb_vertiport) \<times> vrp_db" where
  "DeleteVertiport x vertiportid =
     serve (parse_id x vertiportid) (delete_vertiport_action x vertiportid)"

definition get_vertiport_action :: "ext \<Rightarrow> string \<Rightarrow> string \<Rightarrow> pb_vertiport vrp_tx" where
  "get_vertiport_action x vertiportid i =
     bnd (wrap Propagate (vrp_GetVertiport x i)) (\<lambda>v.
     case v of None \<Rightarrow> fail (coded NotFound) | Some v \<Rightarrow>
     ret \<lparr>pvp_Id = vertiportid, pvp_NumberOfParkingPlaces = vp_NumberOfParkingPlaces v\<rparr>)"

definition GetVertiport ::
    "ext \<Rightarrow> string \<Rightarrow> vrp_db \<Rightarrow> (vrp_err + pb_vertiport) \<times> vrp_db" where
  "GetVertiport x vertiportid =
     serve (parse_id x vertiportid) (get_vertiport_action x vertiportid)"

section \<open>What the actions do\<close>

lemma pure_get_vcon_or_404 [pure_intros]: "pure_tx (get_vcon_or_404 x i)"
  by (auto simp: get_vcon_or_404_def intro!: pure_intros split: sum.split err.split)

lemma get_vcon_or_404_Inr [tx_inv]:
  "get_vcon_or_404 x i s = Inr (r, s') \<longleftrightarrow> vrp_GetConstraint x i s = Inr (r, s')"
  by (auto simp: get_vcon_or_404_def bnd_def attempt_def fail_def ret_def
      split: sum.splits err.splits)

lemma put_vcon_old_Inr:
  assumes "put_vcon_old x q s = Inr (version, s')"
  shows "\<exists>uid. x_pg_uuid x (vcq_id q) = Some uid \<and> s' = s \<and>
    (case tbl_get (vdb_cons s) uid of
       None \<Rightarrow> version = 0 \<and> vcq_ovn q = ''''
     | Some r \<Rightarrow> version = vcr_version r \<and> vcr_owner r = vcq_manager q \<and>
         vcq_ovn q = NewOVNFromTime x (vcr_updated_at r) uid)"
  using assms
  by (cases "x_pg_uuid x (vcq_id q)"; cases "tbl_get (vdb_cons s) (the (x_pg_uuid x (vcq_id q)))")
    (auto simp: put_vcon_old_def vrp_GetConstraint_def PgUUID_def bnd_def attempt_def wrap_def
      of_sum_def gets_def fail_def ret_def rewrap_def seq_def check_def split: if_splits)

lemma new_vcon_simps [simp]:
  "vc_ID (new_vcon q version) = vcq_id q"
  "vc_Manager (new_vcon q version) = vcq_manager q"
  "vc_Version (new_vcon q version) = version + 1"
  "vc_StartTime (new_vcon q version) = vr_StartTime (vcq_reservation q)"
  "vc_EndTime (new_vcon q version) = vr_EndTime (vcq_reservation q)"
  "vc_VertiportID (new_vcon q version) = VertiportID (vcq_reservation q)"
  "vc_VertiportZone (new_vcon q version) = VertiportZone (vcq_reservation q)"
  by (simp_all add: new_vcon_def)

lemma put_vcon_action_Inr:
  assumes "put_vcon_action x c q s = Inr (resp, s')"
  obtains version uid allsubs subs s1 where
    "put_vcon_old x q s = Inr (version, s)" "x_pg_uuid x (vcq_id q) = Some uid"
    "times_check (vr_StartTime (vcq_reservation q)) (vr_EndTime (vcq_reservation q))"
    "s1 = s\<lparr>vdb_cons := tbl_upsert uid (vcon_row_of (c_txn c) (new_vcon q version)) (vdb_cons s)\<rparr>"
    "vrp_SearchSubscriptions x (vcq_reservation q) s1 = Inr (allsubs, s1)"
    "vrp_subs_IncrementNotificationIndices x (filter vs_NotifyForConstraints allsubs) s1 =
       Inr (subs, s')"
    "cvc_Subscribers resp = v_makeSubscribersToNotify x subs"
proof -
  from assms obtain version s0 con s1 allsubs s1' subs where
    old: "put_vcon_old x q s = Inr (version, s0)" and
    ups: "vrp_UpsertConstraint x (c_txn c) (new_vcon q version) s0 = Inr (con, s1)" and
    search: "vrp_SearchSubscriptions x (vcq_reservation q) s1 = Inr (allsubs, s1')" and
    inc: "vrp_subs_IncrementNotificationIndices x (filter vs_NotifyForConstraints allsubs) s1' =
       Inr (subs, s')" and
    resp: "cvc_Subscribers resp = v_makeSubscribersToNotify x subs"
    by (auto simp: put_vcon_action_def bnd_Inr of_sum_Inr ret_Inr)
  from put_vcon_old_Inr [OF old] have s0: "s0 = s" by auto
  from pure_txD [OF pure_vrp_searches(2) search] have s1': "s1' = s1" .
  from ups obtain uid where "x_pg_uuid x (vcq_id q) = Some uid"
      "times_check (vr_StartTime (vcq_reservation q)) (vr_EndTime (vcq_reservation q))"
      "s1 = s\<lparr>vdb_cons := tbl_upsert uid (vcon_row_of (c_txn c) (new_vcon q version)) (vdb_cons s)\<rparr>"
    by (auto simp: vrp_UpsertConstraint_Inr s0)
  with old search inc resp show thesis
    by (intro that [where uid = uid]) (simp_all add: s0 s1')
qed

lemma delete_vcon_action_Inr:
  assumes "delete_vcon_action x (i, manager) s = Inr (resp, s')"
  obtains uid r allsubs s1 subs where
    "x_pg_uuid x i = Some uid" "tbl_get (vdb_cons s) uid = Some r" "vcr_owner r = manager"
    "vrp_SearchSubscriptions x (vcon_reservation (fetch_vcon x (uid, r))) s = Inr (allsubs, s)"
    "s1 = s\<lparr>vdb_cons := tbl_delete uid (vdb_cons s)\<rparr>"
    "vrp_subs_IncrementNotificationIndices x (filter vs_NotifyForConstraints allsubs) s1 =
       Inr (subs, s')"
    "cvc_Subscribers resp = v_makeSubscribersToNotify x subs"
proof -
  from assms obtain uid r allsubs s0 subs where
    "x_pg_uuid x i = Some uid" "tbl_get (vdb_cons s) uid = Some r" "vcr_owner r = manager"
    "vrp_SearchSubscriptions x (vcon_reservation (fetch_vcon x (uid, r))) s = Inr (allsubs, s0)"
    "vrp_subs_IncrementNotificationIndices x (filter vs_NotifyForConstraints allsubs)
       (s0\<lparr>vdb_cons := tbl_delete uid (vdb_cons s0)\<rparr>) = Inr (subs, s')"
    "cvc_Subscribers resp = v_makeSubscribersToNotify x subs"
    by (auto simp: delete_vcon_action_def bnd_Inr seq_Inr wrap_Inr of_sum_Inr ret_Inr check_Inr
        get_vcon_or_404_Inr vrp_GetConstraint_Inr vrp_DeleteConstraint_Inr)
  moreover from this have "s0 = s" by (auto dest: pure_txD [OF pure_vrp_searches(2)])
  ultimately show thesis by (intro that) auto
qed

text \<open>The actions that read.\<close>

lemma pure_vertiport_reads [pure_intros]:
  "pure_tx (used_places_action x q)" "pure_tx (available_times_action x q)"
  "pure_tx (get_vertiport_action x vertiportid i)"
  unfolding used_places_action_def available_times_action_def get_vertiport_action_def Let_def
  by (auto intro!: pure_intros split: option.split prod.split)

end
