(* ===== verification/Vrp_System.thy ===== *)
theory Vrp_System
  imports Vrp_Subscriptions Vrp_Constraints
begin

text \<open>
  The vertiport service as a whole: its requests, one transaction per request, the integrity of
  its database and the states its requests lead to.
\<close>

section \<open>Requests\<close>

datatype vrp_request =
    ReqDeleteVOp string
  | ReqGetVOp string
  | ReqQueryVOps "pb_vertiport_reservation option option"
  | ReqCreateVOp string "put_vop_params option"
  | ReqUpdateVOp string string "put_vop_params option"
  | ReqCreateVSub string "put_vsub_params option"
  | ReqUpdateVSub string string "put_vsub_params option"
  | ReqGetVSub string
  | ReqQueryVSubs "pb_vertiport_reservation option option"
  | ReqDeleteVSub string
  | ReqDeleteVCon string
  | ReqGetVCon string
  | ReqCreateVCon string "put_vcon_params option"
  | ReqUpdateVCon string string "put_vcon_params option"
  | ReqQueryVCons "pb_vertiport_reservation option option"
  | ReqUsedPlaces string period_params
  | ReqAvailableTimes string period_params
  | ReqCreateVertiport string "32 word option"
  | ReqUpdateVertiport string "32 word option"
  | ReqDeleteVertiport string
  | ReqGetVertiport string

datatype vrp_response =
    RespChangeVOp change_vop_response
  | RespVOp pb_operational_intent
  | RespVOps "pb_operational_intent list"
  | RespPutVSub put_vsub_response
  | RespVSub pb_subscription
  | RespVSubs "pb_subscription list"
  | RespChangeVCon change_vcon_response
  | RespVCon pb_constraint
  | RespVCons "pb_constraint list"
  | RespUsedPlaces used_places_response
  | RespAvailableTimes "pb_time_period list"
  | RespVertiport pb_vertiport

fun vrp_serve ::
    "ext \<Rightarrow> call \<Rightarrow> vrp_request \<Rightarrow> vrp_db \<Rightarrow> (vrp_err + vrp_response) \<times> vrp_db" where
  "vrp_serve x c (ReqDeleteVOp i) db = respond RespChangeVOp (DeleteVertiportOperationalIntentReference x c i db)"
| "vrp_serve x c (ReqGetVOp i) db = respond RespVOp (GetVertiportOperationalIntentReference x c i db)"
| "vrp_serve x c (ReqQueryVOps p) db = respond RespVOps (QueryVertiportOperationalIntentReferences x c p db)"
| "vrp_serve x c (ReqCreateVOp i p) db = respond RespChangeVOp (CreateVertiportOperationalIntentReference x c i p db)"
| "vrp_serve x c (ReqUpdateVOp i v p) db = respond RespChangeVOp (UpdateVertiportOperationalIntentReference x c i v p db)"
| "vrp_serve x c (ReqCreateVSub i p) db = respond RespPutVSub (CreateVertiportSubscription x c i p db)"
| "vrp_serve x c (ReqUpdateVSub i v p) db = respond RespPutVSub (UpdateVertiportSubscription x c i v p db)"
| "vrp_serve x c (ReqGetVSub i) db = respond RespVSub (GetVertiportSubscription x c i db)"
| "vrp_serve x c (ReqQueryVSubs p) db = respond RespVSubs (QueryVertiportSubscriptions x c p db)"
| "vrp_serve x c (ReqDeleteVSub i) db = respond RespVSub (DeleteVertiportSubscription x c i db)"
| "vrp_serve x c (ReqDeleteVCon i) db = respond RespChangeVCon (DeleteVertiportConstraintReference x c i db)"
| "vrp_serve x c (ReqGetVCon i) db = respond RespVCon (GetVertiportConstraintReference x c i db)"
| "vrp_serve x c (ReqCreateVCon i p) db = respond RespChangeVCon (CreateVertiportConstraintReference x c i p db)"
| "vrp_serve x c (ReqUpdateVCon i v p) db = respond RespChangeVCon (UpdateVertiportConstraintReference x c i v p db)"
| "vrp_serve x c (ReqQueryVCons p) db = respond RespVCons (QueryVertiportConstraintReferences x c p db)"
| "vrp_serve x c (ReqUsedPlaces i p) db = respond RespUsedPlaces (GetNumberOfUsedParkingPlaces x i p db)"
| "vrp_serve x c (ReqAvailableTimes i p) db = respond RespAvailableTimes (GetVertiportFATOAvailableTimes x i p db)"
| "vrp_serve x c (ReqCreateVertiport i n) db = respond RespVertiport (CreateVertiport x i n db)"
| "vrp_serve x c (ReqUpdateVertiport i n) db = respond RespVertiport (UpdateVertiport x i n db)"
| "vrp_serve x c (ReqDeleteVertiport i) db = respond RespVertiport (DeleteVertiport x i db)"
| "vrp_serve x c (ReqGetVertiport i) db = respond RespVertiport (GetVertiport x i db)"

section \<open>What a request does to the database\<close>

inductive vrp_commits :: "ext \<Rightarrow> call \<Rightarrow> vrp_db \<Rightarrow> vrp_db \<Rightarrow> bool" for x c where
  put_vop: "validate_put_vop x c i ovn p = (Inr q :: vrp_err + _) \<Longrightarrow>
     put_vop_action x c q db = Inr (r, db') \<Longrightarrow> vrp_commits x c db db'"
| delete_vop: "c_manager c = Some m \<Longrightarrow>
     delete_vop_action x (i, m) db = Inr (r, db') \<Longrightarrow> vrp_commits x c db db'"
| put_vsub: "validate_put_vsub x c i v p = (Inr q :: vrp_err + _) \<Longrightarrow>
     put_vsub_action x c q db = Inr (r, db') \<Longrightarrow> vrp_commits x c db db'"
| delete_vsub: "c_manager c = Some m \<Longrightarrow>
     delete_vsub_action x (i, m) db = Inr (r, db') \<Longrightarrow> vrp_commits x c db db'"
| put_vcon: "validate_put_vcon x c i ovn p = (Inr q :: vrp_err + _) \<Longrightarrow>
     put_vcon_action x c q db = Inr (r, db') \<Longrightarrow> vrp_commits x c db db'"
| delete_vcon: "c_manager c = Some m \<Longrightarrow>
     delete_vcon_action x (i, m) db = Inr (r, db') \<Longrightarrow> vrp_commits x c db db'"
| vertiports: "db' = db\<lparr>vdb_ports := t\<rparr> \<Longrightarrow> vrp_commits x c db db'"

lemma put_vertiport_Inr:
  "put_vertiport_action x vid v s = Inr (r, s') \<Longrightarrow> \<exists>t. s' = s\<lparr>vdb_ports := t\<rparr>"
  by (auto simp: put_vertiport_action_def tx_inv)

lemma delete_vertiport_Inr:
  "delete_vertiport_action x vid i s = Inr (r, s') \<Longrightarrow> \<exists>t. s' = s\<lparr>vdb_ports := t\<rparr>"
  by (auto simp: delete_vertiport_action_def tx_inv)

lemma pure_vrp_actions [pure_intros]:
  "pure_tx (get_vop_action x q)" "pure_tx (query_vops_action x q')" "pure_tx (get_vsub_action x q)"
  "pure_tx (query_vsubs_action x q')" "pure_tx (get_vcon_action x q)"
  "pure_tx (query_vcons_action x q')"
  unfolding get_vop_action_def query_vops_action_def get_vsub_action_def query_vsubs_action_def
    get_vcon_action_def query_vcons_action_def
  by (auto intro!: pure_intros split: option.split prod.split)

lemma vrp_serve_commits:
  "vrp_commits x c db (snd (vrp_serve x c req db)) \<or> snd (vrp_serve x c req db) = db"
proof -
  let ?P = "\<lambda>db'. vrp_commits x c db db' \<or> db' = db"
  have op: "?P (snd (PutVertiportOperationalIntentReference x c i v p db))" for i v p
    unfolding PutVertiportOperationalIntentReference_def
    by (rule serve_commits) (auto intro: vrp_commits.put_vop)
  have sub: "?P (snd (PutVertiportSubscription x c i v p db))" for i v p
    unfolding PutVertiportSubscription_def
    by (rule serve_commits) (auto intro: vrp_commits.put_vsub)
  have con: "?P (snd (PutVertiportConstraintReference x c i v p db))" for i v p
    unfolding PutVertiportConstraintReference_def
    by (rule serve_commits) (auto intro: vrp_commits.put_vcon)
  have dop: "?P (snd (DeleteVertiportOperationalIntentReference x c i db))" for i
    unfolding DeleteVertiportOperationalIntentReference_def
    by (rule serve_commits) (auto dest!: entity_request_Inr intro: vrp_commits.delete_vop)
  have dsub: "?P (snd (DeleteVertiportSubscription x c i db))" for i
    unfolding DeleteVertiportSubscription_def
    by (rule serve_commits) (auto dest!: entity_request_Inr intro: vrp_commits.delete_vsub)
  have dcon: "?P (snd (DeleteVertiportConstraintReference x c i db))" for i
    unfolding DeleteVertiportConstraintReference_def
    by (rule serve_commits) (auto dest!: entity_request_Inr intro: vrp_commits.delete_vcon)
  have pv: "?P (snd (PutVertiport x i n db))" and dv: "?P (snd (DeleteVertiport x i db))" for i n
    unfolding PutVertiport_def DeleteVertiport_def
    by (rule serve_commits; auto dest!: put_vertiport_Inr delete_vertiport_Inr intro: vrp_commits.vertiports)+
  show ?thesis
    by (cases req)
      (simp_all add: op sub con dop dsub dcon pv dv serve_pure pure_intros
        CreateVertiportOperationalIntentReference_def UpdateVertiportOperationalIntentReference_def
        CreateVertiportSubscription_def UpdateVertiportSubscription_def
        CreateVertiportConstraintReference_def UpdateVertiportConstraintReference_def
        GetVertiportOperationalIntentReference_def QueryVertiportOperationalIntentReferences_def
        GetVertiportSubscription_def QueryVertiportSubscriptions_def
        GetVertiportConstraintReference_def QueryVertiportConstraintReferences_def
        GetNumberOfUsedParkingPlaces_def GetVertiportFATOAvailableTimes_def
        CreateVertiport_def UpdateVertiport_def GetVertiport_def)
qed

section \<open>Integrity\<close>

text \<open>
  A subscription supports an operational intent of its owner in time. One that is not implicit
  also has its vertiport and zone; an implicit one may have been moved to another vertiport
  since, by another operational intent that uses it.
\<close>

definition vsub_supports :: "vsub_row \<Rightarrow> vop_row \<Rightarrow> bool" where
  "vsub_supports s r \<longleftrightarrow>
     vsr_owner s = vor_owner r \<and>
     times_support (vsr_starts_at s) (vsr_ends_at s) (vor_starts_at r) (vor_ends_at r) \<and>
     (vsr_implicit s \<or>
        vsr_vertiport_id s = vor_vertiport_id r \<and> vsr_vertiport_zone s = vor_vertiport_zone r)"

definition vsub_row_ok :: "vsub_row \<Rightarrow> bool" where
  "vsub_row_ok s \<longleftrightarrow>
     times_ordered (vsr_starts_at s) (vsr_ends_at s) \<and>
     0 \<le> vsr_notification_index s \<and> vsr_notification_index s < 2 ^ 31 \<and>
     (vsr_notify_for_operations s \<or> vsr_notify_for_constraints s)"

text \<open>Reservations have both ends, the first before the second.\<close>

definition vrp_ok :: "ext \<Rightarrow> vrp_db \<Rightarrow> bool" where
  "vrp_ok x db \<longleftrightarrow>
     refs_ok (pg_canonical x) vor_subscription_id vsub_supports vsub_row_ok
       (vdb_ops db) (vdb_subs db) \<and>
     (\<forall>k r. tbl_get (vdb_ops db) k = Some r \<longrightarrow> times_ordered (vor_starts_at r) (vor_ends_at r)) \<and>
     tbl_wf (vdb_cons db) \<and>
     (\<forall>k r. tbl_get (vdb_cons db) k = Some r \<longrightarrow> times_ordered (vcr_starts_at r) (vcr_ends_at r))"

interpretation vrp_refs: supported "pg_canonical x" vor_subscription_id vsub_supports vsub_row_ok
  bump_vsub vsub_room for x
  by unfold_locales (auto simp: vsub_supports_def vsub_row_ok_def bump_vsub_def vsub_room_def)

lemma vrp_ok_refs: "vrp_ok x db \<Longrightarrow>
    refs_ok (pg_canonical x) vor_subscription_id vsub_supports vsub_row_ok (vdb_ops db) (vdb_subs db)"
  by (simp add: vrp_ok_def)

lemma keeps_vrp_increment: "keeps (vrp_ok x) (vrp_subs_IncrementNotificationIndices x ss)"
proof (rule keepsI)
  fix s a s'
  assume ok: "vrp_ok x s" and run: "vrp_subs_IncrementNotificationIndices x ss s = Inr (a, s')"
  show "vrp_ok x s'"
  proof (rule vrp_subs_IncrementNotificationIndices_Inr [OF run])
    fix uids
    assume room: "\<And>k q. k \<in> set uids \<Longrightarrow> tbl_get (vdb_subs s) k = Some q \<Longrightarrow> vsub_room q"
      and s': "s' = s\<lparr>vdb_subs := tbl_update_any uids bump_vsub (vdb_subs s)\<rparr>"
    from vrp_refs.bump_subs [OF vrp_ok_refs [OF ok] room] ok show ?thesis
      by (simp add: s' vrp_ok_def)
  qed
qed

subsection \<open>The subscription of an operational intent\<close>

text \<open>What the four steps leave of the subscription they start from.\<close>

definition v_fits :: "vertiport_reservation \<Rightarrow> v_subscription \<Rightarrow> v_subscription \<Rightarrow> bool" where
  "v_fits v s0 s \<longleftrightarrow>
     vs_ID s = vs_ID s0 \<and> vs_Manager s = vs_Manager s0 \<and>
     vs_NotificationIndex s = vs_NotificationIndex s0 \<and>
     vs_NotifyForOperationalIntents s = vs_NotifyForOperationalIntents s0 \<and>
     vs_NotifyForConstraints s = vs_NotifyForConstraints s0 \<and>
     vs_ImplicitSubscription s = vs_ImplicitSubscription s0 \<and>
     le_or_null (vs_StartTime s) (vr_StartTime v) \<and> le_or_null (vs_StartTime s) (vs_StartTime s0) \<and>
     le_or_null (vr_EndTime v) (vs_EndTime s) \<and> le_or_null (vs_EndTime s0) (vs_EndTime s) \<and>
     (vs_StartTime s = None \<longleftrightarrow> vs_StartTime s0 = None) \<and>
     (vs_EndTime s = None \<longleftrightarrow> vs_EndTime s0 = None) \<and>
     vs_VertiportID s = VertiportID v \<and> vs_VertiportZone s = VertiportZone v \<and>
     (\<not> vs_ImplicitSubscription s0 \<longrightarrow>
        vs_VertiportID s0 = VertiportID v \<and> vs_VertiportZone s0 = VertiportZone v)"

lemma v_steps_fit:
  assumes "v_widen_start v s0 = (Inr (s1, u1) :: 'd err + _)"
    and "v_widen_end v s1 = (Inr (s2, u2) :: 'd err + _)"
    and "v_move_vertiport v s2 = (Inr (s3, u3) :: 'd err + _)"
    and "v_move_zone v s3 = (Inr (s4, u4) :: 'd err + _)"
    and "vr_StartTime v = Some st" and "vr_EndTime v = Some et"
  shows "v_fits v s0 s4 \<and> (\<not> (u1 \<or> u2 \<or> u3 \<or> u4) \<longrightarrow> s4 = s0)"
proof -
  have 1: "s1 = s0\<lparr>vs_StartTime := vs_StartTime s1\<rparr> \<and> le_or_null (vs_StartTime s1) (Some st) \<and>
     le_or_null (vs_StartTime s1) (vs_StartTime s0) \<and>
     (vs_StartTime s1 = None \<longleftrightarrow> vs_StartTime s0 = None) \<and> (\<not> u1 \<longrightarrow> s1 = s0)"
    using assms(1,5) by (cases "vs_StartTime s0") (auto simp: v_widen_start_def tx_inv split: if_splits)
  have 2: "s2 = s1\<lparr>vs_EndTime := vs_EndTime s2\<rparr> \<and> le_or_null (Some et) (vs_EndTime s2) \<and>
     le_or_null (vs_EndTime s1) (vs_EndTime s2) \<and>
     (vs_EndTime s2 = None \<longleftrightarrow> vs_EndTime s1 = None) \<and> (\<not> u2 \<longrightarrow> s2 = s1)"
    using assms(2,6) by (cases "vs_EndTime s1") (auto simp: v_widen_end_def tx_inv split: if_splits)
  have 3: "s3 = s2\<lparr>vs_VertiportID := VertiportID v\<rparr> \<and> (\<not> u3 \<longrightarrow> s3 = s2) \<and>
     (\<not> vs_ImplicitSubscription s2 \<longrightarrow> vs_VertiportID s2 = VertiportID v)"
    using assms(3) by (auto simp: v_move_vertiport_def split: if_splits)
  have 4: "s4 = s3\<lparr>vs_VertiportZone := VertiportZone v\<rparr> \<and> (\<not> u4 \<longrightarrow> s4 = s3) \<and>
     (\<not> vs_ImplicitSubscription s3 \<longrightarrow> vs_VertiportZone s3 = VertiportZone v)"
    using assms(4) by (auto simp: v_move_zone_def split: if_splits)
  from 1 obtain a where s1: "s1 = s0\<lparr>vs_StartTime := a\<rparr>" by blast
  from 2 obtain b where s2: "s2 = s1\<lparr>vs_EndTime := b\<rparr>" by blast
  note s3 = conjunct1 [OF 3] and s4 = conjunct1 [OF 4]
  have "v_fits v s0 s4"
    using 1 2 3 4 assms(5,6) unfolding s4 s3 s2 s1 by (simp add: v_fits_def)
  moreover have "s4 = s0" if "\<not> (u1 \<or> u2 \<or> u3 \<or> u4)"
  proof -
    from that 1 2 3 4 have "s1 = s0" "s2 = s1" "s3 = s2" "s4 = s3" by blast+
    then show ?thesis by (simp only:)
  qed
  ultimately show ?thesis by blast
qed

text \<open>The row of the subscription after the step, and what it was before.\<close>

definition vrow_follows ::
    "vertiport_reservation \<Rightarrow> string \<Rightarrow> vsub_row option \<Rightarrow> vsub_row \<Rightarrow> bool" where
  "vrow_follows v manager r0 row \<longleftrightarrow>
     vsr_owner row = manager \<and>
     vsr_vertiport_id row = VertiportID v \<and> vsr_vertiport_zone row = VertiportZone v \<and>
     le_or_null (vsr_starts_at row) (vr_StartTime v) \<and> le_or_null (vr_EndTime v) (vsr_ends_at row) \<and>
     (case r0 of
        None \<Rightarrow> vsr_notification_index row = 0 \<and> vsr_notify_for_operations row \<and>
          vsr_starts_at row = vr_StartTime v \<and> vsr_ends_at row = vr_EndTime v
      | Some row0 \<Rightarrow>
          vsr_owner row0 = manager \<and>
          vsr_notification_index row = vsr_notification_index row0 \<and>
          vsr_notify_for_operations row = vsr_notify_for_operations row0 \<and>
          vsr_notify_for_constraints row = vsr_notify_for_constraints row0 \<and>
          (vsr_starts_at row = None \<longleftrightarrow> vsr_starts_at row0 = None) \<and>
          (vsr_ends_at row = None \<longleftrightarrow> vsr_ends_at row0 = None) \<and>
          (\<forall>r. vsub_supports row0 r \<longrightarrow> vsub_supports row r))"

definition v_fresh_uuid :: "ext \<Rightarrow> call \<Rightarrow> vrp_db \<Rightarrow> bool" where
  "v_fresh_uuid x c db \<longleftrightarrow>
     (case x_pg_uuid x (c_uuid c) of None \<Rightarrow> True | Some u \<Rightarrow> tbl_get (vdb_subs db) u = None)"

lemma v_fits_supports:
  assumes fits: "v_fits v (fetch_vsub x (k, r0)) s"
  shows "vsub_supports r0 r \<Longrightarrow> vsub_supports (vsub_row_of ts s) r"
  using fits
  by (cases "vsr_starts_at r0"; cases "vsr_ends_at r0"; cases "vs_StartTime s"; cases "vs_EndTime s")
    (auto simp: v_fits_def vsub_supports_def times_support_def split: option.splits)

lemma put_vop_subscription_Inr:
  assumes run: "put_vop_subscription x c q s = Inr (sub, s')"
    and idem: "uuid_idem x" and fresh: "v_fresh_uuid x c s"
    and st: "vr_StartTime (vq_reservation q) = Some st" and et: "vr_EndTime (vq_reservation q) = Some et"
  obtains uid row where
    "tbl_get (vdb_subs s') uid = Some row" "x_pg_uuid x (vs_ID sub) = Some uid"
    "pg_canonical x uid"
    "s' = s \<or> s' = s\<lparr>vdb_subs := tbl_upsert uid row (vdb_subs s)\<rparr> \<and>
       times_check (vsr_starts_at row) (vsr_ends_at row)"
    "vrow_follows (vq_reservation q) (vq_manager q) (tbl_get (vdb_subs s) uid) row"
proof (cases "ID_Empty (vq_subid q)")
  case True
  with run have "v_new_implicit_subscription x c q s = Inr (sub, s')"
    by (simp add: put_vop_subscription_def)
  then obtain uid url n where uid: "x_pg_uuid x (c_uuid c) = Some uid"
    and row: "s' = s\<lparr>vdb_subs := tbl_upsert uid
        (vsub_row_of (c_txn c) (v_implicit_subscription c q url n)) (vdb_subs s)\<rparr>"
      (is "s' = s\<lparr>vdb_subs := tbl_upsert uid ?row (vdb_subs s)\<rparr>")
    and chk: "times_check (vr_StartTime (vq_reservation q)) (vr_EndTime (vq_reservation q))"
    and id: "vs_ID sub = uid"
    by (auto simp: v_new_implicit_subscription_def tx_inv Let_def)
  show thesis
    by (rule that [of uid ?row])
      (use uid row chk id fresh idem st et in
        \<open>auto simp: vrow_follows_def v_fresh_uuid_def tbl_laws uuid_idem_def pg_canonical_def\<close>)
next
  case False
  with run have "v_use_subscription x c q s = Inr (sub, s')"
    by (simp add: put_vop_subscription_def)
  then obtain uid row0 s1 u1 s2 u2 s3 u3 s4 u4 where
    uid: "x_pg_uuid x (vq_subid q) = Some uid" and row0: "tbl_get (vdb_subs s) uid = Some row0" and
    own: "vsr_owner row0 = vq_manager q" and
    steps: "v_widen_start (vq_reservation q) (fetch_vsub x (uid, row0)) = (Inr (s1, u1) :: vrp_err + _)"
      "v_widen_end (vq_reservation q) s1 = (Inr (s2, u2) :: vrp_err + _)"
      "v_move_vertiport (vq_reservation q) s2 = (Inr (s3, u3) :: vrp_err + _)"
      "v_move_zone (vq_reservation q) s3 = (Inr (s4, u4) :: vrp_err + _)" and
    fin: "(if u1 \<or> u2 \<or> u3 \<or> u4 then wrap Propagate (vrp_UpsertSubscription x (c_txn c) s4)
          else ret s4) s = Inr (sub, s')"
    by (auto simp: v_use_subscription_def bnd_Inr seq_Inr wrap_Inr of_sum_Inr check_Inr
        case_option_Inr vrp_GetSubscription_Inr)
  from idem uid have can: "x_pg_uuid x uid = Some uid"
    by (auto simp: uuid_idem_def pg_canonical_def)
  let ?s0 = "fetch_vsub x (uid, row0)" and ?row = "vsub_row_of (c_txn c) s4"
  from v_steps_fit [OF steps st et] have fits: "v_fits (vq_reservation q) ?s0 s4"
    and stay: "\<not> (u1 \<or> u2 \<or> u3 \<or> u4) \<Longrightarrow> s4 = ?s0" by auto
  show thesis
  proof (cases "u1 \<or> u2 \<or> u3 \<or> u4")
    case True
    with fin fits can have "s' = s\<lparr>vdb_subs := tbl_upsert uid ?row (vdb_subs s)\<rparr>" "vs_ID sub = uid"
      "times_check (vsr_starts_at ?row) (vsr_ends_at ?row)"
      by (auto simp: wrap_Inr vrp_UpsertSubscription_Inr v_fits_def)
    then show thesis
      by (intro that [of uid ?row])
        (use row0 own can fits v_fits_supports [OF fits] in
          \<open>auto simp: tbl_laws vrow_follows_def v_fits_def pg_canonical_def\<close>)
  next
    case False
    with fin stay have "sub = ?s0" "s' = s" by (auto simp: ret_Inr)
    with stay [OF False] show thesis
      by (intro that [of uid row0])
        (use row0 own can fits in \<open>auto simp: vrow_follows_def v_fits_def pg_canonical_def\<close>)
  qed
qed

lemma vrow_follows_ok:
  assumes "vrow_follows v m r0 row" and "\<And>r. r0 = Some r \<Longrightarrow> vsub_row_ok r"
    and "times_check (vsr_starts_at row) (vsr_ends_at row)"
    and "vr_StartTime v = Some st" and "vr_EndTime v = Some et"
  shows "vsub_row_ok row"
  using assms
  by (cases r0; cases "vsr_starts_at row"; cases "vsr_ends_at row")
    (auto simp: vrow_follows_def vsub_row_ok_def times_ordered_def times_check_def split: option.splits)

lemma vok_put_op:
  assumes ok: "vrp_ok x s" and idem: "uuid_idem x" and fresh: "v_fresh_uuid x c s"
    and valid: "validate_put_vop x c i ovn p = Inr q" and run: "put_vop_action x c q s = Inr (resp, s')"
  shows "vrp_ok x s'"
proof (rule put_vop_action_Inr [OF run])
  fix version sub s1 opid subid s2 allsubs subs
  assume sub: "put_vop_subscription x c q s = Inr (sub, s1)"
    and opid: "x_pg_uuid x (vq_id q) = Some opid" and subid: "x_pg_uuid x (vs_ID sub) = Some subid"
    and chk: "times_check (vr_StartTime (vq_reservation q)) (vr_EndTime (vq_reservation q))"
    and s2: "s2 = s1\<lparr>vdb_ops := tbl_upsert opid (vop_row_of (c_txn c) subid (new_vop q version sub)) (vdb_ops s1)\<rparr>"
    and inc: "vrp_subs_IncrementNotificationIndices x (filter vs_NotifyForOperationalIntents allsubs) s2 =
       Inr (subs, s')"
  from validate_put_vop_Inr [OF valid] obtain st et where
    st: "vr_StartTime (vq_reservation q) = Some st" and et: "vr_EndTime (vq_reservation q) = Some et" by blast
  have "vrp_ok x s1 \<and> (\<exists>row. tbl_get (vdb_subs s1) subid = Some row \<and>
      vsub_supports row (vop_row_of (c_txn c) subid (new_vop q version sub)))"
  proof (rule put_vop_subscription_Inr [OF sub idem fresh st et])
    fix uid row
    assume row: "tbl_get (vdb_subs s1) uid = Some row" and id: "x_pg_uuid x (vs_ID sub) = Some uid"
      and can: "pg_canonical x uid"
      and s1: "s1 = s \<or> s1 = s\<lparr>vdb_subs := tbl_upsert uid row (vdb_subs s)\<rparr> \<and>
         times_check (vsr_starts_at row) (vsr_ends_at row)"
      and fol: "vrow_follows (vq_reservation q) (vq_manager q) (tbl_get (vdb_subs s) uid) row"
    note refs = vrp_ok_refs [OF ok]
    have "vrp_ok x s1"
      using s1
    proof
      assume upd: "s1 = s\<lparr>vdb_subs := tbl_upsert uid row (vdb_subs s)\<rparr> \<and>
         times_check (vsr_starts_at row) (vsr_ends_at row)"
      have "vsub_row_ok row"
        by (rule vrow_follows_ok [OF fol _ conjunct2 [OF upd] st et])
          (use vrp_refs.refs_sub [OF refs] in blast)
      then have "refs_ok (pg_canonical x) vor_subscription_id vsub_supports vsub_row_ok
          (vdb_ops s) (tbl_upsert uid row (vdb_subs s))"
        using fol by (cases "tbl_get (vdb_subs s) uid")
          (auto simp: vrow_follows_def intro: vrp_refs.new_sub [OF refs can] vrp_refs.widen_sub [OF refs can])
      with ok upd show ?thesis by (simp add: vrp_ok_def)
    qed (use ok in simp)
    moreover from vrp_refs.refs_sub [OF vrp_ok_refs [OF this] row]
    have "vsr_starts_at row \<noteq> None" "vsr_ends_at row \<noteq> None"
      by (auto simp: vsub_row_ok_def times_ordered_def split: option.splits)
    ultimately show ?thesis
      using row fol id subid st et
      by (auto simp: vsub_supports_def vrow_follows_def intro!: times_support_le)
  qed
  then obtain row where ok1: "vrp_ok x s1" and row: "tbl_get (vdb_subs s1) subid = Some row"
    "vsub_supports row (vop_row_of (c_txn c) subid (new_vop q version sub))" by blast
  have can: "pg_canonical x opid" using idem opid by (simp add: uuid_idem_def)
  have "vrp_ok x s2"
    using vrp_refs.put_op [OF vrp_ok_refs [OF ok1] can, of _ row] row ok1 chk st et
    by (auto simp: s2 vrp_ok_def tbl_laws times_ordered_def times_check_def)
  with inc show ?thesis by (rule keepsD [OF keeps_vrp_increment])
qed

lemma vok_delete_op:
  assumes ok: "vrp_ok x s" and run: "delete_vop_action x (i, m) s = Inr (resp, s')"
  shows "vrp_ok x s'"
proof (rule delete_vop_action_Inr [OF run])
  fix uid r sid sr rm allsubs subs s1 s2
  assume inc: "vrp_subs_IncrementNotificationIndices x (filter vs_NotifyForOperationalIntents allsubs) s =
       Inr (subs, s1)"
    and s2: "s2 = s1\<lparr>vdb_ops := tbl_delete uid (vdb_ops s1)\<rparr>"
    and fin: "(if rm then wrap Propagate (vrp_DeleteSubscription x sid) else ret ()) s2 = Inr ((), s')"
  have ok1: "vrp_ok x s1" using keepsD [OF keeps_vrp_increment inc ok] .
  from vrp_refs.delete_op [OF vrp_ok_refs [OF ok1]] ok1 have ok2: "vrp_ok x s2"
    by (auto simp: s2 vrp_ok_def tbl_laws split: if_splits)
  have wf: "tbl_wf (vdb_ops s2)" using vrp_refs.refs_wf [OF vrp_ok_refs [OF ok2]] by simp
  from vrp_refs.delete_sub [OF vrp_ok_refs [OF ok2]] ok2 fin wf show ?thesis
    by (auto simp: vrp_ok_def wrap_Inr ret_Inr vrp_DeleteSubscription_Inr tbl_laws
        split: if_splits option.splits)
qed

lemma vok_put_sub:
  assumes ok: "vrp_ok x s" and idem: "uuid_idem x"
    and valid: "validate_put_vsub x c i v p = Inr q" and run: "put_vsub_action x c q s = Inr (resp, s')"
  shows "vrp_ok x s'"
proof (rule put_vsub_action_Inr [OF run])
  fix uid old b e subreq deps
  assume uid: "x_pg_uuid x (vs_ID (vsq_subreq q)) = Some uid"
    and old: "old = map_option (\<lambda>r. fetch_vsub x (uid, r)) (tbl_get (vdb_subs s) uid)"
    and run_old: "put_vsub_old x old ((vsq_subreq q)\<lparr>vs_StartTime := Some b, vs_EndTime := Some e\<rparr>) s =
       Inr ((subreq, deps), s)"
    and "b < e"
    and s': "s' = s\<lparr>vdb_subs := tbl_upsert uid (vsub_row_of (c_txn c) subreq) (vdb_subs s)\<rparr>"
  note refs = vrp_ok_refs [OF ok] and checked = put_vsub_old_Inr [OF run_old]
    and v = validate_put_vsub_Inr [OF valid]
  have can: "pg_canonical x uid" using idem uid by (simp add: uuid_idem_def)
  have rok: "vsub_row_ok (vsub_row_of (c_txn c) subreq)"
    using checked v \<open>b < e\<close> vrp_refs.refs_sub [OF refs, of uid] old
    by (auto simp: vsub_row_ok_def times_ordered_def)
  have "vsub_supports (vsub_row_of (c_txn c) subreq) r"
    if r: "tbl_get (vdb_ops s) k' = Some r" and dep: "vor_subscription_id r = uid" for k' r
  proof -
    from vrp_refs.refs_op [OF refs r] dep obtain sr where
      sr: "tbl_get (vdb_subs s) uid = Some sr" "vsub_supports sr r" and k': "pg_canonical x k'" by auto
    with checked old obtain ops u where deps: "k' \<in> set deps" and
      ops: "GetVertiportOperations x deps s = Inr (ops, s)" and
      val: "v_ValidateDependentOps subreq ops = (Inr u :: vrp_err + unit)" and
      own: "vs_Manager subreq = vor_owner r"
      using uid r dep vrp_refs.refs_wf [OF refs]
      by (auto simp: vrp_GetDependentOperationalIntents_Inr vsub_supports_def tbl.set_select image_iff)
    from GetVertiportOperations_Inr [OF ops deps _ r] k' have "Some (fetch_vop x (k', r)) \<in> set ops"
      by (simp add: pg_canonical_def)
    from v_ValidateDependentOps_Inr [OF val this] have
      "v_ValidateDependentOp subreq (fetch_vop x (k', r)) = (Inr () :: unit err + unit)" by auto
    then show ?thesis
      by (rule v_ValidateDependentOp_Inr) (use own in \<open>auto simp: vsub_supports_def times_support_def\<close>)
  qed
  from vrp_refs.change_sub [OF refs can rok this] ok show ?thesis
    by (simp add: s' vrp_ok_def)
qed

lemma vok_delete_sub:
  assumes ok: "vrp_ok x s" and run: "delete_vsub_action x (i, m) s = Inr (resp, s')"
  shows "vrp_ok x s'"
proof (rule delete_vsub_action_Inr [OF run])
  fix uid
  assume s': "s' = s\<lparr>vdb_subs := tbl_delete uid (vdb_subs s),
            vdb_ops := tbl_delete_where (\<lambda>o'. vor_subscription_id o' = uid) (vdb_ops s)\<rparr>"
  have "tbl_wf (vdb_ops s)" using vrp_refs.refs_wf [OF vrp_ok_refs [OF ok]] by simp
  with vrp_refs.delete_sub [OF vrp_ok_refs [OF ok]] ok show ?thesis
    by (auto simp: s' vrp_ok_def tbl_laws split: option.splits if_splits)
qed

lemma vok_put_con:
  assumes ok: "vrp_ok x s" and valid: "validate_put_vcon x c i ovn p = Inr q"
    and run: "put_vcon_action x c q s = Inr (resp, s')"
  shows "vrp_ok x s'"
proof (rule put_vcon_action_Inr [OF run])
  fix version uid allsubs subs s1
  assume chk: "times_check (vr_StartTime (vcq_reservation q)) (vr_EndTime (vcq_reservation q))"
    and s1: "s1 = s\<lparr>vdb_cons := tbl_upsert uid (vcon_row_of (c_txn c) (new_vcon q version)) (vdb_cons s)\<rparr>"
    and inc: "vrp_subs_IncrementNotificationIndices x (filter vs_NotifyForConstraints allsubs) s1 =
       Inr (subs, s')"
  from valid obtain st et where "vr_StartTime (vcq_reservation q) = Some st"
    "vr_EndTime (vcq_reservation q) = Some et" by (auto simp: validate_put_vcon_def tx_inv)
  with ok chk have "vrp_ok x s1"
    by (auto simp: s1 vrp_ok_def tbl_laws tbl_wf_laws times_ordered_def times_check_def)
  with inc show ?thesis by (rule keepsD [OF keeps_vrp_increment])
qed

lemma vok_delete_con:
  assumes ok: "vrp_ok x s" and run: "delete_vcon_action x (i, m) s = Inr (resp, s')"
  shows "vrp_ok x s'"
proof (rule delete_vcon_action_Inr [OF run])
  fix uid r allsubs s1 subs
  assume s1: "s1 = s\<lparr>vdb_cons := tbl_delete uid (vdb_cons s)\<rparr>"
    and inc: "vrp_subs_IncrementNotificationIndices x (filter vs_NotifyForConstraints allsubs) s1 =
       Inr (subs, s')"
  from ok have "vrp_ok x s1" by (auto simp: s1 vrp_ok_def tbl_laws tbl_wf_laws split: if_splits)
  with inc show ?thesis by (rule keepsD [OF keeps_vrp_increment])
qed

section \<open>Reachable states\<close>

lemma vrp_commits_ok:
  "vrp_commits x c db db' \<Longrightarrow> vrp_ok x db \<Longrightarrow> uuid_idem x \<Longrightarrow> v_fresh_uuid x c db \<Longrightarrow> vrp_ok x db'"
proof (induction rule: vrp_commits.induct)
  case (vertiports db' db t)
  then show ?case by (simp add: vrp_ok_def)
qed (blast intro: vok_put_op vok_delete_op vok_put_sub vok_delete_sub vok_put_con vok_delete_con)+

definition vrp_empty :: "vrp_db \<Rightarrow> bool" where
  "vrp_empty db \<longleftrightarrow> vdb_ops db = [] \<and> vdb_subs db = [] \<and> vdb_cons db = [] \<and> vdb_ports db = []"

inductive vrp_reachable :: "ext \<Rightarrow> vrp_db \<Rightarrow> bool" for x where
  init: "vrp_empty db \<Longrightarrow> vrp_reachable x db"
| step: "vrp_reachable x db \<Longrightarrow> v_fresh_uuid x c db \<Longrightarrow> vrp_serve x c req db = (r, db') \<Longrightarrow>
     vrp_reachable x db'"

lemma vrp_reachable_ok: "vrp_reachable x db \<Longrightarrow> uuid_idem x \<Longrightarrow> vrp_ok x db"
proof (induction rule: vrp_reachable.induct)
  case (init db)
  then show ?case by (simp add: vrp_empty_def vrp_ok_def refs_ok_def tbl_wf_def tbl_get_def)
next
  case (step db c req r db')
  with vrp_serve_commits [of x c db req] show ?case by (auto dest: vrp_commits_ok)
qed

end
