(* ===== verification/Vrp_Example.thy ===== *)
theory Vrp_Example
  imports Vrp_System Dss_Example Dss_Details
begin

text \<open>
  A small instance: a vertiport, and two managers' reservations of its zones, with the libraries
  of \<open>Dss_Example\<close>. The properties' witnesses run on it.
\<close>

section \<open>Requests\<close>

definition exv_period :: "int \<Rightarrow> int \<Rightarrow> pb_time option \<times> pb_time option" where
  "exv_period b e =
     (Some \<lparr>pt_Value = Some (b, 0), pt_Format = ''RFC3339''\<rparr>,
      Some \<lparr>pt_Value = Some (e, 0), pt_Format = ''RFC3339''\<rparr>)"

definition exv_params ::
    "string \<Rightarrow> 32 word \<Rightarrow> int \<Rightarrow> int \<Rightarrow> string list \<Rightarrow> string \<Rightarrow> put_vop_params" where
  "exv_params v zone b e key subid =
     \<lparr>vpp_VertiportReservation = Some
        \<lparr>pvr_Vertiportid = v, pvr_ReservedZone = zone,
         pvr_TimeStart = fst (exv_period b e), pvr_TimeEnd = snd (exv_period b e)\<rparr>,
      vpp_Key = key, vpp_State = ''Accepted'', vpp_UssBaseUrl = ''https://a'',
      vpp_SubscriptionId = subid,
      vpp_NewSubscription = Some \<lparr>vip_UssBaseUrl = ''https://a'', vip_NotifyForConstraints = False\<rparr>\<rparr>"

definition exv_ovn1 :: string where
  "exv_ovn1 = NewOVNFromTime ex_ext 10000000 ''op1''"

text \<open>
  The vertiport; a parking place from 30 to 40; the landing area from 22 to 25; another
  manager's parking place from 20 to 30; a parking place of another vertiport, for which the
  first manager names the implicit subscription of its first reservation.
\<close>

definition exv_steps :: "(call \<times> vrp_request) list" where
  "exv_steps =
     [(ex_call ''uss1'' ''s0'' 9, ReqCreateVertiport ''v1'' (Some 2)),
      (ex_call ''uss1'' ''s1'' 10, ReqCreateVOp ''op1'' (Some (exv_params ''v1'' ParkingStand 30 40 [] ''''))),
      (ex_call ''uss1'' ''s2'' 11, ReqCreateVOp ''op2'' (Some (exv_params ''v1'' FATO 22 25 [] ''''))),
      (ex_call ''uss2'' ''s3'' 12, ReqCreateVOp ''op3'' (Some (exv_params ''v1'' ParkingStand 20 30 [exv_ovn1] ''''))),
      (ex_call ''uss1'' ''s4'' 13, ReqCreateVOp ''op4'' (Some (exv_params ''v2'' ParkingStand 30 40 [] ''s1'')))]"

definition exv_step :: "vrp_db \<Rightarrow> call \<times> vrp_request \<Rightarrow> vrp_db" where
  "exv_step db cr = snd (vrp_serve ex_ext (fst cr) (snd cr) db)"

definition exv_run :: "(call \<times> vrp_request) list \<Rightarrow> vrp_db" where
  "exv_run steps = foldl exv_step
     \<lparr>vdb_ops = [], vdb_subs = [], vdb_cons = [], vdb_ports = []\<rparr> steps"

definition exv_db1 :: vrp_db where "exv_db1 = exv_run (take 3 exv_steps)"
definition exv_db2 :: vrp_db where "exv_db2 = exv_run (take 4 exv_steps)"
definition exv_db3 :: vrp_db where "exv_db3 = exv_run exv_steps"

definition exv_op :: "string \<Rightarrow> 32 word \<Rightarrow> string \<Rightarrow> int \<Rightarrow> int \<Rightarrow> string \<Rightarrow> int \<Rightarrow> vop_row" where
  "exv_op v zone m b e subid ts =
     \<lparr>vor_owner = m, vor_version = 1, vor_url = ''https://a'', vor_vertiport_id = v,
      vor_vertiport_zone = zone, vor_starts_at = Some (b * 1000000), vor_ends_at = Some (e * 1000000),
      vor_subscription_id = subid, vor_updated_at = ts * 1000000, vor_state = ''Accepted''\<rparr>"

definition exv_sub :: "string \<Rightarrow> 32 word \<Rightarrow> string \<Rightarrow> int \<Rightarrow> int \<Rightarrow> int \<Rightarrow> int \<Rightarrow> vsub_row" where
  "exv_sub v zone m b e n ts =
     \<lparr>vsr_owner = m, vsr_version = 0, vsr_url = ''https://a'', vsr_notification_index = n,
      vsr_notify_for_operations = True, vsr_notify_for_constraints = False, vsr_implicit = True,
      vsr_starts_at = Some (b * 1000000), vsr_ends_at = Some (e * 1000000),
      vsr_vertiport_id = v, vsr_vertiport_zone = zone, vsr_updated_at = ts * 1000000\<rparr>"

lemma exv_db1: "exv_db1 =
   \<lparr>vdb_ops = [(''op1'', exv_op ''v1'' 1 ''uss1'' 30 40 ''s1'' 10), (''op2'', exv_op ''v1'' 0 ''uss1'' 22 25 ''s2'' 11)],
    vdb_subs = [(''s1'', exv_sub ''v1'' 1 ''uss1'' 30 40 1 10), (''s2'', exv_sub ''v1'' 0 ''uss1'' 22 25 1 11)],
    vdb_cons = [], vdb_ports = [(''v1'', 2)]\<rparr>"
  by code_simp

lemma exv_db2: "exv_db2 =
   \<lparr>vdb_ops = [(''op1'', exv_op ''v1'' 1 ''uss1'' 30 40 ''s1'' 10), (''op2'', exv_op ''v1'' 0 ''uss1'' 22 25 ''s2'' 11),
      (''op3'', exv_op ''v1'' 1 ''uss2'' 20 30 ''s3'' 12)],
    vdb_subs = [(''s1'', exv_sub ''v1'' 1 ''uss1'' 30 40 2 10), (''s2'', exv_sub ''v1'' 0 ''uss1'' 22 25 1 11),
      (''s3'', exv_sub ''v1'' 1 ''uss2'' 20 30 1 12)],
    vdb_cons = [], vdb_ports = [(''v1'', 2)]\<rparr>"
proof -
  have "exv_db2 = exv_step exv_db1 (exv_steps ! 3)"
    by (simp add: exv_db2_def exv_db1_def exv_run_def exv_steps_def)
  then show ?thesis unfolding exv_db1 by (rule trans) code_simp
qed

lemma exv_db3: "exv_db3 =
   \<lparr>vdb_ops = [(''op1'', exv_op ''v1'' 1 ''uss1'' 30 40 ''s1'' 10), (''op2'', exv_op ''v1'' 0 ''uss1'' 22 25 ''s2'' 11),
      (''op3'', exv_op ''v1'' 1 ''uss2'' 20 30 ''s3'' 12), (''op4'', exv_op ''v2'' 1 ''uss1'' 30 40 ''s1'' 13)],
    vdb_subs = [(''s1'', exv_sub ''v2'' 1 ''uss1'' 30 40 3 13), (''s2'', exv_sub ''v1'' 0 ''uss1'' 22 25 1 11),
      (''s3'', exv_sub ''v1'' 1 ''uss2'' 20 30 1 12)],
    vdb_cons = [], vdb_ports = [(''v1'', 2)]\<rparr>"
proof -
  have "exv_db3 = exv_step exv_db2 (exv_steps ! 4)"
    by (simp add: exv_db3_def exv_db2_def exv_run_def exv_steps_def)
  then show ?thesis unfolding exv_db2 by (rule trans) code_simp
qed

section \<open>The instance satisfies what the properties suppose\<close>

fun exv_fresh :: "(call \<times> vrp_request) list \<Rightarrow> vrp_db \<Rightarrow> bool" where
  "exv_fresh [] db \<longleftrightarrow> True"
| "exv_fresh ((c, req) # steps) db \<longleftrightarrow>
     v_fresh_uuid ex_ext c db \<and> exv_fresh steps (snd (vrp_serve ex_ext c req db))"

lemma exv_reachable_from:
  assumes "exv_fresh steps db" and "vrp_reachable ex_ext db"
  shows "vrp_reachable ex_ext (foldl exv_step db steps)"
  using assms
proof (induction steps arbitrary: db)
  case (Cons s steps)
  obtain c req where s: "s = (c, req)" by (cases s)
  from Cons.prems have "vrp_reachable ex_ext (snd (vrp_serve ex_ext c req db))"
    by (auto simp: s intro: vrp_reachable.step [of ex_ext db c req "fst (vrp_serve ex_ext c req db)"])
  with Cons show ?case by (simp add: s exv_step_def)
qed simp

lemma exv_fresh_take: "exv_fresh steps db \<Longrightarrow> exv_fresh (take n steps) db"
  by (induction steps db arbitrary: n rule: exv_fresh.induct) (auto simp: take_Cons split: nat.split)

lemma exv_all_fresh: "exv_fresh exv_steps \<lparr>vdb_ops = [], vdb_subs = [], vdb_cons = [], vdb_ports = []\<rparr>"
  by code_simp

lemma exv_reachable: "vrp_reachable ex_ext exv_db1" "vrp_reachable ex_ext exv_db2" "vrp_reachable ex_ext exv_db3"
proof -
  have init: "vrp_reachable ex_ext \<lparr>vdb_ops = [], vdb_subs = [], vdb_cons = [], vdb_ports = []\<rparr>"
    by (rule vrp_reachable.init) (simp add: vrp_empty_def)
  show "vrp_reachable ex_ext exv_db1" "vrp_reachable ex_ext exv_db2" "vrp_reachable ex_ext exv_db3"
    unfolding exv_db1_def exv_db2_def exv_db3_def exv_run_def
    by (intro exv_reachable_from exv_fresh_take exv_all_fresh init)+
qed

section \<open>Requests for a window\<close>

definition exv_used1 :: "(vrp_err + used_places_response) \<times> vrp_db" where
  "exv_used1 = GetNumberOfUsedParkingPlaces ex_ext ''v1'' (Some (exv_period 15 35)) exv_db1"

definition exv_used2 :: "(vrp_err + used_places_response) \<times> vrp_db" where
  "exv_used2 = GetNumberOfUsedParkingPlaces ex_ext ''v1'' (Some (exv_period 15 35)) exv_db2"

definition exv_free1 :: "(vrp_err + pb_time_period list) \<times> vrp_db" where
  "exv_free1 = GetVertiportFATOAvailableTimes ex_ext ''v1'' (Some (exv_period 20 30)) exv_db1"

lemma exv_used1: "exv_used1 =
    (Inr \<lparr>upr_NumberOfUsedPlaces = 1, upr_NumberOfAvailablePlaces = 1, upr_NumberOfPlaces = 2\<rparr>, exv_db1)"
  unfolding exv_used1_def exv_db1 by code_simp

lemma exv_used2: "exv_used2 =
    (Inr \<lparr>upr_NumberOfUsedPlaces = 2, upr_NumberOfAvailablePlaces = 0, upr_NumberOfPlaces = 2\<rparr>, exv_db2)"
  unfolding exv_used2_def exv_db2 by code_simp

lemma exv_free1: "exv_free1 =
    (Inr [\<lparr>ptp_From = fst (exv_period 20 22), ptp_To = snd (exv_period 20 22)\<rparr>,
          \<lparr>ptp_From = fst (exv_period 25 30), ptp_To = snd (exv_period 25 30)\<rparr>], exv_db1)"
  unfolding exv_free1_def exv_db1 by code_simp

lemma exv_period_request:
  "period_request ex_ext v (Some (exv_period b e)) =
     (Inr (v, b * 1000000, e * 1000000) :: 'd err + string \<times> time \<times> time)"
  by (simp add: period_request_def exv_period_def parse_id_def IDFromString_def srecode_def
      swrap_def sbind_def ex_ext_def)

section \<open>A reservation without and with the key\<close>

definition exv_denied :: "(vrp_err + vrp_response) \<times> vrp_db" where
  "exv_denied = vrp_serve ex_ext (ex_call ''uss2'' ''s3'' 12)
     (ReqCreateVOp ''op3'' (Some (exv_params ''v1'' ParkingStand 20 30 [] ''''))) exv_db1"

lemma exv_denied_detail:
  "map_sum (\<lambda>e. map (\<lambda>p. (poi_Id p, poi_Manager p)) (ac_MissingOperationalIntents (the (err_detail e))))
     (\<lambda>_. ()) (fst exv_denied) = Inl [(''op1'', ''uss1'')] \<and>
   map_sum (\<lambda>e. err_detail e \<noteq> None) (\<lambda>_. ()) (fst exv_denied) = Inl True"
  unfolding exv_denied_def exv_db1 by code_simp

lemma exv_granted:
  "\<exists>resp. PutVertiportOperationalIntentReference ex_ext (ex_call ''uss2'' ''s3'' 12) ''op3'' ''''
      (Some (exv_params ''v1'' ParkingStand 20 30 [exv_ovn1] '''')) exv_db1 = (Inr resp, exv_db2)"
proof -
  let ?r = "PutVertiportOperationalIntentReference ex_ext (ex_call ''uss2'' ''s3'' 12) ''op3'' ''''
      (Some (exv_params ''v1'' ParkingStand 20 30 [exv_ovn1] '''')) exv_db1"
  have "exv_db2 = exv_step exv_db1 (exv_steps ! 3)"
    by (simp add: exv_db2_def exv_db1_def exv_run_def exv_steps_def)
  then have "snd ?r = exv_db2"
    by (simp add: exv_step_def exv_steps_def CreateVertiportOperationalIntentReference_def)
  moreover have "\<not> isl (fst ?r)" unfolding exv_db1 by code_simp
  ultimately show ?thesis by (cases ?r; cases "fst ?r") auto
qed

end
