(* ===== verification/Vrp_Conflicts.thy ===== *)
theory Vrp_Conflicts
  imports Vrp_System Dss_Masking
begin

text \<open>
  What a client of the vertiport service learns of the others: the key it must give to reserve a
  zone, and the OVNs that the responses show.
\<close>

section \<open>Plain steps\<close>

lemma plain_v_models [plain_intros]:
  "plain_sum (VertiportOperationalIntent_ToProto x oi)" "plain_sum (VertiportSubscription_ToProto x s deps)"
  "plain_sum (VertiportConstraint_ToProto x c)" "plain_sum (VertiportReservationFromVRPProto x v)"
  "plain_sum (VertiportOperationalIntent_ValidateTimeRange oi)"
  by (auto simp: VertiportOperationalIntent_ToProto_def VertiportSubscription_ToProto_def
      VertiportConstraint_ToProto_def VertiportReservationFromVRPProto_def
      VertiportOperationalIntent_ValidateTimeRange_def intro!: plain_intros)

lemma plain_v_adjust [plain_intros]: "plain_sum (VertiportSubscription_AdjustTimeRange now s old)"
  by (auto simp: VertiportSubscription_AdjustTimeRange_def adjust_times_def Let_def
      intro!: plain_intros split: prod.split option.split)

lemma plain_v_ValidateDependentOps [plain_intros]: "plain_sum (v_ValidateDependentOps s ps)"
  by (induction s ps rule: v_ValidateDependentOps.induct)
    (auto simp: v_ValidateDependentOp_def intro!: plain_intros)

lemma plain_v_MissingOVNs [plain_intros]: "plain_sum (v_MissingOVNsErrorResponse x ops cons)"
  by (auto simp: v_MissingOVNsErrorResponse_def intro!: plain_intros)

lemma plain_IntersectsWith [plain_intros]: "plain_sum (IntersectsWith p q)"
  by (auto simp: IntersectsWith_def intro!: plain_intros)

lemma plain_Cut [plain_intros]: "plain_sum (Cut p q)"
  by (auto simp: Cut_def intro!: plain_intros)

lemma plain_cut_from [plain_intros]: "plain_sum (cut_from b ps)"
  by (induction b ps rule: cut_from.induct) (auto intro!: plain_intros)

lemma plain_cut_each [plain_intros]: "plain_sum (cut_each bs ps)"
  by (induction bs ps rule: cut_each.induct) (auto intro!: plain_intros)

lemma plain_changes_of [plain_intros]: "plain_sum (changes_of w tps)"
  by (induction w tps rule: changes_of.induct) (auto intro!: plain_intros)

lemma plain_v_times [plain_intros]: "plain_sum (TimePeriod_ToProto x p)"
  "plain_sum (ComputeFreeTimePeriods cons ops b e)"
  "plain_sum (ComputeNumberOfUsedParkingPlaces x cons ops b e)"
  by (auto simp: TimePeriod_ToProto_def ComputeFreeTimePeriods_def
      ComputeNumberOfUsedParkingPlaces_def intro!: plain_intros)

lemma plain_v_store [plain_intros]:
  "plain_tx (vrp_GetOperationalIntent x i)" "plain_tx (vrp_DeleteOperationalIntent x i)"
  "plain_tx (vrp_UpsertOperationalIntent x ts oi)" "plain_tx (vrp_SearchOperationalIntents x v)"
  "plain_tx (vrp_GetDependentOperationalIntents x i)"
  "plain_tx (vrp_GetSubscription x i)" "plain_tx (vrp_UpsertSubscription x ts q)"
  "plain_tx (vrp_DeleteSubscription x i)" "plain_tx (vrp_SearchSubscriptions x v)"
  unfolding vrp_GetOperationalIntent_def vrp_DeleteOperationalIntent_def check_violation_def
    vrp_UpsertOperationalIntent_def vrp_SearchOperationalIntents_def
    vrp_GetDependentOperationalIntents_def vrp_GetSubscription_def vrp_UpsertSubscription_def
    vrp_DeleteSubscription_def vrp_SearchSubscriptions_def
  by (auto intro!: plain_intros)

lemma plain_v_store' [plain_intros]:
  "plain_tx (vrp_subs_IncrementNotificationIndices x ss)"
  "plain_tx (vrp_GetConstraint x i)" "plain_tx (vrp_UpsertConstraint x ts c)"
  "plain_tx (vrp_DeleteConstraint x i)" "plain_tx (vrp_SearchConstraints x v)"
  "plain_tx (vrp_GetVertiport x i)" "plain_tx (vrp_DeleteVertiport x i)"
  "plain_tx (vrp_UpsertVertiport x vp)"
  unfolding vrp_subs_IncrementNotificationIndices_def vrp_IncrementNotificationIndices_def
    vrp_GetConstraint_def vrp_UpsertConstraint_def vrp_DeleteConstraint_def
    vrp_SearchConstraints_def vrp_GetVertiport_def vrp_DeleteVertiport_def vrp_UpsertVertiport_def
    check_violation_def
  by (auto intro!: plain_intros)

section \<open>Plain handlers\<close>

lemma plain_v_requests [plain_intros]:
  "plain_sum (query_vops_request x c p)" "plain_sum (query_vsubs_request x c p)"
  "plain_sum (query_vcons_request x c p)" "plain_sum (period_request x i pp)"
  by (auto simp: query_vops_request_def query_vsubs_request_def query_vcons_request_def
      period_request_def intro!: plain_intros split: option.split)

lemma plain_swrap_panic [plain_intros]: "plain_sum (swrap (\<lambda>_. Panic) r)"
  by (auto simp: plain_sum_def swrap_def rewrap_def split: sum.split err.split)

lemma plain_v_validate [plain_intros]:
  "plain_sum (validate_put_vop x c i ovn p)" "plain_sum (validate_put_vsub x c i v sp)"
  "plain_sum (validate_put_vcon x c i ovn cp)"
  by (auto simp: validate_put_vop_def validate_put_vop_times_def validate_put_vsub_def
      validate_put_vcon_def intro!: plain_intros)

lemma plain_v_put_op_parts [plain_intros]:
  "plain_tx (put_vop_old x q)" "plain_tx (put_vop_subscription x c q)"
  unfolding put_vop_old_def put_vop_subscription_def v_new_implicit_subscription_def
    v_use_subscription_def Let_def v_widen_start_def v_widen_end_def v_move_vertiport_def
    v_move_zone_def
  by (auto intro!: plain_intros split: prod.split)

lemma plain_v_op_actions [plain_intros]:
  "plain_tx (delete_vop_action x q)" "plain_tx (get_vop_action x q)" "plain_tx (query_vops_action x q')"
  unfolding delete_vop_action_def v_remove_implicit_def get_vop_action_def query_vops_action_def
    query_vop_proto_def
  by (auto intro!: plain_intros split: prod.split)

lemma plain_put_vsub_parts [plain_intros]:
  "plain_tx (GetVertiportOperations x ids)" "plain_tx (put_vsub_respond x pq sub deps)"
  unfolding GetVertiportOperations_def put_vsub_respond_def by (auto intro!: plain_intros)

lemma plain_put_vsub_old [plain_intros]: "plain_tx (put_vsub_old x old subreq)"
  unfolding put_vsub_old_def Let_def by (auto intro!: plain_intros)

lemma plain_v_sub_actions [plain_intros]:
  "plain_tx (put_vsub_action x c pq)" "plain_tx (get_vsub_action x q)"
  "plain_tx (query_vsubs_action x q')" "plain_tx (delete_vsub_action x q)"
  unfolding put_vsub_action_def get_vsub_action_def query_vsubs_action_def delete_vsub_action_def
  by (auto intro!: plain_intros split: prod.split)

lemma plain_get_vcon [plain_intros]: "plain_tx (get_vcon_or_404 x i)" "plain_tx (put_vcon_old x q)"
  unfolding get_vcon_or_404_def put_vcon_old_def
  by (rule plain_attempt; auto intro!: plain_intros split: err.split; simp add: plain_sum_def)+

lemma plain_v_con_actions [plain_intros]:
  "plain_tx (put_vcon_action x c pq)" "plain_tx (get_vcon_action x q)"
  "plain_tx (query_vcons_action x q')" "plain_tx (delete_vcon_action x q)"
  unfolding put_vcon_action_def get_vcon_action_def query_vcons_action_def delete_vcon_action_def
    query_vcon_proto_def
  by (auto intro!: plain_intros split: prod.split)

lemma plain_v_port_actions [plain_intros]:
  "plain_tx (put_vertiport_action x i v)" "plain_tx (delete_vertiport_action x i j)"
  "plain_tx (get_vertiport_action x i j)" "plain_tx (available_times_action x pq)"
  unfolding put_vertiport_action_def delete_vertiport_action_def get_vertiport_action_def
    available_times_action_def
  by (auto intro!: plain_intros split: prod.split)

lemma plain_used_places [plain_intros]: "plain_tx (used_places_action x pq)"
proof -
  have swallow: "plain_tx (bnd (attempt m) f)"
    if "plain_tx m" and "\<And>r. plain_tx (f r)" for m :: "v_operational_intent list vrp_tx" and f
    using that by (intro plain_attempt)
  show ?thesis
    unfolding used_places_action_def Let_def
    by (auto intro!: plain_intros swallow simp del: bnd_def split: prod.split)
qed

section \<open>Messages keep what they are made of\<close>

lemma VertiportOperationalIntent_ToProto_Inr:
  "VertiportOperationalIntent_ToProto x oi = Inr p \<Longrightarrow>
     poi_Id p = vo_ID oi \<and> poi_Manager p = vo_Manager oi \<and> poi_Ovn p = vo_OVN oi \<and>
     poi_Version p = vo_Version oi \<and> poi_State p = vo_State oi \<and>
     poi_SubscriptionId p = vo_SubscriptionID oi \<and> poi_UssBaseUrl p = vo_USSBaseURL oi"
  by (auto simp: VertiportOperationalIntent_ToProto_def tx_inv)

lemma VertiportConstraint_ToProto_Inr:
  "VertiportConstraint_ToProto x c = Inr p \<Longrightarrow>
     pcon_Id p = vc_ID c \<and> pcon_Manager p = vc_Manager c \<and> pcon_Ovn p = vc_OVN c \<and>
     pcon_Version p = vc_Version c \<and> pcon_UssBaseUrl p = vc_USSBaseURL c"
  by (auto simp: VertiportConstraint_ToProto_def tx_inv)

lemma v_MissingOVNs_Inr:
  assumes "v_MissingOVNsErrorResponse x ops cons = (Inr d :: 'd err + _)"
  shows "(\<forall>p \<in> set (ac_MissingOperationalIntents d).
      \<exists>oi \<in> set ops. VertiportOperationalIntent_ToProto x oi = (Inr p :: 'd err + _)) \<and>
    (\<forall>p \<in> set (ac_MissingConstraints d).
      \<exists>c \<in> set cons. VertiportConstraint_ToProto x c = (Inr p :: 'd err + _))"
  using assms by (auto simp: v_MissingOVNsErrorResponse_def tx_inv dest: smap_in)

section \<open>The key\<close>

lemma put_vop_subscription_frame:
  "put_vop_subscription x c q s = Inr (sub, s') \<Longrightarrow>
     vdb_ops s' = vdb_ops s \<and> vdb_cons s' = vdb_cons s \<and> vdb_ports s' = vdb_ports s"
  by (auto simp: put_vop_subscription_def v_new_implicit_subscription_def v_use_subscription_def
      Let_def bnd_Inr seq_Inr wrap_Inr of_sum_Inr check_Inr deref_Inr ret_Inr
      vrp_UpsertSubscription_Inr vrp_GetSubscription_Inr case_option_Inr split: if_split_asm)

lemma v_check_key_passes:
  assumes "v_check_key x q sub s = Inr (u, s')" and "RequiresKey (vpp_State (vq_params q))"
    and "vrp_SearchOperationalIntents x (vq_reservation q) s = Inr (ops, s)" and "oi \<in> set ops"
  shows "vo_OVN oi \<in> set (vpp_Key (vq_params q))"
proof -
  from assms(1,2) obtain ops' s1 where
    ops: "vrp_SearchOperationalIntents x (vq_reservation q) s = Inr (ops', s1)"
      "v_missing_ops (vq_manager q) (vpp_Key (vq_params q)) ops' = []"
    by (auto simp: v_check_key_def Let_def bnd_Inr wrap_Inr if_distrib [of "\<lambda>f. f _"] fail_Inr
        split: if_split_asm)
  with assms(3,4) show ?thesis by (auto simp: v_missing_ops_def filter_empty_conv)
qed

text \<open>The only error with a detail is the report of what is missing from the key.\<close>

lemma v_check_key_reports:
  assumes run: "v_check_key x q sub s = Inl e" and det: "err_detail e = Some d"
  obtains ops cons where
    "v_MissingOVNsErrorResponse x (v_missing_ops (vq_manager q) (vpp_Key (vq_params q)) ops)
       (v_missing_cons (vq_manager q) (vpp_Key (vq_params q)) cons) = (Inr d :: vrp_err + _)"
proof -
  let ?ops = "v_missing_ops (vq_manager q) (vpp_Key (vq_params q))"
  let ?cons = "v_missing_cons (vq_manager q) (vpp_Key (vq_params q))"
  let ?report = "\<lambda>ops cons. (if ?ops ops \<noteq> [] \<or> ?cons cons \<noteq> [] then
          bnd (wrap Propagate (of_sum (v_MissingOVNsErrorResponse x (?ops ops) (?cons cons))))
            (\<lambda>p. fail (Propagate (StatusErr p)))
        else ret ()) :: unit vrp_tx"
  let ?search = "if vs_NotifyForConstraints sub
      then wrap Propagate (vrp_SearchConstraints x (vq_reservation q)) else ret []"
  from run have "bnd (wrap Propagate (vrp_SearchOperationalIntents x (vq_reservation q)))
      (\<lambda>ops. bnd ?search (\<lambda>cons. ?report ops cons)) s = Inl e"
    by (auto simp: v_check_key_def Let_def ret_def split: if_splits)
  from bnd_detail [OF this] det obtain ops s1 where
    run1: "bnd ?search (\<lambda>cons. ?report ops cons) s1 = Inl e"
    by (auto simp: plain_intros)
  from bnd_detail [OF run1] det obtain cons s2 where run2: "?report ops cons s2 = Inl e"
    by (auto simp: plain_intros)
  then have "bnd (wrap Propagate (of_sum (v_MissingOVNsErrorResponse x (?ops ops) (?cons cons))))
      (\<lambda>p. (fail (Propagate (StatusErr p)) :: unit vrp_tx)) s2 = Inl e"
    by (auto simp: ret_def split: if_splits)
  from bnd_detail [OF this] det show thesis by (intro that) (auto simp: tx_inv fail_def plain_intros)
qed

lemma put_vop_action_reports:
  assumes "put_vop_action x c q s = Inl e" and "err_detail e = Some d"
  obtains sub s1 where "v_check_key x q sub s1 = Inl e"
proof -
  from bnd_detail [OF assms(1) [unfolded put_vop_action_def]] assms(2)
  obtain version s0 where 1: "bnd (put_vop_subscription x c q) (\<lambda>sub.
     seq (v_check_key x q sub)
     (let oi = new_vop q version sub in
     seq (wrap Propagate (of_sum (VertiportOperationalIntent_ValidateTimeRange oi)))
     (bnd (wrap Propagate (vrp_UpsertOperationalIntent x (c_txn c) oi)) (\<lambda>oi'.
     bnd (vrp_SearchSubscriptions x (vq_reservation q)) (\<lambda>allsubs.
     bnd (vrp_subs_IncrementNotificationIndices x
            (filter vs_NotifyForOperationalIntents allsubs)) (\<lambda>subs.
     bnd (wrap Propagate (of_sum (VertiportOperationalIntent_ToProto x oi'))) (\<lambda>p.
     ret \<lparr>cvo_OperationalIntentReference = p,
          cvo_Subscribers = v_makeSubscribersToNotify x subs\<rparr>))))))) s0 = Inl e"
    by (auto simp: plain_intros)
  from bnd_detail [OF 1] assms(2)
  obtain sub s1 m where run: "seq (v_check_key x q sub) m s1 = Inl e"
    and m: "plain_tx (m :: change_vop_response vrp_tx)"
    by (auto simp: plain_intros Let_def)
  from run assms(2) m have "v_check_key x q sub s1 = Inl e"
    by (auto simp: seq_def bnd_def plain_tx_def plain_sum_def split: sum.splits)
  then show thesis by (rule that)
qed

section \<open>The OVNs a response shows\<close>

fun v_resp_ops :: "vrp_err + vrp_response \<Rightarrow> pb_operational_intent list" where
  "v_resp_ops (Inl e) =
     (case err_detail e of None \<Rightarrow> [] | Some d \<Rightarrow> ac_MissingOperationalIntents d)"
| "v_resp_ops (Inr (RespChangeVOp r)) = [cvo_OperationalIntentReference r]"
| "v_resp_ops (Inr (RespVOp p)) = [p]"
| "v_resp_ops (Inr (RespVOps ps)) = ps"
| "v_resp_ops (Inr (RespPutVSub r)) = List.map_filter (\<lambda>p. p) (vpr_OperationalIntentReferences r)"
| "v_resp_ops (Inr _) = []"

fun v_resp_cons :: "vrp_err + vrp_response \<Rightarrow> pb_constraint list" where
  "v_resp_cons (Inl e) = (case err_detail e of None \<Rightarrow> [] | Some d \<Rightarrow> ac_MissingConstraints d)"
| "v_resp_cons (Inr (RespChangeVCon r)) = [cvc_ConstraintReference r]"
| "v_resp_cons (Inr (RespVCon p)) = [p]"
| "v_resp_cons (Inr (RespVCons ps)) = ps"
| "v_resp_cons (Inr (RespPutVSub r)) = vpr_ConstraintReferences r"
| "v_resp_cons (Inr _) = []"

lemma v_mask_op_masked:
  "VertiportOperationalIntent_ToProto x (v_mask_op m oi) = Inr p \<Longrightarrow> op_masked (Some m) p"
  by (drule VertiportOperationalIntent_ToProto_Inr) (auto simp: op_masked_def v_mask_op_def split: if_splits)

lemma v_mask_con_masked:
  "VertiportConstraint_ToProto x (v_mask_con m c) = Inr p \<Longrightarrow> con_masked (Some m) p"
  by (drule VertiportConstraint_ToProto_Inr) (auto simp: con_masked_def v_mask_con_def split: if_splits)

lemma query_vop_masked:
  assumes "query_vop_proto x m oi = Inr p" shows "op_masked (Some m) p"
proof -
  from assms obtain a where "poi_Manager a = vo_Manager oi"
    "p = (if vo_Manager oi \<noteq> m then a\<lparr>poi_Ovn := NoOvnPhrase\<rparr> else a)"
    by (auto simp: query_vop_proto_def tx_inv dest!: VertiportOperationalIntent_ToProto_Inr)
  then show ?thesis by (cases "vo_Manager oi = m") (simp_all add: op_masked_def)
qed

lemma query_vcon_masked:
  assumes "VertiportConstraint_ToProto x c = Inr a"
    and "p = (if vc_Manager c \<noteq> m then a\<lparr>pcon_Ovn := NoOvnPhrase\<rparr> else a)"
  shows "con_masked (Some m) p"
  using VertiportConstraint_ToProto_Inr [OF assms(1)] assms(2)
  by (cases "vc_Manager c = m") (simp_all add: con_masked_def)

lemma v_report_masked:
  assumes "put_vop_action x c q s = Inl e" and "err_detail e = Some d"
  shows "(\<forall>p \<in> set (ac_MissingOperationalIntents d). op_masked (Some (vq_manager q)) p) \<and>
    (\<forall>p \<in> set (ac_MissingConstraints d). con_masked (Some (vq_manager q)) p)"
proof (rule put_vop_action_reports [OF assms])
  fix sub s1 assume run: "v_check_key x q sub s1 = Inl e"
  show ?thesis
    by (rule v_check_key_reports [OF run assms(2)], drule v_MissingOVNs_Inr)
      (fastforce simp: v_missing_ops_def v_missing_cons_def dest: v_mask_op_masked v_mask_con_masked)
qed

lemma put_vop_error_masked:
  assumes "PutVertiportOperationalIntentReference x c i v p db = (Inl e, db')" and "err_detail e = Some d"
  shows "(\<forall>p \<in> set (ac_MissingOperationalIntents d). op_masked (c_manager c) p) \<and>
    (\<forall>p \<in> set (ac_MissingConstraints d). con_masked (c_manager c) p)"
proof -
  from serve_detail [OF assms(1) [unfolded PutVertiportOperationalIntentReference_def]] assms(2)
  obtain q where q: "validate_put_vop x c i v p = (Inr q :: vrp_err + _)" "put_vop_action x c q db = Inl e"
    by (auto simp: plain_intros)
  from validate_put_vop_Inr [OF q(1)] have "c_manager c = Some (vq_manager q)" by blast
  with v_report_masked [OF q(2) assms(2)] show ?thesis by simp
qed

lemma put_vop_masked:
  assumes "PutVertiportOperationalIntentReference x c i v p db = (Inr a, db')"
  shows "op_masked (c_manager c) (cvo_OperationalIntentReference a)"
proof -
  from assms obtain q where q: "validate_put_vop x c i v p = (Inr q :: vrp_err + _)" and
    run: "put_vop_action x c q db = Inr (a, db')"
    by (auto simp: PutVertiportOperationalIntentReference_def serve_Inr)
  from validate_put_vop_Inr [OF q] have m: "c_manager c = Some (vq_manager q)" by blast
  show ?thesis
    by (rule put_vop_action_Inr [OF run])
      (auto simp: m op_masked_def dest!: VertiportOperationalIntent_ToProto_Inr)
qed

lemma put_vsub_masked:
  assumes "PutVertiportSubscription x c i v params db = (Inr a, db')"
  shows "Some p \<in> set (vpr_OperationalIntentReferences a) \<Longrightarrow> op_masked (c_manager c) p"
    "p' \<in> set (vpr_ConstraintReferences a) \<Longrightarrow> con_masked (c_manager c) p'"
proof -
  from assms obtain q where q: "validate_put_vsub x c i v params = (Inr q :: vrp_err + _)" and
    run: "put_vsub_action x c q db = Inr (a, db')"
    by (auto simp: PutVertiportSubscription_def serve_Inr)
  from validate_put_vsub_Inr [OF q] have m: "c_manager c = Some (vsq_manager q)" by blast
  from run obtain sub deps s1 where resp: "put_vsub_respond x q sub deps s1 = Inr (a, db')"
    by (auto simp: put_vsub_action_def tx_inv)
  from resp obtain ops cons s2 s3 where
    ops: "vpr_OperationalIntentReferences a = (if vs_NotifyForOperationalIntents sub then
               map (\<lambda>oi. case VertiportOperationalIntent_ToProto x (v_mask_op (vsq_manager q) oi) of
                           Inl (e :: vrp_err) \<Rightarrow> None | Inr po \<Rightarrow> Some po) ops else [])" and
    cons: "(if vs_NotifyForConstraints sub then
            bnd (wrap Propagate (vrp_SearchConstraints x (vsq_reservation q))) (\<lambda>cons.
            of_sum (smap (\<lambda>c.
              sbind (swrap Propagate (VertiportConstraint_ToProto x c)) (\<lambda>pc.
              Inr (if vc_Manager c \<noteq> vsq_manager q then pc\<lparr>pcon_Ovn := NoOvnPhrase\<rparr> else pc)))
              cons))
          else ret []) s2 = Inr (vpr_ConstraintReferences a, s3)"
    by (auto simp: put_vsub_respond_def bnd_Inr wrap_Inr of_sum_Inr ret_Inr)
  show "op_masked (c_manager c) p" if "Some p \<in> set (vpr_OperationalIntentReferences a)"
  proof -
    from that obtain oi where
      "Some p = (case VertiportOperationalIntent_ToProto x (v_mask_op (vsq_manager q) oi) of
         Inl (e :: vrp_err) \<Rightarrow> None | Inr po \<Rightarrow> Some po)"
      by (auto simp: ops split: if_splits)
    then have "VertiportOperationalIntent_ToProto x (v_mask_op (vsq_manager q) oi) = (Inr p :: vrp_err + _)"
      by (auto split: sum.splits)
    with m show ?thesis by (simp add: v_mask_op_masked)
  qed
  show "con_masked (c_manager c) p'" if "p' \<in> set (vpr_ConstraintReferences a)"
  proof (cases "vs_NotifyForConstraints sub")
    case True
    with cons obtain cs where "smap (\<lambda>c. sbind (swrap Propagate (VertiportConstraint_ToProto x c)) (\<lambda>pc.
              Inr (if vc_Manager c \<noteq> vsq_manager q then pc\<lparr>pcon_Ovn := NoOvnPhrase\<rparr> else pc))) cs =
            (Inr (vpr_ConstraintReferences a) :: vrp_err + _)"
      by (auto simp: bnd_Inr of_sum_Inr)
    from smap_in [OF this that] obtain cn pc where "VertiportConstraint_ToProto x cn = (Inr pc :: vrp_err + _)"
      "p' = (if vc_Manager cn \<noteq> vsq_manager q then pc\<lparr>pcon_Ovn := NoOvnPhrase\<rparr> else pc)"
      by (auto simp: tx_inv)
    with m show ?thesis by (simp only: query_vcon_masked)
  qed (use cons that in \<open>simp add: ret_Inr\<close>)
qed

lemma delete_vop_masked:
  assumes "DeleteVertiportOperationalIntentReference x c i db = (Inr a, db')"
  shows "op_masked (c_manager c) (cvo_OperationalIntentReference a)"
proof -
  from assms obtain j m where m: "c_manager c = Some m" and run: "delete_vop_action x (j, m) db = Inr (a, db')"
    by (auto simp: DeleteVertiportOperationalIntentReference_def serve_Inr dest!: entity_request_Inr)
  from run obtain oi s1 where
    "vo_Manager oi = m" "VertiportOperationalIntent_ToProto x oi = (Inr (cvo_OperationalIntentReference a) :: vrp_err + _)"
    by (auto simp: delete_vop_action_def bnd_Inr seq_Inr wrap_Inr of_sum_Inr check_Inr ret_Inr case_option_Inr)
  with m show ?thesis by (auto simp: op_masked_def dest!: VertiportOperationalIntent_ToProto_Inr)
qed

lemma get_vop_masked:
  "GetVertiportOperationalIntentReference x c i db = (Inr p, db') \<Longrightarrow> op_masked (c_manager c) p"
  by (auto simp: GetVertiportOperationalIntentReference_def serve_Inr get_vop_action_def tx_inv
      dest!: entity_request_Inr v_mask_op_masked)

lemma query_vrp_requests_Inr:
  "query_vops_request x c p = Inr q \<Longrightarrow> \<exists>v m. q = (v, m) \<and> c_manager c = Some m"
  "query_vcons_request x c p = Inr q \<Longrightarrow> \<exists>v m. q = (v, m) \<and> c_manager c = Some m"
  by (auto simp: query_vops_request_def query_vcons_request_def tx_inv split: option.splits)

lemma query_vops_masked:
  "QueryVertiportOperationalIntentReferences x c q db = (Inr ps, db') \<Longrightarrow> p \<in> set ps \<Longrightarrow>
     op_masked (c_manager c) p"
  by (auto simp: QueryVertiportOperationalIntentReferences_def serve_Inr query_vops_action_def tx_inv
      dest!: query_vrp_requests_Inr smap_in query_vop_masked)

lemma put_vcon_masked:
  assumes "PutVertiportConstraintReference x c i v p db = (Inr a, db')"
  shows "con_masked (c_manager c) (cvc_ConstraintReference a)"
proof -
  from assms obtain q where q: "validate_put_vcon x c i v p = (Inr q :: vrp_err + _)" and
    run: "put_vcon_action x c q db = Inr (a, db')"
    by (auto simp: PutVertiportConstraintReference_def serve_Inr)
  from q have m: "c_manager c = Some (vcq_manager q)" by (auto simp: validate_put_vcon_def tx_inv)
  from run obtain version s1 con s2 where
    "vrp_UpsertConstraint x (c_txn c) (new_vcon q version) s1 = Inr (con, s2)"
    "VertiportConstraint_ToProto x con = (Inr (cvc_ConstraintReference a) :: vrp_err + _)"
    by (auto simp: put_vcon_action_def bnd_Inr wrap_Inr of_sum_Inr ret_Inr)
  with m show ?thesis
    by (auto simp: con_masked_def vrp_UpsertConstraint_Inr dest!: VertiportConstraint_ToProto_Inr)
qed

lemma delete_vcon_masked:
  assumes "DeleteVertiportConstraintReference x c i db = (Inr a, db')"
  shows "con_masked (c_manager c) (cvc_ConstraintReference a)"
proof -
  from assms obtain j m where m: "c_manager c = Some m" and run: "delete_vcon_action x (j, m) db = Inr (a, db')"
    by (auto simp: DeleteVertiportConstraintReference_def serve_Inr dest!: entity_request_Inr)
  from run m show ?thesis
    by (auto simp: delete_vcon_action_def tx_inv con_masked_def dest!: VertiportConstraint_ToProto_Inr)
qed

lemma get_vcon_masked:
  "GetVertiportConstraintReference x c i db = (Inr p, db') \<Longrightarrow> con_masked (c_manager c) p"
  by (auto simp: GetVertiportConstraintReference_def serve_Inr get_vcon_action_def tx_inv
      dest!: entity_request_Inr v_mask_con_masked)

lemma query_vcons_masked:
  assumes "QueryVertiportConstraintReferences x c q db = (Inr ps, db')" and "p \<in> set ps"
  shows "con_masked (c_manager c) p"
proof -
  from assms(1) obtain v m cons where m: "c_manager c = Some m"
    and ps: "smap (query_vcon_proto x m) cons = (Inr ps :: vrp_err + _)"
    by (auto simp: QueryVertiportConstraintReferences_def serve_Inr query_vcons_action_def tx_inv
        dest!: query_vrp_requests_Inr)
  from smap_in [OF ps assms(2)] obtain cn where "query_vcon_proto x m cn = (Inr p :: vrp_err + _)" by blast
  then show ?thesis by (auto simp: m query_vcon_proto_def tx_inv intro: query_vcon_masked)
qed

lemma vrp_errors_plain:
  "DeleteVertiportOperationalIntentReference x c i db = (Inl e, db') \<Longrightarrow> err_detail e = None"
  "GetVertiportOperationalIntentReference x c i db = (Inl e, db') \<Longrightarrow> err_detail e = None"
  "QueryVertiportOperationalIntentReferences x c p db = (Inl e, db') \<Longrightarrow> err_detail e = None"
  "PutVertiportSubscription x c i v sp db = (Inl e, db') \<Longrightarrow> err_detail e = None"
  "GetVertiportSubscription x c i db = (Inl e, db') \<Longrightarrow> err_detail e = None"
  "QueryVertiportSubscriptions x c p db = (Inl e, db') \<Longrightarrow> err_detail e = None"
  "DeleteVertiportSubscription x c i db = (Inl e, db') \<Longrightarrow> err_detail e = None"
  "PutVertiportConstraintReference x c i v cp db = (Inl e, db') \<Longrightarrow> err_detail e = None"
  "DeleteVertiportConstraintReference x c i db = (Inl e, db') \<Longrightarrow> err_detail e = None"
  "GetVertiportConstraintReference x c i db = (Inl e, db') \<Longrightarrow> err_detail e = None"
  "QueryVertiportConstraintReferences x c p db = (Inl e, db') \<Longrightarrow> err_detail e = None"
  "GetNumberOfUsedParkingPlaces x i pp db = (Inl e, db') \<Longrightarrow> err_detail e = None"
  "GetVertiportFATOAvailableTimes x i pp db = (Inl e, db') \<Longrightarrow> err_detail e = None"
  "PutVertiport x i n db = (Inl e, db') \<Longrightarrow> err_detail e = None"
  "DeleteVertiport x i db = (Inl e, db') \<Longrightarrow> err_detail e = None"
  "GetVertiport x i db = (Inl e, db') \<Longrightarrow> err_detail e = None"
  unfolding DeleteVertiportOperationalIntentReference_def GetVertiportOperationalIntentReference_def
    QueryVertiportOperationalIntentReferences_def PutVertiportSubscription_def
    GetVertiportSubscription_def QueryVertiportSubscriptions_def DeleteVertiportSubscription_def
    PutVertiportConstraintReference_def DeleteVertiportConstraintReference_def
    GetVertiportConstraintReference_def QueryVertiportConstraintReferences_def
    GetNumberOfUsedParkingPlaces_def GetVertiportFATOAvailableTimes_def PutVertiport_def
    DeleteVertiport_def GetVertiport_def
  by (erule serve_plain; intro plain_intros)+

lemmas vrp_creates_and_updates =
  CreateVertiportOperationalIntentReference_def UpdateVertiportOperationalIntentReference_def
  CreateVertiportSubscription_def UpdateVertiportSubscription_def
  CreateVertiportConstraintReference_def UpdateVertiportConstraintReference_def
  CreateVertiport_def UpdateVertiport_def

lemma vrp_serve_masked:
  assumes "vrp_serve x c req db = (r, db')"
  shows "(\<forall>p \<in> set (v_resp_ops r). op_masked (c_manager c) p) \<and>
    (\<forall>p \<in> set (v_resp_cons r). con_masked (c_manager c) p)"
proof (cases r)
  case (Inl e)
  show ?thesis
  proof (cases "err_detail e")
    case None
    then show ?thesis by (simp add: Inl)
  next
    case (Some d)
    from assms Some obtain i v p where
      "PutVertiportOperationalIntentReference x c i v p db = (Inl e, db')"
      unfolding Inl
      by (cases req) (auto simp: respond_cases vrp_creates_and_updates dest!: vrp_errors_plain)
    from put_vop_error_masked [OF this Some] show ?thesis by (simp add: Inl Some)
  qed
next
  case (Inr a)
  note masked = put_vop_masked delete_vop_masked get_vop_masked query_vops_masked
    put_vcon_masked delete_vcon_masked get_vcon_masked query_vcons_masked
  from assms show ?thesis
    unfolding Inr
    by (cases req)
      (auto simp: respond_cases vrp_creates_and_updates List.map_filter_def dest: masked,
        (blast intro: put_vsub_masked)+)
qed

end
