(* ===== verification/Vrp_Named.thy ===== *)
theory Vrp_Named
  imports Vrp_Conflicts
begin

text \<open>
  What becomes of the subscription that a request for a zone names: an explicit one must fit the
  operational intent and stays, an implicit one is widened in time and moved to its vertiport and
  zone.
\<close>

section \<open>The steps on the subscription\<close>

lemma v_steps_exact:
  assumes "v_widen_start v s0 = (Inr (s1, u1) :: 'd err + _)"
    and "v_widen_end v s1 = (Inr (s2, u2) :: 'd err + _)"
    and "v_move_vertiport v s2 = (Inr (s3, u3) :: 'd err + _)"
    and "v_move_zone v s3 = (Inr (s4, u4) :: 'd err + _)"
    and "vr_StartTime v = Some st" and "vr_EndTime v = Some et"
    and "vs_StartTime s0 = Some b" and "vs_EndTime s0 = Some e"
  shows "if vs_ImplicitSubscription s0
    then s4 = s0\<lparr>vs_StartTime := Some (min b st), vs_EndTime := Some (max e et),
        vs_VertiportID := VertiportID v, vs_VertiportZone := VertiportZone v\<rparr>
    else s4 = s0 \<and> \<not> (u1 \<or> u2 \<or> u3 \<or> u4) \<and> b \<le> st \<and> et \<le> e \<and>
      vs_VertiportID s0 = VertiportID v \<and> vs_VertiportZone s0 = VertiportZone v"
proof -
  have 1: "s1 = (if st < b then s0\<lparr>vs_StartTime := Some st\<rparr> else s0) \<and>
      (\<not> vs_ImplicitSubscription s0 \<longrightarrow> b \<le> st \<and> \<not> u1)"
    using assms(1,5,7) by (auto simp: v_widen_start_def tx_inv split: if_splits)
  then have same: "vs_ImplicitSubscription s1 = vs_ImplicitSubscription s0" "vs_EndTime s1 = Some e"
    using assms(8) by auto
  have 2: "s2 = (if e < et then s1\<lparr>vs_EndTime := Some et\<rparr> else s1) \<and>
      (\<not> vs_ImplicitSubscription s0 \<longrightarrow> et \<le> e \<and> \<not> u2)"
    using assms(2,6) same by (auto simp: v_widen_end_def tx_inv split: if_splits)
  then have same2: "vs_ImplicitSubscription s2 = vs_ImplicitSubscription s0" using same by auto
  have 3: "s3 = s2\<lparr>vs_VertiportID := VertiportID v\<rparr> \<and>
      (\<not> vs_ImplicitSubscription s0 \<longrightarrow> vs_VertiportID s2 = VertiportID v \<and> \<not> u3)"
    using assms(3) same2 by (auto simp: v_move_vertiport_def split: if_splits)
  then have same3: "vs_ImplicitSubscription s3 = vs_ImplicitSubscription s0" using same2 by auto
  have 4: "s4 = s3\<lparr>vs_VertiportZone := VertiportZone v\<rparr> \<and>
      (\<not> vs_ImplicitSubscription s0 \<longrightarrow> vs_VertiportZone s3 = VertiportZone v \<and> \<not> u4)"
    using assms(4) same3 by (auto simp: v_move_zone_def split: if_splits)
  show ?thesis
  proof (cases "vs_ImplicitSubscription s0")
    case True
    with 1 2 3 4 assms(7,8) show ?thesis
      by (cases "st < b"; cases "e < et"; cases s0) (simp_all add: min_def max_def)
  next
    case False
    with 1 2 3 4 show ?thesis by (cases "st < b"; cases "e < et"; cases s0) auto
  qed
qed

text \<open>The row of the named subscription after the step.\<close>

lemma v_use_subscription_row:
  assumes run: "v_use_subscription x c q s = Inr (sub, s')" and ok: "vrp_ok x s"
    and st: "vr_StartTime (vq_reservation q) = Some st" and et: "vr_EndTime (vq_reservation q) = Some et"
  obtains uid r r' where
    "x_pg_uuid x (vq_subid q) = Some uid" "x_pg_uuid x (vs_ID sub) = Some uid"
    "tbl_get (vdb_subs s) uid = Some r" "tbl_get (vdb_subs s') uid = Some r'"
    "vsr_owner r' = vsr_owner r" "vsr_implicit r' = vsr_implicit r"
    "vsr_vertiport_id r' = VertiportID (vq_reservation q)"
    "vsr_vertiport_zone r' = VertiportZone (vq_reservation q)"
    "if vsr_implicit r
     then vsr_starts_at r' = Some (min (the (vsr_starts_at r)) st) \<and>
       vsr_ends_at r' = Some (max (the (vsr_ends_at r)) et)
     else r' = r"
proof -
  let ?v = "vq_reservation q"
  from run obtain uid r s1 u1 s2 u2 s3 u3 s4 u4 where
    uid: "x_pg_uuid x (vq_subid q) = Some uid" and r: "tbl_get (vdb_subs s) uid = Some r" and
    steps: "v_widen_start ?v (fetch_vsub x (uid, r)) = (Inr (s1, u1) :: vrp_err + _)"
      "v_widen_end ?v s1 = (Inr (s2, u2) :: vrp_err + _)"
      "v_move_vertiport ?v s2 = (Inr (s3, u3) :: vrp_err + _)"
      "v_move_zone ?v s3 = (Inr (s4, u4) :: vrp_err + _)" and
    fin: "(if u1 \<or> u2 \<or> u3 \<or> u4 then wrap Propagate (vrp_UpsertSubscription x (c_txn c) s4)
          else ret s4) s = Inr (sub, s')"
    by (auto simp: v_use_subscription_def bnd_Inr seq_Inr wrap_Inr of_sum_Inr check_Inr
        case_option_Inr vrp_GetSubscription_Inr)
  from vrp_refs.refs_sub [OF vrp_ok_refs [OF ok] r] obtain b e where
    be: "vsr_starts_at r = Some b" "vsr_ends_at r = Some e" and can: "x_pg_uuid x uid = Some uid"
    by (auto simp: vsub_row_ok_def times_ordered_def pg_canonical_def split: option.splits)
  let ?s0 = "fetch_vsub x (uid, r)"
  have exact: "if vsr_implicit r
    then s4 = ?s0\<lparr>vs_StartTime := Some (min b st), vs_EndTime := Some (max e et),
        vs_VertiportID := VertiportID ?v, vs_VertiportZone := VertiportZone ?v\<rparr>
    else s4 = ?s0 \<and> \<not> (u1 \<or> u2 \<or> u3 \<or> u4) \<and> b \<le> st \<and> et \<le> e \<and>
      vs_VertiportID ?s0 = VertiportID ?v \<and> vs_VertiportZone ?s0 = VertiportZone ?v"
    using v_steps_exact [OF steps st et, of b e] be by simp
  from v_steps_fit [OF steps st et] have stay: "\<not> (u1 \<or> u2 \<or> u3 \<or> u4) \<Longrightarrow> s4 = ?s0" by simp
  have id: "vs_ID s4 = uid" using exact by (auto split: if_splits)
  show thesis
  proof (cases "u1 \<or> u2 \<or> u3 \<or> u4")
    case True
    with fin id can have s': "s' = s\<lparr>vdb_subs := tbl_upsert uid (vsub_row_of (c_txn c) s4) (vdb_subs s)\<rparr>"
      and sub: "vs_ID sub = uid"
      by (auto simp: wrap_Inr vrp_UpsertSubscription_Inr)
    from True exact have imp: "vsr_implicit r" by (auto split: if_splits)
    with exact have s4: "s4 = ?s0\<lparr>vs_StartTime := Some (min b st), vs_EndTime := Some (max e et),
        vs_VertiportID := VertiportID ?v, vs_VertiportZone := VertiportZone ?v\<rparr>" by simp
    show thesis
      by (rule that [of uid r "vsub_row_of (c_txn c) s4"])
        (use uid can r sub be imp in \<open>simp_all add: s' tbl_laws s4\<close>)
  next
    case False
    with fin have "sub = s4" "s' = s" by (auto simp: ret_Inr)
    moreover have "if vsr_implicit r
        then b = min b st \<and> e = max e et \<and> vsr_vertiport_id r = VertiportID ?v \<and> vsr_vertiport_zone r = VertiportZone ?v
        else vsr_vertiport_id r = VertiportID ?v \<and> vsr_vertiport_zone r = VertiportZone ?v"
    proof (cases "vsr_implicit r")
      case True
      with exact stay False have same: "?s0 = ?s0\<lparr>vs_StartTime := Some (min b st), vs_EndTime := Some (max e et),
          vs_VertiportID := VertiportID ?v, vs_VertiportZone := VertiportZone ?v\<rparr>" by simp
      from arg_cong [OF same, of vs_StartTime] arg_cong [OF same, of vs_EndTime]
        arg_cong [OF same, of vs_VertiportID] arg_cong [OF same, of vs_VertiportZone] be True
      show ?thesis by simp
    qed (use exact in simp)
    ultimately show thesis
      by (intro that [of uid r r]) (use uid can id r be in \<open>auto split: if_splits\<close>)
  qed
qed

text \<open>The row that is written and the row of the named subscription, at the end of the request.\<close>

lemma put_vop_named:
  assumes act: "put_vop_action x c q db = Inr (resp, db')" and ok: "vrp_ok x db"
    and subid: "vq_subid q \<noteq> []"
    and st: "vr_StartTime (vq_reservation q) = Some st" and et: "vr_EndTime (vq_reservation q) = Some et"
  obtains uid row sid s t where
    "x_pg_uuid x (vq_subid q) = Some sid" "tbl_get (vdb_ops db') = (tbl_get (vdb_ops db))(uid \<mapsto> row)"
    "vor_subscription_id row = sid" "tbl_get (vdb_subs db) sid = Some s" "tbl_get (vdb_subs db') sid = Some t"
    "vsr_owner t = vsr_owner s" "vsr_implicit t = vsr_implicit s"
    "vsr_vertiport_id t = vor_vertiport_id row" "vsr_vertiport_zone t = vor_vertiport_zone row"
    "if vsr_implicit s
     then vsr_starts_at t = Some (min (the (vsr_starts_at s)) (the (vor_starts_at row))) \<and>
       vsr_ends_at t = Some (max (the (vsr_ends_at s)) (the (vor_ends_at row)))
     else t \<in> {s, bump_vsub s} \<and>
       vsr_vertiport_id s = vor_vertiport_id row \<and> vsr_vertiport_zone s = vor_vertiport_zone row"
proof (rule put_vop_action_Inr [OF act])
  fix version sub s1 uid sid s2 allsubs subs
  let ?row = "vop_row_of (c_txn c) sid (new_vop q version sub)"
  assume sub: "put_vop_subscription x c q db = Inr (sub, s1)"
    and sid: "x_pg_uuid x (vs_ID sub) = Some sid"
    and s2: "s2 = s1\<lparr>vdb_ops := tbl_upsert uid ?row (vdb_ops s1)\<rparr>"
    and inc: "vrp_subs_IncrementNotificationIndices x (filter vs_NotifyForOperationalIntents allsubs) s2 =
      Inr (subs, db')"
  have use: "v_use_subscription x c q db = Inr (sub, s1)"
    using sub subid by (simp add: put_vop_subscription_def ID_Empty_def)
  obtain uids where db': "db' = s2\<lparr>vdb_subs := tbl_update_any uids bump_vsub (vdb_subs s2)\<rparr>"
    using inc by (rule vrp_subs_IncrementNotificationIndices_Inr)
  have ops: "tbl_get (vdb_ops db') = (tbl_get (vdb_ops db))(uid \<mapsto> ?row)"
    using put_vop_subscription_frame [OF sub] by (simp add: db' s2 tbl_laws)
  show thesis
  proof (rule v_use_subscription_row [OF use ok st et])
    fix sid' s s'
    assume s: "x_pg_uuid x (vq_subid q) = Some sid'" "x_pg_uuid x (vs_ID sub) = Some sid'"
        "tbl_get (vdb_subs db) sid' = Some s"
      and s': "tbl_get (vdb_subs s1) sid' = Some s'" "vsr_owner s' = vsr_owner s" "vsr_implicit s' = vsr_implicit s"
        "vsr_vertiport_id s' = VertiportID (vq_reservation q)"
        "vsr_vertiport_zone s' = VertiportZone (vq_reservation q)"
      and times: "if vsr_implicit s
        then vsr_starts_at s' = Some (min (the (vsr_starts_at s)) st) \<and>
          vsr_ends_at s' = Some (max (the (vsr_ends_at s)) et)
        else s' = s"
    let ?t = "if sid' \<in> set uids then bump_vsub s' else s'"
    have "tbl_get (vdb_subs db') sid' = Some ?t" using s'(1) by (simp add: db' s2 tbl_laws)
    moreover have "sid' = sid" using s(2) sid by simp
    ultimately show thesis
      using s s' times st et by (intro that [OF _ ops, of sid s ?t]) (auto simp: bump_vsub_def)
  qed
qed

end
