(* ===== verification/Vrp_Occupancy.thy ===== *)
theory Vrp_Occupancy
  imports Vrp_System
begin

text \<open>
  The reservations of a zone in the database, and what the two computations on them say of the
  zone: the handlers search the reservations that may reach into a window and compute on those.
\<close>

section \<open>The periods a zone is reserved for\<close>

definition zone_periods :: "vrp_db \<Rightarrow> string \<Rightarrow> 32 word \<Rightarrow> time_period list" where
  "zone_periods db i zone =
     map (\<lambda>(k, r). \<lparr>tp_From = vcr_starts_at r, tp_To = vcr_ends_at r\<rparr>)
       (filter (\<lambda>(k, r). vcr_vertiport_id r = i \<and> vcr_vertiport_zone r = zone) (vdb_cons db)) @
     map (\<lambda>(k, r). \<lparr>tp_From = vor_starts_at r, tp_To = vor_ends_at r\<rparr>)
       (filter (\<lambda>(k, r). vor_vertiport_id r = i \<and> vor_vertiport_zone r = zone) (vdb_ops db))"

text \<open>No search in the window reaches the limit on rows.\<close>

definition window_small :: "vrp_db \<Rightarrow> string \<Rightarrow> 32 word \<Rightarrow> time \<Rightarrow> time \<Rightarrow> bool" where
  "window_small db i zone b e \<longleftrightarrow>
     int (length (tbl_select (vcon_matches (zone_reservation i zone b e)) (vdb_cons db))) \<le> MaxResultLimit \<and>
     int (length (tbl_select (vop_matches (zone_reservation i zone b e)) (vdb_ops db))) \<le> MaxResultLimit"

lemma small_tables:
  assumes "int (length (vdb_cons db)) \<le> MaxResultLimit" and "int (length (vdb_ops db)) \<le> MaxResultLimit"
  shows "window_small db i zone b e"
proof -
  have "length (tbl_select P t) \<le> length t" for P and t :: "'r table"
    by (simp add: tbl_select_def)
  with assms show ?thesis unfolding window_small_def by (meson of_nat_mono order_trans)
qed

lemma zone_periods_proper:
  assumes "vrp_ok x db"
  shows "\<forall>p \<in> set (zone_periods db i zone). proper p"
proof -
  have wf: "tbl_wf (vdb_ops db)" "tbl_wf (vdb_cons db)"
    using assms vrp_refs.refs_wf [OF vrp_ok_refs [OF assms]] by (simp_all add: vrp_ok_def)
  have "times_ordered (vor_starts_at r) (vor_ends_at r)" if "(k, r) \<in> set (vdb_ops db)" for k r
    using that assms wf(1) by (auto simp: vrp_ok_def tbl_get_def tbl_wf_def)
  moreover have "times_ordered (vcr_starts_at r) (vcr_ends_at r)" if "(k, r) \<in> set (vdb_cons db)" for k r
    using that assms wf(2) by (auto simp: vrp_ok_def tbl_get_def tbl_wf_def)
  ultimately show ?thesis
    by (fastforce simp: zone_periods_def proper_def times_ordered_def split: option.splits)
qed

text \<open>What the searches find is what may reach into the window.\<close>

definition may_reach :: "time \<Rightarrow> time \<Rightarrow> time_period \<Rightarrow> bool" where
  "may_reach b e p \<longleftrightarrow> le_or_null (Some b) (tp_To p) \<and> le_or_null (tp_From p) (Some e)"

lemma busy_periods_found:
  "busy_periods (map (fetch_vcon x) (tbl_select (vcon_matches (zone_reservation i zone b e)) (vdb_cons db)))
     (map (fetch_vop x) (tbl_select (vop_matches (zone_reservation i zone b e)) (vdb_ops db))) =
   filter (may_reach b e) (zone_periods db i zone)"
  unfolding busy_periods_def zone_periods_def filter_append filter_map map_map filter_filter tbl_select_def
  by (intro arg_cong2 [where f = "(@)"] map_cong filter_cong)
    (auto simp: may_reach_def vcon_matches_def vop_matches_def reserved_def zone_reservation_def comp_def)

lemma load_found: "b \<le> t \<Longrightarrow> t < e \<Longrightarrow> load (filter (may_reach b e) ps) t = load ps t"
  unfolding load_def filter_filter
  by (intro arg_cong [where f = "\<lambda>xs. int (length xs)"] filter_cong)
    (auto simp: may_reach_def instants_def split: option.splits)

lemma instants_found: "{b..<e} - all_instants (filter (may_reach b e) ps) = {b..<e} - all_instants ps"
  by (force simp: all_instants_def may_reach_def instants_def split: option.splits)

lemma ends_apart_filter: "ends_apart ps bs \<Longrightarrow> ends_apart ps (filter P bs)"
proof (induction bs arbitrary: ps)
  case (Cons b bs)
  then have apart: "ends_apart (b # ps) bs" by simp
  moreover have "ends_apart ps bs" by (rule ends_apart_mono [OF _ apart]) auto
  ultimately show ?case using Cons by auto
qed simp

section \<open>The parking places in use\<close>

lemma period_request_Inr:
  assumes "period_request x vertiportid params = Inr (i, b, e)"
  shows "x_uuid_parse x vertiportid = Some i"
  using assms by (auto simp: period_request_def tx_inv split: prod.splits option.splits)

lemma used_places_action_Inr:
  assumes "used_places_action x (i, b, e) db = Inr (r, db')"
  obtains uid n places where "x_pg_uuid x i = Some uid" "tbl_get (vdb_ports db) uid = Some places" "db' = db"
    "ComputeNumberOfUsedParkingPlaces x
       (map (fetch_vcon x) (limit_rows (tbl_select (vcon_matches (zone_reservation i ParkingStand b e)) (vdb_cons db))))
       (map (fetch_vop x) (limit_rows (tbl_select (vop_matches (zone_reservation i ParkingStand b e)) (vdb_ops db))))
       b e = (Inr n :: vrp_err + _)"
    "r = \<lparr>upr_NumberOfUsedPlaces = n, upr_NumberOfAvailablePlaces = places - n, upr_NumberOfPlaces = places\<rparr>"
proof -
  have found: "attempt (vrp_SearchOperationalIntents x v) s =
      (Inr (Inr (map (fetch_vop x) (limit_rows (tbl_select (vop_matches v) (vdb_ops s)))), s) :: vrp_err + _)" for v s
    by (simp add: attempt_def vrp_SearchOperationalIntents_def gets_def)
  from assms show thesis
    by (auto simp: used_places_action_def bnd_Inr wrap_Inr of_sum_Inr ret_Inr deref_Inr Let_def
        vrp_GetVertiport_Inr vrp_searches_Inr found intro: that)
qed

lemma relevant_found: "relevant b e (filter (may_reach b e) ps) = relevant b e ps"
  unfolding filter_filter
  by (intro filter_cong) (auto simp: may_reach_def instants_def split: option.splits)

lemma used_places_request:
  assumes ok: "vrp_ok x db" and x: "orders_ok x"
    and run: "GetNumberOfUsedParkingPlaces x vid params db = (Inr r, db')"
    and req: "period_request x vid params = (Inr (i, b, e) :: vrp_err + _)" and "b < e"
    and small: "window_small db i ParkingStand b e"
  obtains "0 \<le> sint (upr_NumberOfUsedPlaces r)" "sint (upr_NumberOfUsedPlaces r) \<le> 20000"
    "\<And>t. b \<le> t \<Longrightarrow> t < e \<Longrightarrow>
       load (zone_periods db i ParkingStand) t \<le> sint (upr_NumberOfUsedPlaces r)"
    "\<exists>t. b \<le> t \<and> t < e \<and>
       sint (upr_NumberOfUsedPlaces r) \<le> touching (relevant b e (zone_periods db i ParkingStand)) t"
    "upr_NumberOfAvailablePlaces r = upr_NumberOfPlaces r - upr_NumberOfUsedPlaces r" "db' = db"
proof -
  let ?v = "zone_reservation i ParkingStand b e" and ?ps = "zone_periods db i ParkingStand"
  let ?cons = "map (fetch_vcon x) (tbl_select (vcon_matches ?v) (vdb_cons db))"
  let ?ops = "map (fetch_vop x) (tbl_select (vop_matches ?v) (vdb_ops db))"
  from run req have act: "used_places_action x (i, b, e) db = Inr (r, db')"
    by (auto simp: GetNumberOfUsedParkingPlaces_def serve_Inr)
  have found: "busy_periods ?cons ?ops = filter (may_reach b e) ?ps" by (rule busy_periods_found)
  with zone_periods_proper [OF ok, of i ParkingStand]
  have proper: "\<forall>p \<in> set (busy_periods ?cons ?ops). proper p" by simp
  show thesis
  proof (rule used_places_action_Inr [OF act])
    fix uid n' places
    assume "ComputeNumberOfUsedParkingPlaces x
       (map (fetch_vcon x) (limit_rows (tbl_select (vcon_matches ?v) (vdb_cons db))))
       (map (fetch_vop x) (limit_rows (tbl_select (vop_matches ?v) (vdb_ops db)))) b e = (Inr n' :: vrp_err + _)"
      and "db' = db"
      and r: "r = \<lparr>upr_NumberOfUsedPlaces = n', upr_NumberOfAvailablePlaces = places - n', upr_NumberOfPlaces = places\<rparr>"
    with small have n': "ComputeNumberOfUsedParkingPlaces x ?cons ?ops b e = (Inr n' :: vrp_err + _)"
      by (simp add: window_small_def)
    show thesis
    proof (rule used_places [OF x \<open>b < e\<close> proper, where ?'d = airspace_conflict])
      fix n
      assume "ComputeNumberOfUsedParkingPlaces x ?cons ?ops b e = (Inr (word_of_int n) :: vrp_err + _)"
        and n: "0 \<le> n" "n \<le> int (length ?cons + length ?ops)"
        and ge: "\<And>t. b \<le> t \<Longrightarrow> t < e \<Longrightarrow> load (busy_periods ?cons ?ops) t \<le> n"
        and le: "\<exists>t. b \<le> t \<and> t < e \<and> n \<le> touching (relevant b e (busy_periods ?cons ?ops)) t"
      with n' r have used: "upr_NumberOfUsedPlaces r = word_of_int n" by simp
      from n small have "n \<le> 20000" by (simp add: window_small_def MaxResultLimit_def)
      with n used have "sint (upr_NumberOfUsedPlaces r) = n"
        by (simp add: sint_sbintrunc' signed_take_bit_int_eq_self)
      with n \<open>n \<le> 20000\<close> ge le r \<open>db' = db\<close> show thesis
        unfolding found relevant_found by (intro that) (simp_all add: load_found)
    qed
  qed
qed

section \<open>The free periods of the landing area\<close>

lemma available_times_action_Inr:
  assumes "available_times_action x (i, b, e) db = Inr (r, db')"
  obtains ps where "db' = db"
    "ComputeFreeTimePeriods
       (map (fetch_vcon x) (limit_rows (tbl_select (vcon_matches (zone_reservation i FATO b e)) (vdb_cons db))))
       (map (fetch_vop x) (limit_rows (tbl_select (vop_matches (zone_reservation i FATO b e)) (vdb_ops db))))
       b e = (Inr ps :: vrp_err + _)"
    "list_all2 (\<lambda>p q. TimePeriod_ToProto x p = (Inr q :: vrp_err + _)) ps r"
  using assms
  by (auto simp: available_times_action_def bnd_Inr wrap_Inr of_sum_Inr vrp_searches_Inr smap_Inr
      swrap_Inr intro: that)

lemma available_times_request:
  assumes ok: "vrp_ok x db"
    and run: "GetVertiportFATOAvailableTimes x vid params db = (Inr r, db')"
    and req: "period_request x vid params = (Inr (i, b, e) :: vrp_err + _)" and "b < e"
    and small: "window_small db i FATO b e"
  obtains ps where "list_all2 (\<lambda>p q. TimePeriod_ToProto x p = (Inr q :: vrp_err + _)) ps r"
    "\<forall>p \<in> set ps. proper p" "all_instants ps = {b..<e} - all_instants (zone_periods db i FATO)"
    "db' = db"
proof -
  let ?v = "zone_reservation i FATO b e"
  let ?cons = "map (fetch_vcon x) (tbl_select (vcon_matches ?v) (vdb_cons db))"
  let ?ops = "map (fetch_vop x) (tbl_select (vop_matches ?v) (vdb_ops db))"
  have found: "busy_periods ?cons ?ops = filter (may_reach b e) (zone_periods db i FATO)"
    by (rule busy_periods_found)
  from run req have "available_times_action x (i, b, e) db = Inr (r, db')"
    by (auto simp: GetVertiportFATOAvailableTimes_def serve_Inr)
  then show thesis
  proof (rule available_times_action_Inr)
    fix ps
    assume "ComputeFreeTimePeriods
       (map (fetch_vcon x) (limit_rows (tbl_select (vcon_matches ?v) (vdb_cons db))))
       (map (fetch_vop x) (limit_rows (tbl_select (vop_matches ?v) (vdb_ops db)))) b e = (Inr ps :: vrp_err + _)"
      and ps: "list_all2 (\<lambda>p q. TimePeriod_ToProto x p = (Inr q :: vrp_err + _)) ps r" "db' = db"
    with small have "cut_each (filter (may_reach b e) (zone_periods db i FATO))
        [\<lparr>tp_From = Some b, tp_To = Some e\<rparr>] = (Inr ps :: vrp_err + _)"
      by (simp add: window_small_def ComputeFreeTimePeriods_def found)
    from cut_each_Inr [OF _ _ this] zone_periods_proper [OF ok, of i FATO] \<open>b < e\<close>
      instants_found [of b e "zone_periods db i FATO"] ps show thesis
      by (intro that [of ps]) simp_all
  qed
qed

end
