(* ===== verification/Vrp_Ties.thy ===== *)
theory Vrp_Ties
  imports Vrp_Occupancy
begin

text \<open>
  What the number of used parking places is when changes fall on the same instant. The sort of
  \<^verbatim>\<open>ComputeNumberOfUsedParkingPlaces\<close> orders changes by their instants only; the sweep counts
  the reservations that hold at an instant when each instant's ends come before its beginnings,
  and those that hold or end there when the beginnings come first.
\<close>

section \<open>The order at one instant\<close>

definition ends_first :: "(time \<times> int) list \<Rightarrow> bool" where
  "ends_first = sorted_wrt (\<lambda>c d. fst c = fst d \<longrightarrow> snd c \<le> snd d)"

definition begins_first :: "(time \<times> int) list \<Rightarrow> bool" where
  "begins_first = sorted_wrt (\<lambda>c d. fst c = fst d \<longrightarrow> snd d \<le> snd c)"

text \<open>The changes that hold a property that earlier ones inherit are a prefix.\<close>

lemma filter_prefix:
  "sorted_wrt (\<lambda>c d. P d \<longrightarrow> P c) cs \<Longrightarrow> \<exists>k \<le> length cs. filter P cs = take k cs"
proof (induction cs)
  case (Cons c cs)
  show ?case
  proof (cases "P c")
    case True
    from Cons obtain k where "k \<le> length cs" "filter P cs = take k cs" by auto
    then show ?thesis using True by (intro exI [of _ "Suc k"]) simp
  next
    case False
    with Cons.prems have "filter P (c # cs) = []" by (auto simp: filter_empty_conv)
    then show ?thesis by (intro exI [of _ 0]) simp
  qed
qed simp

lemma sum_filter_changes:
  "sum_list (map snd (filter P cs)) = (\<Sum>c\<leftarrow>cs. if P c then snd c else (0::int))"
  by (induction cs) auto

section \<open>Beginnings first\<close>

definition up_to :: "time \<Rightarrow> time \<times> int \<Rightarrow> bool" where
  "up_to i c \<longleftrightarrow> fst c < i \<or> fst c = i \<and> 0 < snd c"

lemma touching_sum:
  "\<forall>p \<in> set ps. proper p \<Longrightarrow>
     (\<Sum>c\<leftarrow>concat (map period_changes ps). if up_to i c then snd c else 0) = touching ps i"
  by (induction ps)
    (auto simp: up_to_def touching_def touches_def period_changes_def elim!: properE)

lemma touching_counted:
  assumes ps: "\<forall>p \<in> set ps. proper p" and sorted: "sorted (map fst cs)" and ties: "begins_first cs"
    and perm: "mset cs = mset (concat (map period_changes ps))"
  shows "touching ps i \<le> max_running 0 0 cs"
proof -
  have "sorted_wrt (\<lambda>c d. fst c \<le> fst d) cs" using sorted by (simp add: sorted_wrt_map)
  with ties have "sorted_wrt (\<lambda>c d. fst c \<le> fst d \<and> (fst c = fst d \<longrightarrow> snd d \<le> snd c)) cs"
    by (induction cs) (auto simp: begins_first_def)
  then have "sorted_wrt (\<lambda>c d. up_to i d \<longrightarrow> up_to i c) cs"
    by (rule sorted_wrt_mono_rel [rotated]) (auto simp: up_to_def)
  then obtain k where k: "k \<le> length cs" "filter (up_to i) cs = take k cs" using filter_prefix by blast
  have "touching ps i = sum_list (map snd (take k cs))"
    using touching_sum [OF ps] sum_list_mset [OF perm] sum_filter_changes [of "up_to i" cs] k(2) by simp
  then show ?thesis
    using k max_running_ge(1) [of 0 0 cs] max_running_ge(2) [of k cs 0 0] by (cases "k = 0") auto
qed

section \<open>Ends first\<close>

lemma take_le_upto:
  assumes sorted: "sorted (map fst cs)" and ties: "ends_first cs"
    and unit: "\<forall>c \<in> set cs. snd c = 1 \<or> snd c = - 1" and k: "0 < k" "k \<le> length cs"
  shows "\<exists>i. sum_list (map snd (take k cs)) \<le> sum_upto i cs"
proof -
  let ?c = "cs ! (k - 1)"
  have le: "fst (cs ! a) \<le> fst (cs ! b)" if "a \<le> b" "b < length cs" for a b
    using sorted_nth_mono [OF sorted] that by simp
  have tie: "snd (cs ! a) \<le> snd (cs ! b)" if "a < b" "b < length cs" "fst (cs ! a) = fst (cs ! b)" for a b
    using sorted_wrt_nth_less [OF ties [unfolded ends_first_def] that(1,2)] that(3) by simp
  have split: "sum_upto i cs = sum_upto i (take k cs) + sum_upto i (drop k cs)" for i
    by (simp add: sum_upto_def flip: sum_list_append map_append)
  have elems: "\<exists>a<k. c = cs ! a" if "c \<in> set (take k cs)" for c
    using that k by (auto simp: in_set_conv_nth)
  have rest: "\<exists>b\<ge>k. b < length cs \<and> c = cs ! b" if "c \<in> set (drop k cs)" for c
  proof -
    from that obtain a where "a < length cs - k" "c = cs ! (k + a)" by (auto simp: in_set_conv_nth)
    then show ?thesis by (intro exI [of _ "k + a"]) auto
  qed
  show ?thesis
  proof (cases "snd ?c = 1")
    case True
    have "sum_list (map snd (take k cs)) = sum_upto (fst ?c) (take k cs)"
      unfolding sum_upto_def
    proof (rule arg_cong [where f = sum_list], rule map_cong [OF refl])
      fix c assume "c \<in> set (take k cs)"
      with elems le [of _ "k - 1"] k show "snd c = (if fst c \<le> fst ?c then snd c else 0)" by fastforce
    qed
    moreover have "0 \<le> snd c" if "c \<in> set (drop k cs)" and "fst c \<le> fst ?c" for c
    proof -
      from rest [OF that(1)] obtain b where b: "k \<le> b" "b < length cs" "c = cs ! b" by blast
      with le [of "k - 1" b] that(2) have "fst ?c = fst (cs ! b)" by simp
      with tie [of "k - 1" b] b k True have "1 \<le> snd (cs ! b)" by simp
      with b show ?thesis by simp
    qed
    then have "0 \<le> sum_upto (fst ?c) (drop k cs)"
      unfolding sum_upto_def by (intro sum_list_nonneg) auto
    ultimately show ?thesis using split by (intro exI [of _ "fst ?c"]) simp
  next
    case False
    with unit k have minus: "snd ?c = - 1" by (metis diff_less less_le_trans nth_mem zero_less_one)
    have "sum_list (map snd (take k cs)) \<le> sum_upto (fst ?c - 1) (take k cs)"
      unfolding sum_upto_def
    proof (rule sum_list_mono)
      fix c assume "c \<in> set (take k cs)"
      with elems obtain a where a: "a < k" "c = cs ! a" by blast
      have "snd c \<le> - 1" if "fst c = fst ?c"
        using tie [of a "k - 1"] that a k minus by (cases "a = k - 1") auto
      moreover have "fst c \<le> fst ?c" using le [of a "k - 1"] a k by simp
      ultimately show "snd c \<le> (if fst c \<le> fst ?c - 1 then snd c else 0)" by auto
    qed
    moreover have "sum_upto (fst ?c - 1) (drop k cs) = 0"
    proof -
      have "\<not> fst c \<le> fst ?c - 1" if "c \<in> set (drop k cs)" for c
      proof -
        from rest [OF that] obtain b where b: "k \<le> b" "b < length cs" "c = cs ! b" by blast
        then have "k - 1 \<le> b" by simp
        with le [OF this] b show ?thesis by simp
      qed
      then have "map (\<lambda>c. if fst c \<le> fst ?c - 1 then snd c else 0) (drop k cs) = map (\<lambda>c. 0) (drop k cs)"
        by (intro map_cong) auto
      then show ?thesis by (simp only: sum_upto_def sum_list_0)
    qed
    ultimately show ?thesis using split by (intro exI [of _ "fst ?c - 1"]) simp
  qed
qed

lemma counted_load:
  assumes ps: "\<forall>p \<in> set ps. proper p" and sorted: "sorted (map fst cs)" and ties: "ends_first cs"
    and perm: "mset cs = mset (concat (map period_changes ps))"
  shows "max_running 0 0 cs = 0 \<or> (\<exists>i. max_running 0 0 cs \<le> load ps i)"
proof -
  have unit: "\<forall>c \<in> set cs. snd c = 1 \<or> snd c = - 1"
    using mset_eq_setD [OF perm] by (auto simp: period_changes_def)
  have upto: "sum_upto i cs = load ps i" for i
    using sum_upto_changes [OF ps] sum_list_mset [OF perm] by (simp add: sum_upto_def)
  obtain f where f: "sum_list (map snd (take k cs)) \<le> load ps (f k)" if "0 < k" "k \<le> length cs" for k
    using take_le_upto [OF sorted ties unit] unfolding upto by metis
  let ?b = "Max (insert 0 ((\<lambda>k. load ps (f k)) ` {..length cs}))"
  have "max_running 0 0 cs \<le> ?b"
  proof (rule max_running_le)
    fix k assume k: "0 < k" "k \<le> length cs"
    then have "load ps (f k) \<le> ?b" by (intro Max_ge) auto
    with f [OF k] show "0 + sum_list (map snd (take k cs)) \<le> ?b" by simp
  qed simp
  moreover have "?b \<in> insert 0 ((\<lambda>k. load ps (f k)) ` {..length cs})"
    by (rule Max_in) auto
  ultimately show ?thesis using max_running_ge(1) [of 0 0 cs] by auto
qed

section \<open>The window\<close>

text \<open>What a request sorts.\<close>

definition window_changes :: "ext \<Rightarrow> vrp_db \<Rightarrow> string \<Rightarrow> time \<Rightarrow> time \<Rightarrow> (time \<times> int) list" where
  "window_changes x db i b e =
     x_sort_changes x (concat (map period_changes (relevant b e (zone_periods db i ParkingStand))))"

lemma load_window:
  assumes "b < e" and "\<forall>p \<in> set ps. proper p"
  shows "\<exists>i. b \<le> i \<and> i < e \<and> load (relevant b e ps) j \<le> load ps i"
proof (intro exI conjI)
  let ?i = "max b (min j (e - 1))"
  show i: "b \<le> ?i" "?i < e" using assms(1) by auto
  have "?i \<in> instants p" if "p \<in> set (relevant b e ps)" and "j \<in> instants p" for p
    using that(1) assms by (rule relevantE) (use that(2) assms(1) in auto)
  then have "load (relevant b e ps) j \<le> load (relevant b e ps) ?i"
    unfolding load_def of_nat_le_iff by (rule length_filter_mono)
  also have "load (relevant b e ps) ?i = load ps ?i"
    using load_relevant [of ?i "\<lparr>tp_From = Some b, tp_To = Some e\<rparr>" ps] i by simp
  finally show "load (relevant b e ps) j \<le> load ps ?i" .
qed

lemma window_changes:
  assumes "orders_ok x"
  shows "sorted (map fst (window_changes x db i b e))"
    and "mset (window_changes x db i b e) =
      mset (concat (map period_changes (relevant b e (zone_periods db i ParkingStand))))"
  using assms by (simp_all add: orders_ok_def window_changes_def)

lemma used_places_swept:
  assumes ok: "vrp_ok x db" and x: "orders_ok x"
    and run: "GetNumberOfUsedParkingPlaces x vid params db = (Inr r, db')"
    and req: "period_request x vid params = (Inr (i, b, e) :: vrp_err + _)" and "b < e"
    and small: "window_small db i ParkingStand b e"
  shows "sint (upr_NumberOfUsedPlaces r) = max_running 0 0 (window_changes x db i b e)"
proof -
  let ?v = "zone_reservation i ParkingStand b e" and ?ps = "zone_periods db i ParkingStand"
  let ?w = "\<lparr>tp_From = Some b, tp_To = Some e\<rparr>" and ?n = "max_running 0 0 (window_changes x db i b e)"
  let ?cons = "map (fetch_vcon x) (tbl_select (vcon_matches ?v) (vdb_cons db))"
  let ?ops = "map (fetch_vop x) (tbl_select (vop_matches ?v) (vdb_ops db))"
  have proper: "\<forall>p \<in> set (filter (may_reach b e) ?ps). proper p"
    using zone_periods_proper [OF ok, of i ParkingStand] by simp
  have "changes_of ?w (busy_periods ?cons ?ops) =
      (Inr (concat (map period_changes (relevant b e ?ps))) :: vrp_err + _)"
    using changes_of_proper [OF _ proper, of ?w] \<open>b < e\<close>
    by (simp add: busy_periods_found relevant_found del: filter_filter)
  then have num: "ComputeNumberOfUsedParkingPlaces x ?cons ?ops b e = (Inr (word_of_int ?n) :: vrp_err + _)"
    by (simp add: ComputeNumberOfUsedParkingPlaces_def sbind_def window_changes_def)
  from run req have act: "used_places_action x (i, b, e) db = Inr (r, db')"
    by (auto simp: GetNumberOfUsedParkingPlaces_def serve_Inr)
  have used: "upr_NumberOfUsedPlaces r = word_of_int ?n"
    by (rule used_places_action_Inr [OF act]) (use num small in \<open>simp add: window_small_def\<close>)
  have "touching (relevant b e ?ps) j \<le> 20000" for j
  proof -
    have "touching (relevant b e ?ps) j \<le> int (length (busy_periods ?cons ?ops))"
      unfolding busy_periods_found touching_def of_nat_le_iff filter_filter
      by (rule length_filter_mono) (auto simp: may_reach_def instants_def split: option.splits)
    also have "\<dots> \<le> 20000"
      using small by (simp add: busy_periods_def window_small_def MaxResultLimit_def)
    finally show ?thesis .
  qed
  moreover have "\<forall>p \<in> set (relevant b e ?ps). proper p" using zone_periods_proper [OF ok, of i ParkingStand] by simp
  from sweep_bounds(2) [OF this window_changes [OF x]] have "?n = 0 \<or> (\<exists>j. ?n \<le> touching (relevant b e ?ps) j)" .
  moreover have "0 \<le> ?n" by (rule max_running_ge(1))
  ultimately have "0 \<le> ?n" "?n \<le> 20000" by (auto intro: order_trans)
  with used show ?thesis by (simp add: sint_sbintrunc' signed_take_bit_int_eq_self)
qed

lemma used_places_ends_first:
  assumes ok: "vrp_ok x db" and x: "orders_ok x"
    and run: "GetNumberOfUsedParkingPlaces x vid params db = (Inr r, db')"
    and req: "period_request x vid params = (Inr (i, b, e) :: vrp_err + _)" and "b < e"
    and small: "window_small db i ParkingStand b e" and ties: "ends_first (window_changes x db i b e)"
  shows "sint (upr_NumberOfUsedPlaces r) = Max (load (zone_periods db i ParkingStand) ` {b..<e})"
proof -
  let ?ps = "zone_periods db i ParkingStand" and ?n = "sint (upr_NumberOfUsedPlaces r)"
  have proper: "\<forall>p \<in> set ?ps. proper p" "\<forall>p \<in> set (relevant b e ?ps). proper p"
    using zone_periods_proper [OF ok, of i ParkingStand] by simp_all
  from counted_load [OF proper(2) window_changes(1) [OF x] ties window_changes(2) [OF x]]
  have "?n = 0 \<or> (\<exists>j. ?n \<le> load (relevant b e ?ps) j)"
    by (simp only: used_places_swept [OF ok x run req \<open>b < e\<close> small])
  then have "\<exists>t. b \<le> t \<and> t < e \<and> ?n \<le> load ?ps t"
  proof
    assume "?n = 0"
    with \<open>b < e\<close> load_nonneg [of ?ps b] show ?thesis by auto
  next
    assume "\<exists>j. ?n \<le> load (relevant b e ?ps) j"
    then obtain j where "?n \<le> load (relevant b e ?ps) j" by blast
    with load_window [OF \<open>b < e\<close> proper(1), of j] show ?thesis by (blast intro: order_trans)
  qed
  then obtain t where t: "b \<le> t" "t < e" "?n \<le> load ?ps t" by blast
  show ?thesis
  proof (rule used_places_request [OF ok x run req \<open>b < e\<close> small])
    assume ge: "\<And>t. b \<le> t \<Longrightarrow> t < e \<Longrightarrow> load ?ps t \<le> ?n"
    from t ge [of t] have "?n = load ?ps t" by simp
    with t(1,2) ge show ?thesis by (intro Max_eqI [symmetric]) (auto intro: image_eqI [of _ _ t])
  qed
qed

lemma used_places_begins_first:
  assumes ok: "vrp_ok x db" and x: "orders_ok x"
    and run: "GetNumberOfUsedParkingPlaces x vid params db = (Inr r, db')"
    and req: "period_request x vid params = (Inr (i, b, e) :: vrp_err + _)" and "b < e"
    and small: "window_small db i ParkingStand b e" and ties: "begins_first (window_changes x db i b e)"
  shows "sint (upr_NumberOfUsedPlaces r) =
    Max (touching (relevant b e (zone_periods db i ParkingStand)) ` {b..<e})"
proof -
  let ?rel = "relevant b e (zone_periods db i ParkingStand)" and ?n = "sint (upr_NumberOfUsedPlaces r)"
  have proper: "\<forall>p \<in> set ?rel. proper p" using zone_periods_proper [OF ok, of i ParkingStand] by simp
  have ge: "touching ?rel t \<le> ?n" for t
    using touching_counted [OF proper window_changes(1) [OF x] ties window_changes(2) [OF x]]
    by (simp only: used_places_swept [OF ok x run req \<open>b < e\<close> small])
  show ?thesis
  proof (rule used_places_request [OF ok x run req \<open>b < e\<close> small])
    assume "\<exists>t. b \<le> t \<and> t < e \<and> ?n \<le> touching ?rel t"
    then obtain t where t: "b \<le> t" "t < e" "?n \<le> touching ?rel t" by blast
    with ge [of t] have "?n = touching ?rel t" by simp
    with t(1,2) ge show ?thesis by (intro Max_eqI [symmetric]) (auto intro: image_eqI [of _ _ t])
  qed
qed

end
