(* ===== verification/Vrp_Properties.thy ===== *)
theory Vrp_Properties
  imports Vrp_Example Vrp_Named Vrp_Ties
begin

text \<open>
  The properties of the vertiport service, each with a witness on the instance of
  \<open>Vrp_Example\<close>.
\<close>

section \<open>Integrity\<close>

text \<open>
  C9. In every state the vertiport service can reach, each operational intent refers to a
  subscription that exists, belongs to the same manager, starts at most five minutes after it
  and does not end before it. Unless that subscription is implicit, it is for the same vertiport
  and zone.
\<close>

theorem vertiport_intents_supported:
  assumes "vrp_reachable x db" and "uuid_idem x" and "tbl_get (vdb_ops db) k = Some r"
  shows "\<exists>s. tbl_get (vdb_subs db) (vor_subscription_id r) = Some s \<and>
    vsr_owner s = vor_owner r \<and>
    times_support (vsr_starts_at s) (vsr_ends_at s) (vor_starts_at r) (vor_ends_at r) \<and>
    (vsr_implicit s \<or>
       vsr_vertiport_id s = vor_vertiport_id r \<and> vsr_vertiport_zone s = vor_vertiport_zone r) \<and>
    0 \<le> vsr_notification_index s \<and> vsr_notification_index s < 2 ^ 31"
proof -
  note refs = vrp_ok_refs [OF vrp_reachable_ok [OF assms(1,2)]]
  from vrp_refs.refs_op [OF refs assms(3)] obtain s where
    s: "tbl_get (vdb_subs db) (vor_subscription_id r) = Some s" "vsub_supports s r" by blast
  with vrp_refs.refs_sub [OF refs s(1)] show ?thesis
    by (auto simp: vsub_supports_def vsub_row_ok_def)
qed

theorem vertiport_intents_supported_witness:
  "\<exists>s. tbl_get (vdb_subs exv_db3) ''s3'' = Some s \<and> vsr_owner s = ''uss2'' \<and>
     times_support (vsr_starts_at s) (vsr_ends_at s) (Some 20000000) (Some 30000000)"
  using vertiport_intents_supported [OF exv_reachable(3) ex_uuid_idem, of "''op3''"
      "exv_op ''v1'' 1 ''uss2'' 20 30 ''s3'' 12"]
  by (auto simp: exv_db3 tbl_get_def exv_op_def)

text \<open>
  C10. In a state that the service can reach, a request for a zone that is accepted, and names a
  subscription by a well-formed id, leaves that subscription with the vertiport and the zone of
  the operational intent. An implicit one is widened to hold both times; an explicit one had the
  vertiport and the zone and stays as it was, but for its notification index. Any other
  operational intent that depends on the subscription and is for another vertiport or zone is
  then without one there, which happens to implicit subscriptions only.
\<close>

theorem named_subscription_follows:
  assumes reach: "vrp_reachable x db" "uuid_idem x"
    and run: "PutVertiportOperationalIntentReference x c i ovn (Some p) db = (Inr resp, db')"
    and named: "vpp_SubscriptionId p \<noteq> ''''" "x_uuid_parse x (vpp_SubscriptionId p) = Some j" "j \<noteq> ''''"
  shows "\<exists>uid row sid s s'. x_pg_uuid x j = Some sid \<and>
    tbl_get (vdb_ops db') = (tbl_get (vdb_ops db))(uid \<mapsto> row) \<and> vor_subscription_id row = sid \<and>
    tbl_get (vdb_subs db) sid = Some s \<and> tbl_get (vdb_subs db') sid = Some s' \<and>
    vsr_owner s' = vsr_owner s \<and> vsr_implicit s' = vsr_implicit s \<and>
    vsr_vertiport_id s' = vor_vertiport_id row \<and> vsr_vertiport_zone s' = vor_vertiport_zone row \<and>
    (if vsr_implicit s
     then vsr_starts_at s' = Some (min (the (vsr_starts_at s)) (the (vor_starts_at row))) \<and>
       vsr_ends_at s' = Some (max (the (vsr_ends_at s)) (the (vor_ends_at row)))
     else s' \<in> {s, bump_vsub s}) \<and>
    (\<forall>k r. k \<noteq> uid \<and> tbl_get (vdb_ops db') k = Some r \<and> vor_subscription_id r = sid \<and>
       (vor_vertiport_id r \<noteq> vor_vertiport_id row \<or> vor_vertiport_zone r \<noteq> vor_vertiport_zone row) \<longrightarrow>
       vsr_implicit s' \<and>
       (vsr_vertiport_id s' \<noteq> vor_vertiport_id r \<or> vsr_vertiport_zone s' \<noteq> vor_vertiport_zone r))"
proof -
  have ok: "vrp_ok x db" using reach by (rule vrp_reachable_ok)
  from run obtain q where q: "validate_put_vop x c i ovn (Some p) = (Inr q :: vrp_err + _)" and
    act: "put_vop_action x c q db = Inr (resp, db')"
    by (auto simp: PutVertiportOperationalIntentReference_def serve_Inr)
  from q named have subid: "vq_subid q = j"
    by (auto simp: validate_put_vop_def IDFromOptionalString_def IDFromString_def tx_inv split: option.splits)
  from validate_put_vop_Inr [OF q] obtain st et where
    st: "vr_StartTime (vq_reservation q) = Some st" and et: "vr_EndTime (vq_reservation q) = Some et" by auto
  show ?thesis
  proof (rule put_vop_named [OF act ok _ st et])
    fix uid row sid s t
    assume rows: "x_pg_uuid x (vq_subid q) = Some sid" "vor_subscription_id row = sid"
        "tbl_get (vdb_subs db) sid = Some s" "tbl_get (vdb_subs db') sid = Some t"
      and ops: "tbl_get (vdb_ops db') = (tbl_get (vdb_ops db))(uid \<mapsto> row)"
      and t: "vsr_owner t = vsr_owner s" "vsr_implicit t = vsr_implicit s"
        "vsr_vertiport_id t = vor_vertiport_id row" "vsr_vertiport_zone t = vor_vertiport_zone row"
      and follows: "if vsr_implicit s
        then vsr_starts_at t = Some (min (the (vsr_starts_at s)) (the (vor_starts_at row))) \<and>
          vsr_ends_at t = Some (max (the (vsr_ends_at s)) (the (vor_ends_at row)))
        else t \<in> {s, bump_vsub s} \<and>
          vsr_vertiport_id s = vor_vertiport_id row \<and> vsr_vertiport_zone s = vor_vertiport_zone row"
    have others: "vsr_implicit t \<and> (vsr_vertiport_id t \<noteq> vor_vertiport_id r \<or> vsr_vertiport_zone t \<noteq> vor_vertiport_zone r)"
      if "k \<noteq> uid" "tbl_get (vdb_ops db') k = Some r" "vor_subscription_id r = sid"
        "vor_vertiport_id r \<noteq> vor_vertiport_id row \<or> vor_vertiport_zone r \<noteq> vor_vertiport_zone row" for k r
    proof -
      have "vsub_supports s r"
        using vrp_refs.refs_op [OF vrp_ok_refs [OF ok], of k r] that(1-3) ops rows(3) by auto
      with that(4) t follows show ?thesis by (auto simp: vsub_supports_def split: if_splits)
    qed
    from follows have "if vsr_implicit s
        then vsr_starts_at t = Some (min (the (vsr_starts_at s)) (the (vor_starts_at row))) \<and>
          vsr_ends_at t = Some (max (the (vsr_ends_at s)) (the (vor_ends_at row)))
        else t \<in> {s, bump_vsub s}" by (simp split: if_splits)
    with rows ops t others show ?thesis unfolding subid by - (rule exI conjI allI impI | blast)+
  qed (simp add: subid named(3))
qed

theorem named_subscription_follows_witness:
  "\<exists>s. tbl_get (vdb_subs exv_db3) ''s1'' = Some s \<and> vsr_implicit s \<and> vsr_vertiport_id s \<noteq> ''v1'' \<and>
     tbl_get (vdb_ops exv_db3) ''op1'' = Some (exv_op ''v1'' 1 ''uss1'' 30 40 ''s1'' 10)"
proof -
  let ?p = "exv_params ''v2'' ParkingStand 30 40 [] ''s1''"
  let ?r = "PutVertiportOperationalIntentReference ex_ext (ex_call ''uss1'' ''s4'' 13) ''op4'' '''' (Some ?p) exv_db2"
  have "exv_db3 = exv_step exv_db2 (exv_steps ! 4)"
    by (simp add: exv_db3_def exv_db2_def exv_run_def exv_steps_def)
  then have "snd ?r = exv_db3"
    by (simp add: exv_step_def exv_steps_def CreateVertiportOperationalIntentReference_def)
  moreover have "\<not> isl (fst ?r)" unfolding exv_db2 by code_simp
  ultimately obtain resp where run: "?r = (Inr resp, exv_db3)" by (cases ?r; cases "fst ?r") auto
  have named: "vpp_SubscriptionId ?p \<noteq> ''''" "x_uuid_parse ex_ext (vpp_SubscriptionId ?p) = Some ''s1''"
    "''s1'' \<noteq> ''''"
    by (simp_all add: exv_params_def ex_ext_def)
  from named_subscription_follows [OF exv_reachable(2) ex_uuid_idem run named] obtain uid row s s' where
    f: "x_pg_uuid ex_ext ''s1'' = Some (vor_subscription_id row)"
      "tbl_get (vdb_ops exv_db3) = (tbl_get (vdb_ops exv_db2))(uid \<mapsto> row)"
      "tbl_get (vdb_subs exv_db3) (vor_subscription_id row) = Some s'"
      "vsr_vertiport_id s' = vor_vertiport_id row"
      "\<And>k r. k \<noteq> uid \<Longrightarrow> tbl_get (vdb_ops exv_db3) k = Some r \<Longrightarrow>
        vor_subscription_id r = vor_subscription_id row \<Longrightarrow> vor_vertiport_id r \<noteq> vor_vertiport_id row \<Longrightarrow>
        vsr_implicit s' \<and> (vsr_vertiport_id s' \<noteq> vor_vertiport_id r \<or> vsr_vertiport_zone s' \<noteq> vor_vertiport_zone r)"
    by blast
  have sid: "vor_subscription_id row = ''s1''" using f(1) by (simp add: ex_ext_def)
  have ops: "tbl_get (vdb_ops exv_db3) ''op1'' = Some (exv_op ''v1'' 1 ''uss1'' 30 40 ''s1'' 10)"
    "tbl_get (vdb_ops exv_db3) ''op4'' = Some (exv_op ''v2'' 1 ''uss1'' 30 40 ''s1'' 13)"
    "tbl_get (vdb_ops exv_db2) ''op4'' = None"
    by (simp_all add: exv_db3 exv_db2 tbl_get_def)
  from f(2) ops have new: "uid = ''op4''" "row = exv_op ''v2'' 1 ''uss1'' 30 40 ''s1'' 13"
    by (metis fun_upd_apply option.distinct(1), metis fun_upd_apply option.distinct(1) option.inject)
  from f(5) [of "''op1''", OF _ ops(1)] f(3,4) ops(1) show ?thesis
    by (simp add: new exv_op_def)
qed

section \<open>Parking places\<close>

text \<open>
  C11. Let a window begin before it ends, and no search in it reach the limit of 10000 rows. The
  number of used parking places that a request reports for it is an integer from 0 to 20000
  without wrap-around. It is at least the number of reservations of parking places at every
  instant of the window, and at most the number of reservations that hold, begin or end at some
  instant of it. The number of available places is the difference to the places of the
  vertiport, and the request changes nothing.
\<close>

theorem used_places_bounds:
  assumes "vrp_reachable x db" and "uuid_idem x" and "orders_ok x"
    and run: "GetNumberOfUsedParkingPlaces x vid params db = (Inr r, db')"
    and req: "period_request x vid params = (Inr (i, b, e) :: vrp_err + _)" and "b < e"
    and small: "window_small db i ParkingStand b e"
  shows "0 \<le> sint (upr_NumberOfUsedPlaces r) \<and> sint (upr_NumberOfUsedPlaces r) \<le> 20000 \<and>
    (\<forall>t. b \<le> t \<and> t < e \<longrightarrow> load (zone_periods db i ParkingStand) t \<le> sint (upr_NumberOfUsedPlaces r)) \<and>
    (\<exists>t. b \<le> t \<and> t < e \<and>
       sint (upr_NumberOfUsedPlaces r) \<le> touching (relevant b e (zone_periods db i ParkingStand)) t) \<and>
    upr_NumberOfAvailablePlaces r = upr_NumberOfPlaces r - upr_NumberOfUsedPlaces r \<and> db' = db"
  by (rule used_places_request [OF vrp_reachable_ok [OF assms(1,2)] assms(3) run req assms(6) small]) blast

theorem used_places_bounds_witness:
  "sint (upr_NumberOfUsedPlaces (projr (fst exv_used2))) \<le> 20000"
proof -
  have "GetNumberOfUsedParkingPlaces ex_ext ''v1'' (Some (exv_period 15 35)) exv_db2 =
      (Inr (projr (fst exv_used2)), snd exv_used2)"
    by (simp add: exv_used2 flip: exv_used2_def)
  from used_places_bounds [OF exv_reachable(2) ex_uuid_idem ex_orders_ok this exv_period_request]
  show ?thesis by (simp add: small_tables exv_db2 MaxResultLimit_def)
qed

text \<open>
  C12. When, besides, no parking place is reserved from the very instant at which another
  reservation ends, the number reported is exact: for a window that begins before it ends, and
  in which no search reaches the limit of 10000 rows, it is the largest number of reservations
  that hold at one instant of the window.
\<close>

theorem used_places_exact:
  assumes "vrp_reachable x db" and "uuid_idem x" and "orders_ok x"
    and run: "GetNumberOfUsedParkingPlaces x vid params db = (Inr r, db')"
    and req: "period_request x vid params = (Inr (i, b, e) :: vrp_err + _)" and "b < e"
    and small: "window_small db i ParkingStand b e"
    and apart: "\<forall>p \<in> set (zone_periods db i ParkingStand). \<forall>q \<in> set (zone_periods db i ParkingStand).
      tp_To p \<noteq> tp_From q"
  shows "sint (upr_NumberOfUsedPlaces r) = Max (load (zone_periods db i ParkingStand) ` {b..<e})"
proof -
  have ok: "vrp_ok x db" using assms(1,2) by (rule vrp_reachable_ok)
  let ?ps = "zone_periods db i ParkingStand" and ?n = "sint (upr_NumberOfUsedPlaces r)"
  show ?thesis
  proof (rule used_places_request [OF ok assms(3) run req assms(6) small])
    assume ge: "\<And>t. b \<le> t \<Longrightarrow> t < e \<Longrightarrow> load ?ps t \<le> ?n"
      and "\<exists>t. b \<le> t \<and> t < e \<and> ?n \<le> touching (relevant b e ?ps) t"
    then obtain t where t: "b \<le> t" "t < e" "?n \<le> touching (relevant b e ?ps) t" by blast
    from touching_load [OF assms(6) zone_periods_proper [OF ok] apart t(1,2)] t(3)
    obtain u where "b \<le> u" "u < e" "?n \<le> load ?ps u" by (meson order_trans)
    with ge have "?n \<in> load ?ps ` {b..<e}" by (fastforce intro: antisym image_eqI [of _ _ u])
    with ge show ?thesis by (intro Max_eqI [symmetric]) auto
  qed
qed

theorem used_places_exact_witness:
  "upr_NumberOfUsedPlaces (projr (fst exv_used1)) = 1 \<and>
   Max (load (zone_periods exv_db1 ''v1'' ParkingStand) ` {15000000..<35000000}) = 1"
proof -
  have run: "GetNumberOfUsedParkingPlaces ex_ext ''v1'' (Some (exv_period 15 35)) exv_db1 =
      (Inr (projr (fst exv_used1)), snd exv_used1)"
    by (simp add: exv_used1 flip: exv_used1_def)
  from used_places_exact [OF exv_reachable(1) ex_uuid_idem ex_orders_ok run exv_period_request]
  show ?thesis
    by (simp add: small_tables exv_db1 MaxResultLimit_def zone_periods_def exv_op_def
        ParkingStand_def exv_used1)
qed



section \<open>The landing area\<close>

text \<open>
  C14. The available times that a request reports for a window, which begins before it ends and
  in which no search reaches the limit of 10000 rows, are periods with a beginning before their
  end, and together hold exactly the instants of the window at which no operational intent and
  no constraint reserves the landing area of the vertiport.
\<close>

theorem available_times_exact:
  assumes "vrp_reachable x db" and "uuid_idem x"
    and run: "GetVertiportFATOAvailableTimes x vid params db = (Inr r, db')"
    and req: "period_request x vid params = (Inr (i, b, e) :: vrp_err + _)" and "b < e"
    and small: "window_small db i FATO b e"
  shows "\<exists>ps. list_all2 (\<lambda>p q. TimePeriod_ToProto x p = (Inr q :: vrp_err + _)) ps r \<and>
    (\<forall>p \<in> set ps. proper p) \<and> all_instants ps = {b..<e} - all_instants (zone_periods db i FATO)"
  by (rule available_times_request [OF vrp_reachable_ok [OF assms(1,2)] run req assms(5) small]) blast

theorem available_times_exact_witness:
  "\<exists>ps. length ps = length (projr (fst exv_free1)) \<and> length ps = 2 \<and>
     all_instants ps = {20000000..<30000000} - {22000000..<25000000}"
proof -
  have run: "GetVertiportFATOAvailableTimes ex_ext ''v1'' (Some (exv_period 20 30)) exv_db1 =
      (Inr (projr (fst exv_free1)), snd exv_free1)"
    by (simp add: exv_free1 flip: exv_free1_def)
  have "window_small exv_db1 i z b e" for i z b e
    by (rule small_tables) (simp_all add: exv_db1 MaxResultLimit_def)
  with available_times_exact [OF exv_reachable(1) ex_uuid_idem run exv_period_request] obtain ps where
    "list_all2 (\<lambda>p q. TimePeriod_ToProto ex_ext p = (Inr q :: vrp_err + _)) ps (projr (fst exv_free1))"
    "all_instants ps = {20000000..<30000000} - all_instants (zone_periods exv_db1 ''v1'' FATO)"
    by auto
  moreover have "all_instants (zone_periods exv_db1 ''v1'' FATO) = {22000000..<25000000}"
    by (simp add: zone_periods_def exv_db1 exv_op_def FATO_def)
  ultimately show ?thesis
    by (intro exI [of _ ps]) (simp add: exv_free1 list_all2_lengthD)
qed

text \<open>
  C15. Cutting returns a result, whatever the order of the reservations, when no two of them and
  the window have an end in common.
\<close>

theorem free_periods_returned:
  assumes "b < e" and "\<forall>p \<in> set (busy_periods cs ops). proper p"
    and "ends_apart [\<lparr>tp_From = Some b, tp_To = Some e\<rparr>] (busy_periods cs ops)"
  shows "\<exists>ps. ComputeFreeTimePeriods cs ops b e = (Inr ps :: 'd err + _)"
  unfolding ComputeFreeTimePeriods_def by (rule cut_each_apart) (use assms in auto)

definition exv_busy :: v_operational_intent where
  "exv_busy = fetch_vop ex_ext (''op2'', exv_op ''v1'' 0 ''uss1'' 22 25 ''s2'' 11)"

theorem free_periods_returned_witness:
  "\<exists>ps. ComputeFreeTimePeriods [] [exv_busy] 20000000 30000000 = (Inr ps :: unit err + _)"
  by (rule free_periods_returned) (simp_all add: busy_periods_def exv_busy_def exv_op_def)

text \<open>
  C16. Cutting one period by another that overlaps it fails exactly when the other holds all of
  its instants and more, and has the same beginning or the same end.
\<close>

theorem cut_fails_iff:
  assumes "proper p" and "proper q" and "instants p \<inter> instants q \<noteq> {}"
  shows "(\<exists>err. Cut p q = (Inl err :: 'd err + _)) \<longleftrightarrow>
    instants p \<subset> instants q \<and> (tp_From p = tp_From q \<or> tp_To p = tp_To q)"
  using Cut_Inl_iff [OF assms] by (simp add: shares_one_end_def)

theorem cut_fails_iff_witness:
  "\<exists>err. Cut \<lparr>tp_From = Some 10, tp_To = Some 20\<rparr> \<lparr>tp_From = Some 5, tp_To = Some 20\<rparr> =
     (Inl err :: unit err + _)"
  by (subst cut_fails_iff) (auto simp: instants_inter psubset_eq atLeastLessThan_eq_iff)

section \<open>What the requests store and show\<close>

text \<open>
  C17. No response of the vertiport service shows an OVN of another manager: in the response to
  any request, an error included, every reference to an operational intent or a constraint of
  another manager has the text \<^verbatim>\<open>Available from USS\<close> in place of its OVN.
\<close>

theorem vertiport_ovns_hidden:
  assumes "vrp_serve x c req db = (r, db')"
  shows "(\<forall>p \<in> set (v_resp_ops r). c_manager c = Some (poi_Manager p) \<or> poi_Ovn p = ''Available from USS'') \<and>
    (\<forall>p \<in> set (v_resp_cons r). c_manager c = Some (pcon_Manager p) \<or> pcon_Ovn p = ''Available from USS'')"
  using vrp_serve_masked [OF assms] by (simp add: op_masked_def con_masked_def NoOvnPhrase_def)

theorem vertiport_ovns_hidden_witness:
  "\<exists>p. v_resp_ops (fst exv_denied) = [p] \<and> poi_Manager p = ''uss1'' \<and> poi_Ovn p = ''Available from USS''"
proof -
  obtain p where p: "v_resp_ops (fst exv_denied) = [p]" "poi_Manager p = ''uss1''"
    using exv_denied_detail by (cases "fst exv_denied") (auto simp: map_eq_Cons_conv)
  have "vrp_serve ex_ext (ex_call ''uss2'' ''s3'' 12)
      (ReqCreateVOp ''op3'' (Some (exv_params ''v1'' ParkingStand 20 30 [] ''''))) exv_db1 =
    (fst exv_denied, snd exv_denied)"
    by (simp only: exv_denied_def prod.collapse)
  from vertiport_ovns_hidden [OF this] p show ?thesis by (auto simp: ex_call_def)
qed



text \<open>
  C20. When a zone is reserved in a state that requires a key, the key holds the OVN of every
  operational intent in the database for the same vertiport and zone whose times overlap or
  touch those of the reservation, as long as a search does not reach the limit of 10000 rows.
\<close>

theorem vertiport_key_covers_conflicts:
  assumes run: "PutVertiportOperationalIntentReference x c i ovn (Some p) db = (Inr resp, db')"
    and key: "RequiresKey (vpp_State p)" and wf: "tbl_wf (vdb_ops db)"
    and v: "VertiportReservationFromVRPProto x (vpp_VertiportReservation p) = (Inr v :: vrp_err + _)"
    and few: "int (length (tbl_select (vop_matches v) (vdb_ops db))) \<le> MaxResultLimit"
    and r: "tbl_get (vdb_ops db) k = Some r"
    and zone: "vor_vertiport_id r = VertiportID v" "vor_vertiport_zone r = VertiportZone v"
    and time: "le_or_null (vr_StartTime v) (vor_ends_at r)" "le_or_null (vor_starts_at r) (vr_EndTime v)"
  shows "NewOVNFromTime x (vor_updated_at r) k \<in> set (vpp_Key p)"
proof -
  from run obtain q where q: "validate_put_vop x c i ovn (Some p) = (Inr q :: vrp_err + _)" and
    act: "put_vop_action x c q db = Inr (resp, db')"
    by (auto simp: PutVertiportOperationalIntentReference_def serve_Inr)
  from q v have p: "vq_params q = p" "vq_reservation q = v" by (auto simp: validate_put_vop_def tx_inv)
  show ?thesis
  proof (rule put_vop_action_Inr [OF act])
    fix version sub s1 opid subid s2 allsubs subs
    assume sub: "put_vop_subscription x c q db = Inr (sub, s1)" and chk: "v_check_key x q sub s1 = Inr ((), s1)"
    let ?ops = "map (fetch_vop x) (tbl_select (vop_matches v) (vdb_ops db))"
    have search: "vrp_SearchOperationalIntents x (vq_reservation q) s1 = Inr (?ops, s1)"
      using put_vop_subscription_frame [OF sub] few p by (simp add: vrp_searches_Inr)
    from r wf zone time have "(k, r) \<in> set (tbl_select (vop_matches v) (vdb_ops db))"
      by (auto simp: tbl.set_select vop_matches_def reserved_def)
    then have "fetch_vop x (k, r) \<in> set ?ops" by (simp add: image_eqI)
    from v_check_key_passes [OF chk _ search this] key p show ?thesis by simp
  qed
qed

theorem vertiport_key_covers_conflicts_witness:
  "NewOVNFromTime ex_ext 10000000 ''op1'' \<in> set [exv_ovn1]"
proof -
  obtain resp where run: "PutVertiportOperationalIntentReference ex_ext (ex_call ''uss2'' ''s3'' 12) ''op3'' ''''
      (Some (exv_params ''v1'' ParkingStand 20 30 [exv_ovn1] '''')) exv_db1 = (Inr resp, exv_db2)"
    using exv_granted by blast
  let ?v = "\<lparr>VertiportID = ''v1'', VertiportZone = 1, vr_StartTime = Some 20000000, vr_EndTime = Some 30000000\<rparr>"
  have v: "VertiportReservationFromVRPProto ex_ext
      (vpp_VertiportReservation (exv_params ''v1'' ParkingStand 20 30 [exv_ovn1] '''')) = (Inr ?v :: vrp_err + _)"
    by code_simp
  have few: "int (length (tbl_select (vop_matches ?v) (vdb_ops exv_db1))) \<le> MaxResultLimit"
    unfolding exv_db1 by code_simp
  have "RequiresKey ''Accepted''" by code_simp
  with vertiport_key_covers_conflicts [OF run _ _ v few, of "''op1''" "exv_op ''v1'' 1 ''uss1'' 30 40 ''s1'' 10"]
  show ?thesis by (simp add: exv_params_def exv_db1 tbl_wf_def tbl_get_def exv_op_def)
qed

text \<open>C21. A vertiport that was created or changed is read back as it was given.\<close>

theorem vertiport_round_trip:
  assumes "PutVertiport x vid (Some n) db = (Inr r, db')"
  shows "GetVertiport x vid db' = (Inr \<lparr>pvp_Id = vid, pvp_NumberOfParkingPlaces = n\<rparr>, db') \<and>
    r = \<lparr>pvp_Id = vid, pvp_NumberOfParkingPlaces = n\<rparr>"
proof -
  from assms obtain i uid where i: "x_uuid_parse x vid = Some i" "x_pg_uuid x i = Some uid"
    and db': "db' = db\<lparr>vdb_ports := tbl_upsert uid n (vdb_ports db)\<rparr>"
    and r: "r = \<lparr>pvp_Id = vid, pvp_NumberOfParkingPlaces = n\<rparr>"
    by (auto simp: PutVertiport_def serve_Inr put_vertiport_action_def tx_inv)
  have "GetVertiport x vid db' = (Inr \<lparr>pvp_Id = vid, pvp_NumberOfParkingPlaces = n\<rparr>, db')"
    unfolding GetVertiport_def serve_Inr
    using i by (auto simp: parse_id_Inr get_vertiport_action_def tx_inv db' tbl_laws)
  with r show ?thesis by simp
qed

theorem vertiport_round_trip_witness:
  "fst (GetVertiport ex_ext ''v9'' (snd (PutVertiport ex_ext ''v9'' (Some 5) exv_db1))) =
     Inr \<lparr>pvp_Id = ''v9'', pvp_NumberOfParkingPlaces = 5\<rparr>"
proof -
  obtain r where "PutVertiport ex_ext ''v9'' (Some 5) exv_db1 =
      (Inr r, snd (PutVertiport ex_ext ''v9'' (Some 5) exv_db1))"
    unfolding exv_db1 by (cases "PutVertiport ex_ext ''v9'' (Some 5) exv_db1")
      (auto simp: PutVertiport_def serve_def parse_id_def IDFromString_def srecode_def swrap_def
        sbind_def sderef_def put_vertiport_action_def vrp_UpsertVertiport_def PgUUID_def transact_def tx_defs)
  from vertiport_round_trip [OF this] show ?thesis by simp
qed

text \<open>
  C22. A request for the number of used parking places of a vertiport that does not exist, with
  a well-formed window in which no search reaches the limit of 10000 rows, dereferences a nil
  pointer.
\<close>

theorem unknown_vertiport_panics:
  assumes "vrp_reachable x db" and "uuid_idem x" and "orders_ok x"
    and req: "period_request x vid params = (Inr (i, b, e) :: vrp_err + _)" and "b < e"
    and uid: "x_pg_uuid x i = Some uid" and none: "tbl_get (vdb_ports db) uid = None"
    and small: "window_small db i ParkingStand b e"
  shows "GetNumberOfUsedParkingPlaces x vid params db = (Inl Panic, db)"
proof -
  have ok: "vrp_ok x db" using assms(1,2) by (rule vrp_reachable_ok)
  let ?v = "zone_reservation i ParkingStand b e"
  let ?cons = "map (fetch_vcon x) (tbl_select (vcon_matches ?v) (vdb_cons db))"
  let ?ops = "map (fetch_vop x) (tbl_select (vop_matches ?v) (vdb_ops db))"
  have proper: "\<forall>p \<in> set (busy_periods ?cons ?ops). proper p"
    unfolding busy_periods_found using zone_periods_proper [OF ok, of i ParkingStand] by auto
  obtain n where n: "ComputeNumberOfUsedParkingPlaces x ?cons ?ops b e = (Inr n :: vrp_err + _)"
    by (rule used_places [OF assms(3) \<open>b < e\<close> proper, where ?'d = airspace_conflict])
  have "used_places_action x (i, b, e) db = Inl Panic"
    using small uid none n
    by (simp add: window_small_def used_places_action_def vrp_GetVertiport_def PgUUID_def
        vrp_SearchConstraints_def vrp_SearchOperationalIntents_def tx_defs)
  with req show ?thesis
    by (simp add: GetNumberOfUsedParkingPlaces_def serve_def transact_def)
qed

theorem unknown_vertiport_panics_witness:
  "fst (GetNumberOfUsedParkingPlaces ex_ext ''v2'' (Some (exv_period 15 35)) exv_db3) = Inl Panic"
proof -
  have "window_small exv_db3 ''v2'' ParkingStand 15000000 35000000"
    by (rule small_tables) (simp_all add: exv_db3 MaxResultLimit_def)
  with unknown_vertiport_panics [OF exv_reachable(3) ex_uuid_idem ex_orders_ok exv_period_request, of 15 35 "''v2''" "''v2''"]
  show ?thesis by (simp add: exv_db3 tbl_get_def)
qed

end
