(* ===== verification/Dss_Auth.thy ===== *)
theory Dss_Auth
  imports Dss_Server
begin

text \<open>
  Package \<^verbatim>\<open>pkg/auth\<close>: claims and scopes of an access token, the authorizer, and the
  interceptor that runs before every handler; the scopes that the servers of \<^verbatim>\<open>pkg/scd\<close>,
  \<^verbatim>\<open>pkg/vrp\<close>, \<^verbatim>\<open>pkg/rid\<close> and \<^verbatim>\<open>pkg/aux_\<close> require; the validation interceptor.
\<close>

section \<open>Scopes\<close>

text \<open>\<^verbatim>\<open>strings.Split\<close> by one character: the parts between its occurrences, always at least one.\<close>

fun split_at :: "char \<Rightarrow> string \<Rightarrow> string list" where
  "split_at c [] = [[]]"
| "split_at c (a # s) =
     (if a = c then [] # split_at c s
      else case split_at c s of [] \<Rightarrow> [[a]] | w # ws \<Rightarrow> (a # w) # ws)"

datatype KeyClaimedScopesValidator =
    RequireAllScopes "string list"
  | RequireAnyScope "string list"

text \<open>The error names the scopes that are missing.\<close>

fun any_scope :: "string list \<Rightarrow> string set \<Rightarrow> string list \<Rightarrow> string list + unit" where
  "any_scope [] scopes missing = Inl missing"
| "any_scope (s # ss) scopes missing =
     (if s \<in> scopes then Inr () else any_scope ss scopes (missing @ [s]))"

fun ValidateKeyClaimedScopes :: "KeyClaimedScopesValidator \<Rightarrow> string set \<Rightarrow> string list + unit" where
  "ValidateKeyClaimedScopes (RequireAllScopes ss) scopes =
     (let missing = filter (\<lambda>s. s \<notin> scopes) ss in
      if missing \<noteq> [] then Inl missing else Inr ())"
| "ValidateKeyClaimedScopes (RequireAnyScope ss) scopes = any_scope ss scopes []"

text \<open>A later table overrides an earlier one.\<close>

type_synonym scopes_table = "(string \<times> KeyClaimedScopesValidator) list"

definition MergeOperationsAndScopesValidators ::
    "scopes_table list \<Rightarrow> string \<Rightarrow> KeyClaimedScopesValidator option" where
  "MergeOperationsAndScopesValidators tables =
     fold (\<lambda>rs result. fold (\<lambda>(k, v) r. r(k \<mapsto> v)) rs result) tables Map.empty"

section \<open>Claims\<close>

text \<open>
  The claims of a token as they stand in it, with the \<^verbatim>\<open>scope\<close> member, if there is one, in
  JSON; and the claims as the code has them. A token without scopes has a nil set of them.
\<close>

record token_claims =
  tc_Subject :: string
  tc_Issuer :: string
  tc_Audience :: string
  tc_ExpiresAt :: int
  tc_IssuedAt :: int
  tc_NotBefore :: int
  tc_scope :: "string option"

record claims =
  Subject :: string
  Issuer :: string
  Audience :: string
  ExpiresAt :: int
  IssuedAt :: int
  NotBefore :: int
  Scopes :: "string set"

text \<open>
  The libraries: \<^verbatim>\<open>jwt\<close> checks the form and the signature of a token against a key and gives
  its claims, and validates the standard claims at a time in seconds; \<^verbatim>\<open>json\<close> decodes a string.
\<close>

record 'k auth_ext =
  jwt_verify :: "string \<Rightarrow> 'k \<Rightarrow> token_claims option"
  jwt_standard_valid :: "int \<Rightarrow> claims \<Rightarrow> bool"
  json_string :: "string \<Rightarrow> string option"

definition ScopeSet_UnmarshalJSON :: "'k auth_ext \<Rightarrow> string \<Rightarrow> string set option" where
  "ScopeSet_UnmarshalJSON a data =
     (case json_string a data of None \<Rightarrow> None | Some str \<Rightarrow> Some (set (split_at (CHR '' '') str)))"

definition unix :: "time \<Rightarrow> int" where
  "unix t = t div 10 ^ 6"

datatype claims_err = errMissingOrEmptySubject | errTokenExpireTooFar | errMissingIssuer | errStandard

text \<open>The result of \<^verbatim>\<open>VerifyExpiresAt\<close> is not used.\<close>

definition claims_Valid :: "'k auth_ext \<Rightarrow> time \<Rightarrow> claims \<Rightarrow> claims_err + unit" where
  "claims_Valid a now c =
     (if Subject c = '''' then Inl errMissingOrEmptySubject
      else if ExpiresAt c > unix (time_add now (minutes 60)) then Inl errTokenExpireTooFar
      else if Issuer c = '''' then Inl errMissingIssuer
      else if jwt_standard_valid a (unix now) c then Inr () else Inl errStandard)"

text \<open>
  What \<^verbatim>\<open>jwt.StandardClaims.Valid\<close> is documented to check; a claim that is 0 is absent.
\<close>

definition standard_claims :: "'k auth_ext \<Rightarrow> bool" where
  "standard_claims a \<longleftrightarrow> (\<forall>t c. jwt_standard_valid a t c \<longleftrightarrow>
     (ExpiresAt c = 0 \<or> t \<le> ExpiresAt c) \<and> (IssuedAt c = 0 \<or> IssuedAt c \<le> t) \<and>
     (NotBefore c = 0 \<or> NotBefore c \<le> t))"

text \<open>\<^verbatim>\<open>jwt.ParseWithClaims\<close>: verification, decoding of the claims, and \<^verbatim>\<open>Valid\<close>.\<close>

definition parse_with_claims :: "'k auth_ext \<Rightarrow> time \<Rightarrow> string \<Rightarrow> 'k \<Rightarrow> claims option" where
  "parse_with_claims a now token key =
     (case jwt_verify a token key of None \<Rightarrow> None | Some tc \<Rightarrow>
      case (case tc_scope tc of None \<Rightarrow> Some {} | Some data \<Rightarrow> ScopeSet_UnmarshalJSON a data) of
        None \<Rightarrow> None
      | Some scopes \<Rightarrow>
          (let c = \<lparr>Subject = tc_Subject tc, Issuer = tc_Issuer tc, Audience = tc_Audience tc,
                    ExpiresAt = tc_ExpiresAt tc, IssuedAt = tc_IssuedAt tc,
                    NotBefore = tc_NotBefore tc, Scopes = scopes\<rparr> in
           case claims_Valid a now c of Inl e \<Rightarrow> None | Inr u \<Rightarrow> Some c))"

section \<open>The authorizer\<close>

record 'k authorizer =
  keys :: "'k list"
  scopesValidators :: "string \<Rightarrow> KeyClaimedScopesValidator option"
  acceptedAudiences :: "string set"

definition NewRSAAuthorizer ::
    "'k list \<Rightarrow> (string \<Rightarrow> KeyClaimedScopesValidator option) \<Rightarrow> string list \<Rightarrow> 'k authorizer" where
  "NewRSAAuthorizer ks validators audiences =
     \<lparr>keys = ks, scopesValidators = validators, acceptedAudiences = set audiences\<rparr>"

text \<open>What the worker that refreshes the keys does at each tick.\<close>

definition setKeys :: "'k authorizer \<Rightarrow> 'k list \<Rightarrow> 'k authorizer" where
  "setKeys au ks = au\<lparr>keys := ks\<rparr>"

text \<open>The metadata of a call: the values of its header \<^verbatim>\<open>authorization\<close>, if it has metadata.\<close>

definition trim_prefix :: "string \<Rightarrow> string \<Rightarrow> string" where
  "trim_prefix p s = (if take (length p) s = p then drop (length p) s else s)"

definition getToken :: "string list option \<Rightarrow> string option" where
  "getToken headers =
     (case headers of None \<Rightarrow> None
      | Some authHeader \<Rightarrow>
          (case authHeader of [] \<Rightarrow> None | h # _ \<Rightarrow> Some (trim_prefix ''Bearer '' h)))"

text \<open>The first key under which the token is valid.\<close>

fun first_valid :: "'k auth_ext \<Rightarrow> time \<Rightarrow> string \<Rightarrow> 'k list \<Rightarrow> claims option" where
  "first_valid a now token [] = None"
| "first_valid a now token (k # ks) =
     (case parse_with_claims a now token k of
        Some c \<Rightarrow> Some c | None \<Rightarrow> first_valid a now token ks)"

definition validateKeyClaimedScopes ::
    "'k authorizer \<Rightarrow> string \<Rightarrow> string set \<Rightarrow> string list + unit" where
  "validateKeyClaimedScopes au method scopes =
     (case scopesValidators au method of
        Some validator \<Rightarrow> ValidateKeyClaimedScopes validator scopes
      | None \<Rightarrow> Inr ())"

text \<open>
  The interceptor refuses the call, or runs the handler for the owner named in the token. With
  no keys the loop leaves no error, and \<^verbatim>\<open>PropagateWithCode\<close> makes no error of none: the
  interceptor returns neither a response nor an error.
\<close>

datatype 'd admission = Refused "'d err" | NoResponse | Admitted string

definition AuthInterceptor ::
    "'k auth_ext \<Rightarrow> time \<Rightarrow> 'k authorizer \<Rightarrow> string \<Rightarrow> string list option \<Rightarrow> 'd admission" where
  "AuthInterceptor a now au method headers =
     (case getToken headers of None \<Rightarrow> Refused (coded Unauthenticated)
      | Some token \<Rightarrow>
          (case first_valid a now token (keys au) of
             None \<Rightarrow>
               if keys au = [] then NoResponse
               else Refused (PropagateWithCode Unauthenticated ExtErr)
           | Some c \<Rightarrow>
               if Audience c \<notin> acceptedAudiences au then Refused (coded Unauthenticated)
               else (case validateKeyClaimedScopes au method (Scopes c) of
                       Inl missing \<Rightarrow> Refused (coded PermissionDenied)
                     | Inr u \<Rightarrow> Admitted (Subject c))))"

section \<open>The scopes of the servers\<close>

definition ISA_Write :: string where "ISA_Write = ''dss.write.identification_service_areas''"
definition ISA_Read :: string where "ISA_Read = ''dss.read.identification_service_areas''"

definition strategicCoordinationScope :: string where
  "strategicCoordinationScope = ''utm.strategic_coordination''"
definition constraintManagementScope :: string where
  "constraintManagementScope = ''utm.constraint_management''"
definition constraintProcessingScope :: string where
  "constraintProcessingScope = ''utm.constraint_processing''"
definition conformanceMonitoringSAScope :: string where
  "conformanceMonitoringSAScope = ''utm.conformance_monitoring_sa''"
definition availabilityArbitrationScope :: string where
  "availabilityArbitrationScope = ''utm.availability_arbitration''"
definition vertiportScope :: string where
  "vertiportScope = ''utm.vertiport_management''"

definition rid_AuthScopes :: scopes_table where
  "rid_AuthScopes = map (\<lambda>(m, s). (''/ridpb.DiscoveryAndSynchronizationService/'' @ m, RequireAllScopes [s]))
     [(''CreateIdentificationServiceArea'', ISA_Write),
      (''DeleteIdentificationServiceArea'', ISA_Write),
      (''GetIdentificationServiceArea'', ISA_Read),
      (''SearchIdentificationServiceAreas'', ISA_Read),
      (''UpdateIdentificationServiceArea'', ISA_Write),
      (''CreateSubscription'', ISA_Read),
      (''DeleteSubscription'', ISA_Read),
      (''GetSubscription'', ISA_Read),
      (''SearchSubscriptions'', ISA_Read),
      (''UpdateSubscription'', ISA_Read)]"

definition aux_AuthScopes :: scopes_table where
  "aux_AuthScopes = [(''/auxpb.DSSAuxService/ValidateOauth'', RequireAnyScope [ISA_Read, ISA_Write])]"

definition scd_service :: string where
  "scd_service = ''/scdpb.UTMAPIUSSDSSAndUSSUSSService/''"

definition scd_AuthScopes :: scopes_table where
  "scd_AuthScopes = map (\<lambda>(m, ss). (scd_service @ m, RequireAnyScope ss))
     [(''CreateConstraintReference'', [constraintManagementScope]),
      (''CreateOperationalIntentReference'', [strategicCoordinationScope, conformanceMonitoringSAScope]),
      (''CreateSubscription'', [strategicCoordinationScope, constraintProcessingScope]),
      (''DeleteConstraintReference'', [constraintManagementScope]),
      (''DeleteOperationalIntentReference'', [strategicCoordinationScope, conformanceMonitoringSAScope]),
      (''DeleteSubscription'', [strategicCoordinationScope, constraintProcessingScope]),
      (''GetConstraintReference'', [constraintManagementScope, constraintProcessingScope]),
      (''GetOperationalIntentReference'', [strategicCoordinationScope, conformanceMonitoringSAScope]),
      (''GetSubscription'', [strategicCoordinationScope, constraintProcessingScope]),
      (''GetUssAvailability'', [strategicCoordinationScope, availabilityArbitrationScope, conformanceMonitoringSAScope]),
      (''MakeDssReport'', [strategicCoordinationScope, constraintProcessingScope, constraintManagementScope,
         availabilityArbitrationScope, conformanceMonitoringSAScope]),
      (''QueryConstraintReferences'', [constraintProcessingScope, constraintManagementScope]),
      (''QueryOperationalIntentReferences'', [strategicCoordinationScope, conformanceMonitoringSAScope]),
      (''QuerySubscriptions'', [strategicCoordinationScope, constraintProcessingScope]),
      (''SetUssAvailability'', [availabilityArbitrationScope]),
      (''UpdateConstraintReference'', [constraintManagementScope]),
      (''UpdateOperationalIntentReference'', [strategicCoordinationScope, conformanceMonitoringSAScope]),
      (''UpdateSubscription'', [strategicCoordinationScope, constraintProcessingScope])]"

definition vrp_service :: string where
  "vrp_service = ''/vrppb.UTMAPIVertiportsService/''"

definition vrp_AuthScopes :: scopes_table where
  "vrp_AuthScopes = map (\<lambda>m. (vrp_service @ m, RequireAnyScope [vertiportScope]))
     [''CreateVertiportConstraintReference'', ''CreateVertiportOperationalIntentReference'',
      ''CreateVertiportSubscription'', ''CreateVertiport'', ''DeleteVertiportConstraintReference'',
      ''DeleteVertiportOperationalIntentReference'', ''DeleteVertiportSubscription'',
      ''DeleteVertiport'', ''GetVertiportConstraintReference'',
      ''GetVertiportOperationalIntentReference'', ''GetVertiportSubscription'', ''GetVertiport'',
      ''QueryVertiportConstraintReferences'', ''QueryVertiportOperationalIntentReferences'',
      ''QueryVertiportSubscriptions'', ''UpdateVertiportConstraintReference'',
      ''UpdateVertiportOperationalIntentReference'', ''UpdateVertiportSubscription'',
      ''UpdateVertiport'', ''GetVertiportFATOAvailableTimes'', ''GetNumberOfUsedParkingPlaces'']"

text \<open>The table of the whole server, with the two optional services on or off.\<close>

definition core_scopes :: "bool \<Rightarrow> bool \<Rightarrow> string \<Rightarrow> KeyClaimedScopesValidator option" where
  "core_scopes enableSCD enableVRP =
     MergeOperationsAndScopesValidators
       ([rid_AuthScopes, aux_AuthScopes] @ (if enableSCD then [scd_AuthScopes] else []) @
        (if enableVRP then [vrp_AuthScopes] else []))"

section \<open>What admission means\<close>

lemma any_scope_Inr: "any_scope ss scopes missing = Inr u \<longleftrightarrow> (\<exists>s \<in> set ss. s \<in> scopes)"
  by (induction ss scopes missing rule: any_scope.induct) auto

lemma any_scope_Inl:
  "any_scope ss scopes missing = Inl m \<longleftrightarrow> (\<forall>s \<in> set ss. s \<notin> scopes) \<and> m = missing @ ss"
  by (induction ss scopes missing rule: any_scope.induct) auto

fun grants :: "KeyClaimedScopesValidator \<Rightarrow> string set \<Rightarrow> bool" where
  "grants (RequireAllScopes ss) scopes \<longleftrightarrow> set ss \<subseteq> scopes"
| "grants (RequireAnyScope ss) scopes \<longleftrightarrow> set ss \<inter> scopes \<noteq> {}"

lemma ValidateKeyClaimedScopes_Inr: "ValidateKeyClaimedScopes v scopes = Inr u \<longleftrightarrow> grants v scopes"
  by (cases v) (auto simp: any_scope_Inr Let_def filter_empty_conv)

lemma first_valid_Some:
  "first_valid a now token ks = Some c \<Longrightarrow> \<exists>k \<in> set ks. parse_with_claims a now token k = Some c"
  by (induction ks) (auto split: option.splits)

lemma first_valid_None:
  "first_valid a now token ks = None \<longleftrightarrow> (\<forall>k \<in> set ks. parse_with_claims a now token k = None)"
  by (induction ks) (auto split: option.splits)

lemma parse_with_claims_Some:
  assumes "parse_with_claims a now token k = Some c"
  shows "claims_Valid a now c = Inr () \<and> (\<exists>tc. jwt_verify a token k = Some tc \<and>
    Subject c = tc_Subject tc \<and> Issuer c = tc_Issuer tc \<and> Audience c = tc_Audience tc \<and>
    ExpiresAt c = tc_ExpiresAt tc \<and> IssuedAt c = tc_IssuedAt tc \<and>
    NotBefore c = tc_NotBefore tc \<and>
    (case tc_scope tc of None \<Rightarrow> Scopes c = {}
     | Some data \<Rightarrow> \<exists>s. json_string a data = Some s \<and> Scopes c = set (split_at (CHR '' '') s)))"
  using assms
  by (auto simp: parse_with_claims_def ScopeSet_UnmarshalJSON_def Let_def
      split: option.splits sum.splits if_splits)

lemma AuthInterceptor_Admitted:
  assumes "AuthInterceptor a now au method headers = Admitted owner"
  obtains token k c where "getToken headers = Some token" "k \<in> set (keys au)"
    "parse_with_claims a now token k = Some c" "Subject c = owner" "Audience c \<in> acceptedAudiences au"
    "\<And>v. scopesValidators au method = Some v \<Longrightarrow> grants v (Scopes c)"
  using assms
  by (auto simp: AuthInterceptor_def validateKeyClaimedScopes_def ValidateKeyClaimedScopes_Inr
      split: option.splits if_splits sum.splits dest!: first_valid_Some)

lemma merge_fold: "fold (\<lambda>(k, v) r. r(k \<mapsto> v)) rs m = m ++ map_of (rev rs)"
  by (induction rs arbitrary: m) (auto simp: fun_eq_iff map_add_def split: option.splits)

lemma MergeOperationsAndScopesValidators_eq:
  "MergeOperationsAndScopesValidators tables = map_of (rev (concat tables))"
proof -
  have "fold (\<lambda>rs result. fold (\<lambda>(k, v) r. r(k \<mapsto> v)) rs result) tables m = m ++ map_of (rev (concat tables))"
    for m :: "string \<Rightarrow> KeyClaimedScopesValidator option"
    by (induction tables arbitrary: m) (simp_all add: merge_fold map_of_append)
  then show ?thesis by (simp add: MergeOperationsAndScopesValidators_def)
qed

section \<open>Request ids\<close>

text \<open>
  \<^verbatim>\<open>ValidateUUID\<close> of \<^verbatim>\<open>pkg/validations\<close>: a request whose message has an id (those of remote
  id) must have a well-formed one.
\<close>

definition ValidateUUID :: "ext \<Rightarrow> string option \<Rightarrow> 'd err + unit" where
  "ValidateUUID x req =
     (case req of None \<Rightarrow> Inr ()
      | Some i \<Rightarrow> (case x_uuid_parse x i of None \<Rightarrow> Inl (coded BadRequest) | Some u \<Rightarrow> Inr ()))"

text \<open>The auxiliary service's endpoint that exercises the validation of a token.\<close>

definition ValidateOauth :: "string option \<Rightarrow> string \<Rightarrow> 'd err + unit" where
  "ValidateOauth owner req_owner =
     (case owner of None \<Rightarrow> Inl (coded PermissionDenied)
      | Some ow \<Rightarrow>
          if req_owner \<noteq> '''' \<and> req_owner \<noteq> ow then Inl (coded PermissionDenied) else Inr ())"

end
