(* ===== verification/Dss_Status.thy ===== *)
theory Dss_Status
  imports Dss_Masking
begin

text \<open>
  How an error leaves the program: the interceptor of \<^verbatim>\<open>pkg/errors/errors.go\<close> turns it into a
  gRPC status, and the gateway of \<^verbatim>\<open>cmds/http-gateway/main.go\<close> turns that into an HTTP
  response.
\<close>

section \<open>From an error to a status\<close>

text \<open>The numbers of the codes; those up to 16 are the codes of gRPC.\<close>

fun code_num :: "ecode \<Rightarrow> nat" where
  "code_num AreaTooLarge = 18"
| "code_num MissingOVNs = 19"
| "code_num MissingVertiportOVNs = 119"
| "code_num AlreadyExists = 6"
| "code_num BadRequest = 3"
| "code_num VersionMismatch = 10"
| "code_num NotFound = 5"
| "code_num PermissionDenied = 7"
| "code_num Exhausted = 8"
| "code_num Unauthenticated = 16"

text \<open>
  A status has a code and at most one detail: the standard error response with its code, or a
  conflict of a service.
\<close>

datatype 'd status_detail = StandardErrorResponse nat | ConflictResponse 'd

record 'd rpc_status =
  st_code :: nat
  st_details :: "'d status_detail list"

definition MakeStatusProto :: "nat \<Rightarrow> 'd status_detail \<Rightarrow> 'd rpc_status" where
  "MakeStatusProto code detail = \<lparr>st_code = code, st_details = [detail]\<rparr>"

fun root_cause :: "'d err \<Rightarrow> 'd err" where
  "root_cause (Propagate e) = root_cause e"
| "root_cause (PropagateWithCode c e) = root_cause e"
| "root_cause e = e"

text \<open>
  A root cause that is a status is returned as it is; the conflict reports are statuses with the
  code \<open>conflict\<close> of their service. An error without a code becomes an internal one.
\<close>

definition status_of_error :: "ecode \<Rightarrow> 'd err \<Rightarrow> 'd rpc_status" where
  "status_of_error conflict e =
     (case root_cause e of
        StatusErr d \<Rightarrow> MakeStatusProto (code_num conflict) (ConflictResponse d)
      | _ \<Rightarrow>
          (case err_code e of
             Some c \<Rightarrow> MakeStatusProto (code_num c) (StandardErrorResponse (code_num c))
           | None \<Rightarrow> \<lparr>st_code = 13, st_details = []\<rparr>))"

definition Interceptor :: "ecode \<Rightarrow> 'd err + 'a \<Rightarrow> 'd rpc_status + 'a" where
  "Interceptor conflict result =
     (case result of Inr a \<Rightarrow> Inr a | Inl e \<Rightarrow> Inl (status_of_error conflict e))"

section \<open>From a status to an HTTP response\<close>

definition myCodeToHTTPStatus :: "nat \<Rightarrow> nat" where
  "myCodeToHTTPStatus code =
     (if code = 0 then 200
      else if code = 1 then 408
      else if code = 2 then 500
      else if code = 3 then 400
      else if code = 4 then 504
      else if code = 5 then 404
      else if code = 6 then 409
      else if code = 7 then 403
      else if code = 16 then 401
      else if code = 8 then 429
      else if code = 9 then 400
      else if code = 10 then 409
      else if code = 11 then 400
      else if code = 12 then 501
      else if code = 13 then 500
      else if code = 14 then 503
      else if code = 15 then 500
      else if code = code_num AreaTooLarge then 413
      else if code = code_num MissingOVNs then 409
      else if code = code_num MissingVertiportOVNs then 409
      else 500)"

text \<open>The body of an error response; marshalling it does not fail in the model.\<close>

datatype 'd error_body = ConflictBody 'd | StandardBody nat | FallbackBody

text \<open>
  The two codes of conflicts need a detail of that type; another status with one detail that is
  a standard error response shows it; a status without gets one with its code.
\<close>

definition myHTTPError :: "'d rpc_status \<Rightarrow> nat \<times> 'd error_body" where
  "myHTTPError s =
     (if st_code s = code_num MissingOVNs \<or> st_code s = code_num MissingVertiportOVNs then
        (case st_details s of
           ConflictResponse d # _ \<Rightarrow> (myCodeToHTTPStatus (st_code s), ConflictBody d)
         | _ \<Rightarrow> (500, FallbackBody))
      else
        (case st_details s of
           [StandardErrorResponse c] \<Rightarrow> (myCodeToHTTPStatus (st_code s), StandardBody c)
         | _ \<Rightarrow> (myCodeToHTTPStatus (st_code s), StandardBody (st_code s))))"

definition http_error :: "ecode \<Rightarrow> 'd err \<Rightarrow> nat \<times> 'd error_body" where
  "http_error conflict e = myHTTPError (status_of_error conflict e)"

section \<open>Lemmas\<close>

lemma root_cause_detail: "root_cause e = StatusErr d \<longleftrightarrow> err_detail e = Some d"
  by (induction e) auto

lemma root_cause_no_status: "err_detail e = None \<Longrightarrow> root_cause e \<noteq> StatusErr d"
  by (simp add: root_cause_detail)

text \<open>What a client gets, by the detail and the code of the error.\<close>

lemma http_error_detail:
  assumes "err_detail e = Some d" and "conflict = MissingOVNs \<or> conflict = MissingVertiportOVNs"
  shows "http_error conflict e = (409, ConflictBody d)"
proof -
  have "root_cause e = StatusErr d" using assms(1) by (simp add: root_cause_detail)
  then show ?thesis
    using assms(2)
    by (auto simp: http_error_def status_of_error_def MakeStatusProto_def myHTTPError_def
        myCodeToHTTPStatus_def)
qed

fun http_of_code :: "ecode \<Rightarrow> nat" where
  "http_of_code AreaTooLarge = 413"
| "http_of_code AlreadyExists = 409"
| "http_of_code BadRequest = 400"
| "http_of_code VersionMismatch = 409"
| "http_of_code NotFound = 404"
| "http_of_code PermissionDenied = 403"
| "http_of_code Exhausted = 429"
| "http_of_code Unauthenticated = 401"
| "http_of_code _ = 500"

lemma http_error_plain:
  assumes "err_detail e = None"
  shows "http_error conflict e =
    (case err_code e of
       None \<Rightarrow> (500, StandardBody 13)
     | Some c \<Rightarrow> if c = MissingOVNs \<or> c = MissingVertiportOVNs then (500, FallbackBody)
         else (http_of_code c, StandardBody (code_num c)))"
proof -
  have "status_of_error conflict e = (case err_code e of
             Some c \<Rightarrow> MakeStatusProto (code_num c) (StandardErrorResponse (code_num c))
           | None \<Rightarrow> \<lparr>st_code = 13, st_details = []\<rparr>)"
    using root_cause_no_status [OF assms] by (auto simp: status_of_error_def split: err.split)
  then show ?thesis
    by (cases "err_code e"; cases "the (err_code e)")
      (auto simp: http_error_def MakeStatusProto_def myHTTPError_def myCodeToHTTPStatus_def)
qed

end
