(* ===== verification/Dss_Rpc.thy ===== *)
theory Dss_Rpc
  imports Dss_Auth Dss_Status Scd_System Vrp_System
begin

text \<open>
  The server of \<^verbatim>\<open>cmds/core-service/main.go\<close>: a call passes the interceptor of
  \<^verbatim>\<open>pkg/errors\<close> and the authorizer, and reaches the handler that its service registers for
  its method. The messages of the two services below have no member \<^verbatim>\<open>id\<close>, so that the
  validation interceptor lets them pass.
\<close>

section \<open>A call with its interceptors\<close>

text \<open>
  No interceptor recovers from a panic, which ends the process. The instant at which the
  authorizer validates a token is taken to be the one at which the handler reads the clock.
\<close>

datatype ('d, 'a) rpc_answer =
    Crashed
  | NoAnswer
  | Failed "'d rpc_status"
  | Answered 'a

definition answer_of :: "ecode \<Rightarrow> 'd err + 'a \<Rightarrow> ('d, 'a) rpc_answer" where
  "answer_of conflict result =
     (case result of
        Inl Panic \<Rightarrow> Crashed
      | _ \<Rightarrow> (case Interceptor conflict result of Inl s \<Rightarrow> Failed s | Inr resp \<Rightarrow> Answered resp))"

definition rpc ::
    "ecode \<Rightarrow> 'k auth_ext \<Rightarrow> 'k authorizer \<Rightarrow> string \<Rightarrow> string list option \<Rightarrow> call \<Rightarrow>
     (call \<Rightarrow> 's \<Rightarrow> ('d err + 'a) \<times> 's) \<Rightarrow> 's \<Rightarrow> ('d, 'a) rpc_answer \<times> 's" where
  "rpc conflict a au method headers c handler db =
     (case AuthInterceptor a (c_now c) au method headers of
        Refused e \<Rightarrow> (Failed (status_of_error conflict e), db)
      | NoResponse \<Rightarrow> (NoAnswer, db)
      | Admitted owner \<Rightarrow>
          (case handler (c\<lparr>c_manager := Some owner\<rparr>) db of
             (result, db') \<Rightarrow> (answer_of conflict result, db')))"

text \<open>The database changes, and a response is given, only for an admitted call.\<close>

lemma rpc_admitted:
  fixes handler :: "call \<Rightarrow> 's \<Rightarrow> ('d err + 'a) \<times> 's"
  assumes run: "rpc conflict a au method headers c handler db = (res, db')"
    and "db' \<noteq> db \<or> (\<exists>resp. res = Answered resp)"
  obtains owner where "AuthInterceptor a (c_now c) au method headers = (Admitted owner :: 'd admission)"
    "snd (handler (c\<lparr>c_manager := Some owner\<rparr>) db) = db'"
proof (cases "AuthInterceptor a (c_now c) au method headers :: 'd admission")
  case (Admitted owner)
  with run have "snd (handler (c\<lparr>c_manager := Some owner\<rparr>) db) = db'"
    by (simp add: rpc_def split: prod.splits)
  with Admitted show ?thesis by (rule that)
qed (use assms in \<open>auto simp: rpc_def\<close>)

section \<open>The methods of the services\<close>

fun scd_method :: "scd_request \<Rightarrow> string" where
  "scd_method (ReqDeleteOp i) = ''DeleteOperationalIntentReference''"
| "scd_method (ReqGetOp i) = ''GetOperationalIntentReference''"
| "scd_method (ReqQueryOps p) = ''QueryOperationalIntentReferences''"
| "scd_method (ReqCreateOp i p) = ''CreateOperationalIntentReference''"
| "scd_method (ReqUpdateOp i v p) = ''UpdateOperationalIntentReference''"
| "scd_method (ReqCreateSub i p) = ''CreateSubscription''"
| "scd_method (ReqUpdateSub i v p) = ''UpdateSubscription''"
| "scd_method (ReqGetSub i) = ''GetSubscription''"
| "scd_method (ReqQuerySubs p) = ''QuerySubscriptions''"
| "scd_method (ReqDeleteSub i) = ''DeleteSubscription''"
| "scd_method (ReqDeleteCon i) = ''DeleteConstraintReference''"
| "scd_method (ReqGetCon i) = ''GetConstraintReference''"
| "scd_method (ReqCreateCon i p) = ''CreateConstraintReference''"
| "scd_method (ReqUpdateCon i v p) = ''UpdateConstraintReference''"
| "scd_method (ReqQueryCons p) = ''QueryConstraintReferences''"
| "scd_method (ReqGetAvail i) = ''GetUssAvailability''"
| "scd_method (ReqSetAvail i p) = ''SetUssAvailability''"
| "scd_method ReqMakeDssReport = ''MakeDssReport''"

fun vrp_method :: "vrp_request \<Rightarrow> string" where
  "vrp_method (ReqDeleteVOp i) = ''DeleteVertiportOperationalIntentReference''"
| "vrp_method (ReqGetVOp i) = ''GetVertiportOperationalIntentReference''"
| "vrp_method (ReqQueryVOps p) = ''QueryVertiportOperationalIntentReferences''"
| "vrp_method (ReqCreateVOp i p) = ''CreateVertiportOperationalIntentReference''"
| "vrp_method (ReqUpdateVOp i v p) = ''UpdateVertiportOperationalIntentReference''"
| "vrp_method (ReqCreateVSub i p) = ''CreateVertiportSubscription''"
| "vrp_method (ReqUpdateVSub i v p) = ''UpdateVertiportSubscription''"
| "vrp_method (ReqGetVSub i) = ''GetVertiportSubscription''"
| "vrp_method (ReqQueryVSubs p) = ''QueryVertiportSubscriptions''"
| "vrp_method (ReqDeleteVSub i) = ''DeleteVertiportSubscription''"
| "vrp_method (ReqDeleteVCon i) = ''DeleteVertiportConstraintReference''"
| "vrp_method (ReqGetVCon i) = ''GetVertiportConstraintReference''"
| "vrp_method (ReqCreateVCon i p) = ''CreateVertiportConstraintReference''"
| "vrp_method (ReqUpdateVCon i v p) = ''UpdateVertiportConstraintReference''"
| "vrp_method (ReqQueryVCons p) = ''QueryVertiportConstraintReferences''"
| "vrp_method (ReqUsedPlaces i p) = ''GetNumberOfUsedParkingPlaces''"
| "vrp_method (ReqAvailableTimes i p) = ''GetVertiportFATOAvailableTimes''"
| "vrp_method (ReqCreateVertiport i n) = ''CreateVertiport''"
| "vrp_method (ReqUpdateVertiport i n) = ''UpdateVertiport''"
| "vrp_method (ReqDeleteVertiport i) = ''DeleteVertiport''"
| "vrp_method (ReqGetVertiport i) = ''GetVertiport''"

definition scd_rpc ::
    "'k auth_ext \<Rightarrow> 'k authorizer \<Rightarrow> ext \<Rightarrow> string list option \<Rightarrow> call \<Rightarrow> scd_request \<Rightarrow> scd_db \<Rightarrow>
     (airspace_conflict, scd_response) rpc_answer \<times> scd_db" where
  "scd_rpc a au x headers c req =
     rpc MissingOVNs a au (scd_service @ scd_method req) headers c (\<lambda>c'. scd_serve x c' req)"

definition vrp_rpc ::
    "'k auth_ext \<Rightarrow> 'k authorizer \<Rightarrow> ext \<Rightarrow> string list option \<Rightarrow> call \<Rightarrow> vrp_request \<Rightarrow> vrp_db \<Rightarrow>
     (airspace_conflict, vrp_response) rpc_answer \<times> vrp_db" where
  "vrp_rpc a au x headers c req =
     rpc MissingVertiportOVNs a au (vrp_service @ vrp_method req) headers c (\<lambda>c'. vrp_serve x c' req)"

section \<open>Every method has its scopes\<close>

fun scd_scopes :: "scd_request \<Rightarrow> string list" where
  "scd_scopes (ReqCreateCon i p) = [constraintManagementScope]"
| "scd_scopes (ReqUpdateCon i v p) = [constraintManagementScope]"
| "scd_scopes (ReqDeleteCon i) = [constraintManagementScope]"
| "scd_scopes (ReqGetCon i) = [constraintManagementScope, constraintProcessingScope]"
| "scd_scopes (ReqQueryCons p) = [constraintProcessingScope, constraintManagementScope]"
| "scd_scopes (ReqCreateSub i p) = [strategicCoordinationScope, constraintProcessingScope]"
| "scd_scopes (ReqUpdateSub i v p) = [strategicCoordinationScope, constraintProcessingScope]"
| "scd_scopes (ReqDeleteSub i) = [strategicCoordinationScope, constraintProcessingScope]"
| "scd_scopes (ReqGetSub i) = [strategicCoordinationScope, constraintProcessingScope]"
| "scd_scopes (ReqQuerySubs p) = [strategicCoordinationScope, constraintProcessingScope]"
| "scd_scopes (ReqGetAvail i) = [strategicCoordinationScope, availabilityArbitrationScope, conformanceMonitoringSAScope]"
| "scd_scopes (ReqSetAvail i p) = [availabilityArbitrationScope]"
| "scd_scopes ReqMakeDssReport = [strategicCoordinationScope, constraintProcessingScope,
     constraintManagementScope, availabilityArbitrationScope, conformanceMonitoringSAScope]"
| "scd_scopes _ = [strategicCoordinationScope, conformanceMonitoringSAScope]"

lemma map_of_constant: "map_of (map (\<lambda>m. (p @ m, v)) ms) (p @ k) = (if k \<in> set ms then Some v else None)"
  by (induction ms) auto

lemma map_of_prefixed:
  "map_of (map (\<lambda>(m, v). (p @ m, f v)) t) (p @ k) = map_option f (map_of t k)"
  by (induction t) auto

lemma map_of_no_prefix:
  "list_all (\<lambda>(k, v). take n k = p) t \<Longrightarrow> take n key \<noteq> p \<Longrightarrow> map_of (rev t) key = None"
  by (auto simp: list_all_iff map_of_eq_None_iff)

lemma prefixes:
  "list_all (\<lambda>(k, v). take 7 k = ''/ridpb.'') rid_AuthScopes"
  "list_all (\<lambda>(k, v). take 7 k = ''/auxpb.'') aux_AuthScopes"
  "list_all (\<lambda>(k, v). take 7 k = ''/scdpb.'') scd_AuthScopes"
  "list_all (\<lambda>(k, v). take 7 k = ''/vrppb.'') vrp_AuthScopes"
  by code_simp+

lemma core_scopes_scd:
  "core_scopes True vrp (scd_service @ m) = map_of (rev scd_AuthScopes) (scd_service @ m)"
proof -
  have "take 7 (scd_service @ m) = ''/scdpb.''" by (simp add: scd_service_def)
  then show ?thesis
    by (simp add: core_scopes_def MergeOperationsAndScopesValidators_eq map_add_def
        map_of_no_prefix [OF prefixes(1)] map_of_no_prefix [OF prefixes(2)]
        map_of_no_prefix [OF prefixes(4)] split: option.split)
qed

lemma core_scopes_vrp:
  "core_scopes scd True (vrp_service @ m) = map_of (rev vrp_AuthScopes) (vrp_service @ m)"
proof -
  have "take 7 (vrp_service @ m) = ''/vrppb.''" by (simp add: vrp_service_def)
  then show ?thesis
    by (simp add: core_scopes_def MergeOperationsAndScopesValidators_eq map_add_def
        map_of_no_prefix [OF prefixes(1)] map_of_no_prefix [OF prefixes(2)]
        map_of_no_prefix [OF prefixes(3)] split: option.split)
qed

lemma scd_validator:
  "core_scopes True vrp (scd_service @ scd_method req) = Some (RequireAnyScope (scd_scopes req))"
  unfolding core_scopes_scd scd_AuthScopes_def rev_map map_of_prefixed
  by (cases req; simp only: scd_method.simps scd_scopes.simps; code_simp)

lemma vrp_validator:
  "core_scopes scd True (vrp_service @ vrp_method req) = Some (RequireAnyScope [vertiportScope])"
  unfolding core_scopes_vrp vrp_AuthScopes_def rev_map map_of_constant
  by (cases req; simp only: vrp_method.simps; code_simp)

end
