(* ===== verification/Scd_Access.thy ===== *)
theory Scd_Access
  imports Dss_Rpc Scd_Ownership
begin

text \<open>
  Who may change which part of the strategic coordination database: the tables each kind of
  request can write, and the scopes a token needs for them.
\<close>

section \<open>The tables an action writes\<close>

lemma keeps_modify: "(\<And>s. I s \<Longrightarrow> I (f s)) \<Longrightarrow> keeps I (modify f)"
  by (auto simp: keeps_def modify_def)

lemmas keeps_steps = keeps_bnd keeps_seq keeps_wrap keeps_modify

lemma keeps_subs:
  assumes "\<And>t s. f (s\<lparr>db_subs := t\<rparr>) = f s"
  shows "keeps (\<lambda>s. f s = k) (scd_UpsertSubscription x ts q)"
    and "keeps (\<lambda>s. f s = k) (scd_subs_IncrementNotificationIndices x ss)"
proof -
  show "keeps (\<lambda>s. f s = k) (scd_UpsertSubscription x ts q)"
    unfolding scd_UpsertSubscription_def
    by (auto intro!: keeps_steps simp: assms; rule pure_keeps; auto intro!: pure_intros)+
  show "keeps (\<lambda>s. f s = k) (scd_subs_IncrementNotificationIndices x ss)"
    by (rule keepsI, erule scd_subs_IncrementNotificationIndices_Inr) (simp add: assms)
qed

lemma keeps_ops:
  assumes "\<And>t s. f (s\<lparr>db_ops := t\<rparr>) = f s"
  shows "keeps (\<lambda>s. f s = k) (scd_UpsertOperationalIntent x ts oi)"
    and "keeps (\<lambda>s. f s = k) (scd_DeleteOperationalIntent x i)"
  unfolding scd_UpsertOperationalIntent_def scd_DeleteOperationalIntent_def
  by (auto intro!: keeps_steps simp: assms; rule pure_keeps; auto intro!: pure_intros)+

lemma keeps_delete_sub:
  assumes "\<And>t u s. f (s\<lparr>db_subs := t, db_ops := u\<rparr>) = f s"
  shows "keeps (\<lambda>s. f s = k) (scd_DeleteSubscription x i)"
  unfolding scd_DeleteSubscription_def
  by (auto intro!: keeps_steps simp: assms; rule pure_keeps; auto intro!: pure_intros)+

lemma keeps_cons:
  assumes "\<And>t s. f (s\<lparr>db_cons := t\<rparr>) = f s"
  shows "keeps (\<lambda>s. f s = k) (scd_UpsertConstraint x ts q)"
    and "keeps (\<lambda>s. f s = k) (scd_DeleteConstraint x i)"
  unfolding scd_UpsertConstraint_def scd_DeleteConstraint_def
  by (auto intro!: keeps_steps simp: assms split: option.split; rule pure_keeps; auto intro!: pure_intros)+

text \<open>What the requests on one kind of entity leave as it is.\<close>

lemmas keeps_all = keeps_steps keeps_subs keeps_ops keeps_cons keeps_delete_sub

lemma put_op_keeps: "keeps (\<lambda>s. (db_cons s, db_avail s) = k) (put_op_action x c q)"
  unfolding put_op_action_def put_op_subscription_def new_implicit_subscription_def
    use_subscription_def put_op_store_def put_op_notify_def put_op_old_def Let_def
  by (auto intro!: keeps_all split: option.split prod.split; rule pure_keeps; auto intro!: pure_intros)+

lemma delete_op_keeps: "keeps (\<lambda>s. (db_cons s, db_avail s) = k) (delete_op_action x q)"
  unfolding delete_op_action_def remove_implicit_def Let_def
  by (auto intro!: keeps_all split: option.split prod.split; rule pure_keeps; auto intro!: pure_intros)+

lemma put_con_keeps: "keeps (\<lambda>s. (db_ops s, db_avail s) = k) (put_con_action x c q)"
  unfolding put_con_action_def put_con_old_def Let_def
  by (auto intro!: keeps_all split: option.split prod.split sum.split err.split; rule pure_keeps; auto intro!: pure_intros)+

lemma delete_con_keeps: "keeps (\<lambda>s. (db_ops s, db_avail s) = k) (delete_con_action x q)"
  unfolding delete_con_action_def Let_def
  by (auto intro!: keeps_all split: option.split prod.split sum.split err.split; rule pure_keeps; auto intro!: pure_intros)+

lemma put_sub_keeps: "keeps (\<lambda>s. (db_ops s, db_cons s, db_avail s) = k) (put_sub_action x c q)"
  by (rule keepsI, erule put_sub_action_Inr) simp

lemma delete_sub_keeps: "keeps (\<lambda>s. (db_ops s, db_cons s, db_avail s) = k) (delete_sub_action x q)"
proof (cases q, hypsubst, rule keepsI, erule delete_sub_action_Inr)
  fix s s' :: scd_db and uid
  assume "(db_ops s, db_cons s, db_avail s) = k"
    and "tbl_select (\<lambda>o'. opr_subscription_id o' = uid) (db_ops s) = []"
    and "s' = s\<lparr>db_subs := tbl_delete uid (db_subs s),
        db_ops := tbl_delete_where (\<lambda>o'. opr_subscription_id o' = uid) (db_ops s)\<rparr>"
  then show "(db_ops s', db_cons s', db_avail s') = k"
    by (auto simp: tbl_select_def tbl_delete_where_def filter_empty_conv)
qed

lemma put_avail_keeps: "keeps (\<lambda>s. (db_ops s, db_cons s, db_subs s) = k) (put_avail_action x c u a)"
  unfolding put_avail_action_def scd_UpsertUssAvailability_def Let_def
  by (auto intro!: keeps_all split: option.split; rule pure_keeps; auto intro!: pure_intros)+

section \<open>The tables a request writes\<close>

fun writes_ops :: "scd_request \<Rightarrow> bool" where
  "writes_ops (ReqCreateOp i p) = True"
| "writes_ops (ReqUpdateOp i v p) = True"
| "writes_ops (ReqDeleteOp i) = True"
| "writes_ops _ = False"

fun writes_cons :: "scd_request \<Rightarrow> bool" where
  "writes_cons (ReqCreateCon i p) = True"
| "writes_cons (ReqUpdateCon i v p) = True"
| "writes_cons (ReqDeleteCon i) = True"
| "writes_cons _ = False"

fun writes_subs :: "scd_request \<Rightarrow> bool" where
  "writes_subs (ReqCreateSub i p) = True"
| "writes_subs (ReqUpdateSub i v p) = True"
| "writes_subs (ReqDeleteSub i) = True"
| "writes_subs req = (writes_ops req \<or> writes_cons req)"

fun writes_avail :: "scd_request \<Rightarrow> bool" where
  "writes_avail (ReqSetAvail i p) = True"
| "writes_avail _ = False"

definition writes_only :: "scd_request \<Rightarrow> scd_db \<Rightarrow> scd_db \<Rightarrow> bool" where
  "writes_only req db db' \<longleftrightarrow>
     (db_ops db' \<noteq> db_ops db \<longrightarrow> writes_ops req) \<and>
     (db_cons db' \<noteq> db_cons db \<longrightarrow> writes_cons req) \<and>
     (db_subs db' \<noteq> db_subs db \<longrightarrow> writes_subs req) \<and>
     (db_avail db' \<noteq> db_avail db \<longrightarrow> writes_avail req)"

lemma writes_only_refl [simp]: "writes_only req db db"
  by (simp add: writes_only_def)

lemma serve_keeps_eq:
  assumes "\<And>q. keeps (\<lambda>s. f s = f db) (action q)"
  shows "f (snd (serve v action db)) = f db"
  using assms by (rule serve_keeps) simp

lemma scd_serve_writes: "writes_only req db (snd (scd_serve x c req db))"
proof -
  have op: "db_cons db' = db_cons db \<and> db_avail db' = db_avail db"
    if "db' = snd (PutOperationalIntentReference x c i v p db)" for db' i v p
    using serve_keeps_eq [OF put_op_keeps] that by (simp add: PutOperationalIntentReference_def)
  have dop: "db_cons db' = db_cons db \<and> db_avail db' = db_avail db"
    if "db' = snd (DeleteOperationalIntentReference x c i db)" for db' i
    using serve_keeps_eq [OF delete_op_keeps] that by (simp add: DeleteOperationalIntentReference_def)
  have con: "db_ops db' = db_ops db \<and> db_avail db' = db_avail db"
    if "db' = snd (PutConstraintReference x c i v p db)" for db' i v p
    using serve_keeps_eq [OF put_con_keeps] that by (simp add: PutConstraintReference_def)
  have dcon: "db_ops db' = db_ops db \<and> db_avail db' = db_avail db"
    if "db' = snd (DeleteConstraintReference x c i db)" for db' i
    using serve_keeps_eq [OF delete_con_keeps] that by (simp add: DeleteConstraintReference_def)
  have sub: "db_ops db' = db_ops db \<and> db_cons db' = db_cons db \<and> db_avail db' = db_avail db"
    if "db' = snd (PutSubscription x c i v p db)" for db' i v p
    using serve_keeps_eq [OF put_sub_keeps] that by (simp add: PutSubscription_def)
  have dsub: "db_ops db' = db_ops db \<and> db_cons db' = db_cons db \<and> db_avail db' = db_avail db"
    if "db' = snd (DeleteSubscription x c i db)" for db' i
    using serve_keeps_eq [OF delete_sub_keeps] that by (simp add: DeleteSubscription_def)
  have avail: "db_ops db' = db_ops db \<and> db_cons db' = db_cons db \<and> db_subs db' = db_subs db"
    if "db' = snd (PutUssAvailability x c u p db)" for db' u p
    using keeps_transact [OF put_avail_keeps refl] that by (simp add: PutUssAvailability_def split: sum.splits)
  show ?thesis
    by (cases req)
      (simp_all add: writes_only_def op [OF refl] dop [OF refl] con [OF refl]
        dcon [OF refl] sub [OF refl] dsub [OF refl] avail [OF refl] serve_pure pure_intros pure_transact
        CreateOperationalIntentReference_def UpdateOperationalIntentReference_def
        CreateSubscription_def UpdateSubscription_def CreateConstraintReference_def
        UpdateConstraintReference_def SetUssAvailability_def GetUssAvailability_def
        GetOperationalIntentReference_def QueryOperationalIntentReferences_def
        GetSubscription_def QuerySubscriptions_def GetConstraintReference_def
        QueryConstraintReferences_def MakeDssReport_def)
qed

end
