(* ===== verification/Scd_Registry.thy ===== *)
theory Scd_Registry
  imports Scd_Access
begin

text \<open>
  The abstract specification of the references the service keeps: a registry that gives each
  id an owner, a version that counts its updates, and the OVN that an update has to know. The
  service refines two registries, of operational intents and of constraints.
\<close>

section \<open>Registries\<close>

type_synonym registry = "string \<Rightarrow> (string \<times> 32 word \<times> string) option"

text \<open>
  To put an entry one must not give an OVN when there is none, and own it and give its OVN when
  there is one; to delete it one must own it.
\<close>

definition registry_put :: "string \<Rightarrow> string \<Rightarrow> string \<Rightarrow> string \<Rightarrow> registry \<Rightarrow> registry option" where
  "registry_put manager k ovn ovn' R =
     (case R k of
        None \<Rightarrow> if ovn = '''' then Some (R(k \<mapsto> (manager, 1, ovn'))) else None
      | Some (owner, version, current) \<Rightarrow>
          if owner = manager \<and> ovn = current then Some (R(k \<mapsto> (manager, version + 1, ovn')))
          else None)"

definition registry_delete :: "string \<Rightarrow> string \<Rightarrow> registry \<Rightarrow> registry option" where
  "registry_delete manager k R =
     (case R k of None \<Rightarrow> None
      | Some (owner, version, current) \<Rightarrow> if owner = manager then Some (R(k := None)) else None)"

section \<open>The registries of a database\<close>

definition op_registry :: "ext \<Rightarrow> scd_db \<Rightarrow> registry" where
  "op_registry x db k =
     map_option (\<lambda>r. (opr_owner r, opr_version r, NewOVNFromTime x (opr_updated_at r) k))
       (tbl_get (db_ops db) k)"

definition con_registry :: "ext \<Rightarrow> scd_db \<Rightarrow> registry" where
  "con_registry x db k =
     map_option (\<lambda>r. (cnr_owner r, cnr_version r, NewOVNFromTime x (cnr_updated_at r) k))
       (tbl_get (db_cons db) k)"

text \<open>The row an id names.\<close>

definition row_of_id :: "ext \<Rightarrow> string \<Rightarrow> string" where
  "row_of_id x i = the (x_pg_uuid x (the (x_uuid_parse x i)))"

text \<open>What a request that succeeds does to a registry.\<close>

definition put_ref :: "ext \<Rightarrow> call \<Rightarrow> string \<Rightarrow> string \<Rightarrow> registry \<Rightarrow> registry option" where
  "put_ref x c i ovn =
     registry_put (the (c_manager c)) (row_of_id x i) ovn (NewOVNFromTime x (c_txn c) (row_of_id x i))"

definition delete_ref :: "ext \<Rightarrow> call \<Rightarrow> string \<Rightarrow> registry \<Rightarrow> registry option" where
  "delete_ref x c i = registry_delete (the (c_manager c)) (row_of_id x i)"

fun op_event :: "ext \<Rightarrow> call \<Rightarrow> scd_request \<Rightarrow> registry \<Rightarrow> registry option" where
  "op_event x c (ReqCreateOp i p) = put_ref x c i ''''"
| "op_event x c (ReqUpdateOp i ovn p) = put_ref x c i ovn"
| "op_event x c (ReqDeleteOp i) = delete_ref x c i"
| "op_event x c _ = Some"

fun con_event :: "ext \<Rightarrow> call \<Rightarrow> scd_request \<Rightarrow> registry \<Rightarrow> registry option" where
  "con_event x c (ReqCreateCon i p) = put_ref x c i ''''"
| "con_event x c (ReqUpdateCon i ovn p) = put_ref x c i ovn"
| "con_event x c (ReqDeleteCon i) = delete_ref x c i"
| "con_event x c _ = Some"

section \<open>The simulation\<close>

lemma put_op_subscription_ops: "keeps (\<lambda>s. db_ops s = k) (put_op_subscription x c q)"
  unfolding put_op_subscription_def new_implicit_subscription_def use_subscription_def Let_def
  by (auto intro!: keeps_all split: option.split prod.split; rule pure_keeps; auto intro!: pure_intros)+

lemma increment_tables:
  assumes "scd_subs_IncrementNotificationIndices x ss s = Inr (r, s')"
  shows "db_ops s' = db_ops s \<and> db_cons s' = db_cons s"
  using assms by (rule scd_subs_IncrementNotificationIndices_Inr) simp

lemma put_op_registry:
  assumes valid: "validate_put_op x c i ovn p = (Inr q :: scd_err + _)"
    and run: "put_op_action x c q s = Inr (resp, s')"
  shows "put_ref x c i ovn (op_registry x s) = Some (op_registry x s')"
proof (rule put_op_action_Inr [OF run])
  fix old version sub s1 oi v s2
  assume old: "put_op_old x q s = Inr ((old, version), s)"
    and sub: "put_op_subscription x c q s = Inr (sub, s1)"
    and store: "put_op_store x c q old version sub s1 = Inr ((oi, v), s2)"
    and notify: "put_op_notify x (oi, v) s2 = Inr (resp, s')"
  have "db_ops s1 = db_ops s"
    using keepsD [OF put_op_subscription_ops sub refl] .
  moreover have "db_ops s' = db_ops s2"
    using put_op_notify_Inr [OF notify] by (auto dest: increment_tables)
  ultimately show ?thesis
    using put_op_store_Inr [OF store] put_op_old_Inr [OF old] validate_put_op_Inr [OF valid]
    by (auto simp: put_ref_def row_of_id_def registry_put_def op_registry_def Let_def tbl_laws
        fun_eq_iff split: option.splits)
qed

lemma delete_op_registry:
  assumes "scd_ok x area s" and "delete_op_action x (j, m) s = Inr (resp, s')"
    and "x_uuid_parse x i = Some j" and "c_manager c = Some m"
  shows "delete_ref x c i (op_registry x s) = Some (op_registry x s')"
  by (rule delete_op_tables [OF assms(1,2)])
    (use assms(3,4) in \<open>auto simp: delete_ref_def row_of_id_def registry_delete_def op_registry_def
      fun_eq_iff\<close>)

lemma put_con_registry:
  assumes valid: "validate_put_con x c i ovn p = (Inr q :: scd_err + _)"
    and run: "put_con_action x c q s = Inr (resp, s')"
  shows "put_ref x c i ovn (con_registry x s) = Some (con_registry x s')"
proof (rule put_con_action_Inr [OF run])
  fix old version uid v3 allsubs subs s1 vol
  assume old: "put_con_old x q s = Inr ((old, version), s)" and uid: "x_pg_uuid x (pq_id q) = Some uid"
    and s1: "s1 = s\<lparr>db_cons := tbl_upsert uid (con_row_of (c_txn c) (new_con q version v3)) (db_cons s)\<rparr>"
    and inc: "scd_subs_IncrementNotificationIndices x (filter sub_NotifyForConstraints allsubs) s1 =
       Inr (subs, s')"
  from valid have "x_uuid_parse x i = Some (pq_id q)" "c_manager c = Some (pq_manager q)" "pq_ovn q = ovn"
    by (auto simp: validate_put_con_def tx_inv)
  with put_con_old_Inr [OF old] uid increment_tables [OF inc] show ?thesis
    by (auto simp: put_ref_def row_of_id_def registry_put_def con_registry_def s1 tbl_laws
        fun_eq_iff split: option.splits)
qed

lemma delete_con_registry:
  assumes "delete_con_action x (j, m) s = Inr (resp, s')"
    and "x_uuid_parse x i = Some j" and "c_manager c = Some m"
  shows "delete_ref x c i (con_registry x s) = Some (con_registry x s')"
proof (rule delete_con_action_Inr [OF assms(1)])
  fix uid r allsubs s1 subs
  assume "x_pg_uuid x j = Some uid" "tbl_get (db_cons s) uid = Some r" "cnr_owner r = m"
    and s1: "s1 = s\<lparr>db_cons := tbl_delete uid (db_cons s)\<rparr>"
    and inc: "scd_subs_IncrementNotificationIndices x (filter sub_NotifyForConstraints allsubs) s1 =
       Inr (subs, s')"
  with assms(2,3) increment_tables [OF inc] show ?thesis
    by (auto simp: delete_ref_def row_of_id_def registry_delete_def con_registry_def s1 tbl_laws
        fun_eq_iff)
qed

text \<open>The requests that do not write a table leave its registry.\<close>

lemma unwritten_registry:
  assumes "scd_serve x c req db = (Inr r, db')"
  shows "\<not> writes_ops req \<Longrightarrow> op_registry x db' = op_registry x db"
    and "\<not> writes_cons req \<Longrightarrow> con_registry x db' = con_registry x db"
  using scd_serve_writes [of req db x c] assms
  by (auto simp: writes_only_def op_registry_def con_registry_def fun_eq_iff)

lemma scd_serve_registries:
  assumes ok: "scd_ok x area db" and run: "scd_serve x c req db = (Inr r, db')"
  shows "op_event x c req (op_registry x db) = Some (op_registry x db')"
    and "con_event x c req (con_registry x db) = Some (con_registry x db')"
proof -
  note unwritten = unwritten_registry [OF run]
  show "op_event x c req (op_registry x db) = Some (op_registry x db')"
    using run unwritten(1)
    by (cases req)
      (auto simp: respond_cases serve_Inr CreateOperationalIntentReference_def
        UpdateOperationalIntentReference_def PutOperationalIntentReference_def
        DeleteOperationalIntentReference_def entity_request_def tx_inv
        simp del: scd_serve.simps(6-)
        intro: put_op_registry delete_op_registry [OF ok])
  show "con_event x c req (con_registry x db) = Some (con_registry x db')"
    using run unwritten(2)
    by (cases req)
      (auto simp: respond_cases serve_Inr CreateConstraintReference_def
        UpdateConstraintReference_def PutConstraintReference_def
        DeleteConstraintReference_def entity_request_def tx_inv
        intro: put_con_registry delete_con_registry)
qed

end
