(* ===== verification/Dss_Version.thy ===== *)
theory Dss_Version
  imports Dss_Models
begin

text \<open>
  The versions of remote ID entities (\<^verbatim>\<open>Version\<close> of \<^verbatim>\<open>pkg/models/models.go\<close>): a commit time
  stamp, shown as the base-32 text of its nanoseconds.
\<close>

section \<open>Numbers in base 32\<close>

text \<open>What the code uses of \<^verbatim>\<open>strconv.FormatUint\<close> and \<^verbatim>\<open>strconv.ParseUint\<close> for 64 bits.\<close>

definition versionBase :: int where "versionBase = 32"

definition digit_char :: "int \<Rightarrow> char" where
  "digit_char d = char_of (if d < 10 then 48 + d else 87 + d)"

function format_digits :: "int \<Rightarrow> string" where
  "format_digits n =
     (if n < versionBase then [digit_char n]
      else format_digits (n div versionBase) @ [digit_char (n mod versionBase)])"
  by pat_completeness auto
termination
  by (relation "measure nat") (auto simp: versionBase_def)

declare format_digits.simps [simp del]

definition FormatUint :: "64 word \<Rightarrow> string" where
  "FormatUint u = format_digits (uint u)"

text \<open>Digits beyond 9 are letters of either case.\<close>

definition char_digit :: "char \<Rightarrow> int option" where
  "char_digit c =
     (let n = of_char c :: int;
          d = (if 48 \<le> n \<and> n \<le> 57 then n - 48
               else if 97 \<le> n \<and> n \<le> 122 then n - 87
               else if 65 \<le> n \<and> n \<le> 90 then n - 55 else versionBase)
      in if d < versionBase then Some d else None)"

fun parse_digits :: "int \<Rightarrow> string \<Rightarrow> int option" where
  "parse_digits n [] = Some n"
| "parse_digits n (c # cs) =
     (case char_digit c of None \<Rightarrow> None
      | Some d \<Rightarrow>
          if n * versionBase + d < 2 ^ 64 then parse_digits (n * versionBase + d) cs else None)"

definition ParseUint :: "string \<Rightarrow> 64 word option" where
  "ParseUint s = (if s = '''' then None else map_option word_of_int (parse_digits 0 s))"

section \<open>Versions\<close>

text \<open>An instant in nanoseconds, of 64 bits, and the text.\<close>

record version =
  ver_t :: int
  ver_s :: string

definition VersionFromString :: "string \<Rightarrow> 'd err + version" where
  "VersionFromString s =
     (if s = '''' then Inl (NewError None)
      else case ParseUint s of
        None \<Rightarrow> Inl (Propagate ExtErr)
      | Some nanos \<Rightarrow> Inr \<lparr>ver_t = sint nanos, ver_s = s\<rparr>)"

definition UnixNano :: "time \<Rightarrow> 64 word" where
  "UnixNano t = word_of_int (t * 1000)"

definition VersionFromTime :: "time \<Rightarrow> version" where
  "VersionFromTime t = \<lparr>ver_t = t * 1000, ver_s = FormatUint (UnixNano t)\<rparr>"

text \<open>The zero instant is that of \<^verbatim>\<open>time.Time{}\<close>.\<close>

definition Version_Empty :: "version option \<Rightarrow> bool" where
  "Version_Empty v = (case v of None \<Rightarrow> True | Some v' \<Rightarrow> ver_t v' = zero_time * 1000)"

definition Version_Matches :: "version option \<Rightarrow> version option \<Rightarrow> bool" where
  "Version_Matches v v2 =
     (case v of None \<Rightarrow> False
      | Some a \<Rightarrow> (case v2 of None \<Rightarrow> False | Some b \<Rightarrow> ver_s a = ver_s b))"

definition Version_String :: "version option \<Rightarrow> string" where
  "Version_String v = (case v of None \<Rightarrow> '''' | Some v' \<Rightarrow> ver_s v')"

definition Version_ToTimestamp :: "version option \<Rightarrow> int" where
  "Version_ToTimestamp v = (case v of None \<Rightarrow> zero_time * 1000 | Some v' \<Rightarrow> ver_t v')"

text \<open>An instant passed to the database loses what is below a microsecond.\<close>

definition db_time :: "int \<Rightarrow> time" where
  "db_time nanos = nanos div 1000"

section \<open>The text of a number is read back\<close>

lemma char_digit_digit_char: "0 \<le> d \<Longrightarrow> d < 32 \<Longrightarrow> char_digit (digit_char d) = Some d"
  by (auto simp: char_digit_def digit_char_def versionBase_def Let_def)

lemma format_digits_nonempty [simp]: "format_digits n \<noteq> ''''"
  by (subst format_digits.simps) simp

lemma parse_digits_append:
  "parse_digits m (s @ t) = (case parse_digits m s of None \<Rightarrow> None | Some n \<Rightarrow> parse_digits n t)"
  by (induction s arbitrary: m) (auto split: option.split)

lemma parse_format_digits: "0 \<le> n \<Longrightarrow> n < 2 ^ 64 \<Longrightarrow> parse_digits 0 (format_digits n) = Some n"
proof (induction n rule: format_digits.induct)
  case (1 n)
  show ?case
  proof (cases "n < 32")
    case True
    then show ?thesis
      using "1.prems" by (subst format_digits.simps) (simp add: char_digit_digit_char versionBase_def)
  next
    case False
    then have "0 \<le> n div 32 \<and> n div 32 < 2 ^ 64" using "1.prems" by linarith
    with False "1.IH" have "parse_digits 0 (format_digits (n div 32)) = Some (n div 32)"
      by (simp add: versionBase_def)
    moreover have "n div 32 * 32 + n mod 32 = n" by simp
    ultimately show ?thesis
      using False "1.prems"
      by (subst format_digits.simps) (simp add: parse_digits_append char_digit_digit_char versionBase_def)
  qed
qed

lemma ParseUint_FormatUint: "ParseUint (FormatUint u) = Some u"
  using unsigned_less [of u, where ?'a = int] by (simp add: ParseUint_def FormatUint_def parse_format_digits)

lemma FormatUint_inj: "FormatUint u = FormatUint v \<longleftrightarrow> u = v"
  by (metis ParseUint_FormatUint option.inject)

text \<open>Instants whose nanoseconds fit into 64 bits, those of the years 1678 to 2262.\<close>

definition nano_range :: "time \<Rightarrow> bool" where
  "nano_range t \<longleftrightarrow> - (2 ^ 63) \<le> t * 1000 \<and> t * 1000 < 2 ^ 63"

lemma sint_UnixNano: "nano_range t \<Longrightarrow> sint (UnixNano t) = t * 1000"
  unfolding UnixNano_def sint_sbintrunc'
  by (rule signed_take_bit_int_eq_self) (simp_all add: nano_range_def)

lemma UnixNano_inj: "nano_range t \<Longrightarrow> nano_range u \<Longrightarrow> UnixNano t = UnixNano u \<Longrightarrow> t = u"
  by (metis sint_UnixNano mult_cancel_right zero_neq_numeral)

lemma Version_round_trip:
  "nano_range t \<Longrightarrow> VersionFromString (Version_String (Some (VersionFromTime t))) = Inr (VersionFromTime t)"
  by (simp add: Version_String_def VersionFromTime_def VersionFromString_def ParseUint_FormatUint
      sint_UnixNano) (simp add: FormatUint_def)

lemma Version_Matches_time:
  "nano_range t \<Longrightarrow> nano_range u \<Longrightarrow>
     Version_Matches (Some (VersionFromTime t)) (Some (VersionFromTime u)) \<longleftrightarrow> t = u"
  by (auto simp: Version_Matches_def VersionFromTime_def FormatUint_inj dest: UnixNano_inj)

lemma db_time_version [simp]: "db_time (Version_ToTimestamp (Some (VersionFromTime t))) = t"
  by (simp add: db_time_def Version_ToTimestamp_def VersionFromTime_def)

text \<open>A version that a client gives and that matches stands for the same instant.\<close>

lemma VersionFromString_matches:
  assumes "VersionFromString s = (Inr v :: 'd err + _)" and "nano_range t"
    and "Version_Matches (Some v) (Some (VersionFromTime t)) \<or>
      Version_Matches (Some (VersionFromTime t)) (Some v)"
  shows "v = VersionFromTime t"
proof -
  have "ver_s v = s" using assms(1) by (auto simp: VersionFromString_def split: if_splits option.splits)
  with assms(3) have "s = Version_String (Some (VersionFromTime t))"
    by (auto simp: Version_Matches_def Version_String_def)
  with assms(1) Version_round_trip [OF assms(2), where ?'a = 'd] show ?thesis by simp
qed

end
