(* ===== verification/Rid_Models.thy ===== *)
theory Rid_Models
  imports Dss_Version Scd_Models
begin

text \<open>
  The entities of remote ID: \<^verbatim>\<open>pkg/rid/models\<close> (identification service areas and
  subscriptions) and \<^verbatim>\<open>pkg/models/rid_conversions.go\<close> (volumes from and to messages).
\<close>

section \<open>Messages\<close>

text \<open>A polygon is the list of its vertices. Altitudes are never absent in these messages.\<close>

record pb_rid_volume3d =
  prv3_Footprint :: "pb_latlng list option"
  prv3_AltitudeLo :: real
  prv3_AltitudeHi :: real

record pb_rid_volume4d =
  prv4_SpatialVolume :: "pb_rid_volume3d option"
  prv4_TimeStart :: "pb_timestamp option"
  prv4_TimeEnd :: "pb_timestamp option"

definition rid_time_from_proto :: "ext \<Rightarrow> pb_timestamp option \<Rightarrow> 'd err + time option" where
  "rid_time_from_proto x t =
     (case t of None \<Rightarrow> Inr None
      | Some t' \<Rightarrow>
          (case x_ts_of_pb x (Some t') of
             None \<Rightarrow> Inl (Propagate ExtErr) | Some ts \<Rightarrow> Inr (Some ts)))"

definition rid_time_to_proto :: "ext \<Rightarrow> time option \<Rightarrow> 'd err + pb_timestamp option" where
  "rid_time_to_proto x t =
     (case t of None \<Rightarrow> Inr None
      | Some t' \<Rightarrow>
          (case x_pb_of_ts x t' of
             None \<Rightarrow> Inl (Propagate ExtErr) | Some ts \<Rightarrow> Inr (Some ts)))"

section \<open>Volumes\<close>

definition PointFromRIDProto :: "pb_latlng \<Rightarrow> latlng" where
  "PointFromRIDProto pt = \<lparr>Lat = pll_Lat pt, Lng = pll_Lng pt\<rparr>"

definition GeoPolygonFromRIDProto :: "pb_latlng list \<Rightarrow> geometry" where
  "GeoPolygonFromRIDProto footprint = GeoPolygon (map PointFromRIDProto footprint)"

text \<open>A getter on an absent message gives the zero value.\<close>

definition Volume3DFromRIDProto :: "pb_rid_volume3d option \<Rightarrow> 'd err + volume3d" where
  "Volume3DFromRIDProto vol3 =
     (case vol3 of None \<Rightarrow> Inl (NewError None)
      | Some v \<Rightarrow>
          (case prv3_Footprint v of None \<Rightarrow> Inl (NewError None)
           | Some footprint \<Rightarrow>
               Inr \<lparr>AltitudeHi = Some (prv3_AltitudeHi v), AltitudeLo = Some (prv3_AltitudeLo v),
                    Footprint = Some (GeoPolygonFromRIDProto footprint)\<rparr>))"

definition Volume4DFromRIDProto :: "ext \<Rightarrow> pb_rid_volume4d option \<Rightarrow> 'd err + volume4d" where
  "Volume4DFromRIDProto x vol4 =
     sbind (Volume3DFromRIDProto (case vol4 of None \<Rightarrow> None | Some v \<Rightarrow> prv4_SpatialVolume v)) (\<lambda>vol3.
     sbind (rid_time_from_proto x (case vol4 of None \<Rightarrow> None | Some v \<Rightarrow> prv4_TimeStart v)) (\<lambda>st.
     sbind (rid_time_from_proto x (case vol4 of None \<Rightarrow> None | Some v \<Rightarrow> prv4_TimeEnd v)) (\<lambda>et.
     Inr \<lparr>SpatialVolume = Some vol3, EndTime = et, StartTime = st\<rparr>)))"

definition LatLngPoint_ToRIDProto :: "latlng \<Rightarrow> pb_latlng" where
  "LatLngPoint_ToRIDProto pt = \<lparr>pll_Lat = Lat pt, pll_Lng = Lng pt\<rparr>"

definition GeoPolygon_ToRIDProto :: "latlng list \<Rightarrow> pb_latlng list" where
  "GeoPolygon_ToRIDProto vs = map LatLngPoint_ToRIDProto vs"

definition Volume3D_ToRIDProto :: "volume3d option \<Rightarrow> 'd err + pb_rid_volume3d option" where
  "Volume3D_ToRIDProto vol3 =
     (case vol3 of None \<Rightarrow> Inr None
      | Some v \<Rightarrow>
          let lo = (case AltitudeLo v of None \<Rightarrow> 0 | Some a \<Rightarrow> a);
              hi = (case AltitudeHi v of None \<Rightarrow> 0 | Some a \<Rightarrow> a)
          in case Footprint v of
               None \<Rightarrow>
                 Inr (Some \<lparr>prv3_Footprint = None, prv3_AltitudeLo = lo, prv3_AltitudeHi = hi\<rparr>)
             | Some (GeoPolygon vs) \<Rightarrow>
                 Inr (Some \<lparr>prv3_Footprint = Some (GeoPolygon_ToRIDProto vs),
                            prv3_AltitudeLo = lo, prv3_AltitudeHi = hi\<rparr>)
             | _ \<Rightarrow> Inl (NewError None))"

definition Volume4D_ToRIDProto :: "ext \<Rightarrow> volume4d \<Rightarrow> 'd err + pb_rid_volume4d" where
  "Volume4D_ToRIDProto x vol4 =
     sbind (Volume3D_ToRIDProto (SpatialVolume vol4)) (\<lambda>vol3.
     sbind (rid_time_to_proto x (StartTime vol4)) (\<lambda>st.
     sbind (rid_time_to_proto x (EndTime vol4)) (\<lambda>et.
     Inr \<lparr>prv4_SpatialVolume = vol3, prv4_TimeStart = st, prv4_TimeEnd = et\<rparr>)))"

section \<open>Base URLs\<close>

definition ValidateURL :: "ext \<Rightarrow> string \<Rightarrow> 'd err + unit" where
  "ValidateURL x s =
     (case url_parse_scheme x s of
        None \<Rightarrow> Inl (Propagate ExtErr)
      | Some scheme \<Rightarrow>
          if scheme = ''https'' then Inr ()
          else if scheme = ''http'' then Inl (NewError None)
          else Inl (NewError None))"

section \<open>Extents\<close>

text \<open>
  Both kinds of entity take their times, altitudes and cells from the extents of a request in
  the same way: the times that are given, the altitudes, and the covering of the footprint.
\<close>

definition extents_parts ::
    "ext \<Rightarrow> pb_rid_volume4d \<Rightarrow> 'd err + (time option \<times> time option \<times> real \<times> real \<times> cells)" where
  "extents_parts x extents =
     sbind (rid_time_from_proto x (prv4_TimeStart extents)) (\<lambda>st.
     sbind (rid_time_from_proto x (prv4_TimeEnd extents)) (\<lambda>et.
     case prv4_SpatialVolume extents of None \<Rightarrow> Inl (NewError None)
     | Some space \<Rightarrow>
         (case prv3_Footprint space of None \<Rightarrow> Inl (NewError None)
          | Some footprint \<Rightarrow>
              sbind (swrap Propagate (geometry_covering x (GeoPolygonFromRIDProto footprint))) (\<lambda>cs.
              Inr (st, et, prv3_AltitudeHi space, prv3_AltitudeLo space, cs)))))"

definition if_given :: "'a option \<Rightarrow> 'a option \<Rightarrow> 'a option" where
  "if_given new old = (case new of None \<Rightarrow> old | Some a \<Rightarrow> Some a)"

section \<open>Identification service areas\<close>

record isa =
  isa_ID :: string
  isa_URL :: string
  isa_Owner :: string
  isa_Cells :: cells
  isa_StartTime :: "time option"
  isa_EndTime :: "time option"
  isa_Version :: "version option"
  isa_AltitudeHi :: "real option"
  isa_AltitudeLo :: "real option"
  isa_Writer :: string

record pb_isa =
  pisa_Id :: string
  pisa_Owner :: string
  pisa_FlightsUrl :: string
  pisa_Version :: string
  pisa_TimeStart :: "pb_timestamp option"
  pisa_TimeEnd :: "pb_timestamp option"

definition ISA_ToProto :: "ext \<Rightarrow> isa \<Rightarrow> 'd err + pb_isa" where
  "ISA_ToProto x i =
     sbind (rid_time_to_proto x (isa_StartTime i)) (\<lambda>st.
     sbind (rid_time_to_proto x (isa_EndTime i)) (\<lambda>et.
     Inr \<lparr>pisa_Id = isa_ID i, pisa_Owner = isa_Owner i, pisa_FlightsUrl = isa_URL i,
          pisa_Version = Version_String (isa_Version i), pisa_TimeStart = st, pisa_TimeEnd = et\<rparr>))"

definition ISA_SetExtents :: "ext \<Rightarrow> isa \<Rightarrow> pb_rid_volume4d option \<Rightarrow> 'd err + isa" where
  "ISA_SetExtents x i extents =
     (case extents of None \<Rightarrow> Inr i
      | Some e \<Rightarrow>
          sbind (extents_parts x e) (\<lambda>(st, et, hi, lo, cs).
          Inr (i\<lparr>isa_StartTime := if_given st (isa_StartTime i),
                 isa_EndTime := if_given et (isa_EndTime i),
                 isa_AltitudeHi := Some hi, isa_AltitudeLo := Some lo, isa_Cells := cs\<rparr>)))"

text \<open>An absent start, possible only when the replaced area has none, is dereferenced.\<close>

definition ISA_AdjustTimeRange :: "time \<Rightarrow> isa \<Rightarrow> isa option \<Rightarrow> 'd err + isa" where
  "ISA_AdjustTimeRange now i old =
     sbind
       (case isa_StartTime i of
          None \<Rightarrow> Inr (case old of None \<Rightarrow> Some now | Some o' \<Rightarrow> isa_StartTime o')
        | Some b \<Rightarrow>
            if time_sub now b > maxClockSkew then Inl (coded BadRequest) else Inr (Some b))
       (\<lambda>st.
     let et = (if isa_EndTime i = None then (case old of None \<Rightarrow> None | Some o' \<Rightarrow> isa_EndTime o')
               else isa_EndTime i) in
     case et of None \<Rightarrow> Inl (coded BadRequest)
     | Some e \<Rightarrow>
         (case st of None \<Rightarrow> Inl Panic
          | Some b \<Rightarrow>
              if time_sub e b < 0 then Inl (coded BadRequest)
              else Inr (i\<lparr>isa_StartTime := Some b, isa_EndTime := Some e\<rparr>)))"

section \<open>Subscriptions\<close>

record rid_subscription =
  rs_ID :: string
  rs_URL :: string
  rs_NotificationIndex :: int
  rs_Owner :: string
  rs_Cells :: cells
  rs_StartTime :: "time option"
  rs_EndTime :: "time option"
  rs_Version :: "version option"
  rs_AltitudeHi :: "real option"
  rs_AltitudeLo :: "real option"
  rs_Writer :: string

record pb_rid_subscription =
  prs_Id :: string
  prs_Owner :: string
  prs_Callbacks :: string
  prs_NotificationIndex :: "32 word"
  prs_Version :: string
  prs_TimeStart :: "pb_timestamp option"
  prs_TimeEnd :: "pb_timestamp option"

text \<open>A subscriber to notify: a URL and the id and index of its subscription.\<close>

record pb_rid_subscriber =
  prn_Url :: string
  prn_Subscriptions :: "(string \<times> 32 word) list"

definition RidSubscription_ToNotifyProto :: "rid_subscription \<Rightarrow> pb_rid_subscriber" where
  "RidSubscription_ToNotifyProto s =
     \<lparr>prn_Url = rs_URL s,
      prn_Subscriptions = [(rs_ID s, word_of_int (rs_NotificationIndex s))]\<rparr>"

definition RidSubscription_ToProto :: "ext \<Rightarrow> rid_subscription \<Rightarrow> 'd err + pb_rid_subscription" where
  "RidSubscription_ToProto x s =
     sbind (rid_time_to_proto x (rs_StartTime s)) (\<lambda>st.
     sbind (rid_time_to_proto x (rs_EndTime s)) (\<lambda>et.
     Inr \<lparr>prs_Id = rs_ID s, prs_Owner = rs_Owner s, prs_Callbacks = rs_URL s,
          prs_NotificationIndex = word_of_int (rs_NotificationIndex s),
          prs_Version = Version_String (rs_Version s), prs_TimeStart = st, prs_TimeEnd = et\<rparr>))"

definition RidSubscription_SetExtents ::
    "ext \<Rightarrow> rid_subscription \<Rightarrow> pb_rid_volume4d option \<Rightarrow> 'd err + rid_subscription" where
  "RidSubscription_SetExtents x s extents =
     (case extents of None \<Rightarrow> Inr s
      | Some e \<Rightarrow>
          sbind (extents_parts x e) (\<lambda>(st, et, hi, lo, cs).
          Inr (s\<lparr>rs_StartTime := if_given st (rs_StartTime s),
                 rs_EndTime := if_given et (rs_EndTime s),
                 rs_AltitudeHi := Some hi, rs_AltitudeLo := Some lo, rs_Cells := cs\<rparr>)))"

text \<open>The times are adjusted as those of a subscription of \<^verbatim>\<open>pkg/scd\<close>.\<close>

definition RidSubscription_AdjustTimeRange ::
    "time \<Rightarrow> rid_subscription \<Rightarrow> rid_subscription option \<Rightarrow> 'd err + rid_subscription" where
  "RidSubscription_AdjustTimeRange now s old =
     sbind (adjust_times now (rs_StartTime s) (rs_EndTime s)
              (map_option (\<lambda>q. (rs_StartTime q, rs_EndTime q)) old)) (\<lambda>(st, et).
     Inr (s\<lparr>rs_StartTime := st, rs_EndTime := et\<rparr>))"

section \<open>Lemmas\<close>

lemma ISA_AdjustTimeRange_Inr:
  assumes "ISA_AdjustTimeRange now i old = Inr i'"
  obtains b e where "i' = i\<lparr>isa_StartTime := Some b, isa_EndTime := Some e\<rparr>" "b \<le> e"
    "isa_StartTime i = Some b \<longrightarrow> now - b \<le> 5 * 60 * 10 ^ 6"
    "isa_StartTime i = None \<longrightarrow> (case old of None \<Rightarrow> b = now | Some o' \<Rightarrow> isa_StartTime o' = Some b)"
    "isa_EndTime i = Some e \<or> isa_EndTime i = None \<and> (\<exists>o'. old = Some o' \<and> isa_EndTime o' = Some e)"
proof -
  have skew: "time_sub now b > maxClockSkew \<longleftrightarrow> now - b > 5 * 60 * 10 ^ 6" for b
    using time_sub_minutes [of 5 now b] by (simp add: maxClockSkew_def)
  show thesis
    using assms that
    by (cases "isa_StartTime i"; cases "isa_EndTime i"; cases old)
      (auto simp: ISA_AdjustTimeRange_def tx_inv Let_def skew time_sub_neg
        split: option.split_asm if_split_asm; metis not_less)+
qed

lemma RidSubscription_AdjustTimeRange_Inr:
  assumes "RidSubscription_AdjustTimeRange now s old = (Inr s' :: 'd err + _)"
  obtains b e where "s' = s\<lparr>rs_StartTime := Some b, rs_EndTime := Some e\<rparr>" "b \<le> e"
    "e - b \<le> 24 * 60 * 60 * 10 ^ 6"
    "rs_StartTime s = Some b \<longrightarrow> now - b \<le> 5 * 60 * 10 ^ 6"
proof -
  from assms obtain st et where
    times: "adjust_times now (rs_StartTime s) (rs_EndTime s)
      (map_option (\<lambda>q. (rs_StartTime q, rs_EndTime q)) old) = (Inr (st, et) :: 'd err + _)"
    and s': "s' = s\<lparr>rs_StartTime := st, rs_EndTime := et\<rparr>"
    unfolding RidSubscription_AdjustTimeRange_def sbind_Inr by auto
  from times show thesis by (rule adjust_times_Inr) (use s' that in auto)
qed

lemma ISA_SetExtents_Inr:
  "ISA_SetExtents x i e = Inr i' \<Longrightarrow> isa_ID i' = isa_ID i \<and> isa_URL i' = isa_URL i \<and>
     isa_Owner i' = isa_Owner i \<and> isa_Version i' = isa_Version i \<and> isa_Writer i' = isa_Writer i"
  by (auto simp: ISA_SetExtents_def tx_inv split: option.splits)

lemma RidSubscription_SetExtents_Inr:
  "RidSubscription_SetExtents x s e = Inr s' \<Longrightarrow> rs_ID s' = rs_ID s \<and> rs_URL s' = rs_URL s \<and>
     rs_Owner s' = rs_Owner s \<and> rs_Version s' = rs_Version s \<and> rs_Writer s' = rs_Writer s \<and>
     rs_NotificationIndex s' = rs_NotificationIndex s"
  by (auto simp: RidSubscription_SetExtents_def tx_inv split: option.splits)

text \<open>Reading back the message of a volume gives the volume, when nothing was left out of it.\<close>

lemma rid_time_round_trip:
  assumes "\<And>t p. x_pb_of_ts x t = Some p \<Longrightarrow> x_ts_of_pb x (Some p) = Some t"
    and "rid_time_to_proto x t = (Inr p :: 'd err + _)"
  shows "rid_time_from_proto x p = (Inr t :: 'd err + _)"
proof (cases t)
  case (Some t')
  with assms(2) obtain q where "x_pb_of_ts x t' = Some q" "p = Some q"
    by (auto simp: rid_time_to_proto_def split: option.splits)
  with assms(1) Some show ?thesis by (simp add: rid_time_from_proto_def)
qed (use assms(2) in \<open>simp add: rid_time_to_proto_def rid_time_from_proto_def\<close>)

lemma rid_points_round_trip: "map PointFromRIDProto (GeoPolygon_ToRIDProto vs) = vs"
  by (simp add: GeoPolygon_ToRIDProto_def comp_def PointFromRIDProto_def
      LatLngPoint_ToRIDProto_def map_idI)

end
