(* ===== verification/Rid_Store.thy ===== *)
theory Rid_Store
  imports Rid_Models Dss_Refs
begin

text \<open>
  Packages \<^verbatim>\<open>pkg/rid/repos\<close> and \<^verbatim>\<open>pkg/rid/store/cockroach\<close>: the two tables of the remote
  ID database, the statements of the repository for schema version 4, the only major version
  that the store accepts, and the garbage collector.
\<close>

section \<open>The database\<close>

text \<open>Rows written before the column \<^verbatim>\<open>writer\<close> was added have none.\<close>

record isa_row =
  isr_owner :: string
  isr_url :: string
  isr_cells :: cells
  isr_starts_at :: "time option"
  isr_ends_at :: "time option"
  isr_writer :: "string option"
  isr_updated_at :: time

record rsub_row =
  rsr_owner :: string
  rsr_url :: string
  rsr_notification_index :: int
  rsr_cells :: cells
  rsr_starts_at :: "time option"
  rsr_ends_at :: "time option"
  rsr_writer :: "string option"
  rsr_updated_at :: time

record rid_db =
  rdb_isas :: "isa_row table"
  rdb_subs :: "rsub_row table"

type_synonym rid_err = "unit err"
type_synonym 'a rid_tx = "(unit, rid_db, 'a) tx"

definition writer_text :: "string option \<Rightarrow> string" where
  "writer_text w = (case w of None \<Rightarrow> '''' | Some s \<Rightarrow> s)"

text \<open>A row whose column of times is not null and at least \<open>t\<close>.\<close>

definition ends_from :: "time option \<Rightarrow> time \<Rightarrow> bool" where
  "ends_from e t = (case e of None \<Rightarrow> False | Some e' \<Rightarrow> e' \<ge> t)"

section \<open>Identification service areas\<close>

definition fetch_isa :: "string \<times> isa_row \<Rightarrow> isa" where
  "fetch_isa kr = (case kr of (k, r) \<Rightarrow>
     \<lparr>isa_ID = k, isa_URL = isr_url r, isa_Owner = isr_owner r,
      isa_Cells = CellUnionFromInt64 (isr_cells r), isa_StartTime = isr_starts_at r,
      isa_EndTime = isr_ends_at r, isa_Version = Some (VersionFromTime (isr_updated_at r)),
      isa_AltitudeHi = None, isa_AltitudeLo = None, isa_Writer = writer_text (isr_writer r)\<rparr>)"

definition rid_GetISA :: "ext \<Rightarrow> string \<Rightarrow> isa option rid_tx" where
  "rid_GetISA x i =
     bnd (wrap Propagate (of_sum (PgUUID x i))) (\<lambda>uid.
     gets (\<lambda>db. map_option (\<lambda>r. fetch_isa (uid, r)) (tbl_get (rdb_isas db) uid)))"

definition isa_row_of :: "time \<Rightarrow> isa \<Rightarrow> isa_row" where
  "isa_row_of ts i =
     \<lparr>isr_owner = isa_Owner i, isr_url = isa_URL i, isr_cells = isa_Cells i,
      isr_starts_at = isa_StartTime i, isr_ends_at = isa_EndTime i,
      isr_writer = Some (isa_Writer i), isr_updated_at = ts\<rparr>"

definition rid_row_check :: "time option \<Rightarrow> time option \<Rightarrow> cells \<Rightarrow> bool" where
  "rid_row_check b e cs \<longleftrightarrow> times_check b e \<and> cs \<noteq> []"

text \<open>\<open>ts\<close> is the time stamp of the transaction. The id is the primary key.\<close>

definition rid_InsertISA :: "ext \<Rightarrow> time \<Rightarrow> isa \<Rightarrow> isa option rid_tx" where
  "rid_InsertISA x ts i =
     bnd (wrap Propagate (of_sum (smap (ValidateCell x) (isa_Cells i)))) (\<lambda>_.
     bnd (wrap Propagate (of_sum (PgUUID x (isa_ID i)))) (\<lambda>uid.
     seq (check (rid_row_check (isa_StartTime i) (isa_EndTime i) (isa_Cells i)) check_violation)
     (bnd (gets (\<lambda>db. tbl_get (rdb_isas db) uid)) (\<lambda>r.
     seq (check (r = None) (Propagate (DbErr ''duplicate key value violates unique constraint'')))
     (seq (modify (\<lambda>db. db\<lparr>rdb_isas := tbl_upsert uid (isa_row_of ts i) (rdb_isas db)\<rparr>))
     (ret (Some (fetch_isa (uid, isa_row_of ts i)))))))))"

text \<open>The update keeps the owner of the row. No row with the id and version gives no result.\<close>

definition rid_UpdateISA :: "ext \<Rightarrow> time \<Rightarrow> isa \<Rightarrow> isa option rid_tx" where
  "rid_UpdateISA x ts i =
     bnd (wrap Propagate (of_sum (smap (ValidateCell x) (isa_Cells i)))) (\<lambda>_.
     bnd (wrap Propagate (of_sum (PgUUID x (isa_ID i)))) (\<lambda>uid.
     bnd (gets (\<lambda>db. tbl_get (rdb_isas db) uid)) (\<lambda>r.
     case r of None \<Rightarrow> ret None
     | Some old \<Rightarrow>
         if isr_updated_at old \<noteq> db_time (Version_ToTimestamp (isa_Version i)) then ret None
         else
           let row = (isa_row_of ts i)\<lparr>isr_owner := isr_owner old\<rparr> in
           seq (check (rid_row_check (isa_StartTime i) (isa_EndTime i) (isa_Cells i)) check_violation)
           (seq (modify (\<lambda>db. db\<lparr>rdb_isas := tbl_upsert uid row (rdb_isas db)\<rparr>))
           (ret (Some (fetch_isa (uid, row))))))))"

definition rid_DeleteISA :: "ext \<Rightarrow> isa \<Rightarrow> isa option rid_tx" where
  "rid_DeleteISA x i =
     bnd (wrap Propagate (of_sum (PgUUID x (isa_ID i)))) (\<lambda>uid.
     bnd (gets (\<lambda>db. tbl_get (rdb_isas db) uid)) (\<lambda>r.
     case r of None \<Rightarrow> ret None
     | Some old \<Rightarrow>
         if isr_updated_at old \<noteq> db_time (Version_ToTimestamp (isa_Version i)) then ret None
         else seq (modify (\<lambda>db. db\<lparr>rdb_isas := tbl_delete uid (rdb_isas db)\<rparr>))
           (ret (Some (fetch_isa (uid, old))))))"

definition isa_matches :: "cells \<Rightarrow> time \<Rightarrow> time option \<Rightarrow> isa_row \<Rightarrow> bool" where
  "isa_matches cs earliest latest r \<longleftrightarrow>
     ends_from (isr_ends_at r) earliest \<and> le_or_null (isr_starts_at r) latest \<and>
     cells_overlap (isr_cells r) cs"

definition rid_SearchISAs ::
    "ext \<Rightarrow> cells \<Rightarrow> time option \<Rightarrow> time option \<Rightarrow> isa list rid_tx" where
  "rid_SearchISAs x cs earliest latest =
     (if cs = [] then fail (coded BadRequest)
      else case earliest of None \<Rightarrow> fail (NewError None)
      | Some e \<Rightarrow>
          gets (\<lambda>db. map fetch_isa (limit_rows (tbl_select (isa_matches cs e latest) (rdb_isas db)))))"

text \<open>
  Records expire 30 minutes after their end. The condition on the writer is put into the text of
  the query, here for writers without quotes; in SQL \<^verbatim>\<open>writer = NULL\<close> holds for no row.
\<close>

definition expiredDurationInMin :: int where "expiredDurationInMin = 30"

definition expired :: "time \<Rightarrow> time option \<Rightarrow> bool" where
  "expired now e = (case e of None \<Rightarrow> False | Some e' \<Rightarrow> time_add e' (minutes expiredDurationInMin) \<le> now)"

definition written_by :: "string \<Rightarrow> string option \<Rightarrow> bool" where
  "written_by writer w = (case w of None \<Rightarrow> False | Some w' \<Rightarrow> w' = writer)"

definition isa_expired :: "time \<Rightarrow> string \<Rightarrow> isa_row \<Rightarrow> bool" where
  "isa_expired now writer r \<longleftrightarrow> expired now (isr_ends_at r) \<and> written_by writer (isr_writer r)"

definition rid_ListExpiredISAs :: "time \<Rightarrow> string \<Rightarrow> isa list rid_tx" where
  "rid_ListExpiredISAs now writer =
     gets (\<lambda>db. map fetch_isa (limit_rows (tbl_select (isa_expired now writer) (rdb_isas db))))"

section \<open>Subscriptions\<close>

definition fetch_rsub :: "string \<times> rsub_row \<Rightarrow> rid_subscription" where
  "fetch_rsub kr = (case kr of (k, r) \<Rightarrow>
     \<lparr>rs_ID = k, rs_URL = rsr_url r, rs_NotificationIndex = rsr_notification_index r,
      rs_Owner = rsr_owner r, rs_Cells = rsr_cells r, rs_StartTime = rsr_starts_at r,
      rs_EndTime = rsr_ends_at r, rs_Version = Some (VersionFromTime (rsr_updated_at r)),
      rs_AltitudeHi = None, rs_AltitudeLo = None, rs_Writer = writer_text (rsr_writer r)\<rparr>)"

definition rid_GetSubscription :: "ext \<Rightarrow> string \<Rightarrow> rid_subscription option rid_tx" where
  "rid_GetSubscription x i =
     bnd (wrap Propagate (of_sum (PgUUID x i))) (\<lambda>uid.
     gets (\<lambda>db. map_option (\<lambda>r. fetch_rsub (uid, r)) (tbl_get (rdb_subs db) uid)))"

text \<open>
  The count of the rows of an owner per cell, a row counting once for each time the cell is in
  it, and the largest of the counts over the given cells.
\<close>

definition owner_rows :: "string \<Rightarrow> time \<Rightarrow> rid_db \<Rightarrow> rsub_row list" where
  "owner_rows owner now db =
     map snd (tbl_select (\<lambda>r. rsr_owner r = owner \<and> ends_from (rsr_ends_at r) now) (rdb_subs db))"

definition rid_MaxSubscriptionCountInCellsByOwner ::
    "time \<Rightarrow> cells \<Rightarrow> string \<Rightarrow> int rid_tx" where
  "rid_MaxSubscriptionCountInCellsByOwner now cs owner =
     gets (\<lambda>db. fold max
       (map (\<lambda>c. int (length (filter (\<lambda>c'. c' = c) (concat (map rsr_cells (owner_rows owner now db))))))
          cs) 0)"

definition rsub_row_of :: "time \<Rightarrow> rid_subscription \<Rightarrow> rsub_row" where
  "rsub_row_of ts s =
     \<lparr>rsr_owner = rs_Owner s, rsr_url = rs_URL s,
      rsr_notification_index = rs_NotificationIndex s, rsr_cells = rs_Cells s,
      rsr_starts_at = rs_StartTime s, rsr_ends_at = rs_EndTime s,
      rsr_writer = Some (rs_Writer s), rsr_updated_at = ts\<rparr>"

definition rid_InsertSubscription :: "ext \<Rightarrow> time \<Rightarrow> rid_subscription \<Rightarrow> rid_subscription option rid_tx" where
  "rid_InsertSubscription x ts s =
     bnd (wrap Propagate (of_sum (smap (ValidateCell x) (rs_Cells s)))) (\<lambda>_.
     bnd (wrap Propagate (of_sum (PgUUID x (rs_ID s)))) (\<lambda>uid.
     seq (check (rid_row_check (rs_StartTime s) (rs_EndTime s) (rs_Cells s)) check_violation)
     (bnd (gets (\<lambda>db. tbl_get (rdb_subs db) uid)) (\<lambda>r.
     seq (check (r = None) (Propagate (DbErr ''duplicate key value violates unique constraint'')))
     (seq (modify (\<lambda>db. db\<lparr>rdb_subs := tbl_upsert uid (rsub_row_of ts s) (rdb_subs db)\<rparr>))
     (ret (Some (fetch_rsub (uid, rsub_row_of ts s)))))))))"

text \<open>The update writes the notification index of its argument.\<close>

definition rid_UpdateSubscription :: "ext \<Rightarrow> time \<Rightarrow> rid_subscription \<Rightarrow> rid_subscription option rid_tx" where
  "rid_UpdateSubscription x ts s =
     bnd (wrap Propagate (of_sum (smap (ValidateCell x) (rs_Cells s)))) (\<lambda>_.
     bnd (wrap Propagate (of_sum (PgUUID x (rs_ID s)))) (\<lambda>uid.
     bnd (gets (\<lambda>db. tbl_get (rdb_subs db) uid)) (\<lambda>r.
     case r of None \<Rightarrow> ret None
     | Some old \<Rightarrow>
         if rsr_updated_at old \<noteq> db_time (Version_ToTimestamp (rs_Version s)) then ret None
         else
           let row = (rsub_row_of ts s)\<lparr>rsr_owner := rsr_owner old\<rparr> in
           seq (check (rid_row_check (rs_StartTime s) (rs_EndTime s) (rs_Cells s)) check_violation)
           (seq (modify (\<lambda>db. db\<lparr>rdb_subs := tbl_upsert uid row (rdb_subs db)\<rparr>))
           (ret (Some (fetch_rsub (uid, row))))))))"

definition rid_DeleteSubscription :: "ext \<Rightarrow> rid_subscription \<Rightarrow> rid_subscription option rid_tx" where
  "rid_DeleteSubscription x s =
     bnd (wrap Propagate (of_sum (PgUUID x (rs_ID s)))) (\<lambda>uid.
     bnd (gets (\<lambda>db. tbl_get (rdb_subs db) uid)) (\<lambda>r.
     case r of None \<Rightarrow> ret None
     | Some old \<Rightarrow>
         if rsr_updated_at old \<noteq> db_time (Version_ToTimestamp (rs_Version s)) then ret None
         else seq (modify (\<lambda>db. db\<lparr>rdb_subs := tbl_delete uid (rdb_subs db)\<rparr>))
           (ret (Some (fetch_rsub (uid, old))))))"

definition rsub_matches :: "cells \<Rightarrow> time \<Rightarrow> rsub_row \<Rightarrow> bool" where
  "rsub_matches cs now r \<longleftrightarrow> cells_overlap (rsr_cells r) cs \<and> ends_from (rsr_ends_at r) now"

definition bump_rsub :: "rsub_row \<Rightarrow> rsub_row" where
  "bump_rsub r = r\<lparr>rsr_notification_index := rsr_notification_index r + 1\<rparr>"

text \<open>The rows come back with their new index, in the order the statement returns them.\<close>

definition rid_UpdateNotificationIdxsInCells ::
    "ext \<Rightarrow> time \<Rightarrow> cells \<Rightarrow> rid_subscription list rid_tx" where
  "rid_UpdateNotificationIdxsInCells x now cs =
     bnd (gets (\<lambda>db. tbl_select (rsub_matches cs now) (rdb_subs db))) (\<lambda>rows.
     seq (check (list_all (\<lambda>kr. rsr_notification_index (snd kr) + 1 < 2 ^ 31) rows)
           (Propagate (DbErr ''integer out of range for type int4'')))
     (seq (modify (\<lambda>db. db\<lparr>rdb_subs := tbl_update_any (map fst rows) bump_rsub (rdb_subs db)\<rparr>))
     (gets (\<lambda>db. List.map_filter (\<lambda>k. map_option (\<lambda>r. fetch_rsub (k, r)) (tbl_get (rdb_subs db) k))
        (x_returning x (map fst rows))))))"

definition rid_SearchSubscriptions :: "ext \<Rightarrow> time \<Rightarrow> cells \<Rightarrow> rid_subscription list rid_tx" where
  "rid_SearchSubscriptions x now cs =
     (if cs = [] then fail (coded BadRequest)
      else gets (\<lambda>db. map fetch_rsub (limit_rows (tbl_select (rsub_matches cs now) (rdb_subs db)))))"

definition rid_SearchSubscriptionsByOwner ::
    "ext \<Rightarrow> time \<Rightarrow> cells \<Rightarrow> string \<Rightarrow> rid_subscription list rid_tx" where
  "rid_SearchSubscriptionsByOwner x now cs owner =
     (if cs = [] then fail (coded BadRequest)
      else gets (\<lambda>db. map fetch_rsub (limit_rows
             (tbl_select (\<lambda>r. rsub_matches cs now r \<and> rsr_owner r = owner) (rdb_subs db)))))"

definition rsub_expired :: "time \<Rightarrow> string \<Rightarrow> rsub_row \<Rightarrow> bool" where
  "rsub_expired now writer r \<longleftrightarrow> expired now (rsr_ends_at r) \<and> written_by writer (rsr_writer r)"

definition rid_ListExpiredSubscriptions :: "time \<Rightarrow> string \<Rightarrow> rid_subscription list rid_tx" where
  "rid_ListExpiredSubscriptions now writer =
     gets (\<lambda>db. map fetch_rsub (tbl_select (rsub_expired now writer) (rdb_subs db)))"

section \<open>Transactions\<close>

text \<open>
  The store recovers from a panic in the transaction's function, rolls back, and continues as if
  the function had returned no error; committing the transaction then fails because it is
  closed.
\<close>

definition rid_transact :: "'a rid_tx \<Rightarrow> rid_db \<Rightarrow> (rid_err + 'a) \<times> rid_db" where
  "rid_transact m db =
     (case m db of
        Inl e \<Rightarrow> (Inl (case e of Panic \<Rightarrow> ExtErr | _ \<Rightarrow> e), db)
      | Inr (a, db') \<Rightarrow> (Inr a, db'))"

section \<open>The garbage collector\<close>

text \<open>
  Each statement runs on its own. A record that was deleted ends the loop: an error of none is
  none, and the loop returns it.
\<close>

fun gc_delete :: "('a \<Rightarrow> 'b option rid_tx) \<Rightarrow> 'a list \<Rightarrow> rid_db \<Rightarrow> (rid_err + unit) \<times> rid_db" where
  "gc_delete del [] db = (Inr (), db)"
| "gc_delete del (r # rs) db =
     (case transact (del r) db of
        (Inr (Some out), db') \<Rightarrow> (Inr (), db')
      | (Inr None, db') \<Rightarrow> gc_delete del rs db'
      | (Inl e, db') \<Rightarrow> (Inl (rewrap Propagate e), db'))"

definition DeleteExpiredISAs :: "ext \<Rightarrow> time \<Rightarrow> string \<Rightarrow> rid_db \<Rightarrow> (rid_err + unit) \<times> rid_db" where
  "DeleteExpiredISAs x now writer db =
     (case transact (rid_ListExpiredISAs now writer) db of
        (Inl e, db') \<Rightarrow> (Inl (rewrap Propagate e), db')
      | (Inr isas, db') \<Rightarrow> gc_delete (rid_DeleteISA x) isas db')"

definition DeleteExpiredSubscriptions ::
    "ext \<Rightarrow> time \<Rightarrow> string \<Rightarrow> rid_db \<Rightarrow> (rid_err + unit) \<times> rid_db" where
  "DeleteExpiredSubscriptions x now writer db =
     (case transact (rid_ListExpiredSubscriptions now writer) db of
        (Inl e, db') \<Rightarrow> (Inl (rewrap Propagate e), db')
      | (Inr subs, db') \<Rightarrow> gc_delete (rid_DeleteSubscription x) subs db')"

definition DeleteRIDExpiredRecords ::
    "ext \<Rightarrow> time \<Rightarrow> string \<Rightarrow> rid_db \<Rightarrow> (rid_err + unit) \<times> rid_db" where
  "DeleteRIDExpiredRecords x now writer db =
     (case DeleteExpiredISAs x now writer db of
        (Inl e, db') \<Rightarrow> (Inl (rewrap Propagate e), db')
      | (Inr u, db') \<Rightarrow>
          (case DeleteExpiredSubscriptions x now writer db' of
             (Inl e, db'') \<Rightarrow> (Inl (rewrap Propagate e), db'')
           | (Inr u', db'') \<Rightarrow> (Inr (), db'')))"

end
