(* ===== verification/Rid_Server.thy ===== *)
theory Rid_Server
  imports Rid_Store Dss_Server
begin

text \<open>
  The remote ID service: the application layer (\<^verbatim>\<open>pkg/rid/application\<close>), which runs the
  transactions, and the handlers above it (\<^verbatim>\<open>pkg/rid/server\<close>). Its clock is that of the call.
\<close>

section \<open>The application: identification service areas\<close>

definition app_GetISA :: "ext \<Rightarrow> string \<Rightarrow> isa option rid_tx" where
  "app_GetISA x i = rid_GetISA x i"

text \<open>Areas that ended before now are not looked for.\<close>

definition app_SearchISAs ::
    "ext \<Rightarrow> call \<Rightarrow> cells \<Rightarrow> time option \<Rightarrow> time option \<Rightarrow> isa list rid_tx" where
  "app_SearchISAs x c cs earliest latest =
     (let now = c_now c;
          earliest' = (case earliest of None \<Rightarrow> now | Some e \<Rightarrow> if e < now then now else e)
      in rid_SearchISAs x cs (Some earliest') latest)"

definition delete_isa_action ::
    "ext \<Rightarrow> call \<Rightarrow> string \<times> string \<times> version \<Rightarrow> (isa option \<times> rid_subscription list) rid_tx" where
  "delete_isa_action x c = (\<lambda>(i, owner, version).
     bnd (wrap Propagate (rid_GetISA x i)) (\<lambda>old.
     case old of None \<Rightarrow> fail (coded NotFound)
     | Some old' \<Rightarrow>
         seq (check (Version_Matches (Some version) (isa_Version old')) (coded VersionMismatch))
         (seq (check (isa_Owner old' = owner) (coded PermissionDenied))
         (bnd (wrap Propagate (rid_DeleteISA x old')) (\<lambda>r.
         bnd (wrap Propagate (rid_UpdateNotificationIdxsInCells x (c_now c) (isa_Cells old'))) (\<lambda>subs.
         ret (r, subs)))))))"

definition insert_isa_action ::
    "ext \<Rightarrow> call \<Rightarrow> isa \<Rightarrow> (isa option \<times> rid_subscription list) rid_tx" where
  "insert_isa_action x c i =
     bnd (wrap Propagate (rid_GetISA x (isa_ID i))) (\<lambda>old.
     seq (check (old = None) (coded AlreadyExists))
     (bnd (wrap Propagate (rid_UpdateNotificationIdxsInCells x (c_now c) (isa_Cells i))) (\<lambda>subs.
     bnd (wrap Propagate (rid_InsertISA x (c_txn c) i)) (\<lambda>r.
     ret (r, subs)))))"

definition app_InsertISA ::
    "ext \<Rightarrow> call \<Rightarrow> isa \<Rightarrow> rid_db \<Rightarrow> (rid_err + (isa option \<times> rid_subscription list)) \<times> rid_db" where
  "app_InsertISA x c i db =
     (case ISA_AdjustTimeRange (c_now c) i None of
        Inl e \<Rightarrow> (Inl (rewrap Propagate e), db)
      | Inr i' \<Rightarrow> rid_transact (insert_isa_action x c i') db)"

text \<open>The subscriptions to notify are those of the cells before and after.\<close>

definition update_isa_action ::
    "ext \<Rightarrow> call \<Rightarrow> isa \<Rightarrow> (isa option \<times> rid_subscription list) rid_tx" where
  "update_isa_action x c i =
     bnd (wrap Propagate (rid_GetISA x (isa_ID i))) (\<lambda>old.
     case old of None \<Rightarrow> fail (coded NotFound)
     | Some old' \<Rightarrow>
         seq (check (isa_Owner old' = isa_Owner i) (coded PermissionDenied))
         (seq (check (Version_Matches (isa_Version old') (isa_Version i)) (coded VersionMismatch))
         (bnd (wrap Propagate (of_sum (ISA_AdjustTimeRange (c_now c) i (Some old')))) (\<lambda>i'.
         bnd (wrap Propagate (rid_UpdateISA x (c_txn c) i')) (\<lambda>r.
         bnd (wrap Propagate (rid_UpdateNotificationIdxsInCells x (c_now c)
                (Levelify x (s2_union x (isa_Cells old') (isa_Cells i'))))) (\<lambda>subs.
         ret (r, subs)))))))"

section \<open>The application: subscriptions\<close>

definition maxSubscriptionsPerArea :: int where "maxSubscriptionsPerArea = 10"

definition check_quota :: "call \<Rightarrow> rid_subscription \<Rightarrow> unit rid_tx" where
  "check_quota c s =
     bnd (wrap Propagate (rid_MaxSubscriptionCountInCellsByOwner (c_now c) (rs_Cells s) (rs_Owner s)))
       (\<lambda>count. check (\<not> count \<ge> maxSubscriptionsPerArea) (Propagate (coded Exhausted)))"

definition insert_rsub_action ::
    "ext \<Rightarrow> call \<Rightarrow> rid_subscription \<Rightarrow> rid_subscription option rid_tx" where
  "insert_rsub_action x c s =
     bnd (wrap Propagate (rid_GetSubscription x (rs_ID s))) (\<lambda>old.
     seq (check (old = None) (coded AlreadyExists))
     (seq (check_quota c s)
     (wrap Propagate (rid_InsertSubscription x (c_txn c) s))))"

definition app_InsertSubscription ::
    "ext \<Rightarrow> call \<Rightarrow> rid_subscription \<Rightarrow> rid_db \<Rightarrow> (rid_err + rid_subscription option) \<times> rid_db" where
  "app_InsertSubscription x c s db =
     (case RidSubscription_AdjustTimeRange (c_now c) s None of
        Inl e \<Rightarrow> (Inl (rewrap Propagate e), db)
      | Inr s' \<Rightarrow> rid_transact (insert_rsub_action x c s') db)"

definition update_rsub_action ::
    "ext \<Rightarrow> call \<Rightarrow> rid_subscription \<Rightarrow> rid_subscription option rid_tx" where
  "update_rsub_action x c s =
     bnd (wrap Propagate (rid_GetSubscription x (rs_ID s))) (\<lambda>old.
     case old of None \<Rightarrow> fail (coded NotFound)
     | Some old' \<Rightarrow>
         seq (check (Version_Matches (rs_Version s) (rs_Version old')) (Propagate (coded VersionMismatch)))
         (seq (check (rs_Owner old' = rs_Owner s) (Propagate (coded PermissionDenied)))
         (bnd (wrap Propagate (of_sum (RidSubscription_AdjustTimeRange (c_now c) s (Some old')))) (\<lambda>s'.
         seq (check_quota c s')
         (wrap Propagate (rid_UpdateSubscription x (c_txn c) s'))))))"

definition delete_rsub_action ::
    "ext \<Rightarrow> call \<Rightarrow> string \<times> string \<times> version \<Rightarrow> rid_subscription option rid_tx" where
  "delete_rsub_action x c = (\<lambda>(i, owner, version).
     bnd (wrap Propagate (rid_GetSubscription x i)) (\<lambda>old.
     case old of None \<Rightarrow> fail (coded NotFound)
     | Some old' \<Rightarrow>
         seq (check (Version_Matches (Some version) (rs_Version old')) (Propagate (coded VersionMismatch)))
         (seq (check (rs_Owner old' = owner) (Propagate (coded PermissionDenied)))
         (wrap Propagate (rid_DeleteSubscription x old')))))"

section \<open>Handlers: identification service areas\<close>

record put_isa_params =
  pip_FlightsUrl :: string
  pip_Extents :: "pb_rid_volume4d option"

record put_isa_response =
  pir_ServiceArea :: pb_isa
  pir_Subscribers :: "pb_rid_subscriber list"

text \<open>
  What a handler does with the result of the application: an error is wrapped, a value is turned
  into the response. The database is the one that was committed.
\<close>

definition rid_finish ::
    "(rid_err + 'a) \<times> rid_db \<Rightarrow> ('a \<Rightarrow> rid_db \<Rightarrow> rid_err + 'b) \<Rightarrow> (rid_err + 'b) \<times> rid_db" where
  "rid_finish r f =
     (case r of
        (Inl e, db) \<Rightarrow> (Inl (rewrap Propagate e), db)
      | (Inr a, db) \<Rightarrow> (f a db, db))"

definition rid_serve ::
    "rid_err + 'q \<Rightarrow> ('q \<Rightarrow> rid_db \<Rightarrow> (rid_err + 'a) \<times> rid_db) \<Rightarrow>
     ('q \<Rightarrow> 'a \<Rightarrow> rid_db \<Rightarrow> rid_err + 'b) \<Rightarrow> rid_db \<Rightarrow> (rid_err + 'b) \<times> rid_db" where
  "rid_serve v run f db = (case v of Inl e \<Rightarrow> (Inl e, db) | Inr q \<Rightarrow> rid_finish (run q db) (f q))"

text \<open>A result that is not there is dereferenced.\<close>

definition isa_response ::
    "ext \<Rightarrow> 'q \<Rightarrow> isa option \<times> rid_subscription list \<Rightarrow> rid_db \<Rightarrow> rid_err + put_isa_response" where
  "isa_response x q = (\<lambda>(r, subs) db.
     sbind (sderef r) (\<lambda>i.
     sbind (swrap Propagate (ISA_ToProto x i)) (\<lambda>p.
     Inr \<lparr>pir_ServiceArea = p, pir_Subscribers = map RidSubscription_ToNotifyProto subs\<rparr>)))"

definition GetIdentificationServiceArea ::
    "ext \<Rightarrow> string \<Rightarrow> rid_db \<Rightarrow> (rid_err + pb_isa) \<times> rid_db" where
  "GetIdentificationServiceArea x i =
     rid_serve (parse_id x i) (\<lambda>i. transact (app_GetISA x i)) (\<lambda>i r db.
       case r of None \<Rightarrow> Inl (coded NotFound) | Some isa \<Rightarrow> swrap Propagate (ISA_ToProto x isa))"

definition validate_create_isa ::
    "ext \<Rightarrow> call \<Rightarrow> string \<Rightarrow> string \<Rightarrow> put_isa_params option \<Rightarrow> rid_err + isa" where
  "validate_create_isa x c locality i params =
     sbind (require_manager c) (\<lambda>owner.
     case params of None \<Rightarrow> Inl (coded BadRequest)
     | Some p \<Rightarrow>
     sbind (scheck (pip_FlightsUrl p \<noteq> '''') (coded BadRequest)) (\<lambda>_.
     sbind (scheck (pip_Extents p \<noteq> None) (coded BadRequest)) (\<lambda>_.
     sbind (parse_id x i) (\<lambda>i'.
     sbind (if EnableHTTP c then Inr ()
            else swrap (PropagateWithCode BadRequest) (ValidateURL x (pip_FlightsUrl p))) (\<lambda>_.
     swrap (PropagateWithCode BadRequest) (ISA_SetExtents x
       \<lparr>isa_ID = i', isa_URL = pip_FlightsUrl p, isa_Owner = owner, isa_Cells = [],
        isa_StartTime = None, isa_EndTime = None, isa_Version = None, isa_AltitudeHi = None,
        isa_AltitudeLo = None, isa_Writer = locality\<rparr> (pip_Extents p)))))))"

definition CreateIdentificationServiceArea ::
    "ext \<Rightarrow> call \<Rightarrow> string \<Rightarrow> string \<Rightarrow> put_isa_params option \<Rightarrow> rid_db
     \<Rightarrow> (rid_err + put_isa_response) \<times> rid_db" where
  "CreateIdentificationServiceArea x c locality i params =
     rid_serve (validate_create_isa x c locality i params) (app_InsertISA x c) (isa_response x)"

text \<open>The URL of an update is not validated.\<close>

definition validate_update_isa ::
    "ext \<Rightarrow> call \<Rightarrow> string \<Rightarrow> string \<Rightarrow> string \<Rightarrow> put_isa_params option \<Rightarrow> rid_err + isa" where
  "validate_update_isa x c locality i version params =
     sbind (swrap (PropagateWithCode BadRequest) (VersionFromString version)) (\<lambda>v.
     sbind (require_manager c) (\<lambda>owner.
     case params of None \<Rightarrow> Inl (coded BadRequest)
     | Some p \<Rightarrow>
     sbind (scheck (pip_FlightsUrl p \<noteq> '''') (coded BadRequest)) (\<lambda>_.
     sbind (scheck (pip_Extents p \<noteq> None) (coded BadRequest)) (\<lambda>_.
     sbind (parse_id x i) (\<lambda>i'.
     swrap (PropagateWithCode BadRequest) (ISA_SetExtents x
       \<lparr>isa_ID = i', isa_URL = pip_FlightsUrl p, isa_Owner = owner, isa_Cells = [],
        isa_StartTime = None, isa_EndTime = None, isa_Version = Some v, isa_AltitudeHi = None,
        isa_AltitudeLo = None, isa_Writer = locality\<rparr> (pip_Extents p)))))))"

definition UpdateIdentificationServiceArea ::
    "ext \<Rightarrow> call \<Rightarrow> string \<Rightarrow> string \<Rightarrow> string \<Rightarrow> put_isa_params option \<Rightarrow> rid_db
     \<Rightarrow> (rid_err + put_isa_response) \<times> rid_db" where
  "UpdateIdentificationServiceArea x c locality i version params =
     rid_serve (validate_update_isa x c locality i version params)
       (\<lambda>isa. rid_transact (update_isa_action x c isa)) (isa_response x)"

definition delete_request ::
    "ext \<Rightarrow> call \<Rightarrow> string \<Rightarrow> string \<Rightarrow> rid_err + string \<times> string \<times> version" where
  "delete_request x c i version =
     sbind (require_manager c) (\<lambda>owner.
     sbind (swrap (PropagateWithCode BadRequest) (VersionFromString version)) (\<lambda>v.
     sbind (parse_id x i) (\<lambda>i'. Inr (i', owner, v))))"

definition DeleteIdentificationServiceArea ::
    "ext \<Rightarrow> call \<Rightarrow> string \<Rightarrow> string \<Rightarrow> rid_db \<Rightarrow> (rid_err + put_isa_response) \<times> rid_db" where
  "DeleteIdentificationServiceArea x c i version =
     rid_serve (delete_request x c i version)
       (\<lambda>q. rid_transact (delete_isa_action x c q)) (isa_response x)"

text \<open>
  \<^verbatim>\<open>errors.Is\<close> looks through the wrapping of an error. An area that is too large keeps its
  code here.
\<close>

fun is_area_too_large :: "'d err \<Rightarrow> bool" where
  "is_area_too_large (GeoErr g) = (g = ErrAreaTooLarge)"
| "is_area_too_large (Propagate e) = is_area_too_large e"
| "is_area_too_large (PropagateWithCode c e) = is_area_too_large e"
| "is_area_too_large _ = False"

definition search_cells :: "ext \<Rightarrow> string \<Rightarrow> 'd err + cells" where
  "search_cells x area =
     swrap (\<lambda>e. if is_area_too_large e then Propagate e else PropagateWithCode BadRequest e)
       (AreaToCellIDs x area)"

definition SearchIdentificationServiceAreas ::
    "ext \<Rightarrow> call \<Rightarrow> string \<Rightarrow> pb_timestamp option \<Rightarrow> pb_timestamp option \<Rightarrow> rid_db
     \<Rightarrow> (rid_err + pb_isa list) \<times> rid_db" where
  "SearchIdentificationServiceAreas x c area earliest latest =
     rid_serve
       (sbind (search_cells x area) (\<lambda>cu.
        sbind (rid_time_from_proto x earliest) (\<lambda>e.
        sbind (rid_time_from_proto x latest) (\<lambda>l. Inr (cu, e, l)))))
       (\<lambda>(cu, e, l). transact (app_SearchISAs x c cu e l))
       (\<lambda>q isas db. smap (\<lambda>i. swrap Propagate (ISA_ToProto x i)) isas)"

section \<open>Handlers: subscriptions\<close>

text \<open>The callbacks of a request are the URL for notifications.\<close>

record put_rsub_params =
  prp_Callbacks :: "string option"
  prp_Extents :: "pb_rid_volume4d option"

record put_rsub_response =
  prr_Subscription :: pb_rid_subscription
  prr_ServiceAreas :: "pb_isa list"

definition rid_DeleteSubscription_handler ::
    "ext \<Rightarrow> call \<Rightarrow> string \<Rightarrow> string \<Rightarrow> rid_db \<Rightarrow> (rid_err + pb_rid_subscription) \<times> rid_db" where
  "rid_DeleteSubscription_handler x c i version =
     rid_serve (delete_request x c i version)
       (\<lambda>q. rid_transact (delete_rsub_action x c q))
       (\<lambda>q r db. sbind (sderef r) (\<lambda>s. swrap Propagate (RidSubscription_ToProto x s)))"

definition rid_SearchSubscriptions_handler ::
    "ext \<Rightarrow> call \<Rightarrow> string \<Rightarrow> rid_db \<Rightarrow> (rid_err + pb_rid_subscription list) \<times> rid_db" where
  "rid_SearchSubscriptions_handler x c area =
     rid_serve
       (sbind (require_manager c) (\<lambda>owner. sbind (search_cells x area) (\<lambda>cu. Inr (cu, owner))))
       (\<lambda>(cu, owner). transact (rid_SearchSubscriptionsByOwner x (c_now c) cu owner))
       (\<lambda>q subs db. smap (\<lambda>s. swrap Propagate (RidSubscription_ToProto x s)) subs)"

definition rid_GetSubscription_handler ::
    "ext \<Rightarrow> string \<Rightarrow> rid_db \<Rightarrow> (rid_err + pb_rid_subscription) \<times> rid_db" where
  "rid_GetSubscription_handler x i =
     rid_serve (parse_id x i) (\<lambda>i. transact (rid_GetSubscription x i)) (\<lambda>i r db.
       case r of None \<Rightarrow> Inl (coded NotFound) | Some s \<Rightarrow> swrap Propagate (RidSubscription_ToProto x s))"

text \<open>After the transaction the areas in the cells of the request are looked up.\<close>

definition rsub_response ::
    "ext \<Rightarrow> call \<Rightarrow> rid_subscription \<Rightarrow> rid_subscription option \<Rightarrow> rid_db
     \<Rightarrow> rid_err + put_rsub_response" where
  "rsub_response x c q r db =
     sbind (sderef r) (\<lambda>s.
     sbind (swrap Propagate (RidSubscription_ToProto x s)) (\<lambda>p.
     sbind (swrap Propagate (fst (transact (app_SearchISAs x c (rs_Cells q) None None) db))) (\<lambda>isas.
     sbind (smap (\<lambda>i. swrap Propagate (ISA_ToProto x i)) isas) (\<lambda>isaProtos.
     Inr \<lparr>prr_Subscription = p, prr_ServiceAreas = isaProtos\<rparr>))))"

definition validate_create_rsub ::
    "ext \<Rightarrow> call \<Rightarrow> string \<Rightarrow> string \<Rightarrow> put_rsub_params option \<Rightarrow> rid_err + rid_subscription" where
  "validate_create_rsub x c locality i params =
     sbind (require_manager c) (\<lambda>owner.
     case params of None \<Rightarrow> Inl (coded BadRequest)
     | Some p \<Rightarrow>
     (case prp_Callbacks p of None \<Rightarrow> Inl (coded BadRequest)
     | Some url \<Rightarrow>
     sbind (scheck (prp_Extents p \<noteq> None) (coded BadRequest)) (\<lambda>_.
     sbind (parse_id x i) (\<lambda>i'.
     sbind (if EnableHTTP c then Inr ()
            else swrap (PropagateWithCode BadRequest) (ValidateURL x url)) (\<lambda>_.
     swrap (PropagateWithCode BadRequest) (RidSubscription_SetExtents x
       \<lparr>rs_ID = i', rs_URL = url, rs_NotificationIndex = 0, rs_Owner = owner, rs_Cells = [],
        rs_StartTime = None, rs_EndTime = None, rs_Version = None, rs_AltitudeHi = None,
        rs_AltitudeLo = None, rs_Writer = locality\<rparr> (prp_Extents p)))))))"

definition rid_CreateSubscription ::
    "ext \<Rightarrow> call \<Rightarrow> string \<Rightarrow> string \<Rightarrow> put_rsub_params option \<Rightarrow> rid_db
     \<Rightarrow> (rid_err + put_rsub_response) \<times> rid_db" where
  "rid_CreateSubscription x c locality i params =
     rid_serve (validate_create_rsub x c locality i params) (app_InsertSubscription x c)
       (rsub_response x c)"

text \<open>An update has no notification index, which is then 0; its URL is not validated.\<close>

definition validate_update_rsub ::
    "ext \<Rightarrow> call \<Rightarrow> string \<Rightarrow> string \<Rightarrow> string \<Rightarrow> put_rsub_params option \<Rightarrow> rid_err + rid_subscription" where
  "validate_update_rsub x c locality i version params =
     sbind (swrap (PropagateWithCode BadRequest) (VersionFromString version)) (\<lambda>v.
     sbind (parse_id x i) (\<lambda>i'.
     sbind (require_manager c) (\<lambda>owner.
     case params of None \<Rightarrow> Inl (coded BadRequest)
     | Some p \<Rightarrow>
     (case prp_Callbacks p of None \<Rightarrow> Inl (coded BadRequest)
     | Some url \<Rightarrow>
     sbind (scheck (prp_Extents p \<noteq> None) (coded BadRequest)) (\<lambda>_.
     swrap (PropagateWithCode BadRequest) (RidSubscription_SetExtents x
       \<lparr>rs_ID = i', rs_URL = url, rs_NotificationIndex = 0, rs_Owner = owner, rs_Cells = [],
        rs_StartTime = None, rs_EndTime = None, rs_Version = Some v, rs_AltitudeHi = None,
        rs_AltitudeLo = None, rs_Writer = locality\<rparr> (prp_Extents p)))))))"

definition rid_UpdateSubscription_handler ::
    "ext \<Rightarrow> call \<Rightarrow> string \<Rightarrow> string \<Rightarrow> string \<Rightarrow> put_rsub_params option \<Rightarrow> rid_db
     \<Rightarrow> (rid_err + put_rsub_response) \<times> rid_db" where
  "rid_UpdateSubscription_handler x c locality i version params =
     rid_serve (validate_update_rsub x c locality i version params)
       (\<lambda>s. rid_transact (update_rsub_action x c s)) (rsub_response x c)"

end
