(* ===== verification/Rid_System.thy ===== *)
theory Rid_System
  imports Rid_Server
begin

text \<open>
  The remote ID service as a whole: its requests, what the actions of the application do to the
  tables, and the states that requests and the garbage collector reach.
\<close>

section \<open>What the statements do\<close>

lemma Some_map_option [tx_inv]: "Some y = map_option f z \<longleftrightarrow> (\<exists>a. z = Some a \<and> y = f a)"
  by (cases z) auto

lemma fetch_isa_simps [simp]:
  "isa_ID (fetch_isa (k, r)) = k" "isa_Owner (fetch_isa (k, r)) = isr_owner r"
  "isa_URL (fetch_isa (k, r)) = isr_url r" "isa_Cells (fetch_isa (k, r)) = isr_cells r"
  "isa_StartTime (fetch_isa (k, r)) = isr_starts_at r" "isa_EndTime (fetch_isa (k, r)) = isr_ends_at r"
  "isa_Version (fetch_isa (k, r)) = Some (VersionFromTime (isr_updated_at r))"
  by (simp_all add: fetch_isa_def CellUnionFromInt64_def)

lemma fetch_rsub_simps [simp]:
  "rs_ID (fetch_rsub (k, r)) = k" "rs_Owner (fetch_rsub (k, r)) = rsr_owner r"
  "rs_URL (fetch_rsub (k, r)) = rsr_url r" "rs_Cells (fetch_rsub (k, r)) = rsr_cells r"
  "rs_StartTime (fetch_rsub (k, r)) = rsr_starts_at r" "rs_EndTime (fetch_rsub (k, r)) = rsr_ends_at r"
  "rs_NotificationIndex (fetch_rsub (k, r)) = rsr_notification_index r"
  "rs_Version (fetch_rsub (k, r)) = Some (VersionFromTime (rsr_updated_at r))"
  by (simp_all add: fetch_rsub_def)

lemma isa_row_of_simps [simp]:
  "isr_owner (isa_row_of ts i) = isa_Owner i" "isr_url (isa_row_of ts i) = isa_URL i"
  "isr_cells (isa_row_of ts i) = isa_Cells i" "isr_starts_at (isa_row_of ts i) = isa_StartTime i"
  "isr_ends_at (isa_row_of ts i) = isa_EndTime i" "isr_updated_at (isa_row_of ts i) = ts"
  by (simp_all add: isa_row_of_def)

lemma rsub_row_of_simps [simp]:
  "rsr_owner (rsub_row_of ts s) = rs_Owner s" "rsr_url (rsub_row_of ts s) = rs_URL s"
  "rsr_cells (rsub_row_of ts s) = rs_Cells s" "rsr_starts_at (rsub_row_of ts s) = rs_StartTime s"
  "rsr_ends_at (rsub_row_of ts s) = rs_EndTime s" "rsr_updated_at (rsub_row_of ts s) = ts"
  "rsr_notification_index (rsub_row_of ts s) = rs_NotificationIndex s"
  by (simp_all add: rsub_row_of_def)

lemma bump_rsub_simps [simp]:
  "rsr_owner (bump_rsub r) = rsr_owner r" "rsr_cells (bump_rsub r) = rsr_cells r"
  "rsr_ends_at (bump_rsub r) = rsr_ends_at r" "rsr_starts_at (bump_rsub r) = rsr_starts_at r"
  "rsr_url (bump_rsub r) = rsr_url r" "rsr_updated_at (bump_rsub r) = rsr_updated_at r"
  "rsr_writer (bump_rsub r) = rsr_writer r"
  "rsr_notification_index (bump_rsub r) = rsr_notification_index r + 1"
  by (simp_all add: bump_rsub_def)

lemma pure_rid_reads [pure_intros]:
  "pure_tx (rid_GetISA x i)" "pure_tx (rid_SearchISAs x cs e l)" "pure_tx (rid_GetSubscription x i)"
  "pure_tx (rid_SearchSubscriptionsByOwner x now cs owner)" "pure_tx (app_GetISA x i)"
  "pure_tx (app_SearchISAs x c cs e' l)" "pure_tx (rid_ListExpiredISAs now w)"
  "pure_tx (rid_ListExpiredSubscriptions now w)" "pure_tx (check_quota c s)"
  unfolding rid_GetISA_def rid_SearchISAs_def rid_GetSubscription_def
    rid_SearchSubscriptionsByOwner_def app_GetISA_def app_SearchISAs_def rid_ListExpiredISAs_def
    rid_ListExpiredSubscriptions_def check_quota_def rid_MaxSubscriptionCountInCellsByOwner_def Let_def
  by (auto intro!: pure_intros split: option.split)

text \<open>The rows that a notification bumps.\<close>

definition notified :: "cells \<Rightarrow> time \<Rightarrow> rsub_row table \<Rightarrow> rsub_row table" where
  "notified cs now t = tbl_update_any (map fst (tbl_select (rsub_matches cs now) t)) bump_rsub t"

definition notified_subs :: "ext \<Rightarrow> cells \<Rightarrow> time \<Rightarrow> rsub_row table \<Rightarrow> rid_subscription list" where
  "notified_subs x cs now t =
     List.map_filter (\<lambda>k. map_option (\<lambda>r. fetch_rsub (k, r)) (tbl_get (notified cs now t) k))
       (x_returning x (map fst (tbl_select (rsub_matches cs now) t)))"

lemma rid_UpdateNotificationIdxsInCells_Inr [tx_inv]:
  "rid_UpdateNotificationIdxsInCells x now cs s = Inr (subs, s') \<longleftrightarrow>
     list_all (\<lambda>kr. rsr_notification_index (snd kr) + 1 < 2 ^ 31)
       (tbl_select (rsub_matches cs now) (rdb_subs s)) \<and>
     s' = s\<lparr>rdb_subs := notified cs now (rdb_subs s)\<rparr> \<and>
     subs = notified_subs x cs now (rdb_subs s)"
  by (auto simp: rid_UpdateNotificationIdxsInCells_def tx_inv notified_def notified_subs_def)

lemma notified_get:
  assumes "tbl_wf t"
  shows "tbl_get (notified cs now t) k =
    map_option (\<lambda>r. if rsub_matches cs now r then bump_rsub r else r) (tbl_get t k)"
proof -
  have "k \<in> set (map fst (tbl_select (rsub_matches cs now) t)) \<longleftrightarrow>
      (\<exists>r. tbl_get t k = Some r \<and> rsub_matches cs now r)"
    by (auto simp: tbl.set_select [OF assms] image_iff)
  then show ?thesis by (cases "tbl_get t k") (auto simp: notified_def tbl_laws)
qed

lemma rid_GetISA_Inr [tx_inv]:
  "rid_GetISA x i s = Inr (r, s') \<longleftrightarrow> (\<exists>uid. x_pg_uuid x i = Some uid \<and> s' = s \<and>
     r = map_option (\<lambda>r. fetch_isa (uid, r)) (tbl_get (rdb_isas s) uid))"
  by (auto simp: rid_GetISA_def tx_inv)

lemma rid_GetSubscription_Inr [tx_inv]:
  "rid_GetSubscription x i s = Inr (r, s') \<longleftrightarrow> (\<exists>uid. x_pg_uuid x i = Some uid \<and> s' = s \<and>
     r = map_option (\<lambda>r. fetch_rsub (uid, r)) (tbl_get (rdb_subs s) uid))"
  by (auto simp: rid_GetSubscription_def tx_inv)

section \<open>What the actions of the application do\<close>

lemma insert_isa_action_Inr:
  assumes "insert_isa_action x c i s = Inr ((r, subs), s')"
  obtains uid where "x_pg_uuid x (isa_ID i) = Some uid" "tbl_get (rdb_isas s) uid = None"
    "rid_row_check (isa_StartTime i) (isa_EndTime i) (isa_Cells i)"
    "s' = s\<lparr>rdb_subs := notified (isa_Cells i) (c_now c) (rdb_subs s),
           rdb_isas := tbl_upsert uid (isa_row_of (c_txn c) i) (rdb_isas s)\<rparr>"
    "r = Some (fetch_isa (uid, isa_row_of (c_txn c) i))"
    "subs = notified_subs x (isa_Cells i) (c_now c) (rdb_subs s)"
    "list_all (\<lambda>kr. rsr_notification_index (snd kr) + 1 < 2 ^ 31)
       (tbl_select (rsub_matches (isa_Cells i) (c_now c)) (rdb_subs s))"
  using assms by (auto simp: insert_isa_action_def rid_InsertISA_def tx_inv)

lemma rid_UpdateISA_subs: "rid_UpdateISA x ts i s = Inr (r, s') \<Longrightarrow> rdb_subs s' = rdb_subs s"
  by (auto simp: rid_UpdateISA_def tx_inv Let_def split: option.split_asm if_split_asm)

lemma update_isa_action_Inr:
  assumes "update_isa_action x c i s = Inr ((r, subs), s')"
  obtains uid old i' s1 where "x_pg_uuid x (isa_ID i) = Some uid" "tbl_get (rdb_isas s) uid = Some old"
    "isr_owner old = isa_Owner i"
    "Version_Matches (Some (VersionFromTime (isr_updated_at old))) (isa_Version i)"
    "ISA_AdjustTimeRange (c_now c) i (Some (fetch_isa (uid, old))) = (Inr i' :: rid_err + _)"
    "rid_UpdateISA x (c_txn c) i' s = Inr (r, s1)"
    "s' = s1\<lparr>rdb_subs := notified (Levelify x (s2_union x (isr_cells old) (isa_Cells i')))
       (c_now c) (rdb_subs s)\<rparr>"
    "subs = notified_subs x (Levelify x (s2_union x (isr_cells old) (isa_Cells i'))) (c_now c) (rdb_subs s)"
    "list_all (\<lambda>kr. rsr_notification_index (snd kr) + 1 < 2 ^ 31) (tbl_select
       (rsub_matches (Levelify x (s2_union x (isr_cells old) (isa_Cells i'))) (c_now c)) (rdb_subs s))"
proof -
  from assms obtain uid old i' s1 where 1: "x_pg_uuid x (isa_ID i) = Some uid"
    "tbl_get (rdb_isas s) uid = Some old" "isr_owner old = isa_Owner i"
    "Version_Matches (Some (VersionFromTime (isr_updated_at old))) (isa_Version i)"
    "ISA_AdjustTimeRange (c_now c) i (Some (fetch_isa (uid, old))) = (Inr i' :: rid_err + _)"
    and upd: "rid_UpdateISA x (c_txn c) i' s = Inr (r, s1)"
    and inc: "rid_UpdateNotificationIdxsInCells x (c_now c)
      (Levelify x (s2_union x (isr_cells old) (isa_Cells i'))) s1 = Inr (subs, s')"
    by (auto simp: update_isa_action_def bnd_Inr seq_Inr check_Inr ret_Inr wrap_Inr of_sum_Inr fail_Inr
        rid_GetISA_Inr Some_map_option split: option.split_asm)
  from inc rid_UpdateISA_subs [OF upd] show thesis
    by (intro that [OF 1 upd]) (simp_all add: rid_UpdateNotificationIdxsInCells_Inr)
qed

lemma rid_UpdateISA_Inr:
  assumes "rid_UpdateISA x ts i s = Inr (r, s')" and "x_pg_uuid x (isa_ID i) = Some uid"
    and "tbl_get (rdb_isas s) uid = Some old"
  shows "(isr_updated_at old = db_time (Version_ToTimestamp (isa_Version i)) \<longrightarrow>
      rid_row_check (isa_StartTime i) (isa_EndTime i) (isa_Cells i) \<and>
      rdb_isas s' = tbl_upsert uid ((isa_row_of ts i)\<lparr>isr_owner := isr_owner old\<rparr>) (rdb_isas s) \<and>
      r = Some (fetch_isa (uid, (isa_row_of ts i)\<lparr>isr_owner := isr_owner old\<rparr>))) \<and>
    (isr_updated_at old \<noteq> db_time (Version_ToTimestamp (isa_Version i)) \<longrightarrow>
      rdb_isas s' = rdb_isas s \<and> r = None)"
  using assms by (auto simp: rid_UpdateISA_def tx_inv Let_def split: if_split_asm)

lemma delete_isa_action_Inr:
  assumes "delete_isa_action x c (i, owner, v) s = Inr ((r, subs), s')" and "uuid_idem x"
  obtains uid old where "x_pg_uuid x i = Some uid" "tbl_get (rdb_isas s) uid = Some old"
    "isr_owner old = owner" "Version_Matches (Some v) (Some (VersionFromTime (isr_updated_at old)))"
    "s' = s\<lparr>rdb_subs := notified (isr_cells old) (c_now c) (rdb_subs s),
           rdb_isas := tbl_delete uid (rdb_isas s)\<rparr>"
    "r = Some (fetch_isa (uid, old))"
    "subs = notified_subs x (isr_cells old) (c_now c) (rdb_subs s)"
    "list_all (\<lambda>kr. rsr_notification_index (snd kr) + 1 < 2 ^ 31)
       (tbl_select (rsub_matches (isr_cells old) (c_now c)) (rdb_subs s))"
proof -
  from assms(1) obtain uid old where 1: "x_pg_uuid x i = Some uid" "tbl_get (rdb_isas s) uid = Some old"
    by (auto simp: delete_isa_action_def tx_inv)
  have can: "x_pg_uuid x uid = Some uid" using assms(2) 1 by (auto simp: uuid_idem_def pg_canonical_def)
  show thesis
    by (rule that [of uid old])
      (use assms(1) 1 can in \<open>auto simp: delete_isa_action_def rid_DeleteISA_def tx_inv\<close>)
qed

lemma insert_rsub_action_Inr:
  assumes "insert_rsub_action x c q s = Inr (r, s')"
  obtains uid where "x_pg_uuid x (rs_ID q) = Some uid" "tbl_get (rdb_subs s) uid = None"
    "rid_row_check (rs_StartTime q) (rs_EndTime q) (rs_Cells q)"
    "check_quota c q s = Inr ((), s)"
    "s' = s\<lparr>rdb_subs := tbl_upsert uid (rsub_row_of (c_txn c) q) (rdb_subs s)\<rparr>"
    "r = Some (fetch_rsub (uid, rsub_row_of (c_txn c) q))"
proof -
  from assms obtain s1 s0 where "check_quota c q s0 = Inr ((), s1)" and "s0 = s"
    and ins: "rid_InsertSubscription x (c_txn c) q s1 = Inr (r, s')"
    and "\<exists>uid. x_pg_uuid x (rs_ID q) = Some uid \<and> tbl_get (rdb_subs s) uid = None"
    by (auto simp: insert_rsub_action_def tx_inv)
  moreover from this have "s1 = s" by (auto dest: pure_txD [OF pure_rid_reads(9)])
  ultimately show thesis
    using ins by (auto simp: rid_InsertSubscription_def tx_inv intro: that)
qed

lemma update_rsub_action_Inr:
  assumes "update_rsub_action x c q s = Inr (r, s')"
  obtains uid old q' where "x_pg_uuid x (rs_ID q) = Some uid" "tbl_get (rdb_subs s) uid = Some old"
    "rsr_owner old = rs_Owner q"
    "Version_Matches (rs_Version q) (Some (VersionFromTime (rsr_updated_at old)))"
    "RidSubscription_AdjustTimeRange (c_now c) q (Some (fetch_rsub (uid, old))) = (Inr q' :: rid_err + _)"
    "check_quota c q' s = Inr ((), s)"
    "rid_UpdateSubscription x (c_txn c) q' s = Inr (r, s')"
proof -
  from assms obtain uid old q' s1 where 1: "x_pg_uuid x (rs_ID q) = Some uid"
    "tbl_get (rdb_subs s) uid = Some old" "rsr_owner old = rs_Owner q"
    "Version_Matches (rs_Version q) (Some (VersionFromTime (rsr_updated_at old)))"
    "RidSubscription_AdjustTimeRange (c_now c) q (Some (fetch_rsub (uid, old))) = (Inr q' :: rid_err + _)"
    and quota: "check_quota c q' s = Inr ((), s1)"
    and upd: "rid_UpdateSubscription x (c_txn c) q' s1 = Inr (r, s')"
    by (auto simp: update_rsub_action_def tx_inv)
  from quota have "s1 = s" by (auto dest: pure_txD [OF pure_rid_reads(9)])
  with 1 quota upd show thesis by (auto intro: that)
qed

lemma rid_UpdateSubscription_Inr:
  assumes "rid_UpdateSubscription x ts q s = Inr (r, s')" and "x_pg_uuid x (rs_ID q) = Some uid"
    and "tbl_get (rdb_subs s) uid = Some old"
  shows "rdb_isas s' = rdb_isas s \<and>
    (rsr_updated_at old = db_time (Version_ToTimestamp (rs_Version q)) \<longrightarrow>
      rid_row_check (rs_StartTime q) (rs_EndTime q) (rs_Cells q) \<and>
      rdb_subs s' = tbl_upsert uid ((rsub_row_of ts q)\<lparr>rsr_owner := rsr_owner old\<rparr>) (rdb_subs s) \<and>
      r = Some (fetch_rsub (uid, (rsub_row_of ts q)\<lparr>rsr_owner := rsr_owner old\<rparr>))) \<and>
    (rsr_updated_at old \<noteq> db_time (Version_ToTimestamp (rs_Version q)) \<longrightarrow>
      rdb_subs s' = rdb_subs s \<and> r = None)"
  using assms by (auto simp: rid_UpdateSubscription_def tx_inv Let_def split: if_split_asm)

lemma delete_rsub_action_Inr:
  assumes "delete_rsub_action x c (i, owner, v) s = Inr (r, s')" and "uuid_idem x"
  obtains uid old where "x_pg_uuid x i = Some uid" "tbl_get (rdb_subs s) uid = Some old"
    "rsr_owner old = owner" "Version_Matches (Some v) (Some (VersionFromTime (rsr_updated_at old)))"
    "s' = s\<lparr>rdb_subs := tbl_delete uid (rdb_subs s)\<rparr>" "r = Some (fetch_rsub (uid, old))"
proof -
  from assms(1) obtain uid old where 1: "x_pg_uuid x i = Some uid" "tbl_get (rdb_subs s) uid = Some old"
    by (auto simp: delete_rsub_action_def tx_inv)
  have can: "x_pg_uuid x uid = Some uid" using assms(2) 1 by (auto simp: uuid_idem_def pg_canonical_def)
  show thesis
    by (rule that [of uid old])
      (use assms(1) 1 can in \<open>auto simp: delete_rsub_action_def rid_DeleteSubscription_def tx_inv\<close>)
qed

section \<open>Requests\<close>

datatype rid_request =
    ReqGetISA string
  | ReqCreateISA string "put_isa_params option"
  | ReqUpdateISA string string "put_isa_params option"
  | ReqDeleteISA string string
  | ReqSearchISAs string "pb_timestamp option" "pb_timestamp option"
  | ReqGetRSub string
  | ReqCreateRSub string "put_rsub_params option"
  | ReqUpdateRSub string string "put_rsub_params option"
  | ReqDeleteRSub string string
  | ReqSearchRSubs string

datatype rid_response =
    RespISA pb_isa
  | RespPutISA put_isa_response
  | RespISAs "pb_isa list"
  | RespRSub pb_rid_subscription
  | RespPutRSub put_rsub_response
  | RespRSubs "pb_rid_subscription list"

fun rid_handle ::
    "ext \<Rightarrow> call \<Rightarrow> string \<Rightarrow> rid_request \<Rightarrow> rid_db \<Rightarrow> (rid_err + rid_response) \<times> rid_db" where
  "rid_handle x c l (ReqGetISA i) db = respond RespISA (GetIdentificationServiceArea x i db)"
| "rid_handle x c l (ReqCreateISA i p) db = respond RespPutISA (CreateIdentificationServiceArea x c l i p db)"
| "rid_handle x c l (ReqUpdateISA i v p) db = respond RespPutISA (UpdateIdentificationServiceArea x c l i v p db)"
| "rid_handle x c l (ReqDeleteISA i v) db = respond RespPutISA (DeleteIdentificationServiceArea x c i v db)"
| "rid_handle x c l (ReqSearchISAs a e t) db = respond RespISAs (SearchIdentificationServiceAreas x c a e t db)"
| "rid_handle x c l (ReqGetRSub i) db = respond RespRSub (rid_GetSubscription_handler x i db)"
| "rid_handle x c l (ReqCreateRSub i p) db = respond RespPutRSub (rid_CreateSubscription x c l i p db)"
| "rid_handle x c l (ReqUpdateRSub i v p) db = respond RespPutRSub (rid_UpdateSubscription_handler x c l i v p db)"
| "rid_handle x c l (ReqDeleteRSub i v) db = respond RespRSub (rid_DeleteSubscription_handler x c i v db)"
| "rid_handle x c l (ReqSearchRSubs a) db = respond RespRSubs (rid_SearchSubscriptions_handler x c a db)"

text \<open>
  A request commits the result of one action or nothing. The response is made afterwards: when
  it cannot be, the request fails although the action was committed.
\<close>

lemma rid_transact_Inr: "rid_transact m db = (Inr a, db') \<longleftrightarrow> m db = Inr (a, db')"
  by (auto simp: rid_transact_def split: sum.splits err.splits)

lemma snd_rid_transact: "snd (rid_transact m db) = (case m db of Inl e \<Rightarrow> db | Inr (a, db') \<Rightarrow> db')"
  by (auto simp: rid_transact_def split: sum.splits)

lemma snd_rid_finish [simp]: "snd (rid_finish r f) = snd r"
  by (auto simp: rid_finish_def split: prod.split sum.split)

lemma snd_rid_serve: "snd (rid_serve v run f db) = (case v of Inl e \<Rightarrow> db | Inr q \<Rightarrow> snd (run q db))"
  by (auto simp: rid_serve_def split: sum.split)

lemma rid_serve_Inr:
  "rid_serve v run f db = (Inr b, db') \<longleftrightarrow>
     (\<exists>q a. v = Inr q \<and> run q db = (Inr a, db') \<and> f q a db' = Inr b)"
  by (auto simp: rid_serve_def rid_finish_def split: sum.splits prod.splits)

lemma snd_app_Insert:
  "snd (app_InsertISA x c i db) = db \<or>
     (\<exists>i' r. ISA_AdjustTimeRange (c_now c) i None = (Inr i' :: rid_err + _) \<and>
        insert_isa_action x c i' db = Inr (r, snd (app_InsertISA x c i db)))"
  "snd (app_InsertSubscription x c s db) = db \<or>
     (\<exists>s' r. RidSubscription_AdjustTimeRange (c_now c) s None = (Inr s' :: rid_err + _) \<and>
        insert_rsub_action x c s' db = Inr (r, snd (app_InsertSubscription x c s db)))"
  by (auto simp: app_InsertISA_def app_InsertSubscription_def snd_rid_transact split: sum.splits)

inductive rid_commits :: "ext \<Rightarrow> call \<Rightarrow> rid_db \<Rightarrow> rid_db \<Rightarrow> bool" for x c where
  insert_isa: "c_manager c = Some (isa_Owner i) \<Longrightarrow>
     ISA_AdjustTimeRange (c_now c) i None = (Inr i' :: rid_err + _) \<Longrightarrow>
     insert_isa_action x c i' db = Inr (r, db') \<Longrightarrow> rid_commits x c db db'"
| update_isa: "c_manager c = Some (isa_Owner i) \<Longrightarrow>
     VersionFromString v = (Inr ver :: rid_err + _) \<Longrightarrow> isa_Version i = Some ver \<Longrightarrow>
     update_isa_action x c i db = Inr (r, db') \<Longrightarrow> rid_commits x c db db'"
| delete_isa: "c_manager c = Some owner \<Longrightarrow>
     delete_isa_action x c (i, owner, ver) db = Inr (r, db') \<Longrightarrow> rid_commits x c db db'"
| insert_rsub: "c_manager c = Some (rs_Owner s) \<Longrightarrow> rs_NotificationIndex s = 0 \<Longrightarrow>
     RidSubscription_AdjustTimeRange (c_now c) s None = (Inr s' :: rid_err + _) \<Longrightarrow>
     insert_rsub_action x c s' db = Inr (q, db') \<Longrightarrow> rid_commits x c db db'"
| update_rsub: "c_manager c = Some (rs_Owner s) \<Longrightarrow> rs_NotificationIndex s = 0 \<Longrightarrow>
     VersionFromString v = (Inr ver :: rid_err + _) \<Longrightarrow> rs_Version s = Some ver \<Longrightarrow>
     update_rsub_action x c s db = Inr (q, db') \<Longrightarrow> rid_commits x c db db'"
| delete_rsub: "c_manager c = Some owner \<Longrightarrow>
     delete_rsub_action x c (i, owner, ver) db = Inr (q, db') \<Longrightarrow> rid_commits x c db db'"

lemma validate_create_isa_Inr:
  "validate_create_isa x c l i p = Inr q \<Longrightarrow> c_manager c = Some (isa_Owner q)"
  by (auto simp: validate_create_isa_def tx_inv dest!: ISA_SetExtents_Inr)

lemma validate_update_isa_Inr:
  assumes "validate_update_isa x c l i v p = Inr q"
  obtains ver where "c_manager c = Some (isa_Owner q)" "VersionFromString v = (Inr ver :: rid_err + _)"
    "isa_Version q = Some ver" "x_uuid_parse x i = Some (isa_ID q)"
  using assms that by (auto simp: validate_update_isa_def tx_inv dest!: ISA_SetExtents_Inr)

lemma validate_create_rsub_Inr:
  "validate_create_rsub x c l i p = Inr q \<Longrightarrow>
     c_manager c = Some (rs_Owner q) \<and> rs_NotificationIndex q = 0"
  by (auto simp: validate_create_rsub_def tx_inv dest!: RidSubscription_SetExtents_Inr)

lemma validate_update_rsub_Inr:
  assumes "validate_update_rsub x c l i v p = Inr q"
  obtains ver where "c_manager c = Some (rs_Owner q)" "VersionFromString v = (Inr ver :: rid_err + _)"
    "rs_Version q = Some ver" "rs_NotificationIndex q = 0" "x_uuid_parse x i = Some (rs_ID q)"
  using assms that by (auto simp: validate_update_rsub_def tx_inv dest!: RidSubscription_SetExtents_Inr)

lemma delete_request_Inr:
  "delete_request x c i v = Inr (i', owner, ver) \<longleftrightarrow>
     c_manager c = Some owner \<and> VersionFromString v = (Inr ver :: rid_err + _) \<and>
     x_uuid_parse x i = Some i'"
  by (auto simp: delete_request_def tx_inv)

lemma rid_handle_commits:
  "rid_commits x c db (snd (rid_handle x c l req db)) \<or> snd (rid_handle x c l req db) = db"
proof (cases req)
  case (ReqCreateISA i p)
  then show ?thesis
    using snd_app_Insert(1) [of x c _ db]
    by (auto simp: CreateIdentificationServiceArea_def snd_rid_serve
        dest!: validate_create_isa_Inr intro: rid_commits.insert_isa split: sum.splits)
next
  case (ReqUpdateISA i v p)
  then show ?thesis
    by (auto simp: UpdateIdentificationServiceArea_def snd_rid_serve snd_rid_transact
        elim!: validate_update_isa_Inr intro: rid_commits.update_isa split: sum.splits)
next
  case (ReqDeleteISA i v)
  then show ?thesis
    by (auto simp: DeleteIdentificationServiceArea_def snd_rid_serve snd_rid_transact
        delete_request_Inr intro: rid_commits.delete_isa split: sum.splits)
next
  case (ReqCreateRSub i p)
  then show ?thesis
    using snd_app_Insert(2) [of x c _ db]
    by (auto simp: rid_CreateSubscription_def snd_rid_serve
        dest!: validate_create_rsub_Inr intro: rid_commits.insert_rsub split: sum.splits)
next
  case (ReqUpdateRSub i v p)
  then show ?thesis
    by (auto simp: rid_UpdateSubscription_handler_def snd_rid_serve snd_rid_transact
        elim!: validate_update_rsub_Inr intro: rid_commits.update_rsub split: sum.splits)
next
  case (ReqDeleteRSub i v)
  then show ?thesis
    by (auto simp: rid_DeleteSubscription_handler_def snd_rid_serve snd_rid_transact
        delete_request_Inr intro: rid_commits.delete_rsub split: sum.splits)
qed (auto simp: GetIdentificationServiceArea_def SearchIdentificationServiceAreas_def
  rid_GetSubscription_handler_def rid_SearchSubscriptions_handler_def snd_rid_serve
  pure_transact pure_intros split: sum.split prod.split)

end
