(* ===== verification/Rid_Integrity.thy ===== *)
theory Rid_Integrity
  imports Rid_System
begin

text \<open>
  What holds of the remote ID database in every state that requests and the garbage collector
  reach: its rows are well-formed, and no owner has more subscriptions in a cell than the quota.
\<close>

section \<open>Tables of well-formed rows\<close>

definition rows_ok :: "(string \<Rightarrow> bool) \<Rightarrow> ('r \<Rightarrow> bool) \<Rightarrow> 'r table \<Rightarrow> bool" where
  "rows_ok key_ok row_ok t \<longleftrightarrow> tbl_wf t \<and> (\<forall>k r. tbl_get t k = Some r \<longrightarrow> key_ok k \<and> row_ok r)"

lemma rows_ok_upsert: "rows_ok P Q t \<Longrightarrow> P k \<Longrightarrow> Q r \<Longrightarrow> rows_ok P Q (tbl_upsert k r t)"
  by (auto simp: rows_ok_def tbl_laws tbl_wf_laws)

lemma rows_ok_delete: "rows_ok P Q t \<Longrightarrow> rows_ok P Q (tbl_delete k t)"
  by (auto simp: rows_ok_def tbl_laws tbl_wf_laws split: if_splits)

lemma rows_okD: "rows_ok P Q t \<Longrightarrow> tbl_get t k = Some r \<Longrightarrow> P k \<and> Q r"
  by (simp add: rows_ok_def)

lemma length_select_upsert:
  "length (tbl_select p (tbl_upsert k r t)) \<le> length (tbl_select p t) + (if p r then 1 else 0)"
  unfolding tbl_select_def tbl_upsert_def by (induction t) auto

lemma length_select_delete: "length (tbl_select p (tbl_delete k t)) \<le> length (tbl_select p t)"
  unfolding tbl_select_def tbl_delete_def by (induction t) auto

lemma length_select_mono:
  assumes "\<And>r. p r \<Longrightarrow> q r"
  shows "length (tbl_select p t) \<le> length (tbl_select q t)"
  by (induction t) (auto simp: tbl_select_def assms)

lemma length_select_update_any:
  assumes "\<And>r. p (f r) = p r"
  shows "length (tbl_select p (tbl_update_any ks f t)) = length (tbl_select p t)"
  by (induction t) (auto simp: tbl_select_def tbl_update_any_def assms split: if_splits)

section \<open>Well-formed rows\<close>

text \<open>Cells are of level 13 and a row has some.\<close>

definition valid_cells :: "ext \<Rightarrow> cells \<Rightarrow> bool" where
  "valid_cells x cs \<longleftrightarrow> cs \<noteq> [] \<and> list_all (\<lambda>c. s2_cell_level x c = 13) cs"

definition isa_row_ok :: "ext \<Rightarrow> isa_row \<Rightarrow> bool" where
  "isa_row_ok x r \<longleftrightarrow> times_ordered (isr_starts_at r) (isr_ends_at r) \<and> valid_cells x (isr_cells r)"

text \<open>A subscription lasts at most a day, and its index fits its column.\<close>

definition at_most_a_day :: "time option \<Rightarrow> time option \<Rightarrow> bool" where
  "at_most_a_day b e \<longleftrightarrow>
     (case (b, e) of (Some b', Some e') \<Rightarrow> e' - b' \<le> 24 * 60 * 60 * 10 ^ 6 | _ \<Rightarrow> False)"

definition rsub_row_ok :: "ext \<Rightarrow> rsub_row \<Rightarrow> bool" where
  "rsub_row_ok x r \<longleftrightarrow>
     times_ordered (rsr_starts_at r) (rsr_ends_at r) \<and> at_most_a_day (rsr_starts_at r) (rsr_ends_at r) \<and>
     valid_cells x (rsr_cells r) \<and> 0 \<le> rsr_notification_index r \<and> rsr_notification_index r < 2 ^ 31"

definition rid_ok :: "ext \<Rightarrow> rid_db \<Rightarrow> bool" where
  "rid_ok x db \<longleftrightarrow>
     rows_ok (pg_canonical x) (isa_row_ok x) (rdb_isas db) \<and>
     rows_ok (pg_canonical x) (rsub_row_ok x) (rdb_subs db)"

lemma ValidateCells_Inr: "smap (ValidateCell x) cs = (Inr ys :: 'd err + _) \<Longrightarrow>
    list_all (\<lambda>c. s2_cell_level x c = 13) cs"
  by (induction cs arbitrary: ys)
    (auto simp: tx_inv ValidateCell_def DefaultMinimumCellLevel_def DefaultMaximumCellLevel_def)

lemma rid_row_check_Some:
  "rid_row_check (Some b) (Some e) cs \<Longrightarrow> times_ordered (Some b) (Some e) \<and> cs \<noteq> []"
  by (simp add: rid_row_check_def times_check_def times_ordered_def)

lemma isa_row_ok_of:
  "rid_row_check (Some b) (Some e) (isa_Cells i) \<Longrightarrow> list_all (\<lambda>c. s2_cell_level x c = 13) (isa_Cells i) \<Longrightarrow>
     isa_StartTime i = Some b \<Longrightarrow> isa_EndTime i = Some e \<Longrightarrow>
     isa_row_ok x ((isa_row_of ts i)\<lparr>isr_owner := m\<rparr>)"
  by (auto simp: isa_row_ok_def valid_cells_def dest: rid_row_check_Some)

lemma rsub_row_ok_of:
  "rid_row_check (Some b) (Some e) (rs_Cells s) \<Longrightarrow> list_all (\<lambda>c. s2_cell_level x c = 13) (rs_Cells s) \<Longrightarrow>
     rs_StartTime s = Some b \<Longrightarrow> rs_EndTime s = Some e \<Longrightarrow> e - b \<le> 24 * 60 * 60 * 10 ^ 6 \<Longrightarrow>
     rs_NotificationIndex s = 0 \<Longrightarrow> rsub_row_ok x ((rsub_row_of ts s)\<lparr>rsr_owner := m\<rparr>)"
  by (auto simp: rsub_row_ok_def valid_cells_def at_most_a_day_def dest: rid_row_check_Some)

lemma rows_ok_notified:
  assumes ok: "rows_ok (pg_canonical x) (rsub_row_ok x) t"
    and room: "list_all (\<lambda>kr. rsr_notification_index (snd kr) + 1 < 2 ^ 31)
      (tbl_select (rsub_matches cs now) t)"
  shows "rows_ok (pg_canonical x) (rsub_row_ok x) (notified cs now t)"
proof -
  have wf: "tbl_wf t" using ok by (simp add: rows_ok_def)
  have "pg_canonical x k \<and> rsub_row_ok x r" if r: "tbl_get (notified cs now t) k = Some r" for k r
  proof -
    from r obtain r0 where r0: "tbl_get t k = Some r0"
      and r': "r = (if rsub_matches cs now r0 then bump_rsub r0 else r0)"
      unfolding notified_get [OF wf] by auto
    from rows_okD [OF ok r0] have "pg_canonical x k" "rsub_row_ok x r0" by auto
    moreover have "rsr_notification_index r0 + 1 < 2 ^ 31" if "rsub_matches cs now r0"
      using tbl.get_select [OF wf r0, of "rsub_matches cs now"] that room by (auto simp: list_all_iff)
    ultimately show ?thesis by (auto simp: r' rsub_row_ok_def)
  qed
  moreover have "tbl_wf (notified cs now t)" using wf by (simp add: notified_def tbl_wf_laws)
  ultimately show ?thesis by (simp add: rows_ok_def)
qed

lemma rid_commits_ok:
  assumes "rid_commits x c db db'" and ok: "rid_ok x db" and idem: "uuid_idem x"
  shows "rid_ok x db'"
  using assms(1)
proof cases
  case (insert_isa i i' r)
  obtain q subs where r: "r = (q, subs)" by (cases r)
  have valid: "list_all (\<lambda>c. s2_cell_level x c = 13) (isa_Cells i')"
    using insert_isa(3) by (auto simp: insert_isa_action_def rid_InsertISA_def tx_inv dest: ValidateCells_Inr)
  from insert_isa(2) show ?thesis
  proof (rule ISA_AdjustTimeRange_Inr)
    fix b e assume i': "i' = i\<lparr>isa_StartTime := Some b, isa_EndTime := Some e\<rparr>"
    from insert_isa(3) show ?thesis unfolding r
      by (rule insert_isa_action_Inr)
        (use ok idem valid in \<open>auto simp: i' rid_ok_def isa_row_ok_def valid_cells_def uuid_idem_def
          intro!: rows_ok_upsert rows_ok_notified dest: rid_row_check_Some\<close>)
  qed
next
  case (update_isa i v ver r)
  obtain q subs where r: "r = (q, subs)" by (cases r)
  from update_isa(4) show ?thesis unfolding r
  proof (rule update_isa_action_Inr)
    fix uid old i' s1
    assume uid: "x_pg_uuid x (isa_ID i) = Some uid" and old: "tbl_get (rdb_isas db) uid = Some old"
      and adj: "ISA_AdjustTimeRange (c_now c) i (Some (fetch_isa (uid, old))) = (Inr i' :: rid_err + _)"
      and upd: "rid_UpdateISA x (c_txn c) i' db = Inr (q, s1)"
      and db': "db' = s1\<lparr>rdb_subs := notified (Levelify x (s2_union x (isr_cells old) (isa_Cells i')))
        (c_now c) (rdb_subs db)\<rparr>"
      and room: "list_all (\<lambda>kr. rsr_notification_index (snd kr) + 1 < 2 ^ 31) (tbl_select
        (rsub_matches (Levelify x (s2_union x (isr_cells old) (isa_Cells i'))) (c_now c)) (rdb_subs db))"
    have valid: "list_all (\<lambda>c. s2_cell_level x c = 13) (isa_Cells i')"
      using upd by (auto simp: rid_UpdateISA_def tx_inv dest: ValidateCells_Inr)
    from adj obtain b e where i': "i' = i\<lparr>isa_StartTime := Some b, isa_EndTime := Some e\<rparr>"
      by (rule ISA_AdjustTimeRange_Inr)
    have "rdb_isas s1 = rdb_isas db \<or>
      (\<exists>row. rdb_isas s1 = tbl_upsert uid row (rdb_isas db) \<and> isa_row_ok x row)"
      using rid_UpdateISA_Inr [OF upd _ old] uid valid
      by (cases "isr_updated_at old = db_time (Version_ToTimestamp (isa_Version i'))")
        (auto simp: i' intro!: exI [of _ "(isa_row_of (c_txn c) i')\<lparr>isr_owner := isr_owner old\<rparr>"] isa_row_ok_of)
    then have "rows_ok (pg_canonical x) (isa_row_ok x) (rdb_isas s1)"
      using ok uid idem by (auto simp: rid_ok_def uuid_idem_def intro!: rows_ok_upsert)
    with ok rows_ok_notified [OF _ room] show ?thesis by (simp add: rid_ok_def db')
  qed
next
  case (delete_isa owner i ver r)
  obtain q subs where r: "r = (q, subs)" by (cases r)
  from delete_isa(2) idem show ?thesis unfolding r
    by (rule delete_isa_action_Inr)
      (use ok in \<open>auto simp: rid_ok_def intro!: rows_ok_delete rows_ok_notified\<close>)
next
  case (insert_rsub s s' q)
  have valid: "list_all (\<lambda>c. s2_cell_level x c = 13) (rs_Cells s')"
    using insert_rsub(4) by (auto simp: insert_rsub_action_def rid_InsertSubscription_def tx_inv dest: ValidateCells_Inr)
  from insert_rsub(3) show ?thesis
  proof (rule RidSubscription_AdjustTimeRange_Inr)
    fix b e assume s': "s' = s\<lparr>rs_StartTime := Some b, rs_EndTime := Some e\<rparr>"
      and day: "e - b \<le> 24 * 60 * 60 * 10 ^ 6"
    from insert_rsub(4) show ?thesis
      by (rule insert_rsub_action_Inr)
        (use ok idem valid day insert_rsub(2) in \<open>auto simp: s' rid_ok_def rsub_row_ok_def valid_cells_def
          at_most_a_day_def uuid_idem_def intro!: rows_ok_upsert dest: rid_row_check_Some\<close>)
  qed
next
  case (update_rsub s v ver q)
  from update_rsub(5) show ?thesis
  proof (rule update_rsub_action_Inr)
    fix uid old s'
    assume uid: "x_pg_uuid x (rs_ID s) = Some uid" and old: "tbl_get (rdb_subs db) uid = Some old"
      and adj: "RidSubscription_AdjustTimeRange (c_now c) s (Some (fetch_rsub (uid, old))) = (Inr s' :: rid_err + _)"
      and upd: "rid_UpdateSubscription x (c_txn c) s' db = Inr (q, db')"
    have valid: "list_all (\<lambda>c. s2_cell_level x c = 13) (rs_Cells s')"
      using upd by (auto simp: rid_UpdateSubscription_def tx_inv dest: ValidateCells_Inr)
    from adj obtain b e where s': "s' = s\<lparr>rs_StartTime := Some b, rs_EndTime := Some e\<rparr>"
      and day: "e - b \<le> 24 * 60 * 60 * 10 ^ 6"
      by (rule RidSubscription_AdjustTimeRange_Inr)
    have "rdb_isas db' = rdb_isas db \<and> (rdb_subs db' = rdb_subs db \<or>
      (\<exists>row. rdb_subs db' = tbl_upsert uid row (rdb_subs db) \<and> rsub_row_ok x row))"
      using rid_UpdateSubscription_Inr [OF upd _ old] uid valid day update_rsub(2)
      by (cases "rsr_updated_at old = db_time (Version_ToTimestamp (rs_Version s'))")
        (auto simp: s' intro!: exI [of _ "(rsub_row_of (c_txn c) s')\<lparr>rsr_owner := rsr_owner old\<rparr>"] rsub_row_ok_of)
    then show ?thesis
      using ok uid idem by (auto simp: rid_ok_def uuid_idem_def intro!: rows_ok_upsert)
  qed
next
  case (delete_rsub owner i ver q)
  from delete_rsub(2) idem show ?thesis
    by (rule delete_rsub_action_Inr) (use ok in \<open>auto simp: rid_ok_def intro!: rows_ok_delete\<close>)
qed

section \<open>The quota\<close>

text \<open>The subscriptions of an owner that have not ended and contain the cell.\<close>

definition occupies :: "string \<Rightarrow> time \<Rightarrow> cell \<Rightarrow> rsub_row \<Rightarrow> bool" where
  "occupies owner now c r \<longleftrightarrow>
     rsr_owner r = owner \<and> ends_from (rsr_ends_at r) now \<and> c \<in> set (rsr_cells r)"

definition within_quota :: "time \<Rightarrow> rid_db \<Rightarrow> bool" where
  "within_quota now db \<longleftrightarrow>
     (\<forall>owner c. int (length (tbl_select (occupies owner now c) (rdb_subs db))) \<le> maxSubscriptionsPerArea)"

lemma occupies_later: "now \<le> later \<Longrightarrow> occupies owner later c r \<Longrightarrow> occupies owner now c r"
  by (auto simp: occupies_def ends_from_def split: option.splits)

lemma occupies_bump [simp]: "occupies owner now c (bump_rsub r) = occupies owner now c r"
  by (simp add: occupies_def)

lemma within_quota_le:
  assumes "within_quota now db"
    and "\<And>owner c. length (tbl_select (occupies owner later c) (rdb_subs db')) \<le>
      length (tbl_select (occupies owner now c) (rdb_subs db))"
  shows "within_quota later db'"
  unfolding within_quota_def
proof (intro allI)
  fix owner c
  have "int (length (tbl_select (occupies owner now c) (rdb_subs db))) \<le> maxSubscriptionsPerArea"
    using assms(1) by (simp add: within_quota_def)
  with assms(2) [of owner c]
  show "int (length (tbl_select (occupies owner later c) (rdb_subs db'))) \<le> maxSubscriptionsPerArea" by linarith
qed

lemma within_quota_later: "within_quota now db \<Longrightarrow> now \<le> later \<Longrightarrow> within_quota later db"
  by (erule within_quota_le, rule length_select_mono, rule occupies_later)

lemma within_quota_notified [simp]:
  "length (tbl_select (occupies owner t c) (notified cs now subs)) =
     length (tbl_select (occupies owner t c) subs)"
  unfolding notified_def by (rule length_select_update_any) simp

text \<open>The count of the quota is at least the number of the subscriptions.\<close>

lemma count_cells: "length (filter (\<lambda>r. c \<in> set (f r)) rows) \<le> length (filter (\<lambda>c'. c' = c) (concat (map f rows)))"
proof (induction rows)
  case (Cons r rows)
  have "length (filter (\<lambda>c'. c' = c) (f r)) \<ge> 1" if "c \<in> set (f r)"
    using that by (induction "f r") (auto simp: Suc_le_eq filter_empty_conv)
  with Cons show ?case by force
qed simp

lemma fold_max_less: "fold max ns m < (k::int) \<longleftrightarrow> m < k \<and> (\<forall>n \<in> set ns. n < k)"
  by (induction ns arbitrary: m) auto

lemma check_quota_room:
  assumes "check_quota c s db = Inr (u, db')" and "cl \<in> set (rs_Cells s)"
  shows "int (length (tbl_select (occupies (rs_Owner s) (c_now c) cl) (rdb_subs db))) < maxSubscriptionsPerArea"
proof -
  let ?rows = "owner_rows (rs_Owner s) (c_now c) db"
  from assms have "int (length (filter (\<lambda>c'. c' = cl) (concat (map rsr_cells ?rows)))) < maxSubscriptionsPerArea"
    by (auto simp: check_quota_def rid_MaxSubscriptionCountInCellsByOwner_def tx_inv not_le fold_max_less)
  moreover have "length (tbl_select (occupies (rs_Owner s) (c_now c) cl) (rdb_subs db)) =
      length (filter (\<lambda>r. cl \<in> set (rsr_cells r)) ?rows)"
    by (simp add: owner_rows_def tbl_select_def filter_map comp_def occupies_def conj_ac)
  ultimately show ?thesis using count_cells [of cl rsr_cells ?rows] by linarith
qed

text \<open>The clock may have been later for another request before.\<close>

lemma within_quota_upsert:
  assumes quota: "within_quota now db" and late: "c_now c \<le> now" and check: "check_quota c s db = Inr (u, db1)"
    and row: "rsr_owner row = rs_Owner s" "rsr_cells row = rs_Cells s"
    and db': "rdb_subs db' = tbl_upsert k row (rdb_subs db)"
  shows "within_quota now db'"
  unfolding within_quota_def
proof (intro allI)
  fix owner cl
  let ?n = "\<lambda>t. length (tbl_select (occupies owner now cl) t)"
  have le: "?n (rdb_subs db') \<le> ?n (rdb_subs db) + (if occupies owner now cl row then 1 else 0)"
    unfolding db' by (rule length_select_upsert)
  show "int (?n (rdb_subs db')) \<le> maxSubscriptionsPerArea"
  proof (cases "occupies owner now cl row")
    case True
    then have "owner = rs_Owner s" "cl \<in> set (rs_Cells s)" by (auto simp: occupies_def row)
    moreover have "?n (rdb_subs db) \<le> length (tbl_select (occupies owner (c_now c) cl) (rdb_subs db))"
      using occupies_later [OF late] by (rule length_select_mono)
    ultimately show ?thesis using check_quota_room [OF check, of cl] le True by simp
  next
    case False
    with le have "?n (rdb_subs db') \<le> ?n (rdb_subs db)" by simp
    moreover have "int (?n (rdb_subs db)) \<le> maxSubscriptionsPerArea" using quota by (simp add: within_quota_def)
    ultimately show ?thesis by linarith
  qed
qed

lemma rid_commits_quota:
  assumes "rid_commits x c db db'" and quota: "within_quota now db" and late: "c_now c \<le> now"
    and idem: "uuid_idem x"
  shows "within_quota now db'"
  using assms(1)
proof cases
  case (insert_isa i i' r)
  then show ?thesis
    by (cases r) (auto elim!: insert_isa_action_Inr intro: within_quota_le [OF quota])
next
  case (update_isa i v ver r)
  then show ?thesis
    by (cases r) (auto elim!: update_isa_action_Inr intro: within_quota_le [OF quota])
next
  case (delete_isa owner i ver r)
  then show ?thesis using idem
    by (cases r) (auto elim!: delete_isa_action_Inr intro: within_quota_le [OF quota])
next
  case (insert_rsub s s' q)
  from insert_rsub(4) show ?thesis
    by (rule insert_rsub_action_Inr)
      (rule within_quota_upsert [OF quota late, where s = s' and row = "rsub_row_of (c_txn c) s'"]; simp)
next
  case (update_rsub s v ver q)
  from update_rsub(5) show ?thesis
  proof (rule update_rsub_action_Inr)
    fix uid old s'
    assume uid: "x_pg_uuid x (rs_ID s) = Some uid" and old: "tbl_get (rdb_subs db) uid = Some old"
      and own: "rsr_owner old = rs_Owner s"
      and adj: "RidSubscription_AdjustTimeRange (c_now c) s (Some (fetch_rsub (uid, old))) = (Inr s' :: rid_err + _)"
      and check: "check_quota c s' db = Inr ((), db)"
      and upd: "rid_UpdateSubscription x (c_txn c) s' db = Inr (q, db')"
    from adj obtain b e where s': "s' = s\<lparr>rs_StartTime := Some b, rs_EndTime := Some e\<rparr>"
      by (rule RidSubscription_AdjustTimeRange_Inr)
    with rid_UpdateSubscription_Inr [OF upd _ old] uid
    have "rdb_subs db' = rdb_subs db \<or> rdb_subs db' =
        tbl_upsert uid ((rsub_row_of (c_txn c) s')\<lparr>rsr_owner := rsr_owner old\<rparr>) (rdb_subs db)" by auto
    then show ?thesis
    proof
      assume "rdb_subs db' = rdb_subs db"
      with quota show ?thesis by (simp add: within_quota_def)
    qed (rule within_quota_upsert [OF quota late check]; simp add: own s')
  qed
next
  case (delete_rsub owner i ver q)
  from delete_rsub(2) idem show ?thesis
    by (rule delete_rsub_action_Inr) (auto intro!: within_quota_le [OF quota] simp: length_select_delete)
qed

end
