(* ===== verification/Rid_Collector.thy ===== *)
theory Rid_Collector
  imports Rid_Integrity
begin

text \<open>
  The garbage collector of remote ID: what one run does, what repeated runs do, and the states
  that requests and runs reach.
\<close>

section \<open>What one run deletes\<close>

text \<open>The first of the rows, in the order of the query.\<close>

definition drop_first :: "('r \<Rightarrow> bool) \<Rightarrow> 'r table \<Rightarrow> 'r table" where
  "drop_first p t = (case tbl_select p t of [] \<Rightarrow> t | (k, r) # rest \<Rightarrow> tbl_delete k t)"

lemma drop_first_get:
  assumes wf: "tbl_wf t" and r: "tbl_get t k = Some r" and keep: "\<not> p r"
  shows "tbl_get (drop_first p t) k = Some r"
proof (cases "tbl_select p t")
  case (Cons kr rest)
  obtain k' r' where kr: "kr = (k', r')" by (cases kr)
  with Cons tbl.select_get [OF wf, of k' r' p] have "p r'" "tbl_get t k' = Some r'" by auto
  with r keep have "k' \<noteq> k" by auto
  with Cons kr r show ?thesis by (simp add: drop_first_def tbl_laws)
qed (simp add: drop_first_def r)

lemma drop_first_sub: "tbl_get (drop_first p t) k = Some r \<Longrightarrow> tbl_get t k = Some r"
  by (auto simp: drop_first_def tbl_laws split: list.splits if_splits)

lemma drop_first_rows_ok: "rows_ok P Q t \<Longrightarrow> rows_ok P Q (drop_first p t)"
  by (auto simp: drop_first_def rows_ok_delete split: list.split)

lemma select_delete_key:
  "distinct (map fst t) \<Longrightarrow> (k, r) \<in> set t \<Longrightarrow> p r \<Longrightarrow>
     Suc (length (tbl_select p (tbl_delete k t))) = length (tbl_select p t)"
proof (induction t)
  case (Cons kr t)
  have "tbl_delete k t = t" if "k \<notin> fst ` set t"
    using that by (simp add: tbl_delete_def delete_idem)
  with Cons show ?case
    by (auto simp: tbl_select_def tbl_delete_def image_iff)
qed simp

lemma drop_first_count:
  assumes wf: "tbl_wf t" and sub: "\<And>r. p r \<Longrightarrow> q r"
  shows "length (tbl_select q (drop_first p t)) =
    length (tbl_select q t) - (if tbl_select p t = [] then 0 else 1)"
proof (cases "tbl_select p t")
  case (Cons kr rest)
  obtain k r where kr: "kr = (k, r)" by (cases kr)
  with Cons have "(k, r) \<in> set (tbl_select p t)" by simp
  then have "(k, r) \<in> set t" "p r" by (auto simp: tbl_select_def)
  with select_delete_key [of t k r q] wf sub Cons kr show ?thesis
    by (simp add: drop_first_def tbl_wf_def)
qed (simp add: drop_first_def)

lemma drop_first_subset: "set (drop_first p t) \<subseteq> set t"
  by (auto simp: drop_first_def tbl_delete_def AList.delete_eq split: list.splits)

lemma drop_first_none: "tbl_select p t = [] \<Longrightarrow> tbl_select p (drop_first q t) = []"
  using drop_first_subset [of q t] by (auto simp: tbl_select_def filter_empty_conv)

text \<open>Runs with the predicates \<open>ps\<close>, one after the other.\<close>

lemma fold_drop_first:
  assumes "tbl_wf t" and "\<And>p r. p \<in> set ps \<Longrightarrow> now r \<Longrightarrow> p r" and "\<And>p r. p \<in> set ps \<Longrightarrow> p r \<Longrightarrow> final r"
    and "length (tbl_select final t) \<le> length ps" and "\<And>r. now r \<Longrightarrow> final r"
  shows "tbl_select now (fold drop_first ps t) = []"
  using assms
proof (induction ps arbitrary: t)
  case Nil
  then have "tbl_select final t = []" by simp
  with Nil(5) show ?case by (auto simp: tbl_select_def filter_empty_conv)
next
  case (Cons p ps)
  show ?case
  proof (cases "tbl_select p t = []")
    case True
    with Cons(3) have none: "tbl_select now t = []" by (auto simp: tbl_select_def filter_empty_conv)
    have "tbl_select now (fold drop_first qs u) = []" if "tbl_select now u = []" for qs u
      using that by (induction qs arbitrary: u) (simp_all add: drop_first_none)
    moreover have "drop_first p t = t" using True by (simp add: drop_first_def)
    ultimately show ?thesis using none Cons(2) by simp
  next
    case False
    have "length (tbl_select final (drop_first p t)) = length (tbl_select final t) - 1"
      using drop_first_count [OF Cons(2), of p final] Cons(4) False by auto
    moreover have "tbl_wf (drop_first p t)"
      using Cons(2) by (auto simp: drop_first_def tbl_wf_laws split: list.split)
    ultimately show ?thesis using Cons.prems by (auto intro!: Cons.IH)
  qed
qed

section \<open>The collector of a table\<close>

text \<open>
  What the collector needs of the repository of a table: deleting an entity that was read from
  a row deletes this row.
\<close>

locale collected =
  fixes rows :: "rid_db \<Rightarrow> 'r table"
    and put :: "'r table \<Rightarrow> rid_db \<Rightarrow> rid_db"
    and fetch :: "string \<times> 'r \<Rightarrow> 'e"
    and del :: "'e \<Rightarrow> 'e option rid_tx"
    and key_ok :: "string \<Rightarrow> bool"
  assumes del_row: "key_ok k \<Longrightarrow> tbl_get (rows db) k = Some r \<Longrightarrow>
      del (fetch (k, r)) db = Inr (Some (fetch (k, r)), put (tbl_delete k (rows db)) db)"
    and put_rows: "put (rows db) db = db"
begin

lemma gc_first:
  assumes "rows_ok key_ok Q (rows db)"
    and sel: "rs = tbl_select p (rows db) \<or> rs = limit_rows (tbl_select p (rows db))"
  shows "gc_delete del (map fetch rs) db = (Inr (), put (drop_first p (rows db)) db)"
proof (cases "tbl_select p (rows db)")
  case Nil
  with sel show ?thesis by (auto simp: limit_rows_def drop_first_def put_rows)
next
  case (Cons kr rest)
  obtain k r where kr: "kr = (k, r)" by (cases kr)
  from sel Cons kr obtain rest' where rs: "rs = (k, r) # rest'"
    by (auto simp: limit_rows_def MaxResultLimit_def)
  from assms(1) Cons kr have "tbl_get (rows db) k = Some r"
    using tbl.select_get [of "rows db" k r p] by (simp add: rows_ok_def)
  moreover from this assms(1) have "key_ok k" by (auto simp: rows_ok_def)
  ultimately show ?thesis
    using Cons kr by (simp add: rs del_row transact_def drop_first_def)
qed

end

interpretation isa_gc: collected rdb_isas "\<lambda>t db. db\<lparr>rdb_isas := t\<rparr>" fetch_isa "rid_DeleteISA x"
  "pg_canonical x" for x
  by unfold_locales (simp_all add: rid_DeleteISA_def pg_canonical_def PgUUID_def tx_defs)

interpretation rsub_gc: collected rdb_subs "\<lambda>t db. db\<lparr>rdb_subs := t\<rparr>" fetch_rsub
  "rid_DeleteSubscription x" "pg_canonical x" for x
  by unfold_locales (simp_all add: rid_DeleteSubscription_def pg_canonical_def PgUUID_def tx_defs)

lemma gc_run:
  assumes "rid_ok x db"
  shows "DeleteRIDExpiredRecords x now writer db =
    (Inr (), db\<lparr>rdb_isas := drop_first (isa_expired now writer) (rdb_isas db),
               rdb_subs := drop_first (rsub_expired now writer) (rdb_subs db)\<rparr>)"
proof -
  let ?db1 = "db\<lparr>rdb_isas := drop_first (isa_expired now writer) (rdb_isas db)\<rparr>"
  have 1: "DeleteExpiredISAs x now writer db = (Inr (), ?db1)"
    using assms isa_gc.gc_first [of x "isa_row_ok x" db _ "isa_expired now writer"]
    by (simp add: DeleteExpiredISAs_def rid_ListExpiredISAs_def rid_ok_def transact_def gets_def)
  have "rid_ok x ?db1" using assms by (simp add: rid_ok_def drop_first_rows_ok)
  then have 2: "DeleteExpiredSubscriptions x now writer ?db1 =
      (Inr (), ?db1\<lparr>rdb_subs := drop_first (rsub_expired now writer) (rdb_subs ?db1)\<rparr>)"
    using rsub_gc.gc_first [of x "rsub_row_ok x" ?db1 _ "rsub_expired now writer"]
    by (simp add: DeleteExpiredSubscriptions_def rid_ListExpiredSubscriptions_def rid_ok_def
        transact_def gets_def)
  from 1 2 show ?thesis by (simp add: DeleteRIDExpiredRecords_def)
qed

section \<open>Reachable states\<close>

text \<open>
  The states that requests, by instances of any locality, and runs of the collector reach from
  an empty database, with the latest instant a clock has shown.
\<close>

definition rid_empty :: "rid_db \<Rightarrow> bool" where
  "rid_empty db \<longleftrightarrow> rdb_isas db = [] \<and> rdb_subs db = []"

inductive rid_reachable :: "ext \<Rightarrow> time \<Rightarrow> rid_db \<Rightarrow> bool" for x where
  init: "rid_empty db \<Longrightarrow> rid_reachable x t db"
| request: "rid_reachable x t db \<Longrightarrow> rid_handle x c l req db = (r, db') \<Longrightarrow>
     rid_reachable x (max t (c_now c)) db'"
| collect: "rid_reachable x t db \<Longrightarrow> DeleteRIDExpiredRecords x now writer db = (g, db') \<Longrightarrow>
     rid_reachable x (max t now) db'"

inductive_cases rid_reachable_cases: "rid_reachable x t db"

lemma rid_reachable_ok: "rid_reachable x t db \<Longrightarrow> uuid_idem x \<Longrightarrow> rid_ok x db"
proof (induction rule: rid_reachable.induct)
  case (init db t)
  then show ?case by (simp add: rid_empty_def rid_ok_def rows_ok_def tbl_wf_def tbl_get_def)
next
  case (request t db c l req r db')
  with rid_handle_commits [of x c db l req] show ?case by (auto dest: rid_commits_ok)
next
  case (collect t db now writer g db')
  then show ?case
    using gc_run [of x db now writer] by (auto simp: rid_ok_def drop_first_rows_ok)
qed

lemma rid_reachable_quota: "rid_reachable x t db \<Longrightarrow> uuid_idem x \<Longrightarrow> within_quota t db"
proof (induction rule: rid_reachable.induct)
  case (init db t)
  then show ?case by (simp add: rid_empty_def within_quota_def tbl_select_def maxSubscriptionsPerArea_def)
next
  case (request t db c l req r db')
  have later: "within_quota (max t (c_now c)) db" using request by (auto intro: within_quota_later)
  show ?case
  proof (cases "db' = db")
    case False
    with request rid_handle_commits [of x c db l req] have "rid_commits x c db db'" by auto
    then show ?thesis by (rule rid_commits_quota [OF _ later]) (use request in auto)
  qed (use later in simp)
next
  case (collect t db now writer g db')
  have sub: "length (tbl_select p (drop_first q u)) \<le> length (tbl_select p u)" for p q and u :: "rsub_row table"
    by (auto simp: drop_first_def length_select_delete split: list.split)
  have "db' = db\<lparr>rdb_isas := drop_first (isa_expired now writer) (rdb_isas db),
      rdb_subs := drop_first (rsub_expired now writer) (rdb_subs db)\<rparr>"
    using collect gc_run [OF rid_reachable_ok [OF collect(1)], of now writer] by simp
  then have "within_quota t db'"
    using collect by (auto intro!: within_quota_le [of t db] simp: sub)
  then show ?case by (rule within_quota_later) simp
qed

end
