(* ===== verification/Rid_Rpc.thy ===== *)
theory Rid_Rpc
  imports Rid_Collector Dss_Rpc
begin

text \<open>
  A call of the remote ID service with its interceptors, among them the validation of ids
  (\<^verbatim>\<open>pkg/validations\<close>), and which rows it may change.
\<close>

section \<open>Calls\<close>

fun rid_method :: "rid_request \<Rightarrow> string" where
  "rid_method (ReqGetISA i) = ''GetIdentificationServiceArea''"
| "rid_method (ReqCreateISA i p) = ''CreateIdentificationServiceArea''"
| "rid_method (ReqUpdateISA i v p) = ''UpdateIdentificationServiceArea''"
| "rid_method (ReqDeleteISA i v) = ''DeleteIdentificationServiceArea''"
| "rid_method (ReqSearchISAs a e t) = ''SearchIdentificationServiceAreas''"
| "rid_method (ReqGetRSub i) = ''GetSubscription''"
| "rid_method (ReqCreateRSub i p) = ''CreateSubscription''"
| "rid_method (ReqUpdateRSub i v p) = ''UpdateSubscription''"
| "rid_method (ReqDeleteRSub i v) = ''DeleteSubscription''"
| "rid_method (ReqSearchRSubs a) = ''SearchSubscriptions''"

text \<open>The member \<^verbatim>\<open>id\<close> of a message; searches have none.\<close>

fun rid_GetId :: "rid_request \<Rightarrow> string option" where
  "rid_GetId (ReqGetISA i) = Some i"
| "rid_GetId (ReqCreateISA i p) = Some i"
| "rid_GetId (ReqUpdateISA i v p) = Some i"
| "rid_GetId (ReqDeleteISA i v) = Some i"
| "rid_GetId (ReqGetRSub i) = Some i"
| "rid_GetId (ReqCreateRSub i p) = Some i"
| "rid_GetId (ReqUpdateRSub i v p) = Some i"
| "rid_GetId (ReqDeleteRSub i v) = Some i"
| "rid_GetId _ = None"

definition ValidationInterceptor ::
    "ext \<Rightarrow> string option \<Rightarrow> ('s \<Rightarrow> ('d err + 'a) \<times> 's) \<Rightarrow> 's \<Rightarrow> ('d err + 'a) \<times> 's" where
  "ValidationInterceptor x req_id handler db =
     (case ValidateUUID x req_id of Inl e \<Rightarrow> (Inl e, db) | Inr u \<Rightarrow> handler db)"

definition rid_service :: string where
  "rid_service = ''/ridpb.DiscoveryAndSynchronizationService/''"

definition rid_rpc ::
    "'k auth_ext \<Rightarrow> 'k authorizer \<Rightarrow> ext \<Rightarrow> string \<Rightarrow> string list option \<Rightarrow> call \<Rightarrow> rid_request \<Rightarrow> rid_db
     \<Rightarrow> (unit, rid_response) rpc_answer \<times> rid_db" where
  "rid_rpc a au x locality headers c req =
     rpc MissingOVNs a au (rid_service @ rid_method req) headers c
       (\<lambda>c'. ValidationInterceptor x (rid_GetId req) (rid_handle x c' locality req))"

section \<open>Scopes\<close>

fun rid_scope :: "rid_request \<Rightarrow> string" where
  "rid_scope (ReqCreateISA i p) = ISA_Write"
| "rid_scope (ReqUpdateISA i v p) = ISA_Write"
| "rid_scope (ReqDeleteISA i v) = ISA_Write"
| "rid_scope _ = ISA_Read"

lemma core_scopes_rid:
  "core_scopes scd vrp (rid_service @ m) = map_of (rev rid_AuthScopes) (rid_service @ m)"
proof -
  have "take 7 (rid_service @ m) = ''/ridpb.''" by (simp add: rid_service_def)
  then show ?thesis
    by (simp add: core_scopes_def MergeOperationsAndScopesValidators_eq map_add_def
        map_of_no_prefix [OF prefixes(2)] map_of_no_prefix [OF prefixes(3)]
        map_of_no_prefix [OF prefixes(4)] split: option.split)
qed

lemma rid_validator:
  "core_scopes scd vrp (rid_service @ rid_method req) = Some (RequireAllScopes [rid_scope req])"
  unfolding core_scopes_rid
  unfolding rid_AuthScopes_def rid_service_def rev_map map_of_prefixed
  by (cases req; simp only: rid_method.simps rid_scope.simps; code_simp)

section \<open>Which rows a request changes\<close>

text \<open>
  The rows of a manager are as they were, but for the index of those of its subscriptions that
  were notified; no row of its was added or removed.
\<close>

definition rid_rows_kept :: "string \<Rightarrow> rid_db \<Rightarrow> rid_db \<Rightarrow> bool" where
  "rid_rows_kept m db db' \<longleftrightarrow>
     (\<forall>k r. isr_owner r = m \<longrightarrow> (tbl_get (rdb_isas db') k = Some r \<longleftrightarrow> tbl_get (rdb_isas db) k = Some r)) \<and>
     (\<forall>k r. tbl_get (rdb_subs db) k = Some r \<and> rsr_owner r = m \<longrightarrow>
        tbl_get (rdb_subs db') k = Some r \<or> tbl_get (rdb_subs db') k = Some (bump_rsub r)) \<and>
     (\<forall>k r. tbl_get (rdb_subs db') k = Some r \<and> rsr_owner r = m \<longrightarrow> tbl_get (rdb_subs db) k \<noteq> None)"

lemma rid_commits_rows:
  assumes "rid_commits x c db db'" and ok: "rid_ok x db" and idem: "uuid_idem x"
    and other: "c_manager c \<noteq> Some m"
  shows "rid_rows_kept m db db'"
proof -
  have wf: "tbl_wf (rdb_subs db)" using ok by (simp add: rid_ok_def rows_ok_def)
  note get = notified_get [OF wf]
  show ?thesis
    using assms(1)
  proof cases
    case (insert_isa i i' r)
    then have "isa_Owner i' \<noteq> m" using other by (auto elim!: ISA_AdjustTimeRange_Inr)
    with insert_isa show ?thesis
      by (cases r) (auto elim!: insert_isa_action_Inr simp: rid_rows_kept_def get tbl_laws split: if_splits)
  next
    case (update_isa i v ver r)
    obtain q subs where r: "r = (q, subs)" by (cases r)
    from update_isa(4) show ?thesis unfolding r
    proof (rule update_isa_action_Inr)
      fix uid old i' s1
      assume uid: "x_pg_uuid x (isa_ID i) = Some uid" and old: "tbl_get (rdb_isas db) uid = Some old"
        and own: "isr_owner old = isa_Owner i"
        and adj: "ISA_AdjustTimeRange (c_now c) i (Some (fetch_isa (uid, old))) = (Inr i' :: rid_err + _)"
        and upd: "rid_UpdateISA x (c_txn c) i' db = Inr (q, s1)"
        and db': "db' = s1\<lparr>rdb_subs := notified (Levelify x (s2_union x (isr_cells old) (isa_Cells i')))
          (c_now c) (rdb_subs db)\<rparr>"
      from adj have "isa_ID i' = isa_ID i" by (auto elim!: ISA_AdjustTimeRange_Inr)
      with rid_UpdateISA_Inr [OF upd _ old] uid have "rdb_isas s1 = rdb_isas db \<or>
          rdb_isas s1 = tbl_upsert uid ((isa_row_of (c_txn c) i')\<lparr>isr_owner := isr_owner old\<rparr>) (rdb_isas db)"
        by auto
      then show ?thesis
        using own other update_isa(1) old by (auto simp: rid_rows_kept_def db' get tbl_laws split: if_splits)
    qed
  next
    case (delete_isa owner i ver r)
    then show ?thesis
      using idem other by (cases r) (auto elim!: delete_isa_action_Inr simp: rid_rows_kept_def get tbl_laws split: if_splits)
  next
    case (insert_rsub s s' q)
    then have "rs_Owner s' \<noteq> m" using other by (auto elim!: RidSubscription_AdjustTimeRange_Inr)
    with insert_rsub show ?thesis
      by (auto elim!: insert_rsub_action_Inr simp: rid_rows_kept_def tbl_laws split: if_splits)
  next
    case (update_rsub s v ver q)
    from update_rsub(5) show ?thesis
    proof (rule update_rsub_action_Inr)
      fix uid old s'
      assume uid: "x_pg_uuid x (rs_ID s) = Some uid" and old: "tbl_get (rdb_subs db) uid = Some old"
        and own: "rsr_owner old = rs_Owner s"
        and adj: "RidSubscription_AdjustTimeRange (c_now c) s (Some (fetch_rsub (uid, old))) = (Inr s' :: rid_err + _)"
        and upd: "rid_UpdateSubscription x (c_txn c) s' db = Inr (q, db')"
      from adj have "rs_ID s' = rs_ID s" by (auto elim!: RidSubscription_AdjustTimeRange_Inr)
      with rid_UpdateSubscription_Inr [OF upd _ old] uid
      have "rdb_isas db' = rdb_isas db \<and> (rdb_subs db' = rdb_subs db \<or>
          rdb_subs db' = tbl_upsert uid ((rsub_row_of (c_txn c) s')\<lparr>rsr_owner := rsr_owner old\<rparr>) (rdb_subs db))"
        by auto
      then show ?thesis using own other update_rsub(1) old by (auto simp: rid_rows_kept_def tbl_laws split: if_splits)
    qed
  next
    case (delete_rsub owner i ver q)
    then show ?thesis
      using idem other by (auto elim!: delete_rsub_action_Inr simp: rid_rows_kept_def tbl_laws split: if_splits)
  qed
qed

end
