(* ===== verification/Vrp_Ownership.thy ===== *)
theory Vrp_Ownership
  imports Vrp_Conflicts Scd_Access
begin

text \<open>
  What a manager's request to the vertiport service leaves alone: the rows of every other
  manager, but for the notification indices of their subscriptions; and the tables that a kind
  of request does not write. Vertiports have no owner.
\<close>

section \<open>The rows of a manager\<close>

definition v_rows_kept :: "string \<Rightarrow> vrp_db \<Rightarrow> vrp_db \<Rightarrow> bool" where
  "v_rows_kept m db db' \<longleftrightarrow>
     (\<forall>k. owned m vor_owner (tbl_get (vdb_ops db') k) = owned m vor_owner (tbl_get (vdb_ops db) k)) \<and>
     (\<forall>k. owned m vcr_owner (tbl_get (vdb_cons db') k) = owned m vcr_owner (tbl_get (vdb_cons db) k)) \<and>
     (\<forall>k. owned m vsr_owner (tbl_get (vdb_subs db') k) = owned m vsr_owner (tbl_get (vdb_subs db) k))"

definition v_rows_bumped :: "string \<Rightarrow> vrp_db \<Rightarrow> vrp_db \<Rightarrow> bool" where
  "v_rows_bumped m db db' \<longleftrightarrow>
     (\<forall>k. owned m vor_owner (tbl_get (vdb_ops db') k) = owned m vor_owner (tbl_get (vdb_ops db) k)) \<and>
     (\<forall>k. owned m vcr_owner (tbl_get (vdb_cons db') k) = owned m vcr_owner (tbl_get (vdb_cons db) k)) \<and>
     (\<forall>k. owned m vsr_owner (tbl_get (vdb_subs db') k)
        \<in> {owned m vsr_owner (tbl_get (vdb_subs db) k),
           map_option bump_vsub (owned m vsr_owner (tbl_get (vdb_subs db) k))})"

lemma v_rows_kept_bumped: "v_rows_kept m db db' \<Longrightarrow> v_rows_bumped m db' db'' \<Longrightarrow> v_rows_bumped m db db''"
  by (simp add: v_rows_kept_def v_rows_bumped_def)

lemma v_rows_bumped_kept: "v_rows_bumped m db db' \<Longrightarrow> v_rows_kept m db' db'' \<Longrightarrow> v_rows_bumped m db db''"
  by (simp add: v_rows_kept_def v_rows_bumped_def)

lemma v_rows_kept_trans: "v_rows_kept m db db' \<Longrightarrow> v_rows_kept m db' db'' \<Longrightarrow> v_rows_kept m db db''"
  by (simp add: v_rows_kept_def)

lemma v_rows_kept_imp: "v_rows_kept m db db' \<Longrightarrow> v_rows_bumped m db db'"
  by (simp add: v_rows_kept_def v_rows_bumped_def)

lemma v_rows_bumped_increment:
  assumes "vrp_subs_IncrementNotificationIndices x ss s = Inr (r, s')"
  shows "v_rows_bumped m s s'"
proof (rule vrp_subs_IncrementNotificationIndices_Inr [OF assms])
  fix uids assume "s' = s\<lparr>vdb_subs := tbl_update_any uids bump_vsub (vdb_subs s)\<rparr>"
  then show ?thesis
    by (auto simp: v_rows_bumped_def tbl_laws owned_def bump_vsub_def split: option.splits)
qed

section \<open>The actions\<close>

lemma put_vop_rows:
  assumes idem: "uuid_idem x" and fresh: "v_fresh_uuid x c s"
    and valid: "validate_put_vop x c i ovn p = (Inr q :: vrp_err + _)"
    and run: "put_vop_action x c q s = Inr (resp, s')" and other: "c_manager c \<noteq> Some m"
  shows "v_rows_bumped m s s'"
proof (rule put_vop_action_Inr [OF run])
  fix version sub s1 opid subid s2 allsubs subs
  assume old: "put_vop_old x q s = Inr (version, s)"
    and sub: "put_vop_subscription x c q s = Inr (sub, s1)"
    and opid: "x_pg_uuid x (vq_id q) = Some opid"
    and s2: "s2 = s1\<lparr>vdb_ops := tbl_upsert opid (vop_row_of (c_txn c) subid (new_vop q version sub)) (vdb_ops s1)\<rparr>"
    and inc: "vrp_subs_IncrementNotificationIndices x (filter vs_NotifyForOperationalIntents allsubs) s2 =
       Inr (subs, s')"
  from validate_put_vop_Inr [OF valid] obtain st et where
    st: "vr_StartTime (vq_reservation q) = Some st" and et: "vr_EndTime (vq_reservation q) = Some et"
    and mgr: "vq_manager q \<noteq> m" using other by auto
  have s01: "v_rows_kept m s s1"
  proof (rule put_vop_subscription_Inr [OF sub idem fresh st et])
    fix uid row
    assume s1: "s1 = s \<or> s1 = s\<lparr>vdb_subs := tbl_upsert uid row (vdb_subs s)\<rparr> \<and>
        times_check (vsr_starts_at row) (vsr_ends_at row)"
      and "vrow_follows (vq_reservation q) (vq_manager q) (tbl_get (vdb_subs s) uid) row"
    then have "owned m vsr_owner (Some row) = None"
      "owned m vsr_owner (tbl_get (vdb_subs s) uid) = None"
      using mgr by (auto simp: vrow_follows_def owned_def split: option.splits)
    with s1 show ?thesis by (auto simp: v_rows_kept_def tbl_laws)
  qed
  have "v_rows_kept m s1 s2"
    using put_vop_subscription_frame [OF sub] put_vop_old_Inr [OF old] opid mgr
    by (auto simp: v_rows_kept_def tbl_laws s2 split: option.splits)
  with s01 v_rows_bumped_increment [OF inc] show ?thesis
    by (blast intro: v_rows_kept_trans v_rows_kept_bumped)
qed

lemma delete_vop_rows:
  assumes ok: "vrp_ok x s" and run: "delete_vop_action x (i, manager) s = Inr (resp, s')"
    and other: "manager \<noteq> m"
  shows "v_rows_bumped m s s'"
proof (rule delete_vop_action_Inr [OF run])
  fix uid r sid sr rm allsubs subs s1 s2
  assume r: "tbl_get (vdb_ops s) uid = Some r" "vor_owner r = manager"
    and sid: "x_pg_uuid x (vor_subscription_id r) = Some sid" "tbl_get (vdb_subs s) sid = Some sr"
    and inc: "vrp_subs_IncrementNotificationIndices x
          (filter vs_NotifyForOperationalIntents allsubs) s = Inr (subs, s1)"
    and s2: "s2 = s1\<lparr>vdb_ops := tbl_delete uid (vdb_ops s1)\<rparr>"
    and fin: "(if rm then wrap Propagate (vrp_DeleteSubscription x sid) else ret ()) s2 = Inr ((), s')"
  note refs = vrp_ok_refs [OF ok]
  obtain uids where s1: "s1 = s\<lparr>vdb_subs := tbl_update_any uids bump_vsub (vdb_subs s)\<rparr>"
    using inc by (rule vrp_subs_IncrementNotificationIndices_Inr)
  from vrp_refs.refs_op [OF refs r(1)] obtain s0 where
    s0: "tbl_get (vdb_subs s) (vor_subscription_id r) = Some s0" "vsub_supports s0 r" by blast
  from vrp_refs.refs_sub [OF refs s0(1)] sid have sid': "sid = vor_subscription_id r" "sr = s0"
    using s0 by (auto simp: pg_canonical_def)
  with s0 r have own: "vsr_owner sr = manager" by (simp add: vsub_supports_def)
  have dep: "vor_owner r' = manager" if "tbl_get (vdb_ops s) k = Some r'" "vor_subscription_id r' = sid" for k r'
    using vrp_refs.refs_op [OF refs that(1)] that(2) sid own by (auto simp: vsub_supports_def)
  have wf: "tbl_wf (vdb_ops s)" using vrp_refs.refs_wf [OF refs] by simp
  have k1: "v_rows_bumped m s s1" using inc by (rule v_rows_bumped_increment)
  have k2: "v_rows_kept m s1 s2"
    using r other by (auto simp: v_rows_kept_def tbl_laws s2 s1)
  have k3: "v_rows_kept m s2 s'"
  proof (cases rm)
    case True
    with fin sid vrp_refs.refs_sub [OF refs sid(2)] have
      s': "s' = s2\<lparr>vdb_subs := tbl_delete sid (vdb_subs s2),
               vdb_ops := tbl_delete_where (\<lambda>o'. vor_subscription_id o' = sid) (vdb_ops s2)\<rparr>"
      by (auto simp: tx_inv pg_canonical_def)
    have "tbl_wf (vdb_ops s2)" using wf by (simp add: s2 s1 tbl_wf_laws)
    then show ?thesis
      using sid own other dep
      by (auto simp: v_rows_kept_def tbl_laws s' s2 s1 owned_def bump_vsub_def split: option.splits)
  qed (use fin in \<open>auto simp: tx_inv v_rows_kept_def\<close>)
  from k1 k2 k3 show ?thesis by (blast intro: v_rows_bumped_kept)
qed

lemma put_vsub_rows:
  assumes valid: "validate_put_vsub x c i v p = (Inr q :: vrp_err + _)"
    and run: "put_vsub_action x c q s = Inr (resp, s')" and other: "c_manager c \<noteq> Some m"
  shows "v_rows_bumped m s s'"
proof (rule put_vsub_action_Inr [OF run])
  fix uid old b e subreq deps
  assume old: "old = map_option (\<lambda>r. fetch_vsub x (uid, r)) (tbl_get (vdb_subs s) uid)"
    and run_old: "put_vsub_old x old ((vsq_subreq q)\<lparr>vs_StartTime := Some b, vs_EndTime := Some e\<rparr>) s =
       Inr ((subreq, deps), s)"
    and s': "s' = s\<lparr>vdb_subs := tbl_upsert uid (vsub_row_of (c_txn c) subreq) (vdb_subs s)\<rparr>"
  from validate_put_vsub_Inr [OF valid] other have "vs_Manager (vsq_subreq q) \<noteq> m" by auto
  with put_vsub_old_Inr [OF run_old] old have "v_rows_kept m s s'"
    by (cases "tbl_get (vdb_subs s) uid") (auto simp: v_rows_kept_def s' tbl_laws)
  then show ?thesis by (rule v_rows_kept_imp)
qed

lemma delete_vsub_rows:
  assumes wf: "tbl_wf (vdb_ops s)" and run: "delete_vsub_action x (i, manager) s = Inr (resp, s')"
    and other: "manager \<noteq> m"
  shows "v_rows_bumped m s s'"
proof (rule delete_vsub_action_Inr [OF run])
  fix uid r
  assume "tbl_get (vdb_subs s) uid = Some r" "vsr_owner r = manager"
    and none: "tbl_select (\<lambda>o'. vor_subscription_id o' = uid) (vdb_ops s) = []"
    and s': "s' = s\<lparr>vdb_subs := tbl_delete uid (vdb_subs s),
            vdb_ops := tbl_delete_where (\<lambda>o'. vor_subscription_id o' = uid) (vdb_ops s)\<rparr>"
  with other wf have "v_rows_kept m s s'"
    by (auto simp: v_rows_kept_def tbl_laws tbl.select_empty_iff split: option.splits)
  then show ?thesis by (rule v_rows_kept_imp)
qed

lemma put_vcon_rows:
  assumes valid: "validate_put_vcon x c i ovn p = (Inr q :: vrp_err + _)"
    and run: "put_vcon_action x c q s = Inr (resp, s')" and other: "c_manager c \<noteq> Some m"
  shows "v_rows_bumped m s s'"
proof (rule put_vcon_action_Inr [OF run])
  fix version uid allsubs subs s1
  assume old: "put_vcon_old x q s = Inr (version, s)" and uid: "x_pg_uuid x (vcq_id q) = Some uid"
    and s1: "s1 = s\<lparr>vdb_cons := tbl_upsert uid (vcon_row_of (c_txn c) (new_vcon q version)) (vdb_cons s)\<rparr>"
    and inc: "vrp_subs_IncrementNotificationIndices x (filter vs_NotifyForConstraints allsubs) s1 =
       Inr (subs, s')"
  from valid other have "vcq_manager q \<noteq> m" by (auto simp: validate_put_vcon_def tx_inv)
  with put_vcon_old_Inr [OF old] uid have "v_rows_kept m s s1"
    by (auto simp: v_rows_kept_def s1 tbl_laws split: option.splits)
  with v_rows_bumped_increment [OF inc] show ?thesis by (blast intro: v_rows_kept_bumped)
qed

lemma delete_vcon_rows:
  assumes run: "delete_vcon_action x (i, manager) s = Inr (resp, s')" and other: "manager \<noteq> m"
  shows "v_rows_bumped m s s'"
proof (rule delete_vcon_action_Inr [OF run])
  fix uid r allsubs s1 subs
  assume "tbl_get (vdb_cons s) uid = Some r" "vcr_owner r = manager"
    and s1: "s1 = s\<lparr>vdb_cons := tbl_delete uid (vdb_cons s)\<rparr>"
    and inc: "vrp_subs_IncrementNotificationIndices x (filter vs_NotifyForConstraints allsubs) s1 =
       Inr (subs, s')"
  with other have "v_rows_kept m s s1" by (auto simp: v_rows_kept_def tbl_laws)
  with v_rows_bumped_increment [OF inc] show ?thesis by (blast intro: v_rows_kept_bumped)
qed

lemma vrp_commits_rows:
  assumes "vrp_commits x c db db'" and "vrp_ok x db" and "uuid_idem x"
    and "v_fresh_uuid x c db" and "c_manager c \<noteq> Some m"
  shows "v_rows_bumped m db db'"
  using assms
proof (induction rule: vrp_commits.induct)
  case (put_vop i ovn p q db r db')
  then show ?case by (blast intro: put_vop_rows)
next
  case (delete_vop m' i db r db')
  then show ?case by (auto intro: delete_vop_rows)
next
  case (put_vsub i v p q db r db')
  then show ?case by (blast intro: put_vsub_rows)
next
  case (delete_vsub m' i db r db')
  then show ?case
    using vrp_refs.refs_wf [OF vrp_ok_refs [OF delete_vsub(3)]] by (auto intro: delete_vsub_rows)
next
  case (put_vcon i ovn p q db r db')
  then show ?case by (blast intro: put_vcon_rows)
next
  case (delete_vcon m' i db r db')
  then show ?case by (auto intro: delete_vcon_rows)
next
  case (vertiports db' db t)
  then show ?case by (simp add: v_rows_bumped_def)
qed

section \<open>The tables a request writes\<close>

fun v_writes_ops :: "vrp_request \<Rightarrow> bool" where
  "v_writes_ops (ReqCreateVOp i p) = True"
| "v_writes_ops (ReqUpdateVOp i v p) = True"
| "v_writes_ops (ReqDeleteVOp i) = True"
| "v_writes_ops _ = False"

fun v_writes_cons :: "vrp_request \<Rightarrow> bool" where
  "v_writes_cons (ReqCreateVCon i p) = True"
| "v_writes_cons (ReqUpdateVCon i v p) = True"
| "v_writes_cons (ReqDeleteVCon i) = True"
| "v_writes_cons _ = False"

fun v_writes_subs :: "vrp_request \<Rightarrow> bool" where
  "v_writes_subs (ReqCreateVSub i p) = True"
| "v_writes_subs (ReqUpdateVSub i v p) = True"
| "v_writes_subs (ReqDeleteVSub i) = True"
| "v_writes_subs req = (v_writes_ops req \<or> v_writes_cons req)"

fun v_writes_ports :: "vrp_request \<Rightarrow> bool" where
  "v_writes_ports (ReqCreateVertiport i n) = True"
| "v_writes_ports (ReqUpdateVertiport i n) = True"
| "v_writes_ports (ReqDeleteVertiport i) = True"
| "v_writes_ports _ = False"

definition v_writes_only :: "vrp_request \<Rightarrow> vrp_db \<Rightarrow> vrp_db \<Rightarrow> bool" where
  "v_writes_only req db db' \<longleftrightarrow>
     (vdb_ops db' \<noteq> vdb_ops db \<longrightarrow> v_writes_ops req) \<and>
     (vdb_cons db' \<noteq> vdb_cons db \<longrightarrow> v_writes_cons req) \<and>
     (vdb_subs db' \<noteq> vdb_subs db \<longrightarrow> v_writes_subs req) \<and>
     (vdb_ports db' \<noteq> vdb_ports db \<longrightarrow> v_writes_ports req)"

lemma v_writes_only_refl [simp]: "v_writes_only req db db"
  by (simp add: v_writes_only_def)

lemma v_increment_frame:
  assumes "vrp_subs_IncrementNotificationIndices x ss s = Inr (r, s')"
  shows "vdb_ops s' = vdb_ops s \<and> vdb_cons s' = vdb_cons s \<and> vdb_ports s' = vdb_ports s"
  using assms by (rule vrp_subs_IncrementNotificationIndices_Inr) simp

lemma put_vop_keeps: "keeps (\<lambda>s. (vdb_cons s, vdb_ports s) = k) (put_vop_action x c q)"
  by (rule keepsI, erule put_vop_action_Inr)
    (auto dest!: v_increment_frame put_vop_subscription_frame)

lemma delete_vop_keeps: "keeps (\<lambda>s. (vdb_cons s, vdb_ports s) = k) (delete_vop_action x q)"
  by (cases q, hypsubst, rule keepsI, erule delete_vop_action_Inr)
    (auto dest!: v_increment_frame simp: tx_inv split: if_splits)

lemma put_vcon_keeps: "keeps (\<lambda>s. (vdb_ops s, vdb_ports s) = k) (put_vcon_action x c q)"
  by (rule keepsI, erule put_vcon_action_Inr) (auto dest!: v_increment_frame)

lemma delete_vcon_keeps: "keeps (\<lambda>s. (vdb_ops s, vdb_ports s) = k) (delete_vcon_action x q)"
  by (cases q, hypsubst, rule keepsI, erule delete_vcon_action_Inr) (auto dest!: v_increment_frame)

lemma put_vsub_keeps: "keeps (\<lambda>s. (vdb_ops s, vdb_cons s, vdb_ports s) = k) (put_vsub_action x c q)"
  by (rule keepsI, erule put_vsub_action_Inr) simp

lemma delete_vsub_keeps: "keeps (\<lambda>s. (vdb_ops s, vdb_cons s, vdb_ports s) = k) (delete_vsub_action x q)"
proof (cases q, hypsubst, rule keepsI, erule delete_vsub_action_Inr)
  fix s s' :: vrp_db and uid
  assume "(vdb_ops s, vdb_cons s, vdb_ports s) = k"
    and "tbl_select (\<lambda>o'. vor_subscription_id o' = uid) (vdb_ops s) = []"
    and "s' = s\<lparr>vdb_subs := tbl_delete uid (vdb_subs s),
        vdb_ops := tbl_delete_where (\<lambda>o'. vor_subscription_id o' = uid) (vdb_ops s)\<rparr>"
  then show "(vdb_ops s', vdb_cons s', vdb_ports s') = k"
    by (auto simp: tbl_select_def tbl_delete_where_def filter_empty_conv)
qed

lemma vertiport_keeps:
  "keeps (\<lambda>s. (vdb_ops s, vdb_cons s, vdb_subs s) = k) (put_vertiport_action x vid v)"
  "keeps (\<lambda>s. (vdb_ops s, vdb_cons s, vdb_subs s) = k) (delete_vertiport_action x vid i)"
  by (rule keepsI; auto dest!: put_vertiport_Inr delete_vertiport_Inr)+

lemma vrp_serve_writes: "v_writes_only req db (snd (vrp_serve x c req db))"
proof -
  have op: "vdb_cons db' = vdb_cons db \<and> vdb_ports db' = vdb_ports db"
    if "db' = snd (PutVertiportOperationalIntentReference x c i v p db)" for db' i v p
    using serve_keeps_eq [OF put_vop_keeps] that by (simp add: PutVertiportOperationalIntentReference_def)
  have dop: "vdb_cons db' = vdb_cons db \<and> vdb_ports db' = vdb_ports db"
    if "db' = snd (DeleteVertiportOperationalIntentReference x c i db)" for db' i
    using serve_keeps_eq [OF delete_vop_keeps] that by (simp add: DeleteVertiportOperationalIntentReference_def)
  have con: "vdb_ops db' = vdb_ops db \<and> vdb_ports db' = vdb_ports db"
    if "db' = snd (PutVertiportConstraintReference x c i v p db)" for db' i v p
    using serve_keeps_eq [OF put_vcon_keeps] that by (simp add: PutVertiportConstraintReference_def)
  have dcon: "vdb_ops db' = vdb_ops db \<and> vdb_ports db' = vdb_ports db"
    if "db' = snd (DeleteVertiportConstraintReference x c i db)" for db' i
    using serve_keeps_eq [OF delete_vcon_keeps] that by (simp add: DeleteVertiportConstraintReference_def)
  have sub: "vdb_ops db' = vdb_ops db \<and> vdb_cons db' = vdb_cons db \<and> vdb_ports db' = vdb_ports db"
    if "db' = snd (PutVertiportSubscription x c i v p db)" for db' i v p
    using serve_keeps_eq [OF put_vsub_keeps] that by (simp add: PutVertiportSubscription_def)
  have dsub: "vdb_ops db' = vdb_ops db \<and> vdb_cons db' = vdb_cons db \<and> vdb_ports db' = vdb_ports db"
    if "db' = snd (DeleteVertiportSubscription x c i db)" for db' i
    using serve_keeps_eq [OF delete_vsub_keeps] that by (simp add: DeleteVertiportSubscription_def)
  have put: "vdb_ops db' = vdb_ops db \<and> vdb_cons db' = vdb_cons db \<and> vdb_subs db' = vdb_subs db"
    if "db' = snd (PutVertiport x i n db)" for db' i n
    using serve_keeps_eq [where action = "put_vertiport_action x i", OF vertiport_keeps(1)] that
    by (simp add: PutVertiport_def)
  have dport: "vdb_ops db' = vdb_ops db \<and> vdb_cons db' = vdb_cons db \<and> vdb_subs db' = vdb_subs db"
    if "db' = snd (DeleteVertiport x i db)" for db' i
    using serve_keeps_eq [where action = "delete_vertiport_action x i", OF vertiport_keeps(2)] that
    by (simp add: DeleteVertiport_def)
  show ?thesis
    by (cases req)
      (simp_all add: v_writes_only_def op [OF refl] dop [OF refl] con [OF refl]
        dcon [OF refl] sub [OF refl] dsub [OF refl] put [OF refl] dport [OF refl]
        serve_pure pure_intros
        CreateVertiportOperationalIntentReference_def UpdateVertiportOperationalIntentReference_def
        CreateVertiportSubscription_def UpdateVertiportSubscription_def
        CreateVertiportConstraintReference_def UpdateVertiportConstraintReference_def
        GetVertiportOperationalIntentReference_def QueryVertiportOperationalIntentReferences_def
        GetVertiportSubscription_def QueryVertiportSubscriptions_def
        GetVertiportConstraintReference_def QueryVertiportConstraintReferences_def
        GetNumberOfUsedParkingPlaces_def GetVertiportFATOAvailableTimes_def
        CreateVertiport_def UpdateVertiport_def GetVertiport_def)
qed

end
