(* ===== verification/Dss_Properties.thy ===== *)
theory Dss_Properties
  imports Scd_Registry Scd_Example Rid_Rpc Vrp_Ownership Vrp_Example
begin

text \<open>
  Properties of a call from its token to its HTTP status: who can change what, which scopes admit to
  a method, for how long a token admits, and what a failed request returns.
\<close>

section \<open>Tokens for the examples\<close>

definition ex_auth :: "string auth_ext" where
  "ex_auth = \<lparr>jwt_verify = (\<lambda>token k. if k = ''key'' then
       Some \<lparr>tc_Subject = token, tc_Issuer = ''issuer'', tc_Audience = ''dss'', tc_ExpiresAt = 100,
         tc_IssuedAt = 0, tc_NotBefore = 0,
         tc_scope = Some ''utm.strategic_coordination utm.vertiport_management''\<rparr> else None),
     jwt_standard_valid = (\<lambda>t c. (ExpiresAt c = 0 \<or> t \<le> ExpiresAt c) \<and>
       (IssuedAt c = 0 \<or> IssuedAt c \<le> t) \<and> (NotBefore c = 0 \<or> NotBefore c \<le> t)),
     json_string = Some\<rparr>"

definition ex_authorizer :: "string authorizer" where
  "ex_authorizer = NewRSAAuthorizer [''other'', ''key''] (core_scopes True True) [''dss'']"

lemma ex_standard_claims: "standard_claims ex_auth"
  by (simp add: standard_claims_def ex_auth_def)

lemma ex_admitted:
  "AuthInterceptor ex_auth 15000000 ex_authorizer (scd_service @ ''CreateOperationalIntentReference'')
     (Some [''Bearer uss2'']) = (Admitted ''uss2'' :: airspace_conflict admission)"
  unfolding ex_authorizer_def NewRSAAuthorizer_def by code_simp

section \<open>Authorization\<close>

text \<open>
  C23. A call that changes the strategic coordination database carries a token that verifies
  under one of the server's keys, names a subject and an accepted audience, and has one of the
  scopes of the method. It writes only the tables of its method, and leaves the rows of every
  manager but the token's subject as they are, apart from notification indices.
\<close>

theorem scd_changes_authorized:
  assumes "scd_reachable x db" and "uuid_idem x" and "s2_sound x area" and "fresh_uuid x c db"
    and scopes: "scopesValidators au = core_scopes True vrp"
    and run: "scd_rpc a au x headers c req db = (res, db')" and "db' \<noteq> db"
  shows "\<exists>token key cl. getToken headers = Some token \<and> key \<in> set (keys au) \<and>
    parse_with_claims a (c_now c) token key = Some cl \<and> Subject cl \<noteq> '''' \<and>
    Audience cl \<in> acceptedAudiences au \<and> set (scd_scopes req) \<inter> Scopes cl \<noteq> {} \<and>
    writes_only req db db' \<and> (\<forall>m. m \<noteq> Subject cl \<longrightarrow> rows_bumped m db db')"
proof -
  from run \<open>db' \<noteq> db\<close> obtain owner where
    adm: "AuthInterceptor a (c_now c) au (scd_service @ scd_method req) headers =
      (Admitted owner :: airspace_conflict admission)"
    and db': "db' = snd (scd_serve x (c\<lparr>c_manager := Some owner\<rparr>) req db)"
    unfolding scd_rpc_def by (elim rpc_admitted) auto
  from adm obtain token k cl where cl: "getToken headers = Some token" "k \<in> set (keys au)"
    "parse_with_claims a (c_now c) token k = Some cl" "Subject cl = owner"
    "Audience cl \<in> acceptedAudiences au" "grants (RequireAnyScope (scd_scopes req)) (Scopes cl)"
    by (rule AuthInterceptor_Admitted) (simp add: scopes scd_validator)
  have "Subject cl \<noteq> ''''"
    using parse_with_claims_Some [OF cl(3)] by (auto simp: claims_Valid_def split: if_splits)
  moreover have "rows_bumped m db db'" if "m \<noteq> owner" for m
  proof -
    have "scd_commits x (c\<lparr>c_manager := Some owner\<rparr>) db db'"
      using scd_serve_commits [of x "c\<lparr>c_manager := Some owner\<rparr>" db req] \<open>db' \<noteq> db\<close>
      by (simp add: db')
    then show ?thesis
      by (rule scd_commits_rows [OF _ scd_reachable_ok [OF assms(1-3)] assms(3,2)])
        (use assms(4) that in \<open>simp_all add: fresh_uuid_def\<close>)
  qed
  moreover have "writes_only req db db'" unfolding db' by (rule scd_serve_writes)
  ultimately show ?thesis using cl by auto
qed

lemma ex_rpc_granted:
  "snd (scd_rpc ex_auth ex_authorizer ex_ext (Some [''Bearer uss2'']) (ex_call m ''s2'' 15)
     (ReqCreateOp ''op2'' (Some (ex_op_params [ex_ovn1] ''''))) ex_db1) = ex_db2"
proof -
  have "ex_call m ''s2'' 15\<lparr>c_manager := Some ''uss2''\<rparr> = ex_call ''uss2'' ''s2'' 15"
    by (simp add: ex_call_def)
  moreover have "c_now (ex_call m ''s2'' 15) = 15000000" by (simp add: ex_call_def)
  ultimately show ?thesis
    using ex_granted
    by (simp add: scd_rpc_def rpc_def ex_admitted split_beta ex_granted_def)
qed

theorem scd_changes_authorized_witness:
  "\<exists>cl. parse_with_claims ex_auth 15000000 ''uss2'' ''key'' = Some cl \<and>
     ''utm.strategic_coordination'' \<in> Scopes cl \<and> rows_bumped ''uss1'' ex_db1 ex_db2"
proof -
  let ?c = "ex_call ''uss1'' ''s2'' 15"
  let ?r = "scd_rpc ex_auth ex_authorizer ex_ext (Some [''Bearer uss2'']) ?c
     (ReqCreateOp ''op2'' (Some (ex_op_params [ex_ovn1] ''''))) ex_db1"
  have ne: "ex_db2 \<noteq> ex_db1" by (simp add: ex_db2_def ex_db1)
  have fresh: "fresh_uuid ex_ext ?c ex_db1" by (rule ex_fresh) simp
  have run: "?r = (fst ?r, ex_db2)" using ex_rpc_granted by (metis prod.collapse)
  have auth: "scopesValidators ex_authorizer = core_scopes True True"
    by (simp add: ex_authorizer_def NewRSAAuthorizer_def)
  from scd_changes_authorized [OF ex_reachable1 ex_uuid_idem ex_s2_sound fresh auth run ne]
  obtain key cl where "key \<in> set (keys ex_authorizer)"
    "parse_with_claims ex_auth 15000000 ''uss2'' key = Some cl" "Subject cl \<noteq> ''''"
    "set [strategicCoordinationScope, conformanceMonitoringSAScope] \<inter> Scopes cl \<noteq> {}"
    "\<forall>m. m \<noteq> Subject cl \<longrightarrow> rows_bumped m ex_db1 ex_db2"
    by (auto simp: getToken_def trim_prefix_def ex_call_def)
  then show ?thesis
    by (auto simp: parse_with_claims_def ex_auth_def ex_authorizer_def NewRSAAuthorizer_def Let_def
        strategicCoordinationScope_def conformanceMonitoringSAScope_def ScopeSet_UnmarshalJSON_def
        split: sum.splits if_splits)
qed

text \<open>
  C18. In a server with the vertiport service, a call that changes the vertiport database
  carries a token that verifies under one of the server's keys, names a subject and an accepted
  audience, and has the scope for vertiports. It writes only the tables of its method, and
  leaves the operational intents, constraints and subscriptions of every manager but the token's
  subject as they are, apart from notification indices. Vertiports have no owner: any such token
  changes them.
\<close>

theorem vertiport_changes_authorized:
  assumes "vrp_reachable x db" and "uuid_idem x" and "v_fresh_uuid x c db"
    and scopes: "scopesValidators au = core_scopes scd True"
    and run: "vrp_rpc a au x headers c req db = (res, db')" and "db' \<noteq> db"
  shows "\<exists>token key cl. getToken headers = Some token \<and> key \<in> set (keys au) \<and>
    parse_with_claims a (c_now c) token key = Some cl \<and> Subject cl \<noteq> '''' \<and>
    Audience cl \<in> acceptedAudiences au \<and> ''utm.vertiport_management'' \<in> Scopes cl \<and>
    v_writes_only req db db' \<and> (\<forall>m. m \<noteq> Subject cl \<longrightarrow> v_rows_bumped m db db')"
proof -
  from run \<open>db' \<noteq> db\<close> obtain owner where
    adm: "AuthInterceptor a (c_now c) au (vrp_service @ vrp_method req) headers =
      (Admitted owner :: airspace_conflict admission)"
    and db': "db' = snd (vrp_serve x (c\<lparr>c_manager := Some owner\<rparr>) req db)"
    unfolding vrp_rpc_def by (elim rpc_admitted) auto
  from adm obtain token k cl where cl: "getToken headers = Some token" "k \<in> set (keys au)"
    "parse_with_claims a (c_now c) token k = Some cl" "Subject cl = owner"
    "Audience cl \<in> acceptedAudiences au" "grants (RequireAnyScope [vertiportScope]) (Scopes cl)"
    by (rule AuthInterceptor_Admitted) (simp add: scopes vrp_validator)
  have "Subject cl \<noteq> ''''"
    using parse_with_claims_Some [OF cl(3)] by (auto simp: claims_Valid_def split: if_splits)
  moreover have "v_rows_bumped m db db'" if "m \<noteq> owner" for m
  proof -
    have "vrp_commits x (c\<lparr>c_manager := Some owner\<rparr>) db db'"
      using vrp_serve_commits [of x "c\<lparr>c_manager := Some owner\<rparr>" db req] \<open>db' \<noteq> db\<close>
      by (simp add: db')
    then show ?thesis
      by (rule vrp_commits_rows [OF _ vrp_reachable_ok [OF assms(1,2)] assms(2)])
        (use assms(3) that in \<open>simp_all add: v_fresh_uuid_def\<close>)
  qed
  moreover have "v_writes_only req db db'" unfolding db' by (rule vrp_serve_writes)
  ultimately show ?thesis using cl by (auto simp: vertiportScope_def)
qed

theorem vertiport_changes_authorized_witness:
  "v_rows_bumped ''uss1'' exv_db1 exv_db2 \<and>
   tbl_get (vdb_subs exv_db2) ''s1'' = map_option bump_vsub (tbl_get (vdb_subs exv_db1) ''s1'')"
proof -
  let ?c = "ex_call ''uss1'' ''s3'' 12"
  let ?req = "ReqCreateVOp ''op3'' (Some (exv_params ''v1'' ParkingStand 20 30 [exv_ovn1] ''''))"
  let ?r = "vrp_rpc ex_auth ex_authorizer ex_ext (Some [''Bearer uss2'']) ?c ?req exv_db1"
  have adm: "AuthInterceptor ex_auth (c_now ?c) ex_authorizer (vrp_service @ vrp_method ?req)
      (Some [''Bearer uss2'']) = (Admitted ''uss2'' :: airspace_conflict admission)"
    unfolding ex_authorizer_def NewRSAAuthorizer_def by code_simp
  have c: "?c\<lparr>c_manager := Some ''uss2''\<rparr> = ex_call ''uss2'' ''s3'' 12" by (simp add: ex_call_def)
  obtain resp where "PutVertiportOperationalIntentReference ex_ext (ex_call ''uss2'' ''s3'' 12) ''op3'' ''''
      (Some (exv_params ''v1'' ParkingStand 20 30 [exv_ovn1] '''')) exv_db1 = (Inr resp, exv_db2)"
    using exv_granted by blast
  then have "snd ?r = exv_db2"
    by (simp add: vrp_rpc_def rpc_def adm [simplified] c CreateVertiportOperationalIntentReference_def respond_def)
  then have run: "?r = (fst ?r, exv_db2)" by (metis prod.collapse)
  have ne: "exv_db2 \<noteq> exv_db1" by (simp add: exv_db1 exv_db2)
  have fresh: "v_fresh_uuid ex_ext ?c exv_db1"
    by (simp add: v_fresh_uuid_def ex_call_def exv_db1 tbl_get_def)
  have auth: "scopesValidators ex_authorizer = core_scopes True True"
    by (simp add: ex_authorizer_def NewRSAAuthorizer_def)
  from vertiport_changes_authorized [OF exv_reachable(1) ex_uuid_idem fresh auth run ne]
  obtain key cl where "key \<in> set (keys ex_authorizer)"
    "parse_with_claims ex_auth (c_now ?c) ''uss2'' key = Some cl"
    "\<forall>m. m \<noteq> Subject cl \<longrightarrow> v_rows_bumped m exv_db1 exv_db2"
    by (auto simp: getToken_def trim_prefix_def)
  then have "v_rows_bumped ''uss1'' exv_db1 exv_db2"
    by (auto dest!: parse_with_claims_Some simp: ex_auth_def split: if_splits)
  then show ?thesis by (simp add: exv_db1 exv_db2 tbl_get_def exv_sub_def bump_vsub_def)
qed

text \<open>
  The answer to a call whose token verifies: that of the handler when it is granted, and else a
  refusal with the status of \<open>PermissionDenied\<close>, which leaves the database alone.
\<close>

definition answered_if ::
    "bool \<Rightarrow> ecode \<Rightarrow> ('d err + 'a) \<times> 's \<Rightarrow> 's \<Rightarrow> ('d, 'a) rpc_answer \<times> 's" where
  "answered_if granted conflict result db =
     (if granted then (answer_of conflict (fst result), snd result)
      else (Failed \<lparr>st_code = 7, st_details = [StandardErrorResponse 7]\<rparr>, db))"

lemma rpc_scoped:
  assumes "getToken headers = Some token" and "first_valid a (c_now c) token (keys au) = Some cl"
    and "Audience cl \<in> acceptedAudiences au" and "scopesValidators au method = Some v"
  shows "rpc conflict a au method headers c handler db =
    answered_if (grants v (Scopes cl)) conflict (handler (c\<lparr>c_manager := Some (Subject cl)\<rparr>) db) db"
proof (cases "ValidateKeyClaimedScopes v (Scopes cl)")
  case (Inl missing)
  then have "\<not> grants v (Scopes cl)" using ValidateKeyClaimedScopes_Inr [of v "Scopes cl" "()"] by auto
  with Inl assms show ?thesis
    by (simp add: rpc_def AuthInterceptor_def validateKeyClaimedScopes_def answered_if_def
        status_of_error_def MakeStatusProto_def)
next
  case (Inr u)
  then have "grants v (Scopes cl)" by (simp add: ValidateKeyClaimedScopes_Inr)
  with Inr assms show ?thesis
    by (simp add: rpc_def AuthInterceptor_def validateKeyClaimedScopes_def answered_if_def split: prod.split)
qed

lemma scd_scopes_table:
  "\<exists>ss. (scd_service @ scd_method req, RequireAnyScope ss) \<in> set scd_AuthScopes \<and>
    core_scopes True vrp (scd_service @ scd_method req) = Some (RequireAnyScope ss) \<and> ss \<noteq> []"
proof -
  have "map_of (rev scd_AuthScopes) (scd_service @ scd_method req) = Some (RequireAnyScope (scd_scopes req))"
    using scd_validator [of vrp req] by (simp only: core_scopes_scd)
  then have "(scd_service @ scd_method req, RequireAnyScope (scd_scopes req)) \<in> set (rev scd_AuthScopes)"
    by (rule map_of_SomeD)
  moreover have "scd_scopes req \<noteq> []" by (cases req) simp_all
  ultimately show ?thesis using scd_validator [of vrp req] by auto
qed

lemma vrp_scopes_table:
  "\<exists>ss. (vrp_service @ vrp_method req, RequireAnyScope ss) \<in> set vrp_AuthScopes \<and>
    core_scopes scd True (vrp_service @ vrp_method req) = Some (RequireAnyScope ss) \<and> ss \<noteq> []"
  using vrp_validator [of scd req] core_scopes_vrp [of scd "vrp_method req"]
  by (auto dest: map_of_SomeD)

lemma rid_scopes_table:
  "\<exists>ss. (rid_service @ rid_method req, RequireAllScopes ss) \<in> set rid_AuthScopes \<and>
    core_scopes scd vrp (rid_service @ rid_method req) = Some (RequireAllScopes ss) \<and> ss \<noteq> []"
  using rid_validator [of scd vrp req] core_scopes_rid [of scd vrp "rid_method req"]
  by (auto dest: map_of_SomeD)

text \<open>
  C24. In a server with all three services, a call whose token verifies and names an accepted
  audience is answered by its handler, on behalf of the token's subject, when the token has one
  of the scopes (for remote ID, all of the scopes) that the table of its service lists for the
  method, and is else refused with the status of \<open>PermissionDenied\<close> and changes
  nothing. Each method of the three services has an entry with a scope at least, so that a token
  without scopes is refused everywhere.
\<close>

theorem access_by_scope:
  assumes "getToken headers = Some token" and "first_valid a (c_now c) token (keys au) = Some cl"
    and "Audience cl \<in> acceptedAudiences au" and "scopesValidators au = core_scopes True True"
  shows "(\<exists>ss. (scd_service @ scd_method req, RequireAnyScope ss) \<in> set scd_AuthScopes \<and> ss \<noteq> [] \<and>
      scd_rpc a au x headers c req db =
        answered_if (set ss \<inter> Scopes cl \<noteq> {}) MissingOVNs
          (scd_serve x (c\<lparr>c_manager := Some (Subject cl)\<rparr>) req db) db) \<and>
    (\<exists>ss. (vrp_service @ vrp_method vreq, RequireAnyScope ss) \<in> set vrp_AuthScopes \<and> ss \<noteq> [] \<and>
      vrp_rpc a au x headers c vreq vdb =
        answered_if (set ss \<inter> Scopes cl \<noteq> {}) MissingVertiportOVNs
          (vrp_serve x (c\<lparr>c_manager := Some (Subject cl)\<rparr>) vreq vdb) vdb) \<and>
    (\<exists>ss. (rid_service @ rid_method rreq, RequireAllScopes ss) \<in> set rid_AuthScopes \<and> ss \<noteq> [] \<and>
      rid_rpc a au x loc headers c rreq rdb =
        answered_if (set ss \<subseteq> Scopes cl) MissingOVNs
          (ValidationInterceptor x (rid_GetId rreq)
            (rid_handle x (c\<lparr>c_manager := Some (Subject cl)\<rparr>) loc rreq) rdb) rdb)"
proof -
  note rpc = rpc_scoped [OF assms(1-3)]
  obtain ss where ss: "(scd_service @ scd_method req, RequireAnyScope ss) \<in> set scd_AuthScopes" "ss \<noteq> []"
    "scopesValidators au (scd_service @ scd_method req) = Some (RequireAnyScope ss)"
    using scd_scopes_table [of req True] assms(4) by auto
  obtain vs where vs: "(vrp_service @ vrp_method vreq, RequireAnyScope vs) \<in> set vrp_AuthScopes" "vs \<noteq> []"
    "scopesValidators au (vrp_service @ vrp_method vreq) = Some (RequireAnyScope vs)"
    using vrp_scopes_table [of vreq True] assms(4) by auto
  obtain rs where rs: "(rid_service @ rid_method rreq, RequireAllScopes rs) \<in> set rid_AuthScopes" "rs \<noteq> []"
    "scopesValidators au (rid_service @ rid_method rreq) = Some (RequireAllScopes rs)"
    using rid_scopes_table [of rreq True True] assms(4) by auto
  show ?thesis
    by (intro conjI exI [of _ ss] exI [of _ vs] exI [of _ rs])
      (simp_all only: ss(1,2) vs(1,2) rs(1,2) simp_thms scd_rpc_def vrp_rpc_def rid_rpc_def
        rpc [OF ss(3)] rpc [OF vs(3)] rpc [OF rs(3)] grants.simps)
qed

theorem access_by_scope_witness:
  "fst (scd_rpc ex_auth ex_authorizer ex_ext (Some [''Bearer uss2'']) (ex_call ''uss2'' ''s2'' 15)
     (ReqDeleteCon ''c1'') ex_db1) = Failed \<lparr>st_code = 7, st_details = [StandardErrorResponse 7]\<rparr>"
proof -
  let ?c = "ex_call ''uss2'' ''s2'' 15"
  let ?cl = "\<lparr>Subject = ''uss2'', Issuer = ''issuer'', Audience = ''dss'', ExpiresAt = 100, IssuedAt = 0,
    NotBefore = 0, Scopes = {''utm.strategic_coordination'', ''utm.vertiport_management''}\<rparr>"
  have tok: "getToken (Some [''Bearer uss2'']) = Some ''uss2''" by (simp add: getToken_def trim_prefix_def)
  have valid: "first_valid ex_auth (c_now ?c) ''uss2'' (keys ex_authorizer) = Some ?cl"
    by (simp add: ex_authorizer_def NewRSAAuthorizer_def parse_with_claims_def ex_auth_def ex_call_def
        ScopeSet_UnmarshalJSON_def claims_Valid_def unix_def time_add_def minutes_def Let_def)
  have au: "Audience ?cl \<in> acceptedAudiences ex_authorizer"
    "scopesValidators ex_authorizer = core_scopes True True"
    by (simp_all add: ex_authorizer_def NewRSAAuthorizer_def)
  obtain ss where ss: "(scd_service @ ''DeleteConstraintReference'', RequireAnyScope ss) \<in> set scd_AuthScopes"
    "scd_rpc ex_auth ex_authorizer ex_ext (Some [''Bearer uss2'']) ?c (ReqDeleteCon ''c1'') ex_db1 =
      answered_if (set ss \<inter> Scopes ?cl \<noteq> {}) MissingOVNs
        (scd_serve ex_ext (?c\<lparr>c_manager := Some (Subject ?cl)\<rparr>) (ReqDeleteCon ''c1'') ex_db1) ex_db1"
    using conjunct1 [OF access_by_scope [OF tok valid au, where req = "ReqDeleteCon ''c1''" and x = ex_ext
        and db = ex_db1]] unfolding scd_method.simps by blast
  from ss(1) have "ss = [constraintManagementScope]" by (simp add: scd_AuthScopes_def)
  with ss(2) show ?thesis by (simp add: answered_if_def constraintManagementScope_def)
qed

text \<open>
  C25. The claims of a token that has a subject and an issuer are valid at an instant from 1970 on
  exactly when three conditions hold: it has no expiration, or the instant is not after the expiration
  and not earlier than an hour before it; it has no \<^verbatim>\<open>iat\<close>, or the instant is not before that; it has no
  \<^verbatim>\<open>nbf\<close>, or the instant is not before that. So a token without an expiration stays valid for good from
  the instants it names on.
\<close>

theorem token_validity:
  assumes "standard_claims a" and "Subject c \<noteq> ''''" and "Issuer c \<noteq> ''''" and "0 \<le> now"
  shows "claims_Valid a now c = Inr () \<longleftrightarrow>
    (ExpiresAt c = 0 \<or> ExpiresAt c - 3600 \<le> unix now \<and> unix now \<le> ExpiresAt c) \<and>
    (IssuedAt c = 0 \<or> IssuedAt c \<le> unix now) \<and> (NotBefore c = 0 \<or> NotBefore c \<le> unix now)"
proof -
  have "unix (time_add now (minutes 60)) = unix now + 3600" using div_mult_self1 [of "10 ^ 6" now 3600]
    by (simp add: unix_def time_add_def minutes_def)
  moreover have "0 \<le> unix now" using assms(4) by (simp add: unix_def)
  ultimately show ?thesis
    using assms(1-3) by (auto simp: claims_Valid_def standard_claims_def)
qed

theorem token_validity_witness:
  "claims_Valid ex_auth (4 * 10 ^ 15) \<lparr>Subject = ''u'', Issuer = ''i'', Audience = '''', ExpiresAt = 0,
     IssuedAt = 0, NotBefore = 0, Scopes = {}\<rparr> = Inr ()"
  using token_validity [OF ex_standard_claims, of "\<lparr>Subject = ''u'', Issuer = ''i'', Audience = '''',
      ExpiresAt = 0, IssuedAt = 0, NotBefore = 0, Scopes = {}\<rparr>" "4 * 10 ^ 15"]
  by simp

section \<open>Errors\<close>

text \<open>
  C26. A request that an admitted caller makes and the service refuses with an error fails with a
  status. Over HTTP it is a conflict with the missing
  references when the error carries them, and else the standard body with the status of the
  error's code, 500 when it has none.
\<close>

theorem refused_over_http:
  assumes adm: "AuthInterceptor a (c_now c) au (scd_service @ scd_method req) headers =
      (Admitted owner :: airspace_conflict admission)"
    and run: "scd_serve x (c\<lparr>c_manager := Some owner\<rparr>) req db = (Inl e, db')" and "e \<noteq> Panic"
  shows "\<exists>st. scd_rpc a au x headers c req db = (Failed st, db') \<and>
    myHTTPError st =
      (case err_detail e of
         Some d \<Rightarrow> (409, ConflictBody d)
       | None \<Rightarrow>
           (case err_code e of
              None \<Rightarrow> (500, StandardBody 13)
            | Some co \<Rightarrow>
                if co = MissingOVNs \<or> co = MissingVertiportOVNs then (500, FallbackBody)
                else (http_of_code co, StandardBody (code_num co))))"
proof -
  have "answer_of MissingOVNs (Inl e :: scd_err + scd_response) = Failed (status_of_error MissingOVNs e)"
    using \<open>e \<noteq> Panic\<close> by (cases e) (simp_all add: answer_of_def Interceptor_def)
  then have "scd_rpc a au x headers c req db = (Failed (status_of_error MissingOVNs e), db')"
    by (simp add: scd_rpc_def rpc_def adm run)
  then show ?thesis
    using http_error_detail [of e _ MissingOVNs] http_error_plain [of e MissingOVNs]
    by (auto simp: http_error_def split: option.split)
qed

theorem refused_over_http_witness:
  "\<exists>st d. fst (scd_rpc ex_auth ex_authorizer ex_ext (Some [''Bearer uss2'']) (ex_call ''uss2'' ''s2'' 15)
      (ReqCreateOp ''op2'' (Some (ex_op_params [] ''''))) ex_db1) = Failed st \<and>
    myHTTPError st = (409, ConflictBody d) \<and> map poi_Id (ac_MissingOperationalIntents d) = [''op1'']"
proof -
  let ?c = "ex_call ''uss2'' ''s2'' 15"
  let ?req = "ReqCreateOp ''op2'' (Some (ex_op_params [] ''''))"
  from ex_denied_detail obtain e d where e: "fst ex_denied = Inl e" "err_detail e = Some d"
      "map poi_Id (ac_MissingOperationalIntents d) = [''op1'']"
    by (cases "fst ex_denied") auto
  have c: "?c\<lparr>c_manager := Some ''uss2''\<rparr> = ?c" "c_now ?c = 15000000" by (simp_all add: ex_call_def)
  have run: "scd_serve ex_ext (?c\<lparr>c_manager := Some ''uss2''\<rparr>) ?req ex_db1 = (Inl e, snd ex_denied)"
    unfolding c using e(1) by (metis ex_denied_def prod.collapse)
  have adm: "AuthInterceptor ex_auth (c_now ?c) ex_authorizer (scd_service @ scd_method ?req)
      (Some [''Bearer uss2'']) = (Admitted ''uss2'' :: airspace_conflict admission)"
    unfolding c scd_method.simps by (rule ex_admitted)
  from e(2) have "e \<noteq> Panic" by auto
  from refused_over_http [OF adm run this] e show ?thesis by auto
qed

text \<open>
  A server that has no keys gives a call with a token neither a response nor an error, and
  does not run its handler.
\<close>

theorem no_keys_no_answer:
  assumes "keys au = []" and "getToken headers = Some token"
  shows "scd_rpc a au x headers c req db = (NoAnswer, db) \<and>
    vrp_rpc a au x headers c vreq vdb = (NoAnswer, vdb)"
  using assms by (simp add: scd_rpc_def vrp_rpc_def rpc_def AuthInterceptor_def)

theorem no_keys_no_answer_witness:
  "fst (scd_rpc ex_auth (setKeys ex_authorizer []) ex_ext (Some [''Bearer t''])
    (ex_call ''uss2'' ''s2'' 15) ReqMakeDssReport ex_db0) = NoAnswer"
  using no_keys_no_answer [of "setKeys ex_authorizer []" "Some [''Bearer t'']" "''t''" ex_auth ex_ext
      "ex_call ''uss2'' ''s2'' 15" ReqMakeDssReport ex_db0]
  by (simp add: setKeys_def getToken_def trim_prefix_def)

section \<open>Refinement\<close>

text \<open>
  C28. A request that succeeds does to the operational intents and to the constraints what the
  registry specifies: an entry is created at version 1 when there is none and no OVN is given,
  replaced at the next version by its owner who gives its current OVN, deleted by its owner, and
  left alone by every other request.
\<close>

theorem scd_refines_registries:
  assumes "scd_reachable x db" and "uuid_idem x" and "s2_sound x area"
    and run: "scd_serve x c req db = (Inr r, db')"
  shows "op_event x c req (op_registry x db) = Some (op_registry x db') \<and>
    con_event x c req (con_registry x db) = Some (con_registry x db')"
  using scd_serve_registries [OF scd_reachable_ok [OF assms(1-3)] run] by simp

theorem scd_refines_registries_witness:
  "registry_put ''uss2'' ''op2'' '''' (NewOVNFromTime ex_ext 15000000 ''op2'') (op_registry ex_ext ex_db1) =
     Some (op_registry ex_ext ex_db2) \<and> op_registry ex_ext ex_db2 ''op1'' = Some (''uss1'', 1, ex_ovn1)"
proof -
  from ex_granted obtain r where run: "scd_serve ex_ext (ex_call ''uss2'' ''s2'' 15)
      (ReqCreateOp ''op2'' (Some (ex_op_params [ex_ovn1] ''''))) ex_db1 = (Inr r, ex_db2)"
    unfolding ex_granted_def by (metis isl_def prod.collapse sum.exhaust_sel sum.collapse(2))
  from scd_refines_registries [OF ex_reachable1 ex_uuid_idem ex_s2_sound run] show ?thesis
    by (simp add: put_ref_def row_of_id_def ex_call_def op_registry_def ex_db2_def tbl_get_def
        ex_op_row_def ex_ovn1_def)
qed

end
