(* ===== verification/Rid_Example.thy ===== *)
theory Rid_Example
  imports Rid_Collector Dss_Example
begin

text \<open>
  A small instance of remote ID: a subscription of one manager and areas of others, with the
  libraries of \<open>Dss_Example\<close>. The properties' witnesses run on it.
\<close>

definition exr_volume :: "int \<Rightarrow> int \<Rightarrow> pb_rid_volume4d" where
  "exr_volume b e =
     \<lparr>prv4_SpatialVolume = Some
        \<lparr>prv3_Footprint = Some [\<lparr>pll_Lat = 1, pll_Lng = 1\<rparr>, \<lparr>pll_Lat = 1, pll_Lng = 2\<rparr>, \<lparr>pll_Lat = 2, pll_Lng = 2\<rparr>],
         prv3_AltitudeLo = 0, prv3_AltitudeHi = 100\<rparr>,
      prv4_TimeStart = Some (b, 0), prv4_TimeEnd = Some (e, 0)\<rparr>"

definition exr_isa_params :: "string \<Rightarrow> int \<Rightarrow> int \<Rightarrow> put_isa_params option" where
  "exr_isa_params url b e = Some \<lparr>pip_FlightsUrl = url, pip_Extents = Some (exr_volume b e)\<rparr>"

definition exr_sub_params :: "int \<Rightarrow> int \<Rightarrow> put_rsub_params option" where
  "exr_sub_params b e = Some \<lparr>prp_Callbacks = Some ''https://s'', prp_Extents = Some (exr_volume b e)\<rparr>"

definition exr_db0 :: rid_db where
  "exr_db0 = \<lparr>rdb_isas = [], rdb_subs = []\<rparr>"

text \<open>A subscription, then an area that it is notified of.\<close>

definition exr_db1 :: rid_db where
  "exr_db1 = snd (rid_handle ex_ext (ex_call ''uss1'' '''' 10) ''loc''
     (ReqCreateRSub ''s1'' (exr_sub_params 20 90)) exr_db0)"

definition exr_db2 :: rid_db where
  "exr_db2 = snd (rid_handle ex_ext (ex_call ''uss2'' '''' 11) ''loc''
     (ReqCreateISA ''i1'' (exr_isa_params ''https://a'' 20 30)) exr_db1)"

definition exr_sub_row :: rsub_row where
  "exr_sub_row =
     \<lparr>rsr_owner = ''uss1'', rsr_url = ''https://s'', rsr_notification_index = 0, rsr_cells = [7],
      rsr_starts_at = Some 20000000, rsr_ends_at = Some 90000000, rsr_writer = Some ''loc'',
      rsr_updated_at = 10000000\<rparr>"

definition exr_isa_row :: isa_row where
  "exr_isa_row =
     \<lparr>isr_owner = ''uss2'', isr_url = ''https://a'', isr_cells = [7], isr_starts_at = Some 20000000,
      isr_ends_at = Some 30000000, isr_writer = Some ''loc'', isr_updated_at = 11000000\<rparr>"

lemma exr_db1: "exr_db1 = \<lparr>rdb_isas = [], rdb_subs = [(''s1'', exr_sub_row)]\<rparr>"
  unfolding exr_db1_def exr_sub_row_def by code_simp

lemma exr_db2: "exr_db2 = \<lparr>rdb_isas = [(''i1'', exr_isa_row)], rdb_subs = [(''s1'', bump_rsub exr_sub_row)]\<rparr>"
  unfolding exr_db2_def exr_db1 exr_sub_row_def exr_isa_row_def by code_simp

end
