(* ===== verification/Rid_Properties.thy ===== *)
theory Rid_Properties
  imports Rid_Rpc Rid_Example
begin

text \<open>
  Properties of the remote ID service: who may change its database and how, what subscribers are
  told, the quota, failures, versions, and the garbage collector.
\<close>

section \<open>The example is reachable\<close>

lemma exr_reachable:
  "rid_reachable ex_ext 0 exr_db0" "rid_reachable ex_ext 10000000 exr_db1"
  "rid_reachable ex_ext 11000000 exr_db2"
proof -
  show 0: "rid_reachable ex_ext 0 exr_db0"
    by (rule rid_reachable.init) (simp add: rid_empty_def exr_db0_def)
  have "rid_reachable ex_ext (max 0 (c_now (ex_call ''uss1'' '''' 10))) exr_db1"
    by (rule rid_reachable.request [OF 0, where l = "''loc''" and req = "ReqCreateRSub ''s1'' (exr_sub_params 20 90)"
      and r = "fst (rid_handle ex_ext (ex_call ''uss1'' '''' 10) ''loc''
         (ReqCreateRSub ''s1'' (exr_sub_params 20 90)) exr_db0)"]) (simp only: exr_db1_def prod.collapse)
  then show 1: "rid_reachable ex_ext 10000000 exr_db1" by (simp add: ex_call_def)
  have "rid_reachable ex_ext (max 10000000 (c_now (ex_call ''uss2'' '''' 11))) exr_db2"
    by (rule rid_reachable.request [OF 1, where l = "''loc''" and req = "ReqCreateISA ''i1'' (exr_isa_params ''https://a'' 20 30)"
      and r = "fst (rid_handle ex_ext (ex_call ''uss2'' '''' 11) ''loc''
         (ReqCreateISA ''i1'' (exr_isa_params ''https://a'' 20 30)) exr_db1)"]) (simp only: exr_db2_def prod.collapse)
  then show "rid_reachable ex_ext 11000000 exr_db2" by (simp add: ex_call_def)
qed

section \<open>Who may change what\<close>

lemma rid_handle_isas:
  assumes "rdb_isas (snd (rid_handle x c l req db)) \<noteq> rdb_isas db" and idem: "uuid_idem x"
  shows "rid_scope req = ISA_Write"
proof (cases req)
  case (ReqCreateRSub i p)
  have "rdb_isas (snd (app_InsertSubscription x c s db)) = rdb_isas db" for s
    using snd_app_Insert(2) [of x c s db] by (auto elim!: insert_rsub_action_Inr)
  with assms(1) ReqCreateRSub show ?thesis
    by (simp add: rid_CreateSubscription_def snd_rid_serve split: sum.splits)
next
  case (ReqUpdateRSub i v p)
  have "rdb_isas (snd (rid_transact (update_rsub_action x c s) db)) = rdb_isas db" for s
  proof (cases "update_rsub_action x c s db")
    case (Inr r)
    obtain q db' where r: "r = (q, db')" by (cases r)
    from Inr have "rdb_isas db' = rdb_isas db" unfolding r
    proof (rule update_rsub_action_Inr)
      fix uid old s'
      assume uid: "x_pg_uuid x (rs_ID s) = Some uid" "tbl_get (rdb_subs db) uid = Some old"
        and adj: "RidSubscription_AdjustTimeRange (c_now c) s (Some (fetch_rsub (uid, old))) = (Inr s' :: rid_err + _)"
        and upd: "rid_UpdateSubscription x (c_txn c) s' db = Inr (q, db')"
      from adj have "rs_ID s' = rs_ID s" by (auto elim!: RidSubscription_AdjustTimeRange_Inr)
      with rid_UpdateSubscription_Inr [OF upd _ uid(2)] uid(1) show ?thesis by simp
    qed
    with Inr r show ?thesis by (simp add: snd_rid_transact)
  qed (simp add: snd_rid_transact)
  with assms(1) ReqUpdateRSub show ?thesis
    by (simp add: rid_UpdateSubscription_handler_def snd_rid_serve split: sum.splits)
next
  case (ReqDeleteRSub i v)
  have "rdb_isas (snd (rid_transact (delete_rsub_action x c q) db)) = rdb_isas db" for q
    using idem by (cases q) (auto simp: snd_rid_transact elim!: delete_rsub_action_Inr split: sum.split)
  with assms(1) ReqDeleteRSub show ?thesis
    by (simp add: rid_DeleteSubscription_handler_def snd_rid_serve split: sum.splits)
qed (use assms(1) in \<open>simp_all add: GetIdentificationServiceArea_def SearchIdentificationServiceAreas_def
  rid_GetSubscription_handler_def rid_SearchSubscriptions_handler_def snd_rid_serve
  pure_transact pure_intros split: sum.splits prod.splits\<close>)

text \<open>
  C29. A call that changes the remote ID database carries a token that verifies under one of the
  server's keys, names a subject and an accepted audience, and has the scope of the method; it
  changes service areas only with the scope for writing them. No row of another manager than
  the subject is added, removed or changed, apart from notification indices.
\<close>

theorem rid_changes_authorized:
  assumes "rid_reachable x t db" and "uuid_idem x"
    and scopes: "scopesValidators au = core_scopes scd vrp"
    and run: "rid_rpc a au x l headers c req db = (res, db')" and "db' \<noteq> db"
  shows "\<exists>token key cl. getToken headers = Some token \<and> key \<in> set (keys au) \<and>
    parse_with_claims a (c_now c) token key = Some cl \<and> Subject cl \<noteq> '''' \<and>
    Audience cl \<in> acceptedAudiences au \<and> rid_scope req \<in> Scopes cl \<and>
    (rdb_isas db' \<noteq> rdb_isas db \<longrightarrow> ISA_Write \<in> Scopes cl) \<and>
    (\<forall>m. m \<noteq> Subject cl \<longrightarrow> rid_rows_kept m db db')"
proof -
  from run \<open>db' \<noteq> db\<close> obtain owner where
    adm: "AuthInterceptor a (c_now c) au (rid_service @ rid_method req) headers =
      (Admitted owner :: unit admission)"
    and db': "db' = snd (ValidationInterceptor x (rid_GetId req)
      (rid_handle x (c\<lparr>c_manager := Some owner\<rparr>) l req) db)"
    unfolding rid_rpc_def by (elim rpc_admitted) auto
  from db' \<open>db' \<noteq> db\<close> have db': "db' = snd (rid_handle x (c\<lparr>c_manager := Some owner\<rparr>) l req db)"
    by (auto simp: ValidationInterceptor_def split: sum.splits)
  from adm obtain token k cl where cl: "getToken headers = Some token" "k \<in> set (keys au)"
    "parse_with_claims a (c_now c) token k = Some cl" "Subject cl = owner"
    "Audience cl \<in> acceptedAudiences au" "grants (RequireAllScopes [rid_scope req]) (Scopes cl)"
    by (rule AuthInterceptor_Admitted) (simp add: scopes rid_validator)
  have "Subject cl \<noteq> ''''"
    using parse_with_claims_Some [OF cl(3)] by (auto simp: claims_Valid_def split: if_splits)
  moreover have "rid_rows_kept m db db'" if "m \<noteq> owner" for m
  proof -
    have "rid_commits x (c\<lparr>c_manager := Some owner\<rparr>) db db'"
      using rid_handle_commits [of x "c\<lparr>c_manager := Some owner\<rparr>" db l req] \<open>db' \<noteq> db\<close>
      by (simp add: db')
    then show ?thesis
      by (rule rid_commits_rows [OF _ rid_reachable_ok [OF assms(1,2)] assms(2)]) (use that in simp)
  qed
  moreover have "rid_scope req = ISA_Write" if "rdb_isas db' \<noteq> rdb_isas db"
    using that rid_handle_isas [OF _ assms(2)] by (simp add: db')
  ultimately show ?thesis using cl by (intro exI [of _ token] exI [of _ k] exI [of _ cl]) auto
qed

definition exr_auth :: "string auth_ext" where
  "exr_auth = \<lparr>jwt_verify = (\<lambda>token k. if k = ''key'' then
       Some \<lparr>tc_Subject = token, tc_Issuer = ''issuer'', tc_Audience = ''dss'', tc_ExpiresAt = 100,
         tc_IssuedAt = 0, tc_NotBefore = 0, tc_scope = Some ''dss.write.identification_service_areas''\<rparr> else None),
     jwt_standard_valid = (\<lambda>t c. True), json_string = Some\<rparr>"

definition exr_authorizer :: "string authorizer" where
  "exr_authorizer = NewRSAAuthorizer [''other'', ''key''] (core_scopes True True) [''dss'']"

lemma exr_admitted:
  "AuthInterceptor exr_auth 11000000 exr_authorizer (rid_service @ ''CreateIdentificationServiceArea'')
     (Some [''Bearer uss2'']) = (Admitted ''uss2'' :: unit admission)"
  unfolding exr_authorizer_def NewRSAAuthorizer_def by code_simp

theorem rid_changes_authorized_witness:
  "\<exists>key cl. parse_with_claims exr_auth 11000000 ''uss2'' key = Some cl \<and> ISA_Write \<in> Scopes cl \<and>
     (\<forall>m. m \<noteq> Subject cl \<longrightarrow> rid_rows_kept m exr_db1 exr_db2)"
proof -
  let ?c = "ex_call ''uss1'' '''' 11"
  let ?req = "ReqCreateISA ''i1'' (exr_isa_params ''https://a'' 20 30)"
  let ?r = "rid_rpc exr_auth exr_authorizer ex_ext ''loc'' (Some [''Bearer uss2'']) ?c ?req exr_db1"
  have c: "?c\<lparr>c_manager := Some ''uss2''\<rparr> = ex_call ''uss2'' '''' 11" "c_now ?c = 11000000"
    by (simp_all add: ex_call_def)
  have snd: "snd ?r = exr_db2"
    unfolding rid_rpc_def rpc_def c
    by (simp add: c exr_admitted ValidationInterceptor_def ValidateUUID_def exr_db2_def
        del: rid_handle.simps split: prod.split)
  have run: "?r = (fst ?r, exr_db2)" using snd by (metis prod.collapse)
  have ne: "exr_db2 \<noteq> exr_db1" by (simp add: exr_db2 exr_db1)
  have auth: "scopesValidators exr_authorizer = core_scopes True True"
    by (simp add: exr_authorizer_def NewRSAAuthorizer_def)
  from rid_changes_authorized [OF exr_reachable(2) ex_uuid_idem auth run ne]
  show ?thesis by (auto simp: getToken_def trim_prefix_def ex_call_def)
qed

section \<open>Bounds\<close>

lemma ends_from_iff: "ends_from e t \<longleftrightarrow> (\<exists>e'. e = Some e' \<and> t \<le> e')"
  by (auto simp: ends_from_def split: option.split)

lemma isa_row_ok_iff: "isa_row_ok x r \<longleftrightarrow>
    (\<exists>b e. isr_starts_at r = Some b \<and> isr_ends_at r = Some e \<and> b < e) \<and>
    isr_cells r \<noteq> [] \<and> (\<forall>c \<in> set (isr_cells r). s2_cell_level x c = 13)"
  by (auto simp: isa_row_ok_def valid_cells_def list_all_iff times_ordered_def split: option.splits)

lemma rsub_row_ok_iff: "rsub_row_ok x r \<longleftrightarrow>
    (\<exists>b e. rsr_starts_at r = Some b \<and> rsr_ends_at r = Some e \<and> b < e \<and> e - b \<le> 86400000000) \<and>
    rsr_cells r \<noteq> [] \<and> (\<forall>c \<in> set (rsr_cells r). s2_cell_level x c = 13) \<and>
    0 \<le> rsr_notification_index r \<and> rsr_notification_index r < 2 ^ 31"
  by (auto simp: rsub_row_ok_def valid_cells_def list_all_iff times_ordered_def at_most_a_day_def
      split: option.splits)

text \<open>
  C30. In every reachable state, from the latest instant of a clock on, no owner has more than
  ten subscriptions that have not ended in any cell.
\<close>

theorem subscription_quota:
  assumes "rid_reachable x t db" and "uuid_idem x" and "t \<le> now"
  shows "card {k. \<exists>r e. tbl_get (rdb_subs db) k = Some r \<and> rsr_owner r = owner \<and>
    cl \<in> set (rsr_cells r) \<and> rsr_ends_at r = Some e \<and> now \<le> e} \<le> 10"
proof -
  let ?p = "occupies owner now cl"
  have wf: "tbl_wf (rdb_subs db)"
    using rid_reachable_ok [OF assms(1,2)] by (simp add: rid_ok_def rows_ok_def)
  have "{k. \<exists>r e. tbl_get (rdb_subs db) k = Some r \<and> rsr_owner r = owner \<and>
      cl \<in> set (rsr_cells r) \<and> rsr_ends_at r = Some e \<and> now \<le> e} =
    set (map fst (tbl_select ?p (rdb_subs db)))"
    by (auto simp: tbl.set_select [OF wf] image_iff occupies_def ends_from_iff)
  moreover have "int (length (tbl_select ?p (rdb_subs db))) \<le> 10"
    using within_quota_later [OF rid_reachable_quota [OF assms(1,2)] assms(3)]
    by (simp add: within_quota_def maxSubscriptionsPerArea_def)
  ultimately show ?thesis using card_length [of "map fst (tbl_select ?p (rdb_subs db))"] by simp
qed

theorem subscription_quota_witness:
  "card {k. \<exists>r e. tbl_get (rdb_subs exr_db2) k = Some r \<and> rsr_owner r = ''uss1'' \<and>
    7 \<in> set (rsr_cells r) \<and> rsr_ends_at r = Some e \<and> 11000000 \<le> e} \<le> 10"
  using subscription_quota [OF exr_reachable(3) ex_uuid_idem, of 11000000 "''uss1''" 7] by simp

text \<open>
  C31. In every reachable state a service area and a subscription begin before they end and have
  cells, all of level 13; a subscription lasts at most 24 hours, and its notification index is
  neither negative nor beyond its column.
\<close>

theorem rid_rows_bounded:
  assumes "rid_reachable x t db" and "uuid_idem x"
  shows "(\<forall>k r. tbl_get (rdb_isas db) k = Some r \<longrightarrow>
      (\<exists>b e. isr_starts_at r = Some b \<and> isr_ends_at r = Some e \<and> b < e) \<and>
      isr_cells r \<noteq> [] \<and> (\<forall>c \<in> set (isr_cells r). s2_cell_level x c = 13)) \<and>
    (\<forall>k r. tbl_get (rdb_subs db) k = Some r \<longrightarrow>
      (\<exists>b e. rsr_starts_at r = Some b \<and> rsr_ends_at r = Some e \<and> b < e \<and> e - b \<le> 86400000000) \<and>
      rsr_cells r \<noteq> [] \<and> (\<forall>c \<in> set (rsr_cells r). s2_cell_level x c = 13) \<and>
      0 \<le> rsr_notification_index r \<and> rsr_notification_index r < 2 ^ 31)"
  using rid_reachable_ok [OF assms]
  by (simp add: rid_ok_def rows_ok_def isa_row_ok_iff rsub_row_ok_iff)

theorem rid_rows_bounded_witness:
  "\<exists>b e. rsr_starts_at exr_sub_row = Some b \<and> rsr_ends_at exr_sub_row = Some e \<and> b < e \<and> e - b \<le> 86400000000"
proof -
  have "tbl_get (rdb_subs exr_db1) ''s1'' = Some exr_sub_row" by (simp add: exr_db1 tbl_get_def)
  with rid_rows_bounded [OF exr_reachable(2) ex_uuid_idem] show ?thesis by blast
qed

section \<open>Updates of service areas\<close>

lemma VersionFromString_Inr: "VersionFromString s = Inr v \<Longrightarrow> ver_s v = s"
  by (auto simp: VersionFromString_def tx_inv split: option.splits)

lemma ISA_ToProto_Inr: "ISA_ToProto x i = Inr p \<Longrightarrow>
    pisa_Id p = isa_ID i \<and> pisa_Owner p = isa_Owner i \<and> pisa_Version p = Version_String (isa_Version i)"
  by (auto simp: ISA_ToProto_def tx_inv)

lemma update_isa_run:
  assumes "UpdateIdentificationServiceArea x c l i v (Some p) db = (Inr resp, db')"
  obtains q uid old row where
    "c_manager c = Some (isr_owner old)" "x_uuid_parse x i = Some q" "x_pg_uuid x q = Some uid"
    "tbl_get (rdb_isas db) uid = Some old"
    "v = Version_String (Some (VersionFromTime (isr_updated_at old)))"
    "rdb_isas db' = tbl_upsert uid row (rdb_isas db)"
    "isr_owner row = isr_owner old" "isr_url row = pip_FlightsUrl p" "isr_writer row = Some l"
    "isr_updated_at row = c_txn c" "times_ordered (isr_starts_at row) (isr_ends_at row)"
    "ISA_ToProto x (fetch_isa (uid, row)) = (Inr (pir_ServiceArea resp) :: rid_err + _)"
proof -
  from assms obtain q r subs where
    valid: "validate_update_isa x c l i v (Some p) = Inr q" and
    act: "update_isa_action x c q db = Inr ((r, subs), db')" and
    resp: "isa_response x q (r, subs) db' = Inr resp"
    by (auto simp: UpdateIdentificationServiceArea_def rid_serve_Inr rid_transact_Inr)
  from valid obtain ver where
    q: "c_manager c = Some (isa_Owner q)" "isa_Version q = Some ver" "x_uuid_parse x i = Some (isa_ID q)"
      "isa_URL q = pip_FlightsUrl p" "isa_Writer q = l" and v: "ver_s ver = v"
    by (auto simp: validate_update_isa_def tx_inv dest!: ISA_SetExtents_Inr VersionFromString_Inr)
  from act show thesis
  proof (rule update_isa_action_Inr)
    fix uid old i' s1
    assume uid: "x_pg_uuid x (isa_ID q) = Some uid" and old: "tbl_get (rdb_isas db) uid = Some old"
      and own: "isr_owner old = isa_Owner q"
      and match: "Version_Matches (Some (VersionFromTime (isr_updated_at old))) (isa_Version q)"
      and adj: "ISA_AdjustTimeRange (c_now c) q (Some (fetch_isa (uid, old))) = (Inr i' :: rid_err + _)"
      and upd: "rid_UpdateISA x (c_txn c) i' db = Inr (r, s1)"
      and db': "db' = s1\<lparr>rdb_subs := notified (Levelify x (s2_union x (isr_cells old) (isa_Cells i')))
        (c_now c) (rdb_subs db)\<rparr>"
    from adj obtain b e where i': "i' = q\<lparr>isa_StartTime := Some b, isa_EndTime := Some e\<rparr>"
      by (rule ISA_AdjustTimeRange_Inr)
    let ?row = "(isa_row_of (c_txn c) i')\<lparr>isr_owner := isr_owner old\<rparr>"
    from resp have "r \<noteq> None" by (auto simp: isa_response_def tx_inv)
    with rid_UpdateISA_Inr [OF upd _ old] uid i' have
      row: "rdb_isas s1 = tbl_upsert uid ?row (rdb_isas db)" "r = Some (fetch_isa (uid, ?row))"
        "rid_row_check (Some b) (Some e) (isa_Cells q)" by auto
    from resp row(2) have "ISA_ToProto x (fetch_isa (uid, ?row)) = (Inr (pir_ServiceArea resp) :: rid_err + _)"
      by (auto simp: isa_response_def tx_inv)
    with row uid old own q match v show thesis
      by (intro that [of old "isa_ID q" uid ?row])
        (auto simp: db' i' Version_Matches_def Version_String_def isa_row_of_def dest: rid_row_check_Some)
  qed
qed

text \<open>
  C32. An update of a service area that succeeds was made by the owner of the area and names the
  version of the row at that moment; it writes this row and no other, with the owner it had, the
  URL, the locality of the instance and the time stamp of the transaction, and the response shows
  the version that this time stamp stands for.
\<close>

theorem isa_update_guarded:
  assumes run: "UpdateIdentificationServiceArea x c l i v (Some p) db = (Inr resp, db')"
  shows "\<exists>q uid old row. x_uuid_parse x i = Some q \<and> x_pg_uuid x q = Some uid \<and>
    tbl_get (rdb_isas db) uid = Some old \<and> c_manager c = Some (isr_owner old) \<and>
    v = Version_String (Some (VersionFromTime (isr_updated_at old))) \<and>
    tbl_get (rdb_isas db') = (tbl_get (rdb_isas db))(uid \<mapsto> row) \<and>
    isr_owner row = isr_owner old \<and> isr_url row = pip_FlightsUrl p \<and> isr_writer row = Some l \<and>
    isr_updated_at row = c_txn c \<and> times_ordered (isr_starts_at row) (isr_ends_at row) \<and>
    pisa_Id (pir_ServiceArea resp) = uid \<and>
    pisa_Version (pir_ServiceArea resp) = Version_String (Some (VersionFromTime (c_txn c)))"
proof -
  from run obtain q uid old row where row:
    "c_manager c = Some (isr_owner old)" "x_uuid_parse x i = Some q" "x_pg_uuid x q = Some uid"
    "tbl_get (rdb_isas db) uid = Some old"
    "v = Version_String (Some (VersionFromTime (isr_updated_at old)))"
    "rdb_isas db' = tbl_upsert uid row (rdb_isas db)"
    "isr_owner row = isr_owner old" "isr_url row = pip_FlightsUrl p" "isr_writer row = Some l"
    "isr_updated_at row = c_txn c" "times_ordered (isr_starts_at row) (isr_ends_at row)"
    "ISA_ToProto x (fetch_isa (uid, row)) = (Inr (pir_ServiceArea resp) :: rid_err + _)"
    by (rule update_isa_run)
  from row(12) have "pisa_Id (pir_ServiceArea resp) = uid"
    "pisa_Version (pir_ServiceArea resp) = Version_String (Some (VersionFromTime (isr_updated_at row)))"
    by (auto dest: ISA_ToProto_Inr)
  with row show ?thesis
    by (intro exI [of _ q] exI [of _ uid] exI [of _ old] exI [of _ row]) (simp add: tbl.get_upsert)
qed

definition exr_update :: "string \<Rightarrow> int \<Rightarrow> rid_db \<Rightarrow> (rid_err + put_isa_response) \<times> rid_db" where
  "exr_update url t = UpdateIdentificationServiceArea ex_ext (ex_call ''uss2'' '''' t) ''loc'' ''i1''
     (FormatUint (UnixNano 11000000)) (exr_isa_params url 20 30)"

definition exr_db3 :: rid_db where
  "exr_db3 = \<lparr>rdb_isas = [(''i1'', exr_isa_row\<lparr>isr_url := ''https://b'', isr_updated_at := 12000000\<rparr>)],
     rdb_subs = [(''s1'', bump_rsub (bump_rsub exr_sub_row))]\<rparr>"

lemma exr_updated: "\<exists>resp. exr_update ''https://b'' 12 exr_db2 = (Inr resp, exr_db3)"
proof -
  have "\<not> isl (fst (exr_update ''https://b'' 12 exr_db2)) \<and> snd (exr_update ''https://b'' 12 exr_db2) = exr_db3"
    unfolding exr_db2 exr_db3_def exr_isa_row_def exr_sub_row_def by code_simp
  then show ?thesis
    by (cases "exr_update ''https://b'' 12 exr_db2"; cases "fst (exr_update ''https://b'' 12 exr_db2)") auto
qed

theorem isa_update_guarded_witness:
  "\<exists>row. tbl_get (rdb_isas exr_db3) = (tbl_get (rdb_isas exr_db2))(''i1'' \<mapsto> row) \<and>
     isr_updated_at row = 12000000 \<and> isr_owner row = ''uss2''"
proof -
  obtain resp where "UpdateIdentificationServiceArea ex_ext (ex_call ''uss2'' '''' 12) ''loc'' ''i1''
      (FormatUint (UnixNano 11000000)) (Some \<lparr>pip_FlightsUrl = ''https://b'', pip_Extents = Some (exr_volume 20 30)\<rparr>)
      exr_db2 = (Inr resp, exr_db3)"
    using exr_updated by (auto simp: exr_update_def exr_isa_params_def)
  from isa_update_guarded [OF this] show ?thesis
    by (auto simp: ex_call_def exr_db2 exr_isa_row_def tbl_get_def)
qed

text \<open>
  C33. Of two updates of a service area that name the same version, the second never succeeds
  after the first, so that no update is lost, as long as the time stamp of the first transaction
  differs from the one before it.
\<close>

theorem no_lost_update:
  assumes first: "UpdateIdentificationServiceArea x c l i v (Some p) db = (Inr resp, db')"
    and "tbl_wf (rdb_isas db)"
    and nano: "nano_range (c_txn c)" "\<And>k r. tbl_get (rdb_isas db) k = Some r \<Longrightarrow>
      nano_range (isr_updated_at r) \<and> isr_updated_at r \<noteq> c_txn c"
  shows "\<exists>e. UpdateIdentificationServiceArea x c' l' i v p' db' = (Inl e, db')"
proof -
  from first obtain q uid old row where q: "x_uuid_parse x i = Some q" "x_pg_uuid x q = Some uid"
    and old: "tbl_get (rdb_isas db) uid = Some old"
    and v: "v = Version_String (Some (VersionFromTime (isr_updated_at old)))"
    and db': "rdb_isas db' = tbl_upsert uid row (rdb_isas db)" and row: "isr_updated_at row = c_txn c"
    by (rule update_isa_run)
  have stale: "\<not> Version_Matches (Some (VersionFromTime (c_txn c))) (Some ver)"
    if "VersionFromString v = (Inr ver :: rid_err + _)" for ver
    using VersionFromString_Inr [OF that] nano(1) nano(2) [OF old]
      UnixNano_inj [of "c_txn c" "isr_updated_at old"]
    by (auto simp: v Version_Matches_def Version_String_def VersionFromTime_def FormatUint_inj)
  show ?thesis
  proof (cases "validate_update_isa x c' l' i v p' :: rid_err + _")
    case (Inr q')
    then obtain ver where "VersionFromString v = (Inr ver :: rid_err + _)" "isa_Version q' = Some ver"
      "x_uuid_parse x i = Some (isa_ID q')" by (rule validate_update_isa_Inr)
    with q stale row db' have "\<not> (\<exists>r. update_isa_action x c' q' db' = Inr r)"
      by (auto elim!: update_isa_action_Inr simp: tbl_laws)
    then obtain e where "update_isa_action x c' q' db' = Inl e" by (cases "update_isa_action x c' q' db'") auto
    with Inr show ?thesis
      by (simp add: UpdateIdentificationServiceArea_def rid_serve_def rid_transact_def rid_finish_def)
  qed (simp add: UpdateIdentificationServiceArea_def rid_serve_def)
qed

theorem no_lost_update_witness:
  "\<exists>e. exr_update ''https://c'' 13 exr_db3 = (Inl e, exr_db3)"
proof -
  obtain resp where "UpdateIdentificationServiceArea ex_ext (ex_call ''uss2'' '''' 12) ''loc'' ''i1''
      (FormatUint (UnixNano 11000000)) (Some \<lparr>pip_FlightsUrl = ''https://b'', pip_Extents = Some (exr_volume 20 30)\<rparr>)
      exr_db2 = (Inr resp, exr_db3)"
    using exr_updated by (auto simp: exr_update_def exr_isa_params_def)
  then show ?thesis
    unfolding exr_update_def
    by (rule no_lost_update)
      (auto simp: exr_db2 tbl_wf_def tbl_get_def exr_isa_row_def nano_range_def ex_call_def split: if_splits)
qed

end
