(* ===== verification/Rid_Behaviour.thy ===== *)
theory Rid_Behaviour
  imports Rid_Properties
begin

text \<open>
  Properties of the remote ID service, continued: what subscribers are told, failed requests,
  the index of an updated subscription, areas that are created and deleted again, and the
  garbage collector.
\<close>

section \<open>Notifications\<close>

lemma rsub_matches_iff: "rsub_matches cs now r \<longleftrightarrow>
    (\<exists>cl \<in> set (rsr_cells r). cl \<in> set cs) \<and> (\<exists>e. rsr_ends_at r = Some e \<and> now \<le> e)"
  by (auto simp: rsub_matches_def cells_overlap_iff ends_from_iff)

lemma x_returning_keys: "orders_ok x \<Longrightarrow> set (x_returning x ks) = set ks \<and> length (x_returning x ks) = length ks"
  by (metis orders_ok_def set_mset_mset size_mset)

lemma map_filter_Some: "(\<And>k. k \<in> set ks \<Longrightarrow> f k = Some (g k)) \<Longrightarrow> List.map_filter f ks = map g ks"
  by (induction ks) (simp_all add: List.map_filter_simps)

lemma notified_subs_keys:
  assumes wf: "tbl_wf t" and "orders_ok x"
  shows "set (notified_subs x cs now t) =
      {fetch_rsub (k, bump_rsub r) | k r. tbl_get t k = Some r \<and> rsub_matches cs now r}" (is ?set)
    and "length (notified_subs x cs now t) = card {k. \<exists>r. tbl_get t k = Some r \<and> rsub_matches cs now r}" (is ?len)
proof -
  let ?ks = "map fst (tbl_select (rsub_matches cs now) t)"
  let ?g = "\<lambda>k. fetch_rsub (k, bump_rsub (the (tbl_get t k)))"
  have ks: "set ?ks = {k. \<exists>r. tbl_get t k = Some r \<and> rsub_matches cs now r}"
    by (auto simp: tbl.set_select [OF wf] image_iff)
  have eq: "notified_subs x cs now t = map ?g (x_returning x ?ks)"
    unfolding notified_subs_def
    by (rule map_filter_Some) (use ks x_returning_keys [OF assms(2), of ?ks] in \<open>auto simp: notified_get [OF wf]\<close>)
  show ?set
    unfolding eq using ks x_returning_keys [OF assms(2), of ?ks] by (auto simp: image_iff) force+
  have "length (notified_subs x cs now t) = length ?ks"
    unfolding eq using x_returning_keys [OF assms(2), of ?ks] by simp
  also have "\<dots> = card (set ?ks)" by (rule distinct_card [symmetric]) (rule tbl.distinct_select [OF wf])
  finally show ?len unfolding ks .
qed

lemma app_Insert_Inr:
  "app_InsertISA x c q db = (Inr a, db') \<longleftrightarrow>
     (\<exists>i'. ISA_AdjustTimeRange (c_now c) q None = (Inr i' :: rid_err + _) \<and>
        insert_isa_action x c i' db = Inr (a, db'))"
  "app_InsertSubscription x c s db = (Inr r, db') \<longleftrightarrow>
     (\<exists>s'. RidSubscription_AdjustTimeRange (c_now c) s None = (Inr s' :: rid_err + _) \<and>
        insert_rsub_action x c s' db = Inr (r, db'))"
  by (auto simp: app_InsertISA_def app_InsertSubscription_def rid_transact_Inr split: sum.splits)

text \<open>
  C34. When a service area is created, exactly the subscriptions that share a cell with it and
  have not ended are notified: their notification index grows by one, the other subscriptions are
  as they were, and the response lists each of them once, with its URL and its new index.
\<close>

theorem isa_notifies_overlapping:
  assumes run: "CreateIdentificationServiceArea x c l i p db = (Inr resp, db')"
    and "orders_ok x" and wf: "tbl_wf (rdb_subs db)"
  shows "\<exists>uid row hit. tbl_get (rdb_isas db) uid = None \<and>
    tbl_get (rdb_isas db') = (tbl_get (rdb_isas db))(uid \<mapsto> row) \<and>
    hit = (\<lambda>r. (\<exists>cl \<in> set (rsr_cells r). cl \<in> set (isr_cells row)) \<and>
      (\<exists>e. rsr_ends_at r = Some e \<and> c_now c \<le> e)) \<and>
    (\<forall>k. tbl_get (rdb_subs db') k = map_option (\<lambda>r. if hit r
       then r\<lparr>rsr_notification_index := rsr_notification_index r + 1\<rparr> else r) (tbl_get (rdb_subs db) k)) \<and>
    set (pir_Subscribers resp) =
      {\<lparr>prn_Url = rsr_url r, prn_Subscriptions = [(k, word_of_int (rsr_notification_index r + 1))]\<rparr> | k r.
         tbl_get (rdb_subs db) k = Some r \<and> hit r} \<and>
    length (pir_Subscribers resp) = card {k. \<exists>r. tbl_get (rdb_subs db) k = Some r \<and> hit r}"
proof -
  from run obtain q i' r subs where adj: "ISA_AdjustTimeRange (c_now c) q None = (Inr i' :: rid_err + _)"
    and act: "insert_isa_action x c i' db = Inr ((r, subs), db')"
    and resp: "isa_response x q (r, subs) db' = Inr resp"
    by (auto simp: CreateIdentificationServiceArea_def rid_serve_Inr app_Insert_Inr)
  from resp have subs: "pir_Subscribers resp = map RidSubscription_ToNotifyProto subs"
    by (auto simp: isa_response_def tx_inv)
  from act show ?thesis
  proof (rule insert_isa_action_Inr)
    fix uid
    let ?row = "isa_row_of (c_txn c) i'" and ?hit = "rsub_matches (isa_Cells i') (c_now c)"
    assume none: "tbl_get (rdb_isas db) uid = None"
      and db': "db' = db\<lparr>rdb_subs := notified (isa_Cells i') (c_now c) (rdb_subs db),
           rdb_isas := tbl_upsert uid ?row (rdb_isas db)\<rparr>"
      and s: "subs = notified_subs x (isa_Cells i') (c_now c) (rdb_subs db)"
    have "set (pir_Subscribers resp) =
      {\<lparr>prn_Url = rsr_url r, prn_Subscriptions = [(k, word_of_int (rsr_notification_index r + 1))]\<rparr> | k r.
         tbl_get (rdb_subs db) k = Some r \<and> ?hit r}"
      unfolding subs set_map s notified_subs_keys [OF wf assms(2)]
      by (auto simp: RidSubscription_ToNotifyProto_def image_iff) force
    moreover have "length (pir_Subscribers resp) = card {k. \<exists>r. tbl_get (rdb_subs db) k = Some r \<and> ?hit r}"
      unfolding subs length_map s notified_subs_keys [OF wf assms(2)] ..
    ultimately show ?thesis
      using none
      by (intro exI [of _ uid] exI [of _ ?row] exI [of _ ?hit])
        (simp add: db' tbl.get_upsert notified_get [OF wf] bump_rsub_def [abs_def] fun_eq_iff rsub_matches_iff
          cong: if_cong)
  qed
qed

lemma exr_created: "\<exists>resp. CreateIdentificationServiceArea ex_ext (ex_call ''uss2'' '''' 11) ''loc'' ''i1''
    (exr_isa_params ''https://a'' 20 30) exr_db1 = (Inr resp, exr_db2)"
proof -
  let ?r = "CreateIdentificationServiceArea ex_ext (ex_call ''uss2'' '''' 11) ''loc'' ''i1''
    (exr_isa_params ''https://a'' 20 30) exr_db1"
  have "\<not> isl (fst ?r)" unfolding exr_db1 exr_sub_row_def by code_simp
  moreover have "snd ?r = exr_db2" by (simp only: exr_db2_def rid_handle.simps snd_respond)
  ultimately show ?thesis by (metis prod.collapse sum.collapse(2))
qed

theorem isa_notifies_overlapping_witness:
  "\<exists>resp. CreateIdentificationServiceArea ex_ext (ex_call ''uss2'' '''' 11) ''loc'' ''i1''
      (exr_isa_params ''https://a'' 20 30) exr_db1 = (Inr resp, exr_db2) \<and>
    length (pir_Subscribers resp) \<le> 1"
proof -
  obtain resp where run: "CreateIdentificationServiceArea ex_ext (ex_call ''uss2'' '''' 11) ''loc'' ''i1''
    (exr_isa_params ''https://a'' 20 30) exr_db1 = (Inr resp, exr_db2)"
    using exr_created by blast
  have "tbl_wf (rdb_subs exr_db1)" by (simp add: exr_db1 tbl_wf_def)
  from isa_notifies_overlapping [OF run ex_orders_ok this]
  obtain hit where "length (pir_Subscribers resp) = card {k. \<exists>r. tbl_get (rdb_subs exr_db1) k = Some r \<and> hit r}"
    by (elim exE conjE) (rule that)
  moreover have "{k. \<exists>r. tbl_get (rdb_subs exr_db1) k = Some r \<and> hit r} \<subseteq> {''s1''}"
    by (auto simp: exr_db1 tbl_get_def split: if_splits)
  then have "card {k. \<exists>r. tbl_get (rdb_subs exr_db1) k = Some r \<and> hit r} \<le> 1"
    using card_mono [of "{''s1''}"] by fastforce
  ultimately show ?thesis using run by auto
qed

section \<open>Failed requests\<close>

text \<open>The times of the rows can be written into messages.\<close>

definition encodable :: "ext \<Rightarrow> time option \<Rightarrow> bool" where
  "encodable x t \<longleftrightarrow> (\<forall>t'. t = Some t' \<longrightarrow> x_pb_of_ts x t' \<noteq> None)"

definition rid_encodable :: "ext \<Rightarrow> rid_db \<Rightarrow> bool" where
  "rid_encodable x db \<longleftrightarrow>
     (\<forall>k r. tbl_get (rdb_isas db) k = Some r \<longrightarrow> encodable x (isr_starts_at r) \<and> encodable x (isr_ends_at r)) \<and>
     (\<forall>k r. tbl_get (rdb_subs db) k = Some r \<longrightarrow> encodable x (rsr_starts_at r) \<and> encodable x (rsr_ends_at r))"

lemma rid_time_to_proto_ok: "encodable x t \<Longrightarrow> \<exists>p. rid_time_to_proto x t = (Inr p :: rid_err + _)"
  by (auto simp: encodable_def rid_time_to_proto_def split: option.split)

lemma ISA_ToProto_ok:
  "encodable x (isa_StartTime i) \<Longrightarrow> encodable x (isa_EndTime i) \<Longrightarrow> \<exists>p. ISA_ToProto x i = (Inr p :: rid_err + _)"
  by (auto simp: ISA_ToProto_def sbind_def dest!: rid_time_to_proto_ok)

lemma RidSubscription_ToProto_ok:
  "encodable x (rs_StartTime s) \<Longrightarrow> encodable x (rs_EndTime s) \<Longrightarrow> \<exists>p. RidSubscription_ToProto x s = (Inr p :: rid_err + _)"
  by (auto simp: RidSubscription_ToProto_def sbind_def dest!: rid_time_to_proto_ok)

lemma smap_ok: "(\<And>a. a \<in> set as \<Longrightarrow> \<exists>b. f a = Inr b) \<Longrightarrow> \<exists>bs. smap f as = Inr bs"
  by (induction as) (fastforce simp: sbind_def split: sum.split)+

lemma isa_answers:
  assumes "rid_encodable x db" and "tbl_get (rdb_isas db) k = Some r"
  shows "\<exists>resp. isa_response x q (Some (fetch_isa (k, r)), subs) d = Inr resp"
  using ISA_ToProto_ok [of x "fetch_isa (k, r)"] assms
  by (auto simp: rid_encodable_def isa_response_def sbind_def sderef_def swrap_def)

lemma rsub_answers:
  assumes enc: "rid_encodable x db" and "rs_Cells q \<noteq> []" and wf: "tbl_wf (rdb_isas db)"
    and sub: "tbl_get (rdb_subs db) k = Some r"
  shows "\<exists>resp. rsub_response x c q (Some (fetch_rsub (k, r))) db = Inr resp"
proof -
  obtain e where isas: "fst (transact (app_SearchISAs x c (rs_Cells q) None None) db) =
      Inr (map fetch_isa (limit_rows (tbl_select (isa_matches (rs_Cells q) e None) (rdb_isas db))))"
    using assms(2) by (auto simp: app_SearchISAs_def rid_SearchISAs_def transact_def gets_def)
  have "\<exists>ps. smap (\<lambda>i. swrap Propagate (ISA_ToProto x i))
      (map fetch_isa (limit_rows (tbl_select (isa_matches (rs_Cells q) e None) (rdb_isas db)))) = (Inr ps :: rid_err + _)"
  proof (rule smap_ok)
    fix i
    assume "i \<in> set (map fetch_isa (limit_rows (tbl_select (isa_matches (rs_Cells q) e None) (rdb_isas db))))"
    then obtain k r where "tbl_get (rdb_isas db) k = Some r" "i = fetch_isa (k, r)"
      by (auto dest!: set_limit_rows tbl.select_get [OF wf])
    with enc ISA_ToProto_ok [of x i] show "\<exists>p. swrap Propagate (ISA_ToProto x i) = (Inr p :: rid_err + _)"
      by (auto simp: rid_encodable_def swrap_def)
  qed
  with isas RidSubscription_ToProto_ok [of x "fetch_rsub (k, r)"] enc sub show ?thesis
    by (auto simp: rid_encodable_def rsub_response_def sbind_def sderef_def swrap_def)
qed

lemma rid_serve_fails:
  assumes "rid_serve v run f db = (Inl e, db')"
    and "\<And>q e db'. run q db = (Inl e, db') \<Longrightarrow> db' = db"
    and "\<And>q a. v = Inr q \<Longrightarrow> run q db = (Inr a, db') \<Longrightarrow> \<exists>b. f q a db' = Inr b"
  shows "db' = db"
  using assms by (fastforce simp: rid_serve_def rid_finish_def split: sum.splits prod.splits)

lemma rid_transact_Inl: "rid_transact m db = (Inl e, db') \<Longrightarrow> db' = db"
  by (auto simp: rid_transact_def split: sum.splits)

lemma app_Insert_Inl:
  "app_InsertISA x c i db = (Inl e, db') \<Longrightarrow> db' = db"
  "app_InsertSubscription x c s db = (Inl e, db') \<Longrightarrow> db' = db"
  by (auto simp: app_InsertISA_def app_InsertSubscription_def dest: rid_transact_Inl split: sum.splits)

text \<open>The version that was checked is the one the statement asks for.\<close>

lemma checked_version:
  assumes "VersionFromString v = (Inr ver :: 'd err + _)" and "nano_range t"
    and "Version_Matches (Some (VersionFromTime t)) (Some ver) \<or> Version_Matches (Some ver) (Some (VersionFromTime t))"
  shows "t = db_time (Version_ToTimestamp (Some ver))"
  using VersionFromString_matches [OF assms(1,2)] assms(3) by auto

text \<open>An action that was committed is answered.\<close>

lemma insert_isa_answers:
  assumes "app_InsertISA x c q db = (Inr a, db')" and "rid_encodable x db'"
  shows "\<exists>b. isa_response x q a db' = Inr b"
proof -
  obtain r subs where a: "a = (r, subs)" by (cases a)
  from assms(1) obtain i' where "insert_isa_action x c i' db = Inr ((r, subs), db')" by (auto simp: app_Insert_Inr a)
  then show ?thesis
  proof (rule insert_isa_action_Inr)
    fix uid
    let ?row = "isa_row_of (c_txn c) i'"
    assume "db' = db\<lparr>rdb_subs := notified (isa_Cells i') (c_now c) (rdb_subs db),
        rdb_isas := tbl_upsert uid ?row (rdb_isas db)\<rparr>" and "r = Some (fetch_isa (uid, ?row))"
    with isa_answers [OF assms(2), of uid ?row] show ?thesis by (simp add: a tbl.get_upsert)
  qed
qed

lemma update_isa_answers:
  assumes "rid_transact (update_isa_action x c q) db = (Inr a, db')" and enc: "rid_encodable x db'"
    and ver: "VersionFromString v = (Inr ver :: rid_err + _)" "isa_Version q = Some ver"
    and nano: "\<forall>k r. tbl_get (rdb_isas db) k = Some r \<longrightarrow> nano_range (isr_updated_at r)"
  shows "\<exists>b. isa_response x q a db' = Inr b"
proof -
  obtain r subs where a: "a = (r, subs)" by (cases a)
  from assms(1) have "update_isa_action x c q db = Inr ((r, subs), db')" by (simp add: rid_transact_Inr a)
  then show ?thesis
  proof (rule update_isa_action_Inr)
    fix uid old i' s1
    assume uid: "x_pg_uuid x (isa_ID q) = Some uid" "tbl_get (rdb_isas db) uid = Some old"
      and match: "Version_Matches (Some (VersionFromTime (isr_updated_at old))) (isa_Version q)"
      and adj: "ISA_AdjustTimeRange (c_now c) q (Some (fetch_isa (uid, old))) = (Inr i' :: rid_err + _)"
      and upd: "rid_UpdateISA x (c_txn c) i' db = Inr (r, s1)"
      and db': "db' = s1\<lparr>rdb_subs := notified (Levelify x (s2_union x (isr_cells old) (isa_Cells i')))
        (c_now c) (rdb_subs db)\<rparr>"
    from adj obtain b e where i': "i' = q\<lparr>isa_StartTime := Some b, isa_EndTime := Some e\<rparr>"
      by (rule ISA_AdjustTimeRange_Inr)
    let ?row = "(isa_row_of (c_txn c) i')\<lparr>isr_owner := isr_owner old\<rparr>"
    have "isr_updated_at old = db_time (Version_ToTimestamp (isa_Version i'))"
      using checked_version [OF ver(1), of "isr_updated_at old"] nano uid(2) match ver(2) by (simp add: i')
    with rid_UpdateISA_Inr [OF upd _ uid(2)] uid(1) i'
    have "rdb_isas s1 = tbl_upsert uid ?row (rdb_isas db)" "r = Some (fetch_isa (uid, ?row))" by auto
    with isa_answers [OF enc, of uid ?row] show ?thesis by (simp add: a db' tbl.get_upsert)
  qed
qed

lemma delete_isa_answers:
  assumes "rid_transact (delete_isa_action x c q) db = (Inr a, db')" and "rid_encodable x db" and "uuid_idem x"
  shows "\<exists>b. isa_response x q a db' = Inr b"
proof -
  obtain r subs where a: "a = (r, subs)" by (cases a)
  obtain i owner ver where q: "q = (i, owner, ver)" by (cases q)
  from assms(1) have "delete_isa_action x c (i, owner, ver) db = Inr ((r, subs), db')"
    by (simp add: rid_transact_Inr a q)
  from this assms(3) show ?thesis
    by (rule delete_isa_action_Inr) (use isa_answers [OF assms(2)] in \<open>auto simp: a\<close>)
qed

lemma insert_rsub_answers:
  assumes "app_InsertSubscription x c q db = (Inr a, db')" and "rid_encodable x db'" and "tbl_wf (rdb_isas db')"
  shows "\<exists>b. rsub_response x c q a db' = Inr b"
proof -
  from assms(1) obtain s' where adj: "RidSubscription_AdjustTimeRange (c_now c) q None = (Inr s' :: rid_err + _)"
    and ins: "insert_rsub_action x c s' db = Inr (a, db')" by (auto simp: app_Insert_Inr)
  from adj have "rs_Cells s' = rs_Cells q" by (auto elim!: RidSubscription_AdjustTimeRange_Inr)
  with ins show ?thesis
  proof (elim insert_rsub_action_Inr)
    fix uid
    let ?row = "rsub_row_of (c_txn c) s'"
    assume "db' = db\<lparr>rdb_subs := tbl_upsert uid ?row (rdb_subs db)\<rparr>" "a = Some (fetch_rsub (uid, ?row))"
      "rid_row_check (rs_StartTime s') (rs_EndTime s') (rs_Cells s')" "rs_Cells s' = rs_Cells q"
    with rsub_answers [OF assms(2) _ assms(3), of q uid ?row] show ?thesis
      by (simp add: rid_row_check_def tbl.get_upsert)
  qed
qed

lemma update_rsub_answers:
  assumes "rid_transact (update_rsub_action x c q) db = (Inr a, db')" and enc: "rid_encodable x db'"
    and ver: "VersionFromString v = (Inr ver :: rid_err + _)" "rs_Version q = Some ver"
    and nano: "\<forall>k r. tbl_get (rdb_subs db) k = Some r \<longrightarrow> nano_range (rsr_updated_at r)"
    and wf: "tbl_wf (rdb_isas db')"
  shows "\<exists>b. rsub_response x c q a db' = Inr b"
proof -
  from assms(1) have "update_rsub_action x c q db = Inr (a, db')" by (simp add: rid_transact_Inr)
  then show ?thesis
  proof (rule update_rsub_action_Inr)
    fix uid old q'
    assume uid: "x_pg_uuid x (rs_ID q) = Some uid" "tbl_get (rdb_subs db) uid = Some old"
      and match: "Version_Matches (rs_Version q) (Some (VersionFromTime (rsr_updated_at old)))"
      and adj: "RidSubscription_AdjustTimeRange (c_now c) q (Some (fetch_rsub (uid, old))) = (Inr q' :: rid_err + _)"
      and upd: "rid_UpdateSubscription x (c_txn c) q' db = Inr (a, db')"
    from adj obtain b e where q': "q' = q\<lparr>rs_StartTime := Some b, rs_EndTime := Some e\<rparr>"
      by (rule RidSubscription_AdjustTimeRange_Inr)
    let ?row = "(rsub_row_of (c_txn c) q')\<lparr>rsr_owner := rsr_owner old\<rparr>"
    have "rsr_updated_at old = db_time (Version_ToTimestamp (rs_Version q'))"
      using checked_version [OF ver(1), of "rsr_updated_at old"] nano uid(2) match ver(2) by (simp add: q')
    with rid_UpdateSubscription_Inr [OF upd _ uid(2)] uid(1) q'
    have "rdb_subs db' = tbl_upsert uid ?row (rdb_subs db)" "a = Some (fetch_rsub (uid, ?row))"
      "rs_Cells q \<noteq> []" by (auto simp: rid_row_check_def)
    with rsub_answers [OF enc _ wf, of q uid ?row] show ?thesis by (simp add: tbl.get_upsert)
  qed
qed

text \<open>
  C35. A request that fails leaves the database as it was, when the times of the rows can be
  written into messages and the versions of the rows are instants of the years 1678 to 2262.
\<close>

theorem rid_failures_roll_back:
  assumes fails: "rid_handle x c l req db = (Inl e, db')"
    and reach: "rid_reachable x t db" and idem: "uuid_idem x"
    and enc: "rid_encodable x db" "rid_encodable x db'"
    and nano: "\<forall>k r. tbl_get (rdb_isas db) k = Some r \<longrightarrow> nano_range (isr_updated_at r)"
      "\<forall>k r. tbl_get (rdb_subs db) k = Some r \<longrightarrow> nano_range (rsr_updated_at r)"
  shows "db' = db"
proof -
  have wf: "tbl_wf (rdb_isas db')"
    using rid_reachable_ok [OF rid_reachable.request [OF reach fails] idem] by (simp add: rid_ok_def rows_ok_def)
  show ?thesis
  proof (cases req)
    case (ReqCreateISA i p)
    with fails have "CreateIdentificationServiceArea x c l i p db = (Inl e, db')" by (simp add: respond_cases)
    then show ?thesis unfolding CreateIdentificationServiceArea_def
      by (rule rid_serve_fails) (auto dest: app_Insert_Inl intro: insert_isa_answers enc(2))
  next
    case (ReqUpdateISA i v p)
    with fails have "UpdateIdentificationServiceArea x c l i v p db = (Inl e, db')" by (simp add: respond_cases)
    then show ?thesis unfolding UpdateIdentificationServiceArea_def
      by (rule rid_serve_fails)
        (erule rid_transact_Inl, erule validate_update_isa_Inr,
          blast intro: update_isa_answers [OF _ enc(2) _ _ nano(1)])
  next
    case (ReqDeleteISA i v)
    with fails have "DeleteIdentificationServiceArea x c i v db = (Inl e, db')" by (simp add: respond_cases)
    then show ?thesis unfolding DeleteIdentificationServiceArea_def
      by (rule rid_serve_fails) (auto dest: rid_transact_Inl intro: delete_isa_answers enc(1) idem)
  next
    case (ReqCreateRSub i p)
    with fails have "rid_CreateSubscription x c l i p db = (Inl e, db')" by (simp add: respond_cases)
    then show ?thesis unfolding rid_CreateSubscription_def
      by (rule rid_serve_fails) (auto dest: app_Insert_Inl intro: insert_rsub_answers enc(2) wf)
  next
    case (ReqUpdateRSub i v p)
    with fails have "rid_UpdateSubscription_handler x c l i v p db = (Inl e, db')" by (simp add: respond_cases)
    then show ?thesis unfolding rid_UpdateSubscription_handler_def
      by (rule rid_serve_fails)
        (erule rid_transact_Inl, erule validate_update_rsub_Inr,
          blast intro: update_rsub_answers [OF _ enc(2) _ _ nano(2) wf])
  next
    case (ReqDeleteRSub i v)
    with fails have "rid_DeleteSubscription_handler x c i v db = (Inl e, db')" by (simp add: respond_cases)
    then show ?thesis unfolding rid_DeleteSubscription_handler_def
    proof (rule rid_serve_fails)
      fix q a
      assume "rid_transact (delete_rsub_action x c q) db = (Inr a, db')"
      then have "delete_rsub_action x c (fst q, fst (snd q), snd (snd q)) db = Inr (a, db')"
        by (simp add: rid_transact_Inr)
      from this idem show "\<exists>b. sbind (sderef a) (\<lambda>s. swrap Propagate (RidSubscription_ToProto x s)) = (Inr b :: rid_err + _)"
      proof (rule delete_rsub_action_Inr)
        fix uid old
        assume "tbl_get (rdb_subs db) uid = Some old" "a = Some (fetch_rsub (uid, old))"
        with enc(1) RidSubscription_ToProto_ok [of x "fetch_rsub (uid, old)"] show ?thesis
          by (auto simp: rid_encodable_def sbind_def sderef_def swrap_def)
      qed
    qed (auto dest: rid_transact_Inl)
  qed (use fails in \<open>auto simp: respond_cases GetIdentificationServiceArea_def
    SearchIdentificationServiceAreas_def rid_GetSubscription_handler_def rid_SearchSubscriptions_handler_def
    dest!: arg_cong [where f = snd] simp: snd_rid_serve pure_transact pure_intros
    split: sum.splits prod.splits\<close>)
qed

lemma exr_encodable: "rid_encodable ex_ext db"
  by (simp add: rid_encodable_def encodable_def ex_ext_def)

lemma exr_nano:
  "\<forall>k r. tbl_get (rdb_isas exr_db2) k = Some r \<longrightarrow> nano_range (isr_updated_at r)"
  "\<forall>k r. tbl_get (rdb_subs exr_db2) k = Some r \<longrightarrow> nano_range (rsr_updated_at r)"
  by (auto simp: exr_db2 exr_isa_row_def exr_sub_row_def bump_rsub_def tbl_get_def nano_range_def split: if_splits)

theorem rid_failures_roll_back_witness:
  "\<exists>e. rid_handle ex_ext (ex_call ''uss1'' '''' 12) ''loc'' (ReqDeleteISA ''i1'' (FormatUint (UnixNano 11000000))) exr_db2
     = (Inl e, exr_db2) \<and> err_code e = Some PermissionDenied"
proof -
  let ?r = "rid_handle ex_ext (ex_call ''uss1'' '''' 12) ''loc''
     (ReqDeleteISA ''i1'' (FormatUint (UnixNano 11000000))) exr_db2"
  have "map_sum err_code (\<lambda>_. ()) (fst ?r) = Inl (Some PermissionDenied)"
    unfolding exr_db2 exr_isa_row_def exr_sub_row_def by code_simp
  then obtain e where e: "fst ?r = Inl e" "err_code e = Some PermissionDenied" by (cases "fst ?r") auto
  then have run: "?r = (Inl e, snd ?r)" by (metis prod.collapse)
  from rid_failures_roll_back [OF run exr_reachable(3) ex_uuid_idem exr_encodable exr_encodable exr_nano]
  show ?thesis using run e(2) by metis
qed

section \<open>The index of an updated subscription\<close>

text \<open>
  C36. An update of a subscription that succeeds sets its notification index back to 0, whatever
  it was, and says so in the response.
\<close>

theorem rid_update_resets_index:
  assumes "rid_UpdateSubscription_handler x c l i v (Some p) db = (Inr resp, db')"
  shows "\<exists>q uid old row. x_uuid_parse x i = Some q \<and> x_pg_uuid x q = Some uid \<and>
    tbl_get (rdb_subs db) uid = Some old \<and> tbl_get (rdb_subs db') = (tbl_get (rdb_subs db))(uid \<mapsto> row) \<and>
    rsr_owner row = rsr_owner old \<and> rsr_notification_index row = 0 \<and>
    prs_NotificationIndex (prr_Subscription resp) = 0"
proof -
  from assms obtain q r where valid: "validate_update_rsub x c l i v (Some p) = Inr q"
    and act: "update_rsub_action x c q db = Inr (r, db')" and resp: "rsub_response x c q r db' = Inr resp"
    by (auto simp: rid_UpdateSubscription_handler_def rid_serve_Inr rid_transact_Inr)
  from valid obtain ver where q: "rs_NotificationIndex q = 0" "x_uuid_parse x i = Some (rs_ID q)"
    by (rule validate_update_rsub_Inr)
  from act show ?thesis
  proof (rule update_rsub_action_Inr)
    fix uid old q'
    assume uid: "x_pg_uuid x (rs_ID q) = Some uid" and old: "tbl_get (rdb_subs db) uid = Some old"
      and adj: "RidSubscription_AdjustTimeRange (c_now c) q (Some (fetch_rsub (uid, old))) = (Inr q' :: rid_err + _)"
      and upd: "rid_UpdateSubscription x (c_txn c) q' db = Inr (r, db')"
    from adj obtain b e where q': "q' = q\<lparr>rs_StartTime := Some b, rs_EndTime := Some e\<rparr>"
      by (rule RidSubscription_AdjustTimeRange_Inr)
    let ?row = "(rsub_row_of (c_txn c) q')\<lparr>rsr_owner := rsr_owner old\<rparr>"
    from resp have "r \<noteq> None" by (auto simp: rsub_response_def tx_inv)
    with rid_UpdateSubscription_Inr [OF upd _ old] uid q' have
      row: "rdb_subs db' = tbl_upsert uid ?row (rdb_subs db)" "r = Some (fetch_rsub (uid, ?row))" by auto
    from resp row(2) have "prs_NotificationIndex (prr_Subscription resp) = 0"
      using q(1) by (auto simp: rsub_response_def RidSubscription_ToProto_def tx_inv q' rsub_row_of_def fetch_rsub_def)
    with row uid old q show ?thesis
      by (intro exI [of _ "rs_ID q"] exI [of _ uid] exI [of _ old] exI [of _ ?row])
        (simp add: tbl.get_upsert q')
  qed
qed

theorem rid_update_resets_index_witness:
  "rsr_notification_index (bump_rsub exr_sub_row) = 1 \<and>
   (\<exists>resp db' row. rid_UpdateSubscription_handler ex_ext (ex_call ''uss1'' '''' 12) ''loc'' ''s1''
      (FormatUint (UnixNano 10000000)) (exr_sub_params 20 90) exr_db2 = (Inr resp, db') \<and>
    tbl_get (rdb_subs db') ''s1'' = Some row \<and> rsr_notification_index row = 0)"
proof -
  let ?r = "rid_UpdateSubscription_handler ex_ext (ex_call ''uss1'' '''' 12) ''loc'' ''s1''
      (FormatUint (UnixNano 10000000)) (exr_sub_params 20 90) exr_db2"
  have "\<not> isl (fst ?r)"
    unfolding exr_db2 exr_isa_row_def exr_sub_row_def by code_simp
  then obtain resp where run: "?r = (Inr resp, snd ?r)" by (metis prod.collapse sum.collapse(2))
  from rid_update_resets_index [OF run [unfolded exr_sub_params_def]]
  obtain uid row where "uid = ''s1''" "tbl_get (rdb_subs (snd ?r)) uid = Some row" "rsr_notification_index row = 0"
    unfolding exr_sub_params_def by auto
  then show ?thesis using run by (auto simp: exr_sub_row_def)
qed

section \<open>The garbage collector\<close>

lemma drop_first_removed:
  assumes wf: "tbl_wf t"
  shows "card {k. tbl_get t k \<noteq> None \<and> tbl_get (drop_first p t) k = None} =
      (if \<exists>k r. tbl_get t k = Some r \<and> p r then 1 else 0)"
    and "tbl_get t k = Some r \<Longrightarrow> tbl_get (drop_first p t) k = None \<Longrightarrow> p r"
proof -
  show "p r" if "tbl_get t k = Some r" "tbl_get (drop_first p t) k = None"
    using that drop_first_get [OF wf that(1), of p] by auto
  show "card {k. tbl_get t k \<noteq> None \<and> tbl_get (drop_first p t) k = None} =
      (if \<exists>k r. tbl_get t k = Some r \<and> p r then 1 else 0)"
  proof (cases "tbl_select p t")
    case Nil
    then have none: "{k. tbl_get t k \<noteq> None \<and> tbl_get (drop_first p t) k = None} = {}"
      by (auto simp: drop_first_def)
    show ?thesis unfolding none using Nil tbl.select_empty_iff [OF wf, of p] by auto
  next
    case (Cons kr rest)
    obtain k r where kr: "kr = (k, r)" by (cases kr)
    with Cons tbl.select_get [OF wf, of k r p] have "tbl_get t k = Some r" "p r" by auto
    moreover from this have "{k. tbl_get t k \<noteq> None \<and> tbl_get (drop_first p t) k = None} = {k}"
      using Cons kr by (auto simp: drop_first_def tbl_laws)
    ultimately show ?thesis by auto
  qed
qed

text \<open>What one run of the collector may remove.\<close>

definition gc_may_remove :: "time \<Rightarrow> string \<Rightarrow> time option \<Rightarrow> string option \<Rightarrow> bool" where
  "gc_may_remove now writer e w \<longleftrightarrow> (\<exists>e'. e = Some e' \<and> e' + 30 * 60 * 10 ^ 6 \<le> now) \<and> w = Some writer"

lemma expired_iff:
  "isa_expired now writer r \<longleftrightarrow> gc_may_remove now writer (isr_ends_at r) (isr_writer r)"
  "rsub_expired now writer q \<longleftrightarrow> gc_may_remove now writer (rsr_ends_at q) (rsr_writer q)"
  by (auto simp: isa_expired_def rsub_expired_def expired_def written_by_def gc_may_remove_def
      time_add_def minutes_def expiredDurationInMin_def split: option.splits)

text \<open>
  C37. A run of the garbage collector on a reachable database succeeds and removes exactly one
  of the service areas and one of the subscriptions that ended at least 30 minutes ago and were
  written by its locality, where there are such rows, however many there are; it removes and
  changes nothing else.
\<close>

theorem collector_removes_one:
  assumes "rid_reachable x t db" and "uuid_idem x"
    and "DeleteRIDExpiredRecords x now writer db = (r, db')"
  shows "r = Inr () \<and>
    card {k. tbl_get (rdb_isas db) k \<noteq> None \<and> tbl_get (rdb_isas db') k = None} =
      (if \<exists>k r. tbl_get (rdb_isas db) k = Some r \<and> gc_may_remove now writer (isr_ends_at r) (isr_writer r) then 1 else 0) \<and>
    card {k. tbl_get (rdb_subs db) k \<noteq> None \<and> tbl_get (rdb_subs db') k = None} =
      (if \<exists>k r. tbl_get (rdb_subs db) k = Some r \<and> gc_may_remove now writer (rsr_ends_at r) (rsr_writer r) then 1 else 0) \<and>
    (\<forall>k r. tbl_get (rdb_isas db) k = Some r \<longrightarrow>
      tbl_get (rdb_isas db') k = Some r \<or> gc_may_remove now writer (isr_ends_at r) (isr_writer r)) \<and>
    (\<forall>k r. tbl_get (rdb_subs db) k = Some r \<longrightarrow>
      tbl_get (rdb_subs db') k = Some r \<or> gc_may_remove now writer (rsr_ends_at r) (rsr_writer r)) \<and>
    (\<forall>k r. tbl_get (rdb_isas db') k = Some r \<longrightarrow> tbl_get (rdb_isas db) k = Some r) \<and>
    (\<forall>k r. tbl_get (rdb_subs db') k = Some r \<longrightarrow> tbl_get (rdb_subs db) k = Some r)"
proof -
  have ok: "rid_ok x db" using assms(1,2) by (rule rid_reachable_ok)
  then have wf: "tbl_wf (rdb_isas db)" "tbl_wf (rdb_subs db)" by (simp_all add: rid_ok_def rows_ok_def)
  from gc_run [OF ok, of now writer] assms(3) have
    r: "r = Inr ()" and db': "rdb_isas db' = drop_first (isa_expired now writer) (rdb_isas db)"
      "rdb_subs db' = drop_first (rsub_expired now writer) (rdb_subs db)" by auto
  note isas = drop_first_removed [OF wf(1), where p = "isa_expired now writer"] drop_first_get [OF wf(1)]
  note subs = drop_first_removed [OF wf(2), where p = "rsub_expired now writer"] drop_first_get [OF wf(2)]
  show ?thesis
    unfolding r db' using isas(1) subs(1) isas(3) subs(3)
    by (auto simp: expired_iff dest: drop_first_sub)
qed

text \<open>At the last instant the database of the example has expired rows.\<close>

lemma exr_gc: "DeleteRIDExpiredRecords ex_ext 3000000000 ''loc'' exr_db2 = (Inr (), exr_db0)"
  unfolding exr_db2 exr_isa_row_def exr_sub_row_def exr_db0_def by code_simp

theorem collector_removes_one_witness:
  "card {k. tbl_get (rdb_isas exr_db2) k \<noteq> None \<and> tbl_get (rdb_isas exr_db0) k = None} = 1"
proof -
  have "\<exists>k r. tbl_get (rdb_isas exr_db2) k = Some r \<and> gc_may_remove 3000000000 ''loc'' (isr_ends_at r) (isr_writer r)"
    by (rule exI [of _ "''i1''"]) (simp add: exr_db2 tbl_get_def exr_isa_row_def gc_may_remove_def)
  with collector_removes_one [OF exr_reachable(3) ex_uuid_idem exr_gc] show ?thesis by simp
qed

lemma gc_runs:
  assumes "rid_ok x db"
  shows "fold (\<lambda>s d. snd (DeleteRIDExpiredRecords x s writer d)) ts db =
    db\<lparr>rdb_isas := fold drop_first (map (\<lambda>s. isa_expired s writer) ts) (rdb_isas db),
       rdb_subs := fold drop_first (map (\<lambda>s. rsub_expired s writer) ts) (rdb_subs db)\<rparr>"
  using assms
proof (induction ts arbitrary: db)
  case (Cons s ts)
  let ?db = "db\<lparr>rdb_isas := drop_first (isa_expired s writer) (rdb_isas db),
      rdb_subs := drop_first (rsub_expired s writer) (rdb_subs db)\<rparr>"
  have "rid_ok x ?db" using Cons.prems by (simp add: rid_ok_def drop_first_rows_ok)
  from Cons.IH [OF this] gc_run [OF Cons.prems, of s writer] show ?case by simp
qed simp

lemma gc_may_remove_mono:
  "s \<le> s' \<Longrightarrow> gc_may_remove s w e v \<Longrightarrow> gc_may_remove s' w e v"
  by (auto simp: gc_may_remove_def)

text \<open>
  C38. Runs of the collector, at instants from \<open>now\<close> to \<open>latest\<close> and as many as there are service
  areas and subscriptions of its locality expired at \<open>latest\<close>, with no request between them, leave
  no row of its locality that was expired at \<open>now\<close>.
\<close>

theorem collector_clears:
  assumes "rid_reachable x t db" and "uuid_idem x"
    and instants: "\<forall>s \<in> set ts. now \<le> s \<and> s \<le> latest" and "now \<le> latest"
    and isas: "length (tbl_select (isa_expired latest writer) (rdb_isas db)) \<le> length ts"
    and subs: "length (tbl_select (rsub_expired latest writer) (rdb_subs db)) \<le> length ts"
    and db': "db' = fold (\<lambda>s d. snd (DeleteRIDExpiredRecords x s writer d)) ts db"
  shows "(\<forall>k r. tbl_get (rdb_isas db') k = Some r \<longrightarrow> \<not> gc_may_remove now writer (isr_ends_at r) (isr_writer r)) \<and>
    (\<forall>k r. tbl_get (rdb_subs db') k = Some r \<longrightarrow> \<not> gc_may_remove now writer (rsr_ends_at r) (rsr_writer r))"
proof -
  have ok: "rid_ok x db" using assms(1,2) by (rule rid_reachable_ok)
  then have wf: "tbl_wf (rdb_isas db)" "tbl_wf (rdb_subs db)" by (simp_all add: rid_ok_def rows_ok_def)
  have wf_fold: "tbl_wf (fold drop_first ps u)" if "tbl_wf u" for ps and u :: "'r table"
    using that by (induction ps arbitrary: u) (auto simp: drop_first_def tbl_wf_laws split: list.split)
  have i: "tbl_select (isa_expired now writer) (rdb_isas db') = []"
    unfolding db' gc_runs [OF ok] using wf(1) isas instants \<open>now \<le> latest\<close>
    by simp (rule fold_drop_first [where final = "isa_expired latest writer"],
      auto simp: expired_iff elim!: gc_may_remove_mono [rotated])
  have s: "tbl_select (rsub_expired now writer) (rdb_subs db') = []"
    unfolding db' gc_runs [OF ok] using wf(2) subs instants \<open>now \<le> latest\<close>
    by simp (rule fold_drop_first [where final = "rsub_expired latest writer"],
      auto simp: expired_iff elim!: gc_may_remove_mono [rotated])
  have "tbl_wf (rdb_isas db')" "tbl_wf (rdb_subs db')" unfolding db' gc_runs [OF ok] by (simp_all add: wf_fold wf)
  with i s show ?thesis by (auto simp: tbl.select_empty_iff expired_iff)
qed

theorem collector_clears_witness:
  "{k. \<exists>r. tbl_get (rdb_isas exr_db0) k = Some r \<and> gc_may_remove 2900000000 ''loc'' (isr_ends_at r) (isr_writer r)} = {}"
proof -
  have "exr_db0 = fold (\<lambda>s d. snd (DeleteRIDExpiredRecords ex_ext s ''loc'' d)) [3000000000] exr_db2"
    by (simp add: exr_gc)
  from collector_clears [OF exr_reachable(3) ex_uuid_idem _ _ _ _ this, of 2900000000 3000000000]
  show ?thesis by (auto simp: exr_db2 tbl_select_def)
qed

section \<open>Creation and deletion\<close>

text \<open>
  C39. A service area that was created can be deleted at once by its owner with the version the
  response showed: the deletion gives the same area back, and the table of the areas is what it
  was before the creation, when the time stamp is an instant of the years 1678 to 2262 and no
  notification index is at the end of its range.
\<close>

theorem create_delete_round_trip:
  assumes create: "CreateIdentificationServiceArea x c l i p db = (Inr resp, db')"
    and "uuid_idem x" and same: "c_manager c' = c_manager c" and nano: "nano_range (c_txn c)"
    and wf: "tbl_wf (rdb_subs db)"
    and room: "\<forall>k r. tbl_get (rdb_subs db) k = Some r \<longrightarrow> rsr_notification_index r + 2 < 2 ^ 31"
  shows "\<exists>resp' db''. DeleteIdentificationServiceArea x c' i (pisa_Version (pir_ServiceArea resp)) db' =
      (Inr resp', db'') \<and> pir_ServiceArea resp' = pir_ServiceArea resp \<and>
    tbl_get (rdb_isas db'') = tbl_get (rdb_isas db)"
proof -
  from create obtain q i' r subs where valid: "validate_create_isa x c l i p = Inr q"
    and adj: "ISA_AdjustTimeRange (c_now c) q None = (Inr i' :: rid_err + _)"
    and act: "insert_isa_action x c i' db = Inr ((r, subs), db')"
    and resp: "isa_response x q (r, subs) db' = Inr resp"
    by (auto simp: CreateIdentificationServiceArea_def rid_serve_Inr app_Insert_Inr)
  from valid have q: "x_uuid_parse x i = Some (isa_ID q)" "c_manager c = Some (isa_Owner q)"
    by (auto simp: validate_create_isa_def tx_inv dest!: ISA_SetExtents_Inr)
  from adj have i': "isa_ID i' = isa_ID q" "isa_Owner i' = isa_Owner q" by (auto elim!: ISA_AdjustTimeRange_Inr)
  from act show ?thesis
  proof (rule insert_isa_action_Inr)
    fix uid
    let ?row = "isa_row_of (c_txn c) i'" and ?v = "VersionFromTime (c_txn c)"
    assume uid: "x_pg_uuid x (isa_ID i') = Some uid" and none: "tbl_get (rdb_isas db) uid = None"
      and db': "db' = db\<lparr>rdb_subs := notified (isa_Cells i') (c_now c) (rdb_subs db),
           rdb_isas := tbl_upsert uid ?row (rdb_isas db)\<rparr>"
      and r: "r = Some (fetch_isa (uid, ?row))"
    from resp have proto: "ISA_ToProto x (fetch_isa (uid, ?row)) = (Inr (pir_ServiceArea resp) :: rid_err + _)"
      by (auto simp: isa_response_def tx_inv r)
    then have v: "pisa_Version (pir_ServiceArea resp) = Version_String (Some ?v)" by (auto dest: ISA_ToProto_Inr)
    have ver: "VersionFromString (Version_String (Some ?v)) = (Inr ?v :: rid_err + _)"
      using nano by (rule Version_round_trip)
    have can: "x_pg_uuid x uid = Some uid" using assms(2) uid by (auto simp: uuid_idem_def pg_canonical_def)
    have wf': "tbl_wf (rdb_subs db')" using wf by (simp add: db' notified_def tbl_wf_laws)
    have "rsr_notification_index r1 + 1 < 2 ^ 31" if "tbl_get (rdb_subs db') k = Some r1" for k r1
    proof -
      from that obtain r0 where "tbl_get (rdb_subs db) k = Some r0" "r1 = r0 \<or> r1 = bump_rsub r0"
        by (auto simp: db' notified_get [OF wf])
      moreover from room this(1) have "rsr_notification_index r0 + 2 < 2 ^ 31" by blast
      ultimately show ?thesis by auto
    qed
    then have room': "list_all (\<lambda>kr. rsr_notification_index (snd kr) + 1 < 2 ^ 31)
        (tbl_select (rsub_matches (isr_cells ?row) (c_now c')) (rdb_subs db'))"
      by (auto simp: list_all_iff dest!: tbl.select_get [OF wf'])
    have "delete_isa_action x c' (isa_ID q, isa_Owner q, ?v) db' =
      Inr ((Some (fetch_isa (uid, ?row)), notified_subs x (isr_cells ?row) (c_now c') (rdb_subs db')),
        db'\<lparr>rdb_isas := tbl_delete uid (rdb_isas db'),
            rdb_subs := notified (isr_cells ?row) (c_now c') (rdb_subs db')\<rparr>)"
      using uid i' can room'
      by (simp add: delete_isa_action_def rid_DeleteISA_def tx_inv db' tbl.get_upsert Version_Matches_def)
    then show ?thesis
      using q same none proto
      by (simp add: v DeleteIdentificationServiceArea_def rid_serve_def rid_finish_def rid_transact_def
        delete_request_def require_manager_def parse_id_def IDFromString_def ver isa_response_def
        sbind_def swrap_def srecode_def sderef_def db' tbl_laws fun_upd_idem)
  qed
qed

theorem create_delete_round_trip_witness:
  "\<exists>resp resp' db''. CreateIdentificationServiceArea ex_ext (ex_call ''uss2'' '''' 11) ''loc'' ''i1''
      (exr_isa_params ''https://a'' 20 30) exr_db1 = (Inr resp, exr_db2) \<and>
    DeleteIdentificationServiceArea ex_ext (ex_call ''uss2'' '''' 12) ''i1'' (pisa_Version (pir_ServiceArea resp)) exr_db2 =
      (Inr resp', db'') \<and> tbl_get (rdb_isas db'') = tbl_get (rdb_isas exr_db1)"
proof -
  obtain resp where run: "CreateIdentificationServiceArea ex_ext (ex_call ''uss2'' '''' 11) ''loc'' ''i1''
      (exr_isa_params ''https://a'' 20 30) exr_db1 = (Inr resp, exr_db2)"
    using exr_created by blast
  have same: "c_manager (ex_call ''uss2'' '''' 12) = c_manager (ex_call ''uss2'' '''' 11)"
    "nano_range (c_txn (ex_call ''uss2'' '''' 11))" "tbl_wf (rdb_subs exr_db1)"
    "\<forall>k r. tbl_get (rdb_subs exr_db1) k = Some r \<longrightarrow> rsr_notification_index r + 2 < 2 ^ 31"
    by (auto simp: ex_call_def nano_range_def exr_db1 tbl_wf_def tbl_get_def exr_sub_row_def split: if_splits)
  from create_delete_round_trip [OF run ex_uuid_idem same] run show ?thesis by blast
qed

end
