(* ===== verification/Rid_StoreV3.thy ===== *)
theory Rid_StoreV3
  imports Rid_System
begin

text \<open>
  The repositories of remote ID for databases of schema version 3
  (\<^verbatim>\<open>pkg/rid/store/cockroach/*_v3.go\<close>). Their tables have no column for the writer: a row is one
  whose writer is null. The repository of subscriptions is that of version 4 on the rows without
  their writers; that of service areas is not, because it reads no cells.
\<close>

section \<open>Subscriptions\<close>

definition rid3_fetch_rsub :: "string \<times> rsub_row \<Rightarrow> rid_subscription" where
  "rid3_fetch_rsub kr = (case kr of (k, r) \<Rightarrow>
     \<lparr>rs_ID = k, rs_URL = rsr_url r, rs_NotificationIndex = rsr_notification_index r,
      rs_Owner = rsr_owner r, rs_Cells = rsr_cells r, rs_StartTime = rsr_starts_at r,
      rs_EndTime = rsr_ends_at r, rs_Version = Some (VersionFromTime (rsr_updated_at r)),
      rs_AltitudeHi = None, rs_AltitudeLo = None, rs_Writer = ''''\<rparr>)"

definition rid3_MaxSubscriptionCountInCellsByOwner ::
    "time \<Rightarrow> cells \<Rightarrow> string \<Rightarrow> int rid_tx" where
  "rid3_MaxSubscriptionCountInCellsByOwner now cs owner =
     gets (\<lambda>db. fold max
       (map (\<lambda>c. int (length (filter (\<lambda>c'. c' = c) (concat (map rsr_cells (owner_rows owner now db))))))
          cs) 0)"

definition rid3_GetSubscription :: "ext \<Rightarrow> string \<Rightarrow> rid_subscription option rid_tx" where
  "rid3_GetSubscription x i =
     bnd (wrap Propagate (of_sum (PgUUID x i))) (\<lambda>uid.
     gets (\<lambda>db. map_option (\<lambda>r. rid3_fetch_rsub (uid, r)) (tbl_get (rdb_subs db) uid)))"

definition rid3_rsub_row_of :: "time \<Rightarrow> rid_subscription \<Rightarrow> rsub_row" where
  "rid3_rsub_row_of ts s =
     \<lparr>rsr_owner = rs_Owner s, rsr_url = rs_URL s,
      rsr_notification_index = rs_NotificationIndex s, rsr_cells = rs_Cells s,
      rsr_starts_at = rs_StartTime s, rsr_ends_at = rs_EndTime s,
      rsr_writer = None, rsr_updated_at = ts\<rparr>"

definition rid3_UpdateSubscription :: "ext \<Rightarrow> time \<Rightarrow> rid_subscription \<Rightarrow> rid_subscription option rid_tx" where
  "rid3_UpdateSubscription x ts s =
     bnd (wrap Propagate (of_sum (smap (ValidateCell x) (rs_Cells s)))) (\<lambda>_.
     bnd (wrap Propagate (of_sum (PgUUID x (rs_ID s)))) (\<lambda>uid.
     bnd (gets (\<lambda>db. tbl_get (rdb_subs db) uid)) (\<lambda>r.
     case r of None \<Rightarrow> ret None
     | Some old \<Rightarrow>
         if rsr_updated_at old \<noteq> db_time (Version_ToTimestamp (rs_Version s)) then ret None
         else
           let row = (rid3_rsub_row_of ts s)\<lparr>rsr_owner := rsr_owner old\<rparr> in
           seq (check (rid_row_check (rs_StartTime s) (rs_EndTime s) (rs_Cells s)) check_violation)
           (seq (modify (\<lambda>db. db\<lparr>rdb_subs := tbl_upsert uid row (rdb_subs db)\<rparr>))
           (ret (Some (rid3_fetch_rsub (uid, row))))))))"

definition rid3_InsertSubscription :: "ext \<Rightarrow> time \<Rightarrow> rid_subscription \<Rightarrow> rid_subscription option rid_tx" where
  "rid3_InsertSubscription x ts s =
     bnd (wrap Propagate (of_sum (smap (ValidateCell x) (rs_Cells s)))) (\<lambda>_.
     bnd (wrap Propagate (of_sum (PgUUID x (rs_ID s)))) (\<lambda>uid.
     seq (check (rid_row_check (rs_StartTime s) (rs_EndTime s) (rs_Cells s)) check_violation)
     (bnd (gets (\<lambda>db. tbl_get (rdb_subs db) uid)) (\<lambda>r.
     seq (check (r = None) (Propagate (DbErr ''duplicate key value violates unique constraint'')))
     (seq (modify (\<lambda>db. db\<lparr>rdb_subs := tbl_upsert uid (rid3_rsub_row_of ts s) (rdb_subs db)\<rparr>))
     (ret (Some (rid3_fetch_rsub (uid, rid3_rsub_row_of ts s)))))))))"

definition rid3_DeleteSubscription :: "ext \<Rightarrow> rid_subscription \<Rightarrow> rid_subscription option rid_tx" where
  "rid3_DeleteSubscription x s =
     bnd (wrap Propagate (of_sum (PgUUID x (rs_ID s)))) (\<lambda>uid.
     bnd (gets (\<lambda>db. tbl_get (rdb_subs db) uid)) (\<lambda>r.
     case r of None \<Rightarrow> ret None
     | Some old \<Rightarrow>
         if rsr_updated_at old \<noteq> db_time (Version_ToTimestamp (rs_Version s)) then ret None
         else seq (modify (\<lambda>db. db\<lparr>rdb_subs := tbl_delete uid (rdb_subs db)\<rparr>))
           (ret (Some (rid3_fetch_rsub (uid, old))))))"

definition rid3_UpdateNotificationIdxsInCells ::
    "ext \<Rightarrow> time \<Rightarrow> cells \<Rightarrow> rid_subscription list rid_tx" where
  "rid3_UpdateNotificationIdxsInCells x now cs =
     bnd (gets (\<lambda>db. tbl_select (rsub_matches cs now) (rdb_subs db))) (\<lambda>rows.
     seq (check (list_all (\<lambda>kr. rsr_notification_index (snd kr) + 1 < 2 ^ 31) rows)
           (Propagate (DbErr ''integer out of range for type int4'')))
     (seq (modify (\<lambda>db. db\<lparr>rdb_subs := tbl_update_any (map fst rows) bump_rsub (rdb_subs db)\<rparr>))
     (gets (\<lambda>db. List.map_filter (\<lambda>k. map_option (\<lambda>r. rid3_fetch_rsub (k, r)) (tbl_get (rdb_subs db) k))
        (x_returning x (map fst rows))))))"

definition rid3_SearchSubscriptions :: "ext \<Rightarrow> time \<Rightarrow> cells \<Rightarrow> rid_subscription list rid_tx" where
  "rid3_SearchSubscriptions x now cs =
     (if cs = [] then fail (coded BadRequest)
      else gets (\<lambda>db. map rid3_fetch_rsub (limit_rows (tbl_select (rsub_matches cs now) (rdb_subs db)))))"

definition rid3_SearchSubscriptionsByOwner ::
    "ext \<Rightarrow> time \<Rightarrow> cells \<Rightarrow> string \<Rightarrow> rid_subscription list rid_tx" where
  "rid3_SearchSubscriptionsByOwner x now cs owner =
     (if cs = [] then fail (coded BadRequest)
      else gets (\<lambda>db. map rid3_fetch_rsub (limit_rows
             (tbl_select (\<lambda>r. rsub_matches cs now r \<and> rsr_owner r = owner) (rdb_subs db)))))"

definition rid3_ListExpiredSubscriptions :: "time \<Rightarrow> string \<Rightarrow> rid_subscription list rid_tx" where
  "rid3_ListExpiredSubscriptions now writer = ret []"

section \<open>Service areas\<close>

text \<open>
  The cells of a row are assigned to a slice and not, as in version 4, to a pointer to it. What
  the library makes of that is the parameter \<open>assign\<close>: an error, a panic, or nothing. The slice
  of the caller stays nil in any case.
\<close>

definition rid3_fetch_isa :: "(cells \<Rightarrow> rid_err + unit) \<Rightarrow> string \<times> isa_row \<Rightarrow> rid_err + isa" where
  "rid3_fetch_isa assign kr = (case kr of (k, r) \<Rightarrow>
     sbind (swrap Propagate (assign (isr_cells r))) (\<lambda>_.
     Inr \<lparr>isa_ID = k, isa_URL = isr_url r, isa_Owner = isr_owner r,
      isa_Cells = CellUnionFromInt64 [], isa_StartTime = isr_starts_at r,
      isa_EndTime = isr_ends_at r, isa_Version = Some (VersionFromTime (isr_updated_at r)),
      isa_AltitudeHi = None, isa_AltitudeLo = None, isa_Writer = ''''\<rparr>))"

definition rid3_GetISA :: "ext \<Rightarrow> (cells \<Rightarrow> rid_err + unit) \<Rightarrow> string \<Rightarrow> isa option rid_tx" where
  "rid3_GetISA x assign i =
     bnd (wrap Propagate (of_sum (PgUUID x i))) (\<lambda>uid.
     bnd (gets (\<lambda>db. tbl_get (rdb_isas db) uid)) (\<lambda>r.
     case r of None \<Rightarrow> ret None
     | Some row \<Rightarrow> bnd (of_sum (rid3_fetch_isa assign (uid, row))) (\<lambda>isa. ret (Some isa))))"

definition rid3_isa_row_of :: "time \<Rightarrow> isa \<Rightarrow> isa_row" where
  "rid3_isa_row_of ts i =
     \<lparr>isr_owner = isa_Owner i, isr_url = isa_URL i, isr_cells = isa_Cells i,
      isr_starts_at = isa_StartTime i, isr_ends_at = isa_EndTime i,
      isr_writer = None, isr_updated_at = ts\<rparr>"

definition rid3_InsertISA :: "ext \<Rightarrow> (cells \<Rightarrow> rid_err + unit) \<Rightarrow> time \<Rightarrow> isa \<Rightarrow> isa option rid_tx" where
  "rid3_InsertISA x assign ts i =
     bnd (wrap Propagate (of_sum (smap (ValidateCell x) (isa_Cells i)))) (\<lambda>_.
     bnd (wrap Propagate (of_sum (PgUUID x (isa_ID i)))) (\<lambda>uid.
     seq (check (rid_row_check (isa_StartTime i) (isa_EndTime i) (isa_Cells i)) check_violation)
     (bnd (gets (\<lambda>db. tbl_get (rdb_isas db) uid)) (\<lambda>r.
     seq (check (r = None) (Propagate (DbErr ''duplicate key value violates unique constraint'')))
     (seq (modify (\<lambda>db. db\<lparr>rdb_isas := tbl_upsert uid (rid3_isa_row_of ts i) (rdb_isas db)\<rparr>))
     (bnd (of_sum (rid3_fetch_isa assign (uid, rid3_isa_row_of ts i))) (\<lambda>isa. ret (Some isa))))))))"

definition rid3_UpdateISA :: "ext \<Rightarrow> (cells \<Rightarrow> rid_err + unit) \<Rightarrow> time \<Rightarrow> isa \<Rightarrow> isa option rid_tx" where
  "rid3_UpdateISA x assign ts i =
     bnd (wrap Propagate (of_sum (smap (ValidateCell x) (isa_Cells i)))) (\<lambda>_.
     bnd (wrap Propagate (of_sum (PgUUID x (isa_ID i)))) (\<lambda>uid.
     bnd (gets (\<lambda>db. tbl_get (rdb_isas db) uid)) (\<lambda>r.
     case r of None \<Rightarrow> ret None
     | Some old \<Rightarrow>
         if isr_updated_at old \<noteq> db_time (Version_ToTimestamp (isa_Version i)) then ret None
         else
           let row = (rid3_isa_row_of ts i)\<lparr>isr_owner := isr_owner old\<rparr> in
           seq (check (rid_row_check (isa_StartTime i) (isa_EndTime i) (isa_Cells i)) check_violation)
           (seq (modify (\<lambda>db. db\<lparr>rdb_isas := tbl_upsert uid row (rdb_isas db)\<rparr>))
           (bnd (of_sum (rid3_fetch_isa assign (uid, row))) (\<lambda>isa. ret (Some isa)))))))"

definition rid3_DeleteISA :: "ext \<Rightarrow> (cells \<Rightarrow> rid_err + unit) \<Rightarrow> isa \<Rightarrow> isa option rid_tx" where
  "rid3_DeleteISA x assign i =
     bnd (wrap Propagate (of_sum (PgUUID x (isa_ID i)))) (\<lambda>uid.
     bnd (gets (\<lambda>db. tbl_get (rdb_isas db) uid)) (\<lambda>r.
     case r of None \<Rightarrow> ret None
     | Some old \<Rightarrow>
         if isr_updated_at old \<noteq> db_time (Version_ToTimestamp (isa_Version i)) then ret None
         else seq (modify (\<lambda>db. db\<lparr>rdb_isas := tbl_delete uid (rdb_isas db)\<rparr>))
           (bnd (of_sum (rid3_fetch_isa assign (uid, old))) (\<lambda>isa. ret (Some isa)))))"

definition rid3_SearchISAs ::
    "ext \<Rightarrow> (cells \<Rightarrow> rid_err + unit) \<Rightarrow> cells \<Rightarrow> time option \<Rightarrow> time option \<Rightarrow> isa list rid_tx" where
  "rid3_SearchISAs x assign cs earliest latest =
     (if cs = [] then fail (coded BadRequest)
      else case earliest of None \<Rightarrow> fail (NewError None)
      | Some e \<Rightarrow>
          bnd (gets (\<lambda>db. limit_rows (tbl_select (isa_matches cs e latest) (rdb_isas db)))) (\<lambda>rows.
          of_sum (smap (rid3_fetch_isa assign) rows)))"

definition rid3_ListExpiredISAs :: "time \<Rightarrow> string \<Rightarrow> isa list rid_tx" where
  "rid3_ListExpiredISAs now writer = ret []"

section \<open>Version 3 is version 4 without writers\<close>

definition strip_isa :: "isa_row \<Rightarrow> isa_row" where "strip_isa r = r\<lparr>isr_writer := None\<rparr>"

definition strip_rsub :: "rsub_row \<Rightarrow> rsub_row" where "strip_rsub r = r\<lparr>rsr_writer := None\<rparr>"

definition strip_db :: "rid_db \<Rightarrow> rid_db" where
  "strip_db db = db\<lparr>rdb_isas := map (map_prod id strip_isa) (rdb_isas db),
     rdb_subs := map (map_prod id strip_rsub) (rdb_subs db)\<rparr>"

definition unwritten :: "rid_subscription \<Rightarrow> rid_subscription" where
  "unwritten s = s\<lparr>rs_Writer := ''''\<rparr>"

text \<open>
  \<open>simulates f m3 m4\<close>: on the database without writers \<open>m3\<close> does what \<open>m4\<close> does, and returns the
  image under \<open>f\<close>.
\<close>

definition simulates :: "('a \<Rightarrow> 'b) \<Rightarrow> 'b rid_tx \<Rightarrow> 'a rid_tx \<Rightarrow> bool" where
  "simulates f m3 m4 \<longleftrightarrow> (\<forall>db. m3 (strip_db db) =
     (case m4 db of Inl e \<Rightarrow> Inl e | Inr (a, db') \<Rightarrow> Inr (f a, strip_db db')))"

named_theorems sim_intros

lemma sim_ret [sim_intros]: "b = f a \<Longrightarrow> simulates f (ret b) (ret a)"
  by (simp add: simulates_def ret_def)

lemma sim_fail [sim_intros]: "simulates f (fail e) (fail e)"
  by (simp add: simulates_def fail_def)

lemma sim_of_sum [sim_intros]: "simulates (\<lambda>a. a) (of_sum r) (of_sum r)"
  by (simp add: simulates_def of_sum_def ret_def fail_def split: sum.split)

lemma sim_wrap [sim_intros]: "simulates f m3 m4 \<Longrightarrow> simulates f (wrap g m3) (wrap g m4)"
  by (auto simp: simulates_def wrap_def split: sum.split)

lemma sim_check [sim_intros]: "b = c \<Longrightarrow> simulates (\<lambda>a. a) (check b e) (check c e)"
  by (simp add: check_def simulates_def ret_def fail_def)

lemma sim_gets: "(\<And>db. h3 (strip_db db) = f (h4 db)) \<Longrightarrow> simulates f (gets h3) (gets h4)"
  by (simp add: simulates_def gets_def)

lemma sim_modify: "(\<And>db. h3 (strip_db db) = strip_db (h4 db)) \<Longrightarrow> simulates (\<lambda>a. a) (modify h3) (modify h4)"
  by (simp add: simulates_def modify_def)

lemma sim_bnd:
  assumes "simulates f m3 m4" and "\<And>a. simulates g (k3 (f a)) (k4 a)"
  shows "simulates g (bnd m3 k3) (bnd m4 k4)"
  using assms by (auto simp: simulates_def bnd_def split: sum.split prod.split)

lemma sim_bnd_id [sim_intros]:
  "simulates (\<lambda>a. a) m3 m4 \<Longrightarrow> (\<And>a. simulates g (k3 a) (k4 a)) \<Longrightarrow> simulates g (bnd m3 k3) (bnd m4 k4)"
  by (rule sim_bnd [where f = "\<lambda>a. a"])

lemma sim_seq [sim_intros]:
  "simulates (\<lambda>a. a) m3 m4 \<Longrightarrow> simulates g n3 n4 \<Longrightarrow> simulates g (seq m3 n3) (seq m4 n4)"
  unfolding seq_def by (rule sim_bnd_id)

lemma strip_simps [simp]:
  "rsr_owner (strip_rsub r) = rsr_owner r" "rsr_url (strip_rsub r) = rsr_url r"
  "rsr_notification_index (strip_rsub r) = rsr_notification_index r" "rsr_cells (strip_rsub r) = rsr_cells r"
  "rsr_starts_at (strip_rsub r) = rsr_starts_at r" "rsr_ends_at (strip_rsub r) = rsr_ends_at r"
  "rsr_updated_at (strip_rsub r) = rsr_updated_at r"
  "rdb_subs (strip_db db) = map (map_prod id strip_rsub) (rdb_subs db)"
  "strip_db (db\<lparr>rdb_subs := u\<rparr>) = (strip_db db)\<lparr>rdb_subs := map (map_prod id strip_rsub) u\<rparr>"
  by (simp_all add: strip_rsub_def strip_db_def)

lemma map_table:
  "tbl_get (map (map_prod id f) t) k = map_option f (tbl_get t k)"
  "tbl_upsert k (f r) (map (map_prod id f) t) = map (map_prod id f) (tbl_upsert k r t)"
  "tbl_delete k (map (map_prod id f) t) = map (map_prod id f) (tbl_delete k t)"
  by (induction t) (auto simp: tbl_get_def tbl_upsert_def tbl_delete_def AList.delete_eq)

lemma map_table_select:
  "(\<And>r. p (f r) = p r) \<Longrightarrow> tbl_select p (map (map_prod id f) t) = map (map_prod id f) (tbl_select p t)"
  by (induction t) (auto simp: tbl_select_def)

lemma map_table_update_any:
  "(\<And>r. g (f r) = f (g r)) \<Longrightarrow>
     tbl_update_any ks g (map (map_prod id f) t) = map (map_prod id f) (tbl_update_any ks g t)"
  by (induction t) (auto simp: tbl_update_any_def)

lemma rid3_fetch_strip: "rid3_fetch_rsub (k, strip_rsub r) = unwritten (fetch_rsub (k, r))"
  by (simp add: rid3_fetch_rsub_def fetch_rsub_def unwritten_def)

lemma sim_get:
  "simulates (map_option strip_rsub) (gets (\<lambda>db. tbl_get (rdb_subs db) k)) (gets (\<lambda>db. tbl_get (rdb_subs db) k))"
  by (rule sim_gets) (simp add: map_table)

lemma sim_get_fetch:
  "simulates (map_option unwritten)
     (gets (\<lambda>db. map_option (\<lambda>r. rid3_fetch_rsub (k, r)) (tbl_get (rdb_subs db) k)))
     (gets (\<lambda>db. map_option (\<lambda>r. fetch_rsub (k, r)) (tbl_get (rdb_subs db) k)))"
  by (rule sim_gets) (simp add: map_table option.map_comp comp_def rid3_fetch_strip)

lemma sim_upsert:
  "row3 = strip_rsub row \<Longrightarrow>
     simulates (\<lambda>a. a) (modify (\<lambda>db. db\<lparr>rdb_subs := tbl_upsert k row3 (rdb_subs db)\<rparr>))
       (modify (\<lambda>db. db\<lparr>rdb_subs := tbl_upsert k row (rdb_subs db)\<rparr>))"
  by (rule sim_modify) (simp add: map_table)

lemma sim_delete:
  "simulates (\<lambda>a. a) (modify (\<lambda>db. db\<lparr>rdb_subs := tbl_delete k (rdb_subs db)\<rparr>))
     (modify (\<lambda>db. db\<lparr>rdb_subs := tbl_delete k (rdb_subs db)\<rparr>))"
  by (rule sim_modify) (simp add: map_table)

lemma limit_rows_map: "limit_rows (map f rs) = map f (limit_rows rs)"
proof -
  have "sql_limit n (map f rs) = map f (sql_limit n rs)" for n
    by (induction n rs rule: sql_limit.induct) auto
  then show ?thesis by (simp add: limit_rows_def)
qed

lemma sim_search:
  assumes "\<And>r. p (strip_rsub r) = p r"
  shows "simulates (map unwritten)
     (gets (\<lambda>db. map rid3_fetch_rsub (limit_rows (tbl_select p (rdb_subs db)))))
     (gets (\<lambda>db. map fetch_rsub (limit_rows (tbl_select p (rdb_subs db)))))"
  by (rule sim_gets) (auto simp: map_table_select [of p, OF assms] limit_rows_map rid3_fetch_strip)

lemma rsub_matches_strip: "rsub_matches cs now (strip_rsub r) = rsub_matches cs now r"
  by (simp add: rsub_matches_def)

lemma rid3_rsub_row_strip:
  "rid3_rsub_row_of ts s = strip_rsub (rsub_row_of ts s)"
  "(strip_rsub r)\<lparr>rsr_owner := ow\<rparr> = strip_rsub (r\<lparr>rsr_owner := ow\<rparr>)"
  by (simp_all add: rid3_rsub_row_of_def rsub_row_of_def strip_rsub_def)

lemma owner_rows_strip: "map rsr_cells (owner_rows owner now (strip_db db)) = map rsr_cells (owner_rows owner now db)"
  by (simp add: owner_rows_def map_table_select comp_def)

lemma sim_notify:
  "simulates (map unwritten) (rid3_UpdateNotificationIdxsInCells x now cs) (rid_UpdateNotificationIdxsInCells x now cs)"
  unfolding rid3_UpdateNotificationIdxsInCells_def rid_UpdateNotificationIdxsInCells_def
proof (rule sim_bnd [where f = "map (map_prod id strip_rsub)"])
  show "simulates (map (map_prod id strip_rsub)) (gets (\<lambda>db. tbl_select (rsub_matches cs now) (rdb_subs db)))
     (gets (\<lambda>db. tbl_select (rsub_matches cs now) (rdb_subs db)))"
    by (rule sim_gets) (simp add: map_table_select rsub_matches_strip)
  fix rows :: "(string \<times> rsub_row) list"
  have bump: "bump_rsub (strip_rsub r) = strip_rsub (bump_rsub r)" for r
    by (simp add: bump_rsub_def strip_rsub_def)
  have fetched: "List.map_filter (\<lambda>k. map_option (\<lambda>r. unwritten (fetch_rsub (k, r))) (u k)) ks =
      map unwritten (List.map_filter (\<lambda>k. map_option (\<lambda>r. fetch_rsub (k, r)) (u k)) ks)" for u ks
    by (induction ks) (auto simp: List.map_filter_simps split: option.split)
  have keys: "map fst (map (map_prod id strip_rsub) rows) = map fst rows" by simp
  show "simulates (map unwritten)
     (seq (check (list_all (\<lambda>kr. rsr_notification_index (snd kr) + 1 < 2 ^ 31) (map (map_prod id strip_rsub) rows))
           (Propagate (DbErr ''integer out of range for type int4'')))
     (seq (modify (\<lambda>db. db\<lparr>rdb_subs := tbl_update_any (map fst (map (map_prod id strip_rsub) rows)) bump_rsub (rdb_subs db)\<rparr>))
     (gets (\<lambda>db. List.map_filter (\<lambda>k. map_option (\<lambda>r. rid3_fetch_rsub (k, r)) (tbl_get (rdb_subs db) k))
        (x_returning x (map fst (map (map_prod id strip_rsub) rows)))))))
     (seq (check (list_all (\<lambda>kr. rsr_notification_index (snd kr) + 1 < 2 ^ 31) rows)
           (Propagate (DbErr ''integer out of range for type int4'')))
     (seq (modify (\<lambda>db. db\<lparr>rdb_subs := tbl_update_any (map fst rows) bump_rsub (rdb_subs db)\<rparr>))
     (gets (\<lambda>db. List.map_filter (\<lambda>k. map_option (\<lambda>r. fetch_rsub (k, r)) (tbl_get (rdb_subs db) k))
        (x_returning x (map fst rows))))))"
    unfolding keys
    by (intro sim_intros sim_modify sim_gets) (simp_all add: list.pred_map comp_def map_table_update_any bump map_table option.map_comp rid3_fetch_strip fetched)
qed

lemma v3_subscriptions_simulate:
  "simulates (map_option unwritten) (rid3_GetSubscription x i) (rid_GetSubscription x i)"
  "simulates (map_option unwritten) (rid3_InsertSubscription x ts s) (rid_InsertSubscription x ts s)"
  "simulates (map_option unwritten) (rid3_UpdateSubscription x ts s) (rid_UpdateSubscription x ts s)"
  "simulates (map_option unwritten) (rid3_DeleteSubscription x s) (rid_DeleteSubscription x s)"
  "simulates (map unwritten) (rid3_SearchSubscriptions x now cs) (rid_SearchSubscriptions x now cs)"
  "simulates (map unwritten) (rid3_SearchSubscriptionsByOwner x now cs owner) (rid_SearchSubscriptionsByOwner x now cs owner)"
  "simulates (\<lambda>n. n) (rid3_MaxSubscriptionCountInCellsByOwner now cs owner) (rid_MaxSubscriptionCountInCellsByOwner now cs owner)"
proof -
  have old: "simulates (map_option unwritten) (case map_option strip_rsub r of None \<Rightarrow> ret None | Some old \<Rightarrow> k3 old)
      (case r of None \<Rightarrow> ret None | Some old \<Rightarrow> k4 old)"
    if "\<And>old. simulates (map_option unwritten) (k3 (strip_rsub old)) (k4 old)" for r k3 k4
    using that by (cases r) (auto intro: sim_ret)
  have stale: "simulates (map_option unwritten)
      (if rsr_updated_at (strip_rsub old) \<noteq> v then ret None else m3) (if rsr_updated_at old \<noteq> v then ret None else m4)"
    if "simulates (map_option unwritten) m3 m4" for old v m3 m4
    using that by (auto intro: sim_ret)
  show "simulates (map_option unwritten) (rid3_GetSubscription x i) (rid_GetSubscription x i)"
    unfolding rid3_GetSubscription_def rid_GetSubscription_def by (intro sim_intros sim_get_fetch)
  show "simulates (map_option unwritten) (rid3_InsertSubscription x ts s) (rid_InsertSubscription x ts s)"
    unfolding rid3_InsertSubscription_def rid_InsertSubscription_def
    by (intro sim_bnd [OF sim_get] sim_bnd_id sim_wrap sim_of_sum sim_seq sim_check refl sim_upsert sim_ret)
      (simp_all add: rid3_rsub_row_strip rid3_fetch_strip)
  show "simulates (map_option unwritten) (rid3_UpdateSubscription x ts s) (rid_UpdateSubscription x ts s)"
    unfolding rid3_UpdateSubscription_def rid_UpdateSubscription_def Let_def
    by (intro sim_bnd [OF sim_get] sim_bnd_id sim_wrap sim_of_sum old stale sim_seq sim_check refl sim_upsert sim_ret)
      (simp_all add: rid3_rsub_row_strip rid3_fetch_strip)
  show "simulates (map_option unwritten) (rid3_DeleteSubscription x s) (rid_DeleteSubscription x s)"
    unfolding rid3_DeleteSubscription_def rid_DeleteSubscription_def
    by (intro sim_bnd [OF sim_get] sim_bnd_id sim_wrap sim_of_sum old stale sim_seq sim_delete sim_ret)
      (simp add: rid3_fetch_strip)
  show "simulates (map unwritten) (rid3_SearchSubscriptions x now cs) (rid_SearchSubscriptions x now cs)"
    by (auto simp: rid3_SearchSubscriptions_def rid_SearchSubscriptions_def rsub_matches_strip intro: sim_fail sim_search)
  show "simulates (map unwritten) (rid3_SearchSubscriptionsByOwner x now cs owner) (rid_SearchSubscriptionsByOwner x now cs owner)"
    by (auto simp: rid3_SearchSubscriptionsByOwner_def rid_SearchSubscriptionsByOwner_def rsub_matches_strip
        intro: sim_fail sim_search)
  show "simulates (\<lambda>n. n) (rid3_MaxSubscriptionCountInCellsByOwner now cs owner) (rid_MaxSubscriptionCountInCellsByOwner now cs owner)"
    unfolding rid3_MaxSubscriptionCountInCellsByOwner_def rid_MaxSubscriptionCountInCellsByOwner_def
    by (rule sim_gets) (simp add: owner_rows_strip)
qed

text \<open>Without writers version 4 lists nothing as expired either.\<close>

lemma v3_nothing_expired:
  "rid_ListExpiredSubscriptions now writer (strip_db db) = rid3_ListExpiredSubscriptions now writer (strip_db db)"
  by (induction "rdb_subs db")
    (auto simp: rid_ListExpiredSubscriptions_def rid3_ListExpiredSubscriptions_def gets_def ret_def
      tbl_select_def rsub_expired_def written_by_def strip_rsub_def filter_empty_conv)

text \<open>A service area is never read with its cells.\<close>

lemma rid3_isas_without_cells:
  "rid3_GetISA x assign i db = Inr (Some isa, db') \<Longrightarrow> isa_Cells isa = []"
  "rid3_SearchISAs x assign cs e l db = Inr (isas, db') \<Longrightarrow> isa \<in> set isas \<Longrightarrow> isa_Cells isa = []"
proof -
  have fetched: "rid3_fetch_isa assign kr = Inr isa \<Longrightarrow> isa_Cells isa = []" for kr isa
    by (cases kr) (auto simp: rid3_fetch_isa_def tx_inv CellUnionFromInt64_def)
  have all: "smap (rid3_fetch_isa assign) rows = Inr isas \<Longrightarrow> isa \<in> set isas \<Longrightarrow> isa_Cells isa = []" for rows isas isa
    by (induction rows arbitrary: isas) (auto simp: tx_inv dest: fetched)
  show "rid3_GetISA x assign i db = Inr (Some isa, db') \<Longrightarrow> isa_Cells isa = []"
    by (auto simp: rid3_GetISA_def tx_inv dest: fetched split: option.split_asm)
  show "rid3_SearchISAs x assign cs e l db = Inr (isas, db') \<Longrightarrow> isa \<in> set isas \<Longrightarrow> isa_Cells isa = []"
    by (auto simp: rid3_SearchISAs_def tx_inv dest: all split: option.split_asm if_split_asm)
qed

end
