(* ===== verification/Dss_Keys.thy ===== *)
theory Dss_Keys
  imports Dss_Auth
begin

text \<open>
  Where the keys of the authorizer come from: the two resolvers of \<^verbatim>\<open>pkg/auth/auth.go\<close>, the choice
  between them in \<^verbatim>\<open>cmds/core-service/main.go\<close>, and the start and the refresh of an authorizer.
\<close>

section \<open>Resolvers\<close>

text \<open>
  Parameters: reading a file, the PEM and X.509 formats, the endpoint of a key set with its URL,
  and the library for key sets. A public key need not be an RSA key.
\<close>

datatype 'k public_key = RsaKey 'k | OtherKey

record ('k, 'j) key_ext =
  kx_ReadFile :: "string \<Rightarrow> string option"
  kx_pem_Decode :: "string \<Rightarrow> string option"
  kx_ParsePKIXPublicKey :: "string \<Rightarrow> 'k public_key option"
  kx_url_Parse :: "string \<Rightarrow> string option"
  kx_Do :: "string \<Rightarrow> string option"
  kx_Decode :: "string \<Rightarrow> 'j option"
  kx_Keys :: "'j \<Rightarrow> 'k list"
  kx_Key :: "'j \<Rightarrow> string \<Rightarrow> 'k list"

text \<open>The resolver of files keeps the keys that it has read; \<open>None\<close> is the nil slice.\<close>

record 'k FromFileKeyResolver =
  KeyFiles :: "string list"
  file_keys :: "'k list option"

fun slice_of :: "'k list option \<Rightarrow> 'k list" where
  "slice_of None = []"
| "slice_of (Some l) = l"

definition read_key :: "('k, 'j) key_ext \<Rightarrow> string \<Rightarrow> 'd err + 'k" where
  "read_key kx f =
     (case kx_ReadFile kx f of None \<Rightarrow> Inl (Propagate ExtErr)
      | Some bytes \<Rightarrow>
      (case kx_pem_Decode kx bytes of None \<Rightarrow> Inl (NewError None)
      | Some pub \<Rightarrow>
      (case kx_ParsePKIXPublicKey kx pub of None \<Rightarrow> Inl (Propagate ExtErr)
      | Some OtherKey \<Rightarrow> Inl (NewError None)
      | Some (RsaKey key) \<Rightarrow> Inr key)))"

text \<open>The loop appends each key to the resolver's, also when a later file fails.\<close>

fun read_keys ::
    "('k, 'j) key_ext \<Rightarrow> string list \<Rightarrow> 'k list option \<Rightarrow> ('d err + 'k list) \<times> 'k list option" where
  "read_keys kx [] ks = (Inr (slice_of ks), ks)"
| "read_keys kx (f # fs) ks =
     (case read_key kx f of Inl e \<Rightarrow> (Inl e, ks)
      | Inr key \<Rightarrow> read_keys kx fs (Some (slice_of ks @ [key])))"

definition file_ResolveKeys ::
    "('k, 'j) key_ext \<Rightarrow> 'k FromFileKeyResolver \<Rightarrow> ('d err + 'k list) \<times> 'k FromFileKeyResolver" where
  "file_ResolveKeys kx r =
     (case file_keys r of
        Some ks \<Rightarrow> (Inr ks, r)
      | None \<Rightarrow> (case read_keys kx (KeyFiles r) None of (res, ks) \<Rightarrow> (res, r\<lparr>file_keys := ks\<rparr>)))"

record JWKSResolver =
  Endpoint :: string
  KeyIDs :: "string list"

fun keys_of_ids :: "('k, 'j) key_ext \<Rightarrow> 'j \<Rightarrow> string list \<Rightarrow> 'k list \<Rightarrow> 'd err + 'k list" where
  "keys_of_ids kx jwks [] webKeys = Inr webKeys"
| "keys_of_ids kx jwks (kid # kids) webKeys =
     (if kx_Key kx jwks kid = [] then Inl (NewError None)
      else keys_of_ids kx jwks kids (webKeys @ kx_Key kx jwks kid))"

definition jwks_ResolveKeys :: "('k, 'j) key_ext \<Rightarrow> JWKSResolver \<Rightarrow> 'd err + 'k list" where
  "jwks_ResolveKeys kx r =
     (case kx_Do kx (Endpoint r) of None \<Rightarrow> Inl (Propagate ExtErr)
      | Some body \<Rightarrow>
      (case kx_Decode kx body of None \<Rightarrow> Inl (Propagate ExtErr)
      | Some jwks \<Rightarrow>
          keys_of_ids kx jwks (KeyIDs r) (if KeyIDs r = [] then kx_Keys kx jwks else [])))"

datatype 'k key_resolver = FromFile "'k FromFileKeyResolver" | JWKS JWKSResolver

fun ResolveKeys :: "('k, 'j) key_ext \<Rightarrow> 'k key_resolver \<Rightarrow> ('d err + 'k list) \<times> 'k key_resolver" where
  "ResolveKeys kx (FromFile r) = (case file_ResolveKeys kx r of (res, r') \<Rightarrow> (res, FromFile r'))"
| "ResolveKeys kx (JWKS r) = (jwks_ResolveKeys kx r, JWKS r)"

text \<open>The arguments are those of the command line; \<open>None\<close> is the nil resolver.\<close>

definition createKeyResolver ::
    "('k, 'j) key_ext \<Rightarrow> string \<Rightarrow> string \<Rightarrow> string \<Rightarrow> 'd err + 'k key_resolver option" where
  "createKeyResolver kx pkFile jwksEndpoint jwksKeyIDs =
     (if pkFile \<noteq> ''''
      then Inr (Some (FromFile \<lparr>KeyFiles = split_at CHR '','' pkFile, file_keys = None\<rparr>))
      else if jwksEndpoint \<noteq> '''' \<and> jwksKeyIDs \<noteq> '''' then
        (case kx_url_Parse kx jwksEndpoint of None \<Rightarrow> Inl (Propagate ExtErr)
         | Some u \<Rightarrow> Inr (Some (JWKS \<lparr>Endpoint = u, KeyIDs = split_at CHR '','' jwksKeyIDs\<rparr>)))
      else Inr None)"

section \<open>Start and refresh\<close>

text \<open>Without a resolver the start dereferences it.\<close>

definition start_authorizer ::
    "('k, 'j) key_ext \<Rightarrow> 'k key_resolver option \<Rightarrow> (string \<Rightarrow> KeyClaimedScopesValidator option) \<Rightarrow> string list
     \<Rightarrow> 'd err + 'k authorizer \<times> 'k key_resolver" where
  "start_authorizer kx resolver validators audiences =
     (case resolver of None \<Rightarrow> Inl Panic
      | Some r \<Rightarrow>
      (case ResolveKeys kx r of
         (Inl e, _) \<Rightarrow> Inl (rewrap Propagate e)
       | (Inr ks, r') \<Rightarrow> Inr (NewRSAAuthorizer ks validators audiences, r')))"

text \<open>A tick of the worker; keys that cannot be resolved make it panic.\<close>

definition refresh_keys ::
    "('k, 'j) key_ext \<Rightarrow> 'k authorizer \<times> 'k key_resolver \<Rightarrow> 'd err + 'k authorizer \<times> 'k key_resolver" where
  "refresh_keys kx st =
     (case st of (au, r) \<Rightarrow>
      (case (ResolveKeys kx r :: ('d err + 'k list) \<times> 'k key_resolver) of
         (Inl e, _) \<Rightarrow> Inl Panic
       | (Inr ks, r') \<Rightarrow> Inr (setKeys au ks, r')))"

section \<open>Lemmas\<close>

lemma split_at_nonempty [simp]: "split_at c s \<noteq> []"
  by (induction s) (auto split: list.split)

lemma read_keys_Inr:
  "read_keys kx fs ks = (Inr l :: 'd err + 'k list, ks') \<Longrightarrow> \<exists>new. l = slice_of ks @ new \<and> length new = length fs \<and>
     list_all2 (\<lambda>f k. read_key kx f = (Inr k :: 'd err + 'k)) fs new \<and> (fs \<noteq> [] \<longrightarrow> ks' = Some l)"
proof (induction fs arbitrary: ks)
  case (Cons f fs)
  then obtain key where key: "read_key kx f = (Inr key :: 'd err + 'k)"
    and rest: "read_keys kx fs (Some (slice_of ks @ [key])) = (Inr l :: 'd err + 'k list, ks')"
    by (auto split: sum.splits)
  from Cons.IH [OF rest] obtain new where "l = slice_of ks @ key # new" "length new = length fs"
    "list_all2 (\<lambda>f k. read_key kx f = (Inr k :: 'd err + 'k)) fs new" "fs \<noteq> [] \<longrightarrow> ks' = Some l" by auto
  with key rest show ?case by (intro exI [of _ "key # new"]) (cases fs, auto)
qed simp

text \<open>The keys of a resolver of the command line are those of every file or id, and never none.\<close>

lemma keys_of_ids_Inr:
  "keys_of_ids kx jwks kids acc = Inr ks \<Longrightarrow> ks = acc @ concat (map (kx_Key kx jwks) kids) \<and>
     (\<forall>kid \<in> set kids. kx_Key kx jwks kid \<noteq> [])"
proof (induction kids arbitrary: acc)
  case (Cons kid kids)
  then show ?case using Cons.IH [of "acc @ kx_Key kx jwks kid"] by (auto split: if_splits)
qed simp

lemma resolved_keys_nonempty:
  assumes "createKeyResolver kx pkFile endpoint ids = (Inr (Some r) :: 'd err + _)"
    and "ResolveKeys kx r = (Inr ks :: 'd err + _, r')"
  shows "ks \<noteq> []"
proof (cases "pkFile = ''''")
  case False
  with assms have "read_keys kx (split_at CHR '','' pkFile) None = (Inr ks :: 'd err + _, snd (read_keys kx (split_at CHR '','' pkFile) None :: ('d err + _) \<times> _))"
    by (auto simp: createKeyResolver_def file_ResolveKeys_def split: prod.splits)
  from read_keys_Inr [OF this] show ?thesis by auto
next
  case True
  with assms obtain u jwks where "r = JWKS \<lparr>Endpoint = u, KeyIDs = split_at CHR '','' ids\<rparr>"
    and "keys_of_ids kx jwks (split_at CHR '','' ids) [] = (Inr ks :: 'd err + _)"
    by (auto simp: createKeyResolver_def jwks_ResolveKeys_def split: if_splits option.splits)
  from keys_of_ids_Inr [OF this(2)] show ?thesis
    by (cases "split_at CHR '','' ids") auto
qed

text \<open>
  After a file that cannot be read, the resolver answers with the keys of the files before it, if
  there were any, and no error; after success it never reads again.
\<close>

lemma read_keys_Inl:
  "read_keys kx fs (Some ks) = (Inl e :: 'd err + 'k list, ks') \<Longrightarrow> \<exists>l. ks' = Some (ks @ l)"
proof (induction fs arbitrary: ks)
  case (Cons f fs)
  then consider "ks' = Some ks" | key where "read_keys kx fs (Some (ks @ [key])) = (Inl e :: 'd err + 'k list, ks')"
    by (auto split: sum.splits)
  then show ?case
  proof cases
    case (2 key)
    from Cons.IH [OF this] show ?thesis by auto
  qed simp
qed simp

lemma failed_resolver_answers:
  assumes "read_key kx f = (Inr key :: 'd err + _)"
    and "file_ResolveKeys kx \<lparr>KeyFiles = f # fs, file_keys = None\<rparr> = (Inl e :: 'd err + _, r)"
  shows "\<exists>l. file_ResolveKeys kx r = (Inr (key # l) :: 'd err + _, r)"
proof -
  from assms obtain ks' where "read_keys kx fs (Some [key]) = (Inl e :: 'd err + _, ks')"
    and r: "r = \<lparr>KeyFiles = f # fs, file_keys = ks'\<rparr>"
    by (auto simp: file_ResolveKeys_def split: prod.splits)
  with read_keys_Inl [OF this(1)] show ?thesis by (auto simp: file_ResolveKeys_def)
qed

lemma file_keys_kept:
  assumes "start_authorizer kx (Some (FromFile r)) v a = (Inr (au, r') :: 'd err + _)" "KeyFiles r \<noteq> []"
  shows "refresh_keys kx (au, r') = (Inr (au, r') :: 'd err + _)"
proof -
  from assms(1) obtain ks r1 where r1: "file_ResolveKeys kx r = (Inr ks :: 'd err + _, r1)" "r' = FromFile r1"
    and au: "au = NewRSAAuthorizer ks v a"
    by (auto simp: start_authorizer_def split: prod.splits sum.splits)
  from r1(1) assms(2) have "file_keys r1 = Some ks"
    using read_keys_Inr [of kx "KeyFiles r" None]
    by (fastforce simp: file_ResolveKeys_def split: option.splits prod.splits)
  then show ?thesis
    by (simp add: refresh_keys_def r1(2) file_ResolveKeys_def au setKeys_def NewRSAAuthorizer_def)
qed

end
