(* ===== verification/Dss_Schema.thy ===== *)
theory Dss_Schema
  imports Dss_Prelude "HOL-Library.List_Lexorder" "HOL-Library.Char_ord"
begin

text \<open>
  The connection to the database (\<^verbatim>\<open>pkg/cockroach/cockroach.go\<close>): the parameters as a
  connection string, the schema version of a database, and the check of that version by which
  the three stores open.
\<close>

section \<open>Connection strings\<close>

text \<open>Decimal text of an integer, as \<^verbatim>\<open>%d\<close> formats it, and back, as \<^verbatim>\<open>strconv.ParseInt\<close> reads it.\<close>

function decimal_digits :: "int \<Rightarrow> string" where
  "decimal_digits n =
     (if n < 10 then [char_of (48 + n)] else decimal_digits (n div 10) @ [char_of (48 + n mod 10)])"
  by pat_completeness auto
termination
  by (relation "measure nat") auto

declare decimal_digits.simps [simp del]

definition decimal :: "int \<Rightarrow> string" where
  "decimal n = (if n < 0 then CHR ''-'' # decimal_digits (- n) else decimal_digits n)"

definition is_digit :: "char \<Rightarrow> bool" where
  "is_digit c \<longleftrightarrow> CHR ''0'' \<le> c \<and> c \<le> CHR ''9''"

definition digits_value :: "string \<Rightarrow> int option" where
  "digits_value s =
     (if s \<noteq> '''' \<and> list_all is_digit s
      then Some (foldl (\<lambda>n c. n * 10 + (of_char c - 48)) 0 s) else None)"

definition signed_value :: "string \<Rightarrow> int option" where
  "signed_value s =
     (case s of [] \<Rightarrow> None
      | c # t \<Rightarrow>
          if c = CHR ''-'' then map_option uminus (digits_value t)
          else if c = CHR ''+'' then digits_value t else digits_value s)"

text \<open>The port is parsed into 16 signed bits.\<close>

definition parseIntOrDefault :: "string \<Rightarrow> int \<Rightarrow> int" where
  "parseIntOrDefault port defaultPort =
     (case signed_value port of None \<Rightarrow> defaultPort
      | Some p \<Rightarrow> if - (2 ^ 15) \<le> p \<and> p < 2 ^ 15 then p else defaultPort)"

record Credentials =
  Username :: string
  Password :: string

record SSL =
  ssl_Mode :: string
  ssl_Dir :: string

record ConnectParameters =
  ApplicationName :: string
  Host :: string
  Port :: int
  DBName :: string
  cp_Credentials :: Credentials
  cp_SSL :: SSL
  MaxOpenConns :: int
  MaxConnIdleSeconds :: int
  MaxRetries :: int

text \<open>A key that is absent from a Go map gives the zero value.\<close>

definition map_value :: "(string \<rightharpoonup> string) \<Rightarrow> string \<Rightarrow> string" where
  "map_value m k = (case m k of None \<Rightarrow> '''' | Some v \<Rightarrow> v)"

definition connectParametersFromMap :: "(string \<rightharpoonup> string) \<Rightarrow> ConnectParameters" where
  "connectParametersFromMap m =
     \<lparr>ApplicationName = map_value m ''application_name'', Host = map_value m ''host'',
      Port = parseIntOrDefault (map_value m ''port'') 0, DBName = map_value m ''db_name'',
      cp_Credentials = \<lparr>Username = map_value m ''user'', Password = ''''\<rparr>,
      cp_SSL = \<lparr>ssl_Mode = map_value m ''ssl_mode'', ssl_Dir = map_value m ''ssl_dir''\<rparr>,
      MaxOpenConns = parseIntOrDefault (map_value m ''max_open_conns'') 4,
      MaxConnIdleSeconds = parseIntOrDefault (map_value m ''max_conn_idle_secs'') 40,
      MaxRetries = 0\<rparr>"

text \<open>The entries of the map in the order in which it is iterated.\<close>

fun join :: "string \<Rightarrow> string list \<Rightarrow> string" where
  "join sep [] = ''''"
| "join sep [s] = s"
| "join sep (s # t # ss) = s @ sep @ join sep (t # ss)"

definition formatDSN :: "(string \<times> string) list \<Rightarrow> string" where
  "formatDSN dsnMap =
     join '' '' (sort (map (\<lambda>(key, v). key @ ''='' @ v) (filter (\<lambda>(key, v). v \<noteq> '''') dsnMap)))"

text \<open>\<open>order\<close> is the order in which the map is iterated.\<close>

definition BuildDSN ::
    "((string \<times> string) list \<Rightarrow> (string \<times> string) list) \<Rightarrow> ConnectParameters \<Rightarrow> 'd err + string" where
  "BuildDSN order cp =
     (let u = Username (cp_Credentials cp); h = Host cp; port = Port cp;
          an = (if ApplicationName cp = '''' then ''dss'' else ApplicationName cp);
          sslMode = ssl_Mode (cp_SSL cp); dir = ssl_Dir (cp_SSL cp) in
      sbind (scheck (u \<noteq> '''') (NewError None)) (\<lambda>_.
      sbind (scheck (h \<noteq> '''') (NewError None)) (\<lambda>_.
      sbind (scheck (port \<noteq> 0) (NewError None)) (\<lambda>_.
      sbind (scheck (sslMode \<noteq> '''') (NewError None)) (\<lambda>_.
      let dsnMap =
        [(''user'', u), (''host'', h), (''port'', decimal port), (''application_name'', an),
         (''dbname'', DBName cp), (''sslmode'', sslMode), (''pool_max_conns'', decimal (MaxOpenConns cp))]
      in if sslMode = ''disable'' then Inr (formatDSN (order dsnMap))
         else
           sbind (scheck (dir \<noteq> '''') (NewError None)) (\<lambda>_.
           Inr (formatDSN (order (dsnMap @
             [(''sslrootcert'', dir @ ''/ca.crt''), (''sslcert'', dir @ ''/client.'' @ u @ ''.crt''),
              (''sslkey'', dir @ ''/client.'' @ u @ ''.key'')])))))))))"

text \<open>The string does not depend on the order of iteration.\<close>

lemma sort_order: "mset xs = mset ys \<Longrightarrow> sort xs = sort ys"
  by (rule properties_for_sort) simp_all

lemma formatDSN_order: "mset xs = mset ys \<Longrightarrow> formatDSN xs = formatDSN ys"
  unfolding formatDSN_def by (simp add: sort_order [of "map _ (filter _ xs)" "map _ (filter _ ys)"])

lemma BuildDSN_order:
  assumes "\<And>xs. mset (order xs) = mset xs"
  shows "BuildDSN order cp = (BuildDSN id cp :: 'd err + string)"
proof -
  have "formatDSN (order xs) = formatDSN xs" for xs
    using formatDSN_order assms by blast
  then show ?thesis by (simp only: BuildDSN_def id_apply)
qed

section \<open>Schema versions\<close>

text \<open>The version type of the library.\<close>

record semver =
  sv_Major :: int
  sv_Minor :: int
  sv_Patch :: int
  sv_PreRelease :: string
  sv_Metadata :: string

definition zero_version :: semver where
  "zero_version = \<lparr>sv_Major = 0, sv_Minor = 0, sv_Patch = 0, sv_PreRelease = '''', sv_Metadata = ''''\<rparr>"

text \<open>
  What is not under \<^verbatim>\<open>src/\<close>: the library for versions, the iteration order of a Go map, and the
  database server, whose state has type \<open>'s\<close>. \<open>sx_tables s d\<close> tells whether database \<open>d\<close> has
  the table of schema versions, \<open>sx_version_row\<close> reads it, \<open>sx_has_db\<close> tells whether the
  database exists, \<open>None\<close> being a query that fails. \<open>sx_exec\<close> executes a text of SQL.
\<close>

record 's schema_ext =
  sx_parse :: "string \<Rightarrow> semver option"
  sx_less :: "semver \<Rightarrow> semver \<Rightarrow> bool"
  sx_equal :: "semver \<Rightarrow> semver \<Rightarrow> bool"
  sx_string :: "semver \<Rightarrow> string"
  sx_sort :: "semver list \<Rightarrow> semver list"
  sx_map_order :: "semver list \<Rightarrow> semver list"
  sx_tables :: "'s \<Rightarrow> string \<Rightarrow> bool option"
  sx_version_row :: "'s \<Rightarrow> string \<Rightarrow> string option"
  sx_has_db :: "'s \<Rightarrow> string \<Rightarrow> bool option"
  sx_exec :: "string \<Rightarrow> 's \<Rightarrow> bool \<times> 's"

text \<open>\<open>None\<close> is the pointer \<^verbatim>\<open>UnknownVersion\<close>, to a zero version.\<close>

type_synonym db_version = "semver option"

definition deref_version :: "db_version \<Rightarrow> semver" where
  "deref_version v = (case v of None \<Rightarrow> zero_version | Some u \<Rightarrow> u)"

definition strip_v :: "string \<Rightarrow> string" where
  "strip_v s = (case s of [] \<Rightarrow> [] | c # t \<Rightarrow> if c = CHR ''v'' then t else s)"

definition GetVersion :: "'s schema_ext \<Rightarrow> 's \<Rightarrow> string \<Rightarrow> 'd err + db_version" where
  "GetVersion y s dbName =
     (if dbName = '''' then Inl (NewError None)
      else case sx_tables y s dbName of
        None \<Rightarrow> Inl (Propagate ExtErr)
      | Some exists \<Rightarrow>
          if \<not> exists then Inr None
          else case sx_version_row y s dbName of
            None \<Rightarrow> Inl (Propagate ExtErr)
          | Some dbVersion \<Rightarrow>
              (case sx_parse y (strip_v dbVersion) of None \<Rightarrow> Inl ExtErr | Some v \<Rightarrow> Inr (Some v)))"

section \<open>Opening the stores\<close>

definition CheckCurrentMajorSchemaVersion :: "int \<Rightarrow> 'd err + db_version \<Rightarrow> 'd err + unit" where
  "CheckCurrentMajorSchemaVersion currentMajorSchemaVersion version =
     sbind (swrap Propagate version) (\<lambda>vs.
     case vs of None \<Rightarrow> Inl (NewError None)
     | Some v \<Rightarrow> scheck (currentMajorSchemaVersion = sv_Major v) (NewError None))"

definition scd_NewStore :: "'s schema_ext \<Rightarrow> 's \<Rightarrow> 'd err + unit" where
  "scd_NewStore y s = swrap Propagate (CheckCurrentMajorSchemaVersion 3 (GetVersion y s ''scd''))"

definition vrp_NewStore :: "'s schema_ext \<Rightarrow> 's \<Rightarrow> 'd err + unit" where
  "vrp_NewStore y s = swrap Propagate (CheckCurrentMajorSchemaVersion 1 (GetVersion y s ''vrp''))"

text \<open>
  The store of remote ID keeps the version that it read first, and chooses its repositories by it.
\<close>

definition rid_NewStore :: "'s schema_ext \<Rightarrow> 's \<Rightarrow> string \<Rightarrow> 'd err + db_version" where
  "rid_NewStore y s dbName =
     sbind (swrap Propagate (GetVersion y s dbName)) (\<lambda>vs.
     sbind (swrap Propagate (CheckCurrentMajorSchemaVersion 4 (Inr vs))) (\<lambda>_. Inr vs))"

definition v400 :: semver where
  "v400 = zero_version\<lparr>sv_Major := 4\<rparr>"

definition uses_v4 :: "'s schema_ext \<Rightarrow> db_version \<Rightarrow> bool" where
  "uses_v4 y v \<longleftrightarrow> \<not> sx_less y (deref_version v) v400"

end
