(* ===== verification/Dss_Migration.thy ===== *)
theory Dss_Migration
  imports Dss_Schema Dss_Geo
begin

text \<open>
  The command \<^verbatim>\<open>cmds/db-manager\<close>: the steps of a schema that a directory of SQL files defines,
  and the loop that migrates a database step by step to a target version.
\<close>

section \<open>File names\<close>

text \<open>
  The pattern \<^verbatim>\<open>(upto|downfrom)-v(\d+\.\d+\.\d+)-(.*)\.sql\<close>, looked for at every position of a
  name; its two first groups. A dot of the pattern does not match the end of a line.
\<close>

definition drop_prefix :: "string \<Rightarrow> string \<Rightarrow> string option" where
  "drop_prefix p s = (if take (length p) s = p then Some (drop (length p) s) else None)"

definition read_digits :: "string \<Rightarrow> (string \<times> string) option" where
  "read_digits s =
     (if takeWhile is_digit s = '''' then None else Some (takeWhile is_digit s, dropWhile is_digit s))"

definition read_version :: "string \<Rightarrow> (string \<times> string) option" where
  "read_version s =
     Option.bind (read_digits s) (\<lambda>(a, s1).
     Option.bind (drop_prefix ''.'' s1) (\<lambda>s2.
     Option.bind (read_digits s2) (\<lambda>(b, s3).
     Option.bind (drop_prefix ''.'' s3) (\<lambda>s4.
     Option.bind (read_digits s4) (\<lambda>(c, s5). Some (a @ ''.'' @ b @ ''.'' @ c, s5))))))"

definition match_at :: "string \<Rightarrow> string \<Rightarrow> (string \<times> string) option" where
  "match_at kind s =
     Option.bind (drop_prefix (kind @ ''-v'') s) (\<lambda>s1.
     Option.bind (read_version s1) (\<lambda>(v, s2).
     Option.bind (drop_prefix ''-'' s2) (\<lambda>s3.
     if has_substring ''.sql'' (takeWhile (\<lambda>c. c \<noteq> CHR 0x0A) s3) then Some (kind, v) else None)))"

fun FindStringSubmatch :: "string \<Rightarrow> (string \<times> string) option" where
  "FindStringSubmatch [] = None"
| "FindStringSubmatch (c # s) =
     (case match_at ''upto'' (c # s) of Some r \<Rightarrow> Some r
      | None \<Rightarrow> (case match_at ''downfrom'' (c # s) of Some r \<Rightarrow> Some r
          | None \<Rightarrow> FindStringSubmatch s))"

section \<open>Steps\<close>

record migration_step =
  ms_version :: semver
  ms_upToFile :: string
  ms_downFromFile :: string

datatype dir_entry = SubDir | SqlFile (file_text: "string option")

text \<open>
  A file comes with its content, if it can be read. The steps are collected in a map by
  version; a file whose version does not parse panics.
\<close>

definition add_file ::
    "'s schema_ext \<Rightarrow> string \<times> dir_entry \<Rightarrow> (semver \<times> migration_step) list
     \<Rightarrow> 'd err + (semver \<times> migration_step) list" where
  "add_file y nf steps =
     (case snd nf of SubDir \<Rightarrow> Inr steps
      | SqlFile _ \<Rightarrow>
          (case FindStringSubmatch (fst nf) of None \<Rightarrow> Inr steps
           | Some (kind, t) \<Rightarrow>
               (case sx_parse y t of None \<Rightarrow> Inl Panic
                | Some v \<Rightarrow>
                    let step = (case map_of steps v of
                                  None \<Rightarrow> \<lparr>ms_version = v, ms_upToFile = '''', ms_downFromFile = ''''\<rparr>
                                | Some st \<Rightarrow> st\<lparr>ms_version := v\<rparr>) in
                    if kind = ''upto'' then Inr (AList.update v (step\<lparr>ms_upToFile := fst nf\<rparr>) steps)
                    else if kind = ''downfrom''
                    then Inr (AList.update v (step\<lparr>ms_downFromFile := fst nf\<rparr>) steps)
                    else Inl (NewError None))))"

fun add_files ::
    "'s schema_ext \<Rightarrow> (string \<times> dir_entry) list \<Rightarrow> (semver \<times> migration_step) list
     \<Rightarrow> 'd err + (semver \<times> migration_step) list" where
  "add_files y [] steps = Inr steps"
| "add_files y (nf # files) steps = sbind (add_file y nf steps) (add_files y files)"

text \<open>The first step has no files: it is the database before any.\<close>

definition enumerateMigrationSteps ::
    "'s schema_ext \<Rightarrow> (string \<times> dir_entry) list option \<Rightarrow> 'd err + migration_step list" where
  "enumerateMigrationSteps y dir =
     (case dir of None \<Rightarrow> Inl (Propagate ExtErr)
      | Some files \<Rightarrow>
          sbind (add_files y files []) (\<lambda>steps.
          let versions = sx_sort y (map (ms_version \<circ> snd)
                (List.map_filter (\<lambda>k. map_option (Pair k) (map_of steps k))
                  (sx_map_order y (map fst steps)))) in
          case sx_parse y ''0.0.0'' of None \<Rightarrow> Inl Panic
          | Some zero \<Rightarrow>
              Inr (\<lparr>ms_version = zero, ms_upToFile = '''', ms_downFromFile = ''''\<rparr> #
                   map (\<lambda>v. case map_of steps v of Some st \<Rightarrow> st
                             | None \<Rightarrow> \<lparr>ms_version = zero_version, ms_upToFile = '''', ms_downFromFile = ''''\<rparr>)
                     versions)))"

section \<open>The migration\<close>

text \<open>Reading the file with an empty name reads the directory, which fails.\<close>

definition read_file :: "(string \<times> dir_entry) list \<Rightarrow> string \<Rightarrow> string option" where
  "read_file files name =
     (case map_of files name of Some (SqlFile content) \<Rightarrow> content | _ \<Rightarrow> None)"

definition step_at :: "'a list \<Rightarrow> int \<Rightarrow> 'a option" where
  "step_at steps i = (if 0 \<le> i \<and> i < int (length steps) then Some (steps ! nat i) else None)"

text \<open>The file to run, the version it leads to, and the index of that version.\<close>

definition next_step ::
    "'s schema_ext \<Rightarrow> migration_step list \<Rightarrow> semver \<Rightarrow> semver \<Rightarrow> int \<Rightarrow> (string \<times> semver \<times> int) option" where
  "next_step y steps targetVersion currentVersion currentStepIndex =
     (if sx_less y currentVersion targetVersion
      then Option.bind (step_at steps (currentStepIndex + 1)) (\<lambda>st.
           Some (ms_upToFile st, ms_version st, currentStepIndex + 1))
      else Option.bind (step_at steps currentStepIndex) (\<lambda>st.
           Option.bind (step_at steps (currentStepIndex - 1)) (\<lambda>st'.
           Some (ms_downFromFile st, ms_version st', currentStepIndex - 1))))"

text \<open>The database of remote ID changes its name at version 4.0.0.\<close>

definition next_dbName :: "'s schema_ext \<Rightarrow> string \<Rightarrow> semver \<Rightarrow> semver \<Rightarrow> int \<Rightarrow> int \<Rightarrow> string" where
  "next_dbName y dbName currentVersion newVersion currentStepIndex newCurrentStepIndex =
     (let d = (if dbName = ''defaultdb'' \<and> sx_string y newVersion = ''4.0.0'' \<and>
                  newCurrentStepIndex > currentStepIndex then ''rid'' else dbName)
      in if d = ''rid'' \<and> sx_string y currentVersion = ''4.0.0'' \<and>
            newCurrentStepIndex < currentStepIndex then ''defaultdb'' else d)"

definition use_sql :: "string \<Rightarrow> string \<Rightarrow> string" where
  "use_sql dbName rawMigrationSQL = ''USE '' @ dbName @ '';'' @ [CHR 0x0A] @ rawMigrationSQL"

text \<open>One iteration. \<open>None\<close> is a panic, after which the server is as the iteration left it.\<close>

definition migration_iteration ::
    "'s schema_ext \<Rightarrow> (string \<times> dir_entry) list \<Rightarrow> migration_step list \<Rightarrow> semver \<Rightarrow> string \<Rightarrow> semver
     \<Rightarrow> int \<Rightarrow> 's \<Rightarrow> (string \<times> semver \<times> int) option \<times> 's" where
  "migration_iteration y files steps targetVersion dbName currentVersion currentStepIndex s =
     (case next_step y steps targetVersion currentVersion currentStepIndex of
        None \<Rightarrow> (None, s)
      | Some (sqlFile, newVersion, newCurrentStepIndex) \<Rightarrow>
          (case read_file files sqlFile of
             None \<Rightarrow> (None, s)
           | Some rawMigrationSQL \<Rightarrow>
               (case sx_exec y (use_sql dbName rawMigrationSQL) s of
                  (False, s') \<Rightarrow> (None, s')
                | (True, s') \<Rightarrow>
                    let dbName' = next_dbName y dbName currentVersion newVersion
                          currentStepIndex newCurrentStepIndex in
                    (case (GetVersion y s' dbName' :: unit err + db_version) of
                       Inl _ \<Rightarrow> (None, s')
                     | Inr actualVersion \<Rightarrow>
                         if \<not> sx_equal y (deref_version actualVersion) newVersion then (None, s')
                         else (Some (dbName', deref_version actualVersion, newCurrentStepIndex), s')))))"

text \<open>The loop. A result \<open>None\<close> of the function is a loop that does not end.\<close>

partial_function (option) migrate ::
    "'s schema_ext \<Rightarrow> (string \<times> dir_entry) list \<Rightarrow> migration_step list \<Rightarrow> semver \<Rightarrow> string \<Rightarrow> semver
     \<Rightarrow> int \<Rightarrow> 's \<Rightarrow> ((string \<times> semver) option \<times> 's) option" where
  "migrate y files steps targetVersion dbName currentVersion currentStepIndex s =
     (if sx_equal y currentVersion targetVersion then Some (Some (dbName, currentVersion), s)
      else case migration_iteration y files steps targetVersion dbName currentVersion currentStepIndex s of
        (None, s') \<Rightarrow> Some (None, s')
      | (Some (dbName', currentVersion', currentStepIndex'), s') \<Rightarrow>
          migrate y files steps targetVersion dbName' currentVersion' currentStepIndex' s')"

section \<open>The command\<close>

text \<open>\<^verbatim>\<open>strings.ToLower\<close> of an ASCII text, and \<^verbatim>\<open>filepath.Base\<close>.\<close>

definition lower_char :: "char \<Rightarrow> char" where
  "lower_char c = (if CHR ''A'' \<le> c \<and> c \<le> CHR ''Z'' then char_of (of_char c + 32 :: nat) else c)"

definition filepath_Base :: "string \<Rightarrow> string" where
  "filepath_Base path =
     (if path = '''' then ''.''
      else let p = rev (dropWhile (\<lambda>c. c = CHR ''/'') (rev path)) in
        if p = '''' then ''/'' else rev (takeWhile (\<lambda>c. c \<noteq> CHR ''/'') (rev p)))"

definition target_version ::
    "'s schema_ext \<Rightarrow> migration_step list \<Rightarrow> string \<Rightarrow> semver option option" where
  "target_version y steps dbVersion =
     (if map lower_char dbVersion = ''latest'' then Some (Some (ms_version (last steps)))
      else if TrimSpace dbVersion = '''' then Some None
      else map_option Some (sx_parse y dbVersion))"

definition find_database :: "'s schema_ext \<Rightarrow> string \<Rightarrow> 's \<Rightarrow> (string \<times> bool) option" where
  "find_database y dbName s =
     (case sx_has_db y s dbName of None \<Rightarrow> None
      | Some exists \<Rightarrow>
          if \<not> exists \<and> dbName = ''rid''
          then map_option (Pair ''defaultdb'') (sx_has_db y s ''defaultdb'')
          else Some (dbName, exists))"

definition create_database :: "'s schema_ext \<Rightarrow> string \<Rightarrow> bool \<Rightarrow> 's \<Rightarrow> bool \<times> 's" where
  "create_database y dbName exists s =
     (if exists then (True, s) else sx_exec y (''CREATE DATABASE IF NOT EXISTS '' @ dbName) s)"

definition current_step_index :: "migration_step list \<Rightarrow> semver \<Rightarrow> int" where
  "current_step_index steps currentVersion =
     fold (\<lambda>(i, st) r. if ms_version st = currentVersion then int i else r) (enumerate 0 steps) (- 1)"

text \<open>
  The result is the name and the version of the database at the end, and no pair is a panic;
  without a target the version is only printed.
\<close>

definition db_manager ::
    "'s schema_ext \<Rightarrow> string \<Rightarrow> (string \<times> dir_entry) list option \<Rightarrow> string \<Rightarrow> 's
     \<Rightarrow> ((string \<times> semver) option \<times> 's) option" where
  "db_manager y path dir dbVersion s =
     (if path = '''' then Some (None, s)
      else case (enumerateMigrationSteps y dir :: unit err + migration_step list) of
        Inl _ \<Rightarrow> Some (None, s)
      | Inr steps \<Rightarrow>
          if steps = [] then Some (None, s)
          else case target_version y steps dbVersion of
            None \<Rightarrow> Some (None, s)
          | Some target \<Rightarrow>
          (case find_database y (filepath_Base path) s of
            None \<Rightarrow> Some (None, s)
          | Some (dbName, exists) \<Rightarrow>
          (case create_database y dbName exists s of
            (False, s') \<Rightarrow> Some (None, s')
          | (True, s') \<Rightarrow>
          (case (GetVersion y s' dbName :: unit err + db_version) of
            Inl _ \<Rightarrow> Some (None, s')
          | Inr currentVersion \<Rightarrow>
          (case target of
            None \<Rightarrow> Some (Some (dbName, deref_version currentVersion), s')
          | Some targetVersion \<Rightarrow>
              migrate y (case dir of None \<Rightarrow> [] | Some files \<Rightarrow> files) steps targetVersion dbName
                (deref_version currentVersion)
                (current_step_index steps (deref_version currentVersion)) s')))))"

end
