(* ===== verification/Dss_Upgrade.thy ===== *)
theory Dss_Upgrade
  imports Dss_Migration
begin

text \<open>
  When the migration of \<^verbatim>\<open>cmds/db-manager\<close> returns: the order of the steps that a directory
  defines, the loop at each of them, and the property of the command.
\<close>

section \<open>What the libraries promise\<close>

definition release :: "semver \<Rightarrow> bool" where
  "release v \<longleftrightarrow> sv_PreRelease v = '''' \<and> sv_Metadata v = '''' \<and>
     0 \<le> sv_Major v \<and> 0 \<le> sv_Minor v \<and> 0 \<le> sv_Patch v"

definition precedes :: "semver \<Rightarrow> semver \<Rightarrow> bool" where
  "precedes a b \<longleftrightarrow> sv_Major a < sv_Major b \<or> sv_Major a = sv_Major b \<and>
     (sv_Minor a < sv_Minor b \<or> sv_Minor a = sv_Minor b \<and> sv_Patch a < sv_Patch b)"

text \<open>
  Precedence is a weak order, for releases that of the three numbers; three numbers separated by
  dots, if they parse, give a release; sorting sorts, and a map is iterated once over its keys.
\<close>

definition semver_ok :: "'s schema_ext \<Rightarrow> bool" where
  "semver_ok y \<longleftrightarrow>
     (\<forall>a b. sx_equal y a b \<longleftrightarrow> \<not> sx_less y a b \<and> \<not> sx_less y b a) \<and>
     (\<forall>a b. sx_less y a b \<longrightarrow> \<not> sx_less y b a) \<and>
     (\<forall>a b c. sx_less y a c \<longrightarrow> sx_less y a b \<or> sx_less y b c) \<and>
     (\<forall>a b. release a \<longrightarrow> release b \<longrightarrow> sx_less y a b = precedes a b) \<and>
     (\<forall>name kind t v. FindStringSubmatch name = Some (kind, t) \<longrightarrow> sx_parse y t = Some v \<longrightarrow> release v) \<and>
     sx_parse y ''0.0.0'' = Some zero_version \<and>
     (\<forall>vs. mset (sx_sort y vs) = mset vs \<and> sorted_wrt (\<lambda>a b. \<not> sx_less y b a) (sx_sort y vs)) \<and>
     (\<forall>vs. mset (sx_map_order y vs) = mset vs)"

lemma semver_okD:
  assumes "semver_ok y"
  shows "sx_equal y a b \<longleftrightarrow> \<not> sx_less y a b \<and> \<not> sx_less y b a"
    and "sx_less y a b \<Longrightarrow> \<not> sx_less y b a"
    and "sx_less y a c \<Longrightarrow> sx_less y a b \<or> sx_less y b c"
    and "release a \<Longrightarrow> release b \<Longrightarrow> sx_less y a b = precedes a b"
    and "FindStringSubmatch name = Some (kind, t) \<Longrightarrow> sx_parse y t = Some v \<Longrightarrow> release v"
    and "sx_parse y ''0.0.0'' = Some zero_version"
    and "mset (sx_sort y vs) = mset vs" and "sorted_wrt (\<lambda>a b. \<not> sx_less y b a) (sx_sort y vs)"
    and "mset (sx_map_order y vs) = mset vs"
  using assms unfolding semver_ok_def by blast+

lemma less_trans_semver: "semver_ok y \<Longrightarrow> sx_less y a b \<Longrightarrow> sx_less y b c \<Longrightarrow> sx_less y a c"
  using semver_okD(2,3) by blast

lemma release_less:
  assumes "semver_ok y" "release a" "release b" "\<not> sx_less y b a" "a \<noteq> b"
  shows "sx_less y a b"
proof -
  have "\<not> precedes b a" "release a" "release b"
    using assms semver_okD(4) [OF assms(1)] by blast+
  moreover from this have "\<not> (sv_Major a = sv_Major b \<and> sv_Minor a = sv_Minor b \<and> sv_Patch a = sv_Patch b)"
    using assms(5) by (auto simp: release_def intro: semver.equality)
  ultimately have "precedes a b" unfolding precedes_def by linarith
  then show ?thesis using assms semver_okD(4) [OF assms(1)] by blast
qed

section \<open>The steps are in order\<close>

definition steps_wf :: "(string \<times> dir_entry) list \<Rightarrow> 's schema_ext \<Rightarrow> (semver \<times> migration_step) list \<Rightarrow> bool" where
  "steps_wf files y steps \<longleftrightarrow> distinct (map fst steps) \<and>
     (\<forall>v st. map_of steps v = Some st \<longrightarrow> ms_version st = v \<and>
        (\<exists>n kind t. n \<in> fst ` set files \<and> FindStringSubmatch n = Some (kind, t) \<and> sx_parse y t = Some v))"

lemma add_file_wf:
  assumes "add_file y nf steps = (Inr steps' :: 'd err + _)" "steps_wf files y steps" "nf \<in> set files"
  shows "steps_wf files y steps'"
proof (cases "steps' = steps")
  case False
  with assms(1) obtain kind t v st where
    m: "FindStringSubmatch (fst nf) = Some (kind, t)" "sx_parse y t = Some v"
    and s': "steps' = AList.update v st steps" "ms_version st = v"
    by (auto simp: add_file_def Let_def split: dir_entry.splits option.splits prod.splits if_splits)
  from assms(2) have "distinct (map fst steps')" by (simp add: s' steps_wf_def distinct_update)
  moreover have "fst nf \<in> fst ` set files" using assms(3) by simp
  ultimately show ?thesis
    using assms(2) m s'(2) unfolding steps_wf_def s'(1) update_conv' fun_upd_apply
    by (metis option.inject)
qed (use assms(2) in simp)

lemma add_files_wf:
  "add_files y fs steps = (Inr steps' :: 'd err + _) \<Longrightarrow> steps_wf files y steps \<Longrightarrow>
    set fs \<subseteq> set files \<Longrightarrow> steps_wf files y steps'"
proof (induction fs arbitrary: steps)
  case (Cons nf fs)
  from Cons.prems(1) obtain s1 where "add_file y nf steps = (Inr s1 :: 'd err + _)"
    "add_files y fs s1 = (Inr steps' :: 'd err + _)" by (auto simp: sbind_Inr)
  with Cons.IH Cons.prems add_file_wf show ?case by (metis insert_subset list.simps(15))
qed simp

text \<open>No file is for version 0.0.0, which is the one before any step.\<close>

definition no_zero_file :: "'s schema_ext \<Rightarrow> (string \<times> dir_entry) list \<Rightarrow> bool" where
  "no_zero_file y files \<longleftrightarrow> (\<forall>n kind t. n \<in> fst ` set files \<longrightarrow>
     FindStringSubmatch n = Some (kind, t) \<longrightarrow> sx_parse y t \<noteq> Some zero_version)"

lemma enumerate_sorted:
  assumes "enumerateMigrationSteps y (Some files) = (Inr steps :: 'd err + _)" "semver_ok y" "no_zero_file y files"
  shows "steps \<noteq> []" and "sorted_wrt (sx_less y) (map ms_version steps)"
proof -
  note ok = semver_okD [OF assms(2)]
  define order where "order sm = List.map_filter (\<lambda>k. map_option (Pair k) (map_of sm k))
    (sx_map_order y (map fst sm))" for sm :: "(semver \<times> migration_step) list"
  from assms(1) obtain sm versions where
    sm: "add_files y files [] = (Inr sm :: 'd err + _)"
    and vs: "versions = sx_sort y (map (ms_version \<circ> snd) (order sm))"
    and steps: "map ms_version steps = zero_version # map (\<lambda>v. ms_version (case map_of sm v of Some st \<Rightarrow> st
      | None \<Rightarrow> \<lparr>ms_version = zero_version, ms_upToFile = '''', ms_downFromFile = ''''\<rparr>)) versions"
    by (auto simp: enumerateMigrationSteps_def sbind_Inr ok(6) Let_def order_def comp_def)
  have wf: "steps_wf files y sm"
    by (rule add_files_wf [OF sm]) (auto simp: steps_wf_def)
  have ver: "map_of sm v = Some st \<Longrightarrow> ms_version st = v" for v st
    using wf by (simp add: steps_wf_def)
  have ks: "set (sx_map_order y (map fst sm)) = fst ` set sm"
    using ok(9) by (metis set_mset_mset set_map)
  have "map (ms_version \<circ> snd) (List.map_filter (\<lambda>k. map_option (Pair k) (map_of sm k)) ks') = ks'"
    if "set ks' \<subseteq> fst ` set sm" for ks'
    using that
  proof (induction ks')
    case (Cons k ks')
    then obtain st where "map_of sm k = Some st" by (metis domD dom_map_of_conv_image_fst insert_subset list.simps(15))
    with Cons ver show ?case by (simp add: List.map_filter_simps)
  qed (simp add: List.map_filter_simps)
  then have "versions = sx_sort y (sx_map_order y (map fst sm))"
    by (simp add: vs order_def ks)
  then have ms: "mset versions = mset (map fst sm)" and sorted: "sorted_wrt (\<lambda>a b. \<not> sx_less y b a) versions"
    using ok(7,8,9) by simp_all
  from ms have set: "set versions = dom (map_of sm)"
    by (metis dom_map_of_conv_image_fst set_map set_mset_mset)
  from ms wf have dist: "distinct versions" by (metis mset_eq_imp_distinct_iff steps_wf_def)
  have rel: "release v \<and> v \<noteq> zero_version" if "v \<in> set versions" for v
    using that wf assms(3) ok(5) unfolding set steps_wf_def no_zero_file_def by blast
  have "map ms_version steps = zero_version # versions"
    using ver set by (auto simp: steps domIff split: option.split intro!: map_idI)
  moreover have "sorted_wrt (sx_less y) versions"
    unfolding sorted_wrt_iff_nth_less
  proof (intro allI impI)
    fix i j assume ij: "i < j" "j < length versions"
    then have "\<not> sx_less y (versions ! j) (versions ! i)"
      using sorted_wrt_nth_less [OF sorted] by blast
    moreover have "versions ! i \<noteq> versions ! j" using dist ij by (simp add: nth_eq_iff_index_eq)
    ultimately show "sx_less y (versions ! i) (versions ! j)"
      using release_less [OF assms(2)] rel ij by simp
  qed
  moreover have "sx_less y zero_version v" if "v \<in> set versions" for v
  proof (rule release_less [OF assms(2)])
    have zero: "release zero_version" by (simp add: release_def zero_version_def)
    then show "release zero_version" .
    show "release v" "zero_version \<noteq> v" using rel [OF that] by auto
    then show "\<not> sx_less y v zero_version"
      using ok(4) [OF \<open>release v\<close> zero] by (auto simp: precedes_def release_def zero_version_def)
  qed
  ultimately show "steps \<noteq> []" "sorted_wrt (sx_less y) (map ms_version steps)" by auto
qed

section \<open>The loop\<close>

lemma current_step_index_fold:
  fixes xs :: "migration_step list"
  shows "distinct (map ms_version xs) \<Longrightarrow> i < length xs \<Longrightarrow>
     fold (\<lambda>(j, st) r. if ms_version st = ms_version (xs ! i) then int j else r) (enumerate n xs) r = int (n + i)"
proof (induction xs arbitrary: n i r)
  case (Cons x xs)
  have other: "fold (\<lambda>(j, st) r. if ms_version st = v then int j else r) (enumerate m ys) r = r"
    if "v \<notin> ms_version ` set ys" for v m r and ys :: "migration_step list"
    using that by (induction ys arbitrary: m r) auto
  show ?case
  proof (cases i)
    case 0
    with Cons.prems other [of "ms_version x" xs "Suc n" "int n"] show ?thesis by simp
  next
    case (Suc k)
    with Cons.prems Cons.IH [of k "Suc n"] show ?thesis by simp
  qed
qed simp

lemma current_step_index_nth:
  "distinct (map ms_version steps) \<Longrightarrow> i < length steps \<Longrightarrow>
     current_step_index steps (ms_version (steps ! i)) = int i"
  using current_step_index_fold [of steps i 0 "- 1"] by (simp add: current_step_index_def)

text \<open>
  What the files promise: \<open>I s d i\<close> says that the server is in a state in which the database,
  under the name \<open>d\<close>, has been brought to the version of step \<open>i\<close>. In such a state the version is
  that of the step, and the files of the next and of this step run and lead to such a state for
  the next and for the previous step.
\<close>

definition scripts_ok ::
    "'s schema_ext \<Rightarrow> (string \<times> dir_entry) list \<Rightarrow> migration_step list \<Rightarrow> ('s \<Rightarrow> string \<Rightarrow> nat \<Rightarrow> bool) \<Rightarrow> bool" where
  "scripts_ok y files steps I \<longleftrightarrow> (\<forall>s d i. I s d i \<longrightarrow> i < length steps \<longrightarrow>
     (\<exists>u. GetVersion y s d = (Inr u :: unit err + _) \<and> deref_version u = ms_version (steps ! i)) \<and>
     (Suc i < length steps \<longrightarrow> (\<exists>sql s'. read_file files (ms_upToFile (steps ! Suc i)) = Some sql \<and>
        sx_exec y (use_sql d sql) s = (True, s') \<and>
        I s' (next_dbName y d (ms_version (steps ! i)) (ms_version (steps ! Suc i)) (int i) (int (Suc i))) (Suc i))) \<and>
     (0 < i \<longrightarrow> (\<exists>sql s'. read_file files (ms_downFromFile (steps ! i)) = Some sql \<and>
        sx_exec y (use_sql d sql) s = (True, s') \<and>
        I s' (next_dbName y d (ms_version (steps ! i)) (ms_version (steps ! (i - 1))) (int i) (int (i - 1))) (i - 1))))"

lemma scripts_okD:
  assumes "scripts_ok y files steps I" "I s d i" "i < length steps"
  obtains u where "GetVersion y s d = (Inr u :: unit err + _)" "deref_version u = ms_version (steps ! i)"
  using assms unfolding scripts_ok_def by blast

lemma step_at_nth [simp]: "i < length xs \<Longrightarrow> step_at xs (int i) = Some (xs ! i)"
  by (simp add: step_at_def)

definition upgradable ::
    "'s schema_ext \<Rightarrow> (string \<times> dir_entry) list \<Rightarrow> migration_step list \<Rightarrow> ('s \<Rightarrow> string \<Rightarrow> nat \<Rightarrow> bool) \<Rightarrow> bool" where
  "upgradable y files steps I \<longleftrightarrow> semver_ok y \<and> scripts_ok y files steps I \<and>
     (\<forall>i j. i < j \<longrightarrow> j < length steps \<longrightarrow> sx_less y (ms_version (steps ! i)) (ms_version (steps ! j)))"

lemma equal_refl: "semver_ok y \<Longrightarrow> sx_equal y v v"
  using semver_okD(1,2) by blast

text \<open>One iteration below and above the target.\<close>

lemma iteration_up:
  assumes up: "upgradable y files steps I" and I: "I s d i" "Suc i < length steps"
    and less: "sx_less y (ms_version (steps ! i)) t"
  obtains d' s' where "migration_iteration y files steps t d (ms_version (steps ! i)) (int i) s =
      (Some (d', ms_version (steps ! Suc i), int (Suc i)), s')" "I s' d' (Suc i)"
proof -
  from up have ok: "scripts_ok y files steps I" and sem: "semver_ok y" by (simp_all add: upgradable_def)
  let ?d = "next_dbName y d (ms_version (steps ! i)) (ms_version (steps ! Suc i)) (int i) (int (Suc i))"
  from ok I obtain sql s' where run: "read_file files (ms_upToFile (steps ! Suc i)) = Some sql"
    "sx_exec y (use_sql d sql) s = (True, s')" "I s' ?d (Suc i)"
    unfolding scripts_ok_def using Suc_lessD by blast
  from scripts_okD [OF ok run(3) I(2)] obtain u where
    u: "GetVersion y s' ?d = (Inr u :: unit err + _)" "deref_version u = ms_version (steps ! Suc i)" .
  have "step_at steps (int i + 1) = Some (steps ! Suc i)" using step_at_nth [OF I(2)] by (simp add: add.commute)
  with less have "next_step y steps t (ms_version (steps ! i)) (int i) =
      Some (ms_upToFile (steps ! Suc i), ms_version (steps ! Suc i), int (Suc i))"
    by (simp add: next_step_def)
  then show thesis
    using run u by (intro that [of ?d s']) (simp_all add: migration_iteration_def Let_def equal_refl [OF sem])
qed

lemma iteration_down:
  assumes up: "upgradable y files steps I" and I: "I s d (Suc i)" "Suc i < length steps"
    and less: "\<not> sx_less y (ms_version (steps ! Suc i)) t"
  obtains d' s' where "migration_iteration y files steps t d (ms_version (steps ! Suc i)) (int (Suc i)) s =
      (Some (d', ms_version (steps ! i), int i), s')" "I s' d' i"
proof -
  from up have ok: "scripts_ok y files steps I" and sem: "semver_ok y" by (simp_all add: upgradable_def)
  let ?d = "next_dbName y d (ms_version (steps ! Suc i)) (ms_version (steps ! i)) (int (Suc i)) (int i)"
  from ok I obtain sql s' where run: "read_file files (ms_downFromFile (steps ! Suc i)) = Some sql"
    "sx_exec y (use_sql d sql) s = (True, s')" "I s' ?d i"
    unfolding scripts_ok_def by (metis diff_Suc_1 zero_less_Suc)
  from I(2) have i: "i < length steps" by simp
  from scripts_okD [OF ok run(3) i] obtain u where
    u: "GetVersion y s' ?d = (Inr u :: unit err + _)" "deref_version u = ms_version (steps ! i)" .
  have "next_step y steps t (ms_version (steps ! Suc i)) (int (Suc i)) =
      Some (ms_downFromFile (steps ! Suc i), ms_version (steps ! i), int i)"
    using less step_at_nth [OF I(2)] step_at_nth [OF i] by (simp add: next_step_def)
  then show thesis
    using run u by (intro that [of ?d s']) (simp_all add: migration_iteration_def Let_def equal_refl [OF sem])
qed

text \<open>Beyond either end the index is out of range.\<close>

lemma iteration_off_end:
  assumes "i < length steps"
    and "sx_less y (ms_version (steps ! i)) t \<and> Suc i = length steps \<or>
      \<not> sx_less y (ms_version (steps ! i)) t \<and> i = 0"
  shows "migration_iteration y files steps t d (ms_version (steps ! i)) (int i) s = (None, s)"
  using assms by (auto simp: migration_iteration_def next_step_def step_at_def)

lemma migrate_unfold:
  "sx_equal y v t \<Longrightarrow> migrate y files steps t d v i s = Some (Some (d, v), s)"
  "\<not> sx_equal y v t \<Longrightarrow> migration_iteration y files steps t d v i s = (None, s') \<Longrightarrow>
     migrate y files steps t d v i s = Some (None, s')"
  "\<not> sx_equal y v t \<Longrightarrow> migration_iteration y files steps t d v i s = (Some (d', v', i'), s') \<Longrightarrow>
     migrate y files steps t d v i s = migrate y files steps t d' v' i' s'"
  by (subst migrate.simps; simp)+

lemma migrate_up:
  assumes up: "upgradable y files steps I"
  shows "I s d i \<Longrightarrow> i \<le> j \<Longrightarrow> j < length steps \<Longrightarrow>
    (\<And>k. i \<le> k \<Longrightarrow> k < j \<Longrightarrow> sx_less y (ms_version (steps ! k)) t) \<Longrightarrow>
    \<exists>d' s'. I s' d' j \<and> migrate y files steps t d (ms_version (steps ! i)) (int i) s =
      migrate y files steps t d' (ms_version (steps ! j)) (int j) s'"
proof (induction "j - i" arbitrary: i s d)
  case (Suc n)
  from Suc.hyps(2) Suc.prems have less: "sx_less y (ms_version (steps ! i)) t" and len: "Suc i < length steps"
    by simp_all
  from iteration_up [OF up Suc.prems(1) len less] obtain d' s' where
    it: "migration_iteration y files steps t d (ms_version (steps ! i)) (int i) s =
      (Some (d', ms_version (steps ! Suc i), int (Suc i)), s')" and I: "I s' d' (Suc i)" .
  have "\<not> sx_equal y (ms_version (steps ! i)) t"
    using up less semver_okD(1) unfolding upgradable_def by blast
  from migrate_unfold(3) [OF this it] Suc.hyps(1) [OF _ I] Suc.hyps(2) Suc.prems(3,4) show ?case by simp
qed auto

lemma migrate_down:
  assumes up: "upgradable y files steps I"
  shows "I s d i \<Longrightarrow> j \<le> i \<Longrightarrow> i < length steps \<Longrightarrow>
    (\<And>k. j < k \<Longrightarrow> k \<le> i \<Longrightarrow> sx_less y t (ms_version (steps ! k))) \<Longrightarrow>
    \<exists>d' s'. I s' d' j \<and> migrate y files steps t d (ms_version (steps ! i)) (int i) s =
      migrate y files steps t d' (ms_version (steps ! j)) (int j) s'"
proof (induction i arbitrary: s d)
  case (Suc i)
  show ?case
  proof (cases "j = Suc i")
    case False
    with Suc.prems have less: "sx_less y t (ms_version (steps ! Suc i))" by simp
    then have nless: "\<not> sx_less y (ms_version (steps ! Suc i)) t" and ne: "\<not> sx_equal y (ms_version (steps ! Suc i)) t"
      using up semver_okD(1,2) unfolding upgradable_def by blast+
    from iteration_down [OF up Suc.prems(1,3) nless] obtain d' s' where
      it: "migration_iteration y files steps t d (ms_version (steps ! Suc i)) (int (Suc i)) s =
        (Some (d', ms_version (steps ! i), int i), s')" and I: "I s' d' i" .
    from migrate_unfold(3) [OF ne it] Suc.IH [OF I] Suc.prems(2,3,4) False show ?thesis by simp
  qed (use Suc.prems in auto)
qed auto

text \<open>Between two neighbouring steps the loop goes up and down forever.\<close>

definition in_gap :: "'s schema_ext \<Rightarrow> migration_step list \<Rightarrow> semver \<Rightarrow> nat \<Rightarrow> bool" where
  "in_gap y steps t k \<longleftrightarrow> Suc k < length steps \<and>
     sx_less y (ms_version (steps ! k)) t \<and> sx_less y t (ms_version (steps ! Suc k))"

lemma gap_sides:
  assumes up: "upgradable y files steps I" and "in_gap y steps t k"
  shows "n \<le> k \<Longrightarrow> sx_less y (ms_version (steps ! n)) t"
    and "k < n \<Longrightarrow> n < length steps \<Longrightarrow> sx_less y t (ms_version (steps ! n))"
proof -
  from up have sem: "semver_ok y" by (simp add: upgradable_def)
  have less: "i < j \<Longrightarrow> j < length steps \<Longrightarrow> sx_less y (ms_version (steps ! i)) (ms_version (steps ! j))" for i j
    using up by (simp add: upgradable_def)
  show "sx_less y (ms_version (steps ! n)) t" if "n \<le> k"
    using that assms(2) less_trans_semver [OF sem less [of n k]] by (cases "n = k") (auto simp: in_gap_def)
  show "sx_less y t (ms_version (steps ! n))" if "k < n" "n < length steps"
    using that assms(2) less_trans_semver [OF sem _ less [of "Suc k" n]]
    by (cases "n = Suc k") (auto simp: in_gap_def)
qed

lemma migrate_gap:
  assumes up: "upgradable y files steps I" and gap: "in_gap y steps t k"
    and I: "I s d n" "n < length steps"
  shows "migrate y files steps t d (ms_version (steps ! n)) (int n) s = None"
proof (rule ccontr)
  assume "migrate y files steps t d (ms_version (steps ! n)) (int n) s \<noteq> None"
  then obtain r where ret: "migrate y files steps t d (ms_version (steps ! n)) (int n) s = Some r" by blast
  define P where "P = (\<lambda>y files steps t d v i s (r :: (string \<times> semver) option \<times> 'a).
    \<forall>n. upgradable y files steps I \<longrightarrow> in_gap y steps t k \<longrightarrow> I s d n \<longrightarrow> n < length steps \<longrightarrow>
      v = ms_version (steps ! n) \<longrightarrow> i = int n \<longrightarrow> False)"
  have "P y files steps t d (ms_version (steps ! n)) (int n) s r"
  proof (rule migrate.raw_induct [OF _ ret])
    fix f y files steps t d v i and s :: 'a and r
    assume IH: "\<And>y files steps t d v i s r. f y files steps t d v i s = Some r \<Longrightarrow> P y files steps t d v i s r"
      and eq: "(if sx_equal y v t then Some (Some (d, v), s)
        else case migration_iteration y files steps t d v i s of
          (None, s') \<Rightarrow> Some (None, s')
        | (Some (d', v', i'), s') \<Rightarrow> f y files steps t d' v' i' s') = Some r"
    show "P y files steps t d v i s r"
      unfolding P_def
    proof (intro allI impI)
      fix n assume a: "upgradable y files steps I" "in_gap y steps t k" "I s d n" "n < length steps"
        "v = ms_version (steps ! n)" "i = int n"
      then have sem: "semver_ok y" by (simp add: upgradable_def)
      have never: False if "migration_iteration y files steps t d v i s = (Some (d', ms_version (steps ! m), int m), s')"
        "I s' d' m" "m < length steps" "\<not> sx_equal y v t" for d' m s'
        using eq IH [of y files steps t d' "ms_version (steps ! m)" "int m" s' r] that a(1,2) by (auto simp: P_def)
      show False
      proof (cases "n \<le> k")
        case True
        then have less: "sx_less y (ms_version (steps ! n)) t" and len: "Suc n < length steps"
          using gap_sides(1) [OF a(1,2)] a(2) by (auto simp: in_gap_def)
        from iteration_up [OF a(1,3) len less] obtain d' s' where
          "migration_iteration y files steps t d v i s = (Some (d', ms_version (steps ! Suc n), int (Suc n)), s')"
          "I s' d' (Suc n)" by (metis a(5,6))
        with never [of d' "Suc n" s'] len less a(5) show False using semver_okD(1) [OF sem] by simp
      next
        case False
        then obtain m where n: "n = Suc m" by (cases n) auto
        have less: "sx_less y t (ms_version (steps ! n))" using gap_sides(2) [OF a(1,2)] False a(4) by simp
        then have "\<not> sx_less y (ms_version (steps ! Suc m)) t" using semver_okD(2) [OF sem] n by blast
        from iteration_down [OF a(1) _ _ this] a(3,4) n obtain d' s' where
          "migration_iteration y files steps t d v i s = (Some (d', ms_version (steps ! m), int m), s')" "I s' d' m"
          by (metis a(5,6))
        with never [of d' m s'] less a(4,5) n show False using semver_okD(1) [OF sem] by simp
      qed
    qed
  qed
  with up gap I show False by (auto simp: P_def)
qed

text \<open>At the version of a step the loop ends there, and beyond the steps it panics.\<close>

lemma migrate_hit:
  assumes up: "upgradable y files steps I" and I: "I s d i" "i < length steps"
    and j: "j < length steps" "sx_equal y (ms_version (steps ! j)) t"
  shows "\<exists>d' s'. I s' d' j \<and> migrate y files steps t d (ms_version (steps ! i)) (int i) s =
    Some (Some (d', ms_version (steps ! j)), s')"
proof -
  from up have sem: "semver_ok y" by (simp add: upgradable_def)
  have less: "i < j \<Longrightarrow> j < length steps \<Longrightarrow> sx_less y (ms_version (steps ! i)) (ms_version (steps ! j))" for i j
    using up by (simp add: upgradable_def)
  have below: "sx_less y (ms_version (steps ! m)) t" if "m < j" for m
    using less [OF that j(1)] j(2) semver_okD(1,3) [OF sem] by blast
  have above: "sx_less y t (ms_version (steps ! m))" if "j < m" "m < length steps" for m
    using less [OF that] j(2) semver_okD(1,3) [OF sem] by blast
  show ?thesis
  proof (cases "i \<le> j")
    case True
    from migrate_up [OF up I(1) this j(1)] below show ?thesis by (metis migrate_unfold(1) j(2))
  next
    case False
    with migrate_down [OF up I(1) _ I(2)] above I(2) show ?thesis
      by (metis migrate_unfold(1) j(2) nat_le_linear order_le_less_trans)
  qed
qed

lemma migrate_outside:
  assumes up: "upgradable y files steps I" and I: "I s d i" "i < length steps"
    and out: "(\<forall>m < length steps. sx_less y (ms_version (steps ! m)) t) \<or>
      (\<forall>m < length steps. sx_less y t (ms_version (steps ! m)))"
  shows "\<exists>s'. migrate y files steps t d (ms_version (steps ! i)) (int i) s = Some (None, s')"
  using out
proof
  let ?j = "length steps - 1"
  from up have sem: "semver_ok y" by (simp add: upgradable_def)
  assume b: "\<forall>m < length steps. sx_less y (ms_version (steps ! m)) t"
  have "i \<le> ?j" "?j < length steps" "Suc ?j = length steps" using I(2) by simp_all
  with migrate_up [OF up I(1), of ?j t] b obtain d' s' where
    r: "migrate y files steps t d (ms_version (steps ! i)) (int i) s =
      migrate y files steps t d' (ms_version (steps ! ?j)) (int ?j) s'" by auto
  have "sx_less y (ms_version (steps ! ?j)) t" using b I(2) by simp
  then show ?thesis
    using migrate_unfold(2) [OF _ iteration_off_end [of ?j steps y t files d' s']] \<open>Suc ?j = length steps\<close>
      semver_okD(1) [OF sem] \<open>?j < length steps\<close> by (metis r)
next
  from up have sem: "semver_ok y" by (simp add: upgradable_def)
  assume b: "\<forall>m < length steps. sx_less y t (ms_version (steps ! m))"
  with migrate_down [OF up I(1) _ I(2), of 0 t] obtain d' s' where
    r: "migrate y files steps t d (ms_version (steps ! i)) (int i) s =
      migrate y files steps t d' (ms_version (steps ! 0)) (int 0) s'" using I(2) by fastforce
  have len: "0 < length steps" using I(2) by auto
  with b have "sx_less y t (ms_version (steps ! 0))" by simp
  then show ?thesis
    using migrate_unfold(2) [OF _ iteration_off_end [of 0 steps y t files d' s']]
      semver_okD(1,2) [OF sem] len by (metis r)
qed

lemma target_cases:
  assumes up: "upgradable y files steps I" and "steps \<noteq> []"
  obtains (hit) j where "j < length steps" "sx_equal y (ms_version (steps ! j)) t"
  | (gap) k where "in_gap y steps t k"
  | (above) "\<forall>m < length steps. sx_less y (ms_version (steps ! m)) t"
  | (below) "\<forall>m < length steps. sx_less y t (ms_version (steps ! m))"
proof -
  from up have sem: "semver_ok y" by (simp add: upgradable_def)
  have "(\<exists>j < n. sx_equal y (ms_version (steps ! j)) t) \<or> (\<exists>k. in_gap y steps t k) \<or>
     (\<forall>m < n. sx_less y (ms_version (steps ! m)) t) \<or> (\<forall>m < length steps. sx_less y t (ms_version (steps ! m)))"
    if "n \<le> length steps" for n
    using that
  proof (induction n)
    case (Suc n)
    then have n: "n < length steps" by simp
    consider "sx_less y (ms_version (steps ! n)) t" | "sx_equal y (ms_version (steps ! n)) t"
      | "sx_less y t (ms_version (steps ! n))" using semver_okD(1) [OF sem] by blast
    then show ?case
    proof cases
      case 3
      show ?thesis
      proof (cases n)
        case 0
        have "sx_less y t (ms_version (steps ! m))" if "m < length steps" for m
        proof (cases m)
          case 0
          with 3 \<open>n = 0\<close> show ?thesis by simp
        next
          case (Suc m')
          with up that have "sx_less y (ms_version (steps ! 0)) (ms_version (steps ! m))" by (simp add: upgradable_def)
          with 3 \<open>n = 0\<close> less_trans_semver [OF sem] show ?thesis by blast
        qed
        then show ?thesis by blast
      next
        case (Suc k)
        with 3 n have "in_gap y steps t k" if "sx_less y (ms_version (steps ! k)) t" using that by (simp add: in_gap_def)
        with Suc.IH n Suc show ?thesis by (metis lessI less_Suc_eq less_imp_le)
      qed
    qed (use Suc.IH n in \<open>auto simp: less_Suc_eq\<close>)
  qed simp
  from this [of "length steps"] that show thesis by auto
qed

lemma migrate_returns:
  assumes up: "upgradable y files steps I" and I: "I s d i" "i < length steps"
  shows "(\<exists>r. migrate y files steps t d (ms_version (steps ! i)) (int i) s = Some r) \<longleftrightarrow> (\<nexists>k. in_gap y steps t k)"
    (is "?returns \<longleftrightarrow> _")
proof -
  from up have sem: "semver_ok y" by (simp add: upgradable_def)
  have ne: "steps \<noteq> []" using I(2) by auto
  from up ne show ?thesis
  proof (cases rule: target_cases [where t = t])
    case (hit j)
    have "\<not> in_gap y steps t k" for k
      using gap_sides [OF up, of t k j] hit semver_okD(1) [OF sem] by (metis not_less)
    with migrate_hit [OF up I hit] show ?thesis by blast
  next
    case (gap k)
    with migrate_gap [OF up gap I] show ?thesis by auto
  next
    case above
    then have "\<not> in_gap y steps t k" for k using semver_okD(2) [OF sem] unfolding in_gap_def by blast
    with migrate_outside [OF up I, of t] above show ?thesis by blast
  next
    case below
    then have "\<not> in_gap y steps t k" for k
      using semver_okD(2) [OF sem] Suc_lessD unfolding in_gap_def by blast
    with migrate_outside [OF up I, of t] below show ?thesis by blast
  qed
qed

text \<open>A store of remote ID that opens on a released version uses the repositories of version 4.\<close>

lemma rid_store_uses_v4:
  assumes "semver_ok y" "rid_NewStore y s d = (Inr (Some v) :: 'd err + _)" "release v"
  shows "uses_v4 y (Some v)"
proof -
  have "sv_Major v = 4" and v4: "release v400"
    using assms(2) by (auto simp: rid_NewStore_def CheckCurrentMajorSchemaVersion_def tx_inv
        release_def v400_def zero_version_def split: option.splits)
  then show ?thesis
    using semver_okD(4) [OF assms(1,3) v4] assms(3)
    by (auto simp: uses_v4_def deref_version_def precedes_def v400_def zero_version_def release_def)
qed

end
