(* ===== verification/Dss_Manager.thy ===== *)
theory Dss_Manager
  imports Dss_Upgrade Dss_Auth
begin

text \<open>
  The property of the command \<^verbatim>\<open>cmds/db-manager\<close>: when it returns and with which version.
\<close>

section \<open>A concrete server and directory\<close>

text \<open>
  Versions are three numbers, and precedence does not look at anything else. The server keeps for
  each database the text of its version, empty before the first one, and a script is that text.
\<close>

definition exm_parse :: "string \<Rightarrow> semver option" where
  "exm_parse t =
     (case split_at CHR ''.'' t of
        [a, b, c] \<Rightarrow>
          (case (digits_value a, digits_value b, digits_value c) of
             (Some i, Some j, Some k) \<Rightarrow>
               Some \<lparr>sv_Major = i, sv_Minor = j, sv_Patch = k, sv_PreRelease = '''', sv_Metadata = ''''\<rparr>
           | _ \<Rightarrow> None)
      | _ \<Rightarrow> None)"

definition exm_key :: "semver \<Rightarrow> int list" where
  "exm_key v = [sv_Major v, sv_Minor v, sv_Patch v]"

definition exm_exec :: "string \<Rightarrow> (string \<times> string) list \<Rightarrow> bool \<times> (string \<times> string) list" where
  "exm_exec text s =
     (let d = takeWhile (\<lambda>c. c \<noteq> CHR '';'') (drop 4 text)
      in (True, AList.update d (drop (length d + 6) text) s))"

definition exm_ext :: "(string \<times> string) list schema_ext" where
  "exm_ext = \<lparr>sx_parse = exm_parse, sx_less = (\<lambda>a b. precedes a b),
     sx_equal = (\<lambda>a b. \<not> precedes a b \<and> \<not> precedes b a),
     sx_string = (\<lambda>v. join ''.'' (map decimal (exm_key v))), sx_sort = sort_key exm_key,
     sx_map_order = rev, sx_tables = (\<lambda>s d. map_option (\<lambda>v. v \<noteq> '''') (map_of s d)),
     sx_version_row = (\<lambda>s d. map_of s d), sx_has_db = (\<lambda>s d. Some (map_of s d \<noteq> None)),
     sx_exec = exm_exec\<rparr>"

definition exm_files :: "(string \<times> dir_entry) list" where
  "exm_files = [(''downfrom-v1.0.0-a.sql'', SqlFile (Some '''')), (''old'', SubDir),
     (''upto-v1.0.0-a.sql'', SqlFile (Some ''v1.0.0''))]"

definition exm_steps :: "migration_step list" where
  "exm_steps = [\<lparr>ms_version = zero_version, ms_upToFile = '''', ms_downFromFile = ''''\<rparr>,
     \<lparr>ms_version = zero_version\<lparr>sv_Major := 1\<rparr>, ms_upToFile = ''upto-v1.0.0-a.sql'',
      ms_downFromFile = ''downfrom-v1.0.0-a.sql''\<rparr>]"

definition exm_states :: "(string \<times> string) list \<Rightarrow> string \<Rightarrow> nat \<Rightarrow> bool" where
  "exm_states s d i \<longleftrightarrow> d = ''scd'' \<and> (s, i) \<in> {([(''scd'', '''')], 0), ([(''scd'', ''v1.0.0'')], 1)}"

lemma digits_value_nonneg: "digits_value s = Some n \<Longrightarrow> 0 \<le> n"
proof -
  have "list_all is_digit s \<Longrightarrow> 0 \<le> m \<Longrightarrow> 0 \<le> foldl (\<lambda>n c. n * 10 + (of_char c - 48)) m s" for m :: int
  proof (induction s arbitrary: m)
    case (Cons c s)
    then have "(48 :: nat) \<le> of_char c" by (simp add: is_digit_def less_eq_char_def)
    then have "(48 :: int) \<le> of_char c" by (metis of_nat_mono of_nat_numeral of_nat_of_char)
    with Cons show ?case by simp
  qed simp
  then show "digits_value s = Some n \<Longrightarrow> 0 \<le> n" by (auto simp: digits_value_def split: if_splits)
qed

lemma exm_precedes: "precedes a b \<longleftrightarrow> exm_key a < exm_key b"
  by (auto simp: precedes_def exm_key_def)

lemma exm_semver_ok: "semver_ok exm_ext"
  unfolding semver_ok_def
proof (intro conjI allI impI)
  fix vs
  have "sorted (map exm_key (sort_key exm_key vs))" by simp
  then show "sorted_wrt (\<lambda>a b. \<not> sx_less exm_ext b a) (sx_sort exm_ext vs)"
    by (simp add: exm_ext_def exm_precedes sorted_wrt_map not_less)
next
  fix name kind t v assume "sx_parse exm_ext t = Some v"
  then show "release v"
    by (auto simp: exm_ext_def exm_parse_def release_def dest: digits_value_nonneg
        split: list.splits option.splits)
next
  show "sx_parse exm_ext ''0.0.0'' = Some zero_version" by code_simp
qed (auto simp: exm_ext_def exm_precedes)

lemma exm_enumerate: "enumerateMigrationSteps exm_ext (Some exm_files) = (Inr exm_steps :: unit err + _)"
  by code_simp

lemma exm_names:
  "FindStringSubmatch ''downfrom-v1.0.0-a.sql'' = Some (''downfrom'', ''1.0.0'')"
  "FindStringSubmatch ''upto-v1.0.0-a.sql'' = Some (''upto'', ''1.0.0'')" "FindStringSubmatch ''old'' = None"
  by code_simp+

lemma exm_no_zero: "no_zero_file exm_ext exm_files"
proof -
  have "sx_parse exm_ext ''1.0.0'' \<noteq> Some zero_version" by code_simp
  then show ?thesis by (auto simp: no_zero_file_def exm_files_def exm_names simp del: FindStringSubmatch.simps)
qed

lemma exm_scripts_ok: "scripts_ok exm_ext exm_files exm_steps exm_states"
proof -
  let ?s0 = "[(''scd'', '''')]" and ?s1 = "[(''scd'', ''v1.0.0'')]"
  have v: "GetVersion exm_ext ?s0 ''scd'' = (Inr None :: unit err + _)"
    "GetVersion exm_ext ?s1 ''scd'' = (Inr (Some (ms_version (exm_steps ! Suc 0))) :: unit err + _)"
    by code_simp+
  have run: "sx_exec exm_ext (use_sql ''scd'' ''v1.0.0'') ?s0 = (True, ?s1)"
    "sx_exec exm_ext (use_sql ''scd'' '''') ?s1 = (True, ?s0)" by code_simp+
  have files: "read_file exm_files (ms_upToFile (exm_steps ! Suc 0)) = Some ''v1.0.0''"
    "read_file exm_files (ms_downFromFile (exm_steps ! Suc 0)) = Some ''''" by code_simp+
  have name: "next_dbName exm_ext ''scd'' a b i j = ''scd''" for a b i j by (simp add: next_dbName_def)
  have len: "length exm_steps = 2" and zero: "ms_version (exm_steps ! 0) = zero_version"
    by (simp_all add: exm_steps_def)
  show ?thesis
    unfolding scripts_ok_def exm_states_def
    by (auto simp: v run files name len zero deref_version_def)
qed

section \<open>The property\<close>

text \<open>
  C40. When the files of the directory bring a database from step to step, the command returns
  unless the version it is asked for lies between those of two neighbouring steps; it then goes
  up and down between the two without end. When a step has that version, the command ends there,
  wherever the database started; below the first or above the last step it panics.
\<close>

theorem migration_returns:
  assumes lib: "semver_ok y" and dir: "enumerateMigrationSteps y (Some files) = (Inr steps :: unit err + _)"
    and "no_zero_file y files" and scripts: "scripts_ok y files steps I"
    and db: "path \<noteq> ''''" "sx_has_db y s (filepath_Base path) = Some True"
    and I: "I s (filepath_Base path) i" "i < length steps"
    and target: "map lower_char target \<noteq> ''latest''" "TrimSpace target \<noteq> ''''" "sx_parse y target = Some t"
  shows "((\<exists>r. db_manager y path (Some files) target s = Some r) \<longleftrightarrow>
      (\<nexists>k. Suc k < length steps \<and> sx_less y (ms_version (steps ! k)) t \<and> sx_less y t (ms_version (steps ! Suc k)))) \<and>
    (\<forall>j < length steps. sx_equal y (ms_version (steps ! j)) t \<longrightarrow>
      (\<exists>d' s'. db_manager y path (Some files) target s = Some (Some (d', ms_version (steps ! j)), s') \<and> I s' d' j)) \<and>
    ((\<forall>j < length steps. sx_less y (ms_version (steps ! j)) t) \<or> (\<forall>j < length steps. sx_less y t (ms_version (steps ! j))) \<longrightarrow>
      (\<exists>s'. db_manager y path (Some files) target s = Some (None, s')))"
proof -
  have ne: "steps \<noteq> []" and sorted: "sorted_wrt (sx_less y) (map ms_version steps)"
    using enumerate_sorted [OF dir lib assms(3)] by blast+
  have up: "upgradable y files steps I"
    using lib scripts sorted_wrt_nth_less [OF sorted] by (auto simp: upgradable_def)
  have "distinct (map ms_version steps)"
    using up semver_okD(2) [OF lib] by (auto simp: distinct_conv_nth upgradable_def neq_iff) metis+
  then have idx: "current_step_index steps (ms_version (steps ! i)) = int i"
    using I(2) by (rule current_step_index_nth)
  from scripts_okD [OF scripts I] obtain u where
    "GetVersion y s (filepath_Base path) = (Inr u :: unit err + _)" "deref_version u = ms_version (steps ! i)" .
  with idx have run: "db_manager y path (Some files) target s =
      migrate y files steps t (filepath_Base path) (ms_version (steps ! i)) (int i) s"
    using db target ne by (simp add: db_manager_def dir target_version_def find_database_def create_database_def)
  show ?thesis
    using migrate_returns [OF up I, of t] migrate_hit [OF up I, of _ t] migrate_outside [OF up I, of t]
    unfolding run in_gap_def by blast
qed

text \<open>Version 1.0.0 is reached from the empty database; version 0.5.0 is looked for forever.\<close>

theorem migration_returns_witness:
  "(\<exists>d' s'. db_manager exm_ext ''schemas/scd'' (Some exm_files) ''1.0.0'' [(''scd'', '''')] =
       Some (Some (d', zero_version\<lparr>sv_Major := 1\<rparr>), s')) \<and>
   db_manager exm_ext ''schemas/scd'' (Some exm_files) ''0.5.0'' [(''scd'', '''')] = None"
proof -
  have base: "filepath_Base ''schemas/scd'' = ''scd''" by code_simp
  have db: "sx_has_db exm_ext [(''scd'', '''')] (filepath_Base ''schemas/scd'') = Some True"
    unfolding base by code_simp
  have I: "exm_states [(''scd'', '''')] (filepath_Base ''schemas/scd'') 0" "0 < length exm_steps"
    by (simp_all add: base exm_states_def exm_steps_def)
  note returns = migration_returns [where y = exm_ext and I = exm_states and path = "''schemas/scd''"
      and s = "[(''scd'', '''')]", OF exm_semver_ok exm_enumerate exm_no_zero exm_scripts_ok _ db I]
  have hit: "sx_parse exm_ext ''1.0.0'' = Some (ms_version (exm_steps ! 1))"
    "sx_equal exm_ext (ms_version (exm_steps ! 1)) (ms_version (exm_steps ! 1))" by code_simp+
  have gap: "sx_parse exm_ext ''0.5.0'' = Some (zero_version\<lparr>sv_Minor := 5\<rparr>)"
    "sx_less exm_ext (ms_version (exm_steps ! 0)) (zero_version\<lparr>sv_Minor := 5\<rparr>)"
    "sx_less exm_ext (zero_version\<lparr>sv_Minor := 5\<rparr>) (ms_version (exm_steps ! Suc 0))" by code_simp+
  have asked: "map lower_char ''1.0.0'' \<noteq> ''latest''" "TrimSpace ''1.0.0'' \<noteq> ''''"
    "map lower_char ''0.5.0'' \<noteq> ''latest''" "TrimSpace ''0.5.0'' \<noteq> ''''" by code_simp+
  have len: "length exm_steps = 2" by (simp add: exm_steps_def)
  have path: "''schemas/scd'' \<noteq> ''''" by simp
  have "\<exists>d' s'. db_manager exm_ext ''schemas/scd'' (Some exm_files) ''1.0.0'' [(''scd'', '''')] =
       Some (Some (d', ms_version (exm_steps ! 1)), s') \<and> exm_states s' d' 1"
    using returns [OF path asked(1,2) hit(1), THEN conjunct2, THEN conjunct1, rule_format, of 1] hit(2) len by simp
  moreover have "\<not> (\<exists>r. db_manager exm_ext ''schemas/scd'' (Some exm_files) ''0.5.0'' [(''scd'', '''')] = Some r)"
    unfolding returns [OF path asked(3,4) gap(1), THEN conjunct1] using gap(2,3) len by auto
  ultimately show ?thesis unfolding not_Some_eq [symmetric] by (simp add: exm_steps_def) blast
qed

end
