(* ===== verification/Dss_Connect.thy ===== *)
theory Dss_Connect
  imports Dss_Schema Dss_Keys
begin

text \<open>
  How a command connects to its databases and opens its stores (\<^verbatim>\<open>pkg/cockroach/cockroach.go\<close>,
  \<^verbatim>\<open>NewStore\<close> of the three stores), with the texts of errors, which
  \<^verbatim>\<open>cmds/core-service/main.go\<close> searches to tell what may be temporary.
\<close>

section \<open>Errors with texts\<close>

text \<open>
  An error of a library: its text, or one that the code compares by identity. \<open>ErrOf\<close> is an
  error of another part of the model, whose text is not looked at; \<open>ErrOf Panic\<close> is a panic.
  \<open>Retry\<close> is \<^verbatim>\<open>stacktrace.PropagateWithCode\<close> with \<^verbatim>\<open>codeRetryable\<close>, a code that no error of
  \<^verbatim>\<open>pkg/errors\<close> has.
\<close>

datatype lib_err = LibText string | ContextCanceled | ServerClosed

datatype start_err =
    LibErr lib_err
  | NewErr string
  | ErrOf "unit err"
  | Prop start_err string
  | Retry start_err string

fun retryable :: "start_err \<Rightarrow> bool" where
  "retryable (Retry e m) = True"
| "retryable (Prop e m) = retryable e"
| "retryable _ = False"

fun RootCause :: "start_err \<Rightarrow> start_err" where
  "RootCause (Retry e m) = RootCause e"
| "RootCause (Prop e m) = RootCause e"
| "RootCause e = e"

text \<open>
  The text of an error holds the messages of its chain, with the places in the code between
  them. A text that is searched for lies within one message.
\<close>

fun contains :: "string \<Rightarrow> string \<Rightarrow> bool" where
  "contains pat [] \<longleftrightarrow> pat = []"
| "contains pat (c # s) \<longleftrightarrow> take (length pat) (c # s) = pat \<or> contains pat s"

fun err_contains :: "string \<Rightarrow> start_err \<Rightarrow> bool" where
  "err_contains pat (LibErr (LibText t)) = contains pat t"
| "err_contains pat (LibErr ContextCanceled) = contains pat ''context canceled''"
| "err_contains pat (LibErr ServerClosed) = contains pat ''http: Server closed''"
| "err_contains pat (NewErr m) = contains pat m"
| "err_contains pat (ErrOf e) = False"
| "err_contains pat (Prop e m) = (contains pat m \<or> err_contains pat e)"
| "err_contains pat (Retry e m) = (contains pat m \<or> err_contains pat e)"

text \<open>The same error without its texts.\<close>

fun textless :: "start_err \<Rightarrow> unit err" where
  "textless (LibErr t) = ExtErr"
| "textless (NewErr m) = NewError None"
| "textless (ErrOf e) = e"
| "textless (Prop e m) = Propagate (textless e)"
| "textless (Retry e m) = Propagate (textless e)"

definition textless_result :: "start_err + 'a \<Rightarrow> unit err + 'a" where
  "textless_result r = (case r of Inl e \<Rightarrow> Inl (textless e) | Inr a \<Rightarrow> Inr a)"

section \<open>The process\<close>

text \<open>
  A connection pool and a scheduler have the numbers in which they were made. The state lists
  the pools that are open and the schedulers that run, with their jobs, beside what is outside of
  the process, of type \<open>'w\<close>.
\<close>

datatype job =
    StatsJob nat string
  | CollectorJob nat string

record 'w process =
  outside :: 'w
  pools_made :: nat
  open_pools :: "nat list"
  crons_made :: nat
  running :: "(nat \<times> (string \<times> job) list) list"

text \<open>A computation that may fail and changes the process either way.\<close>

type_synonym ('w, 'a) act = "'w process \<Rightarrow> (start_err + 'a) \<times> 'w process"

definition yield :: "'a \<Rightarrow> ('w, 'a) act" where
  "yield a = (\<lambda>s. (Inr a, s))"

definition raise :: "start_err \<Rightarrow> ('w, 'a) act" where
  "raise e = (\<lambda>s. (Inl e, s))"

definition act_of :: "start_err + 'a \<Rightarrow> ('w, 'a) act" where
  "act_of r = (\<lambda>s. (r, s))"

definition andthen :: "('w, 'a) act \<Rightarrow> ('a \<Rightarrow> ('w, 'b) act) \<Rightarrow> ('w, 'b) act" where
  "andthen m f = (\<lambda>s. case m s of (Inl e, s') \<Rightarrow> (Inl e, s') | (Inr a, s') \<Rightarrow> f a s')"

text \<open>\<open>onerr m h\<close> is the block of an \<^verbatim>\<open>if err != nil\<close>; a panic does not reach it.\<close>

definition onerr :: "('w, 'a) act \<Rightarrow> (start_err \<Rightarrow> ('w, 'a) act) \<Rightarrow> ('w, 'a) act" where
  "onerr m h = (\<lambda>s. case m s of
     (Inl e, s') \<Rightarrow> if e = ErrOf Panic then (Inl e, s') else h e s'
   | (Inr a, s') \<Rightarrow> (Inr a, s'))"

definition propagating :: "string \<Rightarrow> ('w, 'a) act \<Rightarrow> ('w, 'a) act" where
  "propagating msg m = onerr m (\<lambda>e. raise (Prop e msg))"

definition lib_call :: "('w \<Rightarrow> lib_err option \<times> 'w) \<Rightarrow> ('w, unit) act" where
  "lib_call f = (\<lambda>s. case f (outside s) of
     (None, w) \<Rightarrow> (Inr (), s\<lparr>outside := w\<rparr>)
   | (Some e, w) \<Rightarrow> (Inl (LibErr e), s\<lparr>outside := w\<rparr>))"

definition Pool_Close :: "nat \<Rightarrow> ('w, unit) act" where
  "Pool_Close p = (\<lambda>s. (Inr (), s\<lparr>open_pools := filter (\<lambda>q. q \<noteq> p) (open_pools s)\<rparr>))"

section \<open>Dialling\<close>

text \<open>
  The configuration that the library reads from a connection string; \<open>ServerName\<close> is \<open>None\<close> where
  the library makes no configuration of TLS.
\<close>

record PoolConfig =
  pc_dsn :: string
  ServerName :: "string option"
  MaxConns :: int
  MinConns :: int
  MaxConnIdleTime :: int
  HealthCheckPeriod :: int

text \<open>
  What is not under \<^verbatim>\<open>src/\<close>: the database library with the server behind it, the library for
  versions, and that for schedules. A query gives the text of an error, or its answer.
\<close>

record 'w startup_ext =
  su_ParseConfig :: "string \<Rightarrow> string + PoolConfig"
  su_ConnectConfig :: "PoolConfig \<Rightarrow> 'w \<Rightarrow> string option \<times> 'w"
  su_tables :: "'w \<Rightarrow> string \<Rightarrow> string + bool"
  su_version_row :: "'w \<Rightarrow> string \<Rightarrow> string + string"
  su_NewVersion :: "string \<Rightarrow> string + semver"
  su_version_text :: "semver \<Rightarrow> string"
  su_bad_schedule :: "string \<Rightarrow> string option"

definition lib_result :: "string + 'a \<Rightarrow> start_err + 'a" where
  "lib_result r = (case r of Inl t \<Rightarrow> Inl (LibErr (LibText t)) | Inr a \<Rightarrow> Inr a)"

definition of_err :: "unit err + 'a \<Rightarrow> start_err + 'a" where
  "of_err r = (case r of Inl e \<Rightarrow> Inl (ErrOf e) | Inr a \<Rightarrow> Inr a)"

definition pool_config :: "ConnectParameters \<Rightarrow> PoolConfig \<Rightarrow> PoolConfig" where
  "pool_config cp config = config\<lparr>
     ServerName := (if ssl_Mode (cp_SSL cp) = ''enable'' then Some (Host cp) else ServerName config),
     MaxConns := sint (word_of_int (MaxOpenConns cp) :: 32 word),
     MaxConnIdleTime := sint (word_of_int (MaxConnIdleSeconds cp * 1000000000) :: 64 word),
     HealthCheckPeriod := 1000000000, MinConns := 1\<rparr>"

definition ConnectConfig :: "'w startup_ext \<Rightarrow> PoolConfig \<Rightarrow> ('w, nat) act" where
  "ConnectConfig x config = (\<lambda>s.
     case su_ConnectConfig x config (outside s) of
       (Some t, w) \<Rightarrow> (Inl (LibErr (LibText t)), s\<lparr>outside := w\<rparr>)
     | (None, w) \<Rightarrow>
         (Inr (pools_made s),
          s\<lparr>outside := w, pools_made := Suc (pools_made s), open_pools := pools_made s # open_pools s\<rparr>))"

text \<open>The result does not depend on the order of the map of parameters (\<open>BuildDSN_order\<close>).\<close>

definition Dial :: "'w startup_ext \<Rightarrow> ConnectParameters \<Rightarrow> ('w, nat) act" where
  "Dial x cp =
     andthen (propagating ''Failed to create connection config for pgx''
       (act_of (of_err (BuildDSN id cp)))) (\<lambda>dsn.
     andthen (propagating ''Failed to parse connection config for pgx''
       (act_of (lib_result (su_ParseConfig x dsn)))) (\<lambda>config.
     if ssl_Mode (cp_SSL cp) = ''enable'' \<and> ServerName config = None then raise (ErrOf Panic)
     else ConnectConfig x (pool_config cp config)))"

section \<open>Versions of the schema, with the texts of errors\<close>

definition start_GetVersion :: "'w startup_ext \<Rightarrow> 'w \<Rightarrow> string \<Rightarrow> start_err + db_version" where
  "start_GetVersion x w dbName =
     (if dbName = '''' then Inl (NewErr ''GetVersion was provided with an empty database name'')
      else case su_tables x w dbName of
        Inl t \<Rightarrow> Inl (Prop (LibErr (LibText t)) ''Error scanning table listing row'')
      | Inr exists \<Rightarrow>
          if \<not> exists then Inr None
          else case su_version_row x w dbName of
            Inl t \<Rightarrow> Inl (Prop (LibErr (LibText t)) ''Error scanning version row'')
          | Inr dbVersion \<Rightarrow> map_sum id Some (lib_result (su_NewVersion x (strip_v dbVersion))))"

definition schema_advice :: string where
  "schema_advice =
     ''Please check https://github.com/interuss/dss/tree/master/build#updgrading-database-schemas''"

text \<open>\<open>what\<close> is the name of the store in its messages.\<close>

definition start_check ::
    "'w startup_ext \<Rightarrow> string \<Rightarrow> string \<Rightarrow> int \<Rightarrow> start_err + db_version \<Rightarrow> start_err + unit" where
  "start_check x what store major version =
     (case version of
        Inl e \<Rightarrow> Inl (Prop e (''Failed to get database schema version for '' @ what))
      | Inr None \<Rightarrow> Inl (NewErr (store @ '' database has not been bootstrapped with Schema Manager, '' @ schema_advice))
      | Inr (Some v) \<Rightarrow>
          if major = sv_Major v then Inr ()
          else Inl (NewErr (''Unsupported schema version for '' @ what @ ''! Got '' @ su_version_text x v @
            '', requires major version of '' @ decimal major @ ''. '' @ schema_advice)))"

definition scd_open :: "'w startup_ext \<Rightarrow> ('w, unit) act" where
  "scd_open x = (\<lambda>s. propagating ''Strategic conflict detection schema version check failed''
     (act_of (start_check x ''strategic conflict detection'' ''Strategic conflict detection'' 3
       (start_GetVersion x (outside s) ''scd''))) s)"

text \<open>The messages of the store of vertiports are those of strategic coordination.\<close>

definition vrp_open :: "'w startup_ext \<Rightarrow> ('w, unit) act" where
  "vrp_open x = (\<lambda>s. propagating ''Strategic conflict detection schema version check failed''
     (act_of (start_check x ''strategic conflict detection'' ''Strategic conflict detection'' 1
       (start_GetVersion x (outside s) ''vrp''))) s)"

definition rid_open :: "'w startup_ext \<Rightarrow> string \<Rightarrow> ('w, db_version) act" where
  "rid_open x dbName = (\<lambda>s.
     andthen (propagating (''Failed to get database schema version for remote ID for db : '' @ dbName)
       (act_of (start_GetVersion x (outside s) dbName))) (\<lambda>vs.
     andthen (propagating ''Remote ID schema version check failed''
       (act_of (start_check x ''remote ID'' ''Remote ID'' 4 (Inr vs)))) (\<lambda>_.
     yield vs)) s)"

section \<open>Laws of the computations\<close>

lemmas act_defs = yield_def raise_def act_of_def andthen_def onerr_def propagating_def

lemma andthen_Inr:
  assumes "andthen m f s = (Inr b, s')"
  obtains a t where "m s = (Inr a, t)" "f a t = (Inr b, s')"
  using assms by (auto simp: andthen_def split: prod.splits sum.splits)

lemma andthen_Inl:
  assumes "andthen m f s = (Inl e, s')"
  obtains "m s = (Inl e, s')" | a t where "m s = (Inr a, t)" "f a t = (Inl e, s')"
  using assms by (auto simp: andthen_def split: prod.splits sum.splits)

lemma andthen_cases:
  assumes "andthen m f s = (r, s')"
  obtains e where "m s = (Inl e, s')" "r = Inl e" | a t where "m s = (Inr a, t)" "f a t = (r, s')"
  using assms by (auto simp: andthen_def split: prod.splits sum.splits)

lemma onerr_Inl:
  assumes "onerr m h s = (Inl e, s')"
  obtains "m s = (Inl e, s')" "e = ErrOf Panic"
    | e0 t where "m s = (Inl e0, t)" "e0 \<noteq> ErrOf Panic" "h e0 t = (Inl e, s')"
  using assms by (auto simp: onerr_def split: prod.splits sum.splits if_splits)

lemma onerr_Inr:
  assumes "onerr m h s = (Inr b, s')"
  obtains "m s = (Inr b, s')"
    | e0 t where "m s = (Inl e0, t)" "e0 \<noteq> ErrOf Panic" "h e0 t = (Inr b, s')"
  using assms by (auto simp: onerr_def split: prod.splits sum.splits if_splits)

lemma propagating_Inr [simp]: "propagating msg m s = (Inr b, s') \<longleftrightarrow> m s = (Inr b, s')"
  by (auto simp: propagating_def onerr_def raise_def split: prod.splits sum.splits if_splits)

lemma propagating_Inl:
  "propagating msg m s = (Inl e, s') \<longleftrightarrow>
     (m s = (Inl e, s') \<and> e = ErrOf Panic \<or> (\<exists>e0. m s = (Inl e0, s') \<and> e0 \<noteq> ErrOf Panic \<and> e = Prop e0 msg))"
  by (auto simp: propagating_def onerr_def raise_def split: prod.splits sum.splits if_splits)

lemma simple_acts [simp]:
  "yield a s = (Inr a, s)" "raise e s = (Inl e, s)" "act_of r s = (r, s)"
  by (simp_all add: yield_def raise_def act_of_def)

lemma lib_call_error: "lib_call f s = (Inl e, s') \<Longrightarrow> \<not> retryable e"
  by (auto simp: lib_call_def split: prod.splits option.splits)

section \<open>The stores open as the model without texts says\<close>

text \<open>The two records of parameters are about the same libraries and the same server.\<close>

definition agrees :: "'w startup_ext \<Rightarrow> 'w schema_ext \<Rightarrow> bool" where
  "agrees x y \<longleftrightarrow>
     (\<forall>w d. sx_tables y w d = (case su_tables x w d of Inl t \<Rightarrow> None | Inr b \<Rightarrow> Some b)) \<and>
     (\<forall>w d. sx_version_row y w d = (case su_version_row x w d of Inl t \<Rightarrow> None | Inr v \<Rightarrow> Some v)) \<and>
     (\<forall>t. sx_parse y t = (case su_NewVersion x t of Inl e \<Rightarrow> None | Inr v \<Rightarrow> Some v))"

lemma start_GetVersion_textless:
  "agrees x y \<Longrightarrow> textless_result (start_GetVersion x w d) = GetVersion y w d"
  by (auto simp: agrees_def textless_result_def start_GetVersion_def GetVersion_def lib_result_def
      split: sum.splits option.splits)

lemma start_GetVersion_no_panic: "start_GetVersion x w d = Inl e \<Longrightarrow> textless e \<noteq> Panic"
  by (auto simp: start_GetVersion_def lib_result_def split: if_splits sum.splits)

lemma start_check_textless:
  assumes "\<And>e. r = Inl e \<Longrightarrow> textless e \<noteq> Panic"
  shows "textless_result (start_check x what store major r) =
      CheckCurrentMajorSchemaVersion major (textless_result r)"
    and "start_check x what store major r = Inl e \<Longrightarrow> textless e \<noteq> Panic"
  using assms
  by (auto simp: start_check_def textless_result_def CheckCurrentMajorSchemaVersion_def swrap_def
      rewrap_def sbind_def scheck_def split: sum.splits option.splits err.splits if_splits)

lemma propagating_textless:
  assumes "\<And>e. r = Inl e \<Longrightarrow> textless e \<noteq> Panic"
  shows "textless_result (fst (propagating msg (act_of r) s)) = swrap Propagate (textless_result r)"
    and "snd (propagating msg (act_of r) s) = s"
  using assms
  by (auto simp: act_defs textless_result_def swrap_def rewrap_def split: sum.splits err.splits)

lemma checked_textless:
  assumes "\<And>e. r = Inl e \<Longrightarrow> textless e \<noteq> Panic"
  shows "textless_result (fst (propagating msg (act_of (start_check x what store major r)) s)) =
      swrap Propagate (CheckCurrentMajorSchemaVersion major (textless_result r))"
    and "snd (propagating msg (act_of (start_check x what store major r)) s) = s"
  using propagating_textless [where r = "start_check x what store major r"]
    start_check_textless [where r = r] assms by metis+

text \<open>Opening a store changes nothing, and gives what \<open>Dss_Schema\<close> says.\<close>

lemma stores_textless:
  assumes "agrees x y"
  shows "textless_result (fst (scd_open x s)) = scd_NewStore y (outside s)" "snd (scd_open x s) = s"
    and "textless_result (fst (vrp_open x s)) = vrp_NewStore y (outside s)" "snd (vrp_open x s) = s"
  unfolding scd_open_def vrp_open_def scd_NewStore_def vrp_NewStore_def
  by (simp_all only: checked_textless [OF start_GetVersion_no_panic] start_GetVersion_textless [OF assms])

lemma rid_open_textless:
  assumes "agrees x y"
  shows "textless_result (fst (rid_open x d s)) = rid_NewStore y (outside s) d" "snd (rid_open x d s) = s"
proof -
  have "textless_result (fst (rid_open x d s)) = rid_NewStore y (outside s) d \<and> snd (rid_open x d s) = s"
  proof (cases "start_GetVersion x (outside s) d")
    case (Inl e)
    then have "e \<noteq> ErrOf Panic" "rewrap Propagate (textless e) = Propagate (textless e)"
      using start_GetVersion_no_panic [OF Inl] by (auto simp: rewrap_def split: err.splits)
    moreover from Inl have "GetVersion y (outside s) d = Inl (textless e)"
      using start_GetVersion_textless [OF assms, of "outside s" d] by (simp add: textless_result_def)
    ultimately show ?thesis using Inl
      by (simp add: rid_open_def rid_NewStore_def act_defs textless_result_def swrap_def sbind_def)
  next
    case (Inr vs)
    then have vs: "GetVersion y (outside s) d = (Inr vs :: unit err + _)"
      using start_GetVersion_textless [OF assms, of "outside s" d] by (simp add: textless_result_def)
    let ?r = "start_check x ''remote ID'' ''Remote ID'' 4 (Inr vs)"
    obtain res where check: "propagating ''Remote ID schema version check failed'' (act_of ?r) s = (res, s)"
      "textless_result res = swrap Propagate (CheckCurrentMajorSchemaVersion 4 (Inr vs))"
    proof
      let ?m = "propagating ''Remote ID schema version check failed'' (act_of ?r) s"
      show "?m = (fst ?m, s)"
        by (metis checked_textless(2) prod.collapse sum.distinct(2))
      show "textless_result (fst ?m) = swrap Propagate (CheckCurrentMajorSchemaVersion 4 (Inr vs))"
        by (subst checked_textless(1)) (simp_all add: textless_result_def)
    qed
    have first: "propagating msg (act_of (Inr vs)) s = (Inr vs, s)" for msg :: string
      by simp
    have "rid_open x d s = (case res of Inl e \<Rightarrow> (Inl e, s) | Inr u \<Rightarrow> (Inr vs, s))"
      by (simp only: rid_open_def andthen_def Inr first check(1) prod.case sum.case)
        (simp split: sum.split)
    with check(2) show ?thesis
      by (cases res; cases "CheckCurrentMajorSchemaVersion 4 (Inr vs) :: unit err + unit")
        (simp_all add: rid_NewStore_def vs textless_result_def swrap_def sbind_def)
  qed
  then show "textless_result (fst (rid_open x d s)) = rid_NewStore y (outside s) d"
    and "snd (rid_open x d s) = s" by simp_all
qed

end
