(* ===== verification/Dss_Backoff.thy ===== *)
theory Dss_Backoff
  imports Dss_Connect
begin

text \<open>
  The loop by which both commands, \<^verbatim>\<open>cmds/core-service/main.go\<close> and \<^verbatim>\<open>cmds/http-gateway/main.go\<close>,
  wait for their prerequisites: a run that ends with a retryable error is repeated after a delay,
  which grows up to five minutes. Nothing bounds the number of attempts. And the
  goroutine by which both commands stop their server.
\<close>

section \<open>The loop\<close>

text \<open>Seconds.\<close>

definition backoffs :: "int list" where
  "backoffs = [5, 15, 60, 60, 60, 300]"

partial_function (option) retry_loop ::
    "('p \<Rightarrow> (start_err + unit) \<times> 'p) \<Rightarrow> (int \<Rightarrow> 'p \<Rightarrow> 'p) \<Rightarrow> nat \<Rightarrow> 'p \<Rightarrow> ((start_err + unit) \<times> 'p) option" where
  "retry_loop run sleep backoff s =
     (case run s of
        (Inr u, s') \<Rightarrow> Some (Inr u, s')
      | (Inl e, s') \<Rightarrow>
          if retryable e then
            retry_loop run sleep (if backoff < length backoffs - 1 then backoff + 1 else backoff)
              (sleep (backoffs ! backoff) s')
          else Some (Inl e, s'))"

section \<open>Its attempts\<close>

definition wait_before :: "nat \<Rightarrow> int" where
  "wait_before n = backoffs ! min n 5"

text \<open>The state in which attempt \<open>n\<close> begins, counted from 0, when those before it are to be retried.\<close>

fun attempt_state :: "('p \<Rightarrow> (start_err + unit) \<times> 'p) \<Rightarrow> (int \<Rightarrow> 'p \<Rightarrow> 'p) \<Rightarrow> 'p \<Rightarrow> nat \<Rightarrow> 'p" where
  "attempt_state run sleep s 0 = s"
| "attempt_state run sleep s (Suc n) = sleep (wait_before n) (snd (run (attempt_state run sleep s n)))"

definition tries_again :: "(start_err + unit) \<times> 'p \<Rightarrow> bool" where
  "tries_again r = (case fst r of Inl e \<Rightarrow> retryable e | Inr u \<Rightarrow> False)"

lemma retry_loop_step:
  "retry_loop run sleep (min n 5) s =
     (if tries_again (run s) then retry_loop run sleep (min (Suc n) 5) (sleep (wait_before n) (snd (run s)))
      else Some (run s))"
proof -
  have index: "(if min n 5 < length backoffs - 1 then min n 5 + 1 else min n 5) = min (Suc n) 5"
    by (auto simp: backoffs_def)
  show ?thesis
    by (subst retry_loop.simps) (simp only: index wait_before_def tries_again_def, simp split: prod.split sum.split)
qed

lemma retry_loop_attempts:
  assumes "\<And>k. k < n \<Longrightarrow> tries_again (run (attempt_state run sleep s k))"
  shows "retry_loop run sleep 0 s = retry_loop run sleep (min n 5) (attempt_state run sleep s n)"
  using assms
proof (induction n)
  case (Suc n)
  then show ?case by (simp add: retry_loop_step [of run sleep n])
qed simp

text \<open>The loop ends with the first attempt that is not to be retried, and only so.\<close>

lemma retry_loop_ends:
  assumes "\<And>k. k < n \<Longrightarrow> tries_again (run (attempt_state run sleep s k))"
    and "\<not> tries_again (run (attempt_state run sleep s n))"
  shows "retry_loop run sleep 0 s = Some (run (attempt_state run sleep s n))"
  using assms by (simp add: retry_loop_attempts [of n] retry_loop_step)

lemma retry_loop_Some:
  assumes "retry_loop run sleep b s = Some r"
  shows "b = min n 5 \<Longrightarrow> s = attempt_state run sleep s0 n \<Longrightarrow> \<exists>m. \<not> tries_again (run (attempt_state run sleep s0 m))"
proof -
  define P where "P = (\<lambda>(run :: 'a \<Rightarrow> (start_err + unit) \<times> 'a) sleep b s (r :: (start_err + unit) \<times> 'a). \<forall>n.
    b = min n 5 \<longrightarrow> s = attempt_state run sleep s0 n \<longrightarrow> (\<exists>m. \<not> tries_again (run (attempt_state run sleep s0 m))))"
  have "P run sleep b s r"
  proof (rule retry_loop.raw_induct [OF _ assms])
    fix loop and run :: "'a \<Rightarrow> (start_err + unit) \<times> 'a" and sleep b s r
    assume IH: "\<And>run sleep b s r. loop run sleep b s = Some r \<Longrightarrow> P run sleep b s r"
      and eq: "(case run s of (Inl e, s') \<Rightarrow>
          if retryable e then loop run sleep (if b < length backoffs - 1 then b + 1 else b) (sleep (backoffs ! b) s')
          else Some (Inl e, s') | (Inr u, s') \<Rightarrow> Some (Inr u, s')) = Some r"
    show "P run sleep b s r" unfolding P_def
    proof (intro allI impI)
      fix n assume b: "b = min n 5" and s: "s = attempt_state run sleep s0 n"
      show "\<exists>m. \<not> tries_again (run (attempt_state run sleep s0 m))"
      proof (cases "tries_again (run s)")
        case True
        then obtain e s' where run: "run s = (Inl e, s')" "retryable e"
          by (cases "run s") (auto simp: tries_again_def split: sum.splits)
        have "(if b < length backoffs - 1 then b + 1 else b) = min (Suc n) 5"
          unfolding b by (auto simp: backoffs_def)
        moreover have "sleep (backoffs ! b) s' = attempt_state run sleep s0 (Suc n)"
          using run(1) s b by (simp add: wait_before_def)
        ultimately have "loop run sleep (min (Suc n) 5) (attempt_state run sleep s0 (Suc n)) = Some r"
          using eq run by simp
        from IH [OF this] show ?thesis unfolding P_def by blast
      qed (use s in blast)
    qed
  qed
  then show "b = min n 5 \<Longrightarrow> s = attempt_state run sleep s0 n \<Longrightarrow> \<exists>m. \<not> tries_again (run (attempt_state run sleep s0 m))"
    unfolding P_def by blast
qed

theorem retry_loop_returns:
  "(\<exists>r. retry_loop run sleep 0 s = Some r) \<longleftrightarrow> (\<exists>n. \<not> tries_again (run (attempt_state run sleep s n)))"
    (is "?l = (\<exists>n. ?P n)")
proof
  show "?l \<Longrightarrow> \<exists>n. ?P n" using retry_loop_Some [of run sleep 0 s _ 0 s] by auto
  assume "\<exists>n. ?P n"
  then have "?P (LEAST n. ?P n)" by (rule LeastI_ex)
  then have "retry_loop run sleep 0 s = Some (run (attempt_state run sleep s (LEAST n. ?P n)))"
    by (intro retry_loop_ends) (use not_less_Least in blast)+
  then show ?l ..
qed

text \<open>What every retry keeps holds when an attempt begins.\<close>

lemma attempt_state_invariant:
  assumes "I 0 s" and step: "\<And>n t. I n t \<Longrightarrow> tries_again (run t) \<Longrightarrow> I (Suc n) (sleep (wait_before n) (snd (run t)))"
    and "\<And>k. k < n \<Longrightarrow> tries_again (run (attempt_state run sleep s k))"
  shows "I n (attempt_state run sleep s n)"
  using assms(3) by (induction n) (use assms(1) step in auto)

text \<open>The delays: between five seconds and five minutes, and the time until an attempt.\<close>

lemma wait_before_bounds: "5 \<le> wait_before n" "wait_before n \<le> 300"
proof -
  have "min n 5 \<in> {0, 1, 2, 3, 4, 5}" by auto
  then show "5 \<le> wait_before n" "wait_before n \<le> 300"
    by (auto simp: wait_before_def backoffs_def nth_Cons')
qed

lemma total_wait: "(\<Sum>k < n + 5. wait_before k) = 200 + 300 * int n"
proof (induction n)
  case 0
  show ?case by (simp add: eval_nat_numeral wait_before_def backoffs_def)
next
  case (Suc n)
  have "wait_before (n + 5) = 300" by (simp add: wait_before_def backoffs_def)
  with Suc show ?case by (simp only: add_Suc sum.lessThan_Suc) simp
qed

section \<open>Stopping\<close>

text \<open>
  The goroutine that watches a server: it waits for the end of the context, which an OS signal
  causes, as may the command itself, and then stops the server and returns. The argument is
  whether the context was canceled.
\<close>

datatype watcher = Watching bool | Stopped

inductive watch_step :: "watcher \<Rightarrow> watcher \<Rightarrow> bool" where
  Cancel: "watch_step (Watching canceled) (Watching True)"
| Done: "watch_step (Watching True) Stopped"

inductive_cases watch_step_Stopped: "watch_step w Stopped"
inductive_simps watch_step_from_Stopped: "watch_step Stopped w"

text \<open>The server is stopped only after the context was canceled, and then can always be.\<close>

lemma stopped_after_cancel:
  assumes "watch_step\<^sup>*\<^sup>* (Watching False) w"
  shows "w = Stopped \<Longrightarrow> watch_step\<^sup>*\<^sup>* (Watching False) (Watching True)"
    and "w = Watching canceled \<Longrightarrow> watch_step\<^sup>*\<^sup>* w Stopped"
proof -
  show "watch_step\<^sup>*\<^sup>* (Watching False) (Watching True)" if "w = Stopped"
    using assms that by (cases rule: rtranclp.cases) (auto elim: watch_step_Stopped)
  have "watch_step\<^sup>*\<^sup>* (Watching True) Stopped" using watch_step.Done by blast
  then show "watch_step\<^sup>*\<^sup>* w Stopped" if "w = Watching canceled"
    unfolding that by (rule converse_rtranclp_into_rtranclp [where r = watch_step, OF watch_step.Cancel])
qed

end
