(* ===== verification/Dss_Startup.thy ===== *)
theory Dss_Startup
  imports Dss_Backoff Rid_Collector Dss_Upgrade
begin

text \<open>
  The start of the server (\<^verbatim>\<open>cmds/core-service/main.go\<close>): its databases, its schedules, its keys,
  the servers that it registers, and the loop that waits for the databases. The connection pools
  and the schedulers that the process holds are part of the state.
\<close>

section \<open>Flags and servers\<close>

record core_flags =
  fl_address :: string
  fl_pkFile :: string
  fl_jwksEndpoint :: string
  fl_jwksKeyIDs :: string
  fl_timeout :: int
  fl_dumpRequests :: bool
  fl_reflectAPI :: bool
  fl_profServiceName :: string
  fl_enableSCD :: bool
  fl_enableVRP :: bool
  fl_enableHTTP :: bool
  fl_locality :: string
  fl_garbageCollectorSpec :: string
  fl_jwtAudiences :: string
  fl_connect :: ConnectParameters

text \<open>A store is the pool it uses, and for remote ID its version and the name of its database.\<close>

record rid_server =
  rs_pool :: nat
  rs_version :: db_version
  rs_DatabaseName :: string
  rs_Timeout :: int
  rs_Locality :: string
  rs_EnableHTTP :: bool
  rs_Cron :: nat

record store_server =
  ss_pool :: nat
  ss_Timeout :: int
  ss_EnableHTTP :: bool

datatype interceptor =
    ErrorInterceptor | LoggingInterceptor | AuthorizingInterceptor | ValidatingInterceptor
  | DumpInterceptor

datatype service = RIDService | AuxService | SCDService | VRPService | ReflectionService

record 'k core_server =
  sv_rid :: rid_server
  sv_scd :: "store_server option"
  sv_vrp :: "store_server option"
  sv_authorizer :: "'k authorizer"
  sv_resolver :: "'k key_resolver"
  sv_interceptors :: "interceptor list"
  sv_services :: "service list"

text \<open>
  Parameters, beside those of \<open>Dss_Connect\<close> and \<open>Dss_Keys\<close>: whether logging and the profiler
  start, the network, the gRPC library, which serves until it is stopped, and the time that passes.
\<close>

record ('w, 'k, 'j) core_ext =
  co_startup :: "'w startup_ext"
  co_keys :: "('k, 'j) key_ext"
  co_logging :: bool
  co_profiler :: "string \<Rightarrow> bool"
  co_Listen :: "string \<Rightarrow> 'w \<Rightarrow> lib_err option \<times> 'w"
  co_Serve :: "'k core_server \<Rightarrow> 'w \<Rightarrow> lib_err option \<times> 'w"
  co_Sleep :: "int \<Rightarrow> 'w \<Rightarrow> 'w"

section \<open>Schedules\<close>

definition cron_New :: "('w, nat) act" where
  "cron_New = (\<lambda>s. (Inr (crons_made s), s\<lparr>crons_made := Suc (crons_made s)\<rparr>))"

definition cron_Add ::
    "'w startup_ext \<Rightarrow> string \<Rightarrow> job \<Rightarrow> (string \<times> job) list \<Rightarrow> ('w, (string \<times> job) list) act" where
  "cron_Add x spec j jobs =
     act_of (case su_bad_schedule x spec of
       Some t \<Rightarrow> Inl (LibErr (LibText t)) | None \<Rightarrow> Inr (jobs @ [(spec, j)]))"

definition cron_Start :: "nat \<Rightarrow> (string \<times> job) list \<Rightarrow> ('w, unit) act" where
  "cron_Start c jobs = (\<lambda>s. (Inr (), s\<lparr>running := (c, jobs) # running s\<rparr>))"

definition cron_Stop :: "nat \<Rightarrow> ('w, unit) act" where
  "cron_Stop c = (\<lambda>s. (Inr (), s\<lparr>running := filter (\<lambda>(d, jobs). d \<noteq> c) (running s)\<rparr>))"

text \<open>The counters of a pool as the job that reports them formats them, and whether it warns.\<close>

record pool_stat =
  AcquireCount :: int
  AcquiredConns :: int
  CanceledAcquireCount :: int
  ConstructingConns :: int
  EmptyAcquireCount :: int
  IdleConns :: int
  pst_MaxConns :: int
  TotalConns :: int

definition getDBStats :: "pool_stat \<Rightarrow> string \<Rightarrow> (string \<rightharpoonup> string) \<times> bool" where
  "getDBStats st databaseName =
     (let stats = Map.empty(''DBName'' \<mapsto> databaseName,
        ''AcquireCount'' \<mapsto> decimal (AcquireCount st), ''AcquiredConns'' \<mapsto> decimal (AcquiredConns st),
        ''CanceledAcquireCount'' \<mapsto> decimal (CanceledAcquireCount st),
        ''ConstructingConns'' \<mapsto> decimal (ConstructingConns st),
        ''EmptyAcquireCount'' \<mapsto> decimal (EmptyAcquireCount st), ''IdleConns'' \<mapsto> decimal (IdleConns st),
        ''MaxConns'' \<mapsto> decimal (pst_MaxConns st), ''TotalConns'' \<mapsto> decimal (TotalConns st))
      in (stats, stats ''TotalConns'' = Some ''0''))"

text \<open>The job that collects logs an error and drops it.\<close>

definition RIDGarbageCollectorJob_Run :: "ext \<Rightarrow> time \<Rightarrow> string \<Rightarrow> rid_db \<Rightarrow> rid_db" where
  "RIDGarbageCollectorJob_Run x now writer db = snd (DeleteRIDExpiredRecords x now writer db)"

section \<open>The servers of the services\<close>

definition rid_retry_text :: string where
  "rid_retry_text = ''Failed to connect to CRDB server for remote ID store''"

definition upgrading_advice :: string where
  "upgrading_advice = ''; verify your database configuration is current with '' @
     ''https://github.com/interuss/dss/tree/master/build#upgrading-database-schemas''"

text \<open>
  The store on the database \<^verbatim>\<open>rid\<close>, and after any failure to open that one, on \<^verbatim>\<open>defaultdb\<close>. The
  pool that is dialled for the latter is a variable of the inner block.
\<close>

definition defaultdb_store ::
    "'w startup_ext \<Rightarrow> ConnectParameters \<Rightarrow> ('w, nat \<times> db_version \<times> string) act" where
  "defaultdb_store x cp =
     andthen (propagating (''Failed to connect to remote ID database for older version <defaultdb>'' @ upgrading_advice)
       (Dial x (cp\<lparr>DBName := ''defaultdb''\<rparr>))) (\<lambda>pool.
     andthen (onerr (rid_open x ''defaultdb'') (\<lambda>e.
       if err_contains ''connect: connection refused'' e \<or>
          err_contains ''database has not been bootstrapped with Schema Manager'' e
       then andthen (Pool_Close pool) (\<lambda>_. raise (Retry e rid_retry_text))
       else raise (Prop e ''Failed to create remote ID store''))) (\<lambda>vs.
     yield (pool, vs, ''defaultdb'')))"

definition createRIDServer :: "'w startup_ext \<Rightarrow> core_flags \<Rightarrow> string \<Rightarrow> ('w, rid_server) act" where
  "createRIDServer x fl locality =
     andthen (onerr (Dial x ((fl_connect fl)\<lparr>DBName := ''rid''\<rparr>)) (\<lambda>e.
       if err_contains ''connect: connection refused'' e then raise (Retry e rid_retry_text)
       else raise (Prop e (''Failed to connect to remote ID database'' @ upgrading_advice)))) (\<lambda>ridCrdb.
     andthen (onerr (andthen (rid_open x ''rid'') (\<lambda>vs. yield (ridCrdb, vs, ''rid''))) (\<lambda>e.
       andthen (Pool_Close ridCrdb) (\<lambda>_. defaultdb_store x (fl_connect fl)))) (\<lambda>(pool, vs, dbName).
     andthen cron_New (\<lambda>ridCron.
     andthen (propagating (''Failed to schedule periodic db stat check to '' @ dbName)
       (cron_Add x ''@every 1m'' (StatsJob ridCrdb dbName) [])) (\<lambda>jobs.
     andthen (propagating (''Failed to schedule periodic delete rid expired records to '' @ dbName)
       (cron_Add x (fl_garbageCollectorSpec fl) (CollectorJob pool locality) jobs)) (\<lambda>jobs'.
     andthen (cron_Start ridCron jobs') (\<lambda>_.
     yield \<lparr>rs_pool = pool, rs_version = vs, rs_DatabaseName = dbName, rs_Timeout = fl_timeout fl,
       rs_Locality = locality, rs_EnableHTTP = fl_enableHTTP fl, rs_Cron = ridCron\<rparr>))))))"

definition scd_retry_text :: string where
  "scd_retry_text = ''Failed to connect to CRDB server for strategic conflict detection store''"

text \<open>
  The two other servers are made in the same way, with the same messages. Their schedulers are
  not kept, and report to the name of the database of strategic coordination.
\<close>

definition createStoreServer ::
    "'w startup_ext \<Rightarrow> core_flags \<Rightarrow> string \<Rightarrow> ('w, unit) act \<Rightarrow> string \<Rightarrow> ('w, store_server) act" where
  "createStoreServer x fl dbName NewStore absent =
     andthen (propagating (''Failed to connect to strategic conflict detection database'' @ upgrading_advice)
       (Dial x ((fl_connect fl)\<lparr>DBName := dbName\<rparr>))) (\<lambda>crdb.
     andthen (onerr NewStore (\<lambda>e.
       if err_contains ''connect: connection refused'' e \<or> err_contains absent e
       then andthen (Pool_Close crdb) (\<lambda>_. raise (Retry e scd_retry_text))
       else raise (Prop e ''Failed to create strategic conflict detection store''))) (\<lambda>_.
     andthen cron_New (\<lambda>cron.
     andthen (propagating ''Failed to schedule periodic db stat check to scd''
       (cron_Add x ''@every 1m'' (StatsJob crdb ''scd'') [])) (\<lambda>jobs.
     andthen (cron_Start cron jobs) (\<lambda>_.
     yield \<lparr>ss_pool = crdb, ss_Timeout = fl_timeout fl, ss_EnableHTTP = fl_enableHTTP fl\<rparr>)))))"

definition createSCDServer :: "'w startup_ext \<Rightarrow> core_flags \<Rightarrow> ('w, store_server) act" where
  "createSCDServer x fl =
     createStoreServer x fl ''scd'' (scd_open x) (''database '' @ CHR 0x22 # ''scd'' @ CHR 0x22 # '' does not exist'')"

definition createVRPServer :: "'w startup_ext \<Rightarrow> core_flags \<Rightarrow> ('w, store_server) act" where
  "createVRPServer x fl =
     createStoreServer x fl ''vrp'' (vrp_open x) (''database '' @ CHR 0x22 # ''vrp'' @ CHR 0x22 # '' does not exist'')"

section \<open>The whole server\<close>

text \<open>A service that is switched on; when it cannot be made, the scheduler of remote ID is stopped.\<close>

definition optional_server ::
    "bool \<Rightarrow> nat \<Rightarrow> string \<Rightarrow> ('w, store_server) act \<Rightarrow> ('w, store_server option) act" where
  "optional_server enabled ridCron msg create =
     (if enabled then
        andthen (onerr create (\<lambda>e. andthen (cron_Stop ridCron) (\<lambda>_. raise (Prop e msg)))) (\<lambda>server.
        yield (Some server))
      else yield None)"

definition core_interceptors :: "bool \<Rightarrow> interceptor list" where
  "core_interceptors dumpRequests =
     [ErrorInterceptor, LoggingInterceptor, AuthorizingInterceptor, ValidatingInterceptor] @
     (if dumpRequests then [DumpInterceptor] else [])"

definition core_services :: "core_flags \<Rightarrow> service list" where
  "core_services fl =
     (if fl_reflectAPI fl then [ReflectionService] else []) @ [RIDService, AuxService] @
     (if fl_enableSCD fl then [SCDService] else []) @ (if fl_enableVRP fl then [VRPService] else [])"

definition make_authorizer ::
    "('w, 'k, 'j) core_ext \<Rightarrow> core_flags \<Rightarrow> ('w, 'k authorizer \<times> 'k key_resolver) act" where
  "make_authorizer c fl =
     andthen (propagating ''Error creating RSA authorizer''
       (act_of (of_err (createKeyResolver (co_keys c) (fl_pkFile fl) (fl_jwksEndpoint fl) (fl_jwksKeyIDs fl))))) (\<lambda>resolver.
     propagating ''Error creating RSA authorizer''
       (act_of (of_err (start_authorizer (co_keys c) resolver (core_scopes (fl_enableSCD fl) (fl_enableVRP fl))
         (split_at CHR '','' (fl_jwtAudiences fl))))))"

definition make_server ::
    "('w, 'k, 'j) core_ext \<Rightarrow> core_flags \<Rightarrow> string \<Rightarrow> ('w, 'k core_server) act" where
  "make_server c fl locality =
     andthen (propagating ''Failed to create remote ID server'' (createRIDServer (co_startup c) fl locality)) (\<lambda>rid.
     andthen (optional_server (fl_enableSCD fl) (rs_Cron rid) ''Failed to create strategic conflict detection server''
       (createSCDServer (co_startup c) fl)) (\<lambda>scd.
     andthen (optional_server (fl_enableVRP fl) (rs_Cron rid) ''Failed to create vertiport management server''
       (createVRPServer (co_startup c) fl)) (\<lambda>vrp.
     andthen (make_authorizer c fl) (\<lambda>(authorizer, resolver').
     yield \<lparr>sv_rid = rid, sv_scd = scd, sv_vrp = vrp, sv_authorizer = authorizer, sv_resolver = resolver',
       sv_interceptors = core_interceptors (fl_dumpRequests fl), sv_services = core_services fl\<rparr>))))"

definition RunGRPCServer ::
    "('w, 'k, 'j) core_ext \<Rightarrow> core_flags \<Rightarrow> string \<Rightarrow> string \<Rightarrow> ('w, unit) act" where
  "RunGRPCServer c fl address locality =
     andthen (make_server c fl locality) (\<lambda>server.
     andthen (propagating (''Error attempting to listen at '' @ address) (lib_call (co_Listen c address))) (\<lambda>_.
     lib_call (co_Serve c server)))"

definition core_sleep :: "('w, 'k, 'j) core_ext \<Rightarrow> int \<Rightarrow> 'w process \<Rightarrow> 'w process" where
  "core_sleep c d t = t\<lparr>outside := co_Sleep c d (outside t)\<rparr>"

abbreviation core_run :: "('w, 'k, 'j) core_ext \<Rightarrow> core_flags \<Rightarrow> ('w, unit) act" where
  "core_run c fl \<equiv> RunGRPCServer c fl (fl_address fl) (fl_locality fl)"

text \<open>
  \<^verbatim>\<open>main\<close>: an error that is not retryable is a panic. \<open>None\<close> is a process that waits forever.
\<close>

definition core_main ::
    "('w, 'k, 'j) core_ext \<Rightarrow> core_flags \<Rightarrow> 'w process \<Rightarrow> ((start_err + unit) \<times> 'w process) option" where
  "core_main c fl s =
     (if \<not> co_logging c \<or> fl_profServiceName fl \<noteq> '''' \<and> \<not> co_profiler c (fl_profServiceName fl)
      then Some (Inl (ErrOf Panic), s)
      else map_option (map_prod (map_sum (\<lambda>e. ErrOf Panic) id) id)
        (retry_loop (core_run c fl) (core_sleep c) 0 s))"

end
