(* ===== verification/Dss_Leaks.thy ===== *)
theory Dss_Leaks
  imports Dss_Startup
begin

text \<open>
  What a failed start leaves behind: the pools that stay open and the schedulers that keep running
  when the server is made again, attempt after attempt.
\<close>

section \<open>Pools and schedulers\<close>

definition wf_process :: "'w process \<Rightarrow> bool" where
  "wf_process s \<longleftrightarrow>
     list_all (\<lambda>p. p < pools_made s) (open_pools s) \<and> list_all (\<lambda>c. fst c < crons_made s) (running s)"

text \<open>From \<open>s\<close> to \<open>t\<close> the process has opened the pools \<open>ps\<close> and started the schedulers \<open>cs\<close>.\<close>

definition holds_more :: "'w process \<Rightarrow> nat list \<Rightarrow> (nat \<times> (string \<times> job) list) list \<Rightarrow> 'w process \<Rightarrow> bool" where
  "holds_more s ps cs t \<longleftrightarrow> wf_process s \<and> wf_process t \<and>
     open_pools t = ps @ open_pools s \<and> running t = cs @ running s \<and>
     pools_made s \<le> pools_made t \<and> crons_made s \<le> crons_made t \<and>
     list_all (\<lambda>p. pools_made s \<le> p) ps \<and> list_all (\<lambda>c. crons_made s \<le> fst c) cs"

lemma below_mono: "list_all (\<lambda>x. f x < n) xs \<Longrightarrow> n \<le> m \<Longrightarrow> list_all (\<lambda>x. f x < (m :: nat)) xs"
  by (erule list.pred_mono_strong) simp

lemma above_mono: "list_all (\<lambda>x. m \<le> f x) xs \<Longrightarrow> n \<le> m \<Longrightarrow> list_all (\<lambda>x. (n :: nat) \<le> f x) xs"
  by (erule list.pred_mono_strong) simp

lemmas below_Suc = below_mono [where f = "\<lambda>x. x", OF _ le_SucI [OF le_refl]]
  below_mono [where f = fst, OF _ le_SucI [OF le_refl]]

lemma holds_more_refl: "wf_process s \<Longrightarrow> holds_more s [] [] s"
  by (simp add: holds_more_def)

lemma holds_more_trans:
  "holds_more s ps cs t \<Longrightarrow> holds_more t qs ds u \<Longrightarrow> holds_more s (qs @ ps) (ds @ cs) u"
  by (auto simp: holds_more_def intro: above_mono [where f = "\<lambda>x. x"] above_mono [where f = fst])

lemma holds_more_wf: "holds_more s ps cs t \<Longrightarrow> wf_process t"
  by (simp add: holds_more_def)

lemma filter_below: "list_all (\<lambda>q. q < (n :: nat)) qs \<Longrightarrow> n \<le> p \<Longrightarrow> filter (\<lambda>q. q \<noteq> p) qs = qs"
  by (induction qs) auto

lemma filter_crons_below:
  "list_all (\<lambda>c. fst c < (n :: nat)) cs \<Longrightarrow> n \<le> d \<Longrightarrow> filter (\<lambda>(c, jobs). c \<noteq> d) cs = cs"
  by (induction cs) auto

lemma Pool_Close_holds:
  assumes more: "holds_more s [p] cs t" and closed: "Pool_Close p t = (r, u)"
  shows "r = Inr () \<and> holds_more s [] cs u"
proof -
  have "filter (\<lambda>q. q \<noteq> p) (open_pools t) = open_pools s"
    using more filter_below [of "pools_made s" "open_pools s" p] by (simp add: holds_more_def wf_process_def)
  with closed have "r = Inr ()" "u = t\<lparr>open_pools := open_pools s\<rparr>" by (simp_all add: Pool_Close_def)
  then show ?thesis using more by (auto simp: holds_more_def wf_process_def)
qed

lemma cron_Stop_holds:
  assumes more: "holds_more s ps (cs @ [(c, jobs)]) t" and stopped: "cron_Stop c t = (r, u)" and "c \<notin> fst ` set cs"
  shows "r = Inr () \<and> holds_more s ps cs u"
proof -
  have "filter (\<lambda>(d, jobs). d \<noteq> c) cs = cs" using assms(3) by (intro filter_True) force
  then have "filter (\<lambda>(d, jobs). d \<noteq> c) (running t) = cs @ running s"
    using more filter_crons_below [of "crons_made s" "running s" c] by (simp add: holds_more_def wf_process_def)
  with stopped have "r = Inr ()" "u = t\<lparr>running := cs @ running s\<rparr>" by (simp_all add: cron_Stop_def)
  then show ?thesis using more by (auto simp: holds_more_def wf_process_def)
qed

section \<open>Each step\<close>

definition final :: "start_err + 'a \<Rightarrow> bool" where
  "final r \<longleftrightarrow> (case r of Inl e \<Rightarrow> \<not> retryable e | Inr a \<Rightarrow> True)"

lemma final_results [simp]:
  "final (Inr a)" "final (Inl e) \<longleftrightarrow> \<not> retryable e" "final (lib_result q)" "final (of_err q')"
  by (auto simp: final_def lib_result_def of_err_def split: sum.splits)

lemma start_GetVersion_final [simp]: "final (start_GetVersion x w d)"
  by (auto simp: start_GetVersion_def final_def lib_result_def split: sum.splits)

lemma start_check_final [simp]: "final q \<Longrightarrow> final (start_check x what store major q)"
  by (auto simp: start_check_def final_def split: sum.splits option.splits)

lemma propagating_act:
  "propagating msg (act_of r) s = (r', s') \<Longrightarrow> final r \<Longrightarrow> s' = s \<and> final r'"
  by (auto simp: act_defs split: sum.splits if_splits)

lemma ConnectConfig_holds:
  "ConnectConfig x config s = (r, s') \<Longrightarrow> wf_process s \<Longrightarrow>
   (\<exists>e. r = Inl e \<and> \<not> retryable e \<and> holds_more s [] [] s') \<or>
   r = Inr (pools_made s) \<and> holds_more s [pools_made s] [] s'"
  by (auto simp: ConnectConfig_def holds_more_def wf_process_def below_Suc split: prod.splits option.splits)

lemma Dial_holds:
  assumes dial: "Dial x cp s = (r, s')" and wf: "wf_process s"
  shows "(\<exists>e. r = Inl e \<and> \<not> retryable e \<and> holds_more s [] [] s') \<or>
    r = Inr (pools_made s) \<and> holds_more s [pools_made s] [] s'"
  using dial [unfolded Dial_def]
proof (cases rule: andthen_cases)
  case (1 e)
  with propagating_act [OF 1(1)] wf show ?thesis by (simp add: holds_more_refl)
next
  case (2 dsn t)
  with propagating_act [OF 2(1)] have "t = s" by simp
  from 2(2) [unfolded this] show ?thesis
  proof (cases rule: andthen_cases)
    case (1 e)
    with propagating_act [OF 1(1)] wf show ?thesis by (simp add: holds_more_refl)
  next
    case (2 config u)
    with propagating_act [OF 2(1)] have "u = s" by simp
    with 2(2) wf ConnectConfig_holds [OF _ wf] show ?thesis
      by (auto simp: holds_more_refl split: if_splits)
  qed
qed

lemma scd_open_keeps: "scd_open x s = (r, s') \<Longrightarrow> s' = s \<and> final r"
  unfolding scd_open_def by (erule propagating_act) simp

lemma vrp_open_keeps: "vrp_open x s = (r, s') \<Longrightarrow> s' = s \<and> final r"
  unfolding vrp_open_def by (erule propagating_act) simp

lemma act_chain:
  "andthen (propagating msg (act_of q)) f s = (r, s') \<Longrightarrow> final q \<Longrightarrow>
   (\<And>a. q = Inr a \<Longrightarrow> f a s = (r, s') \<Longrightarrow> s' = s \<and> final r) \<Longrightarrow> s' = s \<and> final r"
  by (erule andthen_cases) (auto dest: propagating_act)

lemma rid_open_keeps: "rid_open x d s = (r, s') \<Longrightarrow> s' = s \<and> final r"
  unfolding rid_open_def by (erule act_chain, simp)+ auto

section \<open>The servers\<close>

lemma open_or_close:
  assumes run: "onerr m (\<lambda>e. if again e then andthen (Pool_Close p) (\<lambda>_. raise (Retry e msg))
      else raise (Prop e msg')) t = (r, u)"
    and keeps: "\<And>q t'. m t = (q, t') \<Longrightarrow> t' = t \<and> final q" and p: "holds_more s [p] [] t"
  shows "(\<forall>e. r = Inl e \<and> retryable e \<longrightarrow> holds_more s [] [] u) \<and> (\<forall>a. r = Inr a \<longrightarrow> u = t)"
proof -
  obtain q t' where m: "m t = (q, t')" by fastforce
  with keeps have "t' = t" "final q" by auto
  obtain u' where closed: "Pool_Close p t = (Inr (), u')" "holds_more s [] [] u'"
    using Pool_Close_holds [OF p] by (metis prod.collapse)
  show ?thesis
    using run m \<open>t' = t\<close> \<open>final q\<close> closed
    by (cases q) (auto simp: onerr_def andthen_def split: if_splits)
qed

text \<open>A server that is made has opened one pool and started one scheduler; a start to be repeated, none.\<close>

definition makes_server :: "('w, store_server) act \<Rightarrow> bool" where
  "makes_server create \<longleftrightarrow> (\<forall>s r s'. wf_process s \<longrightarrow> create s = (r, s') \<longrightarrow>
     (\<forall>e. r = Inl e \<and> retryable e \<longrightarrow> holds_more s [] [] s') \<and>
     (\<forall>sv. r = Inr sv \<longrightarrow> (\<exists>c. holds_more s [ss_pool sv] [c] s')))"

definition only_reads :: "('w, 'a) act \<Rightarrow> bool" where
  "only_reads m \<longleftrightarrow> (\<forall>t q t'. m t = (q, t') \<longrightarrow> t' = t \<and> final q)"

lemma stores_only_read: "only_reads (scd_open x)" "only_reads (vrp_open x)"
  using scd_open_keeps vrp_open_keeps unfolding only_reads_def by blast+

lemma createStoreServer_holds:
  assumes run: "createStoreServer x fl d NewStore absent s = (r, s')" and wf: "wf_process s"
    and reads: "only_reads NewStore"
  shows "(\<forall>e. r = Inl e \<and> retryable e \<longrightarrow> holds_more s [] [] s') \<and>
    (\<forall>sv. r = Inr sv \<longrightarrow> (\<exists>c. holds_more s [ss_pool sv] [c] s'))"
  using run [unfolded createStoreServer_def]
proof (cases rule: andthen_cases)
  case (1 e)
  with Dial_holds [OF _ wf] show ?thesis by (fastforce simp: propagating_Inl)
next
  case (2 p t)
  then have p: "holds_more s [p] [] t" using Dial_holds [OF _ wf] by fastforce
  from 2(2) show ?thesis
  proof (cases rule: andthen_cases)
    case (1 e)
    from open_or_close [OF 1(1) reads [unfolded only_reads_def, rule_format] p] 1(2) show ?thesis by simp
  next
    case (2 a u)
    from open_or_close [OF 2(1) reads [unfolded only_reads_def, rule_format] p] have "u = t" by simp
    with 2(2) p show ?thesis
      by (auto simp: andthen_def cron_New_def cron_Add_def cron_Start_def propagating_def onerr_def
          holds_more_def wf_process_def below_Suc split: prod.splits sum.splits if_splits option.splits)
  qed
qed

lemma defaultdb_store_holds:
  assumes run: "defaultdb_store x cp s = (r, s')" and wf: "wf_process s"
  shows "(\<forall>e. r = Inl e \<and> retryable e \<longrightarrow> holds_more s [] [] s') \<and>
    (\<forall>p vs d. r = Inr (p, vs, d) \<longrightarrow> holds_more s [p] [] s' \<and> d = ''defaultdb'')"
  using run [unfolded defaultdb_store_def]
proof (cases rule: andthen_cases)
  case (1 e)
  with Dial_holds [OF _ wf] show ?thesis by (fastforce simp: propagating_Inl)
next
  case (2 p t)
  then have p: "holds_more s [p] [] t" using Dial_holds [OF _ wf] by fastforce
  from 2(2) show ?thesis
  proof (cases rule: andthen_cases)
    case (1 e)
    from open_or_close [OF 1(1) rid_open_keeps p] 1(2) show ?thesis by simp
  next
    case (2 a u)
    from open_or_close [OF 2(1) rid_open_keeps p] have "u = t" by simp
    with 2(2) p show ?thesis by auto
  qed
qed

text \<open>The store of remote ID is on the pool that was dialled first, or on one made after that was closed.\<close>

lemma rid_store_holds:
  assumes run: "onerr (andthen (rid_open x ''rid'') (\<lambda>vs. yield (p, vs, ''rid''))) (\<lambda>e.
      andthen (Pool_Close p) (\<lambda>_. defaultdb_store x cp)) t = (r, u)" and p: "holds_more s [p] [] t"
  shows "(\<forall>e. r = Inl e \<and> retryable e \<longrightarrow> holds_more s [] [] u) \<and>
    (\<forall>q vs d. r = Inr (q, vs, d) \<longrightarrow> holds_more s [q] [] u \<and>
      (q = p \<and> d = ''rid'' \<or> p \<notin> set (open_pools u) \<and> d = ''defaultdb''))"
proof -
  obtain q where opened: "rid_open x ''rid'' t = (q, t)" "final q"
    using rid_open_keeps by (metis prod.collapse)
  show ?thesis
  proof (cases q)
    case (Inr vs)
    with run opened p show ?thesis by (auto simp: onerr_def andthen_def)
  next
    case (Inl e)
    obtain v where closed: "Pool_Close p t = (Inr (), v)" "holds_more s [] [] v"
      using Pool_Close_holds [OF p] by (metis prod.collapse)
    show ?thesis
    proof (cases "e = ErrOf Panic")
      case True
      with run Inl opened show ?thesis by (auto simp: onerr_def andthen_def)
    next
      case False
      with run Inl opened closed have "defaultdb_store x cp v = (r, u)" by (simp add: onerr_def andthen_def)
      from defaultdb_store_holds [OF this holds_more_wf [OF closed(2)]]
      have err: "r = Inl e \<Longrightarrow> retryable e \<Longrightarrow> holds_more v [] [] u"
        and ok: "r = Inr (q, vs, d) \<Longrightarrow> holds_more v [q] [] u \<and> d = ''defaultdb''" for e q vs d
        by blast+
      have "p \<notin> set (open_pools u)" if "holds_more v [q] [] u" for q
      proof -
        have "p < q" and "open_pools u = q # open_pools s"
          using closed p that by (auto simp: Pool_Close_def holds_more_def wf_process_def)
        with p show ?thesis by (auto simp: holds_more_def wf_process_def list_all_iff)
      qed
      with err ok holds_more_trans [OF closed(2), of "[]" "[]" u] holds_more_trans [OF closed(2), of "[_]" "[]" u]
      show ?thesis by simp blast
    qed
  qed
qed

text \<open>What the schedules do when they are made.\<close>

lemma schedules_hold:
  assumes run: "andthen cron_New (\<lambda>cron. andthen (propagating m1 (cron_Add x spec1 j1 [])) (\<lambda>jobs.
      andthen (propagating m2 (cron_Add x spec2 j2 jobs)) (\<lambda>jobs'. andthen (cron_Start cron jobs') (\<lambda>_. yield (f cron))))) t = (r, u)"
    and ps: "holds_more s ps [] t"
  shows "final r \<and> (\<forall>a. r = Inr a \<longrightarrow> a = f (crons_made t) \<and>
    holds_more s ps [(crons_made t, [(spec1, j1), (spec2, j2)])] u \<and> open_pools u = open_pools t)"
  using run ps
  by (auto simp: andthen_def cron_New_def cron_Add_def cron_Start_def propagating_def onerr_def
      holds_more_def wf_process_def below_Suc split: prod.splits sum.splits if_splits option.splits)

lemma createRIDServer_holds:
  assumes run: "createRIDServer x fl locality s = (r, s')" and wf: "wf_process s"
  shows "(\<forall>e. r = Inl e \<and> retryable e \<longrightarrow> holds_more s [] [] s') \<and>
    (\<forall>rid. r = Inr rid \<longrightarrow> (\<exists>p.
      holds_more s [rs_pool rid]
        [(rs_Cron rid, [(''@every 1m'', StatsJob p (rs_DatabaseName rid)),
          (fl_garbageCollectorSpec fl, CollectorJob (rs_pool rid) locality)])] s' \<and>
      (rs_pool rid = p \<and> rs_DatabaseName rid = ''rid'' \<or>
       p \<notin> set (open_pools s') \<and> rs_DatabaseName rid = ''defaultdb'')))"
  using run [unfolded createRIDServer_def]
proof (cases rule: andthen_cases)
  case (1 e)
  then obtain e0 where "Dial x ((fl_connect fl)\<lparr>DBName := ''rid''\<rparr>) s = (Inl e0, s')"
    by (elim onerr_Inl) (auto split: if_splits)
  with Dial_holds [OF _ wf] 1(2) show ?thesis by fastforce
next
  case (2 p t)
  then have "Dial x ((fl_connect fl)\<lparr>DBName := ''rid''\<rparr>) s = (Inr p, t)"
    by (elim onerr_Inr) (auto split: if_splits)
  with Dial_holds [OF _ wf] have p: "holds_more s [p] [] t" by fastforce
  from 2(2) show ?thesis
  proof (cases rule: andthen_cases)
    case (1 e)
    from rid_store_holds [OF 1(1) p] 1(2) show ?thesis by simp
  next
    case (2 a u)
    obtain q vs d where a: "a = (q, vs, d)" by (cases a)
    from rid_store_holds [OF 2(1) [unfolded a] p] have q: "holds_more s [q] [] u"
      and which: "q = p \<and> d = ''rid'' \<or> p \<notin> set (open_pools u) \<and> d = ''defaultdb''" by simp_all
    from schedules_hold [OF 2(2) [unfolded a prod.case] q] which show ?thesis
      by (cases r) auto
  qed
qed

lemma optional_server_holds:
  assumes run: "optional_server enabled cron msg create t = (r, u)"
    and held: "holds_more s ps (cs @ [(cron, jobs)]) t" "cron \<notin> fst ` set cs"
    and create: "makes_server create"
  shows "(\<forall>e. r = Inl e \<and> retryable e \<longrightarrow> enabled \<and> holds_more s ps cs u \<and> (\<exists>e0. e = Prop e0 msg)) \<and>
    (r = Inr None \<longrightarrow> \<not> enabled \<and> u = t) \<and>
    (\<forall>sv. r = Inr (Some sv) \<longrightarrow> enabled \<and> (\<exists>c. holds_more t [ss_pool sv] [c] u))"
proof (cases enabled)
  case True
  obtain q v where q: "create t = (q, v)" by fastforce
  note made = create [unfolded makes_server_def, rule_format, OF holds_more_wf [OF held(1)] q]
  show ?thesis
  proof (cases q)
    case (Inr sv)
    with run True q made show ?thesis
      by (auto simp: optional_server_def andthen_def onerr_def)
  next
    case (Inl e)
    obtain w where w: "cron_Stop cron v = (Inr (), w)" by (simp add: cron_Stop_def)
    have "retryable e \<Longrightarrow> holds_more s ps cs w"
      using made Inl holds_more_trans [OF held(1), of "[]" "[]" v] cron_Stop_holds [OF _ w held(2)]
      by simp
    with run True q Inl w show ?thesis
      by (auto simp: optional_server_def andthen_def onerr_def split: if_splits)
  qed
qed (use run in \<open>auto simp: optional_server_def\<close>)

section \<open>The whole server\<close>

lemma store_server_made: "only_reads NewStore \<Longrightarrow> makes_server (createStoreServer x fl d NewStore absent)"
  unfolding makes_server_def using createStoreServer_holds by blast

lemma servers_made: "makes_server (createSCDServer x fl)" "makes_server (createVRPServer x fl)"
  unfolding createSCDServer_def createVRPServer_def
  by (rule store_server_made [OF stores_only_read(1)], rule store_server_made [OF stores_only_read(2)])

lemma make_authorizer_keeps:
  assumes "make_authorizer c fl s = (r, s')"
  shows "s' = s \<and> final r"
  using assms [unfolded make_authorizer_def]
proof (cases rule: andthen_cases)
  case (1 e)
  with propagating_act [OF 1(1)] show ?thesis by simp
next
  case (2 a t)
  with propagating_act [OF 2(1)] propagating_act [OF 2(2)] show ?thesis by simp
qed

text \<open>
  What a start leaves when it is to be repeated: nothing when remote ID is not ready, one pool when
  strategic coordination is not, and when vertiports are not, one pool, or two and a scheduler when
  strategic coordination is switched on.
\<close>

theorem make_server_leaves:
  assumes run: "make_server c fl locality s = (Inl e, s')" and again: "retryable e" and wf: "wf_process s"
  obtains e0 where "e = Prop e0 ''Failed to create remote ID server''" "holds_more s [] [] s'"
  | e0 p where "e = Prop e0 ''Failed to create strategic conflict detection server''" "fl_enableSCD fl"
      "holds_more s [p] [] s'"
  | e0 p where "e = Prop e0 ''Failed to create vertiport management server''" "fl_enableVRP fl"
      "\<not> fl_enableSCD fl" "holds_more s [p] [] s'"
  | e0 p q job where "e = Prop e0 ''Failed to create vertiport management server''" "fl_enableVRP fl"
      "fl_enableSCD fl" "holds_more s [q, p] [job] s'"
  using run [unfolded make_server_def]
proof (cases rule: andthen_cases)
  case (1 e')
  with again obtain e0 where "createRIDServer (co_startup c) fl locality s = (Inl e0, s')" "retryable e0"
    "e = Prop e0 ''Failed to create remote ID server''" by (auto simp: propagating_Inl)
  with createRIDServer_holds [OF this(1) wf] show ?thesis by (intro that(1)) auto
next
  case (2 rid t)
  then have "createRIDServer (co_startup c) fl locality s = (Inr rid, t)" by simp
  with createRIDServer_holds [OF this wf] obtain jobs where
    t: "holds_more s [rs_pool rid] ([] @ [(rs_Cron rid, jobs)]) t" by auto
  note scd_holds = optional_server_holds [OF _ t _ servers_made(1)]
  from 2(2) show ?thesis
  proof (cases rule: andthen_cases)
    case (1 e')
    with scd_holds [OF 1(1)] again show ?thesis by (auto intro: that(2))
  next
    case (2 scd u)
    show ?thesis
    proof (cases scd)
      case None
      with scd_holds [OF 2(1)] have off: "\<not> fl_enableSCD fl" "u = t" by auto
      note vrp_holds = optional_server_holds [OF _ t _ servers_made(2)]
      from 2(2) [unfolded off(2)] show ?thesis
      proof (cases rule: andthen_cases)
        case (1 e')
        with vrp_holds [OF 1(1)] again off show ?thesis by (auto intro: that(3))
      next
        case (2 vrp v)
        from 2(2) again show ?thesis by (auto elim!: andthen_Inl dest: make_authorizer_keeps)
      qed
    next
      case (Some sv)
      with scd_holds [OF 2(1)] obtain job where on: "fl_enableSCD fl" and job: "holds_more t [ss_pool sv] [job] u"
        by auto
      have u: "holds_more s [ss_pool sv, rs_pool rid] ([job] @ [(rs_Cron rid, jobs)]) u"
        using holds_more_trans [OF t job] by simp
      have "rs_Cron rid \<notin> fst ` set [job]"
        using t job by (auto simp: holds_more_def wf_process_def)
      note vrp_holds = optional_server_holds [OF _ u this servers_made(2)]
      from 2(2) show ?thesis
      proof (cases rule: andthen_cases)
        case (1 e')
        with vrp_holds [OF 1(1)] again on show ?thesis by (auto intro: that(4))
      next
        case (2 vrp v)
        from 2(2) again show ?thesis by (auto elim!: andthen_Inl dest: make_authorizer_keeps)
      qed
    qed
  qed
qed

section \<open>The attempts of the process\<close>

lemma RunGRPCServer_again:
  assumes "RunGRPCServer c fl address locality s = (Inl e, s')" "retryable e"
  shows "make_server c fl locality s = (Inl e, s')"
  using assms(1) [unfolded RunGRPCServer_def]
proof (rule andthen_Inl)
  fix server t
  assume "andthen (propagating (''Error attempting to listen at '' @ address) (lib_call (co_Listen c address)))
    (\<lambda>_. lib_call (co_Serve c server)) t = (Inl e, s')"
  then have "\<not> retryable e"
    by (rule andthen_Inl) (auto simp: propagating_Inl dest: lib_call_error)
  with assms(2) show ?thesis by simp
qed

text \<open>The attempt ended in the creation of the server of remote ID.\<close>

definition waits_for_rid :: "(start_err + unit) \<times> 'w process \<Rightarrow> bool" where
  "waits_for_rid r \<longleftrightarrow> (case fst r of Inl (Prop e m) \<Rightarrow> m = ''Failed to create remote ID server'' | _ \<Rightarrow> False)"

lemma attempt_leaves:
  assumes "tries_again (RunGRPCServer c fl address locality t)" and wf: "wf_process t"
  shows "\<exists>ps cs. holds_more t ps cs (snd (RunGRPCServer c fl address locality t)) \<and>
    length ps \<le> 2 \<and> length cs < max 1 (length ps) \<and>
    (ps = [] \<longrightarrow> waits_for_rid (RunGRPCServer c fl address locality t))"
proof -
  obtain e s' where run: "RunGRPCServer c fl address locality t = (Inl e, s')" and again: "retryable e"
    using assms(1) by (cases "RunGRPCServer c fl address locality t") (auto simp: tries_again_def split: sum.splits)
  have rid: "e = Prop e0 ''Failed to create remote ID server'' \<Longrightarrow>
      waits_for_rid (RunGRPCServer c fl address locality t)" for e0
    by (simp add: run waits_for_rid_def)
  from make_server_leaves [OF RunGRPCServer_again [OF run again] again wf] show ?thesis
  proof cases
    case (1 e0)
    with rid run show ?thesis by (intro exI [of _ "[]"]) simp
  next
    case (2 e0 p)
    with run show ?thesis by (intro exI [of _ "[p]"] exI [of _ "[]"]) simp
  next
    case (3 e0 p)
    with run show ?thesis by (intro exI [of _ "[p]"] exI [of _ "[]"]) simp
  next
    case (4 e0 p q job)
    with run show ?thesis by (intro exI [of _ "[q, p]"] exI [of _ "[job]"]) simp
  qed
qed

lemma core_sleep_holds [simp]: "holds_more s ps cs (core_sleep c d t) = holds_more s ps cs t"
  by (simp add: holds_more_def core_sleep_def wf_process_def)

text \<open>
  What the process holds after \<open>n\<close> attempts, when each ended because a database was not ready: the
  pools are bounded by the number of attempts, and when it was never the database of remote ID, they
  grow with it.
\<close>

lemma waiting_leaks:
  fixes c :: "('w, 'k, 'j) core_ext"
  assumes wf: "wf_process s"
    and again: "\<And>k. k < n \<Longrightarrow> tries_again (core_run c fl (attempt_state (core_run c fl) (core_sleep c) s k))"
  shows "\<exists>ps cs. holds_more s ps cs (attempt_state (core_run c fl) (core_sleep c) s n) \<and>
    length ps \<le> 2 * n \<and> length cs \<le> n \<and>
    ((\<forall>k < n. \<not> waits_for_rid (core_run c fl (attempt_state (core_run c fl) (core_sleep c) s k))) \<longrightarrow> n \<le> length ps)"
  using again
proof (induction n)
  case 0
  show ?case using holds_more_refl [OF wf] by auto
next
  case (Suc n)
  let ?at = "attempt_state (core_run c fl) (core_sleep c) s"
  from Suc obtain ps cs where held: "holds_more s ps cs (?at n)" and n: "length ps \<le> 2 * n" "length cs \<le> n"
    "(\<forall>k < n. \<not> waits_for_rid (core_run c fl (?at k))) \<longrightarrow> n \<le> length ps" by auto
  from Suc.prems have "tries_again (core_run c fl (?at n))" by simp
  from attempt_leaves [OF this holds_more_wf [OF held]] obtain qs ds where
    more: "holds_more (?at n) qs ds (snd (core_run c fl (?at n)))" and "length qs \<le> 2" "length ds < max 1 (length qs)"
      "qs = [] \<longrightarrow> waits_for_rid (core_run c fl (?at n))"
    by (elim exE conjE)
  with n holds_more_trans [OF held more] show ?case
    by (intro exI [of _ "qs @ ps"] exI [of _ "ds @ cs"]) (cases qs, auto)
qed

section \<open>A server that serves\<close>

lemma rid_open_version:
  assumes "rid_open x d s = (Inr vs, s')"
  shows "\<exists>v. vs = Some v \<and> sv_Major v = 4"
  using assms [unfolded rid_open_def]
proof (rule andthen_Inr)
  fix vs' t
  assume rest: "andthen (propagating ''Remote ID schema version check failed''
    (act_of (start_check x ''remote ID'' ''Remote ID'' 4 (Inr vs')))) (\<lambda>_. yield vs') t = (Inr vs, s')"
  then have "vs' = vs" "start_check x ''remote ID'' ''Remote ID'' 4 (Inr vs') = Inr ()"
    by (auto elim!: andthen_Inr)
  then show ?thesis by (auto simp: start_check_def split: option.splits if_splits)
qed

lemma make_authorizer_ready:
  assumes "make_authorizer c fl s = (Inr (au, r'), s')"
  shows "keys au \<noteq> [] \<and> scopesValidators au = core_scopes (fl_enableSCD fl) (fl_enableVRP fl) \<and>
    acceptedAudiences au = set (split_at CHR '','' (fl_jwtAudiences fl))"
proof -
  from assms [unfolded make_authorizer_def] obtain resolver where
    resolver: "createKeyResolver (co_keys c) (fl_pkFile fl) (fl_jwksEndpoint fl) (fl_jwksKeyIDs fl) = (Inr resolver :: unit err + _)"
    and start: "start_authorizer (co_keys c) resolver (core_scopes (fl_enableSCD fl) (fl_enableVRP fl))
      (split_at CHR '','' (fl_jwtAudiences fl)) = (Inr (au, r') :: unit err + _)"
    by (rule andthen_Inr) (auto simp: of_err_def split: sum.splits)
  from start obtain r ks where r: "resolver = Some r" "ResolveKeys (co_keys c) r = (Inr ks :: unit err + _, r')"
    and au: "au = NewRSAAuthorizer ks (core_scopes (fl_enableSCD fl) (fl_enableVRP fl)) (split_at CHR '','' (fl_jwtAudiences fl))"
    by (auto simp: start_authorizer_def split: option.splits prod.splits sum.splits)
  from resolved_keys_nonempty [OF resolver [unfolded r(1)] r(2)] au show ?thesis
    by (simp add: NewRSAAuthorizer_def)
qed

text \<open>Without keys on the command line the start does not end in a server.\<close>

lemma no_keys_panics:
  assumes "fl_pkFile fl = ''''" "fl_jwksEndpoint fl = '''' \<or> fl_jwksKeyIDs fl = ''''"
  shows "make_authorizer c fl s = (Inl (ErrOf Panic), s)"
  using assms
  by (auto simp: make_authorizer_def createKeyResolver_def start_authorizer_def of_err_def andthen_def
      propagating_def onerr_def)

lemma createRIDServer_version:
  assumes "createRIDServer x fl locality s = (Inr rid, s')"
  shows "\<exists>v. rs_version rid = Some v \<and> sv_Major v = 4"
  using assms [unfolded createRIDServer_def]
proof (rule andthen_Inr)
  fix p t
  assume "andthen (onerr (andthen (rid_open x ''rid'') (\<lambda>vs. yield (p, vs, ''rid''))) (\<lambda>e.
       andthen (Pool_Close p) (\<lambda>_. defaultdb_store x (fl_connect fl)))) (\<lambda>(pool, vs, dbName).
     andthen cron_New (\<lambda>ridCron.
     andthen (propagating (''Failed to schedule periodic db stat check to '' @ dbName)
       (cron_Add x ''@every 1m'' (StatsJob p dbName) [])) (\<lambda>jobs.
     andthen (propagating (''Failed to schedule periodic delete rid expired records to '' @ dbName)
       (cron_Add x (fl_garbageCollectorSpec fl) (CollectorJob pool locality) jobs)) (\<lambda>jobs'.
     andthen (cron_Start ridCron jobs') (\<lambda>_.
     yield \<lparr>rs_pool = pool, rs_version = vs, rs_DatabaseName = dbName, rs_Timeout = fl_timeout fl,
       rs_Locality = locality, rs_EnableHTTP = fl_enableHTTP fl, rs_Cron = ridCron\<rparr>))))) t = (Inr rid, s')"
  then obtain q vs d u where store: "onerr (andthen (rid_open x ''rid'') (\<lambda>vs. yield (p, vs, ''rid''))) (\<lambda>e.
      andthen (Pool_Close p) (\<lambda>_. defaultdb_store x (fl_connect fl))) t = (Inr (q, vs, d), u)"
    and "rs_version rid = vs"
    by (elim andthen_Inr) (auto elim!: andthen_Inr)
  from store have "\<exists>v. vs = Some v \<and> sv_Major v = 4"
    by (rule onerr_Inr)
      (auto simp: defaultdb_store_def elim!: andthen_Inr onerr_Inr split: if_splits dest: rid_open_version)
  with \<open>rs_version rid = vs\<close> show ?thesis by simp
qed

definition server_pools :: "store_server option \<Rightarrow> nat list" where
  "server_pools server = (case server of None \<Rightarrow> [] | Some sv \<Rightarrow> [ss_pool sv])"

lemma optional_server_made:
  assumes run: "optional_server enabled cron msg create t = (Inr r, u)"
    and create: "makes_server create" and wf: "wf_process t"
  shows "(r = None \<longleftrightarrow> \<not> enabled) \<and> (\<exists>cs. holds_more t (server_pools r) cs u)"
proof (cases enabled)
  case True
  with run obtain sv where "create t = (Inr sv, u)" "r = Some sv"
    by (auto simp: optional_server_def elim!: andthen_Inr onerr_Inr)
  with create [unfolded makes_server_def, rule_format, OF wf, of "Inr sv" u] True show ?thesis
    by (auto simp: server_pools_def)
next
  case False
  with run wf holds_more_refl show ?thesis by (auto simp: optional_server_def server_pools_def)
qed

text \<open>
  A server that serves has keys, the scopes of the services that are switched on, a database of
  remote ID with the schema that its repositories are for, and open pools.
\<close>

lemma make_server_ready:
  assumes run: "make_server c fl locality s = (Inr sv, s')" and wf: "wf_process s"
  shows "keys (sv_authorizer sv) \<noteq> [] \<and>
    scopesValidators (sv_authorizer sv) = core_scopes (fl_enableSCD fl) (fl_enableVRP fl) \<and>
    (sv_scd sv = None \<longleftrightarrow> \<not> fl_enableSCD fl) \<and> (sv_vrp sv = None \<longleftrightarrow> \<not> fl_enableVRP fl) \<and>
    (\<exists>v. rs_version (sv_rid sv) = Some v \<and> sv_Major v = 4) \<and>
    open_pools s' = server_pools (sv_vrp sv) @ server_pools (sv_scd sv) @ rs_pool (sv_rid sv) # open_pools s"
proof -
  from run [unfolded make_server_def] obtain rid t scd u vrp v au r where
    rid: "createRIDServer (co_startup c) fl locality s = (Inr rid, t)"
    and scd: "optional_server (fl_enableSCD fl) (rs_Cron rid) ''Failed to create strategic conflict detection server''
      (createSCDServer (co_startup c) fl) t = (Inr scd, u)"
    and vrp: "optional_server (fl_enableVRP fl) (rs_Cron rid) ''Failed to create vertiport management server''
      (createVRPServer (co_startup c) fl) u = (Inr vrp, v)"
    and au: "make_authorizer c fl v = (Inr (au, r), s')"
    and sv: "sv = \<lparr>sv_rid = rid, sv_scd = scd, sv_vrp = vrp, sv_authorizer = au, sv_resolver = r,
      sv_interceptors = core_interceptors (fl_dumpRequests fl), sv_services = core_services fl\<rparr>"
    by (elim andthen_Inr) (auto elim!: andthen_Inr)
  from createRIDServer_holds [OF rid wf] obtain cs where t: "holds_more s [rs_pool rid] cs t" by auto
  from optional_server_made [OF scd servers_made(1) holds_more_wf [OF t]] obtain ds where
    u: "holds_more t (server_pools scd) ds u" "scd = None \<longleftrightarrow> \<not> fl_enableSCD fl" by auto
  from optional_server_made [OF vrp servers_made(2) holds_more_wf [OF u(1)]] obtain es where
    v: "holds_more u (server_pools vrp) es v" "vrp = None \<longleftrightarrow> \<not> fl_enableVRP fl" by auto
  from make_authorizer_keeps [OF au] have "s' = v" by simp
  moreover have "open_pools v = server_pools vrp @ server_pools scd @ rs_pool rid # open_pools s"
    using t u(1) v(1) by (simp add: holds_more_def)
  ultimately show ?thesis
    using make_authorizer_ready [OF au] createRIDServer_version [OF rid] u(2) v(2) by (simp add: sv)
qed

end
