(* ===== verification/Dss_Waiting.thy ===== *)
theory Dss_Waiting
  imports Dss_Leaks
begin

text \<open>
  A server that waits for its databases, on concrete libraries: the database of strategic
  coordination is made twenty seconds after the start. The outside world is the time in seconds. And
  the property of a start.
\<close>

definition exw_startup :: "nat startup_ext" where
  "exw_startup = \<lparr>
     su_ParseConfig = (\<lambda>dsn. Inr \<lparr>pc_dsn = dsn, ServerName = None, MaxConns = 0, MinConns = 0,
       MaxConnIdleTime = 0, HealthCheckPeriod = 0\<rparr>),
     su_ConnectConfig = (\<lambda>config now. (None, now)),
     su_tables = (\<lambda>now d. if d = ''scd'' \<and> now < 20
       then Inl (''ERROR: database '' @ CHR 0x22 # ''scd'' @ CHR 0x22 # '' does not exist (SQLSTATE 3D000)'')
       else Inr True),
     su_version_row = (\<lambda>now d. Inr (if d = ''rid'' then ''v4.0.0'' else ''v3.1.0'')),
     su_NewVersion = (\<lambda>t. Inr (zero_version\<lparr>sv_Major := if hd t = CHR ''4'' then 4 else 3\<rparr>)),
     su_version_text = (\<lambda>v. ''3.1.0''),
     su_bad_schedule = (\<lambda>spec. None)\<rparr>"

definition exw_keys :: "(string, unit) key_ext" where
  "exw_keys = \<lparr>kx_ReadFile = Some, kx_pem_Decode = Some, kx_ParsePKIXPublicKey = Some \<circ> RsaKey,
     kx_url_Parse = Some, kx_Do = Some, kx_Decode = (\<lambda>b. Some ()), kx_Keys = (\<lambda>j. []), kx_Key = (\<lambda>j i. [])\<rparr>"

definition exw :: "(nat, string, unit) core_ext" where
  "exw = \<lparr>co_startup = exw_startup, co_keys = exw_keys, co_logging = True, co_profiler = (\<lambda>n. True),
     co_Listen = (\<lambda>a now. (None, now)), co_Serve = (\<lambda>server now. (None, now)),
     co_Sleep = (\<lambda>d now. now + nat d)\<rparr>"

definition exw_flags :: core_flags where
  "exw_flags = \<lparr>fl_address = '':8081'', fl_pkFile = ''oauth.pem'', fl_jwksEndpoint = '''',
     fl_jwksKeyIDs = '''', fl_timeout = 10000000000, fl_dumpRequests = False, fl_reflectAPI = False,
     fl_profServiceName = '''', fl_enableSCD = True, fl_enableVRP = False, fl_enableHTTP = False,
     fl_locality = ''us'', fl_garbageCollectorSpec = ''@every 30m'', fl_jwtAudiences = ''dss'',
     fl_connect = \<lparr>ApplicationName = ''dss'', Host = ''crdb'', Port = 26257, DBName = ''dss'',
       cp_Credentials = \<lparr>Username = ''root'', Password = ''''\<rparr>,
       cp_SSL = \<lparr>ssl_Mode = ''disable'', ssl_Dir = ''''\<rparr>,
       MaxOpenConns = 4, MaxConnIdleSeconds = 30, MaxRetries = 100\<rparr>\<rparr>"

definition exw_start :: "nat process" where
  "exw_start = \<lparr>outside = 0, pools_made = 0, open_pools = [], crons_made = 0, running = []\<rparr>"

section \<open>The servers on these libraries\<close>

lemma exw_Dial:
  "Dial exw_startup ((fl_connect exw_flags)\<lparr>DBName := d\<rparr>) s =
     (Inr (pools_made s), s\<lparr>pools_made := Suc (pools_made s), open_pools := pools_made s # open_pools s\<rparr>)"
proof -
  obtain dsn where "BuildDSN id ((fl_connect exw_flags)\<lparr>DBName := d\<rparr>) = (Inr dsn :: unit err + _)"
    by (simp add: exw_flags_def BuildDSN_def Let_def sbind_def scheck_def)
  then show ?thesis
    by (simp add: Dial_def andthen_def propagating_def onerr_def of_err_def lib_result_def ConnectConfig_def
        exw_startup_def) (simp add: exw_flags_def)
qed

definition exw_version :: "int \<Rightarrow> semver" where
  "exw_version n = zero_version\<lparr>sv_Major := n\<rparr>"

lemma exw_GetVersion:
  "start_GetVersion exw_startup now ''rid'' = Inr (Some (exw_version 4))"
  "20 \<le> now \<Longrightarrow> start_GetVersion exw_startup now ''scd'' = Inr (Some (exw_version 3))"
  "now < 20 \<Longrightarrow> start_GetVersion exw_startup now ''scd'' = Inl (Prop (LibErr (LibText
     (''ERROR: database '' @ CHR 0x22 # ''scd'' @ CHR 0x22 # '' does not exist (SQLSTATE 3D000)'')))
     ''Error scanning table listing row'')"
  by (simp_all add: start_GetVersion_def exw_startup_def lib_result_def strip_v_def exw_version_def)

lemma exw_version_major: "sv_Major (exw_version n) = n"
  by (simp add: exw_version_def zero_version_def)

lemma exw_rid_open: "rid_open exw_startup ''rid'' s = (Inr (Some (exw_version 4)), s)"
  by (simp add: rid_open_def andthen_def propagating_def onerr_def exw_GetVersion start_check_def exw_version_major)

lemma exw_scd_open: "20 \<le> outside s \<Longrightarrow> scd_open exw_startup s = (Inr (), s)"
  by (simp add: scd_open_def propagating_def onerr_def exw_GetVersion start_check_def exw_version_major)

definition exw_absent :: start_err where
  "exw_absent = Prop (Prop (Prop (LibErr (LibText
     (''ERROR: database '' @ CHR 0x22 # ''scd'' @ CHR 0x22 # '' does not exist (SQLSTATE 3D000)'')))
     ''Error scanning table listing row'')
     (''Failed to get database schema version for '' @ ''strategic conflict detection''))
     ''Strategic conflict detection schema version check failed''"

lemma exw_scd_absent: "outside s < 20 \<Longrightarrow> scd_open exw_startup s = (Inl exw_absent, s)"
  by (simp add: scd_open_def propagating_def onerr_def exw_GetVersion start_check_def exw_absent_def)

lemma exw_absent_text:
  "err_contains (''database '' @ CHR 0x22 # ''scd'' @ CHR 0x22 # '' does not exist'') exw_absent"
  by code_simp

lemma exw_schedule: "cron_Add exw_startup spec j jobs s = (Inr (jobs @ [(spec, j)]), s)"
  by (simp add: cron_Add_def exw_startup_def)

definition exw_rid :: "nat process \<Rightarrow> rid_server" where
  "exw_rid s = \<lparr>rs_pool = pools_made s, rs_version = Some (exw_version 4), rs_DatabaseName = ''rid'',
     rs_Timeout = fl_timeout exw_flags, rs_Locality = ''us'', rs_EnableHTTP = False, rs_Cron = crons_made s\<rparr>"

definition exw_rid_state :: "nat process \<Rightarrow> nat process" where
  "exw_rid_state s = s\<lparr>pools_made := Suc (pools_made s), open_pools := pools_made s # open_pools s,
     crons_made := Suc (crons_made s),
     running := (crons_made s, [(''@every 1m'', StatsJob (pools_made s) ''rid''),
       (''@every 30m'', CollectorJob (pools_made s) ''us'')]) # running s\<rparr>"

lemma exw_createRIDServer:
  "createRIDServer exw_startup exw_flags ''us'' s = (Inr (exw_rid s), exw_rid_state s)"
  by (simp add: createRIDServer_def andthen_def onerr_def propagating_def exw_Dial exw_rid_open exw_schedule
      cron_New_def cron_Start_def exw_rid_def exw_rid_state_def) (simp add: exw_flags_def)

lemma exw_createSCDServer_waits:
  "outside s < 20 \<Longrightarrow> createSCDServer exw_startup exw_flags s =
     (Inl (Retry exw_absent scd_retry_text),
      s\<lparr>pools_made := Suc (pools_made s), open_pools := filter (\<lambda>q. q \<noteq> pools_made s) (open_pools s)\<rparr>)"
  using exw_absent_text
  by (simp add: createSCDServer_def createStoreServer_def andthen_def onerr_def propagating_def exw_Dial
      exw_scd_absent Pool_Close_def) (simp add: exw_absent_def)

lemma exw_createSCDServer:
  "20 \<le> outside s \<Longrightarrow> \<exists>server. createSCDServer exw_startup exw_flags s =
     (Inr server,
      s\<lparr>pools_made := Suc (pools_made s), open_pools := pools_made s # open_pools s,
        crons_made := Suc (crons_made s),
        running := (crons_made s, [(''@every 1m'', StatsJob (pools_made s) ''scd'')]) # running s\<rparr>)"
  by (simp add: createSCDServer_def createStoreServer_def andthen_def onerr_def propagating_def exw_Dial
      exw_scd_open exw_schedule cron_New_def cron_Start_def)

section \<open>The attempts\<close>

abbreviation exw_run :: "(nat, unit) act" where
  "exw_run \<equiv> RunGRPCServer exw exw_flags '':8081'' ''us''"

lemma exw_flag_values:
  "fl_enableSCD exw_flags" "\<not> fl_enableVRP exw_flags" "co_startup exw = exw_startup" "co_keys exw = exw_keys"
  "fl_pkFile exw_flags = ''oauth.pem''"
  by (simp_all add: exw_flags_def exw_def)

definition exw_again :: "nat process \<Rightarrow> nat process" where
  "exw_again s = s\<lparr>pools_made := pools_made s + 2,
     open_pools := filter (\<lambda>q. q \<noteq> Suc (pools_made s)) (pools_made s # open_pools s),
     crons_made := Suc (crons_made s), running := filter (\<lambda>(d, jobs). d \<noteq> crons_made s) (running s)\<rparr>"

lemma exw_waits:
  assumes "outside s < 20"
  shows "exw_run s = (Inl (Prop (Retry exw_absent scd_retry_text)
    ''Failed to create strategic conflict detection server''), exw_again s)"
proof -
  have "outside (exw_rid_state s) < 20" using assms by (simp add: exw_rid_state_def)
  then show ?thesis
    by (simp add: RunGRPCServer_def make_server_def andthen_def propagating_def onerr_def exw_flag_values
        exw_createRIDServer optional_server_def exw_createSCDServer_waits cron_Stop_def)
      (simp add: exw_rid_state_def exw_rid_def exw_again_def)
qed

lemma exw_authorizer: "\<exists>a. make_authorizer exw exw_flags s = (Inr a, s)"
  by (simp add: make_authorizer_def andthen_def propagating_def onerr_def exw_flag_values of_err_def
      createKeyResolver_def start_authorizer_def file_ResolveKeys_def read_key_def exw_keys_def)

definition exw_serving :: "nat process \<Rightarrow> nat process" where
  "exw_serving s = s\<lparr>pools_made := pools_made s + 2,
     open_pools := Suc (pools_made s) # pools_made s # open_pools s, crons_made := crons_made s + 2,
     running := [(Suc (crons_made s), [(''@every 1m'', StatsJob (Suc (pools_made s)) ''scd'')]),
       (crons_made s, [(''@every 1m'', StatsJob (pools_made s) ''rid''),
         (''@every 30m'', CollectorJob (pools_made s) ''us'')])] @ running s\<rparr>"

lemma exw_makes:
  assumes "20 \<le> outside s"
  shows "\<exists>server. make_server exw exw_flags ''us'' s = (Inr server, exw_serving s)"
proof -
  have "20 \<le> outside (exw_rid_state s)" using assms by (simp add: exw_rid_state_def)
  from exw_createSCDServer [OF this] obtain server where
    scd: "createSCDServer exw_startup exw_flags (exw_rid_state s) = (Inr server, exw_serving s)"
    by (auto simp: exw_rid_state_def exw_serving_def)
  obtain a r where "make_authorizer exw exw_flags (exw_serving s) = (Inr (a, r), exw_serving s)"
    using exw_authorizer by (metis prod.collapse)
  with scd show ?thesis
    by (simp add: make_server_def andthen_def propagating_def onerr_def exw_flag_values
        exw_createRIDServer optional_server_def)
qed

lemma exw_serves:
  assumes "20 \<le> outside s"
  shows "exw_run s = (Inr (), exw_serving s)"
proof -
  from exw_makes [OF assms] obtain server where "make_server exw exw_flags ''us'' s = (Inr server, exw_serving s)" ..
  then show ?thesis
    by (simp add: RunGRPCServer_def andthen_def propagating_def onerr_def lib_call_def) (simp add: exw_def)
qed

text \<open>
  The first two attempts find no database of strategic coordination, the third serves. By then two
  pools for remote ID are left open beside those of the server.
\<close>

lemma exw_sleep: "core_sleep exw d s = s\<lparr>outside := outside s + nat d\<rparr>"
  by (simp add: core_sleep_def exw_def)

lemma exw_attempts:
  "attempt_state exw_run (core_sleep exw) exw_start 1 =
     exw_start\<lparr>outside := 5, pools_made := 2, open_pools := [0], crons_made := 1\<rparr>"
  "attempt_state exw_run (core_sleep exw) exw_start 2 =
     exw_start\<lparr>outside := 20, pools_made := 4, open_pools := [2, 0], crons_made := 2\<rparr>"
proof -
  have waits: "wait_before 0 = 5" "wait_before 1 = 15" by (simp_all add: wait_before_def backoffs_def)
  have "outside exw_start < 20" by (simp add: exw_start_def)
  from exw_waits [OF this] show first: "attempt_state exw_run (core_sleep exw) exw_start 1 =
     exw_start\<lparr>outside := 5, pools_made := 2, open_pools := [0], crons_made := 1\<rparr>"
    unfolding One_nat_def attempt_state.simps waits by (simp add: exw_sleep) (simp add: exw_again_def exw_start_def)
  have "attempt_state exw_run (core_sleep exw) exw_start 2 =
      core_sleep exw 15 (snd (exw_run (attempt_state exw_run (core_sleep exw) exw_start 1)))"
    by (simp only: numeral_2_eq_2 attempt_state.simps(2) waits One_nat_def [symmetric])
  then show "attempt_state exw_run (core_sleep exw) exw_start 2 =
     exw_start\<lparr>outside := 20, pools_made := 4, open_pools := [2, 0], crons_made := 2\<rparr>"
    unfolding first by (simp add: exw_waits exw_sleep) (simp add: exw_again_def exw_start_def)
qed

lemma exw_again_tries:
  assumes "k < 2"
  shows "tries_again (exw_run (attempt_state exw_run (core_sleep exw) exw_start k))"
    and "\<not> waits_for_rid (exw_run (attempt_state exw_run (core_sleep exw) exw_start k))"
  using assms exw_attempts
  by (auto simp: less_2_cases_iff exw_waits exw_start_def tries_again_def waits_for_rid_def)

lemma exw_served:
  "core_main exw exw_flags exw_start = Some (Inr (),
     \<lparr>outside = 20, pools_made = 6, open_pools = [5, 4, 2, 0], crons_made = 4,
      running = [(3, [(''@every 1m'', StatsJob 5 ''scd'')]),
        (2, [(''@every 1m'', StatsJob 4 ''rid''), (''@every 30m'', CollectorJob 4 ''us'')])]\<rparr>)"
proof -
  have last: "exw_run (attempt_state exw_run (core_sleep exw) exw_start 2) =
      (Inr (), exw_serving (exw_start\<lparr>outside := 20, pools_made := 4, open_pools := [2, 0], crons_made := 2\<rparr>))"
    unfolding exw_attempts by (rule exw_serves) simp
  then have "retry_loop exw_run (core_sleep exw) 0 exw_start =
      Some (exw_run (attempt_state exw_run (core_sleep exw) exw_start 2))"
    by (intro retry_loop_ends exw_again_tries) (simp_all add: tries_again_def)
  moreover have "fl_address exw_flags = '':8081''" "fl_locality exw_flags = ''us''"
    "fl_profServiceName exw_flags = ''''" "co_logging exw"
    by (simp_all add: exw_flags_def exw_def)
  ultimately show ?thesis
    by (simp add: core_main_def last) (simp add: exw_serving_def exw_start_def)
qed

section \<open>The property\<close>

text \<open>
  C27. When the first attempts to start end because a database was not ready, and the next one makes
  its server, the command returns what that attempt returns. The server has keys, the table of scopes
  of the services that are switched on, their stores, and a database of remote ID with the schema of
  its repositories. Beside the pools of the server, the process then holds at most two for each of the
  earlier attempts, and at least one when it was never the database of remote ID that was not ready.
\<close>

theorem start_after_waiting:
  fixes c :: "('w, 'k, 'j) core_ext"
  assumes wf: "wf_process s" and "co_logging c" and "fl_profServiceName fl = ''''"
    and again: "\<And>k. k < n \<Longrightarrow> tries_again (core_run c fl (attempt_state (core_run c fl) (core_sleep c) s k))"
    and server: "make_server c fl (fl_locality fl) (attempt_state (core_run c fl) (core_sleep c) s n) = (Inr sv, t)"
  shows "core_main c fl s = Some (map_prod (map_sum (\<lambda>e. ErrOf Panic) id) id
      (core_run c fl (attempt_state (core_run c fl) (core_sleep c) s n))) \<and>
    keys (sv_authorizer sv) \<noteq> [] \<and>
    scopesValidators (sv_authorizer sv) = core_scopes (fl_enableSCD fl) (fl_enableVRP fl) \<and>
    (sv_scd sv = None \<longleftrightarrow> \<not> fl_enableSCD fl) \<and> (sv_vrp sv = None \<longleftrightarrow> \<not> fl_enableVRP fl) \<and>
    (\<exists>v. rs_version (sv_rid sv) = Some v \<and> sv_Major v = 4) \<and>
    (\<exists>left. open_pools t = server_pools (sv_vrp sv) @ server_pools (sv_scd sv) @ rs_pool (sv_rid sv) # left @ open_pools s \<and>
      length left \<le> 2 * n \<and>
      ((\<forall>k < n. \<not> waits_for_rid (core_run c fl (attempt_state (core_run c fl) (core_sleep c) s k))) \<longrightarrow> n \<le> length left))"
proof -
  let ?at = "attempt_state (core_run c fl) (core_sleep c) s"
  have "\<not> tries_again (core_run c fl (?at n))"
    using server RunGRPCServer_again [of c fl "fl_address fl" "fl_locality fl" "?at n"]
    by (cases "core_run c fl (?at n)") (auto simp: tries_again_def split: sum.splits)
  with again have "retry_loop (core_run c fl) (core_sleep c) 0 s = Some (core_run c fl (?at n))"
    by (rule retry_loop_ends)
  with assms(2,3) have "core_main c fl s = Some (map_prod (map_sum (\<lambda>e. ErrOf Panic) id) id (core_run c fl (?at n)))"
    by (simp add: core_main_def)
  moreover obtain left cs where held: "holds_more s left cs (?at n)" and "length left \<le> 2 * n"
    "(\<forall>k < n. \<not> waits_for_rid (core_run c fl (?at k))) \<longrightarrow> n \<le> length left"
    using waiting_leaks [OF wf again] by blast
  ultimately show ?thesis
    using make_server_ready [OF server holds_more_wf [OF held]] held by (auto simp: holds_more_def)
qed

theorem start_after_waiting_witness:
  "\<exists>sv t. core_main exw exw_flags exw_start = Some (Inr (), t) \<and>
     make_server exw exw_flags ''us'' (attempt_state exw_run (core_sleep exw) exw_start 2) = (Inr sv, t) \<and>
     keys (sv_authorizer sv) \<noteq> [] \<and> sv_scd sv \<noteq> None \<and> 4 \<le> length (open_pools t)"
proof -
  have wf: "wf_process exw_start" by (simp add: exw_start_def wf_process_def)
  have flags: "co_logging exw" "fl_profServiceName exw_flags = ''''" "fl_address exw_flags = '':8081''"
    "fl_locality exw_flags = ''us''" "fl_enableSCD exw_flags"
    by (simp_all add: exw_def exw_flags_def)
  let ?s = "exw_start\<lparr>outside := 20, pools_made := 4, open_pools := [2, 0], crons_made := 2\<rparr>"
  obtain sv where sv: "make_server exw exw_flags ''us'' (attempt_state exw_run (core_sleep exw) exw_start 2) =
      (Inr sv, exw_serving ?s)"
    unfolding exw_attempts(2) using exw_makes [of ?s] by auto
  have "exw_run ?s = (Inr (), exw_serving ?s)" by (rule exw_serves) simp
  with start_after_waiting [where c = exw and fl = exw_flags and n = 2, unfolded flags(3,4),
      OF wf flags(1,2) exw_again_tries(1) sv] exw_again_tries(2)
  show ?thesis
    by (intro exI [of _ sv] exI [of _ "exw_serving ?s"])
      (auto simp: exw_attempts(2) sv [unfolded exw_attempts(2)] exw_flag_values server_pools_def split: option.splits)
qed

end
