(* ===== verification/Dss_Gateway.thy ===== *)
theory Dss_Gateway
  imports Dss_Backoff
begin

text \<open>
  The start of the gateway (\<^verbatim>\<open>cmds/http-gateway/main.go\<close>): the services that it registers with
  the core service, the paths that it serves, the metadata that it forwards, and when it ends.
\<close>

section \<open>Registration and serving\<close>

record gateway_flags =
  gf_address :: string
  gf_coreService :: string
  gf_traceRequests :: bool
  gf_profServiceName :: string
  gf_enableSCD :: bool
  gf_enableVRP :: bool

text \<open>
  Parameters: the generated function that registers a service with an endpoint, the HTTP server,
  which serves until it is shut down, the profiler, and the time that passes.
\<close>

record 'w gateway_ext =
  gx_Register :: "string \<Rightarrow> string \<Rightarrow> 'w \<Rightarrow> lib_err option \<times> 'w"
  gx_ListenAndServe :: "string \<Rightarrow> bool \<Rightarrow> 'w \<Rightarrow> lib_err option \<times> 'w"
  gx_profiler :: "string \<Rightarrow> bool"
  gx_Sleep :: "int \<Rightarrow> 'w \<Rightarrow> 'w"

definition register_service ::
    "'w gateway_ext \<Rightarrow> string \<Rightarrow> string \<Rightarrow> string \<Rightarrow> ('w, unit) act" where
  "register_service g endpoint service what =
     onerr (lib_call (gx_Register g service endpoint)) (\<lambda>e.
       if err_contains ''context deadline exceeded'' e
       then raise (Retry e (''Failed to connect to core-service for '' @ what))
       else raise (Prop e (''Error registering '' @ service @ '' service handler'')))"

definition RunHTTPProxy ::
    "'w gateway_ext \<Rightarrow> gateway_flags \<Rightarrow> string \<Rightarrow> string \<Rightarrow> ('w, unit) act" where
  "RunHTTPProxy g fl address endpoint =
     andthen (register_service g endpoint ''RID'' ''remote ID'') (\<lambda>_.
     andthen (register_service g endpoint ''aux'' ''aux'') (\<lambda>_.
     andthen (if gf_enableSCD fl then register_service g endpoint ''SCD'' ''strategic conflict detection''
       else yield ()) (\<lambda>_.
     andthen (if gf_enableVRP fl then register_service g endpoint ''VRP'' ''vertiport management''
       else yield ()) (\<lambda>_.
     lib_call (gx_ListenAndServe g address (gf_traceRequests fl))))))"

text \<open>The handler answers one path itself.\<close>

definition gateway_handler :: "(string \<Rightarrow> 'req \<Rightarrow> 'resp) \<Rightarrow> (string \<Rightarrow> 'resp) \<Rightarrow> string \<Rightarrow> 'req \<Rightarrow> 'resp" where
  "gateway_handler mux ok path req = (if path = ''/healthy'' then ok ''ok'' else mux path req)"

section \<open>Metadata\<close>

text \<open>
  Metadata as the library gives it, in the order in which its map is iterated, and the headers that
  are added for it. \<open>matcher\<close> and \<open>canonical\<close> are functions of the libraries.
\<close>

type_synonym metadata = "(string \<times> string list) list"

definition handleForwardResponseServerMetadata ::
    "(string \<Rightarrow> string option) \<Rightarrow> metadata \<Rightarrow> (string \<times> string) list" where
  "handleForwardResponseServerMetadata matcher headerMD =
     concat (map (\<lambda>(k, vs). case matcher k of None \<Rightarrow> [] | Some h \<Rightarrow> map (\<lambda>v. (h, v)) vs) headerMD)"

definition handleForwardResponseTrailerHeader ::
    "(string \<Rightarrow> string) \<Rightarrow> metadata \<Rightarrow> (string \<times> string) list" where
  "handleForwardResponseTrailerHeader canonical trailerMD =
     map (\<lambda>(k, vs). (''Trailer'', canonical (''Grpc-Trailer-'' @ k))) trailerMD"

definition handleForwardResponseTrailer :: "metadata \<Rightarrow> (string \<times> string) list" where
  "handleForwardResponseTrailer trailerMD =
     concat (map (\<lambda>(k, vs). map (\<lambda>v. (''Grpc-Trailer-'' @ k, v)) vs) trailerMD)"

section \<open>The process\<close>

definition gateway_sleep :: "'w gateway_ext \<Rightarrow> int \<Rightarrow> 'w process \<Rightarrow> 'w process" where
  "gateway_sleep g d t = t\<lparr>outside := gx_Sleep g d (outside t)\<rparr>"

text \<open>An error that means that the process was asked to stop is not a panic.\<close>

definition gateway_end :: "start_err + unit \<Rightarrow> start_err + unit" where
  "gateway_end r = (case r of
     Inl e \<Rightarrow>
       if RootCause e = LibErr ContextCanceled \<or> RootCause e = LibErr ServerClosed then Inr ()
       else Inl (ErrOf Panic)
   | Inr u \<Rightarrow> Inr u)"

definition gateway_main ::
    "'w gateway_ext \<Rightarrow> gateway_flags \<Rightarrow> 'w process \<Rightarrow> ((start_err + unit) \<times> 'w process) option" where
  "gateway_main g fl s =
     (if gf_profServiceName fl \<noteq> '''' \<and> \<not> gx_profiler g (gf_profServiceName fl) then Some (Inl (ErrOf Panic), s)
      else map_option (map_prod gateway_end id)
        (retry_loop (RunHTTPProxy g fl (gf_address fl) (gf_coreService fl)) (gateway_sleep g) 0 s))"

section \<open>When it ends\<close>

lemma register_service_Inr:
  "register_service g endpoint service what s = (Inr u, s') \<Longrightarrow> lib_call (gx_Register g service endpoint) s = (Inr u, s')"
  by (auto simp: register_service_def elim!: onerr_Inr split: if_splits)

lemma onerr_reports:
  "onerr m (\<lambda>e. if again e then raise (Retry e msg) else raise (Prop e msg')) s = (Inl e, s') \<Longrightarrow>
   m s = (Inl e0, t) \<Longrightarrow> e0 \<noteq> ErrOf Panic \<Longrightarrow>
   RootCause e = RootCause e0 \<and> (retryable e \<longleftrightarrow> again e0 \<or> retryable e0)"
  by (auto simp: onerr_def split: if_splits)

lemma register_service_Inl:
  assumes "register_service g endpoint service what s = (Inl e, s')"
  shows "\<exists>l w. gx_Register g service endpoint (outside s) = (Some l, w) \<and> RootCause e = LibErr l \<and>
    (retryable e \<longleftrightarrow> err_contains ''context deadline exceeded'' (LibErr l))"
proof -
  obtain r t where call: "lib_call (gx_Register g service endpoint) s = (r, t)" by fastforce
  have "r \<noteq> Inr u" for u
    using assms call unfolding register_service_def onerr_def by force
  with call obtain l w where l: "gx_Register g service endpoint (outside s) = (Some l, w)" "r = Inl (LibErr l)"
    by (auto simp: lib_call_def split: prod.splits option.splits)
  from onerr_reports [OF assms [unfolded register_service_def] call [unfolded l(2)]] l(1) show ?thesis
    by simp
qed

text \<open>The registration of the service fails with a deadline, in some state of the outside world.\<close>

definition times_out :: "'w gateway_ext \<Rightarrow> string \<Rightarrow> string \<Rightarrow> bool" where
  "times_out g endpoint service \<longleftrightarrow> (\<exists>w l w'. gx_Register g service endpoint w = (Some l, w') \<and>
     err_contains ''context deadline exceeded'' (LibErr l))"

definition gateway_services :: "gateway_flags \<Rightarrow> string list" where
  "gateway_services fl = [''RID'', ''aux''] @ (if gf_enableSCD fl then [''SCD''] else []) @
     (if gf_enableVRP fl then [''VRP''] else [])"

lemma register_service_again:
  assumes "register_service g endpoint service what s = (Inl e, s')" "retryable e"
  shows "times_out g endpoint service"
  using register_service_Inl [OF assms(1)] assms(2) unfolding times_out_def by metis

lemma optional_service_again:
  assumes "(if on then register_service g endpoint service what else yield ()) s = (Inl e, s')" "retryable e"
  shows "on \<and> times_out g endpoint service"
  using assms register_service_again by (cases on) auto

text \<open>An attempt is repeated only when a service could not be registered before a deadline.\<close>

theorem RunHTTPProxy_again:
  assumes "RunHTTPProxy g fl address endpoint s = (Inl e, s')" "retryable e"
  shows "\<exists>service \<in> set (gateway_services fl). times_out g endpoint service"
proof -
  note again = register_service_again [OF _ assms(2)] optional_service_again [OF _ assms(2)]
  have "times_out g endpoint ''RID'' \<or> times_out g endpoint ''aux'' \<or>
      gf_enableSCD fl \<and> times_out g endpoint ''SCD'' \<or> gf_enableVRP fl \<and> times_out g endpoint ''VRP''"
    using assms(1) [unfolded RunHTTPProxy_def]
    by (elim andthen_Inl) (drule again lib_call_error, use assms(2) in simp)+
  then show ?thesis by (auto simp: gateway_services_def)
qed

text \<open>A server that is shut down ends the process without a panic.\<close>

lemma gateway_shut_down:
  assumes "RunHTTPProxy g fl (gf_address fl) (gf_coreService fl) s = (Inl e, s')" "RootCause e = LibErr ServerClosed"
    and "gf_profServiceName fl = ''''" "\<not> retryable e"
  shows "gateway_main g fl s = Some (Inr (), s')"
proof -
  have "retry_loop (RunHTTPProxy g fl (gf_address fl) (gf_coreService fl)) (gateway_sleep g) 0 s = Some (Inl e, s')"
    using assms(1,4) by (subst retry_loop.simps) simp
  then show ?thesis using assms(2,3) by (simp add: gateway_main_def gateway_end_def)
qed

text \<open>The command returns when no registration meets a deadline.\<close>

theorem gateway_returns:
  assumes "\<And>service. service \<in> set (gateway_services fl) \<Longrightarrow> \<not> times_out g (gf_coreService fl) service"
  shows "\<exists>r. gateway_main g fl s = Some r"
proof -
  have "\<not> tries_again (RunHTTPProxy g fl (gf_address fl) (gf_coreService fl) s)"
    using RunHTTPProxy_again assms
    by (cases "RunHTTPProxy g fl (gf_address fl) (gf_coreService fl) s") (fastforce simp: tries_again_def split: sum.splits)
  then have "\<exists>n. \<not> tries_again (RunHTTPProxy g fl (gf_address fl) (gf_coreService fl)
      (attempt_state (RunHTTPProxy g fl (gf_address fl) (gf_coreService fl)) (gateway_sleep g) s n))"
    by (intro exI [of _ 0]) simp
  then show ?thesis unfolding retry_loop_returns [symmetric] by (auto simp: gateway_main_def)
qed

end
