(* ===== verification/Dss_Build.thy ===== *)
theory Dss_Build
  imports Dss_Schema
begin

text \<open>
  The version that the server reports (\<^verbatim>\<open>pkg/version/version.go\<close>, and its endpoint in
  \<^verbatim>\<open>pkg/aux_/server.go\<close>): the tag and the commit of the build, which the linker sets.
\<close>

section \<open>Reading a tag\<close>

text \<open>
  \<^verbatim>\<open>fmt.Sscanf\<close> with the format \<^verbatim>\<open>v%d.%d.%d\<close>. A number may have spaces before it and a sign, it
  fits into 64 bits, and what follows the last one is not looked at.
\<close>

definition scan_space :: "char \<Rightarrow> bool" where
  "scan_space c \<longleftrightarrow> c \<in> {CHR 0x09, CHR 0x0B, CHR 0x0C, CHR 0x0D, CHR 0x20}"

definition scan_sign :: "string \<Rightarrow> int \<times> string" where
  "scan_sign s = (case s of [] \<Rightarrow> (1, [])
     | c # t \<Rightarrow> if c = CHR ''-'' then (- 1, t) else if c = CHR ''+'' then (1, t) else (1, s))"

definition scan_int :: "string \<Rightarrow> (int \<times> string) option" where
  "scan_int s =
     (case scan_sign (dropWhile scan_space s) of (sign, t) \<Rightarrow>
      (case digits_value (takeWhile is_digit t) of None \<Rightarrow> None
       | Some n \<Rightarrow>
           if - (2 ^ 63) \<le> sign * n \<and> sign * n < 2 ^ 63 then Some (sign * n, dropWhile is_digit t) else None))"

definition scan_char :: "char \<Rightarrow> string \<Rightarrow> string option" where
  "scan_char c s = (case s of [] \<Rightarrow> None | d # t \<Rightarrow> if d = c then Some t else None)"

definition scan_tag :: "string \<Rightarrow> (int \<times> int \<times> int) option" where
  "scan_tag tag =
     Option.bind (scan_char CHR ''v'' tag) (\<lambda>s0.
     Option.bind (scan_int s0) (\<lambda>(major, s1).
     Option.bind (scan_char CHR ''.'' s1) (\<lambda>s2.
     Option.bind (scan_int s2) (\<lambda>(minor, s3).
     Option.bind (scan_char CHR ''.'' s3) (\<lambda>s4.
     Option.bind (scan_int s4) (\<lambda>(patch, s5).
     Some (major, minor, patch)))))))"

definition current_version :: "string \<Rightarrow> string \<Rightarrow> semver" where
  "current_version tag commit =
     (case scan_tag tag of
        Some (major, minor, patch) \<Rightarrow> zero_version\<lparr>sv_Major := major, sv_Minor := minor, sv_Patch := patch\<rparr>
      | None \<Rightarrow> zero_version)\<lparr>sv_Metadata := (if commit \<noteq> '''' then commit else ''undefined'')\<rparr>"

text \<open>The endpoint reports the text that the library gives for the version.\<close>

definition aux_GetVersion :: "'s schema_ext \<Rightarrow> string \<Rightarrow> string \<Rightarrow> string" where
  "aux_GetVersion y tag commit = sx_string y (current_version tag commit)"

section \<open>A tag is read back\<close>

lemma digit_char: "0 \<le> n \<Longrightarrow> n < 10 \<Longrightarrow> is_digit (char_of (48 + n)) \<and> of_char (char_of (48 + n) :: char) = (48 + n :: int)"
proof -
  assume "0 \<le> n" "n < 10"
  then have "n \<in> set [0..9]" by auto
  moreover have "list_all (\<lambda>n. is_digit (char_of (48 + n)) \<and> of_char (char_of (48 + n) :: char) = 48 + n) [0..9 :: int]"
    by code_simp
  ultimately show ?thesis by (simp add: list_all_iff)
qed

lemma decimal_digits_value:
  "0 \<le> n \<Longrightarrow> decimal_digits n \<noteq> [] \<and> list_all is_digit (decimal_digits n) \<and>
     foldl (\<lambda>n c. n * 10 + (of_char c - 48)) 0 (decimal_digits n) = n"
proof (induction n rule: decimal_digits.induct)
  case (1 n)
  show ?case
  proof (cases "n < 10")
    case True
    with 1(2) digit_char [of n] show ?thesis by (simp add: decimal_digits.simps [of n])
  next
    case False
    with 1 have "0 \<le> n div 10" by simp
    with 1(1) [OF False] digit_char [of "n mod 10"] False show ?thesis
      by (simp add: decimal_digits.simps [of n])
  qed
qed

lemma takeWhile_all: "list_all P xs \<Longrightarrow> ys = [] \<or> \<not> P (hd ys) \<Longrightarrow>
    takeWhile P (xs @ ys) = xs \<and> dropWhile P (xs @ ys) = ys"
  by (induction xs) (cases ys; auto)+

lemma scan_int_decimal:
  assumes n: "0 \<le> n" "n < 2 ^ 63" and rest: "rest = [] \<or> \<not> is_digit (hd rest)"
  shows "scan_int (decimal n @ rest) = Some (n, rest)"
proof -
  note digits = decimal_digits_value [OF n(1)]
  then obtain c t where cs: "decimal_digits n = c # t" "is_digit c" by (cases "decimal_digits n") auto
  have "\<not> scan_space c" "c \<noteq> CHR ''-''" "c \<noteq> CHR ''+''"
    using cs(2) by (auto simp: is_digit_def scan_space_def less_eq_char_def)
  then have "scan_sign (dropWhile scan_space (decimal_digits n @ rest)) = (1, decimal_digits n @ rest)"
    by (simp add: cs(1) scan_sign_def)
  moreover have "digits_value (decimal_digits n) = Some n" using digits by (simp add: digits_value_def)
  ultimately show ?thesis
    using takeWhile_all [of is_digit "decimal_digits n" rest] digits rest n
    by (simp add: scan_int_def decimal_def)
qed

theorem version_round_trip:
  assumes "\<And>n. n \<in> {major, minor, patch} \<Longrightarrow> 0 \<le> n \<and> n < 2 ^ 63"
    and "suffix = [] \<or> \<not> is_digit (hd suffix)"
  shows "scan_tag (''v'' @ decimal major @ ''.'' @ decimal minor @ ''.'' @ decimal patch @ suffix) =
    Some (major, minor, patch)"
proof -
  have dot: "\<not> is_digit CHR ''.''" by (simp add: is_digit_def less_eq_char_def)
  show ?thesis
    using assms by (simp add: scan_tag_def scan_char_def scan_int_decimal dot)
qed

end
