(* ===== verification/Dss_Oauth.thy ===== *)
theory Dss_Oauth
  imports Dss_Auth Dss_Schema
begin

text \<open>
  The server \<^verbatim>\<open>cmds/dummy-oauth\<close>, which signs any token that it is asked for, and what the
  authorizer of the core service makes of its tokens.
\<close>

section \<open>The request\<close>

text \<open>The parameters of a request; the router leaves out those that are empty.\<close>

record token_request =
  tr_IntendedAudience :: "string option"
  tr_Scope :: "string option"
  tr_Issuer :: "string option"
  tr_Expire :: "int option"
  tr_Sub :: "string option"

definition nonempty :: "string \<Rightarrow> string option" where
  "nonempty v = (if v \<noteq> '''' then Some v else None)"

definition ParseInt64 :: "string \<Rightarrow> int option" where
  "ParseInt64 s = (case signed_value s of None \<Rightarrow> None
     | Some n \<Rightarrow> if - (2 ^ 63) \<le> n \<and> n < 2 ^ 63 then Some n else None)"

text \<open>\<open>query\<close> gives the first value of a parameter, or the empty string.\<close>

definition token_request_of :: "(string \<Rightarrow> string) \<Rightarrow> token_request" where
  "token_request_of query =
     \<lparr>tr_IntendedAudience = nonempty (query ''intended_audience''), tr_Scope = nonempty (query ''scope''),
      tr_Issuer = nonempty (query ''issuer''),
      tr_Expire = (if query ''expire'' \<noteq> '''' then ParseInt64 (query ''expire'') else None),
      tr_Sub = nonempty (query ''sub'')\<rparr>"

section \<open>The token\<close>

text \<open>The claims that are signed. The library signs them, or gives the text of an error.\<close>

record map_claims =
  mc_aud :: string
  mc_scope :: string
  mc_iss :: string
  mc_exp :: int
  mc_sub :: string

datatype token_response = Response200 string | Response400 string | Response500 string

definition default_to :: "'a \<Rightarrow> 'a option \<Rightarrow> 'a" where
  "default_to d v = (case v of None \<Rightarrow> d | Some a \<Rightarrow> a)"

definition requested_claims :: "time \<Rightarrow> token_request \<Rightarrow> string \<Rightarrow> string \<Rightarrow> map_claims" where
  "requested_claims now req intendedAudience scope =
     \<lparr>mc_aud = intendedAudience, mc_scope = scope, mc_iss = default_to ''dummyoauth'' (tr_Issuer req),
      mc_exp = default_to (unix (time_add now (minutes 60))) (tr_Expire req),
      mc_sub = default_to ''fake_uss'' (tr_Sub req)\<rparr>"

definition GetToken :: "(map_claims \<Rightarrow> string + string) \<Rightarrow> time \<Rightarrow> token_request \<Rightarrow> token_response" where
  "GetToken sign now req =
     (case tr_IntendedAudience req of
        None \<Rightarrow> Response400 ''Missing `intended_audience` query parameter''
      | Some intendedAudience \<Rightarrow>
      (case tr_Scope req of
        None \<Rightarrow> Response400 ''Missing `scope` query parameter''
      | Some scope \<Rightarrow>
      (case sign (requested_claims now req intendedAudience scope) of
        Inl err \<Rightarrow> Response500 err
      | Inr token \<Rightarrow> Response200 token)))"

text \<open>The status and the body, if the path is that of a token.\<close>

fun write_response :: "token_response \<Rightarrow> int \<times> string" where
  "write_response (Response200 token) = (200, token)"
| "write_response (Response400 msg) = (400, msg)"
| "write_response (Response500 err) = (500, err)"

definition oauth_ServeHTTP ::
    "(map_claims \<Rightarrow> string + string) \<Rightarrow> time \<Rightarrow> string \<Rightarrow> (string \<Rightarrow> string) \<Rightarrow> (int \<times> string) option" where
  "oauth_ServeHTTP sign now path query =
     (if path = ''/token'' then Some (write_response (GetToken sign now (token_request_of query))) else None)"

section \<open>At the authorizer\<close>

text \<open>
  What the two sides of the JWT library are documented to do: a signed token verifies under the
  public key, and under no other, and then has the claims that were signed; an absent claim is 0.
\<close>

definition signs_for :: "'k auth_ext \<Rightarrow> (map_claims \<Rightarrow> string + string) \<Rightarrow> 'k \<Rightarrow> bool" where
  "signs_for a sign pub \<longleftrightarrow> (\<forall>mc token. sign mc = Inr token \<longrightarrow>
     (\<forall>k. k \<noteq> pub \<longrightarrow> jwt_verify a token k = None) \<and>
     (\<exists>data. json_string a data = Some (mc_scope mc) \<and> jwt_verify a token pub =
       Some \<lparr>tc_Subject = mc_sub mc, tc_Issuer = mc_iss mc, tc_Audience = mc_aud mc, tc_ExpiresAt = mc_exp mc,
         tc_IssuedAt = 0, tc_NotBefore = 0, tc_scope = Some data\<rparr>))"

definition signed_claims :: "map_claims \<Rightarrow> claims" where
  "signed_claims mc = \<lparr>Subject = mc_sub mc, Issuer = mc_iss mc, Audience = mc_aud mc, ExpiresAt = mc_exp mc,
     IssuedAt = 0, NotBefore = 0, Scopes = set (split_at (CHR '' '') (mc_scope mc))\<rparr>"

lemma signs_forD:
  assumes "signs_for a sign pub" "sign mc = Inr token"
  obtains data where "json_string a data = Some (mc_scope mc)" "\<And>k. k \<noteq> pub \<Longrightarrow> jwt_verify a token k = None"
    "jwt_verify a token pub = Some \<lparr>tc_Subject = mc_sub mc, tc_Issuer = mc_iss mc, tc_Audience = mc_aud mc,
      tc_ExpiresAt = mc_exp mc, tc_IssuedAt = 0, tc_NotBefore = 0, tc_scope = Some data\<rparr>"
  using assms unfolding signs_for_def by blast

lemma signed_token_parsed:
  assumes "signs_for a sign pub" "sign mc = Inr token"
  shows "parse_with_claims a now token k =
    (if k = pub \<and> claims_Valid a now (signed_claims mc) = Inr () then Some (signed_claims mc) else None)"
  by (rule signs_forD [OF assms], cases "k = pub")
    (simp_all add: parse_with_claims_def ScopeSet_UnmarshalJSON_def signed_claims_def Let_def split: sum.split)

lemma signed_token_first:
  assumes "signs_for a sign pub" "sign mc = Inr token"
  shows "first_valid a now token ks =
    (if pub \<in> set ks \<and> claims_Valid a now (signed_claims mc) = Inr () then Some (signed_claims mc) else None)"
  by (induction ks) (auto simp: signed_token_parsed [OF assms])

lemma unix_hour: "unix (time_add t (minutes 60)) = unix t + 3600"
  by (simp add: unix_def time_add_def minutes_def)

text \<open>
  A token with the default expiration, one hour after it is made, is valid from the second in which it
  was made for an hour. A core service whose clock is behind refuses it: it expires too far ahead.
\<close>

lemma default_token_valid:
  assumes "standard_claims a" "mc_exp mc = unix t0 + 3600" "0 \<le> unix t0" "mc_sub mc \<noteq> ''''" "mc_iss mc \<noteq> ''''"
  shows "claims_Valid a now (signed_claims mc) = Inr () \<longleftrightarrow> unix t0 \<le> unix now \<and> unix now \<le> unix t0 + 3600"
proof -
  have "jwt_standard_valid a (unix now) (signed_claims mc) \<longleftrightarrow> unix now \<le> unix t0 + 3600"
    using assms(1) [unfolded standard_claims_def, rule_format] assms(2,3) by (simp add: signed_claims_def)
  with assms(2,4,5) show ?thesis by (auto simp: claims_Valid_def unix_hour signed_claims_def)
qed

lemma request_nonempty: "nonempty v = Some w \<Longrightarrow> w \<noteq> ''''"
  by (auto simp: nonempty_def split: if_splits)

theorem dummy_token_admits:
  assumes lib: "signs_for a sign pub" "standard_claims a" and now: "0 \<le> unix t0"
    and req: "req = token_request_of query" "tr_Expire req = None"
    and params: "tr_IntendedAudience req = Some aud" "tr_Scope req = Some scope"
    and token: "GetToken sign t0 req = Response200 token"
  shows "AuthInterceptor a now au method (Some [''Bearer '' @ token]) = (Admitted owner :: 'd admission) \<longleftrightarrow>
    pub \<in> set (keys au) \<and> aud \<in> acceptedAudiences au \<and> owner = default_to ''fake_uss'' (tr_Sub req) \<and>
    (\<forall>v. scopesValidators au method = Some v \<longrightarrow> grants v (set (split_at (CHR '' '') scope))) \<and>
    unix t0 \<le> unix now \<and> unix now \<le> unix t0 + 3600"
proof -
  let ?mc = "requested_claims t0 req aud scope"
  from token params have signed: "sign ?mc = Inr token"
    by (auto simp: GetToken_def split: sum.splits)
  have "mc_sub ?mc \<noteq> ''''" "mc_iss ?mc \<noteq> ''''"
    using req(1) by (auto simp: requested_claims_def token_request_of_def default_to_def split: option.splits
        dest: request_nonempty)
  moreover have "mc_exp ?mc = unix t0 + 3600"
    using req(2) by (simp add: requested_claims_def default_to_def unix_hour)
  ultimately have valid: "claims_Valid a now (signed_claims ?mc) = Inr () \<longleftrightarrow> unix t0 \<le> unix now \<and> unix now \<le> unix t0 + 3600"
    using default_token_valid [OF lib(2)] now by blast
  have "getToken (Some [''Bearer '' @ token]) = Some token" by (simp add: getToken_def trim_prefix_def)
  moreover have "Audience (signed_claims ?mc) = aud" "Subject (signed_claims ?mc) = default_to ''fake_uss'' (tr_Sub req)"
    "Scopes (signed_claims ?mc) = set (split_at (CHR '' '') scope)"
    by (simp_all add: signed_claims_def requested_claims_def)
  moreover have "validateKeyClaimedScopes au method (set (split_at (CHR '' '') scope)) = Inr () \<longleftrightarrow>
      (\<forall>v. scopesValidators au method = Some v \<longrightarrow> grants v (set (split_at (CHR '' '') scope)))"
    by (auto simp: validateKeyClaimedScopes_def ValidateKeyClaimedScopes_Inr split: option.split)
  ultimately show ?thesis
    using valid
    by (cases "validateKeyClaimedScopes au method (set (split_at (CHR '' '') scope))")
      (auto simp: AuthInterceptor_def signed_token_first [OF lib(1) signed])
qed

text \<open>Without one of the two parameters that it needs, a request gets no token.\<close>

lemma token_needs_parameters:
  assumes "query ''intended_audience'' = '''' \<or> query ''scope'' = ''''"
  shows "\<exists>msg. oauth_ServeHTTP sign now ''/token'' query = Some (400, msg)"
  using assms by (auto simp: oauth_ServeHTTP_def GetToken_def token_request_of_def nonempty_def split: option.split)

end
