(* ===== verification/Dss_Logging.thy ===== *)
theory Dss_Logging
  imports Dss_Prelude
begin

text \<open>
  What package \<^verbatim>\<open>pkg/logging\<close> does to calls: the interceptor that dumps requests and responses,
  the writer by which the gateway traces the status of its responses, and the choice of a level.
\<close>

section \<open>Dumped calls\<close>

text \<open>
  The messages that are logged, beside what the handler returns. Parameters: the text of a message.
\<close>

definition dump_text :: "string \<Rightarrow> string \<Rightarrow> string \<Rightarrow> string" where
  "dump_text kind method msg = kind @ '' ('' @ method @ ''):'' @ [CHR 0x0A] @ msg"

definition DumpRequestResponseInterceptor ::
    "('req \<Rightarrow> string) \<Rightarrow> ('resp \<Rightarrow> string) \<Rightarrow> string \<Rightarrow> ('req \<Rightarrow> 's \<Rightarrow> ('d err + 'resp) \<times> 's) \<Rightarrow> 'req \<Rightarrow> 's
     \<Rightarrow> (('d err + 'resp) \<times> 's) \<times> string list" where
  "DumpRequestResponseInterceptor req_text resp_text method handler req s =
     (let first = dump_text ''Request'' method (req_text req); r = handler req s in
      case fst r of
        Inl e \<Rightarrow> (r, [first])
      | Inr resp \<Rightarrow> (r, [first, dump_text ''Response'' method (resp_text resp)]))"

lemma dump_transparent: "fst (DumpRequestResponseInterceptor f g m handler req s) = handler req s"
  by (simp add: DumpRequestResponseInterceptor_def Let_def split: sum.split)

section \<open>Traced responses\<close>

text \<open>The calls that a handler makes on its response writer, and the code that the tracing one keeps.\<close>

datatype writer_call = WriteHeader int | Write string

fun traced_call :: "int \<Rightarrow> writer_call \<Rightarrow> int" where
  "traced_call statusCode (WriteHeader code) = code"
| "traced_call statusCode (Write bytes) = (if statusCode = 0 then 200 else statusCode)"

definition traced_status :: "writer_call list \<Rightarrow> int" where
  "traced_status calls = foldl traced_call 0 calls"

text \<open>
  The middleware passes the calls of the handler on, and logs the request line and the code.
\<close>

definition HTTPMiddleware ::
    "('req \<Rightarrow> string) \<Rightarrow> ('req \<Rightarrow> writer_call list) \<Rightarrow> 'req \<Rightarrow> writer_call list \<times> (string \<times> int)" where
  "HTTPMiddleware request_line handler req =
     (let calls = handler req in (calls, (request_line req, traced_status calls)))"

text \<open>The status that \<^verbatim>\<open>net/http\<close> sends: the first that is given, and 200 without one.\<close>

definition sent_status :: "writer_call list \<Rightarrow> int" where
  "sent_status calls = (case calls of WriteHeader code # _ \<Rightarrow> code | _ \<Rightarrow> 200)"

lemma traced_writes: "c \<noteq> 0 \<Longrightarrow> list_all (\<lambda>w. \<exists>b. w = Write b) calls \<Longrightarrow> foldl traced_call c calls = c"
  by (induction calls) auto

text \<open>
  The trace is right when the header is written at most once, before the body. It is wrong for a
  response without any call, which is traced as 0, and for a header after the first call.
\<close>

lemma traced_status_sent:
  assumes "list_all (\<lambda>w. \<exists>b. w = Write b) calls" "call \<noteq> WriteHeader 0"
  shows "traced_status (call # calls) = sent_status (call # calls)"
  using assms by (cases call) (auto simp: traced_status_def sent_status_def traced_writes)

lemma traced_status_wrong:
  "traced_status [] \<noteq> sent_status []"
  "code \<noteq> 200 \<Longrightarrow> traced_status [Write b, WriteHeader code] \<noteq> sent_status [Write b, WriteHeader code]"
  by (simp_all add: traced_status_def sent_status_def)

section \<open>Levels\<close>

text \<open>The logger that the gRPC library is given has verbosity 0.\<close>

definition grpc_V :: "int \<Rightarrow> bool" where
  "grpc_V level \<longleftrightarrow> level \<le> 0"

text \<open>
  The level and the format that the process begins with; \<open>getenv\<close> gives an empty string for a
  variable that is not set.
\<close>

definition init_logger :: "(string \<Rightarrow> string) \<Rightarrow> string \<Rightarrow> string \<times> string" where
  "init_logger getenv default_level =
     (if getenv ''DSS_LOG_LEVEL'' \<noteq> '''' then getenv ''DSS_LOG_LEVEL'' else default_level,
      if getenv ''DSS_LOG_FORMAT'' \<noteq> '''' then getenv ''DSS_LOG_FORMAT'' else ''json'')"

end
