(* ===== verification/Spec2Isabelle.thy ===== *)
theory Spec2Isabelle
  imports Scd_Properties Vrp_Properties Dss_Properties Rid_Behaviour Rid_StoreV3 Dss_Keys
    Dss_Manager Dss_Waiting Dss_Gateway Dss_Build
    Dss_Oauth Dss_Logging
begin

text \<open>
  A model of the discovery and synchronization service of \<^verbatim>\<open>pkg/\<close>: the service that lets
  managers of unmanned aircraft find each other's operational intents, constraints and
  subscriptions, in the airspace by S2 cells, time and altitude, at vertiports by zone and time,
  and the areas where remote identification of aircraft is provided.

  The program has one process. A request passes the authorizer, a handler validates it and
  runs one function inside a serializable database transaction, and the response names the
  subscriptions that must be notified. The model follows that structure.

  \<^bold>\<open>Shared parts.\<close>
  \<^item> \<open>Dss_Prelude\<close>: error codes and wrapped errors (\<^verbatim>\<open>pkg/errors\<close>, \<^verbatim>\<open>pkg/geo/errors.go\<close>), the
    transaction monad \<open>tx\<close> with its inversion rules \<open>tx_inv\<close>, instants and durations, and the
    interface \<open>keyed_table\<close> of a database table, interpreted on association lists.
  \<^item> \<open>Dss_Geo\<close>: \<^verbatim>\<open>pkg/geo/s2.go\<close>, validation of polygons, coverings, area strings.
  \<^item> \<open>Dss_Models\<close>: \<^verbatim>\<open>pkg/models\<close>, identifiers, volumes, unions, conversion of messages.
  \<^item> \<open>Dss_Refs\<close>: the checks of the schemas, the statement that increments notification indices,
    and the interface \<open>supported\<close> of two tables of which one refers to the other, interpreted in
    both services' integrity.
  \<^item> \<open>Dss_Server\<close>: the circumstances of a call, the shape of a handler (\<open>serve\<close>: validation, then
    one transaction) and the grouping of subscribers.
  \<^item> \<open>Dss_Details\<close>, \<open>Dss_Masking\<close>: rules that show which computations fail without a conflict
    report, and what it means that a message hides an OVN. \<open>Dss_Example\<close>: concrete functions for
    the libraries, on which the witnesses run.

  \<^bold>\<open>Strategic coordination\<close> (\<^verbatim>\<open>pkg/scd\<close>).
  \<^item> \<open>Scd_Models\<close>: the entities of \<^verbatim>\<open>pkg/scd/models\<close> and their checks.
  \<^item> \<open>Scd_Store\<close>: the four tables and every statement of \<^verbatim>\<open>pkg/scd/store/cockroach\<close>, the checks
    of the schema included.
  \<^item> \<open>Scd_Server\<close>: what the handlers share. \<open>Scd_OpIntents\<close>, \<open>Scd_Subscriptions\<close>,
    \<open>Scd_Constraints\<close>: the handlers, one definition for the validation of a request and one for
    the function that runs in the transaction, with the steps in the order of the code.
  \<^item> \<open>Scd_System\<close>: all requests as one function \<open>scd_serve\<close> and the states it reaches.
  \<^item> \<open>Scd_Integrity\<close>, \<open>Scd_Ownership\<close>, \<open>Scd_Details\<close>, \<open>Scd_Conflicts\<close>: the invariant of the
    database, what a request does to the rows of others, which errors carry a report, and what
    a report and a response show.
  \<^item> \<open>Scd_Example\<close>, \<open>Scd_Properties\<close>: a concrete instance and the properties.

  \<^bold>\<open>Vertiports\<close> (\<^verbatim>\<open>pkg/vrp\<close>).
  \<^item> \<open>Vrp_Models\<close>: the entities of \<^verbatim>\<open>pkg/vrp/models\<close>. The functions that package repeats from
    \<^verbatim>\<open>pkg/scd/models\<close> are modelled once.
  \<^item> \<open>Vrp_Periods\<close>: the computations on time periods of \<^verbatim>\<open>pkg/vrp/models/models.go\<close>, with what
    cutting leaves, when it fails, and what the sweep over sorted changes counts.
  \<^item> \<open>Vrp_Store\<close>, \<open>Vrp_OpIntents\<close>, \<open>Vrp_Subscriptions\<close>, \<open>Vrp_Constraints\<close>: the tables and the
    handlers, as for strategic coordination; the last one also holds the vertiport handlers.
  \<^item> \<open>Vrp_System\<close>: all requests as \<open>vrp_serve\<close>, the invariant of the database, and the states
    requests reach. \<open>Vrp_Conflicts\<close>: the key and the OVNs that responses show. \<open>Vrp_Named\<close>: what
    becomes of the subscription that a request names. \<open>Vrp_Ownership\<close>: what a request does to the
    rows of others, and the tables it writes.
  \<^item> \<open>Vrp_Occupancy\<close>: the periods a zone is reserved for, against which the two computations
    on a zone are specified. \<open>Vrp_Ties\<close>: what the sweep counts when changes fall on one instant, for
    either order in which the sort may leave them.
  \<^item> \<open>Vrp_Example\<close>, \<open>Vrp_Properties\<close>: a concrete instance and the properties.

  \<^bold>\<open>Remote ID\<close> (\<^verbatim>\<open>pkg/rid\<close>).
  \<^item> \<open>Dss_Version\<close>: versions of entities, the base-32 text of a commit time stamp, and that the
    text is read back (\<^verbatim>\<open>pkg/models/models.go\<close>).
  \<^item> \<open>Rid_Models\<close>: service areas and subscriptions (\<^verbatim>\<open>pkg/rid/models\<close>) and the conversion of
    volumes (\<^verbatim>\<open>pkg/models/rid_conversions.go\<close>).
  \<^item> \<open>Rid_Store\<close>: the two tables, every statement of \<^verbatim>\<open>pkg/rid/store/cockroach\<close> for schema
    version 4, the transaction, which recovers from panics, and the garbage collector.
  \<^item> \<open>Rid_StoreV3\<close>: the repositories for schema version 3, which a server with a database of version
    4 does not reach. That of subscriptions is simulated by the one for version 4 on rows without
    their writers; that of service areas never returns cells.
  \<^item> \<open>Rid_Server\<close>: \<^verbatim>\<open>pkg/rid/application\<close>, one definition for each function that runs in a
    transaction, and the handlers of \<^verbatim>\<open>pkg/rid/server\<close>.
  \<^item> \<open>Rid_System\<close>: all requests as \<open>rid_handle\<close>, what each transaction commits on success, and
    the relation \<open>rid_commits\<close> of the databases before and after a request. \<open>Rid_Integrity\<close>: the
    invariant of the rows and the quota of subscriptions, preserved by every commit.
    \<open>Rid_Collector\<close>: a run of the collector on either table, by one interface \<open>collected\<close>
    interpreted on both, and the states \<open>rid_reachable\<close> by requests and runs of the collector at
    instants that do not decrease. \<open>Rid_Rpc\<close>: the requests behind their interceptors.
  \<^item> \<open>Rid_Example\<close>, \<open>Rid_Properties\<close>, \<open>Rid_Behaviour\<close>: a concrete instance and the properties.

  \<^bold>\<open>The server around the services.\<close>
  \<^item> \<open>Dss_Auth\<close>: \<^verbatim>\<open>pkg/auth\<close>, the scopes each server requires, and request ids.
  \<^item> \<open>Dss_Keys\<close>: the resolvers of the authorizer's keys, and how a server chooses, starts and
    refreshes them; keys that are resolved at the start are never none.
  \<^item> \<open>Dss_Status\<close>: the interceptor of \<^verbatim>\<open>pkg/errors\<close> and the gateway's error responses.
  \<^item> \<open>Dss_Rpc\<close>: a call with its interceptors (\<^verbatim>\<open>cmds/core-service/main.go\<close>), for each service.
  \<^item> \<open>Scd_Access\<close>: the tables each kind of request writes. \<open>Scd_Registry\<close>: an abstract registry
    of owners, versions and OVNs that the service refines. \<open>Dss_Properties\<close>: who can change
    what in either service, which scopes each method of the three services requires, for how long a
    token admits, what a refused request returns, and the refinement.

  \<^bold>\<open>The schema of the databases.\<close>
  \<^item> \<open>Dss_Schema\<close>: \<^verbatim>\<open>pkg/cockroach\<close>, the connection string and the schema version of a database,
    and the check of that version by which the three stores open.
  \<^item> \<open>Dss_Migration\<close>: \<^verbatim>\<open>cmds/db-manager/main.go\<close>, the steps that a directory of SQL files defines
    and the loop over them, a partial function because the loop may not end. \<open>Dss_Upgrade\<close>: the
    steps are in order, and what the loop does below, at, between and above their versions.
    \<open>Dss_Manager\<close>: a concrete server and the property.

  \<^bold>\<open>The processes.\<close>
  \<^item> \<open>Dss_Connect\<close>: how a process dials a database and opens a store, with the texts of errors, which
    are searched for what may be temporary; without the texts it is \<open>Dss_Schema\<close>.
  \<^item> \<open>Dss_Backoff\<close>: the loop of both commands that repeats a start, whether it returns and how long
    it waits, and the goroutine that stops a server.
  \<^item> \<open>Dss_Startup\<close>: \<^verbatim>\<open>cmds/core-service/main.go\<close>, the three servers, the authorizer, the schedules and
    \<^verbatim>\<open>main\<close>. \<open>Dss_Leaks\<close>: the pools and schedulers that a start leaves when it is repeated, and what
    a server that serves has. \<open>Dss_Waiting\<close>: a server that waits for a database, on concrete libraries,
    and the property of a start.
  \<^item> \<open>Dss_Gateway\<close>: the start and the end of \<^verbatim>\<open>cmds/http-gateway/main.go\<close>, and the metadata it forwards.
  \<^item> \<open>Dss_Build\<close>: the version that the server reports (\<^verbatim>\<open>pkg/version\<close>), and that a tag is read back.
  \<^item> \<open>Dss_Oauth\<close>: \<^verbatim>\<open>cmds/dummy-oauth\<close>, the tokens it signs, and when the authorizer admits them.
  \<^item> \<open>Dss_Logging\<close>: the interceptor that dumps calls, which is transparent, and the status that the
    gateway traces.

  \<^bold>\<open>Parameters.\<close> The record \<open>ext\<close> holds what is not under \<^verbatim>\<open>src/\<close>: the S2 library, UUID and
  URL parsing, protobuf timestamps, SHA-256, and the orders that are not determined (iteration
  of a Go map, rows of an \<^verbatim>\<open>UPDATE ... RETURNING\<close>, equal elements of a \<^verbatim>\<open>sort.Slice\<close>). The record \<open>auth_ext\<close> holds
  the JWT and JSON libraries, the record \<open>key_ext\<close> the formats of keys and the endpoint that
  serves them, and the record \<open>schema_ext\<close> the library for versions and the database server as the
  migration uses it. The records \<open>startup_ext\<close>, \<open>core_ext\<close> and \<open>gateway_ext\<close> hold the database,
  network and gRPC libraries as the processes use them, with the outside world as a state. The hypotheses about them are named:
  \<open>uuid_idem\<close> (the text form of a UUID parses to itself), \<open>s2_sound\<close> (containment of cell
  unions is containment of areas, and a union covers both parts), \<open>orders_ok\<close> (an undetermined
  order is a permutation, and a sort sorts), \<open>fresh_uuid\<close> and \<open>v_fresh_uuid\<close> (a new random UUID
  is not in use), \<open>standard_claims\<close> (what the JWT library checks of the claims),
  \<open>signs_for\<close> (a signed token verifies under its key with its claims), \<open>agrees\<close> (two records describe
  the same libraries), \<open>nano_range\<close> (the instants whose
  nanoseconds fit into 64 bits, the years 1678 to 2262), \<open>rid_encodable\<close> (the times of the rows can
  be written to a message), \<open>semver_ok\<close> (precedence of versions, sorting), \<open>scripts_ok\<close> (the files of a
  step lead from the version before it to its own and back).

  \<^bold>\<open>Bounds.\<close> No definition uses fuel: every loop of the services is over a slice, and the loop of the
  migration and that of a start are partial functions whose results tell whether they end. A search
  returns at most \<open>MaxResultLimit\<close> rows as in the code, and properties that need every row say
  so. Versions are 32-bit words. Notification indices are integers with the range check of the
  database column. Floating-point numbers are reals.

  \<^bold>\<open>Not modelled.\<close> Log output, and message texts but for those that a start searches, because no
  other part of the program reads them; retries inside the database library (one run of a transaction
  stands for the run that commits); generated code, of protobuf messages, of the gateway and of the
  example servers under \<^verbatim>\<open>interfaces\<close>, whose messages are records of the model; interfaces without
  code, such as \<^verbatim>\<open>pkg/sql\<close>; the parsing of flags. When a schedule starts a job is not modelled, the
  jobs are.
\<close>

end
